(* ===== verification/Prelude.thy ===== *)
theory Prelude
  imports Complex_Main "HOL-Library.AList" "HOL-Library.Word"
begin

text \<open>
  Shared vocabulary of the development: money and prices, clocks, the standard library's
  hash map and its laws, and the few generic lemmas the components share.

  Numbers.  The engine computes prices and quantities with the decimal type of an external
  crate.  The model reads such a value as the rational number it denotes: comparison, addition,
  subtraction, negation, minimum and maximum are the exact ones, which is what the crate documents
  for values inside its 96-bit mantissa.  An operation that rounds (division, rounding to a
  number of places) is an argument of the definition that uses it.

  Clocks.  A monotonic instant and a wall-clock time are both counted in nanoseconds.

  Hash maps.  A map of the program is an association list whose keys are distinct: the order of
  the list stands for the unspecified iteration order of the standard library's hash map, so a
  statement about every list is a statement about every iteration order.
\<close>

section \<open>Numbers and clocks\<close>

type_synonym decimal = rat
type_synonym instant = int
type_synonym utc = int

definition nanos_per_sec :: int where
  "nanos_per_sec = 1000000000"

text \<open>\<open>Duration::as_secs\<close> of \<open>now.duration_since(earlier)\<close>: whole seconds, and zero
  when the earlier instant lies in the future (the subtraction of instants saturates).\<close>

definition elapsed_secs :: "instant \<Rightarrow> instant \<Rightarrow> nat" where
  "elapsed_secs now earlier = nat ((now - earlier) div nanos_per_sec)"

definition from_secs :: "nat \<Rightarrow> int" where
  "from_secs n = int n * nanos_per_sec"

lemma nanos_per_sec_pos [simp]: "0 < nanos_per_sec"
  by (simp add: nanos_per_sec_def)

lemma int_le_div_iff:
  fixes n x k :: int
  assumes "0 < k"
  shows "n \<le> x div k \<longleftrightarrow> n * k \<le> x"
proof
  assume "n \<le> x div k"
  then have "n * k \<le> x div k * k" using assms by simp
  also have "\<dots> \<le> x" using pos_mod_sign [OF assms, of x] div_mult_mod_eq [of x k] by linarith
  finally show "n * k \<le> x" .
next
  assume "n * k \<le> x"
  then have "n * k div k \<le> x div k" using assms by (rule zdiv_mono1)
  then show "n \<le> x div k" using assms by simp
qed

lemma elapsed_secs_ge_iff:
  "0 < n \<Longrightarrow> n \<le> elapsed_secs now earlier \<longleftrightarrow> earlier + from_secs n \<le> now"
  using int_le_div_iff [OF nanos_per_sec_pos, of "int n" "now - earlier"]
  by (auto simp: elapsed_secs_def from_secs_def)

lemma elapsed_secs_mono: "now \<le> now' \<Longrightarrow> elapsed_secs now t \<le> elapsed_secs now' t"
  by (simp add: elapsed_secs_def nat_mono zdiv_mono1)

lemma from_secs_mono: "m \<le> n \<Longrightarrow> from_secs m \<le> from_secs n"
  by (simp add: from_secs_def nanos_per_sec_def)

text \<open>\<open>num_seconds\<close> of a signed duration: whole seconds, truncated towards zero.\<close>

definition num_seconds :: "int \<Rightarrow> int" where
  "num_seconds d = sgn d * (\<bar>d\<bar> div nanos_per_sec)"

lemma num_seconds_mono: "d \<le> d' \<Longrightarrow> num_seconds d \<le> num_seconds d'"
proof -
  assume le: "d \<le> d'"
  consider "0 \<le> d" | "d < 0" "0 \<le> d'" | "d' < 0" using le by linarith
  then show ?thesis
  proof cases
    case 1
    then show ?thesis using le
      by (cases "d = 0") (simp_all add: num_seconds_def zdiv_mono1 pos_imp_zdiv_nonneg_iff sgn_if)
  next
    case 2
    then have "num_seconds d \<le> 0" "0 \<le> num_seconds d'"
      by (simp_all add: num_seconds_def sgn_if pos_imp_zdiv_nonneg_iff)
    then show ?thesis by simp
  next
    case 3
    then have "- d' div nanos_per_sec \<le> - d div nanos_per_sec"
      using le by (intro zdiv_mono1) simp_all
    with 3 le show ?thesis by (simp add: num_seconds_def sgn_if)
  qed
qed

section \<open>Hash maps\<close>

type_synonym ('k, 'v) hash_map = "('k \<times> 'v) list"

abbreviation hm_get :: "('k, 'v) hash_map \<Rightarrow> 'k \<Rightarrow> 'v option" where
  "hm_get m k \<equiv> map_of m k"

abbreviation hm_insert :: "'k \<Rightarrow> 'v \<Rightarrow> ('k, 'v) hash_map \<Rightarrow> ('k, 'v) hash_map" where
  "hm_insert k v m \<equiv> AList.update k v m"

abbreviation hm_remove :: "'k \<Rightarrow> ('k, 'v) hash_map \<Rightarrow> ('k, 'v) hash_map" where
  "hm_remove k m \<equiv> AList.delete k m"

definition hm_contains :: "'k \<Rightarrow> ('k, 'v) hash_map \<Rightarrow> bool" where
  "hm_contains k m \<longleftrightarrow> map_of m k \<noteq> None"

definition hm_retain :: "('k \<Rightarrow> 'v \<Rightarrow> bool) \<Rightarrow> ('k, 'v) hash_map \<Rightarrow> ('k, 'v) hash_map" where
  "hm_retain P m = filter (\<lambda>(k, v). P k v) m"

definition hm_wf :: "('k, 'v) hash_map \<Rightarrow> bool" where
  "hm_wf m \<longleftrightarrow> distinct (map fst m)"

lemma hm_wf_Nil [simp, intro]: "hm_wf []"
  by (simp add: hm_wf_def)

lemma hm_wf_insert [simp, intro]: "hm_wf m \<Longrightarrow> hm_wf (hm_insert k v m)"
  by (simp add: hm_wf_def distinct_update)

lemma hm_wf_remove [simp, intro]: "hm_wf m \<Longrightarrow> hm_wf (hm_remove k m)"
  by (simp add: hm_wf_def distinct_delete)

lemma hm_wf_retain [simp, intro]: "hm_wf m \<Longrightarrow> hm_wf (hm_retain P m)"
  unfolding hm_wf_def hm_retain_def by (induction m) (auto simp: split_beta)

lemma hm_get_insert [simp]: "hm_get (hm_insert k v m) k' = (if k' = k then Some v else hm_get m k')"
  by (simp add: update_conv')

lemma hm_get_remove [simp]: "hm_get (hm_remove k m) k' = (if k' = k then None else hm_get m k')"
  by (simp add: delete_conv')

lemma hm_get_retain:
  assumes "hm_wf m"
  shows "hm_get (hm_retain P m) k =
    (case hm_get m k of None \<Rightarrow> None | Some v \<Rightarrow> if P k v then Some v else None)"
  using assms unfolding hm_wf_def hm_retain_def
  by (induction m) (auto simp: map_of_eq_None_iff dest: map_of_SomeD split: option.splits)

lemma hm_get_mem_iff: "hm_wf m \<Longrightarrow> (k, v) \<in> set m \<longleftrightarrow> hm_get m k = Some v"
  by (simp add: hm_wf_def)

lemma hm_contains_iff [simp]: "hm_contains k m \<longleftrightarrow> (\<exists>v. hm_get m k = Some v)"
  by (auto simp: hm_contains_def)

text \<open>The entry interface: the value at a key, or a default inserted there, updated in place.\<close>

definition hm_upsert :: "'k \<Rightarrow> 'v \<Rightarrow> ('v \<Rightarrow> 'v) \<Rightarrow> ('k, 'v) hash_map \<Rightarrow> ('k, 'v) hash_map" where
  "hm_upsert k d f m = hm_insert k (f (case hm_get m k of None \<Rightarrow> d | Some v \<Rightarrow> v)) m"

lemma hm_get_upsert [simp]: "hm_get (hm_upsert k d f m) k' =
    (if k' = k then Some (f (case hm_get m k of None \<Rightarrow> d | Some v \<Rightarrow> v)) else hm_get m k')"
  by (simp add: hm_upsert_def)

lemma hm_wf_upsert [simp, intro]: "hm_wf m \<Longrightarrow> hm_wf (hm_upsert k d f m)"
  by (simp add: hm_upsert_def)

lemma hm_length_insert: "length (hm_insert k v m) = (if hm_contains k m then length m else length m + 1)"
  by (induction m) auto

text \<open>
  The interface every keyed store of the engine is used through: lookup after insert, remove and
  retain.  The components that own a process-wide registry prove their frame and lookup facts once
  against it.
\<close>

locale keyed_store =
  fixes get :: "'m \<Rightarrow> 'k \<Rightarrow> 'v option"
    and insert_at :: "'k \<Rightarrow> 'v \<Rightarrow> 'm \<Rightarrow> 'm"
    and remove_at :: "'k \<Rightarrow> 'm \<Rightarrow> 'm"
    and retain :: "('k \<Rightarrow> 'v \<Rightarrow> bool) \<Rightarrow> 'm \<Rightarrow> 'm"
    and wf :: "'m \<Rightarrow> bool"
  assumes get_insert: "get (insert_at k v m) k' = (if k' = k then Some v else get m k')"
    and get_remove: "get (remove_at k m) k' = (if k' = k then None else get m k')"
    and get_retain: "wf m \<Longrightarrow> get (retain P m) k =
      (case get m k of None \<Rightarrow> None | Some v \<Rightarrow> if P k v then Some v else None)"
    and wf_insert: "wf m \<Longrightarrow> wf (insert_at k v m)"
    and wf_remove: "wf m \<Longrightarrow> wf (remove_at k m)"
    and wf_retain: "wf m \<Longrightarrow> wf (retain P m)"
begin

lemma remove_all_get:
  "get (fold remove_at ks m) k = (if k \<in> set ks then None else get m k)"
  by (induction ks arbitrary: m) (auto simp: get_remove)

lemma remove_all_wf: "wf m \<Longrightarrow> wf (fold remove_at ks m)"
  by (induction ks arbitrary: m) (auto intro: wf_remove)

lemma retain_frame: "wf m \<Longrightarrow> (\<And>v. get m k = Some v \<Longrightarrow> P k v) \<Longrightarrow> get (retain P m) k = get m k"
  by (simp add: get_retain split: option.split)

lemma retain_subset: "wf m \<Longrightarrow> get (retain P m) k = Some v \<Longrightarrow> get m k = Some v \<and> P k v"
  by (simp add: get_retain split: option.splits if_splits)

lemma insert_frame: "k' \<noteq> k \<Longrightarrow> get (insert_at k v m) k' = get m k'"
  by (simp add: get_insert)

end

interpretation hm: keyed_store map_of AList.update AList.delete hm_retain hm_wf
  by unfold_locales (simp_all add: hm_get_retain)

section \<open>Ordered maps\<close>

text \<open>The standard library's ordered map: an association list in strictly ascending key order, which is
  also its iteration order.\<close>

type_synonym ('k, 'v) btree_map = "('k \<times> 'v) list"

fun bt_insert :: "'k::linorder \<Rightarrow> 'v \<Rightarrow> ('k, 'v) btree_map \<Rightarrow> ('k, 'v) btree_map" where
  "bt_insert k v [] = [(k, v)]"
| "bt_insert k v ((a, b) # m) =
     (if k < a then (k, v) # (a, b) # m else if k = a then (k, v) # m else (a, b) # bt_insert k v m)"

definition bt_collect :: "('k::linorder \<times> 'v) list \<Rightarrow> ('k, 'v) btree_map" where
  "bt_collect kvs = fold (\<lambda>(k, v) m. bt_insert k v m) kvs []"

definition bt_first :: "('k, 'v) btree_map \<Rightarrow> ('k \<times> 'v) option" where
  "bt_first m = (case m of [] \<Rightarrow> None | kv # _ \<Rightarrow> Some kv)"

definition bt_last :: "('k, 'v) btree_map \<Rightarrow> ('k \<times> 'v) option" where
  "bt_last m = (if m = [] then None else Some (last m))"

definition bt_wf :: "('k::linorder, 'v) btree_map \<Rightarrow> bool" where
  "bt_wf m \<longleftrightarrow> sorted_wrt (<) (map fst m)"

lemma bt_wf_Nil [simp, intro]: "bt_wf []"
  by (simp add: bt_wf_def)

lemma bt_get_insert [simp]: "map_of (bt_insert k v m) k' = (if k' = k then Some v else map_of m k')"
  by (induction m) auto

lemma bt_insert_keys: "fst ` set (bt_insert k v m) = insert k (fst ` set m)"
  unfolding dom_map_of_conv_image_fst [symmetric] by auto

lemma bt_insert_values: "(a, b) \<in> set (bt_insert k v m) \<Longrightarrow> (a, b) = (k, v) \<or> (a, b) \<in> set m"
  by (induction m) (auto split: if_splits)

lemma bt_wf_insert [simp, intro]: "bt_wf m \<Longrightarrow> bt_wf (bt_insert k v m)"
  unfolding bt_wf_def
proof (induction m)
  case (Cons kv m)
  obtain a b where kv: "kv = (a, b)" by (cases kv)
  have "a < x" if "a < k" "x \<in> fst ` set (bt_insert k v m)" for x
    using that Cons.prems by (auto simp: bt_insert_keys kv)
  with Cons show ?case by (auto simp: kv less_imp_le dest: less_trans)
qed simp

lemma bt_wf_filter: "bt_wf m \<Longrightarrow> bt_wf (filter P m)"
  unfolding bt_wf_def by (induction m) auto

lemma bt_wf_remove [simp, intro]: "bt_wf m \<Longrightarrow> bt_wf (AList.delete k m)"
  by (simp add: AList.delete_eq bt_wf_filter)

lemma bt_wf_retain: "bt_wf m \<Longrightarrow> bt_wf (hm_retain P m)"
  by (simp add: hm_retain_def bt_wf_filter)

lemma bt_wf_collect_fold: "bt_wf m \<Longrightarrow> bt_wf (fold (\<lambda>(k, v) m. bt_insert k v m) kvs m)"
  by (induction kvs arbitrary: m) auto

lemma bt_wf_collect [simp, intro]: "bt_wf (bt_collect kvs)"
  by (simp add: bt_collect_def bt_wf_collect_fold)

lemma bt_collect_values: "(k, v) \<in> set (bt_collect kvs) \<Longrightarrow> (k, v) \<in> set kvs"
proof -
  have "(k, v) \<in> set (fold (\<lambda>(k, v) m. bt_insert k v m) kvs m) \<Longrightarrow> (k, v) \<in> set kvs \<union> set m" for m
    by (induction kvs arbitrary: m) (auto dest!: bt_insert_values)
  from this [of "[]"] show "(k, v) \<in> set (bt_collect kvs) \<Longrightarrow> (k, v) \<in> set kvs"
    by (simp add: bt_collect_def)
qed

lemma bt_wf_distinct: "bt_wf m \<Longrightarrow> distinct (map fst m)"
  by (auto simp: bt_wf_def strict_sorted_iff)

lemma bt_first_least:
  "bt_wf m \<Longrightarrow> bt_first m = Some (k, v) \<Longrightarrow> map_of m k = Some v \<and> (\<forall>k' v'. map_of m k' = Some v' \<longrightarrow> k \<le> k')"
  by (cases m) (auto simp: bt_wf_def bt_first_def less_imp_le dest!: map_of_SomeD split: if_splits)

lemma bt_last_greatest:
  assumes "bt_wf m" and "bt_last m = Some (k, v)"
  shows "map_of m k = Some v \<and> (\<forall>k' v'. map_of m k' = Some v' \<longrightarrow> k' \<le> k)"
proof -
  obtain m' where m: "m = m' @ [(k, v)]"
    using assms(2) by (cases m rule: rev_cases) (auto simp: bt_last_def split: if_splits)
  have less: "k' < k" if "(k', v') \<in> set m'" for k' v'
    using assms(1) that by (force simp: bt_wf_def m sorted_wrt_append)
  have "map_of m' k = None" using less [of k] by (auto simp: map_of_eq_None_iff)
  with less show ?thesis by (auto simp: m map_add_def less_imp_le dest!: map_of_SomeD split: option.splits if_splits)
qed

lemma bt_first_None: "bt_first m = None \<longleftrightarrow> m = []"
  by (cases m) (auto simp: bt_first_def)

lemma bt_last_None: "bt_last m = None \<longleftrightarrow> m = []"
  by (auto simp: bt_last_def)

text \<open>The ordered store adds the two ends to the keyed store.\<close>

locale ordered_store = keyed_store get insert_at remove_at retain wf
  for get :: "'m \<Rightarrow> 'k::linorder \<Rightarrow> 'v option" and insert_at remove_at retain wf +
  fixes least :: "'m \<Rightarrow> ('k \<times> 'v) option" and greatest :: "'m \<Rightarrow> ('k \<times> 'v) option"
  assumes least_Some: "wf m \<Longrightarrow> least m = Some (k, v) \<Longrightarrow>
      get m k = Some v \<and> (\<forall>k' v'. get m k' = Some v' \<longrightarrow> k \<le> k')"
    and greatest_Some: "wf m \<Longrightarrow> greatest m = Some (k, v) \<Longrightarrow>
      get m k = Some v \<and> (\<forall>k' v'. get m k' = Some v' \<longrightarrow> k' \<le> k)"
    and least_None: "wf m \<Longrightarrow> least m = None \<longleftrightarrow> (\<forall>k. get m k = None)"
    and greatest_None: "wf m \<Longrightarrow> greatest m = None \<longleftrightarrow> (\<forall>k. get m k = None)"
begin

lemma ends_ordered:
  "wf m \<Longrightarrow> least m = Some (a, u) \<Longrightarrow> greatest m = Some (b, v) \<Longrightarrow> a \<le> b"
  using least_Some greatest_Some by blast

text \<open>The ends only depend on what is stored: two stores with the same contents agree on them.\<close>

lemma ends_extensional:
  assumes "wf m" and "wf m'" and same: "\<And>k. get m k = get m' k"
  shows "least m = least m' \<and> greatest m = greatest m'"
proof
  show "least m = least m'"
  proof (cases "least m")
    case None
    with assms show ?thesis by (metis least_None)
  next
    case (Some kv)
    obtain k v where kv: "least m = Some (k, v)" using Some by (cases kv) auto
    then obtain k' v' where kv': "least m' = Some (k', v')"
      using assms by (metis least_None least_Some option.distinct(1) option.exhaust prod.exhaust)
    have "k = k'"
      using least_Some [OF assms(1) kv] least_Some [OF assms(2) kv'] same by (metis order_antisym)
    with least_Some [OF assms(1) kv] least_Some [OF assms(2) kv'] same kv kv' show ?thesis by simp
  qed
  show "greatest m = greatest m'"
  proof (cases "greatest m")
    case None
    with assms show ?thesis by (metis greatest_None)
  next
    case (Some kv)
    obtain k v where kv: "greatest m = Some (k, v)" using Some by (cases kv) auto
    then obtain k' v' where kv': "greatest m' = Some (k', v')"
      using assms by (metis greatest_None greatest_Some option.distinct(1) option.exhaust prod.exhaust)
    have "k = k'"
      using greatest_Some [OF assms(1) kv] greatest_Some [OF assms(2) kv'] same by (metis order_antisym)
    with greatest_Some [OF assms(1) kv] greatest_Some [OF assms(2) kv'] same kv kv' show ?thesis by simp
  qed
qed

end

lemma bt_get_retain:
  "bt_wf m \<Longrightarrow> map_of (hm_retain P m) k =
    (case map_of m k of None \<Rightarrow> None | Some v \<Rightarrow> if P k v then Some v else None)"
  by (rule hm_get_retain) (simp add: hm_wf_def bt_wf_distinct)

lemma map_of_all_None: "(\<forall>k. map_of m k = None) \<longleftrightarrow> m = []"
proof
  assume none: "\<forall>k. map_of m k = None"
  show "m = []"
  proof (cases m)
    case (Cons a m')
    then have "map_of m (fst a) = Some (snd a)" by (cases a) simp
    with none show ?thesis by simp
  qed simp
qed simp

interpretation bt: ordered_store map_of bt_insert AList.delete hm_retain bt_wf bt_first bt_last
  by unfold_locales
    (simp_all add: delete_conv' bt_get_retain bt_wf_retain bt_first_least bt_last_greatest
      bt_first_None bt_last_None map_of_all_None)

end
