(* ===== verification/Venue_Core.thy ===== *)
theory Venue_Core
  imports Prelude
begin

text \<open>
  The venue-neutral execution contract, \<open>src/venues/core.rs\<close>: the order primitives, the
  \<open>Execution\<close> trait as a record of operations over an outside world, the book of one leg and its
  mirror image, the booking split of a partly filled exit, and the session baseline.
\<close>

section \<open>Identifiers and order primitives\<close>

type_synonym market_id = string
type_synonym order_id = string

datatype side = Buy | Sell

datatype time_in_force = Gtc | Gtd | Fak | Fok

record order_intent =
  oi_market :: market_id
  oi_side :: side
  oi_quantity :: decimal
  oi_price :: decimal
  oi_tif :: time_in_force
  oi_post_only :: bool
  oi_expiration_secs :: nat
  oi_is_neg_risk :: bool
  oi_fee_bps :: nat

record fill =
  f_order_id :: order_id
  f_market :: market_id
  f_filled :: decimal
  f_price :: decimal
  f_fee :: decimal

record venue_position =
  vp_market :: market_id
  vp_shares :: decimal
  vp_avg_price :: decimal

datatype token_resolution = Resolved decimal | NotClosed | Unknown

record order_state =
  os_filled :: "decimal option"
  os_resting :: "bool option"

record open_order =
  oo_order_id :: order_id
  oo_market :: market_id
  oo_side :: side
  oo_price :: decimal
  oo_original_qty :: decimal
  oo_filled_qty :: decimal
  oo_tif :: time_in_force
  oo_pair_market :: "market_id option"

definition remaining_qty :: "open_order \<Rightarrow> decimal" where
  "remaining_qty ord = max (oo_original_qty ord - oo_filled_qty ord) 0"

definition resting_tif :: "time_in_force \<Rightarrow> bool" where
  "resting_tif t = (case t of Gtc \<Rightarrow> True | Gtd \<Rightarrow> True | Fak \<Rightarrow> False | Fok \<Rightarrow> False)"

definition oo_is_resting :: "open_order \<Rightarrow> bool" where
  "oo_is_resting ord = resting_tif (oo_tif ord)"

record fill_event =
  fe_order_id :: order_id
  fe_market :: market_id
  fe_side :: side
  fe_filled :: decimal
  fe_price :: decimal
  fe_complete :: bool

text \<open>
  The trait a venue implements, as the record of the calls the order lifecycle makes.  A call
  reads and may change the outside world \<open>'w\<close> (the venue, the network and the clocks) and returns
  an error message or a value.  Both clocks are readings of that world, so time passes exactly
  across the calls.
\<close>

type_synonym ('w, 'a) venue_call = "'w \<Rightarrow> (string + 'a) \<times> 'w"

record 'w execution =
  ex_place_order :: "order_intent \<Rightarrow> ('w, fill) venue_call"
  ex_cancel :: "order_id \<Rightarrow> ('w, unit) venue_call"
  ex_collateral :: "('w, decimal) venue_call"
  ex_positions :: "('w, venue_position list) venue_call"
  ex_open_orders :: "('w, open_order list) venue_call"
  ex_order_state :: "order_id \<Rightarrow> ('w, order_state option) venue_call"
  ex_best_ask :: "market_id \<Rightarrow> ('w, decimal option) venue_call"
  ex_instant_now :: "'w \<Rightarrow> instant"
  ex_utc_now :: "'w \<Rightarrow> utc"

lemma remaining_qty_nonneg [simp]: "0 \<le> remaining_qty ord"
  by (simp add: remaining_qty_def)

section \<open>The book of one leg\<close>

record book_level =
  bl_price :: decimal
  bl_size :: decimal

record leg_book =
  lb_bids :: "book_level list"
  lb_asks :: "book_level list"

definition clean_levels :: "(decimal \<times> decimal) list \<Rightarrow> book_level list" where
  "clean_levels v =
     map (\<lambda>(p, q). \<lparr>bl_price = p, bl_size = q\<rparr>)
       (filter (\<lambda>(p, q). 0 < p \<and> p < 1 \<and> 0 < q) v)"

definition from_levels :: "(decimal \<times> decimal) list \<Rightarrow> (decimal \<times> decimal) list \<Rightarrow> leg_book" where
  "from_levels bids asks =
     \<lparr>lb_bids = sort_key (\<lambda>l. - bl_price l) (clean_levels bids),
      lb_asks = sort_key bl_price (clean_levels asks)\<rparr>"

definition flip_levels :: "book_level list \<Rightarrow> (decimal \<times> decimal) list" where
  "flip_levels v = map (\<lambda>l. (1 - bl_price l, bl_size l)) v"

definition mirrored :: "leg_book \<Rightarrow> leg_book" where
  "mirrored b = from_levels (flip_levels (lb_asks b)) (flip_levels (lb_bids b))"

definition level_ok :: "book_level \<Rightarrow> bool" where
  "level_ok l \<longleftrightarrow> 0 < bl_price l \<and> bl_price l < 1 \<and> 0 < bl_size l"

definition leg_book_wf :: "leg_book \<Rightarrow> bool" where
  "leg_book_wf b \<longleftrightarrow>
     sorted (map (\<lambda>l. - bl_price l) (lb_bids b)) \<and> sorted (map bl_price (lb_asks b)) \<and>
     list_all level_ok (lb_bids b) \<and> list_all level_ok (lb_asks b)"

lemma book_level_surj [simp]: "\<lparr>bl_price = bl_price x, bl_size = bl_size x\<rparr> = x"
  by simp

lemma list_all_level_ok_clean: "list_all level_ok (clean_levels v)"
  by (auto simp: list_all_iff clean_levels_def level_ok_def)

lemma list_all_sort_key [simp]: "list_all P (sort_key f xs) = list_all P xs"
  by (simp add: list_all_iff)

lemma clean_levels_flip:
  "list_all level_ok v \<Longrightarrow>
   clean_levels (flip_levels v) = map (\<lambda>l. \<lparr>bl_price = 1 - bl_price l, bl_size = bl_size l\<rparr>) v"
  by (induction v) (auto simp: clean_levels_def flip_levels_def level_ok_def)

lemma sort_key_sorted: "sorted (map f xs) \<Longrightarrow> sort_key f xs = xs"
  by (induction xs) (auto simp: insort_is_Cons)

lemma mirrored_eq:
  assumes "leg_book_wf b"
  shows "mirrored b =
    \<lparr>lb_bids = map (\<lambda>l. \<lparr>bl_price = 1 - bl_price l, bl_size = bl_size l\<rparr>) (lb_asks b),
     lb_asks = map (\<lambda>l. \<lparr>bl_price = 1 - bl_price l, bl_size = bl_size l\<rparr>) (lb_bids b)\<rparr>"
proof -
  let ?m = "map (\<lambda>l. \<lparr>bl_price = 1 - bl_price l, bl_size = bl_size l\<rparr>)"
  have "sorted (map (\<lambda>l. - bl_price l) (?m (lb_asks b)))"
    using assms by (simp add: leg_book_wf_def sorted_map comp_def sorted_wrt_map)
  moreover have "sorted (map bl_price (?m (lb_bids b)))"
    using assms by (simp add: leg_book_wf_def sorted_map comp_def sorted_wrt_map)
  ultimately show ?thesis
    using assms by (simp add: mirrored_def from_levels_def clean_levels_flip leg_book_wf_def sort_key_sorted)
qed

text \<open>Whatever levels a venue sends and in whatever order, the book built from them has its
  bids best (highest) first and its asks best (lowest) first, and holds only levels with a price
  strictly between zero and one and a positive size.\<close>

theorem from_levels_wf: "leg_book_wf (from_levels bids asks)"
  by (simp add: leg_book_wf_def from_levels_def list_all_level_ok_clean)

text \<open>Viewing a leg's book through the complementary leg twice gives the book back, and the
  mirror of a well-formed book is well formed.\<close>

theorem mirrored_mirrored:
  assumes "leg_book_wf b"
  shows "mirrored (mirrored b) = b \<and> leg_book_wf (mirrored b)"
proof -
  have wf: "leg_book_wf (mirrored b)"
    unfolding mirrored_def by (simp add: leg_book_wf_def from_levels_def list_all_level_ok_clean)
  then show ?thesis
    using assms by (simp add: mirrored_eq comp_def)
qed

definition sample_book :: leg_book where
  "sample_book = from_levels [(11/20, 5), (1/2, 10)] [(57/100, 2)]"

lemma mirrored_mirrored_witness:
  "mirrored (mirrored sample_book) = sample_book \<and> leg_book_wf (mirrored sample_book)"
  by (rule mirrored_mirrored)
    (simp add: sample_book_def leg_book_wf_def from_levels_def list_all_level_ok_clean)

section \<open>How a partly filled exit is booked\<close>

record exit_split =
  es_sold :: decimal
  es_fee_sold :: decimal
  es_remaining :: decimal

text \<open>The rounded proration \<open>(entry_fee * sold / shares).round_dp(6)\<close> is the argument \<open>prorate\<close>
  (numerator, denominator); dust is half a cent of a contract, \<open>Decimal::new(5, 3)\<close>.\<close>

definition dust :: decimal where
  "dust = 5 / 1000"

definition split_partial_exit ::
  "(decimal \<Rightarrow> decimal \<Rightarrow> decimal) \<Rightarrow> (decimal \<times> decimal) option \<Rightarrow> decimal \<Rightarrow> exit_split" where
  "split_partial_exit prorate held filled0 =
     (let filled = max filled0 0 in
      case held of
        None \<Rightarrow> \<lparr>es_sold = filled, es_fee_sold = 0, es_remaining = 0\<rparr>
      | Some (shares0, entry_fee) \<Rightarrow>
          let shares = max shares0 0;
              sold = min filled shares;
              remaining0 = shares - sold;
              remaining = (if remaining0 < dust then 0 else remaining0);
              fee_sold = (if 0 < shares \<and> 0 < remaining then prorate (entry_fee * sold) shares
                          else entry_fee)
          in \<lparr>es_sold = sold, es_fee_sold = fee_sold, es_remaining = remaining\<rparr>)"

text \<open>Booking a sell never books more than was held or a negative amount; what it leaves is
  exactly the rest, except that less than half a cent of a contract is treated as gone; the leftover
  is never negative; and with nothing left the whole entry fee is booked.\<close>

theorem split_partial_exit_accounts:
  fixes shares fee filled :: decimal and prorate :: "decimal \<Rightarrow> decimal \<Rightarrow> decimal"
  assumes "0 \<le> shares"
  defines "s \<equiv> split_partial_exit prorate (Some (shares, fee)) filled"
  shows "0 \<le> es_sold s \<and> es_sold s \<le> shares
    \<and> (es_remaining s = shares - es_sold s \<or> es_remaining s = 0 \<and> shares - es_sold s < dust)
    \<and> 0 \<le> es_remaining s \<and> (es_remaining s = 0 \<longrightarrow> es_fee_sold s = fee)"
  using assms by (auto simp: split_partial_exit_def Let_def)

lemma split_partial_exit_accounts_witness:
  "es_remaining (split_partial_exit (\<lambda>a b. a / b) (Some (10, 1 / 5)) 4) = 6"
  using split_partial_exit_accounts [of 10 "\<lambda>a b. a / b" "1 / 5" 4]
  by (auto simp: split_partial_exit_def dust_def Let_def)

section \<open>The session baseline\<close>

definition collateral_after_failed_read :: "decimal option \<Rightarrow> decimal \<Rightarrow> decimal" where
  "collateral_after_failed_read prev starting = (case prev of None \<Rightarrow> starting | Some c \<Rightarrow> c)"

definition positions_at_cost :: "venue_position list \<Rightarrow> decimal" where
  "positions_at_cost held = sum_list (map (\<lambda>p. vp_shares p * vp_avg_price p) held)"

text \<open>\<open>get_or_init\<close> of the process-wide cell: the value settled there and the cell afterwards.\<close>

definition session_baseline :: "decimal option \<Rightarrow> decimal \<Rightarrow> decimal \<times> decimal option" where
  "session_baseline cell fresh =
     (case cell of Some settled \<Rightarrow> (settled, cell) | None \<Rightarrow> (fresh, Some fresh))"

text \<open>
  \<open>starting_collateral\<close>.  The world of its venue calls is the process-wide cell together with
  everything else, because another squadron may settle the cell while this one awaits the venue.
  Whether the caller is cancelled is a reading of that world, and \<open>wait\<close> is the race of a
  cancellation against a sleep of \<open>retry_secs\<close> (True: cancelled).  Each retry takes one unit of
  fuel; \<open>None\<close> is "not yet returned".
\<close>

fun starting_collateral_loop ::
  "nat \<Rightarrow> (decimal option \<times> 'v) execution \<Rightarrow> (decimal option \<times> 'v \<Rightarrow> bool) \<Rightarrow>
   (nat \<Rightarrow> decimal option \<times> 'v \<Rightarrow> bool \<times> (decimal option \<times> 'v)) \<Rightarrow> nat \<Rightarrow> decimal option \<times> 'v \<Rightarrow>
   (decimal option \<times> (decimal option \<times> 'v)) option" where
  "starting_collateral_loop 0 venue cancelled wait retry_secs w = None"
| "starting_collateral_loop (Suc n) venue cancelled wait retry_secs w =
     (if cancelled w then Some (None, w)
      else
        let retry = (\<lambda>w'. case wait retry_secs w' of
                (True, w'') \<Rightarrow> Some (None, w'')
              | (False, w'') \<Rightarrow> starting_collateral_loop n venue cancelled wait retry_secs w'')
        in case ex_collateral venue w of
             (Inl _, w1) \<Rightarrow> retry w1
           | (Inr cash, w1) \<Rightarrow>
               (case ex_positions venue w1 of
                  (Inl _, w2) \<Rightarrow> retry w2
                | (Inr held, (cell, v)) \<Rightarrow>
                    let (settled, cell') = session_baseline cell (cash + positions_at_cost held)
                    in Some (Some settled, (cell', v))))"

definition starting_collateral ::
  "nat \<Rightarrow> (decimal option \<times> 'v) execution \<Rightarrow> (decimal option \<times> 'v \<Rightarrow> bool) \<Rightarrow>
   (nat \<Rightarrow> decimal option \<times> 'v \<Rightarrow> bool \<times> (decimal option \<times> 'v)) \<Rightarrow> nat \<Rightarrow> decimal option \<times> 'v \<Rightarrow>
   (decimal option \<times> (decimal option \<times> 'v)) option" where
  "starting_collateral fuel venue cancelled wait retry_secs w =
     (case fst w of
        Some c \<Rightarrow> Some (Some c, w)
      | None \<Rightarrow> starting_collateral_loop fuel venue cancelled wait retry_secs w)"

lemma session_baseline_settles: "snd (session_baseline cell fresh) = Some (fst (session_baseline cell fresh))"
  by (simp add: session_baseline_def split: option.split)

lemma starting_collateral_loop_settles:
  "starting_collateral_loop n venue cancelled wait r w = Some (Some b, w') \<Longrightarrow> fst w' = Some b"
proof (induction n arbitrary: w)
  case 0
  then show ?case by simp
next
  case (Suc n)
  have IH: "\<And>w. starting_collateral_loop n venue cancelled wait r w = Some (Some b, w') \<Longrightarrow> fst w' = Some b"
    by (rule Suc.IH)
  show ?case
    using Suc.prems
    by (auto simp: Let_def session_baseline_def split: if_splits prod.splits sum.splits bool.splits option.splits
        dest: IH)
qed

text \<open>The session has one baseline: a squadron that gets a starting collateral leaves exactly
  that figure in the process-wide cell, whatever the venue calls and other squadrons did meanwhile,
  and every squadron that asks from such a world afterwards is given the same figure at once, without
  a venue call.\<close>

theorem starting_collateral_agrees:
  assumes "starting_collateral fuel venue cancelled wait r w = Some (Some b, w1)"
    and "fst w2 = fst w1"
  shows "fst w1 = Some b \<and> starting_collateral fuel' venue' cancelled' wait' r' w2 = Some (Some b, w2)"
proof -
  have "fst w1 = Some b"
    using assms(1)
    by (auto simp: starting_collateral_def split: option.splits dest: starting_collateral_loop_settles)
  then show ?thesis
    using assms(2) by (simp add: starting_collateral_def)
qed

text \<open>A venue that is unreachable at the first reading and answers at the second: one position
  held at cost, twelve dollars of cash.  The rest of the world counts the calls.\<close>

definition flaky_venue :: "(decimal option \<times> nat) execution" where
  "flaky_venue =
     \<lparr>ex_place_order = (\<lambda>_ w. (Inl [], w)), ex_cancel = (\<lambda>_ w. (Inl [], w)),
      ex_collateral = (\<lambda>(c, n). (if n = 0 then Inl [] else Inr 12, (c, Suc n))),
      ex_positions = (\<lambda>(c, n). (Inr [\<lparr>vp_market = ''m'', vp_shares = 5, vp_avg_price = 1 / 5\<rparr>], (c, Suc n))),
      ex_open_orders = (\<lambda>w. (Inr [], w)), ex_order_state = (\<lambda>_ w. (Inr None, w)),
      ex_best_ask = (\<lambda>_ w. (Inr None, w)), ex_instant_now = (\<lambda>_. 0), ex_utc_now = (\<lambda>_. 0)\<rparr>"

lemma starting_collateral_agrees_witness:
  "starting_collateral 2 flaky_venue (\<lambda>_. False) (\<lambda>_ w. (False, w)) 30 (None, 0) = Some (Some 13, (Some 13, 3))
   \<and> starting_collateral 0 flaky_venue (\<lambda>_. True) (\<lambda>_ w. (True, w)) 30 (Some 13, 7) = Some (Some 13, (Some 13, 7))"
proof -
  have first: "starting_collateral 2 flaky_venue (\<lambda>_. False) (\<lambda>_ w. (False, w)) 30 (None, 0)
      = Some (Some 13, (Some 13, 3))"
    by (simp add: starting_collateral_def flaky_venue_def numeral_2_eq_2 Let_def session_baseline_def
        positions_at_cost_def)
  with starting_collateral_agrees [OF first, of "(Some 13, 7)"] show ?thesis by simp
qed

text \<open>The world in which the next attempt starts, when this one fails and the wait is not cancelled.\<close>

definition retry_world ::
  "(decimal option \<times> 'v) execution \<Rightarrow> (nat \<Rightarrow> decimal option \<times> 'v \<Rightarrow> bool \<times> (decimal option \<times> 'v)) \<Rightarrow>
   nat \<Rightarrow> decimal option \<times> 'v \<Rightarrow> (decimal option \<times> 'v) option" where
  "retry_world venue wait retry_secs w =
     (let retry = (\<lambda>w'. case wait retry_secs w' of (True, _) \<Rightarrow> None | (False, w'') \<Rightarrow> Some w'')
      in case ex_collateral venue w of
          (Inl _, w1) \<Rightarrow> retry w1
        | (Inr _, w1) \<Rightarrow> (case ex_positions venue w1 of (Inl _, w2) \<Rightarrow> retry w2 | (Inr _, _) \<Rightarrow> None))"

lemma starting_collateral_loop_step:
  "starting_collateral_loop (Suc n) venue cancelled wait r w =
     (if cancelled w then Some (None, w)
      else case retry_world venue wait r w of
          Some w' \<Rightarrow> starting_collateral_loop n venue cancelled wait r w'
        | None \<Rightarrow> starting_collateral_loop (Suc 0) venue cancelled wait r w)"
  by (auto simp: retry_world_def Let_def split: prod.splits sum.splits bool.splits)

lemma starting_collateral_once:
  "\<not> cancelled w \<Longrightarrow> retry_world venue wait r w = None \<Longrightarrow>
     \<exists>res. starting_collateral_loop (Suc 0) venue cancelled wait r w = Some res"
  by (auto simp: retry_world_def Let_def split: prod.splits sum.splits bool.splits)

lemma starting_collateral_loop_returns:
  assumes "\<And>w w'. \<not> cancelled w \<Longrightarrow> retry_world venue wait r w = Some w' \<Longrightarrow> (left w' :: nat) < left w"
  shows "\<exists>res. \<forall>fuel > left w. starting_collateral_loop fuel venue cancelled wait r w = Some res"
proof (induction "left w" arbitrary: w rule: less_induct)
  case less
  have suc: "\<exists>n. fuel = Suc n \<and> left w \<le> n" if "left w < fuel" for fuel
    using that by (cases fuel) auto
  show ?case
  proof (cases "cancelled w")
    case True
    have "starting_collateral_loop fuel venue cancelled wait r w = Some (None, w)" if lt: "left w < fuel" for fuel
    proof -
      obtain n where "fuel = Suc n" using suc [OF lt] by blast
      then show ?thesis using True by simp
    qed
    then show ?thesis by blast
  next
    case go: False
    show ?thesis
    proof (cases "retry_world venue wait r w")
      case None
      obtain res where res: "starting_collateral_loop (Suc 0) venue cancelled wait r w = Some res"
        using starting_collateral_once [of cancelled w, OF go None] by blast
      have "starting_collateral_loop fuel venue cancelled wait r w = Some res" if lt: "left w < fuel" for fuel
      proof -
        obtain n where n: "fuel = Suc n" using suc [OF lt] by blast
        show ?thesis
          unfolding n by (subst starting_collateral_loop_step) (simp only: go None res if_False option.case)
      qed
      then show ?thesis by blast
    next
      case (Some w')
      have dec: "left w' < left w" by (rule assms [OF go Some])
      from less [OF dec] obtain res
        where res: "\<forall>fuel > left w'. starting_collateral_loop fuel venue cancelled wait r w' = Some res" by blast
      have "starting_collateral_loop fuel venue cancelled wait r w = Some res" if lt: "left w < fuel" for fuel
      proof -
        obtain n where n: "fuel = Suc n" "left w \<le> n" using suc [OF lt] by blast
        have "left w' < n" using dec n(2) by linarith
        then have "starting_collateral_loop n venue cancelled wait r w' = Some res" using res by blast
        then show ?thesis
          unfolding n(1) by (subst starting_collateral_loop_step) (simp only: go Some if_False option.case)
      qed
      then show ?thesis by blast
    qed
  qed
qed

text \<open>C38: The wait for a starting collateral ends whenever the venue answers at last or the squadron is cancelled: if
  some count of remaining failures falls with every attempt that fails without a cancellation, then one unit of
  fuel more than the count gives a result, and any more fuel gives the same one.\<close>

theorem starting_collateral_returns:
  assumes "\<And>w w'. \<not> cancelled w \<Longrightarrow> retry_world venue wait r w = Some w' \<Longrightarrow> (left w' :: nat) < left w"
  shows "\<exists>res. \<forall>fuel > left w. starting_collateral fuel venue cancelled wait r w = Some res"
  using starting_collateral_loop_returns [OF assms, where w = w]
  by (cases "fst w") (auto simp: starting_collateral_def)

lemma starting_collateral_returns_witness:
  "\<exists>res. \<forall>fuel > 1. starting_collateral fuel flaky_venue (\<lambda>w. 5 < snd w) (\<lambda>_ (c, n). (False, (c, Suc n))) 30 (None, 0)
     = Some res"
proof -
  have "\<exists>res. \<forall>fuel > (if snd (None :: decimal option, 0 :: nat) = 0 then 1 else 0 :: nat).
      starting_collateral fuel flaky_venue (\<lambda>w. 5 < snd w) (\<lambda>_ (c, n). (False, (c, Suc n))) 30 (None, 0) = Some res"
    by (rule starting_collateral_returns [where left = "\<lambda>w. if snd w = 0 then 1 else 0 :: nat"])
      (auto simp: retry_world_def flaky_venue_def Let_def split: if_splits)
  then show ?thesis by simp
qed

end
