(* ===== verification/Probe_Gate.thy ===== *)
theory Probe_Gate
  imports Prelude
begin

unbundle bit_operations_syntax

text \<open>
  The settlement probe gate of \<open>src/venues/core.rs\<close>: a per-token rate limiter for settlement
  lookups the venue cannot answer.  The process-wide mutex makes each operation atomic, so the gate
  is a map from tokens to probe states and an operation takes the clock reading of its call.
\<close>

section \<open>State and operations\<close>

type_synonym token = string

record probe_state =
  next_probe :: instant
  misses :: "32 word"
  last_touch :: instant

type_synonym gate = "(token, probe_state) hash_map"

definition probe_base_delay_secs :: "64 word" where
  "probe_base_delay_secs = 30"

definition probe_max_delay_secs :: "64 word" where
  "probe_max_delay_secs = 600"

definition settlement_defer_max_secs :: nat where
  "settlement_defer_max_secs = 24 * 3600"

text \<open>The standard library's \<open>u32::saturating_add\<close> and \<open>u64::checked_shl\<close>: the latter checks the
  shift amount only, and drops the bits shifted out.\<close>

definition saturating_add_u32 :: "32 word \<Rightarrow> 32 word \<Rightarrow> 32 word" where
  "saturating_add_u32 a b = (if unat a + unat b < 2 ^ 32 then a + b else - 1)"

definition checked_shl_u64 :: "64 word \<Rightarrow> nat \<Rightarrow> 64 word option" where
  "checked_shl_u64 x n = (if n < 64 then Some (push_bit n x) else None)"

definition probe_delay :: "32 word \<Rightarrow> 64 word" where
  "probe_delay m =
     min (case checked_shl_u64 probe_base_delay_secs (unat (m - 1)) of None \<Rightarrow> - 1 | Some d \<Rightarrow> d)
       probe_max_delay_secs"

definition should_probe_at :: "gate \<Rightarrow> token \<Rightarrow> instant \<Rightarrow> bool \<times> gate" where
  "should_probe_at g token now =
     (case hm_get g token of
        Some st \<Rightarrow> if now < next_probe st then (False, hm_insert token (st\<lparr>last_touch := now\<rparr>) g)
                   else (True, g)
      | None \<Rightarrow> (True, g))"

definition gate_prune :: "gate \<Rightarrow> instant \<Rightarrow> gate" where
  "gate_prune g now =
     hm_retain (\<lambda>_ st. max 0 (now - last_touch st) < from_secs settlement_defer_max_secs) g"

definition record_unknown_at :: "gate \<Rightarrow> token \<Rightarrow> instant \<Rightarrow> gate" where
  "record_unknown_at g0 token now =
     (let g = gate_prune g0 now;
          st = (case hm_get g token of
                  Some st \<Rightarrow> st
                | None \<Rightarrow> \<lparr>next_probe = now, misses = 0, last_touch = now\<rparr>);
          m = saturating_add_u32 (misses st) 1
      in hm_insert token
           \<lparr>next_probe = now + from_secs (unat (probe_delay m)), misses = m, last_touch = now\<rparr> g)"

definition record_decisive :: "gate \<Rightarrow> token \<Rightarrow> gate" where
  "record_decisive g token = hm_remove token g"

section \<open>The delay schedule\<close>

lemma probe_delay_le_cap: "unat (probe_delay m) \<le> 600"
proof -
  have "probe_delay m \<le> 600"
    by (simp add: probe_delay_def probe_max_delay_secs_def)
  then show ?thesis by (simp add: word_le_nat_alt)
qed

lemma shifted_base_ge:
  assumes "n < 63"
  shows "(30 :: 64 word) \<le> push_bit n 30"
proof -
  have mem: "n \<in> set [0..<63]" using assms by (simp only: set_upt atLeastLessThan_iff le0 simp_thms)
  have "list_all (\<lambda>k. (30 :: 64 word) \<le> push_bit k 30) [0..<63]"
    by code_simp
  with mem show ?thesis unfolding list_all_iff by blast
qed

lemma shifted_base_ge_cap:
  assumes "5 \<le> n" and "n < 63"
  shows "(600 :: 64 word) \<le> push_bit n 30"
proof -
  have mem: "n \<in> set [5..<63]" using assms by (simp only: set_upt atLeastLessThan_iff simp_thms)
  have "list_all (\<lambda>k. (600 :: 64 word) \<le> push_bit k 30) [5..<63]"
    by code_simp
  with mem show ?thesis unfolding list_all_iff by blast
qed

lemma probe_delay_ge_base:
  assumes "m \<noteq> 64"
  shows "30 \<le> unat (probe_delay m)"
proof -
  have "unat (m - 1) \<noteq> 63"
  proof
    assume "unat (m - 1) = 63"
    then have "m - 1 = (63 :: 32 word)" by (simp add: word_unat_eq_iff)
    then have "m = 63 + 1" by (metis diff_add_cancel)
    with assms show False by simp
  qed
  then have "(30 :: 64 word) \<le> probe_delay m"
    using shifted_base_ge [of "unat (m - 1)"]
    by (auto simp: probe_delay_def checked_shl_u64_def probe_base_delay_secs_def probe_max_delay_secs_def)
  then show ?thesis by (simp add: word_le_nat_alt)
qed

lemma unat_pred: "0 < unat m \<Longrightarrow> unat (m - 1) = unat m - 1" for m :: "32 word"
  by (rule unat_minus_one) auto

lemma shifted_base_small:
  assumes "n < 5"
  shows "unat (push_bit n (30 :: 64 word)) = 30 * 2 ^ n"
proof -
  have mem: "n \<in> set [0..<5]" using assms by (simp only: set_upt atLeastLessThan_iff le0 simp_thms)
  have "list_all (\<lambda>k. unat (push_bit k (30 :: 64 word)) = 30 * 2 ^ k) [0..<5]" by code_simp
  with mem show ?thesis unfolding list_all_iff by blast
qed

lemma probe_delay_doubles:
  assumes "0 < unat m" and "unat m \<noteq> 64"
  shows "unat (probe_delay m) = min 600 (30 * 2 ^ (unat m - 1))"
proof -
  let ?n = "unat m - 1"
  have n: "unat (m - 1) = ?n" using assms(1) by (rule unat_pred)
  have big: "(600 :: nat) \<le> 30 * 2 ^ k" if "5 \<le> k" for k
    using power_increasing [OF that, of "2 :: nat"] by simp
  consider (small) "?n < 5" | (mid) "5 \<le> ?n" "?n < 63" | (huge) "64 \<le> ?n" using assms by linarith
  then show ?thesis
  proof cases
    case small
    then have "unat (min (push_bit ?n (30 :: 64 word)) 600) = min (30 * 2 ^ ?n) 600"
      using shifted_base_small [OF small] by (simp add: min_def word_le_nat_alt)
    with small show ?thesis
      by (simp add: probe_delay_def checked_shl_u64_def n probe_base_delay_secs_def
          probe_max_delay_secs_def min.commute)
  next
    case mid
    then have "min (push_bit ?n (30 :: 64 word)) 600 = 600"
      using shifted_base_ge_cap [OF mid] by (simp add: min_def)
    with mid big [OF mid(1)] show ?thesis
      by (simp add: probe_delay_def checked_shl_u64_def n probe_base_delay_secs_def
          probe_max_delay_secs_def)
  next
    case huge
    have "(600 :: 64 word) \<le> - 1" "unat (min (- 1) (600 :: 64 word)) = 600" by code_simp+
    with huge show ?thesis using big [of ?n]
      by (simp add: probe_delay_def checked_shl_u64_def n probe_max_delay_secs_def)
  qed
qed

lemma probe_delay_dropped: "probe_delay 64 = 0"
  by code_simp

text \<open>The delay after the n-th consecutive unanswered lookup is thirty seconds doubled n-1 times and
  capped at ten minutes, for every count but one: at exactly sixty-four the shift by 63 drops every set
  bit of the base delay, so the delay is zero and the token is probed again at once.\<close>

theorem probe_delay_schedule:
  assumes "0 < unat m"
  shows "unat (probe_delay m) = (if m = 64 then 0 else min 600 (30 * 2 ^ (unat m - 1)))"
proof (cases "m = 64")
  case False
  then have "unat m \<noteq> 64" using word_unat_eq_iff [of m 64] by simp
  then show ?thesis using False probe_delay_doubles [OF assms] by simp
qed (simp add: probe_delay_dropped)

lemma probe_delay_schedule_witness: "unat (probe_delay 4) = 240 \<and> unat (probe_delay 64) = 0"
  using probe_delay_schedule [of 4] probe_delay_schedule [of 64] by simp

section \<open>Runs of the gate\<close>

datatype gate_op = Probe token | Miss token | Decisive token

fun gate_step :: "gate \<Rightarrow> instant \<times> gate_op \<Rightarrow> gate" where
  "gate_step g (now, Probe t) = snd (should_probe_at g t now)"
| "gate_step g (now, Miss t) = record_unknown_at g t now"
| "gate_step g (now, Decisive t) = record_decisive g t"

definition gate_run :: "gate \<Rightarrow> (instant \<times> gate_op) list \<Rightarrow> gate" where
  "gate_run g ops = foldl gate_step g ops"

definition gate_inv :: "instant \<Rightarrow> gate \<Rightarrow> bool" where
  "gate_inv T g \<longleftrightarrow> hm_wf g \<and>
     (\<forall>t st. hm_get g t = Some st \<longrightarrow> next_probe st \<le> T + from_secs 600 \<and> 0 < unat (misses st))"

lemma saturating_add_pos: "0 < unat (saturating_add_u32 m 1)"
proof (cases "unat m + unat (1 :: 32 word) < 2 ^ 32")
  case True
  then have "unat (m + 1) = unat m + unat (1 :: 32 word)"
    using unat_add_lem [of m "1 :: 32 word"] by simp
  with True show ?thesis by (simp only: saturating_add_u32_def if_True) simp
next
  case False
  have "(- 1 :: 32 word) \<noteq> 0" by simp
  with False show ?thesis by (simp only: saturating_add_u32_def if_False unat_gt_0 not_False_eq_True)
qed

lemma gate_prune_wf: "hm_wf g \<Longrightarrow> hm_wf (gate_prune g now)"
  by (simp add: gate_prune_def)

lemma gate_prune_get:
  "hm_wf g \<Longrightarrow> hm_get (gate_prune g now) t = Some st \<Longrightarrow> hm_get g t = Some st"
  unfolding gate_prune_def by (drule (1) hm.retain_subset) simp

lemma gate_step_inv:
  assumes "gate_inv T g" and "fst e \<le> T"
  shows "gate_inv T (gate_step g e)"
proof -
  obtain now ev where e: "e = (now, ev)" by (cases e)
  have cap: "now + from_secs (unat (probe_delay m)) \<le> T + from_secs 600" for m
    using assms(2) from_secs_mono [OF probe_delay_le_cap, of m] by (simp add: e)
  show ?thesis
  proof (cases ev)
    case (Probe t)
    then show ?thesis using assms(1)
      by (auto simp: e gate_inv_def should_probe_at_def split: option.split)
  next
    case (Miss t)
    then show ?thesis using assms(1) cap
      by (auto simp: e gate_inv_def record_unknown_at_def Let_def saturating_add_pos gate_prune_wf
          dest: gate_prune_get)
  next
    case (Decisive t)
    then show ?thesis using assms(1) by (auto simp: e gate_inv_def record_decisive_def)
  qed
qed

lemma gate_run_inv:
  "gate_inv T g \<Longrightarrow> \<forall>e \<in> set ops. fst e \<le> T \<Longrightarrow> gate_inv T (gate_run g ops)"
  unfolding gate_run_def by (induction ops arbitrary: g) (auto intro: gate_step_inv)

lemma gate_inv_empty [simp]: "gate_inv T []"
  by (simp add: gate_inv_def)

text \<open>The gate never starves a token: whatever probes, misses and decisive answers it has seen,
  ten minutes after the last of them every token may be probed again.\<close>

theorem gate_reopens:
  assumes "\<forall>e \<in> set ops. fst e \<le> T" and "T + from_secs 600 \<le> now"
  shows "fst (should_probe_at (gate_run [] ops) t now)"
proof -
  have "gate_inv T (gate_run [] ops)"
    using assms(1) by (rule gate_run_inv [OF gate_inv_empty])
  then show ?thesis using assms(2)
    by (force simp: gate_inv_def should_probe_at_def split: option.split)
qed

lemma gate_reopens_witness:
  "fst (should_probe_at (gate_run [] [(0, Miss ''tok''), (5, Miss ''tok''), (9, Probe ''tok'')]) ''tok''
     (from_secs 600 + 9))"
  by (rule gate_reopens [where T = 9]) simp_all

text \<open>A miss backs its own token off by the scheduled delay, and no other: after recording an
  unanswered lookup at time \<open>t\<close> the token may be probed exactly when the delay for its miss count has
  passed, and a different token that could be probed still can.\<close>

definition miss_count :: "gate \<Rightarrow> token \<Rightarrow> instant \<Rightarrow> nat" where
  "miss_count g tok now =
     (case hm_get (gate_prune g now) tok of None \<Rightarrow> 0 | Some st \<Rightarrow> unat (misses st))"

lemma record_unknown_get:
  "hm_get (record_unknown_at g tok t) tok =
     Some \<lparr>next_probe = t + from_secs (unat (probe_delay (saturating_add_u32 (of_nat (miss_count g tok t)) 1))),
       misses = saturating_add_u32 (of_nat (miss_count g tok t)) 1, last_touch = t\<rparr>"
  by (simp add: record_unknown_at_def Let_def miss_count_def split: option.split)

lemma saturating_succ:
  "n + 1 < 2 ^ 32 \<Longrightarrow> unat (saturating_add_u32 (of_nat n) 1) = n + 1"
  by (simp add: saturating_add_u32_def unat_word_ariths unat_of_nat)

theorem record_unknown_window:
  assumes "hm_wf g" and "miss_count g tok t < 63" and "other \<noteq> tok"
  shows "(fst (should_probe_at (record_unknown_at g tok t) tok now)
           \<longleftrightarrow> t + from_secs (min 600 (30 * 2 ^ miss_count g tok t)) \<le> now)
    \<and> (fst (should_probe_at g other now) \<longrightarrow> fst (should_probe_at (record_unknown_at g tok t) other now))"
proof
  let ?m = "saturating_add_u32 (of_nat (miss_count g tok t)) 1 :: 32 word"
  have m: "unat ?m = miss_count g tok t + 1"
    using assms(2) by (intro saturating_succ) simp
  then have "unat (probe_delay ?m) = min 600 (30 * 2 ^ miss_count g tok t)"
    using assms(2) probe_delay_doubles [of ?m] by simp
  then show "fst (should_probe_at (record_unknown_at g tok t) tok now)
      \<longleftrightarrow> t + from_secs (min 600 (30 * 2 ^ miss_count g tok t)) \<le> now"
    by (simp add: should_probe_at_def record_unknown_get)
next
  show "fst (should_probe_at g other now) \<longrightarrow> fst (should_probe_at (record_unknown_at g tok t) other now)"
    using assms(3) gate_prune_get [OF assms(1), of t other]
    by (auto simp: should_probe_at_def record_unknown_at_def Let_def split: option.splits if_splits)
qed

lemma record_unknown_window_witness:
  "fst (should_probe_at (record_unknown_at [] ''tok'' 0) ''tok'' (from_secs 30))
   \<and> fst (should_probe_at (record_unknown_at [] ''tok'' 0) ''fresh'' 0)"
  using record_unknown_window [of "[]" "''tok''" 0 "''fresh''" "from_secs 30"]
    record_unknown_window [of "[]" "''tok''" 0 "''fresh''" 0]
  by (simp add: miss_count_def gate_prune_def hm_retain_def should_probe_at_def)

text \<open>A decisive answer, or a full day without a touch, forgets the token.\<close>

lemma record_decisive_forgets: "hm_get (record_decisive g tok) tok = None"
  by (simp add: record_decisive_def)

lemma record_unknown_prunes:
  assumes "hm_wf g" and "hm_get g stale = Some st" and "stale \<noteq> tok"
    and "last_touch st + from_secs settlement_defer_max_secs \<le> now"
  shows "hm_get (record_unknown_at g tok now) stale = None"
  using assms
  by (simp add: record_unknown_at_def Let_def gate_prune_def hm_get_retain)

end
