(* ===== verification/Trading_State.thy ===== *)
theory Trading_State
  imports Venue_Core
begin

text \<open>
  The shared state types of \<open>src/state.rs\<close>: trade scopes, top-of-book price states and their
  imbalance, positions and their keys, the lone-leg policy, market snapshots, the market phase, and
  the signals strategies return.
\<close>

section \<open>Trade filing dimensions\<close>

record trade_scope =
  ts_shard :: string
  ts_venue :: string
  ts_market_class :: "string option"
  ts_underlying :: "string option"
  ts_ghost :: bool

definition scope_new :: "string \<Rightarrow> string \<Rightarrow> string option \<Rightarrow> string option \<Rightarrow> trade_scope" where
  "scope_new shard venue mclass underlying =
     \<lparr>ts_shard = shard, ts_venue = venue, ts_market_class = mclass, ts_underlying = underlying,
      ts_ghost = False\<rparr>"

definition scope_shard_only :: "string \<Rightarrow> trade_scope" where
  "scope_shard_only shard =
     \<lparr>ts_shard = shard, ts_venue = [], ts_market_class = None, ts_underlying = None, ts_ghost = False\<rparr>"

definition scope_crypto :: "string \<Rightarrow> string \<Rightarrow> string \<Rightarrow> trade_scope" where
  "scope_crypto shard venue underlying = scope_new shard venue (Some ''crypto'') (Some underlying)"

section \<open>Prices and imbalance\<close>

record price_state =
  ps_best_bid :: decimal
  ps_bid_touch_size :: decimal
  ps_best_ask :: decimal
  ps_ask_touch_size :: decimal
  ps_at :: utc
  ps_bid_depth_total :: decimal
  ps_ask_depth_total :: decimal

text \<open>Division of the decimal type: the quotient rounded by \<open>rnd\<close> to the crate's precision.  A
  rounding is monotone and keeps every value the type represents, so in particular 0, 1 and -1.\<close>

definition decimal_rounding :: "(decimal \<Rightarrow> decimal) \<Rightarrow> bool" where
  "decimal_rounding rnd \<longleftrightarrow> mono rnd \<and> rnd 0 = 0 \<and> rnd 1 = 1 \<and> rnd (- 1) = - 1"

definition imbalance :: "(decimal \<Rightarrow> decimal) \<Rightarrow> price_state \<Rightarrow> bool \<Rightarrow> decimal" where
  "imbalance rnd p whole =
     (let (b, a) = (if whole then (ps_bid_depth_total p, ps_ask_depth_total p)
                    else (ps_bid_touch_size p, ps_ask_touch_size p));
          s = b + a
      in if 0 < s then rnd ((b - a) / s) else - 1)"

definition snapshot_has_book :: "price_state \<Rightarrow> price_state \<Rightarrow> bool" where
  "snapshot_has_book yes no \<longleftrightarrow>
     ps_best_ask yes < 1 \<or> ps_best_ask no < 1 \<or> 0 < ps_best_bid yes \<or> 0 < ps_best_bid no"

section \<open>Positions\<close>

record position =
  p_shares :: decimal
  p_avg_entry :: decimal
  p_opened_at :: utc
  p_close_time :: "utc option"
  p_market_name :: string
  p_pair_token_id :: market_id
  p_fill_confirmed_at :: "utc option"
  p_paired_leg_token_id :: "market_id option"
  p_entry_fee :: decimal

definition fill_effective_at :: "position \<Rightarrow> bool \<Rightarrow> utc option" where
  "fill_effective_at p ghost_mode =
     (case p_fill_confirmed_at p of
        Some t \<Rightarrow> Some t
      | None \<Rightarrow> if ghost_mode then Some (p_opened_at p) else None)"

definition counts_toward_exposure :: "position \<Rightarrow> utc \<Rightarrow> bool" where
  "counts_toward_exposure p now = (case p_close_time p of None \<Rightarrow> True | Some c \<Rightarrow> now < c)"

record position_key =
  k_squadron :: string
  k_strategy :: string
  k_market :: market_id

type_synonym position_map = "(position_key, position) hash_map"

datatype lone_leg_policy = Repair | HoldAndManage

definition lone_leg_policy :: "string \<Rightarrow> lone_leg_policy" where
  "lone_leg_policy strategy_name =
     (if strategy_name = ''TimeDecayStrategy'' then HoldAndManage else Repair)"

section \<open>Market snapshots\<close>

record market_snapshot =
  ms_yes_bid :: decimal
  ms_yes_bid_depth :: decimal
  ms_yes_ask :: decimal
  ms_yes_ask_depth :: decimal
  ms_no_bid :: decimal
  ms_no_bid_depth :: decimal
  ms_no_ask :: decimal
  ms_no_ask_depth :: decimal
  ms_yes_bid_depth_total :: decimal
  ms_yes_ask_depth_total :: decimal
  ms_no_bid_depth_total :: decimal
  ms_no_ask_depth_total :: decimal
  ms_oracle_price :: decimal
  ms_velocity :: decimal
  ms_velocity_1s :: decimal
  ms_acceleration :: decimal
  ms_funding_rate :: decimal
  ms_institutional_pulse :: decimal
  ms_tide_coherence :: decimal
  ms_tradfi_velocity :: decimal
  ms_macro_coherence :: decimal
  ms_vix_proxy :: decimal
  ms_vix_velocity :: decimal
  ms_oi_delta_pct :: decimal
  ms_cvd_ratio :: decimal
  ms_oracle_drift_60m :: decimal
  ms_oracle_drift_10m :: decimal
  ms_hist_vol :: decimal
  ms_secs_to_expiry :: int
  ms_timestamp :: utc

definition yes_has_ask :: "market_snapshot \<Rightarrow> bool" where
  "yes_has_ask m \<longleftrightarrow> ms_yes_ask m < 1"

definition no_has_ask :: "market_snapshot \<Rightarrow> bool" where
  "no_has_ask m \<longleftrightarrow> ms_no_ask m < 1"

definition yes_depths :: "market_snapshot \<Rightarrow> bool \<Rightarrow> decimal \<times> decimal" where
  "yes_depths m whole_book =
     (if whole_book then (ms_yes_bid_depth_total m, ms_yes_ask_depth_total m)
      else (ms_yes_bid_depth m, ms_yes_ask_depth m))"

definition no_depths :: "market_snapshot \<Rightarrow> bool \<Rightarrow> decimal \<times> decimal" where
  "no_depths m whole_book =
     (if whole_book then (ms_no_bid_depth_total m, ms_no_ask_depth_total m)
      else (ms_no_bid_depth m, ms_no_ask_depth m))"

definition obi :: "(decimal \<Rightarrow> decimal) \<Rightarrow> decimal \<Rightarrow> decimal \<Rightarrow> decimal" where
  "obi rnd bid ask = (let s = bid + ask in if 0 < s then rnd ((bid - ask) / s) else - 1)"

definition yes_obi :: "(decimal \<Rightarrow> decimal) \<Rightarrow> market_snapshot \<Rightarrow> bool \<Rightarrow> decimal" where
  "yes_obi rnd m whole_book = (let (bid, ask) = yes_depths m whole_book in obi rnd bid ask)"

definition no_obi :: "(decimal \<Rightarrow> decimal) \<Rightarrow> market_snapshot \<Rightarrow> bool \<Rightarrow> decimal" where
  "no_obi rnd m whole_book = (let (bid, ask) = no_depths m whole_book in obi rnd bid ask)"

section \<open>Markets and their phase\<close>

record market_config =
  mc_yes_token :: market_id
  mc_no_token :: market_id
  mc_market_name :: string
  mc_market_close_time :: "utc option"
  mc_strike_price :: "decimal option"
  mc_window_secs :: "int option"
  mc_is_neg_risk :: bool
  mc_condition_id :: string
  mc_yes_fee_bps :: nat
  mc_no_fee_bps :: nat

datatype market_phase = Open | WindingDown | Closed

text \<open>The whole seconds of a signed duration, rounded toward zero.\<close>

definition secs_to_close :: "market_config \<Rightarrow> utc \<Rightarrow> int option" where
  "secs_to_close mc now = map_option (\<lambda>c. num_seconds (c - now)) (mc_market_close_time mc)"

definition phase :: "market_config \<Rightarrow> utc \<Rightarrow> int \<Rightarrow> market_phase" where
  "phase mc now rtb_window_secs =
     (case secs_to_close mc now of
        None \<Rightarrow> Open
      | Some s \<Rightarrow> if s \<le> 0 then Closed else if s \<le> rtb_window_secs then WindingDown else Open)"

section \<open>Signals\<close>

record exit_fill =
  xf_squadron_id :: string
  xf_asset :: string
  xf_token_id :: market_id
  xf_market_name :: string
  xf_condition_id :: string
  xf_market_close_time :: "utc option"
  xf_side :: string
  xf_opened_at :: utc
  xf_avg_entry :: decimal
  xf_entry_fee_booked :: decimal
  xf_shares :: decimal
  xf_exit_price :: decimal
  xf_exit_fee :: decimal
  xf_pnl :: decimal
  xf_reason :: string

record order_params =
  op_token_id :: market_id
  op_price :: decimal
  op_shares :: decimal
  op_fee_bps :: nat
  op_is_neg_risk :: bool
  op_market_name :: string
  op_condition_id :: string
  op_order_type :: time_in_force
  op_post_only :: bool
  op_ghost_mode :: bool

datatype strategy_signal =
    Entry order_params "order_params option"
  | MakerQuote "order_params option" "order_params option"
  | MakerCancel "market_id list"
  | MakerRestingExit order_params string
  | Exit order_params string bool
  | NoSignal

fun opens_exposure :: "strategy_signal \<Rightarrow> bool" where
  "opens_exposure (Entry _ _) = True"
| "opens_exposure (MakerQuote _ _) = True"
| "opens_exposure _ = False"

fun opt_list :: "'a option \<Rightarrow> 'a list" where
  "opt_list None = []"
| "opt_list (Some x) = [x]"

fun tokens_opened :: "strategy_signal \<Rightarrow> market_id list" where
  "tokens_opened (Entry params pair_params) =
     op_token_id params # map op_token_id (opt_list pair_params)"
| "tokens_opened (MakerQuote yes no) = map op_token_id (opt_list yes @ opt_list no)"
| "tokens_opened _ = []"

fun tokens_closed :: "strategy_signal \<Rightarrow> market_id list" where
  "tokens_closed (Exit params _ _) = [op_token_id params]"
| "tokens_closed (MakerRestingExit params _) = [op_token_id params]"
| "tokens_closed (MakerCancel tokens) = tokens"
| "tokens_closed _ = []"

section \<open>The order of phases\<close>

instantiation market_phase :: linorder
begin

fun phase_rank :: "market_phase \<Rightarrow> nat" where
  "phase_rank Open = 0"
| "phase_rank WindingDown = 1"
| "phase_rank Closed = 2"

definition less_eq_market_phase :: "market_phase \<Rightarrow> market_phase \<Rightarrow> bool" where
  "less_eq_market_phase a b \<longleftrightarrow> phase_rank a \<le> phase_rank b"

definition less_market_phase :: "market_phase \<Rightarrow> market_phase \<Rightarrow> bool" where
  "less_market_phase a b \<longleftrightarrow> phase_rank a < phase_rank b"

instance
proof
  fix a b :: market_phase
  show "a \<le> b \<Longrightarrow> b \<le> a \<Longrightarrow> a = b"
    by (cases a; cases b) (simp_all add: less_eq_market_phase_def)
qed (auto simp: less_eq_market_phase_def less_market_phase_def)

end

lemma phase_simps:
  "mc_market_close_time mc = None \<Longrightarrow> phase mc now w = Open"
  "mc_market_close_time mc = Some c \<Longrightarrow> num_seconds (c - now) \<le> 0 \<Longrightarrow> phase mc now w = Closed"
  by (simp_all add: phase_def secs_to_close_def)

text \<open>A market's phase never goes backwards: as the clock advances it moves from open to winding
  down to closed and never re-opens, and a market without a close time stays open.\<close>

theorem phase_mono:
  assumes "now \<le> later"
  shows "phase mc now w \<le> phase mc later w"
proof (cases "mc_market_close_time mc")
  case None
  then show ?thesis by (simp add: phase_simps less_eq_market_phase_def)
next
  case (Some c)
  have "num_seconds (c - later) \<le> num_seconds (c - now)"
    using assms by (intro num_seconds_mono) simp
  with Some show ?thesis
    by (auto simp: phase_def secs_to_close_def less_eq_market_phase_def)
qed

definition sample_market :: market_config where
  "sample_market =
     \<lparr>mc_yes_token = ''y'', mc_no_token = ''n'', mc_market_name = ''m'',
      mc_market_close_time = Some (from_secs 100), mc_strike_price = None, mc_window_secs = None,
      mc_is_neg_risk = False, mc_condition_id = [], mc_yes_fee_bps = 0, mc_no_fee_bps = 0\<rparr>"

lemma phase_mono_witness:
  "phase sample_market 0 30 = Open \<and> phase sample_market (from_secs 80) 30 = WindingDown
   \<and> phase sample_market 0 30 \<le> phase sample_market (from_secs 80) 30"
  using phase_mono [of 0 "from_secs 80" sample_market 30]
  by (simp add: phase_def secs_to_close_def sample_market_def num_seconds_def from_secs_def nanos_per_sec_def)

section \<open>Imbalance\<close>

lemma obi_ratio_bounds:
  assumes "decimal_rounding rnd" and "0 \<le> b" and "0 \<le> a"
  shows "- 1 \<le> obi rnd b a \<and> obi rnd b a \<le> 1"
proof (cases "0 < b + a")
  case True
  have r: "mono rnd" "rnd 1 = 1" "rnd (- 1) = - 1"
    using assms(1) by (simp_all add: decimal_rounding_def)
  have "- 1 \<le> (b - a) / (b + a)" "(b - a) / (b + a) \<le> 1"
    using True assms(2,3) by (simp_all add: field_simps)
  then have "rnd (- 1) \<le> rnd ((b - a) / (b + a))" "rnd ((b - a) / (b + a)) \<le> rnd 1"
    by (blast intro: monoD [OF r(1)])+
  with True r show ?thesis by (simp add: obi_def Let_def)
qed (simp add: obi_def)

lemma imbalance_obi:
  "imbalance rnd p whole =
     (if whole then obi rnd (ps_bid_depth_total p) (ps_ask_depth_total p)
      else obi rnd (ps_bid_touch_size p) (ps_ask_touch_size p))"
  by (simp add: imbalance_def obi_def Let_def)

text \<open>The order-book imbalance of either leg, read at the touch or over the whole book, lies
  between -1 and 1; with no depth on either side it is -1, the maximally adverse reading.\<close>

theorem obi_bounded:
  assumes "decimal_rounding rnd"
    and "0 \<le> fst (yes_depths m whole)" and "0 \<le> snd (yes_depths m whole)"
    and "0 \<le> fst (no_depths m whole)" and "0 \<le> snd (no_depths m whole)"
  shows "yes_obi rnd m whole \<in> {- 1..1} \<and> no_obi rnd m whole \<in> {- 1..1}
    \<and> (yes_depths m whole = (0, 0) \<longrightarrow> yes_obi rnd m whole = - 1)
    \<and> (no_depths m whole = (0, 0) \<longrightarrow> no_obi rnd m whole = - 1)"
  using obi_ratio_bounds [OF assms(1-3)] obi_ratio_bounds [OF assms(1,4,5)]
  by (auto simp: yes_obi_def no_obi_def obi_def split_beta)

definition blank_snapshot :: market_snapshot where
  "blank_snapshot =
     \<lparr>ms_yes_bid = 1/2, ms_yes_bid_depth = 30, ms_yes_ask = 13/25, ms_yes_ask_depth = 70,
      ms_no_bid = 12/25, ms_no_bid_depth = 0, ms_no_ask = 1/2, ms_no_ask_depth = 0,
      ms_yes_bid_depth_total = 30, ms_yes_ask_depth_total = 70, ms_no_bid_depth_total = 0,
      ms_no_ask_depth_total = 0, ms_oracle_price = 0, ms_velocity = 0, ms_velocity_1s = 0,
      ms_acceleration = 0, ms_funding_rate = 0, ms_institutional_pulse = 0, ms_tide_coherence = 0,
      ms_tradfi_velocity = 0, ms_macro_coherence = 0, ms_vix_proxy = 0, ms_vix_velocity = 0,
      ms_oi_delta_pct = 0, ms_cvd_ratio = 0, ms_oracle_drift_60m = 0, ms_oracle_drift_10m = 0,
      ms_hist_vol = 0, ms_secs_to_expiry = 0, ms_timestamp = 0\<rparr>"

lemma obi_bounded_witness: "no_obi id blank_snapshot True = - 1 \<and> yes_obi id blank_snapshot True \<in> {- 1..1}"
  using obi_bounded [of id blank_snapshot True]
  by (simp add: decimal_rounding_def mono_def yes_depths_def no_depths_def blank_snapshot_def)

section \<open>Signals that close never open\<close>

lemma closing_opens_nothing: "tokens_closed s \<noteq> [] \<Longrightarrow> tokens_opened s = [] \<and> \<not> opens_exposure s"
  by (cases s) auto

lemma tokens_opened_exposure: "tokens_opened s \<noteq> [] \<Longrightarrow> opens_exposure s"
  by (cases s) auto

end
