(* ===== verification/Order_Lifecycle.thy ===== *)
theory Order_Lifecycle
  imports Trading_State
begin

text \<open>
  The venue-neutral order lifecycle, \<open>src/venues/lifecycle.rs\<close>: the tracked orders of one squadron,
  the guards they opened in the shared position map, and the operations that settle an order against
  what the venue says about it.

  The state \<open>lifecycle\<close> holds the fields of \<open>OrderLifecycle\<close> and, as its last field, the shared position
  map every method is handed.  The world of the venue calls is this state paired with everything
  else (\<open>lifecycle \<times> 'v\<close>): while a method awaits the venue another task may run, so a venue call may
  return a changed state, and a statement about every venue covers every interleaving at those
  points.  A lock region between two awaits is one update.
\<close>

section \<open>Configuration and state\<close>

record lifecycle_config =
  cfg_stale_order_secs :: nat
  cfg_flatten_sell_limit :: decimal
  cfg_flatten_is_neg_risk :: bool
  cfg_rehedge_buffer :: decimal

text \<open>The re-hedge buffer is a constant of the generated configuration: an argument here.\<close>

definition lifecycle_us :: "decimal \<Rightarrow> lifecycle_config" where
  "lifecycle_us buffer =
     \<lparr>cfg_stale_order_secs = 60, cfg_flatten_sell_limit = 1 / 100, cfg_flatten_is_neg_risk = False,
      cfg_rehedge_buffer = buffer\<rparr>"

definition lifecycle_intl :: "decimal \<Rightarrow> lifecycle_config" where
  "lifecycle_intl buffer =
     \<lparr>cfg_stale_order_secs = 1800, cfg_flatten_sell_limit = 1 / 100, cfg_flatten_is_neg_risk = False,
      cfg_rehedge_buffer = buffer\<rparr>"

record tracked_leg =
  tl_id :: order_id
  tl_market :: market_id
  tl_strategy :: string
  tl_placed_at :: instant
  tl_quantity :: decimal
  tl_stale_after_secs :: nat
  tl_is_quote :: bool
  tl_missing_since :: "instant option"
  tl_cancelled :: bool
  tl_guard_opened_by :: utc
  tl_pair_market :: "market_id option"

record released_quote =
  rq_strategy :: string
  rq_market :: market_id

record confirmed_fill =
  cf_strategy :: string
  cf_market :: market_id
  cf_filled :: decimal
  cf_price :: decimal

record flattened_leg =
  fl_strategy :: string
  fl_market_name :: string
  fl_shares :: decimal
  fl_avg_entry :: decimal
  fl_exit_price :: decimal
  fl_token_id :: market_id

datatype cancel_outcome = Released | Traded | OutcomeUnknown

record lifecycle =
  lc_cfg :: lifecycle_config
  lc_squadron_id :: string
  lc_tracked :: "tracked_leg list"
  lc_killed_flattens :: "string set"
  lc_released :: "released_quote list"
  lc_confirmed :: "confirmed_fill list"
  lc_positions :: position_map

type_synonym 'v world = "lifecycle \<times> 'v"

definition upd_lc :: "(lifecycle \<Rightarrow> lifecycle) \<Rightarrow> 'v world \<Rightarrow> 'v world" where
  "upd_lc f w = (f (fst w), snd w)"

lemma upd_lc_sel [simp]: "fst (upd_lc f w) = f (fst w)" "snd (upd_lc f w) = snd w"
  by (simp_all add: upd_lc_def)

definition resting_quote_stale_secs :: nat where
  "resting_quote_stale_secs = 1800"

definition vanished_quote_grace_secs :: nat where
  "vanished_quote_grace_secs = 60"

definition lifecycle_new :: "lifecycle_config \<Rightarrow> string \<Rightarrow> position_map \<Rightarrow> lifecycle" where
  "lifecycle_new cfg squadron_id pm =
     \<lparr>lc_cfg = cfg, lc_squadron_id = squadron_id, lc_tracked = [], lc_killed_flattens = {},
      lc_released = [], lc_confirmed = [], lc_positions = pm\<rparr>"

definition acknowledged_resting :: "side \<Rightarrow> time_in_force \<Rightarrow> decimal \<Rightarrow> order_id \<Rightarrow> bool" where
  "acknowledged_resting sd tif filled oid \<longleftrightarrow> sd = Buy \<and> resting_tif tif \<and> filled \<le> 0 \<and> oid \<noteq> []"

definition pair_leg_stale_secs :: "string \<Rightarrow> nat \<Rightarrow> nat" where
  "pair_leg_stale_secs strategy venue_stale_secs =
     (case lone_leg_policy strategy of
        HoldAndManage \<Rightarrow> max venue_stale_secs resting_quote_stale_secs
      | Repair \<Rightarrow> venue_stale_secs)"

section \<open>Tracking\<close>

definition track_with_stale ::
  "'v world execution \<Rightarrow> fill \<Rightarrow> string \<Rightarrow> time_in_force \<Rightarrow> market_id option \<Rightarrow> nat \<Rightarrow> bool \<Rightarrow>
   'v world \<Rightarrow> 'v world" where
  "track_with_stale venue fl strategy tif pair stale_after is_quote w =
     (if \<not> resting_tif tif then w
      else upd_lc (\<lambda>lc. lc\<lparr>lc_tracked := lc_tracked lc @
             [\<lparr>tl_id = f_order_id fl, tl_market = f_market fl, tl_strategy = strategy,
               tl_placed_at = ex_instant_now venue w, tl_quantity = f_filled fl,
               tl_stale_after_secs = stale_after, tl_is_quote = is_quote, tl_missing_since = None,
               tl_cancelled = False, tl_guard_opened_by = ex_utc_now venue w,
               tl_pair_market = pair\<rparr>]\<rparr>) w)"

definition track ::
  "'v world execution \<Rightarrow> fill \<Rightarrow> string \<Rightarrow> time_in_force \<Rightarrow> market_id option \<Rightarrow>
   'v world \<Rightarrow> 'v world" where
  "track venue fl strategy tif pair w =
     track_with_stale venue fl strategy tif pair (cfg_stale_order_secs (lc_cfg (fst w))) False w"

definition track_resting ::
  "'v world execution \<Rightarrow> fill \<Rightarrow> string \<Rightarrow> time_in_force \<Rightarrow> market_id option \<Rightarrow>
   'v world \<Rightarrow> 'v world" where
  "track_resting venue fl strategy tif pair w =
     track_with_stale venue fl strategy tif pair resting_quote_stale_secs True w"

definition track_pair_leg ::
  "'v world execution \<Rightarrow> fill \<Rightarrow> string \<Rightarrow> time_in_force \<Rightarrow> market_id option \<Rightarrow>
   'v world \<Rightarrow> 'v world" where
  "track_pair_leg venue fl strategy tif pair w =
     track_with_stale venue fl strategy tif pair
       (pair_leg_stale_secs strategy (cfg_stale_order_secs (lc_cfg (fst w)))) True w"

definition untrack :: "order_id \<Rightarrow> lifecycle \<Rightarrow> lifecycle" where
  "untrack oid lc = lc\<lparr>lc_tracked := filter (\<lambda>t. tl_id t \<noteq> oid) (lc_tracked lc)\<rparr>"

definition mark_cancelled :: "instant \<Rightarrow> order_id \<Rightarrow> lifecycle \<Rightarrow> lifecycle" where
  "mark_cancelled now oid lc =
     lc\<lparr>lc_tracked := map (\<lambda>t. if tl_id t = oid
          then t\<lparr>tl_cancelled := True,
                 tl_missing_since := (case tl_missing_since t of None \<Rightarrow> Some now | Some m \<Rightarrow> Some m)\<rparr>
          else t) (lc_tracked lc)\<rparr>"

definition working_for :: "string \<Rightarrow> market_id \<Rightarrow> lifecycle \<Rightarrow> bool" where
  "working_for strategy market lc \<longleftrightarrow>
     list_ex (\<lambda>t. tl_strategy t = strategy \<and> tl_market t = market \<and> \<not> tl_cancelled t) (lc_tracked lc)"

definition resting_for :: "string \<Rightarrow> market_id \<Rightarrow> lifecycle \<Rightarrow> bool" where
  "resting_for strategy market lc \<longleftrightarrow>
     list_ex (\<lambda>t. tl_strategy t = strategy \<and> tl_market t = market) (lc_tracked lc)"

definition tracks_anything :: "lifecycle \<Rightarrow> bool" where
  "tracks_anything lc \<longleftrightarrow> lc_tracked lc \<noteq> []"

definition tracked_owner :: "order_id \<Rightarrow> lifecycle \<Rightarrow> string option" where
  "tracked_owner oid lc = map_option tl_strategy (find (\<lambda>t. tl_id t = oid) (lc_tracked lc))"

definition tracks_leg :: "market_id \<Rightarrow> lifecycle \<Rightarrow> bool" where
  "tracks_leg market lc \<longleftrightarrow> list_ex (\<lambda>t. tl_market t = market) (lc_tracked lc)"

text \<open>The registry holds weak references: \<open>None\<close> is one whose lifecycle has been dropped.\<close>

definition any_lifecycle_tracks_leg :: "market_id \<Rightarrow> lifecycle option list \<Rightarrow> bool \<times> lifecycle option list" where
  "any_lifecycle_tracks_leg market reg =
     (let live = filter (\<lambda>l. l \<noteq> None) reg
      in (list_ex (\<lambda>l. case l of None \<Rightarrow> False | Some lc \<Rightarrow> tracks_leg market lc) live, live))"

definition forget_cancelled_for :: "string \<Rightarrow> market_id \<Rightarrow> lifecycle \<Rightarrow> nat \<times> lifecycle" where
  "forget_cancelled_for strategy market lc =
     (let left = filter (\<lambda>t. \<not> (tl_strategy t = strategy \<and> tl_market t = market \<and> tl_cancelled t))
                   (lc_tracked lc)
      in (length (lc_tracked lc) - length left, lc\<lparr>lc_tracked := left\<rparr>))"

definition take_released :: "lifecycle \<Rightarrow> released_quote list \<times> lifecycle" where
  "take_released lc = (lc_released lc, lc\<lparr>lc_released := []\<rparr>)"

definition take_confirmed :: "lifecycle \<Rightarrow> confirmed_fill list \<times> lifecycle" where
  "take_confirmed lc = (lc_confirmed lc, lc\<lparr>lc_confirmed := []\<rparr>)"

definition holds_anything :: "lifecycle \<Rightarrow> bool" where
  "holds_anything lc \<longleftrightarrow>
     (let mine = filter (\<lambda>(k, p). k_squadron k = lc_squadron_id lc) (lc_positions lc)
      in list_ex (\<lambda>(k, p). p_fill_confirmed_at p \<noteq> None) mine \<or>
         list_ex (\<lambda>(k, p). \<not> list_ex (\<lambda>t. tl_strategy t = k_strategy k \<and> tl_market t = k_market k
                                           \<and> tl_is_quote t) (lc_tracked lc)) mine)"

section \<open>Guards\<close>

definition guard_key :: "lifecycle \<Rightarrow> string \<Rightarrow> market_id \<Rightarrow> position_key" where
  "guard_key lc strategy market =
     \<lparr>k_squadron = lc_squadron_id lc, k_strategy = strategy, k_market = market\<rparr>"

definition owns_guard :: "tracked_leg \<Rightarrow> position \<Rightarrow> bool" where
  "owns_guard ord p \<longleftrightarrow> p_opened_at p \<le> tl_guard_opened_by ord"

definition set_guard :: "position_key \<Rightarrow> position \<Rightarrow> lifecycle \<Rightarrow> lifecycle" where
  "set_guard k p lc = lc\<lparr>lc_positions := hm_insert k p (lc_positions lc)\<rparr>"

definition drop_guard :: "position_key \<Rightarrow> lifecycle \<Rightarrow> lifecycle" where
  "drop_guard k lc = lc\<lparr>lc_positions := hm_remove k (lc_positions lc)\<rparr>"

definition confirm_guard :: "utc \<Rightarrow> string \<Rightarrow> market_id \<Rightarrow> lifecycle \<Rightarrow> lifecycle" where
  "confirm_guard now strategy market lc =
     (let k = guard_key lc strategy market in
      case hm_get (lc_positions lc) k of
        None \<Rightarrow> lc
      | Some p \<Rightarrow> if p_fill_confirmed_at p = None then set_guard k (p\<lparr>p_fill_confirmed_at := Some now\<rparr>) lc
                  else lc)"

definition clear_guard :: "string \<Rightarrow> market_id \<Rightarrow> lifecycle \<Rightarrow> lifecycle" where
  "clear_guard strategy market lc = drop_guard (guard_key lc strategy market) lc"

text \<open>What the fill feed or a reconcile reading makes of a guard: its position and the figure booked.\<close>

definition sized_guard :: "utc \<Rightarrow> tracked_leg \<Rightarrow> decimal \<Rightarrow> decimal \<Rightarrow> position \<Rightarrow> position \<times> decimal" where
  "sized_guard now ord traded price p =
     (let filled0 = (if 0 < traded then min traded (tl_quantity ord) else tl_quantity ord);
          entry = (if 0 < price then price else p_avg_entry p)
      in if p_fill_confirmed_at p = None
         then (p\<lparr>p_shares := filled0, p_avg_entry := entry, p_fill_confirmed_at := Some now\<rparr>, filled0)
         else let filled = min (max (p_shares p) filled0) (tl_quantity ord)
              in (p\<lparr>p_shares := filled, p_avg_entry := entry\<rparr>, filled))"

definition size_and_confirm ::
  "utc \<Rightarrow> tracked_leg \<Rightarrow> decimal \<Rightarrow> decimal \<Rightarrow> lifecycle \<Rightarrow> bool \<times> lifecycle" where
  "size_and_confirm now ord traded price lc =
     (let k = guard_key lc (tl_strategy ord) (tl_market ord) in
      case hm_get (lc_positions lc) k of
        None \<Rightarrow> (False, lc)
      | Some p \<Rightarrow>
          if owns_guard ord p
          then let (p', filled) = sized_guard now ord traded price p;
                   lc' = set_guard k p' lc
               in (True, lc'\<lparr>lc_confirmed := lc_confirmed lc' @
                     [\<lparr>cf_strategy = tl_strategy ord, cf_market = tl_market ord, cf_filled = filled,
                       cf_price = price\<rparr>]\<rparr>)
          else (False, lc))"

definition release_quote :: "tracked_leg \<Rightarrow> lifecycle \<Rightarrow> bool \<times> lifecycle" where
  "release_quote ord lc =
     (let k = guard_key lc (tl_strategy ord) (tl_market ord) in
      case hm_get (lc_positions lc) k of
        None \<Rightarrow> (False, lc)
      | Some p \<Rightarrow>
          if owns_guard ord p \<and> p_fill_confirmed_at p = None
          then let lc' = drop_guard k lc
               in (True, lc'\<lparr>lc_released := lc_released lc' @
                     [\<lparr>rq_strategy = tl_strategy ord, rq_market = tl_market ord\<rparr>]\<rparr>)
          else (False, lc))"

text \<open>The same two updates on a world, read at the world's clock.\<close>

definition size_w :: "'v world execution \<Rightarrow> tracked_leg \<Rightarrow> decimal \<Rightarrow> decimal \<Rightarrow> 'v world \<Rightarrow> 'v world" where
  "size_w venue ord traded price w =
     upd_lc (\<lambda>lc. snd (size_and_confirm (ex_utc_now venue w) ord traded price lc)) w"

definition release_w :: "tracked_leg \<Rightarrow> 'v world \<Rightarrow> bool \<times> 'v world" where
  "release_w ord w = (fst (release_quote ord (fst w)), upd_lc (\<lambda>lc. snd (release_quote ord lc)) w)"

section \<open>Settling a cancel\<close>

definition settle_refused_cancel ::
  "'v world execution \<Rightarrow> tracked_leg \<Rightarrow> 'v world \<Rightarrow> cancel_outcome option \<times> 'v world" where
  "settle_refused_cancel venue ord w =
     (case ex_order_state venue (tl_id ord) w of
        (Inr (Some st), w1) \<Rightarrow>
          if os_resting st = Some True then (None, w1)
          else let gone = (os_resting st = Some False) in
            (case os_filled st of
               Some traded \<Rightarrow>
                 if 0 < traded then (if gone then Some Traded else None, size_w venue ord traded 0 w1)
                 else if gone then
                   (let (removed, w2) = release_w ord w1
                    in (Some (if removed then Released else Traded), w2))
                 else (None, w1)
             | None \<Rightarrow>
                 (None, if gone then upd_lc (mark_cancelled (ex_instant_now venue w1) (tl_id ord)) w1 else w1))
      | (_, w1) \<Rightarrow> (None, w1))"

definition settle_cancel ::
  "'v world execution \<Rightarrow> tracked_leg \<Rightarrow> 'v world \<Rightarrow> cancel_outcome \<times> 'v world" where
  "settle_cancel venue ord w =
     (case ex_order_state venue (tl_id ord) w of
        (Inr (Some st), w1) \<Rightarrow>
          (case os_filled st of
             Some traded \<Rightarrow>
               if 0 < traded then (Traded, size_w venue ord traded 0 w1)
               else (let (removed, w2) = release_w ord w1 in (if removed then Released else Traded, w2))
           | None \<Rightarrow> (OutcomeUnknown, w1))
      | (Inr None, w1) \<Rightarrow>
          (let (removed, w2) = release_w ord w1 in (if removed then Released else Traded, w2))
      | (Inl _, w1) \<Rightarrow> (OutcomeUnknown, w1))"

section \<open>Pulling quotes\<close>

definition cancel_resting_one ::
  "'v world execution \<Rightarrow> tracked_leg \<Rightarrow> 'v world \<Rightarrow> nat \<times> 'v world" where
  "cancel_resting_one venue ord w =
     (case ex_cancel venue (tl_id ord) w of
        (Inr _, w1) \<Rightarrow>
          (case settle_cancel venue ord w1 of
             (OutcomeUnknown, w2) \<Rightarrow>
               (1, upd_lc (mark_cancelled (ex_instant_now venue w2) (tl_id ord)) w2)
           | (_, w2) \<Rightarrow> (1, upd_lc (untrack (tl_id ord)) w2))
      | (Inl _, w1) \<Rightarrow>
          (case settle_refused_cancel venue ord w1 of
             (Some _, w2) \<Rightarrow> (0, upd_lc (untrack (tl_id ord)) w2)
           | (None, w2) \<Rightarrow> (0, w2)))"

fun cancel_resting_loop :: "'v world execution \<Rightarrow> tracked_leg list \<Rightarrow> 'v world \<Rightarrow> nat \<times> 'v world" where
  "cancel_resting_loop venue [] w = (0, w)"
| "cancel_resting_loop venue (ord # rest) w =
     (let (n, w1) = cancel_resting_one venue ord w;
          (m, w2) = cancel_resting_loop venue rest w1
      in (n + m, w2))"

definition cancel_resting_for ::
  "'v world execution \<Rightarrow> string \<Rightarrow> market_id \<Rightarrow> 'v world \<Rightarrow> nat \<times> 'v world" where
  "cancel_resting_for venue strategy market w =
     cancel_resting_loop venue
       (filter (\<lambda>t. tl_strategy t = strategy \<and> tl_market t = market \<and> \<not> tl_cancelled t)
          (lc_tracked (fst w))) w"

text \<open>One order of \<open>cancel_all\<close>: whether it was settled, and the quote to report when it was
  released.\<close>

definition cancel_all_one ::
  "'v world execution \<Rightarrow> tracked_leg \<Rightarrow> 'v world \<Rightarrow> (bool \<times> released_quote list) \<times> 'v world" where
  "cancel_all_one venue ord w =
     (let quote = \<lparr>rq_strategy = tl_strategy ord, rq_market = tl_market ord\<rparr> in
      case ex_cancel venue (tl_id ord) w of
        (Inr _, w1) \<Rightarrow>
          (case settle_cancel venue ord w1 of
             (Released, w2) \<Rightarrow> ((True, [quote]), w2)
           | (Traded, w2) \<Rightarrow> ((True, []), w2)
           | (OutcomeUnknown, w2) \<Rightarrow>
               ((False, []), upd_lc (mark_cancelled (ex_instant_now venue w2) (tl_id ord)) w2))
      | (Inl _, w1) \<Rightarrow>
          (case settle_refused_cancel venue ord w1 of
             (Some Released, w2) \<Rightarrow> ((True, [quote]), w2)
           | (Some _, w2) \<Rightarrow> ((True, []), w2)
           | (None, w2) \<Rightarrow> ((False, []), w2)))"

fun cancel_all_loop ::
  "'v world execution \<Rightarrow> tracked_leg list \<Rightarrow> 'v world \<Rightarrow>
   (order_id list \<times> released_quote list) \<times> 'v world" where
  "cancel_all_loop venue [] w = (([], []), w)"
| "cancel_all_loop venue (ord # rest) w =
     (let ((settled, rel), w1) = cancel_all_one venue ord w;
          ((ids, rels), w2) = cancel_all_loop venue rest w1
      in ((if settled then tl_id ord # ids else ids, rel @ rels), w2))"

definition cancel_all :: "'v world execution \<Rightarrow> 'v world \<Rightarrow> released_quote list \<times> 'v world" where
  "cancel_all venue w =
     (let ((settled, rel), w1) = cancel_all_loop venue (lc_tracked (fst w)) w
      in (rel, upd_lc (\<lambda>lc. lc\<lparr>lc_tracked := filter (\<lambda>t. tl_id t \<notin> set settled) (lc_tracked lc)\<rparr>) w1))"

section \<open>The fill feed\<close>

definition confirm_untracked :: "utc \<Rightarrow> fill_event \<Rightarrow> lifecycle \<Rightarrow> lifecycle" where
  "confirm_untracked now ev lc =
     (let quoted = map (\<lambda>t. (tl_strategy t, tl_market t))
                     (filter (\<lambda>t. tl_market t = fe_market ev) (lc_tracked lc))
      in lc\<lparr>lc_positions := map (\<lambda>(k, p).
            if k_squadron k = lc_squadron_id lc \<and> k_market k = fe_market ev
               \<and> p_fill_confirmed_at p = None \<and> (k_strategy k, k_market k) \<notin> set quoted
            then (k, p\<lparr>p_fill_confirmed_at := Some now\<rparr>) else (k, p)) (lc_positions lc)\<rparr>)"

definition confirm_on_fill :: "utc \<Rightarrow> fill_event \<Rightarrow> lifecycle \<Rightarrow> lifecycle" where
  "confirm_on_fill now ev lc =
     (case find (\<lambda>t. tl_id t = fe_order_id ev) (lc_tracked lc) of
        None \<Rightarrow> if fe_side ev = Sell then lc else confirm_untracked now ev lc
      | Some ord \<Rightarrow>
          let lc1 = snd (size_and_confirm now ord (fe_filled ev) (fe_price ev) lc);
              filled = (if 0 < fe_filled ev then min (fe_filled ev) (tl_quantity ord) else tl_quantity ord)
          in if tl_quantity ord \<le> filled \<or> fe_complete ev then untrack (tl_id ord) lc1 else lc1)"

text \<open>The listener task consumes the feed: an event, a notice that it lagged, or the end of the feed.\<close>

datatype feed_item = Event utc fill_event | Lagged nat | FeedClosed

fun fill_listener :: "feed_item list \<Rightarrow> lifecycle \<Rightarrow> lifecycle" where
  "fill_listener [] lc = lc"
| "fill_listener (Event now ev # rest) lc = fill_listener rest (confirm_on_fill now ev lc)"
| "fill_listener (Lagged n # rest) lc = fill_listener rest lc"
| "fill_listener (FeedClosed # rest) lc = lc"

end
