(* ===== verification/Lifecycle_Reconcile.thy ===== *)
theory Lifecycle_Reconcile
  imports Order_Lifecycle
begin

text \<open>
  \<open>OrderLifecycle::reconcile\<close> of \<open>src/venues/lifecycle.rs\<close>: one pass over the tracked orders against
  what the venue reports (confirm, cancel stale, wait or release), the merge of what settled into
  the tracked list, and the repair of naked paired legs (re-hedge or flatten).
\<close>

section \<open>Pass 1: one tracked order\<close>

definition get_or_insert :: "'a \<Rightarrow> 'a option \<Rightarrow> 'a option" where
  "get_or_insert x m = (case m of None \<Rightarrow> Some x | Some y \<Rightarrow> Some y)"

text \<open>A working order past its stale window is cancelled; it leaves the list unless the venue could
  not say what traded before the cancel.\<close>

definition stale_backstop ::
  "'v world execution \<Rightarrow> bool \<Rightarrow> tracked_leg \<Rightarrow> 'v world \<Rightarrow> tracked_leg option \<times> 'v world" where
  "stale_backstop venue stale ord w =
     (if stale then
        (case ex_cancel venue (tl_id ord) w of
           (Inr _, w1) \<Rightarrow>
             (case settle_cancel venue ord w1 of
                (OutcomeUnknown, w2) \<Rightarrow>
                  (Some (ord\<lparr>tl_cancelled := True,
                             tl_missing_since := get_or_insert (ex_instant_now venue w2) (tl_missing_since ord)\<rparr>),
                   w2)
              | (_, w2) \<Rightarrow> (None, w2))
         | (Inl _, w1) \<Rightarrow> (Some ord, w1))
      else (Some ord, w))"

text \<open>An order that is not on the book and about which the venue states no count: the grace clock.\<close>

definition grace_clock ::
  "'v world execution \<Rightarrow> tracked_leg \<Rightarrow> 'v world \<Rightarrow> tracked_leg option \<times> 'v world" where
  "grace_clock venue ord w =
     (let now = ex_instant_now venue w;
          since = (case tl_missing_since ord of None \<Rightarrow> now | Some m \<Rightarrow> m)
      in if vanished_quote_grace_secs \<le> elapsed_secs now since
         then (None, snd (release_w ord w))
         else (Some (ord\<lparr>tl_missing_since := Some since\<rparr>), w))"

definition pass1_cancelled ::
  "'v world execution \<Rightarrow> tracked_leg \<Rightarrow> 'v world \<Rightarrow> tracked_leg option \<times> 'v world" where
  "pass1_cancelled venue ord w =
     (case ex_order_state venue (tl_id ord) w of
        (Inr (Some st), w1) \<Rightarrow>
          (case os_filled st of
             Some traded \<Rightarrow>
               if 0 < traded then (None, size_w venue ord traded 0 w1)
               else (None, snd (release_w ord w1))
           | None \<Rightarrow> grace_clock venue ord w1)
      | (_, w1) \<Rightarrow> grace_clock venue ord w1)"

definition pass1_unlisted ::
  "'v world execution \<Rightarrow> bool \<Rightarrow> tracked_leg \<Rightarrow> 'v world \<Rightarrow> tracked_leg option \<times> 'v world" where
  "pass1_unlisted venue stale ord w =
     (case ex_order_state venue (tl_id ord) w of
        (Inr (Some st), w1) \<Rightarrow>
          if os_resting st = Some True then
            (let ord1 = ord\<lparr>tl_missing_since := None\<rparr> in
             case os_filled st of
               Some part \<Rightarrow>
                 if 0 < part then
                   (let w2 = size_w venue ord1 part 0 w1
                    in if tl_quantity ord1 \<le> part then (None, w2) else stale_backstop venue stale ord1 w2)
                 else stale_backstop venue stale ord1 w1
             | None \<Rightarrow> stale_backstop venue stale ord1 w1)
          else
            (case os_filled st of
               Some traded \<Rightarrow>
                 if 0 < traded then (None, size_w venue ord traded 0 w1)
                 else if os_resting st = Some False then (None, snd (release_w ord w1))
                 else grace_clock venue ord w1
             | None \<Rightarrow> grace_clock venue ord w1)
      | (_, w1) \<Rightarrow> grace_clock venue ord w1)"

definition pass1_quote ::
  "'v world execution \<Rightarrow> bool \<Rightarrow> (order_id \<Rightarrow> decimal option) \<Rightarrow> bool \<Rightarrow> tracked_leg \<Rightarrow> 'v world \<Rightarrow>
   tracked_leg option \<times> 'v world" where
  "pass1_quote venue open_known open_filled stale ord w =
     (if tl_cancelled ord then pass1_cancelled venue ord w
      else if \<not> open_known then (Some ord, w)
      else case open_filled (tl_id ord) of
        Some part \<Rightarrow>
          (let ord1 = ord\<lparr>tl_missing_since := None\<rparr> in
           if 0 < part then
             (let w1 = size_w venue ord1 part 0 w
              in if tl_quantity ord1 \<le> part then (None, w1) else stale_backstop venue stale ord1 w1)
           else stale_backstop venue stale ord1 w)
      | None \<Rightarrow> pass1_unlisted venue stale ord w)"

definition held_on :: "(market_id \<Rightarrow> decimal option) \<Rightarrow> market_id \<Rightarrow> decimal" where
  "held_on held m = (case held m of None \<Rightarrow> 0 | Some x \<Rightarrow> x)"

definition pass1_pair_leg ::
  "'v world execution \<Rightarrow> (market_id \<Rightarrow> decimal option) \<Rightarrow> bool \<Rightarrow> tracked_leg \<Rightarrow> 'v world \<Rightarrow>
   tracked_leg option \<times> 'v world" where
  "pass1_pair_leg venue held stale ord w =
     (if 0 < held_on held (tl_market ord)
      then (None, upd_lc (confirm_guard (ex_utc_now venue w) (tl_strategy ord) (tl_market ord)) w)
      else if stale
      then (None, upd_lc (clear_guard (tl_strategy ord) (tl_market ord)) (snd (ex_cancel venue (tl_id ord) w)))
      else (Some ord, w))"

definition pass1_order ::
  "'v world execution \<Rightarrow> (market_id \<Rightarrow> decimal option) \<Rightarrow> bool \<Rightarrow> (order_id \<Rightarrow> decimal option) \<Rightarrow>
   tracked_leg \<Rightarrow> 'v world \<Rightarrow> tracked_leg option \<times> 'v world" where
  "pass1_order venue held open_known open_filled ord w =
     (let stale = (tl_stale_after_secs ord \<le> elapsed_secs (ex_instant_now venue w) (tl_placed_at ord))
      in if tl_is_quote ord then pass1_quote venue open_known open_filled stale ord w
         else pass1_pair_leg venue held stale ord w)"

fun pass1 ::
  "'v world execution \<Rightarrow> (market_id \<Rightarrow> decimal option) \<Rightarrow> bool \<Rightarrow> (order_id \<Rightarrow> decimal option) \<Rightarrow>
   tracked_leg list \<Rightarrow> 'v world \<Rightarrow> tracked_leg list \<times> 'v world" where
  "pass1 venue held open_known open_filled [] w = ([], w)"
| "pass1 venue held open_known open_filled (ord # rest) w =
     (let (kept, w1) = pass1_order venue held open_known open_filled ord w;
          (keep, w2) = pass1 venue held open_known open_filled rest w1
      in (opt_list kept @ keep, w2))"

section \<open>The merge into the tracked list\<close>

text \<open>Settled: in the snapshot and not kept.  Tracked since the snapshot: left alone.  (A collected
  hash map keeps the last entry of a repeated key.)\<close>

definition merge_tracked :: "order_id set \<Rightarrow> tracked_leg list \<Rightarrow> tracked_leg list \<Rightarrow> tracked_leg list" where
  "merge_tracked snapshot_ids keep tracked =
     (let kept = map_of (rev (map (\<lambda>t. (tl_id t, (tl_missing_since t, tl_cancelled t))) keep))
      in map (\<lambda>t. case kept (tl_id t) of
                None \<Rightarrow> t
              | Some (ms, c) \<Rightarrow> t\<lparr>tl_missing_since := ms, tl_cancelled := tl_cancelled t \<or> c\<rparr>)
           (filter (\<lambda>t. tl_id t \<notin> snapshot_ids \<or> kept (tl_id t) \<noteq> None) tracked))"

section \<open>Pass 2: naked legs\<close>

record orphan =
  or_strategy :: string
  or_token :: market_id
  or_shares :: decimal
  or_market_name :: string
  or_avg_entry :: decimal
  or_partner :: market_id

definition orphan_of ::
  "string \<Rightarrow> (market_id \<Rightarrow> decimal option) \<Rightarrow> market_id set \<Rightarrow> position_key \<times> position \<Rightarrow> orphan option" where
  "orphan_of squadron held resting kp =
     (let (k, p) = kp in
      if k_squadron k \<noteq> squadron then None
      else case p_paired_leg_token_id p of
        None \<Rightarrow> None
      | Some partner \<Rightarrow>
          if lone_leg_policy (k_strategy k) = HoldAndManage then None
          else if p_fill_confirmed_at p \<noteq> None \<and> 0 < held_on held (k_market k)
                  \<and> \<not> 0 < held_on held partner \<and> partner \<notin> resting
          then Some \<lparr>or_strategy = k_strategy k, or_token = k_market k, or_shares = p_shares p,
                     or_market_name = p_market_name p, or_avg_entry = p_avg_entry p,
                     or_partner = partner\<rparr>
          else None)"

definition orphans :: "(market_id \<Rightarrow> decimal option) \<Rightarrow> market_id set \<Rightarrow> lifecycle \<Rightarrow> orphan list" where
  "orphans held resting lc =
     List.map_filter (orphan_of (lc_squadron_id lc) held resting) (lc_positions lc)"

definition sold_after_kill :: "(market_id \<Rightarrow> decimal option) \<Rightarrow> lifecycle \<Rightarrow> (string \<times> market_id) list" where
  "sold_after_kill held lc =
     map (\<lambda>(k, _). (k_strategy k, k_market k))
       (filter (\<lambda>(k, _). k_squadron k = lc_squadron_id lc \<and> k_market k \<in> lc_killed_flattens lc
                        \<and> held_on held (k_market k) \<le> 0) (lc_positions lc))"

definition clear_sold :: "string \<times> market_id \<Rightarrow> lifecycle \<Rightarrow> lifecycle" where
  "clear_sold st lc =
     (let (strategy, tok) = st
      in clear_guard strategy tok (lc\<lparr>lc_killed_flattens := lc_killed_flattens lc - {tok}\<rparr>))"

definition flatten_booking :: "decimal \<Rightarrow> decimal \<Rightarrow> decimal \<Rightarrow> (decimal \<times> decimal) option" where
  "flatten_booking filled price limit_sent =
     (if filled \<le> 0 then None else Some (filled, if 0 < price then price else limit_sent))"

definition rehedge_limit_if_viable :: "decimal \<Rightarrow> decimal \<Rightarrow> decimal \<Rightarrow> decimal option" where
  "rehedge_limit_if_viable ask filled_avg_entry buffer =
     (if ask \<le> 0 then None
      else let limit = ask + 1 / 100
           in if limit \<le> 1 - filled_avg_entry - buffer then Some limit else None)"

definition fak_intent :: "lifecycle_config \<Rightarrow> side \<Rightarrow> market_id \<Rightarrow> decimal \<Rightarrow> decimal \<Rightarrow> order_intent" where
  "fak_intent cfg sd market quantity price =
     \<lparr>oi_market = market, oi_side = sd, oi_quantity = quantity, oi_price = price, oi_tif = Fak,
      oi_post_only = False, oi_expiration_secs = 0, oi_is_neg_risk = cfg_flatten_is_neg_risk cfg,
      oi_fee_bps = 0\<rparr>"

text \<open>The attempt to buy the missing partner: whether the pair was completed.\<close>

definition try_rehedge :: "'v world execution \<Rightarrow> orphan \<Rightarrow> 'v world \<Rightarrow> bool \<times> 'v world" where
  "try_rehedge venue orp w =
     (case ex_best_ask venue (or_partner orp) w of
        (Inr (Some ask), w1) \<Rightarrow>
          (let cfg = lc_cfg (fst w1) in
           case rehedge_limit_if_viable ask (or_avg_entry orp) (cfg_rehedge_buffer cfg) of
             None \<Rightarrow> (False, w1)
           | Some limit \<Rightarrow>
               (case ex_place_order venue (fak_intent cfg Buy (or_partner orp) (or_shares orp) limit) w1 of
                  (Inr f, w2) \<Rightarrow>
                    if 0 < f_filled f then
                      (True, upd_lc (\<lambda>lc. set_guard (guard_key lc (or_strategy orp) (or_partner orp))
                         \<lparr>p_shares = f_filled f,
                          p_avg_entry = (if 0 < f_price f then f_price f else limit),
                          p_opened_at = ex_utc_now venue w2, p_close_time = None,
                          p_market_name = or_market_name orp, p_pair_token_id = or_partner orp,
                          p_fill_confirmed_at = Some (ex_utc_now venue w2),
                          p_paired_leg_token_id = Some (or_token orp), p_entry_fee = f_fee f\<rparr> lc) w2)
                    else (False, w2)
                | (Inl _, w2) \<Rightarrow> (False, w2)))
      | (_, w1) \<Rightarrow> (False, w1))"

definition flatten_leg :: "'v world execution \<Rightarrow> orphan \<Rightarrow> 'v world \<Rightarrow> flattened_leg list \<times> 'v world" where
  "flatten_leg venue orp w =
     (let cfg = lc_cfg (fst w);
          limit = cfg_flatten_sell_limit cfg;
          tok = or_token orp
      in case ex_place_order venue (fak_intent cfg Sell tok (or_shares orp) limit) w of
           (Inr f, w1) \<Rightarrow>
             (case flatten_booking (f_filled f) (f_price f) limit of
                None \<Rightarrow>
                  ([], upd_lc (\<lambda>lc. lc\<lparr>lc_killed_flattens := insert tok (lc_killed_flattens lc)\<rparr>) w1)
              | Some (exit_shares, exit_price) \<Rightarrow>
                  ([\<lparr>fl_strategy = or_strategy orp, fl_market_name = or_market_name orp,
                     fl_shares = exit_shares, fl_avg_entry = or_avg_entry orp,
                     fl_exit_price = exit_price, fl_token_id = tok\<rparr>],
                   upd_lc (\<lambda>lc. clear_guard (or_strategy orp) tok
                     (lc\<lparr>lc_killed_flattens := lc_killed_flattens lc - {tok}\<rparr>)) w1))
         | (Inl _, w1) \<Rightarrow> ([], upd_lc (clear_guard (or_strategy orp) tok) w1))"

definition repair_orphan :: "'v world execution \<Rightarrow> orphan \<Rightarrow> 'v world \<Rightarrow> flattened_leg list \<times> 'v world" where
  "repair_orphan venue orp w =
     (case try_rehedge venue orp w of
        (True, w1) \<Rightarrow> ([], w1)
      | (False, w1) \<Rightarrow> flatten_leg venue orp w1)"

fun repair_orphans ::
  "'v world execution \<Rightarrow> orphan list \<Rightarrow> 'v world \<Rightarrow> flattened_leg list \<times> 'v world" where
  "repair_orphans venue [] w = ([], w)"
| "repair_orphans venue (orp # rest) w =
     (let (fl, w1) = repair_orphan venue orp w;
          (fls, w2) = repair_orphans venue rest w1
      in (fl @ fls, w2))"

section \<open>The pass\<close>

definition held_map :: "venue_position list \<Rightarrow> market_id \<Rightarrow> decimal option" where
  "held_map ps = map_of (rev (map (\<lambda>p. (vp_market p, vp_shares p)) ps))"

definition venue_resting :: "open_order list \<Rightarrow> market_id set" where
  "venue_resting os = set (map oo_market (filter (\<lambda>ord. oo_is_resting ord \<and> 0 < remaining_qty ord) os))"

definition venue_open_filled :: "open_order list \<Rightarrow> order_id \<Rightarrow> decimal option" where
  "venue_open_filled os = map_of (rev (map (\<lambda>ord. (oo_order_id ord, oo_filled_qty ord)) os))"

definition reconcile_tracked ::
  "'v world execution \<Rightarrow> (market_id \<Rightarrow> decimal option) \<Rightarrow> bool \<Rightarrow> open_order list \<Rightarrow> 'v world \<Rightarrow>
   market_id set \<times> 'v world" where
  "reconcile_tracked venue held open_known venue_open w =
     (let snapshot = lc_tracked (fst w);
          (keep, w1) = pass1 venue held open_known (venue_open_filled venue_open) snapshot w
      in (set (map tl_market keep) \<union> venue_resting venue_open,
          upd_lc (\<lambda>lc. lc\<lparr>lc_tracked := merge_tracked (set (map tl_id snapshot)) keep (lc_tracked lc)\<rparr>) w1))"

definition reconcile_naked ::
  "'v world execution \<Rightarrow> (market_id \<Rightarrow> decimal option) \<Rightarrow> market_id set \<Rightarrow> 'v world \<Rightarrow>
   flattened_leg list \<times> 'v world" where
  "reconcile_naked venue held resting w =
     (let orps = orphans held resting (fst w);
          sold = sold_after_kill held (fst w)
      in repair_orphans venue orps (upd_lc (\<lambda>lc. fold clear_sold sold lc) w))"

definition reconcile :: "'v world execution \<Rightarrow> 'v world \<Rightarrow> flattened_leg list \<times> 'v world" where
  "reconcile venue w =
     (case ex_positions venue w of
        (Inl _, w1) \<Rightarrow> ([], w1)
      | (Inr ps, w1) \<Rightarrow>
          (let (venue_open, open_known, w2) =
                 (case ex_open_orders venue w1 of
                    (Inr v, w') \<Rightarrow> (v, True, w')
                  | (Inl _, w') \<Rightarrow> ([], False, w'));
               (resting, w3) = reconcile_tracked venue (held_map ps) open_known venue_open w2
           in reconcile_naked venue (held_map ps) resting w3))"

end
