(* ===== verification/Lifecycle_Contracts.thy ===== *)
theory Lifecycle_Contracts
  imports Lifecycle_Reconcile
begin

text \<open>
  Contracts of the order lifecycle as relations between the state before and after, in the style of
  rely and guarantee.  A relation that is a preorder and holds across the primitive updates (sizing a
  guard, releasing a quote, changing the tracked list) holds across every settling operation, for
  every venue whose calls, with whatever other tasks did meanwhile, keep to the relation too.
  The larger contract adds the updates only \<open>reconcile\<close> makes.
\<close>

definition call_respects ::
  "(lifecycle \<Rightarrow> lifecycle \<Rightarrow> bool) \<Rightarrow> ('v world, 'a) venue_call \<Rightarrow> bool" where
  "call_respects R c \<longleftrightarrow> (\<forall>w. R (fst w) (fst (snd (c w))))"

definition venue_respects :: "(lifecycle \<Rightarrow> lifecycle \<Rightarrow> bool) \<Rightarrow> 'v world execution \<Rightarrow> bool" where
  "venue_respects R venue \<longleftrightarrow>
     (\<forall>i. call_respects R (ex_place_order venue i)) \<and> (\<forall>i. call_respects R (ex_cancel venue i)) \<and>
     call_respects R (ex_positions venue) \<and> call_respects R (ex_open_orders venue) \<and>
     (\<forall>i. call_respects R (ex_order_state venue i)) \<and> (\<forall>m. call_respects R (ex_best_ask venue m))"

section \<open>The settling contract\<close>

locale settling_contract =
  fixes R :: "lifecycle \<Rightarrow> lifecycle \<Rightarrow> bool"
  assumes R_refl: "R lc lc"
    and R_trans: "R a b \<Longrightarrow> R b c \<Longrightarrow> R a c"
    and R_size: "R lc (snd (size_and_confirm now ord traded price lc))"
    and R_release: "R lc (snd (release_quote ord lc))"
    and R_tracked: "R lc (lc\<lparr>lc_tracked := ts\<rparr>)"
begin

lemma size_w_R: "R (fst w) (fst (size_w venue ord traded price w))"
  by (simp add: size_w_def R_size)

lemma release_w_R: "R (fst w) (fst (snd (release_w ord w)))"
  by (simp add: release_w_def R_release)

lemma mark_R: "R (fst w) (fst (upd_lc (mark_cancelled now oid) w))"
  by (simp add: mark_cancelled_def R_tracked)

lemma untrack_R: "R (fst w) (fst (upd_lc (untrack oid) w))"
  by (simp add: untrack_def R_tracked)

lemma tracked_R: "R (fst w) (fst (upd_lc (\<lambda>lc. lc\<lparr>lc_tracked := f lc\<rparr>) w))"
  by (simp add: R_tracked)

lemma order_state_R:
  "venue_respects R venue \<Longrightarrow> ex_order_state venue oid w = (r, w1) \<Longrightarrow> R (fst w) (fst w1)"
  unfolding venue_respects_def call_respects_def by (metis snd_conv)

lemma cancel_R: "venue_respects R venue \<Longrightarrow> ex_cancel venue oid w = (r, w1) \<Longrightarrow> R (fst w) (fst w1)"
  unfolding venue_respects_def call_respects_def by (metis snd_conv)

lemma after: "R (fst w) (fst w1) \<Longrightarrow> R (fst w1) (fst w2) \<Longrightarrow> R (fst w) (fst w2)"
  by (rule R_trans)

lemma release_after:
  assumes "R (fst w) (fst w1)" and "release_w ord w1 = (b, lc2, v2)"
  shows "R (fst w) lc2"
  using after [OF assms(1), of "(lc2, v2)"] release_w_R [of w1 ord] assms(2) by simp

lemma settle_cancel_R:
  assumes "venue_respects R venue"
  shows "R (fst w) (fst (snd (settle_cancel venue ord w)))"
proof -
  obtain r w1 where c: "ex_order_state venue (tl_id ord) w = (r, w1)" by (cases "ex_order_state venue (tl_id ord) w")
  note r1 = order_state_R [OF assms c]
  show ?thesis
    using r1 by (auto simp: settle_cancel_def c split: sum.split option.split prod.split
        intro: release_after after [OF r1 size_w_R])
qed

lemma settle_refused_R:
  assumes "venue_respects R venue"
  shows "R (fst w) (fst (snd (settle_refused_cancel venue ord w)))"
proof -
  obtain r w1 where c: "ex_order_state venue (tl_id ord) w = (r, w1)" by (cases "ex_order_state venue (tl_id ord) w")
  note r1 = order_state_R [OF assms c]
  show ?thesis
    using r1 by (auto simp: settle_refused_cancel_def c Let_def split: sum.split option.split prod.split
        intro: release_after after [OF r1 size_w_R] after [OF r1 mark_R] simp del: upd_lc_sel)
qed

lemma cancel_resting_one_R:
  assumes "venue_respects R venue"
  shows "R (fst w) (fst (snd (cancel_resting_one venue ord w)))"
proof -
  obtain r w1 where c: "ex_cancel venue (tl_id ord) w = (r, w1)" by (cases "ex_cancel venue (tl_id ord) w")
  note r1 = cancel_R [OF assms c]
  obtain s w2 where s: "settle_cancel venue ord w1 = (s, w2)" by (cases "settle_cancel venue ord w1")
  obtain s' w2' where s': "settle_refused_cancel venue ord w1 = (s', w2')"
    by (cases "settle_refused_cancel venue ord w1")
  have r2: "R (fst w) (fst w2)" using after [OF r1] settle_cancel_R [OF assms, of w1 ord] by (simp add: s)
  have r2': "R (fst w) (fst w2')" using after [OF r1] settle_refused_R [OF assms, of w1 ord] by (simp add: s')
  show ?thesis
    using r2 r2' by (auto simp: cancel_resting_one_def c s s' split: sum.split cancel_outcome.split option.split
        intro: after [OF r2 mark_R] after [OF r2 untrack_R] after [OF r2' untrack_R] simp del: upd_lc_sel)
qed

lemma cancel_resting_loop_R:
  assumes "venue_respects R venue"
  shows "R (fst w) (fst (snd (cancel_resting_loop venue ords w)))"
proof (induction ords arbitrary: w)
  case (Cons ord rest)
  show ?case
    using after [OF cancel_resting_one_R [OF assms, of w ord] Cons.IH] by (simp add: Let_def split_beta)
qed (simp add: R_refl)

lemma cancel_resting_for_R:
  "venue_respects R venue \<Longrightarrow> R (fst w) (fst (snd (cancel_resting_for venue strategy market w)))"
  unfolding cancel_resting_for_def by (rule cancel_resting_loop_R)

lemma cancel_all_one_R:
  assumes "venue_respects R venue"
  shows "R (fst w) (fst (snd (cancel_all_one venue ord w)))"
proof -
  obtain r w1 where c: "ex_cancel venue (tl_id ord) w = (r, w1)" by (cases "ex_cancel venue (tl_id ord) w")
  note r1 = cancel_R [OF assms c]
  obtain s w2 where s: "settle_cancel venue ord w1 = (s, w2)" by (cases "settle_cancel venue ord w1")
  obtain s' w2' where s': "settle_refused_cancel venue ord w1 = (s', w2')"
    by (cases "settle_refused_cancel venue ord w1")
  have r2: "R (fst w) (fst w2)" using after [OF r1] settle_cancel_R [OF assms, of w1 ord] by (simp add: s)
  have r2': "R (fst w) (fst w2')" using after [OF r1] settle_refused_R [OF assms, of w1 ord] by (simp add: s')
  show ?thesis
    using r2 r2' by (auto simp: cancel_all_one_def Let_def c s s' split: sum.split cancel_outcome.split option.split
        intro: after [OF r2 mark_R] simp del: upd_lc_sel)
qed

lemma cancel_all_loop_R:
  assumes "venue_respects R venue"
  shows "R (fst w) (fst (snd (cancel_all_loop venue ords w)))"
proof (induction ords arbitrary: w)
  case (Cons ord rest)
  show ?case
    using after [OF cancel_all_one_R [OF assms, of w ord] Cons.IH] by (simp add: Let_def split_beta)
qed (simp add: R_refl)

lemma cancel_all_R:
  assumes "venue_respects R venue"
  shows "R (fst w) (fst (snd (cancel_all venue w)))"
  using after [OF cancel_all_loop_R [OF assms, of w "lc_tracked (fst w)"] tracked_R]
  by (simp add: cancel_all_def Let_def split_beta)

lemma stale_backstop_R:
  assumes "venue_respects R venue"
  shows "R (fst w) (fst (snd (stale_backstop venue stale ord w)))"
proof -
  obtain r w1 where c: "ex_cancel venue (tl_id ord) w = (r, w1)" by (cases "ex_cancel venue (tl_id ord) w")
  note r1 = cancel_R [OF assms c]
  obtain s w2 where s: "settle_cancel venue ord w1 = (s, w2)" by (cases "settle_cancel venue ord w1")
  have r2: "R (fst w) (fst w2)" using after [OF r1] settle_cancel_R [OF assms, of w1 ord] by (simp add: s)
  show ?thesis
    using r1 r2 by (auto simp: stale_backstop_def c s R_refl split: sum.split cancel_outcome.split)
qed

lemma grace_clock_R: "R (fst w) (fst (snd (grace_clock venue ord w)))"
  by (simp add: grace_clock_def Let_def release_w_R R_refl)

lemma pass1_cancelled_R:
  assumes "venue_respects R venue"
  shows "R (fst w) (fst (snd (pass1_cancelled venue ord w)))"
proof -
  obtain r w1 where c: "ex_order_state venue (tl_id ord) w = (r, w1)" by (cases "ex_order_state venue (tl_id ord) w")
  note r1 = order_state_R [OF assms c]
  show ?thesis
    by (auto simp: pass1_cancelled_def c split: sum.split option.split
        intro: after [OF r1 size_w_R] after [OF r1 release_w_R] after [OF r1 grace_clock_R])
qed

lemma pass1_unlisted_R:
  assumes "venue_respects R venue"
  shows "R (fst w) (fst (snd (pass1_unlisted venue stale ord w)))"
proof -
  obtain r w1 where c: "ex_order_state venue (tl_id ord) w = (r, w1)" by (cases "ex_order_state venue (tl_id ord) w")
  note r1 = order_state_R [OF assms c]
  note backstop = stale_backstop_R [OF assms]
  show ?thesis
    by (auto simp: pass1_unlisted_def c Let_def split: sum.split option.split
        intro: after [OF r1 size_w_R] after [OF r1 release_w_R] after [OF r1 grace_clock_R]
          after [OF r1 backstop] after [OF after [OF r1 size_w_R] backstop])
qed

lemma pass1_quote_R:
  assumes "venue_respects R venue"
  shows "R (fst w) (fst (snd (pass1_quote venue known openf stale ord w)))"
  by (auto simp: pass1_quote_def Let_def R_refl split: option.split
      intro: pass1_cancelled_R [OF assms] pass1_unlisted_R [OF assms] size_w_R
        stale_backstop_R [OF assms] after [OF size_w_R stale_backstop_R [OF assms]])

lemma pass1_quotes_R:
  assumes "venue_respects R venue" and "\<forall>ord \<in> set ords. tl_is_quote ord"
  shows "R (fst w) (fst (snd (pass1 venue held known openf ords w)))"
  using assms(2)
proof (induction ords arbitrary: w)
  case (Cons ord rest)
  have one: "R (fst w) (fst (snd (pass1_order venue held known openf ord w)))"
    using Cons.prems by (simp add: pass1_order_def pass1_quote_R [OF assms(1)])
  from Cons.prems have "\<forall>ord \<in> set rest. tl_is_quote ord" by simp
  from after [OF one Cons.IH [OF this]] show ?case by (simp add: Let_def split_beta)
qed (simp add: R_refl)

end

section \<open>The reconcile contract\<close>

locale reconcile_contract = settling_contract +
  assumes R_confirm_guard: "R lc (confirm_guard now strategy market lc)"
    and R_clear_guard: "R lc (clear_guard strategy market lc)"
    and R_killed: "R lc (lc\<lparr>lc_killed_flattens := ks\<rparr>)"
    and R_own_guard: "R lc (set_guard (guard_key lc strategy market) p lc)"
begin

lemma call_R:
  assumes "venue_respects R venue"
  shows "ex_positions venue w = (r1, w1) \<Longrightarrow> R (fst w) (fst w1)"
    and "ex_open_orders venue w = (r2, w1) \<Longrightarrow> R (fst w) (fst w1)"
    and "ex_place_order venue i w = (r3, w1) \<Longrightarrow> R (fst w) (fst w1)"
    and "ex_best_ask venue m w = (r4, w1) \<Longrightarrow> R (fst w) (fst w1)"
  using assms unfolding venue_respects_def call_respects_def by (metis snd_conv)+

lemma pass1_order_R:
  assumes "venue_respects R venue"
  shows "R (fst w) (fst (snd (pass1_order venue held known openf ord w)))"
proof -
  obtain r w1 where c: "ex_cancel venue (tl_id ord) w = (r, w1)" by (cases "ex_cancel venue (tl_id ord) w")
  note r1 = cancel_R [OF assms c]
  have "R (fst w) (clear_guard (tl_strategy ord) (tl_market ord) (fst w1))"
    by (rule R_trans [OF r1 R_clear_guard])
  then show ?thesis
    by (simp add: pass1_order_def Let_def pass1_quote_R [OF assms] pass1_pair_leg_def c R_confirm_guard R_refl)
qed

lemma pass1_R:
  assumes "venue_respects R venue"
  shows "R (fst w) (fst (snd (pass1 venue held known openf ords w)))"
proof (induction ords arbitrary: w)
  case (Cons ord rest)
  show ?case using after [OF pass1_order_R [OF assms] Cons.IH] by (simp add: Let_def split_beta)
qed (simp add: R_refl)

lemma clear_sold_R: "R lc (clear_sold st lc)"
  by (simp add: clear_sold_def split_beta) (rule R_trans [OF R_killed R_clear_guard])

lemma clear_sold_fold_R: "R lc (fold clear_sold sts lc)"
  by (induction sts arbitrary: lc) (auto intro: R_refl R_trans [OF clear_sold_R])

lemma try_rehedge_R:
  assumes "venue_respects R venue"
  shows "R (fst w) (fst (snd (try_rehedge venue orp w)))"
proof -
  obtain r w1 where a: "ex_best_ask venue (or_partner orp) w = (r, w1)"
    by (cases "ex_best_ask venue (or_partner orp) w")
  note ra = call_R(4) [OF assms a]
  have rp: "R (fst w) (fst w2)" if "ex_place_order venue i w1 = (r', w2)" for i r' w2
    by (rule after [OF ra call_R(3) [OF assms that]])
  have rp': "R (fst w) lc2" if "ex_place_order venue i w1 = (r', lc2, v2)" for i r' lc2 v2
    using rp [OF that] by simp
  show ?thesis
    using ra by (auto simp: try_rehedge_def a Let_def split: sum.split option.split prod.split
        intro: rp rp' R_trans [OF rp' R_own_guard])
qed

lemma flatten_leg_R:
  assumes "venue_respects R venue"
  shows "R (fst w) (fst (snd (flatten_leg venue orp w)))"
proof -
  have rp: "R (fst w) lc2" if "ex_place_order venue i w = (r', lc2, v2)" for i r' lc2 v2
    using call_R(3) [OF assms that] by simp
  show ?thesis
    by (auto simp: flatten_leg_def Let_def split: sum.split option.split prod.split
        intro: R_trans [OF rp R_clear_guard] R_trans [OF rp R_killed]
          R_trans [OF rp R_trans [OF R_killed R_clear_guard]])
qed

lemma repair_orphan_R:
  assumes "venue_respects R venue"
  shows "R (fst w) (fst (snd (repair_orphan venue orp w)))"
proof -
  obtain ok w1 where t: "try_rehedge venue orp w = (ok, w1)" by (cases "try_rehedge venue orp w")
  have r1: "R (fst w) (fst w1)" using try_rehedge_R [OF assms, of w orp] by (simp add: t)
  with after [OF r1 flatten_leg_R [OF assms]] show ?thesis
    by (cases ok) (simp_all add: repair_orphan_def t)
qed

lemma repair_orphans_R:
  assumes "venue_respects R venue"
  shows "R (fst w) (fst (snd (repair_orphans venue orps w)))"
proof (induction orps arbitrary: w)
  case (Cons orp rest)
  show ?case using after [OF repair_orphan_R [OF assms] Cons.IH] by (simp add: Let_def split_beta)
qed (simp add: R_refl)

lemma reconcile_tracked_R:
  assumes "venue_respects R venue"
  shows "R (fst w) (fst (snd (reconcile_tracked venue held known vo w)))"
  using after [OF pass1_R [OF assms] tracked_R]
  by (simp add: reconcile_tracked_def Let_def split_beta)

lemma reconcile_naked_R:
  assumes "venue_respects R venue"
  shows "R (fst w) (fst (snd (reconcile_naked venue held resting w)))"
  using after [OF _ repair_orphans_R [OF assms], of w "upd_lc (fold clear_sold sts) w" for sts]
  by (simp add: reconcile_naked_def Let_def clear_sold_fold_R)

lemma reconcile_R:
  assumes "venue_respects R venue"
  shows "R (fst w) (fst (snd (reconcile venue w)))"
proof -
  obtain r w1 where p: "ex_positions venue w = (r, w1)" by (cases "ex_positions venue w")
  obtain r' w2 where q: "ex_open_orders venue w1 = (r', w2)" by (cases "ex_open_orders venue w1")
  note r1 = call_R(1) [OF assms p]
  note r2 = after [OF r1 call_R(2) [OF assms q]]
  have body: "R (fst w) (fst (snd (let (resting, w3) = reconcile_tracked venue held known vo w2
                            in reconcile_naked venue held resting w3)))" for held known vo
    using after [OF after [OF r2 reconcile_tracked_R [OF assms]] reconcile_naked_R [OF assms]]
    by (simp add: split_beta)
  show ?thesis
  proof (cases r)
    case (Inl e)
    then show ?thesis using r1 by (simp add: reconcile_def p)
  next
    case (Inr ps)
    then show ?thesis using body by (cases r') (simp_all add: reconcile_def p q)
  qed
qed

end

section \<open>The contracts the lifecycle keeps\<close>

text \<open>A guard whose fill is confirmed stays in the map, confirmed, under the same opening.\<close>

definition keeps_confirmed :: "lifecycle \<Rightarrow> lifecycle \<Rightarrow> bool" where
  "keeps_confirmed a b \<longleftrightarrow> lc_squadron_id b = lc_squadron_id a \<and>
     (\<forall>k p. hm_get (lc_positions a) k = Some p \<longrightarrow> p_fill_confirmed_at p \<noteq> None \<longrightarrow>
       (\<exists>q. hm_get (lc_positions b) k = Some q \<and> p_fill_confirmed_at q = p_fill_confirmed_at p
            \<and> p_opened_at q = p_opened_at p))"

text \<open>The positions of every other squadron are untouched.\<close>

definition own_squadron_only :: "lifecycle \<Rightarrow> lifecycle \<Rightarrow> bool" where
  "own_squadron_only a b \<longleftrightarrow> lc_squadron_id b = lc_squadron_id a \<and>
     (\<forall>k. k_squadron k \<noteq> lc_squadron_id a \<longrightarrow> hm_get (lc_positions b) k = hm_get (lc_positions a) k)"

text \<open>No guard appears.\<close>

definition no_new_guard :: "lifecycle \<Rightarrow> lifecycle \<Rightarrow> bool" where
  "no_new_guard a b \<longleftrightarrow> lc_squadron_id b = lc_squadron_id a \<and>
     (\<forall>k. hm_get (lc_positions a) k = None \<longrightarrow> hm_get (lc_positions b) k = None)"

definition keeps_map_wf :: "lifecycle \<Rightarrow> lifecycle \<Rightarrow> bool" where
  "keeps_map_wf a b \<longleftrightarrow> (hm_wf (lc_positions a) \<longrightarrow> hm_wf (lc_positions b))"

lemma sized_guard_keeps:
  "sized_guard now ord traded price p = (p', filled) \<Longrightarrow>
     p_opened_at p' = p_opened_at p \<and> p_fill_confirmed_at p' \<noteq> None
     \<and> (p_fill_confirmed_at p \<noteq> None \<longrightarrow> p_fill_confirmed_at p' = p_fill_confirmed_at p)
     \<and> p_shares p' = filled"
  by (auto simp: sized_guard_def Let_def split: if_splits)

lemmas guard_ops = size_and_confirm_def release_quote_def set_guard_def drop_guard_def guard_key_def
  confirm_guard_def clear_guard_def Let_def

lemma keeps_confirmed_size: "keeps_confirmed lc (snd (size_and_confirm now ord traded price lc))"
  by (auto simp: keeps_confirmed_def guard_ops split: option.split prod.split dest!: sized_guard_keeps)

lemma keeps_confirmed_release: "keeps_confirmed lc (snd (release_quote ord lc))"
  by (auto simp: keeps_confirmed_def guard_ops split: option.split)

lemma own_squadron_size: "own_squadron_only lc (snd (size_and_confirm now ord traded price lc))"
  by (auto simp: own_squadron_only_def guard_ops split: option.split prod.split)

lemma own_squadron_release: "own_squadron_only lc (snd (release_quote ord lc))"
  by (auto simp: own_squadron_only_def guard_ops split: option.split)

lemma no_new_guard_size: "no_new_guard lc (snd (size_and_confirm now ord traded price lc))"
  by (auto simp: no_new_guard_def guard_ops split: option.split prod.split)

lemma no_new_guard_release: "no_new_guard lc (snd (release_quote ord lc))"
  by (auto simp: no_new_guard_def guard_ops split: option.split)

interpretation confirmed: settling_contract keeps_confirmed
proof unfold_locales
  fix a b c
  show "keeps_confirmed a b \<Longrightarrow> keeps_confirmed b c \<Longrightarrow> keeps_confirmed a c"
    unfolding keeps_confirmed_def by (metis (no_types, lifting))
qed (simp_all add: keeps_confirmed_size keeps_confirmed_release, simp_all add: keeps_confirmed_def)

interpretation no_new: settling_contract no_new_guard
  by unfold_locales
    (simp_all add: no_new_guard_size no_new_guard_release, simp_all add: no_new_guard_def)

interpretation own: reconcile_contract own_squadron_only
  by unfold_locales
    (simp_all add: own_squadron_size own_squadron_release, auto simp: own_squadron_only_def guard_ops split: option.split)

interpretation map_wf: reconcile_contract keeps_map_wf
  by unfold_locales (auto simp: keeps_map_wf_def guard_ops split: option.split prod.split)

end
