(* ===== verification/Lifecycle_Properties.thy ===== *)
theory Lifecycle_Properties
  imports Lifecycle_Contracts
begin

text \<open>
  What the order lifecycle guarantees, derived from its contracts and from the functional behaviour
  of its operations, with a scripted venue for the concrete instances.
\<close>

section \<open>A scripted venue\<close>

text \<open>Fixed answers; the rest of the world is one clock reading, used for both clocks.\<close>

definition desk_venue ::
  "(order_id \<Rightarrow> string + unit) \<Rightarrow> (order_id \<Rightarrow> string + order_state option) \<Rightarrow>
   string + venue_position list \<Rightarrow> string + open_order list \<Rightarrow> (order_intent \<Rightarrow> string + fill) \<Rightarrow>
   (market_id \<Rightarrow> string + decimal option) \<Rightarrow> int world execution" where
  "desk_venue cancels states held opens places asks =
     \<lparr>ex_place_order = (\<lambda>i w. (places i, w)), ex_cancel = (\<lambda>oid w. (cancels oid, w)),
      ex_collateral = (\<lambda>w. (Inr 0, w)), ex_positions = (\<lambda>w. (held, w)),
      ex_open_orders = (\<lambda>w. (opens, w)), ex_order_state = (\<lambda>oid w. (states oid, w)),
      ex_best_ask = (\<lambda>m w. (asks m, w)), ex_instant_now = snd, ex_utc_now = snd\<rparr>"

lemma desk_venue_sel [simp]:
  "ex_place_order (desk_venue c s h op pl a) i w = (pl i, w)"
  "ex_cancel (desk_venue c s h op pl a) oid w = (c oid, w)"
  "ex_positions (desk_venue c s h op pl a) w = (h, w)"
  "ex_open_orders (desk_venue c s h op pl a) w = (op, w)"
  "ex_order_state (desk_venue c s h op pl a) oid w = (s oid, w)"
  "ex_best_ask (desk_venue c s h op pl a) m w = (a m, w)"
  "ex_instant_now (desk_venue c s h op pl a) w = snd w"
  "ex_utc_now (desk_venue c s h op pl a) w = snd w"
  by (simp_all add: desk_venue_def)

lemma desk_venue_respects: "(\<And>lc. R lc lc) \<Longrightarrow> venue_respects R (desk_venue c s h op pl a)"
  by (simp add: venue_respects_def call_respects_def)

definition a_quote :: "string \<Rightarrow> string \<Rightarrow> string \<Rightarrow> tracked_leg" where
  "a_quote oid strategy market =
     \<lparr>tl_id = oid, tl_market = market, tl_strategy = strategy, tl_placed_at = 0, tl_quantity = 10,
      tl_stale_after_secs = 1800, tl_is_quote = True, tl_missing_since = None, tl_cancelled = False,
      tl_guard_opened_by = 5, tl_pair_market = None\<rparr>"

definition a_guard :: "market_id \<Rightarrow> utc option \<Rightarrow> market_id option \<Rightarrow> position" where
  "a_guard market confirmed partner =
     \<lparr>p_shares = 10, p_avg_entry = 2 / 5, p_opened_at = 1, p_close_time = None, p_market_name = ''mkt'',
      p_pair_token_id = market, p_fill_confirmed_at = confirmed, p_paired_leg_token_id = partner,
      p_entry_fee = 0\<rparr>"

definition a_key :: "string \<Rightarrow> string \<Rightarrow> string \<Rightarrow> position_key" where
  "a_key sq strategy market = \<lparr>k_squadron = sq, k_strategy = strategy, k_market = market\<rparr>"

definition a_desk :: "tracked_leg list \<Rightarrow> position_map \<Rightarrow> lifecycle" where
  "a_desk tracked pm = (lifecycle_new (lifecycle_us (1 / 50)) ''btc'' pm)\<lparr>lc_tracked := tracked\<rparr>"

lemmas desk_defs = a_quote_def a_guard_def a_key_def a_desk_def lifecycle_new_def lifecycle_us_def

section \<open>Positions survive\<close>

text \<open>C3: Standing down or rotating away never loses a position: whatever the venue answers to the
  cancels and the status reads, and whatever other tasks do meanwhile that keep confirmed guards,
  a guard whose fill is confirmed is still in the map, confirmed and under the same opening, after
  \<open>cancel_all\<close>.\<close>

theorem cancel_all_keeps_positions:
  assumes "venue_respects keeps_confirmed venue"
    and "hm_get (lc_positions (fst w)) k = Some p" and "p_fill_confirmed_at p \<noteq> None"
  shows "\<exists>q. hm_get (lc_positions (fst (snd (cancel_all venue w)))) k = Some q
    \<and> p_fill_confirmed_at q = p_fill_confirmed_at p \<and> p_opened_at q = p_opened_at p"
  using confirmed.cancel_all_R [OF assms(1), of w] assms(2,3) by (simp add: keeps_confirmed_def)

lemma cancel_all_keeps_positions_witness:
  "\<exists>q. hm_get (lc_positions (fst (snd (cancel_all
        (desk_venue (\<lambda>_. Inr ()) (\<lambda>_. Inr None) (Inr []) (Inr []) (\<lambda>_. Inl []) (\<lambda>_. Inr None))
        (a_desk [a_quote ''o1'' ''MakerStrategy'' ''yes'']
          [(a_key ''btc'' ''MakerStrategy'' ''yes'', a_guard ''yes'' (Some 3) None)], 9)))))
      (a_key ''btc'' ''MakerStrategy'' ''yes'') = Some q
    \<and> p_fill_confirmed_at q = Some 3 \<and> p_opened_at q = 1"
  using cancel_all_keeps_positions [OF desk_venue_respects [OF confirmed.R_refl],
      of "(a_desk [a_quote ''o1'' ''MakerStrategy'' ''yes'']
          [(a_key ''btc'' ''MakerStrategy'' ''yes'', a_guard ''yes'' (Some 3) None)], 9)"
        "a_key ''btc'' ''MakerStrategy'' ''yes''" "a_guard ''yes'' (Some 3) None"]
  by (simp add: desk_defs)

text \<open>Pulling a viper's resting quotes, and a reconcile pass over resting quotes (stale cancels,
  vanished orders and the grace clock included), never lose a position either.\<close>

theorem quote_settling_keeps_positions:
  assumes "venue_respects keeps_confirmed venue" and "\<forall>ord \<in> set ords. tl_is_quote ord"
  shows "keeps_confirmed (fst w) (fst (snd (cancel_resting_for venue strategy market w)))
    \<and> keeps_confirmed (fst w) (fst (snd (pass1 venue held known openf ords w)))"
  using confirmed.cancel_resting_for_R [OF assms(1)] confirmed.pass1_quotes_R [OF assms] by blast

lemma quote_settling_keeps_positions_witness:
  "keeps_confirmed (a_desk [] []) (fst (snd (pass1
     (desk_venue (\<lambda>_. Inr ()) (\<lambda>_. Inr None) (Inr []) (Inr []) (\<lambda>_. Inl []) (\<lambda>_. Inr None))
     (\<lambda>_. None) True (\<lambda>_. None) [a_quote ''o1'' ''MakerStrategy'' ''yes''] (a_desk [] [], 0))))"
  using quote_settling_keeps_positions [OF desk_venue_respects [OF confirmed.R_refl],
      of "[a_quote ''o1'' ''MakerStrategy'' ''yes'']" "(a_desk [] [], 0)"]
  by (simp add: a_quote_def)

text \<open>C17: A reconcile pass reaches its own squadron only: the guards of every other squadron on the same
  tokens are exactly as before, provided the venue calls left them alone.\<close>

theorem reconcile_own_squadron:
  assumes "venue_respects own_squadron_only venue" and "k_squadron k \<noteq> lc_squadron_id (fst w)"
  shows "hm_get (lc_positions (fst (snd (reconcile venue w)))) k = hm_get (lc_positions (fst w)) k"
  using own.reconcile_R [OF assms(1), of w] assms(2) by (simp add: own_squadron_only_def)

lemma reconcile_own_squadron_witness:
  "hm_get (lc_positions (fst (snd (reconcile
      (desk_venue (\<lambda>_. Inr ()) (\<lambda>_. Inr None) (Inr []) (Inr []) (\<lambda>_. Inl []) (\<lambda>_. Inr None))
      (a_desk [] [(a_key ''eth'' ''MakerStrategy'' ''yes'', a_guard ''yes'' None None)], 0)))))
     (a_key ''eth'' ''MakerStrategy'' ''yes'') = Some (a_guard ''yes'' None None)"
  using reconcile_own_squadron [OF desk_venue_respects [OF own.R_refl],
      of "a_key ''eth'' ''MakerStrategy'' ''yes''"
        "(a_desk [] [(a_key ''eth'' ''MakerStrategy'' ''yes'', a_guard ''yes'' None None)], 0)"]
  by (simp add: desk_defs)

section \<open>Released quotes\<close>

lemma release_w_gone:
  assumes "release_w ord w = (True, w2)"
  shows "lc_squadron_id (fst w2) = lc_squadron_id (fst w) \<and>
    hm_get (lc_positions (fst w2)) (guard_key (fst w) (tl_strategy ord) (tl_market ord)) = None"
  using assms by (auto simp: release_w_def guard_ops split: option.splits if_splits)

lemma settle_cancel_released:
  assumes "settle_cancel venue ord w = (Released, w2)" and "venue_respects no_new_guard venue"
  shows "hm_get (lc_positions (fst w2)) (guard_key (fst w) (tl_strategy ord) (tl_market ord)) = None"
proof -
  obtain r w1 where c: "ex_order_state venue (tl_id ord) w = (r, w1)"
    by (cases "ex_order_state venue (tl_id ord) w")
  have sq: "guard_key (fst w1) = guard_key (fst w)"
    using no_new.order_state_R [OF assms(2) c] by (simp add: no_new_guard_def guard_key_def fun_eq_iff)
  have "release_w ord w1 = (True, w2)"
    using assms(1) by (auto simp: settle_cancel_def c split: sum.splits option.splits if_splits prod.splits)
  from release_w_gone [OF this] show ?thesis by (simp add: sq)
qed

lemma settle_refused_released:
  assumes "settle_refused_cancel venue ord w = (Some Released, w2)" and "venue_respects no_new_guard venue"
  shows "hm_get (lc_positions (fst w2)) (guard_key (fst w) (tl_strategy ord) (tl_market ord)) = None"
proof -
  obtain r w1 where c: "ex_order_state venue (tl_id ord) w = (r, w1)"
    by (cases "ex_order_state venue (tl_id ord) w")
  have sq: "guard_key (fst w1) = guard_key (fst w)"
    using no_new.order_state_R [OF assms(2) c] by (simp add: no_new_guard_def guard_key_def fun_eq_iff)
  have "release_w ord w1 = (True, w2)"
    using assms(1)
    by (auto simp: settle_refused_cancel_def c Let_def split: sum.splits option.splits if_splits prod.splits)
  from release_w_gone [OF this] show ?thesis by (simp add: sq)
qed

lemma cancel_all_one_released:
  assumes "cancel_all_one venue ord w = ((settled, rel), w2)" and "venue_respects no_new_guard venue"
    and "rq \<in> set rel"
  shows "hm_get (lc_positions (fst w2)) (guard_key (fst w) (rq_strategy rq) (rq_market rq)) = None"
proof -
  obtain r w1 where c: "ex_cancel venue (tl_id ord) w = (r, w1)" by (cases "ex_cancel venue (tl_id ord) w")
  have sq: "guard_key (fst w1) = guard_key (fst w)"
    using no_new.cancel_R [OF assms(2) c] by (simp add: no_new_guard_def guard_key_def fun_eq_iff)
  show ?thesis
    using assms(1,3) settle_cancel_released [OF _ assms(2), of ord w1 w2]
      settle_refused_released [OF _ assms(2), of ord w1 w2]
    by (auto simp: cancel_all_one_def c sq Let_def split: sum.splits option.splits prod.splits cancel_outcome.splits)
qed

lemma cancel_all_loop_released:
  assumes "venue_respects no_new_guard venue"
  shows "rq \<in> set (snd (fst (cancel_all_loop venue ords w))) \<Longrightarrow>
    hm_get (lc_positions (fst (snd (cancel_all_loop venue ords w))))
      (guard_key (fst w) (rq_strategy rq) (rq_market rq)) = None"
proof (induction ords arbitrary: w)
  case (Cons ord rest)
  obtain settled rel w1 where one: "cancel_all_one venue ord w = ((settled, rel), w1)"
    by (metis prod.exhaust)
  let ?k = "guard_key (fst w) (rq_strategy rq) (rq_market rq)"
  have sq: "guard_key (fst w1) = guard_key (fst w)"
    using no_new.cancel_all_one_R [OF assms, of w ord]
    by (simp add: one no_new_guard_def guard_key_def fun_eq_iff)
  have rest: "no_new_guard (fst w1) (fst (snd (cancel_all_loop venue rest w1)))"
    by (rule no_new.cancel_all_loop_R [OF assms])
  show ?case
  proof (cases "rq \<in> set rel")
    case True
    from cancel_all_one_released [OF one assms True] rest show ?thesis
      by (simp add: one Let_def split_beta no_new_guard_def)
  next
    case False
    with Cons.prems have "rq \<in> set (snd (fst (cancel_all_loop venue rest w1)))"
      by (simp add: one Let_def split_beta)
    from Cons.IH [OF this] show ?thesis by (simp add: one Let_def split_beta sq)
  qed
qed simp

text \<open>A quote that \<open>cancel_all\<close> reports as released has no guard left, so the caller may close its
  pending row: no position can hide behind it.\<close>

theorem cancel_all_released_gone:
  assumes "venue_respects no_new_guard venue" and "rq \<in> set (fst (cancel_all venue w))"
  shows "hm_get (lc_positions (fst (snd (cancel_all venue w))))
    (guard_key (fst w) (rq_strategy rq) (rq_market rq)) = None"
  using cancel_all_loop_released [OF assms(1), of rq "lc_tracked (fst w)" w] assms(2)
  by (simp add: cancel_all_def Let_def split_beta)

lemma cancel_all_released_gone_witness:
  "hm_get (lc_positions (fst (snd (cancel_all
        (desk_venue (\<lambda>_. Inr ()) (\<lambda>_. Inr None) (Inr []) (Inr []) (\<lambda>_. Inl []) (\<lambda>_. Inr None))
        (a_desk [a_quote ''o1'' ''MakerStrategy'' ''yes'']
          [(a_key ''btc'' ''MakerStrategy'' ''yes'', a_guard ''yes'' None None)], 9)))))
      (a_key ''btc'' ''MakerStrategy'' ''yes'') = None"
  using cancel_all_released_gone [OF desk_venue_respects [OF no_new.R_refl],
      of "\<lparr>rq_strategy = ''MakerStrategy'', rq_market = ''yes''\<rparr>" "\<lambda>_. Inr ()" "\<lambda>_. Inr None" "Inr []" "Inr []"
         "\<lambda>_. Inl []" "\<lambda>_. Inr None"
         "(a_desk [a_quote ''o1'' ''MakerStrategy'' ''yes'']
          [(a_key ''btc'' ''MakerStrategy'' ''yes'', a_guard ''yes'' None None)], 9)"]
  by (simp add: desk_defs cancel_all_def cancel_all_one_def settle_cancel_def release_w_def guard_ops
      owns_guard_def)

lemma cancel_all_loop_settles:
  assumes "\<And>oid w. \<exists>w'. ex_cancel venue oid w = (Inr (), w')"
    and "\<And>oid w. \<exists>st w'. ex_order_state venue oid w = (Inr (Some st), w') \<and> os_filled st \<noteq> None"
  shows "fst (fst (cancel_all_loop venue ords w)) = map tl_id ords"
proof (induction ords arbitrary: w)
  case (Cons ord rest)
  obtain w1 where c: "ex_cancel venue (tl_id ord) w = (Inr (), w1)" using assms(1) by blast
  obtain st w2 where s: "ex_order_state venue (tl_id ord) w1 = (Inr (Some st), w2)" "os_filled st \<noteq> None"
    using assms(2) by blast
  obtain o3 w3 where sc: "settle_cancel venue ord w1 = (o3, w3)" by (cases "settle_cancel venue ord w1")
  then have "o3 \<noteq> OutcomeUnknown"
    using s(2) by (auto simp: settle_cancel_def s(1) Let_def split: prod.splits if_splits option.splits)
  then have "fst (fst (cancel_all_one venue ord w))"
    by (cases o3) (simp_all add: cancel_all_one_def c sc Let_def)
  with Cons.IH show ?case by (simp add: Let_def split_beta)
qed simp

text \<open>When the venue confirms every cancel and states every count, \<open>cancel_all\<close> leaves none of the
  orders it started with tracked, so a rotation that waits for an empty list goes ahead.\<close>

theorem cancel_all_settles:
  assumes "\<And>oid w. \<exists>w'. ex_cancel venue oid w = (Inr (), w')"
    and "\<And>oid w. \<exists>st w'. ex_order_state venue oid w = (Inr (Some st), w') \<and> os_filled st \<noteq> None"
    and "t \<in> set (lc_tracked (fst (snd (cancel_all venue w))))"
  shows "tl_id t \<notin> set (map tl_id (lc_tracked (fst w)))"
  using assms(3) cancel_all_loop_settles [OF assms(1,2)]
  by (auto simp: cancel_all_def Let_def split_beta)

definition settling_desk_venue :: "int world execution" where
  "settling_desk_venue = desk_venue (\<lambda>_. Inr ()) (\<lambda>_. Inr (Some \<lparr>os_filled = Some 0, os_resting = Some False\<rparr>))
     (Inr []) (Inr []) (\<lambda>_. Inl []) (\<lambda>_. Inr None)"

lemma cancel_all_settles_witness:
  "lc_tracked (fst (snd (cancel_all settling_desk_venue
     (a_desk [a_quote ''o1'' ''MakerStrategy'' ''yes''] [], 9)))) = []"
proof -
  let ?w = "(a_desk [a_quote ''o1'' ''MakerStrategy'' ''yes''] [], 9 :: int)"
  have "t \<notin> set (lc_tracked (fst (snd (cancel_all settling_desk_venue ?w))))" for t
  proof
    assume t: "t \<in> set (lc_tracked (fst (snd (cancel_all settling_desk_venue ?w))))"
    have "tl_id t \<notin> set (map tl_id (lc_tracked (fst ?w)))"
      by (rule cancel_all_settles [OF _ _ t]) (simp_all add: settling_desk_venue_def)
    moreover from t have "t \<in> set (lc_tracked (fst ?w))"
      by (simp add: settling_desk_venue_def cancel_all_def cancel_all_one_def settle_cancel_def
          release_w_def desk_defs guard_ops)
    ultimately show False by simp
  qed
  then show ?thesis by (metis neq_Nil_conv list.set_intros(1))
qed

section \<open>The reconcile pass\<close>

lemma pass1_order_quote_held:
  "tl_is_quote ord \<Longrightarrow> pass1_order venue held known openf ord w = pass1_order venue held' known openf ord w"
  by (simp add: pass1_order_def)

text \<open>A resting quote is settled by its own order only: the first pass of a reconcile over quotes
  gives the same result whatever the venue reports held on their legs, which may be another viper's.
  And when the open orders could not be read, quotes whose cancel is not pending are left exactly as
  they are, with no call made.\<close>

theorem quotes_ignore_holdings:
  assumes "\<forall>ord \<in> set ords. tl_is_quote ord"
  shows "pass1 venue held known openf ords w = pass1 venue held' known openf ords w
    \<and> ((\<forall>ord \<in> set ords. \<not> tl_cancelled ord) \<longrightarrow> pass1 venue held False openf ords w = (ords, w))"
  using assms
proof (induction ords arbitrary: w)
  case (Cons ord rest)
  from Cons.prems have q: "tl_is_quote ord" and rest: "\<forall>ord \<in> set rest. tl_is_quote ord" by simp_all
  show ?case
    using Cons.IH [OF rest] pass1_order_quote_held [OF q, of venue held known openf w held'] q
    by (auto simp: Let_def split_beta pass1_order_def pass1_quote_def)
qed simp

lemma quotes_ignore_holdings_witness:
  "pass1 (desk_venue (\<lambda>_. Inr ()) (\<lambda>_. Inr None) (Inr []) (Inl []) (\<lambda>_. Inl []) (\<lambda>_. Inr None))
     (\<lambda>_. Some 10) False (\<lambda>_. None) [a_quote ''o1'' ''MakerStrategy'' ''yes''] (a_desk [] [], 0)
   = ([a_quote ''o1'' ''MakerStrategy'' ''yes''], (a_desk [] [], 0))"
  using quotes_ignore_holdings [of "[a_quote ''o1'' ''MakerStrategy'' ''yes'']"
      "desk_venue (\<lambda>_. Inr ()) (\<lambda>_. Inr None) (Inr []) (Inl []) (\<lambda>_. Inl []) (\<lambda>_. Inr None)"
      "\<lambda>_. Some 10" _ "\<lambda>_. None" "(a_desk [] [], 0)"]
  by (simp add: a_quote_def)

lemma stale_backstop_id: "stale_backstop venue stale ord w = (Some t, w1) \<Longrightarrow> tl_id t = tl_id ord"
  by (auto simp: stale_backstop_def split: if_splits prod.splits sum.splits cancel_outcome.splits)

lemma grace_clock_id: "grace_clock venue ord w = (Some t, w1) \<Longrightarrow> tl_id t = tl_id ord"
  by (auto simp: grace_clock_def Let_def split: if_splits)

lemma pass1_order_id:
  assumes "pass1_order venue held known openf ord w = (Some t, w1)"
  shows "tl_id t = tl_id ord"
  using assms stale_backstop_id [where ord = "ord\<lparr>tl_missing_since := None\<rparr>" and t = t and ?w1.0 = w1 and venue = venue]
    grace_clock_id [where ord = ord and t = t and ?w1.0 = w1 and venue = venue]
  by (auto simp: pass1_order_def pass1_quote_def pass1_cancelled_def pass1_unlisted_def pass1_pair_leg_def
      Let_def split: if_splits prod.splits sum.splits option.splits)

lemma pass1_ids: "set (map tl_id (fst (pass1 venue held known openf ords w))) \<subseteq> set (map tl_id ords)"
proof (induction ords arbitrary: w)
  case (Cons ord rest)
  obtain kept w1 where o: "pass1_order venue held known openf ord w = (kept, w1)"
    by (cases "pass1_order venue held known openf ord w")
  have "set (map tl_id (opt_list kept)) \<subseteq> {tl_id ord}"
    using pass1_order_id [of venue held known openf ord w] o by (cases kept) auto
  with Cons.IH [of w1] show ?case by (auto simp: o Let_def split_beta)
qed simp

lemma merge_tracked_ids:
  "map tl_id (merge_tracked S keep tracked) =
     filter (\<lambda>i. i \<notin> S \<or> i \<in> set (map tl_id keep)) (map tl_id tracked)"
proof -
  let ?kept = "map_of (rev (map (\<lambda>t. (tl_id t, (tl_missing_since t, tl_cancelled t))) keep))"
  have mem: "?kept i \<noteq> None \<longleftrightarrow> i \<in> set (map tl_id keep)" for i
    by (auto simp: map_of_eq_None_iff image_image)
  have ids: "tl_id (case ?kept (tl_id t) of None \<Rightarrow> t
      | Some (ms, c) \<Rightarrow> t\<lparr>tl_missing_since := ms, tl_cancelled := tl_cancelled t \<or> c\<rparr>) = tl_id t" for t
    by (simp split: option.split prod.split)
  show ?thesis
    by (simp only: merge_tracked_def Let_def map_map comp_def ids mem filter_map)
qed

lemma merge_tracked_untouched:
  assumes "set (map tl_id keep) \<subseteq> S" and "t \<in> set tracked" and "tl_id t \<notin> S"
  shows "t \<in> set (merge_tracked S keep tracked)"
proof -
  let ?kept = "map_of (rev (map (\<lambda>t. (tl_id t, (tl_missing_since t, tl_cancelled t))) keep))"
  have "?kept (tl_id t) = None" using assms(1,3) by (auto simp: map_of_eq_None_iff)
  with assms(2,3) show ?thesis by (force simp: merge_tracked_def Let_def)
qed

text \<open>The merge after the first pass neither resurrects nor loses an order: an order tracked while
  the pass was awaiting the venue is left exactly as it is, an order settled meanwhile does not come
  back, and what remains of the snapshot is what the pass kept.\<close>

theorem reconcile_merge:
  fixes w :: "'v world" and venue :: "'v world execution" and held :: "market_id \<Rightarrow> decimal option"
    and known :: bool and vo :: "open_order list"
  defines "snap \<equiv> set (map tl_id (lc_tracked (fst w)))"
  defines "after1 \<equiv> pass1 venue held known (venue_open_filled vo) (lc_tracked (fst w)) w"
  defines "final \<equiv> lc_tracked (fst (snd (reconcile_tracked venue held known vo w)))"
  shows "(\<forall>t \<in> set (lc_tracked (fst (snd after1))). tl_id t \<notin> snap \<longrightarrow> t \<in> set final)
    \<and> set (map tl_id final) \<subseteq> set (map tl_id (lc_tracked (fst (snd after1))))
    \<and> (\<forall>t \<in> set final. tl_id t \<in> snap \<longrightarrow> tl_id t \<in> set (map tl_id (fst after1)))"
proof -
  have final: "final = merge_tracked snap (fst after1) (lc_tracked (fst (snd after1)))"
    by (simp add: final_def reconcile_tracked_def after1_def snap_def Let_def split_beta)
  have sub: "set (map tl_id (fst after1)) \<subseteq> snap"
    unfolding after1_def snap_def by (rule pass1_ids)
  have ids: "set (map tl_id final) = {i \<in> set (map tl_id (lc_tracked (fst (snd after1)))).
      i \<notin> snap \<or> i \<in> set (map tl_id (fst after1))}"
    unfolding final merge_tracked_ids by simp
  from ids have "t \<in> set final \<Longrightarrow> tl_id t \<notin> snap \<or> tl_id t \<in> set (map tl_id (fst after1))" for t
    by (metis (no_types, lifting) image_eqI list.set_map mem_Collect_eq)
  with ids merge_tracked_untouched [OF sub] show ?thesis
    unfolding final by blast
qed

lemma reconcile_merge_witness:
  "set (map tl_id (lc_tracked (fst (snd (reconcile_tracked
     (desk_venue (\<lambda>_. Inr ()) (\<lambda>_. Inl []) (Inr []) (Inl []) (\<lambda>_. Inl []) (\<lambda>_. Inr None))
     (\<lambda>_. None) False [] (a_desk [a_quote ''o1'' ''MakerStrategy'' ''yes''] [], 0)))))) \<subseteq> {''o1''}"
  using reconcile_merge [where w = "(a_desk [a_quote ''o1'' ''MakerStrategy'' ''yes''] [], 0)" and
      venue = "desk_venue (\<lambda>_. Inr ()) (\<lambda>_. Inl []) (Inr []) (Inl []) (\<lambda>_. Inl []) (\<lambda>_. Inr None)" and
      held = "\<lambda>_. None" and known = False and vo = "[]"]
  by (simp add: pass1_order_def pass1_quote_def desk_defs)

text \<open>No quote waits forever on a silent venue.  Once a quote has been missing for the grace of
  sixty seconds, the next pass over it takes it off the list, whatever the venue answers for a quote
  whose cancel was confirmed, and unless the venue says it still rests for one merely not listed.\<close>

theorem vanished_quote_settles:
  assumes "tl_missing_since ord = Some m"
    and "ex_order_state venue (tl_id ord) w = (r, w1)"
    and "m + from_secs 60 \<le> ex_instant_now venue w1"
  shows "fst (pass1_cancelled venue ord w) = None
    \<and> ((\<forall>st. r = Inr (Some st) \<longrightarrow> os_resting st \<noteq> Some True) \<longrightarrow>
         fst (pass1_unlisted venue stale ord w) = None)"
proof -
  have "60 \<le> elapsed_secs (ex_instant_now venue w1) m"
    using assms(3) by (simp add: elapsed_secs_ge_iff)
  then have "fst (grace_clock venue ord w1) = None"
    by (simp add: grace_clock_def assms(1) vanished_quote_grace_secs_def)
  then show ?thesis
    by (auto simp: pass1_cancelled_def pass1_unlisted_def assms(2) split: sum.split option.split)
qed

lemma vanished_quote_settles_witness:
  "fst (pass1_cancelled (desk_venue (\<lambda>_. Inr ()) (\<lambda>_. Inl []) (Inr []) (Inl []) (\<lambda>_. Inl []) (\<lambda>_. Inr None))
     ((a_quote ''o1'' ''MakerStrategy'' ''yes'')\<lparr>tl_missing_since := Some 0, tl_cancelled := True\<rparr>)
     (a_desk [] [], from_secs 61)) = None"
  by (rule conjunct1, rule vanished_quote_settles [where m = 0 and r = "Inl []" and
        ?w1.0 = "(a_desk [] [], from_secs 61)"])
    (simp_all add: a_quote_def from_secs_def nanos_per_sec_def)

section \<open>Sizing a guard\<close>

definition observe :: "tracked_leg \<Rightarrow> utc \<times> decimal \<times> decimal \<Rightarrow> lifecycle \<Rightarrow> lifecycle" where
  "observe ord ob lc = (let (now, traded, price) = ob in snd (size_and_confirm now ord traded price lc))"

lemma observe_guard:
  assumes "hm_get (lc_positions lc) (guard_key lc (tl_strategy ord) (tl_market ord)) = Some p"
    and "owns_guard ord p" and "0 < traded"
  shows "lc_squadron_id (observe ord (now, traded, price) lc) = lc_squadron_id lc \<and>
    hm_get (lc_positions (observe ord (now, traded, price) lc)) (guard_key lc (tl_strategy ord) (tl_market ord))
      = Some (fst (sized_guard now ord traded price p))"
  using assms by (simp add: observe_def guard_ops split_beta)

lemma sized_guard_shares:
  assumes "0 < traded"
  shows "p_shares (fst (sized_guard now ord traded price p)) =
      (if p_fill_confirmed_at p = None then min traded (tl_quantity ord)
       else min (max (p_shares p) (min traded (tl_quantity ord))) (tl_quantity ord))
    \<and> p_fill_confirmed_at (fst (sized_guard now ord traded price p)) \<noteq> None
    \<and> owns_guard ord (fst (sized_guard now ord traded price p)) = owns_guard ord p"
  using assms by (auto simp: sized_guard_def Let_def owns_guard_def)

lemma observes_confirmed:
  "hm_get (lc_positions lc) (guard_key lc (tl_strategy ord) (tl_market ord)) = Some p \<Longrightarrow>
   owns_guard ord p \<Longrightarrow> p_fill_confirmed_at p \<noteq> None \<Longrightarrow> p_shares p = min M (tl_quantity ord) \<Longrightarrow>
   \<forall>ob \<in> set obs. 0 < fst (snd ob) \<Longrightarrow>
   \<exists>q. hm_get (lc_positions (fold (observe ord) obs lc)) (guard_key lc (tl_strategy ord) (tl_market ord)) = Some q
     \<and> p_fill_confirmed_at q \<noteq> None
     \<and> p_shares q = min (fold (\<lambda>ob m. max (fst (snd ob)) m) obs M) (tl_quantity ord)"
proof (induction obs arbitrary: lc p M)
  case (Cons ob rest)
  obtain now traded price where ob: "ob = (now, traded, price)" by (cases ob)
  have t: "0 < traded" using Cons.prems(5) by (simp add: ob)
  let ?p = "fst (sized_guard now ord traded price p)" and ?lc = "observe ord ob lc"
  have step: "lc_squadron_id ?lc = lc_squadron_id lc"
      "hm_get (lc_positions ?lc) (guard_key lc (tl_strategy ord) (tl_market ord)) = Some ?p"
    using observe_guard [OF Cons.prems(1,2) t] by (simp_all add: ob)
  have key: "guard_key ?lc = guard_key lc" by (simp add: guard_key_def fun_eq_iff step(1))
  have sh: "p_shares ?p = min (max traded M) (tl_quantity ord)"
    using sized_guard_shares [OF t, of now ord price p] Cons.prems(3,4) by (auto simp: min_def max_def)
  have rest: "\<forall>ob \<in> set rest. 0 < fst (snd ob)" using Cons.prems(5) by simp
  have "owns_guard ord ?p" "p_fill_confirmed_at ?p \<noteq> None"
    using sized_guard_shares [OF t, of now ord price p] Cons.prems(2) by simp_all
  from Cons.IH [OF _ this sh rest, of ?lc] step key show ?case by (simp add: ob)
qed simp

text \<open>However the fill feed and the reconciler interleave their readings of one order, the guard it
  opened ends up confirmed and sized to the largest cumulative count either of them reported, capped
  at what was placed: readings may arrive late, repeated or out of order.\<close>

theorem sizing_takes_the_largest_count:
  assumes "hm_get (lc_positions lc) (guard_key lc (tl_strategy ord) (tl_market ord)) = Some p"
    and "owns_guard ord p" and "p_fill_confirmed_at p = None"
    and "obs \<noteq> []" and "\<forall>ob \<in> set obs. 0 < fst (snd ob)"
  shows "\<exists>q. hm_get (lc_positions (fold (observe ord) obs lc))
        (guard_key lc (tl_strategy ord) (tl_market ord)) = Some q
     \<and> p_fill_confirmed_at q \<noteq> None
     \<and> p_shares q = min (Max (set (map (\<lambda>ob. fst (snd ob)) obs))) (tl_quantity ord)"
proof -
  obtain now traded price rest where obs: "obs = (now, traded, price) # rest"
    using assms(4) by (metis list.exhaust prod.exhaust)
  have t: "0 < traded" and rest: "\<forall>ob \<in> set rest. 0 < fst (snd ob)" using assms(5) by (simp_all add: obs)
  let ?p = "fst (sized_guard now ord traded price p)" and ?lc = "observe ord (now, traded, price) lc"
  have step: "lc_squadron_id ?lc = lc_squadron_id lc"
      "hm_get (lc_positions ?lc) (guard_key lc (tl_strategy ord) (tl_market ord)) = Some ?p"
    using observe_guard [OF assms(1,2) t] by simp_all
  have key: "guard_key ?lc = guard_key lc" by (simp add: guard_key_def fun_eq_iff step(1))
  have "p_shares ?p = min traded (tl_quantity ord)" "owns_guard ord ?p" "p_fill_confirmed_at ?p \<noteq> None"
    using sized_guard_shares [OF t, of now ord price p] assms(2,3) by simp_all
  from observes_confirmed [OF _ this(2,3,1) rest, of ?lc] step key
  obtain q where q: "hm_get (lc_positions (fold (observe ord) obs lc))
        (guard_key lc (tl_strategy ord) (tl_market ord)) = Some q" "p_fill_confirmed_at q \<noteq> None"
      "p_shares q = min (fold (\<lambda>ob m. max (fst (snd ob)) m) rest traded) (tl_quantity ord)"
    by (auto simp: obs)
  have "fold (\<lambda>ob m. max (fst (snd ob)) m) rest traded = Max (set (map (\<lambda>ob. fst (snd ob)) obs))"
    unfolding obs by (simp only: list.map fst_conv snd_conv Max.set_eq_fold fold_map comp_def)
  with q show ?thesis by auto
qed

lemma sizing_takes_the_largest_count_witness:
  "\<exists>q. hm_get (lc_positions (fold (observe (a_quote ''o1'' ''MakerStrategy'' ''yes''))
        [(7, 4, 1 / 2), (8, 6, 1 / 2), (9, 5, 1 / 2)]
        (a_desk [] [(a_key ''btc'' ''MakerStrategy'' ''yes'', a_guard ''yes'' None None)])))
      (a_key ''btc'' ''MakerStrategy'' ''yes'') = Some q \<and> p_shares q = 6"
  using sizing_takes_the_largest_count [of
      "a_desk [] [(a_key ''btc'' ''MakerStrategy'' ''yes'', a_guard ''yes'' None None)]"
      "a_quote ''o1'' ''MakerStrategy'' ''yes''" "a_guard ''yes'' None None"
      "[(7, 4, 1 / 2), (8, 6, 1 / 2), (9, 5, 1 / 2)]"]
  by (simp add: desk_defs guard_key_def owns_guard_def) blast

end
