(* ===== verification/Lifecycle_Repair.thy ===== *)
theory Lifecycle_Repair
  imports Lifecycle_Properties
begin

text \<open>
  The fill feed's isolation of guards, the repair of naked paired legs (which legs it may touch, what
  a re-hedge may pay, what a flatten books), and what rotation may leave behind.
\<close>

section \<open>The fill feed\<close>

lemma guard_key_inject: "guard_key lc s m = guard_key lc s' m' \<longleftrightarrow> s = s' \<and> m = m'"
  by (simp add: guard_key_def)

lemma size_and_confirm_frame:
  "k \<noteq> guard_key lc (tl_strategy ord) (tl_market ord) \<Longrightarrow>
   hm_get (lc_positions (snd (size_and_confirm now ord traded price lc))) k = hm_get (lc_positions lc) k"
  by (auto simp: size_and_confirm_def set_guard_def Let_def split: option.split prod.split)

lemma map_of_map_snd_frame:
  assumes "\<And>p. f (k, p) = (k, p)" and "\<And>kp. fst (f kp) = fst kp"
  shows "map_of (map f m) k = map_of m k"
proof (induction m)
  case (Cons a m)
  show ?case
  proof (cases "fst a = k")
    case True
    then have "f a = a" using assms(1) [of "snd a"] by (cases a) simp
    with Cons.IH show ?thesis by (cases a) simp
  next
    case False
    then show ?thesis using assms(2) [of a] Cons.IH by (cases a, cases "f a") auto
  qed
qed simp

lemma confirm_untracked_frame:
  assumes "t \<in> set (lc_tracked lc)"
  shows "hm_get (lc_positions (confirm_untracked now ev lc)) (guard_key lc (tl_strategy t) (tl_market t))
    = hm_get (lc_positions lc) (guard_key lc (tl_strategy t) (tl_market t))"
proof -
  have "(tl_strategy t, tl_market t) \<in> set (map (\<lambda>t. (tl_strategy t, tl_market t))
          (filter (\<lambda>t. tl_market t = fe_market ev) (lc_tracked lc)))" if "tl_market t = fe_market ev"
    using assms that by force
  then show ?thesis
    unfolding confirm_untracked_def Let_def
    by (simp, intro map_of_map_snd_frame) (auto simp: guard_key_def split: prod.split)
qed

lemma find_Some_mem: "find P xs = Some x \<Longrightarrow> x \<in> set xs \<and> P x"
  by (induction xs) (auto split: if_splits)

text \<open>A fill event confirms only the guard of the order it names.  A leg may carry the resting
  quotes of several vipers: when an event is for one viper's order, or for an order this engine never
  tracked, the guard of another viper's tracked order on any leg is exactly as before; and a sale the
  engine did not track changes nothing at all.\<close>

theorem fill_event_isolation:
  assumes "t \<in> set (lc_tracked lc)" and "tracked_owner (fe_order_id ev) lc \<noteq> Some (tl_strategy t)"
  shows "hm_get (lc_positions (confirm_on_fill now ev lc)) (guard_key lc (tl_strategy t) (tl_market t))
      = hm_get (lc_positions lc) (guard_key lc (tl_strategy t) (tl_market t))
    \<and> (tracked_owner (fe_order_id ev) lc = None \<and> fe_side ev = Sell \<longrightarrow> confirm_on_fill now ev lc = lc)"
proof (cases "find (\<lambda>t. tl_id t = fe_order_id ev) (lc_tracked lc)")
  case None
  then show ?thesis
    using confirm_untracked_frame [OF assms(1)] by (simp add: confirm_on_fill_def)
next
  case (Some ord)
  with assms(2) have "tl_strategy ord \<noteq> tl_strategy t" by (simp add: tracked_owner_def)
  then show ?thesis
    using Some by (simp add: confirm_on_fill_def Let_def untrack_def guard_key_inject
        size_and_confirm_frame tracked_owner_def)
qed

lemma fill_event_isolation_witness:
  "hm_get (lc_positions (confirm_on_fill 7
      \<lparr>fe_order_id = ''o2'', fe_market = ''yes'', fe_side = Buy, fe_filled = 10, fe_price = 1 / 2, fe_complete = True\<rparr>
      (a_desk [a_quote ''o1'' ''MakerStrategy'' ''yes'', a_quote ''o2'' ''BasisStrategy'' ''yes'']
        [(a_key ''btc'' ''MakerStrategy'' ''yes'', a_guard ''yes'' None None)])))
    (a_key ''btc'' ''MakerStrategy'' ''yes'') = Some (a_guard ''yes'' None None)"
  using fill_event_isolation [of "a_quote ''o1'' ''MakerStrategy'' ''yes''"
      "a_desk [a_quote ''o1'' ''MakerStrategy'' ''yes'', a_quote ''o2'' ''BasisStrategy'' ''yes'']
        [(a_key ''btc'' ''MakerStrategy'' ''yes'', a_guard ''yes'' None None)]"
      "\<lparr>fe_order_id = ''o2'', fe_market = ''yes'', fe_side = Buy, fe_filled = 10, fe_price = 1 / 2, fe_complete = True\<rparr>" 7]
  by (simp add: desk_defs guard_key_def tracked_owner_def)

section \<open>Naked legs\<close>

lemma lone_leg_policy_cases: "lone_leg_policy s \<noteq> HoldAndManage \<longleftrightarrow> lone_leg_policy s = Repair"
  by (cases "lone_leg_policy s") simp_all

lemma orphan_ofD:
  assumes "orphan_of squadron held resting (k, p) = Some orp"
  shows "k_squadron k = squadron \<and> or_strategy orp = k_strategy k \<and> or_token orp = k_market k
    \<and> or_shares orp = p_shares p \<and> lone_leg_policy (or_strategy orp) = Repair
    \<and> p_fill_confirmed_at p \<noteq> None \<and> p_paired_leg_token_id p = Some (or_partner orp)
    \<and> 0 < held_on held (or_token orp) \<and> held_on held (or_partner orp) \<le> 0 \<and> or_partner orp \<notin> resting"
  using assms by (auto simp: orphan_of_def lone_leg_policy_cases split: if_splits option.splits)

lemma orphansD:
  assumes "orp \<in> set (orphans held resting lc)"
  obtains k p where "(k, p) \<in> set (lc_positions lc)" and "orphan_of (lc_squadron_id lc) held resting (k, p) = Some orp"
  using assms by (auto simp: orphans_def List.map_filter_def)

lemma flatten_leg_books:
  assumes "fl \<in> set (fst (flatten_leg venue orp w))"
  shows "fl_strategy fl = or_strategy orp \<and> fl_token_id fl = or_token orp \<and> 0 < fl_shares fl"
  using assms by (auto simp: flatten_leg_def flatten_booking_def Let_def
      split: prod.splits sum.splits option.splits if_splits)

lemma repair_orphans_books:
  "fl \<in> set (fst (repair_orphans venue orps w)) \<Longrightarrow>
   \<exists>orp \<in> set orps. fl_strategy fl = or_strategy orp \<and> fl_token_id fl = or_token orp \<and> 0 < fl_shares fl"
proof (induction orps arbitrary: w)
  case (Cons orp rest)
  obtain fls w1 where r: "repair_orphan venue orp w = (fls, w1)" by (cases "repair_orphan venue orp w")
  have "fl_strategy fl = or_strategy orp \<and> fl_token_id fl = or_token orp \<and> 0 < fl_shares fl"
    if "fl \<in> set fls"
    using that r flatten_leg_books [of fl venue orp "snd (try_rehedge venue orp w)"]
    by (cases "try_rehedge venue orp w", cases "fst (try_rehedge venue orp w)")
      (auto simp: repair_orphan_def)
  with Cons.IH [of w1] Cons.prems show ?case by (auto simp: r Let_def split_beta)
qed simp

lemma reconcile_naked_books:
  assumes "fl \<in> set (fst (reconcile_naked venue held resting w))"
  shows "lone_leg_policy (fl_strategy fl) = Repair \<and> 0 < fl_shares fl \<and> 0 < held_on held (fl_token_id fl)"
proof -
  obtain orp where "orp \<in> set (orphans held resting (fst w))"
      "fl_strategy fl = or_strategy orp" "fl_token_id fl = or_token orp" "0 < fl_shares fl"
    using repair_orphans_books [of fl venue "orphans held resting (fst w)"] assms
    unfolding reconcile_naked_def Let_def by blast
  then show ?thesis by (auto elim!: orphansD dest!: orphan_ofD)
qed

text \<open>C18: A reconcile pass sells only legs it may repair: every leg it reports flattened belongs to a
  strategy whose pairs fill together (never a Time Decay leg, which its own viper manages), was shown
  held by the venue in that same pass, and is booked with a positive fill.\<close>

theorem reconcile_flattens_repair_legs_only:
  assumes "ex_positions venue w = (Inr ps, w1)" and "fl \<in> set (fst (reconcile venue w))"
  shows "lone_leg_policy (fl_strategy fl) = Repair \<and> fl_strategy fl \<noteq> ''TimeDecayStrategy''
    \<and> 0 < fl_shares fl \<and> 0 < held_on (held_map ps) (fl_token_id fl)"
proof -
  have "\<exists>resting w3. fl \<in> set (fst (reconcile_naked venue (held_map ps) resting w3))"
    using assms(2) by (auto simp: reconcile_def assms(1) split: prod.splits sum.splits)
  then show ?thesis
    using reconcile_naked_books by (fastforce simp: lone_leg_policy_def split: if_splits)
qed

definition naked_desk :: "int world" where
  "naked_desk = (a_desk [] [(a_key ''btc'' ''ArbitrageStrategy'' ''yes'', a_guard ''yes'' (Some 3) (Some ''no''))], 9)"

definition naked_venue :: "(order_intent \<Rightarrow> string + fill) \<Rightarrow> string + decimal option \<Rightarrow> int world execution" where
  "naked_venue places ask = desk_venue (\<lambda>_. Inr ()) (\<lambda>_. Inr None)
     (Inr [\<lparr>vp_market = ''yes'', vp_shares = 10, vp_avg_price = 2 / 5\<rparr>]) (Inr []) places (\<lambda>_. ask)"

definition fill_of :: "order_intent \<Rightarrow> string + fill" where
  "fill_of i = Inr \<lparr>f_order_id = ''f'', f_market = oi_market i, f_filled = oi_quantity i, f_price = oi_price i, f_fee = 0\<rparr>"

definition kill_of :: "order_intent \<Rightarrow> string + fill" where
  "kill_of i = Inr \<lparr>f_order_id = ''f'', f_market = oi_market i, f_filled = 0, f_price = oi_price i, f_fee = 0\<rparr>"

lemmas naked_defs = naked_desk_def naked_venue_def desk_defs reconcile_def reconcile_tracked_def
  reconcile_naked_def merge_tracked_def held_map_def held_on_def orphans_def List.map_filter_def
  orphan_of_def sold_after_kill_def lone_leg_policy_def venue_resting_def Let_def

lemma reconcile_flattens_witness:
  "fst (reconcile (naked_venue fill_of (Inr None)) naked_desk) \<noteq> []
   \<and> list_all (\<lambda>fl. lone_leg_policy (fl_strategy fl) = Repair)
       (fst (reconcile (naked_venue fill_of (Inr None)) naked_desk))"
proof
  show "fst (reconcile (naked_venue fill_of (Inr None)) naked_desk) \<noteq> []"
    by (simp add: naked_defs fill_of_def repair_orphan_def try_rehedge_def flatten_leg_def
        flatten_booking_def fak_intent_def)
next
  have p: "ex_positions (naked_venue fill_of (Inr None)) naked_desk =
      (Inr [\<lparr>vp_market = ''yes'', vp_shares = 10, vp_avg_price = 2 / 5\<rparr>], naked_desk)"
    by (simp add: naked_venue_def)
  show "list_all (\<lambda>fl. lone_leg_policy (fl_strategy fl) = Repair)
      (fst (reconcile (naked_venue fill_of (Inr None)) naked_desk))"
    using reconcile_flattens_repair_legs_only [OF p] by (simp add: list_all_iff)
qed


section \<open>What a flatten books\<close>

text \<open>The flatten of a naked leg has exactly three outcomes.  A fill is booked at the shares the venue
  reports (at its price, or at the limit when it states none) and the guard is cleared; a kill books
  nothing, keeps the guard and marks the leg so that it is sold again only while the venue shows it; a
  refused call books nothing and clears the guard.\<close>

theorem flatten_leg_outcomes:
  assumes "ex_place_order venue (fak_intent (lc_cfg (fst w)) Sell (or_token orp) (or_shares orp)
      (cfg_flatten_sell_limit (lc_cfg (fst w)))) w = (r, w1)"
    and "flatten_leg venue orp w = (booked, w2)"
  defines "k \<equiv> guard_key (fst w1) (or_strategy orp) (or_token orp)"
  shows "(\<exists>f. r = Inr f \<and> 0 < f_filled f \<and> (\<exists>fl. booked = [fl] \<and> fl_shares fl = f_filled f
            \<and> fl_exit_price fl = (if 0 < f_price f then f_price f else cfg_flatten_sell_limit (lc_cfg (fst w))))
          \<and> hm_get (lc_positions (fst w2)) k = None)
    \<or> (\<exists>f. r = Inr f \<and> f_filled f \<le> 0 \<and> booked = []
          \<and> lc_positions (fst w2) = lc_positions (fst w1) \<and> or_token orp \<in> lc_killed_flattens (fst w2))
    \<or> (\<exists>e. r = Inl e \<and> booked = [] \<and> hm_get (lc_positions (fst w2)) k = None)"
proof (cases r)
  case (Inl e)
  then show ?thesis using assms(2)
    by (auto simp: k_def flatten_leg_def assms(1) Let_def clear_guard_def drop_guard_def guard_key_def)
next
  case (Inr f)
  show ?thesis
  proof (cases "f_filled f \<le> 0")
    case True
    then show ?thesis using assms(2) Inr by (auto simp: flatten_leg_def assms(1) Let_def flatten_booking_def)
  next
    case False
    then show ?thesis using assms(2) Inr
      by (auto simp: k_def flatten_leg_def assms(1) Let_def flatten_booking_def clear_guard_def
          drop_guard_def guard_key_def)
  qed
qed

definition naked_orphan :: orphan where
  "naked_orphan =
     \<lparr>or_strategy = ''ArbitrageStrategy'', or_token = ''yes'', or_shares = 10, or_market_name = ''mkt'',
      or_avg_entry = 2 / 5, or_partner = ''no''\<rparr>"

lemma flatten_leg_outcomes_witness:
  "hm_get (lc_positions (fst (snd (flatten_leg (naked_venue (\<lambda>_. Inl ''down'') (Inr None)) naked_orphan naked_desk))))
     (guard_key (fst naked_desk) (or_strategy naked_orphan) (or_token naked_orphan)) = None"
proof -
  obtain booked w2 where f: "flatten_leg (naked_venue (\<lambda>_. Inl ''down'') (Inr None)) naked_orphan naked_desk = (booked, w2)"
    by (cases "flatten_leg (naked_venue (\<lambda>_. Inl ''down'') (Inr None)) naked_orphan naked_desk")
  have p: "ex_place_order (naked_venue (\<lambda>_. Inl ''down'') (Inr None)) i naked_desk = (Inl ''down'', naked_desk)" for i
    by (simp add: naked_venue_def)
  from flatten_leg_outcomes [OF p f] show ?thesis by (simp add: f)
qed

text \<open>A flatten whose order call fails is not retried: the guard is cleared although the leg is still
  held, so a second pass over the same venue answers sees no naked leg and reports nothing, even when
  the venue would now fill the sale.\<close>

theorem flatten_error_not_retried:
  "let w1 = snd (reconcile (naked_venue (\<lambda>_. Inl ''down'') (Inr None)) naked_desk)
   in lc_positions (fst naked_desk) \<noteq> [] \<and> lc_positions (fst w1) = []
      \<and> fst (reconcile (naked_venue fill_of (Inr None)) w1) = []
      \<and> fst (reconcile (naked_venue fill_of (Inr None)) naked_desk) \<noteq> []"
  by (simp add: naked_defs fill_of_def repair_orphan_def try_rehedge_def flatten_leg_def
        flatten_booking_def fak_intent_def guard_ops)

section \<open>Leaving a market\<close>

text \<open>The rotation question: a squadron holds nothing exactly when each of its guards is still
  unconfirmed and has a tracked resting quote of its own strategy on its own leg.\<close>

theorem holds_anything_iff:
  "\<not> holds_anything lc \<longleftrightarrow>
     (\<forall>(k, p) \<in> set (lc_positions lc). k_squadron k = lc_squadron_id lc \<longrightarrow>
        p_fill_confirmed_at p = None \<and>
        (\<exists>t \<in> set (lc_tracked lc). tl_strategy t = k_strategy k \<and> tl_market t = k_market k \<and> tl_is_quote t))"
  by (auto simp: holds_anything_def Let_def list_ex_iff split_beta)

end
