(* ===== verification/Local_Book.thy ===== *)
theory Local_Book
  imports Trading_State
begin

text \<open>
  The local order book of \<open>src/squadron/local_book.rs\<close>: a book kept from the venue's full snapshots
  and its price-change batches, which publishes its own arithmetic only while it can prove it and
  the last snapshot otherwise.  The reason of a hold is kept as data where the code formats it.
\<close>

section \<open>State\<close>

datatype book_side = Bid | Ask

record level_change =
  ch_side :: book_side
  ch_price :: decimal
  ch_size :: "decimal option"
  ch_best_bid :: "decimal option"
  ch_best_ask :: "decimal option"

datatype hold_reason =
    NoSize decimal book_side
  | NegativeSize decimal book_side decimal
  | CrossedBook decimal decimal
  | StampsDisagree decimal decimal decimal decimal
  | Distrusted string

record hold =
  hd_reason :: hold_reason
  hd_since :: utc
  hd_hard :: bool
  hd_batches :: nat

datatype apply_outcome =
    Applied
  | Held hold
  | StillHeld
  | BookReleased hold
  | DroppedOlder
  | NoSnapshot

record snapshot =
  sn_state :: price_state
  sn_venue_ts :: int

record book_stats =
  st_applied :: nat
  st_dropped_older :: nat
  st_no_snapshot :: nat
  st_held :: nat
  st_released :: nat

type_synonym levels = "(decimal, decimal) btree_map"

record local_book =
  bk_bids :: levels
  bk_asks :: levels
  bk_snapshot :: "snapshot option"
  bk_hold :: "hold option"
  bk_last_change :: "utc option"
  bk_stats :: book_stats

definition zero_stats :: book_stats where
  "zero_stats = \<lparr>st_applied = 0, st_dropped_older = 0, st_no_snapshot = 0, st_held = 0, st_released = 0\<rparr>"

definition book_new :: local_book where
  "book_new = \<lparr>bk_bids = [], bk_asks = [], bk_snapshot = None, bk_hold = None, bk_last_change = None,
               bk_stats = zero_stats\<rparr>"

section \<open>Reading the book\<close>

definition empty_bid :: decimal where
  "empty_bid = 0"

definition empty_ask :: decimal where
  "empty_ask = 1"

definition best_bid :: "local_book \<Rightarrow> decimal option" where
  "best_bid b = map_option fst (bt_last (bk_bids b))"

definition best_ask :: "local_book \<Rightarrow> decimal option" where
  "best_ask b = map_option fst (bt_first (bk_asks b))"

definition or_default :: "'a option \<Rightarrow> 'a \<Rightarrow> 'a" where
  "or_default x d = (case x of None \<Rightarrow> d | Some v \<Rightarrow> v)"

definition derive :: "levels \<Rightarrow> levels \<Rightarrow> utc \<Rightarrow> price_state" where
  "derive bids asks tm =
     (let (bid, bid_depth) = or_default (bt_last bids) (empty_bid, 0);
          (ask, ask_depth) = or_default (bt_first asks) (empty_ask, 0)
      in \<lparr>ps_best_bid = bid, ps_bid_touch_size = bid_depth, ps_best_ask = ask,
          ps_ask_touch_size = ask_depth, ps_at = tm, ps_bid_depth_total = sum_list (map snd bids),
          ps_ask_depth_total = sum_list (map snd asks)\<rparr>)"

definition is_consistent :: "local_book \<Rightarrow> bool" where
  "is_consistent b \<longleftrightarrow> bk_hold b = None"

definition book_price_state :: "local_book \<Rightarrow> price_state option" where
  "book_price_state b =
     (case bk_snapshot b of
        None \<Rightarrow> None
      | Some sn \<Rightarrow>
          if bk_hold b \<noteq> None then Some (sn_state sn)
          else Some (derive (bk_bids b) (bk_asks b) (or_default (bk_last_change b) (ps_at (sn_state sn)))))"

definition held_for :: "hold \<Rightarrow> utc \<Rightarrow> int" where
  "held_for h now = now - hd_since h"

definition take_stats :: "local_book \<Rightarrow> book_stats \<times> local_book" where
  "take_stats b = (bk_stats b, b\<lparr>bk_stats := zero_stats\<rparr>)"

section \<open>Updating the book\<close>

definition positive_sizes :: "(decimal \<times> decimal) list \<Rightarrow> (decimal \<times> decimal) list" where
  "positive_sizes kvs = filter (\<lambda>(_, s). 0 < s) kvs"

definition book_reset ::
  "int \<Rightarrow> (decimal \<times> decimal) list \<Rightarrow> (decimal \<times> decimal) list \<Rightarrow> utc \<Rightarrow> local_book \<Rightarrow>
   hold option \<times> local_book" where
  "book_reset venue_ts bids asks received_at b =
     (let bids' = bt_collect (positive_sizes bids);
          asks' = bt_collect (positive_sizes asks)
      in (bk_hold b,
          b\<lparr>bk_bids := bids', bk_asks := asks', bk_last_change := Some received_at,
            bk_snapshot := Some \<lparr>sn_state = derive bids' asks' received_at, sn_venue_ts = venue_ts\<rparr>,
            bk_hold := None\<rparr>))"

definition hold_soft :: "hold_reason \<Rightarrow> utc \<Rightarrow> local_book \<Rightarrow> apply_outcome \<times> local_book" where
  "hold_soft reason received_at b =
     (case bk_hold b of
        Some _ \<Rightarrow> (StillHeld, b)
      | None \<Rightarrow>
          let h = \<lparr>hd_reason = reason, hd_since = received_at, hd_hard = False, hd_batches = 0\<rparr>
          in (Held h, b\<lparr>bk_stats := (bk_stats b)\<lparr>st_held := st_held (bk_stats b) + 1\<rparr>, bk_hold := Some h\<rparr>))"

definition hold_hard :: "hold_reason \<Rightarrow> utc \<Rightarrow> local_book \<Rightarrow> apply_outcome \<times> local_book" where
  "hold_hard reason received_at b =
     (case bk_hold b of
        Some soft \<Rightarrow>
          let h = soft\<lparr>hd_reason := reason, hd_hard := True\<rparr> in (Held h, b\<lparr>bk_hold := Some h\<rparr>)
      | None \<Rightarrow>
          let h = \<lparr>hd_reason = reason, hd_since = received_at, hd_hard = True, hd_batches = 0\<rparr>
          in (Held h, b\<lparr>bk_stats := (bk_stats b)\<lparr>st_held := st_held (bk_stats b) + 1\<rparr>, bk_hold := Some h\<rparr>))"

definition hard_held :: "local_book \<Rightarrow> bool" where
  "hard_held b \<longleftrightarrow> (case bk_hold b of None \<Rightarrow> False | Some h \<Rightarrow> hd_hard h)"

definition set_level :: "book_side \<Rightarrow> decimal \<Rightarrow> decimal \<Rightarrow> local_book \<Rightarrow> local_book" where
  "set_level sd price sz b =
     (let put = (\<lambda>m. if sz = 0 then AList.delete price m else bt_insert price sz m)
      in case sd of Bid \<Rightarrow> b\<lparr>bk_bids := put (bk_bids b)\<rparr> | Ask \<Rightarrow> b\<lparr>bk_asks := put (bk_asks b)\<rparr>)"

text \<open>The loop over the entries of a batch; \<open>Some\<close> outcome is the early return on data that cannot be
  folded in.\<close>

fun fold_changes :: "level_change list \<Rightarrow> utc \<Rightarrow> local_book \<Rightarrow> apply_outcome option \<times> local_book" where
  "fold_changes [] received_at b = (None, b)"
| "fold_changes (c # cs) received_at b =
     (case ch_size c of
        None \<Rightarrow>
          (let (out, b') = hold_hard (NoSize (ch_price c) (ch_side c)) received_at b in (Some out, b'))
      | Some sz \<Rightarrow>
          if sz < 0 then
            (let (out, b') = hold_hard (NegativeSize (ch_price c) (ch_side c) sz) received_at b
             in (Some out, b'))
          else fold_changes cs received_at (set_level (ch_side c) (ch_price c) sz b))"

definition book_crossed :: "local_book \<Rightarrow> bool" where
  "book_crossed b \<longleftrightarrow>
     (case (best_bid b, best_ask b) of (Some db, Some da) \<Rightarrow> da \<le> db | _ \<Rightarrow> False)"

text \<open>What \<open>apply\<close> does once every entry of the batch is folded in.\<close>

definition judge_batch :: "level_change list \<Rightarrow> utc \<Rightarrow> local_book \<Rightarrow> apply_outcome \<times> local_book" where
  "judge_batch changes received_at b =
     (let db = or_default (best_bid b) empty_bid;
          da = or_default (best_ask b) empty_ask;
          standing = (if bk_hold b \<noteq> None then StillHeld else Applied)
      in if book_crossed b then hold_soft (CrossedBook db da) received_at b
         else if changes = [] then (standing, b)
         else case (ch_best_bid (last changes), ch_best_ask (last changes)) of
           (Some vb, Some va) \<Rightarrow>
             if db \<noteq> vb \<or> da \<noteq> va then hold_soft (StampsDisagree db da vb va) received_at b
             else (case bk_hold b of
                     Some h \<Rightarrow>
                       (BookReleased h,
                        b\<lparr>bk_hold := None,
                          bk_stats := (bk_stats b)\<lparr>st_released := st_released (bk_stats b) + 1\<rparr>\<rparr>)
                   | None \<Rightarrow> (Applied, b))
         | _ \<Rightarrow> (standing, b))"

definition count_batch :: "utc \<Rightarrow> local_book \<Rightarrow> local_book" where
  "count_batch received_at b =
     b\<lparr>bk_stats := (bk_stats b)\<lparr>st_applied := st_applied (bk_stats b) + 1\<rparr>,
       bk_last_change := Some received_at,
       bk_hold := map_option (\<lambda>h. h\<lparr>hd_batches := hd_batches h + 1\<rparr>) (bk_hold b)\<rparr>"

definition book_apply :: "int \<Rightarrow> level_change list \<Rightarrow> utc \<Rightarrow> local_book \<Rightarrow> apply_outcome \<times> local_book" where
  "book_apply venue_ts changes received_at b =
     (case bk_snapshot b of
        None \<Rightarrow>
          (NoSnapshot, b\<lparr>bk_stats := (bk_stats b)\<lparr>st_no_snapshot := st_no_snapshot (bk_stats b) + 1\<rparr>\<rparr>)
      | Some sn \<Rightarrow>
          if venue_ts < sn_venue_ts sn then
            (DroppedOlder,
             b\<lparr>bk_stats := (bk_stats b)\<lparr>st_dropped_older := st_dropped_older (bk_stats b) + 1\<rparr>\<rparr>)
          else if hard_held b then (StillHeld, b)
          else case fold_changes changes received_at b of
            (Some out, b') \<Rightarrow> (out, b')
          | (None, b') \<Rightarrow> judge_batch changes received_at (count_batch received_at b'))"

definition distrust :: "string \<Rightarrow> utc \<Rightarrow> local_book \<Rightarrow> apply_outcome \<times> local_book" where
  "distrust reason received_at b =
     (if hard_held b then (StillHeld, b) else hold_hard (Distrusted reason) received_at b)"

section \<open>The invariant\<close>

definition levels_ok :: "levels \<Rightarrow> bool" where
  "levels_ok m \<longleftrightarrow> bt_wf m \<and> (\<forall>(p, s) \<in> set m. 0 < s)"

text \<open>Proven: the book is exactly the snapshot in force, or it is not crossed.\<close>

definition book_proven :: "local_book \<Rightarrow> bool" where
  "book_proven b \<longleftrightarrow>
     \<not> book_crossed b \<or>
     (\<exists>sn tm. bk_snapshot b = Some sn \<and> sn_state sn = derive (bk_bids b) (bk_asks b) tm)"

definition book_inv :: "local_book \<Rightarrow> bool" where
  "book_inv b \<longleftrightarrow> levels_ok (bk_bids b) \<and> levels_ok (bk_asks b) \<and> (bk_hold b = None \<longrightarrow> book_proven b)"

datatype book_op =
    Reset int "(decimal \<times> decimal) list" "(decimal \<times> decimal) list" utc
  | Apply int "level_change list" utc
  | Distrust string utc
  | TakeStats

fun book_step :: "book_op \<Rightarrow> local_book \<Rightarrow> local_book" where
  "book_step (Reset ts bids asks tm) b = snd (book_reset ts bids asks tm b)"
| "book_step (Apply ts cs tm) b = snd (book_apply ts cs tm b)"
| "book_step (Distrust r tm) b = snd (distrust r tm b)"
| "book_step TakeStats b = snd (take_stats b)"

lemma levels_ok_collect: "levels_ok (bt_collect (positive_sizes kvs))"
  by (auto simp: levels_ok_def positive_sizes_def dest!: bt_collect_values)

lemma levels_ok_delete: "levels_ok m \<Longrightarrow> levels_ok (AList.delete p m)"
  by (auto simp: levels_ok_def AList.delete_eq intro: bt_wf_filter)

lemma levels_ok_insert: "levels_ok m \<Longrightarrow> 0 < s \<Longrightarrow> levels_ok (bt_insert p s m)"
  by (auto simp: levels_ok_def dest!: bt_insert_values)

lemma hold_ops_frame:
  "bk_bids (snd (hold_soft r tm b)) = bk_bids b" "bk_asks (snd (hold_soft r tm b)) = bk_asks b"
  "bk_snapshot (snd (hold_soft r tm b)) = bk_snapshot b" "bk_hold (snd (hold_soft r tm b)) \<noteq> None"
  "bk_bids (snd (hold_hard r tm b)) = bk_bids b" "bk_asks (snd (hold_hard r tm b)) = bk_asks b"
  "bk_snapshot (snd (hold_hard r tm b)) = bk_snapshot b" "bk_hold (snd (hold_hard r tm b)) \<noteq> None"
  by (auto simp: hold_soft_def hold_hard_def Let_def split: option.split)

lemma levels_ok_set_level:
  assumes "levels_ok (bk_bids b) \<and> levels_ok (bk_asks b)" and "0 \<le> sz"
  shows "levels_ok (bk_bids (set_level sd price sz b)) \<and> levels_ok (bk_asks (set_level sd price sz b))"
  using assms by (cases sd) (auto simp: set_level_def Let_def levels_ok_delete levels_ok_insert)

lemma fold_changes_levels:
  "levels_ok (bk_bids b) \<and> levels_ok (bk_asks b) \<Longrightarrow>
   levels_ok (bk_bids (snd (fold_changes cs tm b))) \<and> levels_ok (bk_asks (snd (fold_changes cs tm b)))"
proof (induction cs arbitrary: b)
  case (Cons c cs)
  show ?case
  proof (cases "ch_size c")
    case None
    then show ?thesis using Cons.prems by (simp add: split_beta hold_ops_frame)
  next
    case (Some sz)
    show ?thesis
    proof (cases "sz < 0")
      case True
      with Some Cons.prems show ?thesis by (simp add: split_beta hold_ops_frame)
    next
      case False
      with Some Cons.IH [OF levels_ok_set_level [OF Cons.prems, of sz]] show ?thesis by simp
    qed
  qed
qed simp

lemma fold_changes_hold:
  "fst (fold_changes cs tm b) = Some out \<Longrightarrow> bk_hold (snd (fold_changes cs tm b)) \<noteq> None"
  by (induction cs arbitrary: b)
    (auto simp: split_beta hold_ops_frame simp del: not_None_eq split: option.splits if_splits)

lemma fold_changes_frame:
  "bk_snapshot (snd (fold_changes cs tm b)) = bk_snapshot b"
  by (induction cs arbitrary: b)
    (auto simp: split_beta hold_ops_frame set_level_def Let_def split: option.split book_side.split)

lemma book_crossed_cong:
  "bk_bids b = bk_bids b' \<Longrightarrow> bk_asks b = bk_asks b' \<Longrightarrow> book_crossed b = book_crossed b'"
  by (simp add: book_crossed_def best_bid_def best_ask_def)

lemma judge_batch_levels:
  "bk_bids (snd (judge_batch cs tm b)) = bk_bids b" "bk_asks (snd (judge_batch cs tm b)) = bk_asks b"
  by (simp_all add: judge_batch_def Let_def hold_ops_frame split: option.split)

lemma judge_batch_proven:
  "bk_hold (snd (judge_batch cs tm b)) = None \<Longrightarrow> \<not> book_crossed (snd (judge_batch cs tm b))"
  using book_crossed_cong [OF judge_batch_levels, of cs tm b]
  by (auto simp: judge_batch_def Let_def hold_ops_frame)

lemma book_apply_inv:
  assumes "book_inv b"
  shows "book_inv (snd (book_apply ts cs tm b))"
proof -
  have stats: "book_inv (b\<lparr>bk_stats := x\<rparr>)" for x
    using assms by (simp add: book_inv_def book_proven_def book_crossed_def best_bid_def best_ask_def)
  obtain r b1 where f: "fold_changes cs tm b = (r, b1)" by (cases "fold_changes cs tm b")
  have ok: "levels_ok (bk_bids b1) \<and> levels_ok (bk_asks b1)"
    using fold_changes_levels [of b cs tm] assms by (simp add: f book_inv_def)
  have folded: "book_inv (snd (case (r, b1) of (Some out, b') \<Rightarrow> (out, b')
      | (None, b') \<Rightarrow> judge_batch cs tm (count_batch tm b')))"
  proof (cases r)
    case None
    then show ?thesis using ok judge_batch_proven [of cs tm "count_batch tm b1"]
      by (simp add: book_inv_def book_proven_def judge_batch_levels count_batch_def)
  next
    case (Some out)
    then show ?thesis using ok fold_changes_hold [of cs tm b out] f
      by (simp add: book_inv_def del: not_None_eq)
  qed
  show ?thesis
    using assms stats folded by (simp add: book_apply_def f split: option.split)
qed

lemma book_reset_inv: "book_inv (snd (book_reset ts bids asks tm b))"
  by (auto simp: book_reset_def book_inv_def book_proven_def Let_def levels_ok_collect)

lemma hold_hard_inv: "book_inv b \<Longrightarrow> book_inv (snd (hold_hard r tm b))"
  by (simp add: book_inv_def hold_ops_frame del: not_None_eq)

lemma take_stats_inv: "book_inv b \<Longrightarrow> book_inv (snd (take_stats b))"
  by (simp add: take_stats_def book_inv_def book_proven_def book_crossed_def best_bid_def best_ask_def)

lemma book_step_inv: "book_inv b \<Longrightarrow> book_inv (book_step op b)"
  by (cases op) (simp_all add: book_reset_inv book_apply_inv distrust_def hold_hard_inv take_stats_inv)

lemma book_new_inv: "book_inv book_new"
  by (simp add: book_inv_def book_new_def levels_ok_def book_proven_def book_crossed_def best_bid_def bt_last_def)

lemma book_run_inv: "book_inv b \<Longrightarrow> book_inv (fold book_step ops b)"
  by (induction ops arbitrary: b) (auto intro: book_step_inv)

section \<open>What is published\<close>

definition ps_crossed :: "price_state \<Rightarrow> bool" where
  "ps_crossed p \<longleftrightarrow> ps_best_ask p \<le> ps_best_bid p"

definition same_but_time :: "price_state \<Rightarrow> price_state \<Rightarrow> bool" where
  "same_but_time p q \<longleftrightarrow> p\<lparr>ps_at := ps_at q\<rparr> = q"

lemma derive_same_but_time: "same_but_time (derive bids asks t) (derive bids asks t')"
  by (simp add: same_but_time_def derive_def Let_def split_beta)

text \<open>A price of the feed lies strictly between the two empty-side readings.\<close>

definition prices_in_range :: "local_book \<Rightarrow> bool" where
  "prices_in_range b \<longleftrightarrow> (\<forall>p \<in> fst ` set (bk_bids b). p < empty_ask) \<and> (\<forall>p \<in> fst ` set (bk_asks b). empty_bid < p)"

lemma derive_uncrossed:
  assumes "\<not> book_crossed b" and "prices_in_range b"
  shows "\<not> ps_crossed (derive (bk_bids b) (bk_asks b) tm)"
proof -
  have bid: "fst kv \<in> fst ` set (bk_bids b)" if "bt_last (bk_bids b) = Some kv" for kv
    using that last_in_set by (force simp: bt_last_def split: if_splits)
  have ask: "fst kv \<in> fst ` set (bk_asks b)" if "bt_first (bk_asks b) = Some kv" for kv
    using that by (cases "bk_asks b") (auto simp: bt_first_def)
  show ?thesis
    using assms bid ask
    by (auto simp: ps_crossed_def derive_def or_default_def book_crossed_def best_bid_def best_ask_def
        prices_in_range_def Let_def split_beta empty_bid_def empty_ask_def not_le split: option.splits)
qed

text \<open>C7: Whatever snapshots, batches and distrust calls the book has seen, it never publishes
  arithmetic it cannot prove: what it publishes is the last full snapshot, unchanged but for the
  receipt time, or a derived book that is not crossed.\<close>

theorem published_book_is_proven:
  assumes "b = fold book_step ops book_new" and "book_price_state b = Some p"
  shows "(\<exists>sn. bk_snapshot b = Some sn \<and> same_but_time p (sn_state sn))
    \<or> (bk_hold b = None \<and> \<not> book_crossed b \<and> (prices_in_range b \<longrightarrow> \<not> ps_crossed p))"
proof -
  have inv: "book_inv b" unfolding assms(1) by (rule book_run_inv [OF book_new_inv])
  obtain sn where sn: "bk_snapshot b = Some sn"
    using assms(2) by (auto simp: book_price_state_def split: option.splits)
  show ?thesis
  proof (cases "bk_hold b = None \<and> \<not> book_crossed b")
    case True
    then show ?thesis using assms(2) sn derive_uncrossed by (auto simp: book_price_state_def)
  next
    case False
    show ?thesis
    proof (cases "bk_hold b")
      case (Some h)
      then show ?thesis using assms(2) sn by (auto simp: book_price_state_def same_but_time_def)
    next
      case None
      with False inv sn obtain t where t: "sn_state sn = derive (bk_bids b) (bk_asks b) t"
        by (auto simp: book_inv_def book_proven_def)
      have "p = derive (bk_bids b) (bk_asks b) (or_default (bk_last_change b) (ps_at (sn_state sn)))"
        using assms(2) sn None by (simp add: book_price_state_def)
      then have "same_but_time p (sn_state sn)" unfolding t by (simp only: derive_same_but_time)
      with sn show ?thesis by blast
    qed
  qed
qed

definition crossing_ops :: "book_op list" where
  "crossing_ops =
     [Reset 1 [(34 / 100, 10)] [(35 / 100, 5)] 100,
      Apply 2 [\<lparr>ch_side = Bid, ch_price = 35 / 100, ch_size = Some 20, ch_best_bid = None, ch_best_ask = None\<rparr>] 101]"

lemmas book_eval = book_new_def zero_stats_def book_reset_def book_apply_def Let_def bt_collect_def
  positive_sizes_def derive_def or_default_def bt_last_def bt_first_def empty_bid_def empty_ask_def
  hard_held_def set_level_def judge_batch_def count_batch_def book_crossed_def best_bid_def best_ask_def
  hold_soft_def book_price_state_def

lemma published_book_is_proven_witness:
  "\<exists>p sn. book_price_state (fold book_step crossing_ops book_new) = Some p
     \<and> bk_snapshot (fold book_step crossing_ops book_new) = Some sn
     \<and> same_but_time p (sn_state sn) \<and> ps_best_bid p = 34 / 100"
proof -
  obtain p where p: "book_price_state (fold book_step crossing_ops book_new) = Some p"
      "ps_best_bid p = 34 / 100" "bk_hold (fold book_step crossing_ops book_new) \<noteq> None"
    by (simp add: crossing_ops_def book_eval)
  from published_book_is_proven [OF refl p(1)] p(2,3) show ?thesis
    using p(1) by auto
qed

section \<open>Holds\<close>

definition is_reset :: "book_op \<Rightarrow> bool" where
  "is_reset op = (case op of Reset _ _ _ _ \<Rightarrow> True | _ \<Rightarrow> False)"

lemma hard_held_step:
  assumes "hard_held b" and "\<not> is_reset op"
  shows "hard_held (book_step op b) \<and> book_price_state (book_step op b) = book_price_state b
    \<and> bk_hold (book_step op b) = bk_hold b"
  using assms
  by (cases op) (auto simp: is_reset_def book_apply_def distrust_def take_stats_def hard_held_def
      book_price_state_def split: option.splits)

text \<open>A hard hold is lifted by nothing but a full snapshot: until one arrives every batch, distrust
  call and statistics read leaves the hold and the published snapshot exactly as they are; and a
  snapshot lifts every hold.\<close>

theorem only_a_snapshot_lifts_a_hard_hold:
  assumes "hard_held b" and "\<forall>op \<in> set ops. \<not> is_reset op"
  shows "bk_hold (fold book_step ops b) = bk_hold b
    \<and> book_price_state (fold book_step ops b) = book_price_state b
    \<and> bk_hold (book_step (Reset ts bids asks tm) (fold book_step ops b)) = None"
proof -
  have "hard_held (fold book_step ops b) \<and> bk_hold (fold book_step ops b) = bk_hold b
      \<and> book_price_state (fold book_step ops b) = book_price_state b"
    using assms by (induction ops arbitrary: b) (auto simp: hard_held_step)
  then show ?thesis by (simp add: book_reset_def Let_def)
qed

lemma only_a_snapshot_lifts_a_hard_hold_witness:
  "book_price_state (fold book_step [Apply 3 [] 102, Distrust ''side'' 103]
      (snd (distrust ''side'' 101 (snd (book_reset 1 [(34 / 100, 10)] [(35 / 100, 5)] 100 book_new)))))
   = book_price_state (snd (distrust ''side'' 101 (snd (book_reset 1 [(34 / 100, 10)] [(35 / 100, 5)] 100 book_new))))"
  using only_a_snapshot_lifts_a_hard_hold [of
      "snd (distrust ''side'' 101 (snd (book_reset 1 [(34 / 100, 10)] [(35 / 100, 5)] 100 book_new)))"
      "[Apply 3 [] 102, Distrust ''side'' 103]"]
  by (simp add: is_reset_def distrust_def hold_hard_def hard_held_def book_reset_def Let_def book_new_def)

lemma fold_changes_soft:
  "fst (fold_changes cs tm b) = None \<Longrightarrow> bk_hold (snd (fold_changes cs tm b)) = bk_hold b"
  by (induction cs arbitrary: b)
    (auto simp: split_beta set_level_def Let_def split: option.splits if_splits book_side.splits)

text \<open>A hold ends early only on proof: when a batch releases the book, the book was held, its derived
  touch is not crossed and equals the best bid and ask the venue stamped on the batch's last entry,
  and from there on the derived book is published.\<close>

theorem release_needs_agreement:
  assumes "book_apply ts cs tm b = (BookReleased h, b')"
  shows "bk_hold b \<noteq> None \<and> cs \<noteq> [] \<and> \<not> book_crossed b' \<and> bk_hold b' = None
    \<and> ch_best_bid (last cs) = Some (or_default (best_bid b') empty_bid)
    \<and> ch_best_ask (last cs) = Some (or_default (best_ask b') empty_ask)"
proof -
  obtain r b1 where f: "fold_changes cs tm b = (r, b1)" by (cases "fold_changes cs tm b")
  have hh: "fst (hold_hard rs t b0) \<noteq> BookReleased h" for rs t b0
    by (simp add: hold_hard_def Let_def split: option.split)
  have "fst (fold_changes cs tm b) \<noteq> Some (BookReleased h)"
    by (induction cs arbitrary: b) (simp_all add: split_beta hh split: option.split)
  then have "r \<noteq> Some (BookReleased h)" by (simp add: f)
  with assms f have r: "r = None" and j: "judge_batch cs tm (count_batch tm b1) = (BookReleased h, b')"
    by (auto simp: book_apply_def f split: option.splits if_splits)
  have hs: "hold_soft rs t b0 \<noteq> (BookReleased h, x)" for rs t b0 x
    by (simp add: hold_soft_def Let_def split: option.split)
  have "bk_hold b1 = bk_hold b" using fold_changes_soft [of cs tm b] by (simp add: f r)
  moreover have "best_bid b' = best_bid (count_batch tm b1)" "best_ask b' = best_ask (count_batch tm b1)"
    using judge_batch_levels [of cs tm "count_batch tm b1"] j by (simp_all add: best_bid_def best_ask_def)
  ultimately show ?thesis
    using j hs by (auto simp: judge_batch_def Let_def count_batch_def book_crossed_def
        split: if_splits option.splits)
qed

definition released_ops :: "book_op list" where
  "released_ops = crossing_ops @
     [Apply 3 [\<lparr>ch_side = Ask, ch_price = 35 / 100, ch_size = Some 0, ch_best_bid = None, ch_best_ask = None\<rparr>,
               \<lparr>ch_side = Ask, ch_price = 36 / 100, ch_size = Some 7, ch_best_bid = Some (35 / 100), ch_best_ask = Some (36 / 100)\<rparr>] 102]"

lemma release_needs_agreement_witness:
  "\<exists>h b'. book_apply 3 [\<lparr>ch_side = Ask, ch_price = 35 / 100, ch_size = Some 0, ch_best_bid = None, ch_best_ask = None\<rparr>,
        \<lparr>ch_side = Ask, ch_price = 36 / 100, ch_size = Some 7, ch_best_bid = Some (35 / 100), ch_best_ask = Some (36 / 100)\<rparr>]
        102 (fold book_step crossing_ops book_new) = (BookReleased h, b') \<and> \<not> book_crossed b'"
proof -
  let ?cs = "[\<lparr>ch_side = Ask, ch_price = 35 / 100, ch_size = Some 0, ch_best_bid = None, ch_best_ask = None\<rparr>,
        \<lparr>ch_side = Ask, ch_price = 36 / 100, ch_size = Some 7, ch_best_bid = Some (35 / 100), ch_best_ask = Some (36 / 100)\<rparr>]"
  obtain h b' where r: "book_apply 3 ?cs 102 (fold book_step crossing_ops book_new) = (BookReleased h, b')"
    by (simp add: crossing_ops_def book_eval)
  with release_needs_agreement [OF r] show ?thesis by blast
qed

section \<open>The abstract book\<close>

text \<open>The contract of a feed of absolute sizes: the book is a function from a side and a price to the size
  resting there, and a change sets one point of it.\<close>

definition depth :: "local_book \<Rightarrow> book_side \<times> decimal \<Rightarrow> decimal" where
  "depth b = (\<lambda>(sd, price). or_default
     (map_of (case sd of Bid \<Rightarrow> bk_bids b | Ask \<Rightarrow> bk_asks b) price) 0)"

definition valid_change :: "level_change \<Rightarrow> bool" where
  "valid_change c \<longleftrightarrow> (case ch_size c of None \<Rightarrow> False | Some sz \<Rightarrow> 0 \<le> sz)"

definition spec_change :: "level_change \<Rightarrow> (book_side \<times> decimal \<Rightarrow> decimal) \<Rightarrow> (book_side \<times> decimal \<Rightarrow> decimal)" where
  "spec_change c d = d((ch_side c, ch_price c) := or_default (ch_size c) 0)"

lemma depth_set_level: "depth (set_level sd price sz b) = (depth b)((sd, price) := sz)"
  by (auto simp: depth_def set_level_def Let_def or_default_def delete_conv' fun_eq_iff
      split: book_side.split)

lemma fold_changes_refines:
  "list_all valid_change cs \<Longrightarrow>
   fst (fold_changes cs tm b) = None \<and> depth (snd (fold_changes cs tm b)) = fold spec_change cs (depth b)"
  by (induction cs arbitrary: b)
    (auto simp: valid_change_def spec_change_def depth_set_level or_default_def split: option.splits)

lemma depth_cong: "bk_bids b = bk_bids b' \<Longrightarrow> bk_asks b = bk_asks b' \<Longrightarrow> depth b = depth b'"
  unfolding depth_def by (simp only:)

definition accepts :: "int \<Rightarrow> local_book \<Rightarrow> bool" where
  "accepts ts b \<longleftrightarrow> (\<exists>sn. bk_snapshot b = Some sn \<and> sn_venue_ts sn \<le> ts) \<and> \<not> hard_held b"

lemma book_apply_depth:
  assumes "list_all valid_change cs"
  shows "depth (snd (book_apply ts cs tm b)) = (if accepts ts b then fold spec_change cs (depth b) else depth b)"
proof -
  obtain b1 where f: "fold_changes cs tm b = (None, b1)" "depth b1 = fold spec_change cs (depth b)"
    using fold_changes_refines [OF assms, of tm b] by (metis prod.collapse)
  have "depth (snd (judge_batch cs tm (count_batch tm b1))) = depth b1"
    by (rule depth_cong) (simp_all add: judge_batch_levels count_batch_def)
  with f show ?thesis
    by (auto simp: book_apply_def accepts_def not_le intro: depth_cong split: option.split)
qed

text \<open>C5: The book implements the feed's contract: a batch of well-formed changes, accepted by the book,
  takes the size at every price of either side to what setting the batch's sizes one after the other
  gives, held or not; a batch the book does not accept changes no level.\<close>

theorem book_apply_refines:
  assumes "list_all valid_change cs"
  shows "depth (snd (book_apply ts cs tm b)) = (if accepts ts b then fold spec_change cs (depth b) else depth b)"
  by (rule book_apply_depth [OF assms])

lemma book_apply_refines_witness:
  "depth (snd (book_apply 2 [\<lparr>ch_side = Bid, ch_price = 1 / 3, ch_size = Some 20, ch_best_bid = None, ch_best_ask = None\<rparr>]
      101 (snd (book_reset 1 [] [] 100 book_new)))) (Bid, 1 / 3) = 20"
  using book_apply_refines [of "[\<lparr>ch_side = Bid, ch_price = 1 / 3, ch_size = Some 20, ch_best_bid = None, ch_best_ask = None\<rparr>]"
      2 101 "snd (book_reset 1 [] [] 100 book_new)"]
  by (simp add: valid_change_def accepts_def spec_change_def or_default_def book_reset_def book_new_def
      hard_held_def Let_def)

lemma spec_change_last:
  "fold spec_change cs d x =
     (case find (\<lambda>c. (ch_side c, ch_price c) = x) (rev cs) of None \<Rightarrow> d x | Some c \<Rightarrow> or_default (ch_size c) 0)"
  by (induction cs rule: rev_induct) (auto simp: spec_change_def)

lemma spec_change_idem: "fold spec_change cs (fold spec_change cs d) = fold spec_change cs d"
  by (auto simp: fun_eq_iff spec_change_last split: option.split)

lemma depth_levels:
  assumes "levels_ok m"
  shows "map_of m p = (let s = or_default (map_of m p) 0 in if s = 0 then None else Some s)"
  using assms by (auto simp: levels_ok_def or_default_def Let_def dest!: map_of_SomeD split: option.split)

lemma depth_determines_touch:
  assumes "book_inv b" and "book_inv b'" and "depth b = depth b'"
  shows "best_bid b = best_bid b' \<and> best_ask b = best_ask b'"
proof -
  have ok: "levels_ok (bk_bids b)" "levels_ok (bk_bids b')" "levels_ok (bk_asks b)" "levels_ok (bk_asks b')"
    using assms(1,2) by (simp_all add: book_inv_def)
  have "or_default (map_of (bk_bids b) p) 0 = or_default (map_of (bk_bids b') p) 0"
      "or_default (map_of (bk_asks b) p) 0 = or_default (map_of (bk_asks b') p) 0" for p
    using fun_cong [OF assms(3), of "(Bid, p)"] fun_cong [OF assms(3), of "(Ask, p)"] by (simp_all add: depth_def)
  then have "map_of (bk_bids b) p = map_of (bk_bids b') p" "map_of (bk_asks b) p = map_of (bk_asks b') p" for p
    using depth_levels [OF ok(1), of p] depth_levels [OF ok(2), of p] depth_levels [OF ok(3), of p]
      depth_levels [OF ok(4), of p] by simp_all
  then show ?thesis
    using bt.ends_extensional [of "bk_bids b" "bk_bids b'"] bt.ends_extensional [of "bk_asks b" "bk_asks b'"] ok
    by (simp add: levels_ok_def best_bid_def best_ask_def)
qed

text \<open>A duplicate frame is harmless: a batch of well-formed changes applied a second time leaves every
  level, and so the touch on both sides, as the first application left it.\<close>

theorem book_apply_idempotent:
  fixes b :: local_book and ts :: int and cs :: "level_change list" and tm tm' :: utc
  assumes "book_inv b" and "list_all valid_change cs" and "accepts ts b"
  defines "b1 \<equiv> snd (book_apply ts cs tm b)"
  defines "b2 \<equiv> snd (book_apply ts cs tm' b1)"
  shows "depth b2 = depth b1 \<and> best_bid b2 = best_bid b1 \<and> best_ask b2 = best_ask b1"
proof -
  have d1: "depth b1 = fold spec_change cs (depth b)"
    using book_apply_depth [OF assms(2)] assms(3) by (simp add: b1_def)
  have d2: "depth b2 = depth b1"
    using book_apply_depth [OF assms(2), of ts tm' b1] by (simp add: b2_def d1 spec_change_idem)
  have "book_inv b1" unfolding b1_def by (rule book_apply_inv [OF assms(1)])
  moreover from this have "book_inv b2" unfolding b2_def by (rule book_apply_inv)
  ultimately show ?thesis using d2 depth_determines_touch by blast
qed

lemma book_apply_idempotent_witness:
  "let cs = [\<lparr>ch_side = Bid, ch_price = 1 / 3, ch_size = Some 20, ch_best_bid = None, ch_best_ask = None\<rparr>];
       b0 = snd (book_reset 1 [] [] 100 book_new);
       b1 = snd (book_apply 2 cs 101 b0)
   in best_bid (snd (book_apply 2 cs 102 b1)) = best_bid b1"
proof -
  let ?cs = "[\<lparr>ch_side = Bid, ch_price = 1 / 3, ch_size = Some 20, ch_best_bid = None, ch_best_ask = None\<rparr>]"
  let ?b0 = "snd (book_reset 1 [] [] 100 book_new)"
  have "accepts 2 ?b0" by (simp add: accepts_def book_reset_def book_new_def hard_held_def Let_def)
  from book_apply_idempotent [OF book_reset_inv _ this, of ?cs 102 101] show ?thesis
    by (simp add: valid_change_def Let_def)
qed

end
