(* ===== verification/Ghost_Quotes.thy ===== *)
theory Ghost_Quotes
  imports Trading_State
begin

text \<open>
  The simulated resting quotes of \<open>src/helpers/ghost_quotes.rs\<close>: a process-wide registry of the maker
  quotes that ghost mode has placed and no ask has reached yet.  The registry is passed explicitly;
  the clock reading that stamps a fill is an argument.
\<close>

section \<open>The registry\<close>

record resting_quote =
  rq_position :: position
  rq_params :: order_params

type_synonym quote_registry = "(position_key, resting_quote) hash_map"

definition is_crossed :: "decimal \<Rightarrow> decimal \<Rightarrow> bool" where
  "is_crossed ask quote_price \<longleftrightarrow> 0 < ask \<and> ask < 1 \<and> ask \<le> quote_price"

definition rest :: "position_key \<Rightarrow> position \<Rightarrow> order_params \<Rightarrow> quote_registry \<Rightarrow> bool \<times> quote_registry" where
  "rest key p params m =
     (if hm_contains key m then (False, m)
      else (True, hm_insert key \<lparr>rq_position = p, rq_params = params\<rparr> m))"

definition is_resting :: "position_key \<Rightarrow> quote_registry \<Rightarrow> bool" where
  "is_resting key m = hm_contains key m"

definition pull :: "position_key \<Rightarrow> quote_registry \<Rightarrow> resting_quote option \<times> quote_registry" where
  "pull key m = (hm_get m key, hm_remove key m)"

definition crosses :: "string \<Rightarrow> (market_id \<Rightarrow> decimal option) \<Rightarrow> position_key \<Rightarrow> resting_quote \<Rightarrow> bool" where
  "crosses owner ask_for k q \<longleftrightarrow>
     k_squadron k = owner \<and>
     (case ask_for (p_pair_token_id (rq_position q)) of
        None \<Rightarrow> False
      | Some ask \<Rightarrow> is_crossed ask (p_avg_entry (rq_position q)))"

definition stamp_fill :: "utc \<Rightarrow> resting_quote \<Rightarrow> resting_quote" where
  "stamp_fill now q = q\<lparr>rq_position := (rq_position q)\<lparr>p_fill_confirmed_at := Some now\<rparr>\<rparr>"

text \<open>The second pass of the take: remove the crossed keys one by one, each stamped with the clock read
  as it is removed.\<close>

fun remove_crossed ::
  "(position_key \<Rightarrow> utc) \<Rightarrow> position_key list \<Rightarrow> quote_registry \<Rightarrow> (position_key \<times> resting_quote) list \<times> quote_registry"
where
  "remove_crossed clock [] m = ([], m)"
| "remove_crossed clock (k # ks) m =
     (let (taken, m') = remove_crossed clock ks (hm_remove k m)
      in (case hm_get m k of None \<Rightarrow> taken | Some q \<Rightarrow> (k, stamp_fill (clock k) q) # taken, m'))"

definition take_crossed ::
  "string \<Rightarrow> (market_id \<Rightarrow> decimal option) \<Rightarrow> (position_key \<Rightarrow> utc) \<Rightarrow> quote_registry \<Rightarrow>
   (position_key \<times> resting_quote) list \<times> quote_registry" where
  "take_crossed owner ask_for clock m =
     remove_crossed clock (map fst (filter (\<lambda>(k, q). crosses owner ask_for k q) m)) m"

definition clear_squadron :: "string \<Rightarrow> quote_registry \<Rightarrow> quote_registry" where
  "clear_squadron squadron_id m = hm_retain (\<lambda>k _. k_squadron k \<noteq> squadron_id) m"

definition resting_commitment :: "string \<Rightarrow> quote_registry \<Rightarrow> string set \<times> decimal" where
  "resting_commitment strategy m =
     (let own = filter (\<lambda>(k, _). k_strategy k = strategy) m
      in (set (map (op_market_name \<circ> rq_params \<circ> snd) own),
          sum_list (map (\<lambda>(_, q). op_price (rq_params q) * op_shares (rq_params q)) own)))"

section \<open>Taking\<close>

lemma remove_crossed_map: "snd (remove_crossed clock ks m) = fold hm_remove ks m"
  by (induction ks arbitrary: m) (simp_all add: split_beta)

lemma remove_crossed_taken:
  "distinct ks \<Longrightarrow>
   (k, q') \<in> set (fst (remove_crossed clock ks m)) \<longleftrightarrow>
   k \<in> set ks \<and> (\<exists>q. hm_get m k = Some q \<and> q' = stamp_fill (clock k) q)"
  by (induction ks arbitrary: m) (auto simp: split_beta split: option.split)

lemma crossed_keys:
  assumes "hm_wf m"
  shows "distinct (map fst (filter (\<lambda>(k, q). crosses owner ask_for k q) m))"
    and "k \<in> set (map fst (filter (\<lambda>(k, q). crosses owner ask_for k q) m)) \<longleftrightarrow>
         (\<exists>q. hm_get m k = Some q \<and> crosses owner ask_for k q)"
  using hm_wf_retain [OF assms, of "crosses owner ask_for"] hm_get_mem_iff [OF assms]
  by (force simp: hm_wf_def hm_retain_def)+

lemma take_crossed_get:
  assumes "hm_wf m"
  shows "hm_get (snd (take_crossed owner ask_for clock m)) k =
    (case hm_get m k of None \<Rightarrow> None | Some q \<Rightarrow> if crosses owner ask_for k q then None else Some q)"
  using crossed_keys(2) [OF assms, of k owner ask_for]
  by (auto simp: take_crossed_def remove_crossed_map hm.remove_all_get simp del: set_map set_filter
      split: option.split)

lemma take_crossed_wf: "hm_wf m \<Longrightarrow> hm_wf (snd (take_crossed owner ask_for clock m))"
  by (simp add: take_crossed_def remove_crossed_map hm.remove_all_wf)

text \<open>Taking the crossed quotes of a squadron returns exactly the quotes of that squadron whose own
  token's ask is a real offer (strictly between 0 and 1) at or below the frozen price, each as it was
  rested but for its fill stamp; those are gone, and every other quote, any other squadron's included,
  is left as it was.\<close>

theorem take_crossed_exact:
  fixes clock :: "position_key \<Rightarrow> utc" and m :: quote_registry
  assumes "hm_wf m"
  shows "((k, q') \<in> set (fst (take_crossed owner ask_for clock m)) \<longleftrightarrow>
      (\<exists>q ask. hm_get m k = Some q \<and> k_squadron k = owner
        \<and> ask_for (p_pair_token_id (rq_position q)) = Some ask
        \<and> 0 < ask \<and> ask < 1 \<and> ask \<le> p_avg_entry (rq_position q) \<and> q' = stamp_fill (clock k) q))
    \<and> hm_get (snd (take_crossed owner ask_for clock m)) k =
      (if \<exists>q'. (k, q') \<in> set (fst (take_crossed owner ask_for clock m)) then None else hm_get m k)"
proof -
  have t: "(k, q') \<in> set (fst (take_crossed owner ask_for clock m)) \<longleftrightarrow>
      (\<exists>q. hm_get m k = Some q \<and> crosses owner ask_for k q \<and> q' = stamp_fill (clock k) q)" for q'
    unfolding take_crossed_def remove_crossed_taken [OF crossed_keys(1) [OF assms]]
    using crossed_keys(2) [OF assms] by auto
  show ?thesis
    unfolding take_crossed_get [OF assms] t
    by (auto simp: crosses_def is_crossed_def split: option.splits)
qed

definition ghost_key :: "string \<Rightarrow> position_key" where
  "ghost_key s = \<lparr>k_squadron = s, k_strategy = ''MakerStrategy'', k_market = ''yes''\<rparr>"

definition ghost_position :: position where
  "ghost_position =
     \<lparr>p_shares = 10, p_avg_entry = 2/5, p_opened_at = 0, p_close_time = None, p_market_name = ''m'',
      p_pair_token_id = ''yes'', p_fill_confirmed_at = None, p_paired_leg_token_id = None, p_entry_fee = 0\<rparr>"

definition ghost_params :: order_params where
  "ghost_params =
     \<lparr>op_token_id = ''yes'', op_price = 2/5, op_shares = 10, op_fee_bps = 0, op_is_neg_risk = False,
      op_market_name = ''m'', op_condition_id = [], op_order_type = Gtc, op_post_only = True,
      op_ghost_mode = True\<rparr>"

definition two_quotes :: quote_registry where
  "two_quotes = snd (rest (ghost_key ''b'') ghost_position ghost_params
     (snd (rest (ghost_key ''a'') ghost_position ghost_params [])))"

lemma take_crossed_exact_witness:
  "hm_get (snd (take_crossed ''a'' (\<lambda>_. Some (39 / 100)) (\<lambda>_. 7) two_quotes)) (ghost_key ''a'') = None
   \<and> hm_get (snd (take_crossed ''a'' (\<lambda>_. Some (39 / 100)) (\<lambda>_. 7) two_quotes)) (ghost_key ''b'') \<noteq> None"
proof -
  have wf: "hm_wf two_quotes" by (simp add: two_quotes_def rest_def hm_wf_def)
  let ?q = "\<lparr>rq_position = ghost_position, rq_params = ghost_params\<rparr>"
  have g: "hm_get two_quotes (ghost_key ''a'') = Some ?q" "hm_get two_quotes (ghost_key ''b'') = Some ?q"
    by (simp_all add: two_quotes_def rest_def ghost_key_def)
  note t = take_crossed_exact [OF wf, where owner = "''a''" and ask_for = "\<lambda>_. Some (39 / 100)" and clock = "\<lambda>_. 7"]
  have "(ghost_key ''a'', stamp_fill 7 ?q) \<in> set (fst (take_crossed ''a'' (\<lambda>_. Some (39 / 100)) (\<lambda>_. 7) two_quotes))"
    by (intro t [THEN conjunct1, THEN iffD2] exI [of _ ?q] exI [of _ "39 / 100"])
      (use g(1) in \<open>simp add: ghost_key_def ghost_position_def\<close>)
  then have "\<exists>q'. (ghost_key ''a'', q') \<in> set (fst (take_crossed ''a'' (\<lambda>_. Some (39 / 100)) (\<lambda>_. 7) two_quotes))" ..
  moreover have "\<not> (\<exists>q'. (ghost_key ''b'', q') \<in> set (fst (take_crossed ''a'' (\<lambda>_. Some (39 / 100)) (\<lambda>_. 7) two_quotes)))"
    using t [of "ghost_key ''b''"] by (simp add: ghost_key_def)
  ultimately show ?thesis
    using t [of "ghost_key ''a''"] t [of "ghost_key ''b''"] g(2) by simp
qed

section \<open>Runs\<close>

datatype quote_op =
    Rest position_key position order_params
  | Pull position_key
  | Take string "market_id \<Rightarrow> decimal option" "position_key \<Rightarrow> utc"
  | Clear string

fun quote_step :: "quote_op \<Rightarrow> quote_registry \<Rightarrow> quote_registry" where
  "quote_step (Rest k p params) m = snd (rest k p params m)"
| "quote_step (Pull k) m = snd (pull k m)"
| "quote_step (Take owner ask_for clock) m = snd (take_crossed owner ask_for clock m)"
| "quote_step (Clear s) m = clear_squadron s m"

text \<open>The operations that end the life of a quote: its own pull, the clearing of its squadron, and a take
  by its squadron that its market has crossed.\<close>

fun ends_quote :: "position_key \<Rightarrow> resting_quote \<Rightarrow> quote_op \<Rightarrow> bool" where
  "ends_quote k q (Rest _ _ _) = False"
| "ends_quote k q (Pull k') = (k' = k)"
| "ends_quote k q (Take owner ask_for _) = crosses owner ask_for k q"
| "ends_quote k q (Clear s) = (k_squadron k = s)"

lemma quote_step_wf: "hm_wf m \<Longrightarrow> hm_wf (quote_step op m)"
  by (cases op) (auto simp: rest_def pull_def take_crossed_wf clear_squadron_def)

lemma quote_step_get:
  assumes "hm_wf m" and "hm_get m k = Some q"
  shows "hm_get (quote_step op m) k = (if ends_quote k q op then None else Some q)"
  using assms
  by (cases op) (auto simp: rest_def pull_def take_crossed_get clear_squadron_def hm_get_retain)

text \<open>A resting quote keeps its price: whatever is rested, pulled, taken or cleared around it, a
  quote that nothing has ended is still resting with the very position and order it was placed with,
  a re-emission on its own key included; and the first operation that ends it removes it.\<close>

theorem resting_quote_frozen:
  assumes "hm_wf m" and "rest k p params m = (True, m1)"
    and "\<forall>op \<in> set ops. \<not> ends_quote k \<lparr>rq_position = p, rq_params = params\<rparr> op"
  shows "hm_get (fold quote_step ops m1) k = Some \<lparr>rq_position = p, rq_params = params\<rparr>
    \<and> (ends_quote k \<lparr>rq_position = p, rq_params = params\<rparr> op
         \<longrightarrow> \<not> is_resting k (quote_step op (fold quote_step ops m1)))"
proof -
  let ?q = "\<lparr>rq_position = p, rq_params = params\<rparr>"
  have run: "hm_wf m \<Longrightarrow> hm_get m k = Some ?q \<Longrightarrow> \<forall>op \<in> set ops. \<not> ends_quote k ?q op \<Longrightarrow>
      hm_get (fold quote_step ops m) k = Some ?q \<and> hm_wf (fold quote_step ops m)" for ops m
    by (induction ops arbitrary: m) (simp_all add: quote_step_get quote_step_wf)
  have m1: "hm_wf m1" "hm_get m1 k = Some ?q"
    using assms(1,2) by (auto simp: rest_def split: if_splits)
  from run [OF m1 assms(3)] show ?thesis by (simp add: quote_step_get is_resting_def)
qed

lemma resting_quote_frozen_witness:
  "hm_get (fold quote_step [Rest (ghost_key ''a'') (ghost_position\<lparr>p_avg_entry := 3/10\<rparr>) ghost_params,
       Take ''b'' (\<lambda>_. Some (1/10)) (\<lambda>_. 7), Take ''a'' (\<lambda>_. Some 1) (\<lambda>_. 7), Clear ''b'']
     (snd (rest (ghost_key ''a'') ghost_position ghost_params []))) (ghost_key ''a'')
   = Some \<lparr>rq_position = ghost_position, rq_params = ghost_params\<rparr>"
  by (rule resting_quote_frozen [THEN conjunct1, OF hm_wf_Nil])
    (simp_all add: rest_def crosses_def ghost_key_def is_crossed_def)

section \<open>Commitment\<close>

text \<open>The commitment a strategy reads off the registry is exact: resting a quote on a free key adds
  its notional and its market to the strategy's own commitment, and leaves every other strategy's as
  it was; a quote re-emitted on an occupied key adds nothing.\<close>

theorem commitment_of_rest:
  "resting_commitment s (snd (rest k p params m)) =
    (let (markets, notional) = resting_commitment s m
     in if is_resting k m \<or> k_strategy k \<noteq> s then (markets, notional)
        else (insert (op_market_name params) markets, notional + op_price params * op_shares params))"
proof (cases "hm_contains k m")
  case True
  then show ?thesis by (simp add: rest_def is_resting_def split_beta Let_def)
next
  case False
  then have "hm_insert k q m = m @ [(k, q)]" for q
    by (induction m) (auto simp: hm_contains_def split: if_splits)
  with False show ?thesis
    by (auto simp: rest_def is_resting_def resting_commitment_def Let_def)
qed

end
