(* ===== verification/Book_Feed.thy ===== *)
theory Book_Feed
  imports Trading_State
begin

text \<open>
  The process-wide registries of \<open>src/state.rs\<close> beside the trading types: the book-feed watch
  (\<open>log_throttle::book_feed\<close>) that reports a market whose book has gone dark, the heartbeat throttle,
  and the map from strategies to the markets they work.  Registries and clock readings are passed
  explicitly; the branch of a poisoned lock is not modelled.
\<close>

section \<open>The book-feed watch\<close>

definition dark_after :: int where
  "dark_after = from_secs 90"

record feed_state =
  fd_last_live :: instant
  fd_dark :: bool
  fd_market :: string

type_synonym feed_registry = "(string, feed_state) hash_map"

definition stand_down :: "string \<Rightarrow> instant \<Rightarrow> feed_registry \<Rightarrow> feed_registry" where
  "stand_down label now reg =
     (case hm_get reg label of
        None \<Rightarrow> reg
      | Some e \<Rightarrow> hm_insert label (e\<lparr>fd_last_live := now, fd_dark := False, fd_market := []\<rparr>) reg)"

definition rotate :: "string \<Rightarrow> instant \<Rightarrow> feed_state \<Rightarrow> feed_state" where
  "rotate market now e =
     (if market \<noteq> [] \<and> fd_market e \<noteq> market
      then e\<lparr>fd_market := market, fd_last_live := now, fd_dark := False\<rparr> else e)"

definition observe_book :: "bool \<Rightarrow> instant \<Rightarrow> feed_state \<Rightarrow> feed_state" where
  "observe_book has_book now e =
     (if has_book then e\<lparr>fd_last_live := now, fd_dark := False\<rparr>
      else if \<not> fd_dark e \<and> dark_after \<le> max 0 (now - fd_last_live e) then e\<lparr>fd_dark := True\<rparr>
      else e)"

definition note_inner :: "string \<Rightarrow> string \<Rightarrow> bool \<Rightarrow> instant \<Rightarrow> feed_registry \<Rightarrow> feed_registry" where
  "note_inner label market has_book now reg =
     (let entry = (case hm_get reg label of
            None \<Rightarrow> \<lparr>fd_last_live = now, fd_dark = False, fd_market = market\<rparr>
          | Some e \<Rightarrow> e)
      in hm_insert label (observe_book has_book now (rotate market now entry)) reg)"

definition note_market :: "string \<Rightarrow> string \<Rightarrow> bool \<Rightarrow> instant \<Rightarrow> feed_registry \<Rightarrow> feed_registry" where
  "note_market label market has_book now reg =
     (if market = [] then stand_down label now reg else note_inner label market has_book now reg)"

definition note_unnamed :: "string \<Rightarrow> bool \<Rightarrow> instant \<Rightarrow> feed_registry \<Rightarrow> feed_registry" where
  "note_unnamed label has_book now reg = note_inner label [] has_book now reg"

definition dark_markets :: "instant \<Rightarrow> feed_registry \<Rightarrow> (string \<times> string \<times> nat) list" where
  "dark_markets now reg =
     map (\<lambda>(k, s). (k, fd_market s, elapsed_secs now (fd_last_live s))) (filter (\<lambda>(_, s). fd_dark s) reg)"

definition is_tracked :: "string \<Rightarrow> feed_registry \<Rightarrow> bool" where
  "is_tracked label reg = hm_contains label reg"

definition forget_feed :: "string \<Rightarrow> feed_registry \<Rightarrow> feed_registry" where
  "forget_feed label reg = hm_remove label reg"

datatype feed_op =
    NoteMarket string string bool instant
  | Note string bool instant
  | Forget string instant

fun feed_step :: "feed_op \<Rightarrow> feed_registry \<Rightarrow> feed_registry" where
  "feed_step (NoteMarket label market has_book now) reg = note_market label market has_book now reg"
| "feed_step (Note label has_book now) reg = note_unnamed label has_book now reg"
| "feed_step (Forget label _) reg = forget_feed label reg"

fun feed_label :: "feed_op \<Rightarrow> string" where
  "feed_label (NoteMarket label _ _ _) = label"
| "feed_label (Note label _ _) = label"
| "feed_label (Forget label _) = label"

definition is_dark :: "string \<Rightarrow> feed_registry \<Rightarrow> bool" where
  "is_dark label reg \<longleftrightarrow> (case hm_get reg label of None \<Rightarrow> False | Some s \<Rightarrow> fd_dark s)"

lemma feed_frame: "feed_label op \<noteq> label \<Longrightarrow> hm_get (feed_step op reg) label = hm_get reg label"
  by (cases op) (auto simp: note_market_def stand_down_def note_unnamed_def note_inner_def forget_feed_def
      Let_def split: option.split)

lemma feed_step_wf: "hm_wf reg \<Longrightarrow> hm_wf (feed_step op reg)"
  by (cases op) (auto simp: note_market_def stand_down_def note_unnamed_def note_inner_def forget_feed_def
      Let_def split: option.split)

text \<open>A note without a book about the market the feed already follows: the only calls during which the
  dark clock of a label keeps running.\<close>

fun bookless :: "string \<Rightarrow> string \<Rightarrow> feed_op \<Rightarrow> bool" where
  "bookless label market (NoteMarket l m has_book _) \<longleftrightarrow> l = label \<and> m = market \<and> \<not> has_book"
| "bookless label market (Note l has_book _) \<longleftrightarrow> l = label \<and> \<not> has_book"
| "bookless label market (Forget _ _) \<longleftrightarrow> False"

fun feed_time :: "feed_op \<Rightarrow> instant" where
  "feed_time (NoteMarket _ _ _ now) = now"
| "feed_time (Note _ _ now) = now"
| "feed_time (Forget _ now) = now"

lemma dark_after_pos: "0 < dark_after"
  by (simp add: dark_after_def from_secs_def nanos_per_sec_def)

lemma bookless_step:
  assumes "bookless label market op" and "market \<noteq> []" and "hm_get reg label = Some e" and "fd_market e = market"
  shows "hm_get (feed_step op reg) label =
    Some (e\<lparr>fd_dark := fd_dark e \<or> dark_after \<le> feed_time op - fd_last_live e\<rparr>)"
  using assms dark_after_pos
  by (cases op; cases e)
    (auto simp: note_market_def note_unnamed_def note_inner_def rotate_def observe_book_def Let_def max_def
      split: if_splits)

lemma bookless_run:
  assumes "\<forall>op \<in> set ops. feed_label op = label \<longrightarrow> bookless label market op" and "market \<noteq> []"
    and "hm_get reg label = Some e" and "fd_market e = market"
  shows "hm_get (fold feed_step ops reg) label = Some (e\<lparr>fd_dark := fd_dark e \<or>
    (\<exists>op \<in> set ops. feed_label op = label \<and> dark_after \<le> feed_time op - fd_last_live e)\<rparr>)"
  using assms
proof (induction ops arbitrary: reg e)
  case (Cons op ops)
  show ?case
  proof (cases "feed_label op = label")
    case True
    with Cons.prems(1) have "bookless label market op" by simp
    note s = bookless_step [OF this Cons.prems(2-4)]
    show ?thesis using Cons.IH [OF _ _ s] Cons.prems True by (auto intro!: arg_cong [where f = Some])
  next
    case False
    then show ?thesis using Cons.IH [of "feed_step op reg" e] Cons.prems by (simp add: feed_frame)
  qed
qed simp

text \<open>A market is reported dark exactly when its book has been silent for 90 seconds: after a note
  with a live book, while the only calls about the asset are notes without a book on the same market
  (or with no market name), the asset is dark if and only if one of them came 90 seconds or more after
  the live one, whatever happens to other assets.\<close>

theorem dark_iff_silent:
  assumes "market \<noteq> []" and "\<forall>op \<in> set ops. feed_label op = label \<longrightarrow> bookless label market op"
  shows "is_dark label (fold feed_step ops (note_market label market True t reg)) \<longleftrightarrow>
    (\<exists>op \<in> set ops. feed_label op = label \<and> dark_after \<le> feed_time op - t)"
proof -
  let ?e = "observe_book True t (rotate market t (case hm_get reg label of
      None \<Rightarrow> \<lparr>fd_last_live = t, fd_dark = False, fd_market = market\<rparr> | Some e \<Rightarrow> e))"
  have e: "hm_get (note_market label market True t reg) label = Some ?e" "fd_market ?e = market"
      "fd_last_live ?e = t" "\<not> fd_dark ?e"
    using assms(1)
    by (simp_all add: note_market_def note_inner_def Let_def rotate_def observe_book_def split: option.split)
  from bookless_run [OF assms(2,1) e(1,2)] e(3,4) show ?thesis by (simp add: is_dark_def)
qed

lemma dark_iff_silent_witness:
  "is_dark ''btc'' (fold feed_step [Note ''btc'' False (from_secs 89), NoteMarket ''eth'' ''e'' True (from_secs 90),
       NoteMarket ''btc'' ''m'' False (from_secs 91)] (note_market ''btc'' ''m'' True 0 []))
   \<and> \<not> is_dark ''btc'' (fold feed_step [Note ''btc'' False (from_secs 89)] (note_market ''btc'' ''m'' True 0 []))"
  using dark_iff_silent [of "''m''" "[Note ''btc'' False (from_secs 89), NoteMarket ''eth'' ''e'' True (from_secs 90),
       NoteMarket ''btc'' ''m'' False (from_secs 91)]" "''btc''" 0 "[]"]
    dark_iff_silent [of "''m''" "[Note ''btc'' False (from_secs 89)]" "''btc''" 0 "[]"]
  by (simp add: dark_after_def from_secs_def nanos_per_sec_def)

text \<open>Every dark entry has been dark-worthy for the full bound by the time it was last touched.\<close>

definition aged :: "instant \<Rightarrow> feed_state \<Rightarrow> bool" where
  "aged now e \<longleftrightarrow> (fd_dark e \<longrightarrow> dark_after \<le> now - fd_last_live e)"

definition dark_inv :: "instant \<Rightarrow> feed_registry \<Rightarrow> bool" where
  "dark_inv now reg \<longleftrightarrow> hm_wf reg \<and> (\<forall>label e. hm_get reg label = Some e \<longrightarrow> aged now e)"

lemma aged_later: "aged now e \<Longrightarrow> now \<le> later \<Longrightarrow> aged later e"
  by (auto simp: aged_def)

lemma aged_observe: "aged now e \<Longrightarrow> aged now (observe_book b now (rotate m now e))"
  using dark_after_pos by (auto simp: aged_def observe_book_def rotate_def max_def split: if_splits)

lemma dark_inv_later: "dark_inv now reg \<Longrightarrow> now \<le> later \<Longrightarrow> dark_inv later reg"
  by (auto simp: dark_inv_def intro: aged_later)

lemma dark_inv_insert: "dark_inv now reg \<Longrightarrow> aged now e \<Longrightarrow> dark_inv now (hm_insert label e reg)"
  by (simp add: dark_inv_def)

lemma dark_inv_step:
  assumes "dark_inv (feed_time op) reg"
  shows "dark_inv (feed_time op) (feed_step op reg)"
  using assms
  by (cases op) (auto simp: note_market_def stand_down_def note_unnamed_def note_inner_def forget_feed_def
      Let_def dark_inv_def aged_def [of _ "_\<lparr>fd_market := []\<rparr>"] aged_def [of _ "\<lparr>fd_last_live = _, fd_dark = False, fd_market = _\<rparr>"]
      intro!: dark_inv_insert aged_observe split: option.split)

text \<open>The age in the dark report is honest: with a clock that does not run backwards, every market
  the report lists has been without a book for at least 90 seconds, and the list has no asset twice.\<close>

theorem dark_markets_age:
  assumes "sorted (map feed_time ops)" and "\<forall>op \<in> set ops. feed_time op \<le> now"
  shows "(\<forall>(label, market, secs) \<in> set (dark_markets now (fold feed_step ops [])). 90 \<le> secs)
    \<and> distinct (map fst (dark_markets now (fold feed_step ops [])))"
proof -
  let ?reg = "fold feed_step ops []"
  have run: "sorted (map feed_time ops) \<Longrightarrow> \<forall>op \<in> set ops. t \<le> feed_time op \<and> feed_time op \<le> now \<Longrightarrow>
      t \<le> now \<Longrightarrow> dark_inv t reg \<Longrightarrow> dark_inv now (fold feed_step ops reg)" for t reg
  proof (induction ops arbitrary: t reg)
    case (Cons a ops)
    then have "dark_inv (feed_time a) (feed_step a reg)" by (auto intro: dark_inv_later dark_inv_step)
    with Cons.IH [of "feed_time a" "feed_step a reg"] Cons.prems show ?case by simp
  qed (auto intro: dark_inv_later)
  have "dark_inv now ?reg"
  proof (cases ops)
    case Nil
    then show ?thesis by (simp add: dark_inv_def)
  next
    case (Cons a as)
    then show ?thesis using run [of "feed_time a" "[]"] assms by (auto simp: dark_inv_def)
  qed
  then have wf: "hm_wf ?reg" and aged: "\<And>label e. hm_get ?reg label = Some e \<Longrightarrow> fd_dark e \<Longrightarrow> dark_after \<le> now - fd_last_live e"
    by (auto simp: dark_inv_def aged_def)
  have "90 \<le> elapsed_secs now (fd_last_live e)" if "(l, e) \<in> set ?reg" "fd_dark e" for l e
    using aged [of l e] that hm_get_mem_iff [OF wf] by (auto simp: dark_after_def elapsed_secs_ge_iff)
  moreover have "distinct (map fst (filter (\<lambda>(_, s). fd_dark s) ?reg))"
    using hm_wf_retain [OF wf, of "\<lambda>_ s. fd_dark s"] by (simp add: hm_wf_def hm_retain_def)
  ultimately show ?thesis by (auto simp: dark_markets_def comp_def split_beta)
qed

lemma dark_markets_age_witness:
  "dark_markets (from_secs 100) (fold feed_step [NoteMarket ''btc'' ''m'' True 0, Note ''btc'' False (from_secs 95)] [])
   = [(''btc'', ''m'', 100)]
   \<and> (\<forall>(label, market, secs) \<in> set (dark_markets (from_secs 100)
        (fold feed_step [NoteMarket ''btc'' ''m'' True 0, Note ''btc'' False (from_secs 95)] [])). 90 \<le> secs)"
  using dark_markets_age [of "[NoteMarket ''btc'' ''m'' True 0, Note ''btc'' False (from_secs 95)]" "from_secs 100"]
  by (simp add: dark_markets_def note_market_def note_unnamed_def note_inner_def rotate_def observe_book_def
      dark_after_def from_secs_def nanos_per_sec_def elapsed_secs_def)

section \<open>Throttled notices\<close>

text \<open>A throttle emits a notice of a kind at most once per window while its pattern does not change.\<close>

locale throttle =
  fixes permit :: "'k \<Rightarrow> 'p \<Rightarrow> instant \<Rightarrow> 's \<Rightarrow> bool \<times> 's"
    and latest :: "'s \<Rightarrow> 'k \<Rightarrow> ('p \<times> instant) option"
    and recent :: "instant \<Rightarrow> instant \<Rightarrow> bool"
  assumes permit_iff: "fst (permit k p now s) \<longleftrightarrow> \<not> (\<exists>t. latest s k = Some (p, t) \<and> recent now t)"
    and permit_latest: "latest (snd (permit k p now s)) k' =
      (if k' = k \<and> fst (permit k p now s) then Some (p, now) else latest s k')"
begin

fun notices :: "('k \<times> 'p \<times> instant) list \<Rightarrow> 's \<Rightarrow> ('k \<times> 'p \<times> instant) list" where
  "notices [] s = []"
| "notices ((k, p, t) # calls) s =
     (let (ok, s') = permit k p t s in (if ok then [(k, p, t)] else []) @ notices calls s')"

lemma notices_first:
  assumes "notices calls s = ys @ (k, p, t') # zs" and "\<forall>(k', _) \<in> set ys. k' \<noteq> k"
    and "latest s k = Some (p, t)"
  shows "\<not> recent t' t"
  using assms
proof (induction calls arbitrary: s ys)
  case (Cons call calls)
  obtain k1 p1 t1 where call: "call = (k1, p1, t1)" by (cases call)
  obtain ok s1 where pm: "permit k1 p1 t1 s = (ok, s1)" by (cases "permit k1 p1 t1 s")
  note ok = permit_iff [of k1 p1 t1 s, unfolded pm] and late = permit_latest [of k1 p1 t1 s k, unfolded pm]
  show ?case
  proof (cases "ok \<and> ys = []")
    case True
    then show ?thesis using Cons.prems ok by (auto simp: call pm)
  next
    case False
    obtain ys' where "notices calls s1 = ys' @ (k, p, t') # zs" "\<forall>(k', _) \<in> set ys'. k' \<noteq> k"
        "\<not> (k = k1 \<and> ok)"
      using Cons.prems False by (cases ys) (auto simp: call pm split: if_splits)
    then show ?thesis using Cons.IH [of s1 ys'] Cons.prems(3) late by auto
  qed
qed simp

text \<open>Two consecutive notices of a kind that carry the same pattern are a full window apart.\<close>

lemma notices_spaced:
  assumes "notices calls s = xs @ (k, p, t) # ys @ (k, p, t') # zs" and "\<forall>(k', _) \<in> set ys. k' \<noteq> k"
  shows "\<not> recent t' t"
  using assms(1)
proof (induction calls arbitrary: s xs)
  case (Cons call calls)
  obtain k1 p1 t1 where call: "call = (k1, p1, t1)" by (cases call)
  obtain ok s1 where pm: "permit k1 p1 t1 s = (ok, s1)" by (cases "permit k1 p1 t1 s")
  show ?case
  proof (cases "ok \<and> xs = []")
    case True
    with Cons.prems have "notices calls s1 = ys @ (k, p, t') # zs" "k1 = k" "p1 = p" "t1 = t"
      by (simp_all add: call pm)
    then show ?thesis
      using notices_first [OF _ assms(2)] permit_latest [of k1 p1 t1 s k, unfolded pm] True by auto
  next
    case False
    obtain xs' where "notices calls s1 = xs' @ (k, p, t) # ys @ (k, p, t') # zs"
      using Cons.prems False by (cases xs) (auto simp: call pm split: if_splits)
    then show ?thesis by (rule Cons.IH)
  qed
qed simp

end

definition heartbeat_secs :: nat where
  "heartbeat_secs = 30"

definition heartbeat_permit ::
  "string \<Rightarrow> unit \<Rightarrow> instant \<Rightarrow> (string, instant) hash_map \<Rightarrow> bool \<times> (string, instant) hash_map" where
  "heartbeat_permit label u now reg =
     (case hm_get reg label of
        Some prev \<Rightarrow>
          if max 0 (now - prev) < from_secs heartbeat_secs then (False, reg) else (True, hm_insert label now reg)
      | None \<Rightarrow> (True, hm_insert label now reg))"

interpretation heartbeat: throttle heartbeat_permit "\<lambda>reg k. map_option (Pair ()) (hm_get reg k)"
    "\<lambda>now prev. max 0 (now - prev) < from_secs heartbeat_secs"
  by unfold_locales (auto simp: heartbeat_permit_def split: option.split)

text \<open>The heartbeat of a market is throttled: whatever the order in which markets beat, two
  consecutive heartbeat lines of one market are at least 30 seconds apart.\<close>

theorem heartbeats_spaced:
  assumes "heartbeat.notices calls reg = xs @ (label, u, t) # ys @ (label, u', t') # zs"
    and "\<forall>(label', _) \<in> set ys. label' \<noteq> label"
  shows "t + from_secs 30 \<le> t'"
  using heartbeat.notices_spaced [of calls reg xs label u t ys t' zs] assms
  by (auto simp: heartbeat_secs_def from_secs_def nanos_per_sec_def)

lemma heartbeats_spaced_witness:
  "heartbeat.notices [(''b'', (), 0), (''b'', (), from_secs 29), (''e'', (), from_secs 29), (''b'', (), from_secs 30)] []
     = [(''b'', (), 0), (''e'', (), from_secs 29), (''b'', (), from_secs 30)]
   \<and> (0::int) + from_secs 30 \<le> from_secs 30"
  using heartbeats_spaced [of "[(''b'', (), 0), (''b'', (), from_secs 29), (''e'', (), from_secs 29), (''b'', (), from_secs 30)]"
      "[]" "[]" "''b''" "()" 0 "[(''e'', (), from_secs 29)]" "()" "from_secs 30" "[]"]
  by (simp add: heartbeat_permit_def heartbeat_secs_def from_secs_def nanos_per_sec_def)

section \<open>Which market a strategy works\<close>

definition strategy_market_key :: "string \<Rightarrow> string \<Rightarrow> string" where
  "strategy_market_key squadron_id viper_kind = squadron_id @ '':'' @ viper_kind"

definition starts_with :: "string \<Rightarrow> string \<Rightarrow> bool" where
  "starts_with k prefix \<longleftrightarrow> take (length prefix) k = prefix"

definition forget_squadron_markets :: "string \<Rightarrow> (string, string) hash_map \<Rightarrow> (string, string) hash_map" where
  "forget_squadron_markets squadron_id m = hm_retain (\<lambda>k _. \<not> starts_with k (squadron_id @ '':'')) m"

lemma market_key_owner:
  "CHR '':'' \<notin> set s \<Longrightarrow> CHR '':'' \<notin> set s' \<Longrightarrow>
   starts_with (strategy_market_key s' kind) (s @ '':'') \<longleftrightarrow> s = s'"
proof (induction s arbitrary: s')
  case Nil
  then show ?case by (cases s') (auto simp: starts_with_def strategy_market_key_def)
next
  case (Cons c s)
  then show ?case by (cases s') (auto simp: starts_with_def strategy_market_key_def)
qed

text \<open>Forgetting a retired squadron drops every entry it wrote and no other squadron's: as squadron ids
  carry no separator, after the call no kind of that squadron has an entry, and every kind of every
  other squadron, one whose id extends the retired one's included, has the entry it had.\<close>

theorem forget_squadron_markets_exact:
  assumes "hm_wf m" and "CHR '':'' \<notin> set s" and "CHR '':'' \<notin> set s'"
  shows "hm_get (forget_squadron_markets s m) (strategy_market_key s' kind) =
    (if s' = s then None else hm_get m (strategy_market_key s' kind))"
  using assms by (auto simp: forget_squadron_markets_def hm_get_retain market_key_owner split: option.split)

lemma forget_squadron_markets_exact_witness:
  "hm_get (forget_squadron_markets ''btc-open'' [(''btc-open:maker'', ''m1''), (''btc-open-2:maker'', ''m2'')])
     (strategy_market_key ''btc-open-2'' ''maker'') = Some ''m2''"
  using forget_squadron_markets_exact [of "[(''btc-open:maker'', ''m1''), (''btc-open-2:maker'', ''m2'')]"
      "''btc-open''" "''btc-open-2''" "''maker''"]
  by (simp add: hm_wf_def strategy_market_key_def)

end
