(* ===== verification/Viper_Status.thy ===== *)
theory Viper_Status
  imports Prelude "HOL-Library.Char_ord" "HOL-Library.List_Lexorder" "HOL-Library.Product_Lexorder"
begin

text \<open>
  The viper activity registry of \<open>src/helpers/viper_status.rs\<close>: the outcome of the latest evaluation of
  every strategy on every asset, the gate that vetoed it, and the ledger of refusals the advisor
  reads.  Text is a list of bytes: every character the code tests is ASCII, and no byte of a longer
  UTF-8 character is.  Lower-casing is modelled on ASCII letters, which asset names consist of.  A
  view carries the time where the code renders it as text.
\<close>

section \<open>Text\<close>

definition ascii_lower :: "char \<Rightarrow> char" where
  "ascii_lower c =
     (let n = of_char c :: nat in if 65 \<le> n \<and> n \<le> 90 then char_of (n + 32) else c)"

definition to_lowercase :: "string \<Rightarrow> string" where
  "to_lowercase s = map ascii_lower s"

definition ascii_digit :: "char \<Rightarrow> bool" where
  "ascii_digit c \<longleftrightarrow> c \<in> set ''0123456789''"

definition ascii_alphabetic :: "char \<Rightarrow> bool" where
  "ascii_alphabetic c \<longleftrightarrow>
     (let n = of_char c :: nat in (65 \<le> n \<and> n \<le> 90) \<or> (97 \<le> n \<and> n \<le> 122))"

definition numeric :: "char \<Rightarrow> bool" where
  "numeric c \<longleftrightarrow> ascii_digit c \<or> c \<in> set ''.,+-$''"

text \<open>The scan of \<open>normalize_reason\<close>: the first argument is the character before the rest still to be
  read.  A maximal numeric run with a digit becomes a mark unless letters hold it on both sides.\<close>

function normalize_from :: "char option \<Rightarrow> string \<Rightarrow> string" where
  "normalize_from prev [] = []"
| "normalize_from prev (c # cs) =
     (if numeric c then
        (let run = c # takeWhile numeric cs;
             rest = dropWhile numeric cs;
             has_digit = (\<exists>x \<in> set run. ascii_digit x);
             glued_before = (case prev of None \<Rightarrow> False | Some p \<Rightarrow> ascii_alphabetic p \<or> p = CHR ''_'');
             glued_after = (case rest of [] \<Rightarrow> False | d # _ \<Rightarrow> ascii_alphabetic d \<and> glued_before)
         in (if has_digit \<and> \<not> glued_after then ''#'' else run) @ normalize_from (Some (last run)) rest)
      else c # normalize_from (Some c) cs)"
  by pat_completeness auto
termination
  by (relation "measure (\<lambda>(_, s). length s)") (auto simp: less_Suc_eq_le length_dropWhile_le)

declare normalize_from.simps(2) [simp del]

definition normalize_reason :: "string \<Rightarrow> string" where
  "normalize_reason reason = normalize_from None reason"

section \<open>The registry\<close>

datatype eval_outcome = Signal | NoSignalOutcome | Error | Timeout | Idle

definition idle_no_market :: string where
  "idle_no_market = ''waiting for a tradeable market''"

definition disabled_in_config :: string where
  "disabled_in_config = ''disabled in config''"

definition max_refusal_kinds :: nat where
  "max_refusal_kinds = 32"

record refusal_counter =
  rc_total :: nat
  rc_since_report :: nat
  rc_last_detail :: string

record viper_status =
  vs_last_eval_at :: utc
  vs_last_outcome :: eval_outcome
  vs_last_reason :: "string option"
  vs_last_reason_at :: "utc option"
  vs_last_signal_at :: "utc option"
  vs_detail :: "string option"
  vs_refusals :: "(string, refusal_counter) hash_map"
  vs_window_started_at :: utc

type_synonym status_registry = "(string \<times> string, viper_status) hash_map"

definition fresh :: "utc \<Rightarrow> eval_outcome \<Rightarrow> viper_status" where
  "fresh now outcome =
     \<lparr>vs_last_eval_at = now, vs_last_outcome = outcome, vs_last_reason = None, vs_last_reason_at = None,
      vs_last_signal_at = None, vs_detail = None, vs_refusals = [], vs_window_started_at = now\<rparr>"

definition refusal_key :: "string \<Rightarrow> (string, refusal_counter) hash_map \<Rightarrow> string" where
  "refusal_key kind refusals =
     (if hm_contains kind refusals \<or> length refusals < max_refusal_kinds then kind else ''other'')"

definition count_refusal :: "string \<Rightarrow> refusal_counter \<Rightarrow> refusal_counter" where
  "count_refusal reason c =
     c\<lparr>rc_total := rc_total c + 1, rc_since_report := rc_since_report c + 1, rc_last_detail := reason\<rparr>"

definition bump_ledger ::
  "string \<Rightarrow> (string, refusal_counter) hash_map \<Rightarrow> (string, refusal_counter) hash_map" where
  "bump_ledger reason refusals =
     hm_upsert (refusal_key (normalize_reason reason) refusals)
       \<lparr>rc_total = 0, rc_since_report = 0, rc_last_detail = []\<rparr> (count_refusal reason) refusals"

definition bump_refusal :: "string \<Rightarrow> viper_status \<Rightarrow> viper_status" where
  "bump_refusal reason st =
     (if reason = disabled_in_config then st
      else st\<lparr>vs_refusals := bump_ledger reason (vs_refusals st)\<rparr>)"

definition status_key :: "string \<Rightarrow> string \<Rightarrow> string \<times> string" where
  "status_key asset strategy = (to_lowercase asset, strategy)"

definition forget_asset :: "string \<Rightarrow> status_registry \<Rightarrow> status_registry" where
  "forget_asset asset m = hm_retain (\<lambda>(a, _) _. a \<noteq> to_lowercase asset) m"

definition eval_row :: "utc \<Rightarrow> eval_outcome \<Rightarrow> viper_status \<Rightarrow> viper_status" where
  "eval_row now outcome e =
     (let e1 = e\<lparr>vs_last_eval_at := now, vs_last_outcome := outcome\<rparr>
      in if outcome = Signal
         then e1\<lparr>vs_last_signal_at := Some now, vs_last_reason := None, vs_last_reason_at := None\<rparr>
         else e1)"

definition record_eval :: "utc \<Rightarrow> string \<Rightarrow> string \<Rightarrow> eval_outcome \<Rightarrow> status_registry \<Rightarrow> status_registry" where
  "record_eval now asset strategy outcome m =
     hm_upsert (status_key asset strategy) (fresh now outcome) (eval_row now outcome) m"

definition idle_row :: "utc \<Rightarrow> string \<Rightarrow> viper_status \<Rightarrow> viper_status" where
  "idle_row now reason e =
     (let already_idle = vs_last_outcome e = Idle \<and> vs_last_reason e = Some reason;
          e1 = e\<lparr>vs_last_eval_at := now, vs_last_outcome := Idle\<rparr>
      in if already_idle then e1
         else e1\<lparr>vs_last_reason := Some reason, vs_last_reason_at := Some now\<rparr>)"

definition record_idle :: "utc \<Rightarrow> string \<Rightarrow> string \<Rightarrow> string \<Rightarrow> status_registry \<Rightarrow> status_registry" where
  "record_idle now asset strategy reason m =
     hm_upsert (status_key asset strategy) (fresh now Idle) (idle_row now reason) m"

definition report_reason :: "utc \<Rightarrow> string \<Rightarrow> string \<Rightarrow> string \<Rightarrow> status_registry \<Rightarrow> status_registry" where
  "report_reason now asset strategy reason m =
     hm_upsert (status_key asset strategy) (fresh now NoSignalOutcome)
       (\<lambda>e. bump_refusal reason (e\<lparr>vs_last_reason := Some reason, vs_last_reason_at := Some now\<rparr>)) m"

definition report_detail :: "utc \<Rightarrow> string \<Rightarrow> string \<Rightarrow> string option \<Rightarrow> status_registry \<Rightarrow> status_registry" where
  "report_detail now asset strategy detail m =
     hm_upsert (status_key asset strategy) (fresh now NoSignalOutcome) (\<lambda>e. e\<lparr>vs_detail := detail\<rparr>) m"

definition report_leg_refusals ::
  "utc \<Rightarrow> string \<Rightarrow> string \<Rightarrow> string \<Rightarrow> string list \<Rightarrow> status_registry \<Rightarrow> status_registry" where
  "report_leg_refusals now asset strategy composite legs m =
     hm_upsert (status_key asset strategy) (fresh now NoSignalOutcome)
       (\<lambda>e. fold bump_refusal legs (e\<lparr>vs_last_reason := Some composite, vs_last_reason_at := Some now\<rparr>)) m"

section \<open>Reports\<close>

record refusal_tally =
  rt_reason :: string
  rt_count :: nat
  rt_count_since_report :: nat
  rt_last_detail :: string

record viper_status_view =
  vv_asset :: string
  vv_strategy :: string
  vv_last_eval_at :: utc
  vv_last_eval_secs_ago :: int
  vv_last_outcome :: eval_outcome
  vv_last_reason :: "string option"
  vv_last_reason_secs_ago :: "int option"
  vv_last_signal_at :: "utc option"
  vv_last_signal_secs_ago :: "int option"
  vv_detail :: "string option"
  vv_refusals :: "refusal_tally list"

record viper_refusal_report =
  rr_asset :: string
  rr_strategy :: string
  rr_window_secs :: int
  rr_ticks :: nat
  rr_reasons :: "refusal_tally list"
  rr_last_reason :: "string option"

definition view_refusal_kinds :: nat where
  "view_refusal_kinds = 5"

definition report_refusal_kinds :: nat where
  "report_refusal_kinds = 3"

definition tally_of :: "string \<times> refusal_counter \<Rightarrow> refusal_tally" where
  "tally_of kc = \<lparr>rt_reason = fst kc, rt_count = rc_total (snd kc),
     rt_count_since_report = rc_since_report (snd kc), rt_last_detail = rc_last_detail (snd kc)\<rparr>"

definition tallies :: "viper_status \<Rightarrow> bool \<Rightarrow> nat \<Rightarrow> refusal_tally list" where
  "tallies st by_window limit =
     take limit (sort_key
       (\<lambda>t. (- int (if by_window then rt_count_since_report t else rt_count t), rt_reason t))
       (map tally_of (vs_refusals st)))"

definition refusal_ticks :: "viper_status \<Rightarrow> nat" where
  "refusal_ticks st = sum_list (map (rc_since_report \<circ> snd) (vs_refusals st))"

definition report_of :: "utc \<Rightarrow> (string \<times> string) \<times> viper_status \<Rightarrow> viper_refusal_report" where
  "report_of now row =
     (let st = snd row
      in \<lparr>rr_asset = fst (fst row), rr_strategy = snd (fst row),
          rr_window_secs = num_seconds (now - vs_window_started_at st), rr_ticks = refusal_ticks st,
          rr_reasons = tallies st True report_refusal_kinds, rr_last_reason = vs_last_reason st\<rparr>)"

definition restart_window :: "utc \<Rightarrow> viper_status \<Rightarrow> viper_status" where
  "restart_window now st =
     st\<lparr>vs_refusals := map (\<lambda>(k, c). (k, c\<lparr>rc_since_report := 0\<rparr>)) (vs_refusals st),
        vs_window_started_at := now\<rparr>"

definition refusal_report ::
  "utc \<Rightarrow> string \<Rightarrow> bool \<Rightarrow> status_registry \<Rightarrow> viper_refusal_report list \<times> status_registry" where
  "refusal_report now asset take_it m =
     (let a = to_lowercase asset
      in (sort_key rr_strategy (map (report_of now) (filter (\<lambda>((a', _), _). a' = a) m)),
          if take_it then map (\<lambda>((a', s), st). ((a', s), if a' = a then restart_window now st else st)) m
          else m))"

definition view_of :: "utc \<Rightarrow> (string \<times> string) \<times> viper_status \<Rightarrow> viper_status_view" where
  "view_of now row =
     (let st = snd row
      in \<lparr>vv_asset = fst (fst row), vv_strategy = snd (fst row), vv_last_eval_at = vs_last_eval_at st,
          vv_last_eval_secs_ago = num_seconds (now - vs_last_eval_at st),
          vv_last_outcome = vs_last_outcome st, vv_last_reason = vs_last_reason st,
          vv_last_reason_secs_ago = map_option (\<lambda>t. num_seconds (now - t)) (vs_last_reason_at st),
          vv_last_signal_at = vs_last_signal_at st,
          vv_last_signal_secs_ago = map_option (\<lambda>t. num_seconds (now - t)) (vs_last_signal_at st),
          vv_detail = vs_detail st, vv_refusals = tallies st False view_refusal_kinds\<rparr>)"

definition status_snapshot :: "utc \<Rightarrow> string option \<Rightarrow> status_registry \<Rightarrow> viper_status_view list" where
  "status_snapshot now asset_filter m =
     sort_key (\<lambda>v. (vv_asset v, vv_strategy v))
       (map (view_of now)
         (filter (\<lambda>((asset, _), _). case map_option to_lowercase asset_filter of None \<Rightarrow> True | Some f \<Rightarrow> f = asset) m))"

section \<open>Normalization\<close>

lemma numeric_not_alphabetic: "numeric c \<Longrightarrow> \<not> ascii_alphabetic c \<and> c \<noteq> CHR ''_''"
  by (auto simp: numeric_def ascii_digit_def ascii_alphabetic_def)

lemma mark_not_numeric: "\<not> numeric CHR ''#''" "\<not> ascii_alphabetic CHR ''#''"
  by (simp_all add: numeric_def ascii_digit_def ascii_alphabetic_def)

lemma normalize_plain: "\<not> numeric c \<Longrightarrow> normalize_from prev (c # cs) = c # normalize_from (Some c) cs"
  by (simp add: normalize_from.simps)

lemma normalize_prev: "s = [] \<or> \<not> numeric (hd s) \<Longrightarrow> normalize_from p s = normalize_from q s"
  by (cases s) (simp_all add: normalize_plain)

lemma normalize_head:
  "s = [] \<or> \<not> numeric (hd s) \<Longrightarrow>
   (normalize_from p s = [] \<longleftrightarrow> s = []) \<and> (s \<noteq> [] \<longrightarrow> hd (normalize_from p s) = hd s)"
  by (cases s) (simp_all add: normalize_plain)

definition glued :: "char option \<Rightarrow> string \<Rightarrow> bool" where
  "glued prev rest \<longleftrightarrow>
     (case rest of [] \<Rightarrow> False | d # _ \<Rightarrow> ascii_alphabetic d \<and>
        (case prev of None \<Rightarrow> False | Some p \<Rightarrow> ascii_alphabetic p \<or> p = CHR ''_''))"

lemma normalize_run:
  assumes "run \<noteq> []" and "\<forall>x \<in> set run. numeric x" and "rest = [] \<or> \<not> numeric (hd rest)"
  shows "normalize_from prev (run @ rest) =
    (if (\<exists>x \<in> set run. ascii_digit x) \<and> \<not> glued prev rest then ''#'' else run) @ normalize_from q rest"
proof -
  obtain c cs where run: "run = c # cs" using assms(1) by (cases run) auto
  have t: "takeWhile numeric (cs @ rest) = cs" "dropWhile numeric (cs @ rest) = rest"
    using assms(2,3) by (auto simp: run takeWhile_append2 dropWhile_append2 takeWhile_eq_Nil_iff dropWhile_eq_self_iff)
  show ?thesis
    using assms(2) normalize_prev [OF assms(3), of "Some (last run)" q]
    by (auto simp: run normalize_from.simps t glued_def Let_def split: list.split option.splits)
qed

lemma numeric_span:
  assumes "numeric (hd s)" and "s \<noteq> []"
  obtains run rest where "s = run @ rest" "run \<noteq> []" "\<forall>x \<in> set run. numeric x" "rest = [] \<or> \<not> numeric (hd rest)"
proof
  show "s = takeWhile numeric s @ dropWhile numeric s" by simp
  show "takeWhile numeric s \<noteq> []" using assms by (cases s) auto
  show "\<forall>x \<in> set (takeWhile numeric s). numeric x" by (auto dest: set_takeWhileD)
  show "dropWhile numeric s = [] \<or> \<not> numeric (hd (dropWhile numeric s))"
    using hd_dropWhile [of numeric s] by blast
qed

lemma normalize_from_idem: "normalize_from p (normalize_from p s) = normalize_from p s"
proof (induction "length s" arbitrary: p s rule: less_induct)
  case less
  consider (empty) "s = []" | (plain) c cs where "s = c # cs" "\<not> numeric c" | (run) "s \<noteq> []" "numeric (hd s)"
    by (cases s) auto
  then show ?case
  proof cases
    case plain
    then show ?thesis using less by (simp add: normalize_plain)
  next
    case run
    then obtain r rest where s: "s = r @ rest" "r \<noteq> []" "\<forall>x \<in> set r. numeric x" "rest = [] \<or> \<not> numeric (hd rest)"
      by (meson numeric_span)
    let ?n = "normalize_from p rest"
    have n: "?n = [] \<or> \<not> numeric (hd ?n)" "glued p ?n = glued p rest"
      using normalize_head [OF s(4), of p] s(4) by (auto simp: glued_def split: list.splits)
    have idem: "normalize_from x ?n = ?n" for x
      using less [of rest p] normalize_prev [OF n(1), of x p] s by simp
    show ?thesis
    proof (cases "(\<exists>x \<in> set r. ascii_digit x) \<and> \<not> glued p rest")
      case True
      then show ?thesis
        unfolding s(1) normalize_run [OF s(2-4), of p p] by (simp add: normalize_plain mark_not_numeric idem)
    next
      case False
      then show ?thesis
        unfolding s(1) normalize_run [OF s(2-4), of p p]
        using normalize_run [OF s(2,3) n(1), of p p] by (simp only: idem n(2) if_False)
    qed
  qed simp
qed

text \<open>Normalizing a refusal reason is stable: a kind of the ledger is its own kind, so a kind fed back
  as a reason is counted under itself.\<close>

theorem normalize_reason_idempotent: "normalize_reason (normalize_reason reason) = normalize_reason reason"
  by (simp add: normalize_reason_def normalize_from_idem)

lemma normalize_append:
  assumes "pre = [] \<or> \<not> numeric (last pre)"
  shows "normalize_from p (pre @ s) = normalize_from p pre @ normalize_from (if pre = [] then p else Some (last pre)) s"
  using assms
proof (induction "length pre" arbitrary: p pre rule: less_induct)
  case less
  consider (empty) "pre = []" | (plain) c cs where "pre = c # cs" "\<not> numeric c" | (run) "pre \<noteq> []" "numeric (hd pre)"
    by (cases pre) auto
  then show ?case
  proof cases
    case plain
    then show ?thesis using less by (cases "cs = []") (simp_all add: normalize_plain)
  next
    case run
    then obtain r rest where s: "pre = r @ rest" "r \<noteq> []" "\<forall>x \<in> set r. numeric x" "rest = [] \<or> \<not> numeric (hd rest)"
      by (meson numeric_span)
    have "rest \<noteq> []" using less.prems s last_in_set [OF s(2)] by auto
    then have rest: "rest \<noteq> []" "\<not> numeric (last rest)" using less.prems s by auto
    then have g: "glued p (rest @ s) = glued p rest" "rest @ s = [] \<or> \<not> numeric (hd (rest @ s))"
      using s(4) by (auto simp: glued_def split: list.splits)
    show ?thesis
      using less.hyps [of rest None] rest s(2)
      by (simp add: s(1) normalize_run [OF s(2,3) g(2), of p None] normalize_run [OF s(2-4), of p None] g(1))
  qed simp
qed

text \<open>Ticks that differ only in the live numbers a gate quotes are one kind: replacing a number
  (signs, separators and the dollar sign included) that letters do not hold on both sides by any other
  number leaves the kind as it was.\<close>

theorem live_numbers_are_one_kind:
  assumes "\<forall>x \<in> set n. numeric x" and "\<exists>x \<in> set n. ascii_digit x"
    and "\<forall>x \<in> set n'. numeric x" and "\<exists>x \<in> set n'. ascii_digit x"
    and "pre = [] \<or> \<not> numeric (last pre)" and "post = [] \<or> \<not> numeric (hd post)"
    and "pre = [] \<or> \<not> ascii_alphabetic (last pre) \<and> last pre \<noteq> CHR ''_'' \<or> post = [] \<or> \<not> ascii_alphabetic (hd post)"
  shows "normalize_reason (pre @ n @ post) = normalize_reason (pre @ n' @ post)"
proof -
  have ne: "n \<noteq> []" "n' \<noteq> []" using assms(2,4) by auto
  let ?prev = "if pre = [] then None else Some (last pre)"
  have "\<not> glued ?prev post" using assms(7) by (auto simp: glued_def split: list.splits)
  then show ?thesis
    unfolding normalize_reason_def normalize_append [OF assms(5)]
      normalize_run [OF ne(1) assms(1,6), of _ None] normalize_run [OF ne(2) assms(3,6), of _ None]
    using assms(2,4) by simp
qed

lemma live_numbers_are_one_kind_witness:
  "normalize_reason (''net_exposure '' @ ''$12.50'' @ '' > max'') = normalize_reason (''net_exposure '' @ ''-3'' @ '' > max'')
   \<and> normalize_reason ''drift_60m at 0.5'' = ''drift_60m at #''"
  using live_numbers_are_one_kind [of "''$12.50''" "''-3''" "''net_exposure ''" "'' > max''"]
  by (simp add: numeric_def ascii_digit_def) code_simp

section \<open>The ledger\<close>

definition ledger_sum :: "(refusal_counter \<Rightarrow> nat) \<Rightarrow> (string, refusal_counter) hash_map \<Rightarrow> nat" where
  "ledger_sum g m = sum_list (map (g \<circ> snd) m)"

definition ledger_at :: "(string, refusal_counter) hash_map \<Rightarrow> string \<Rightarrow> nat" where
  "ledger_at m k = (case hm_get m k of None \<Rightarrow> 0 | Some c \<Rightarrow> rc_total c)"

text \<open>The reasons the ledger counts: all but the line of a viper the operator switched off.\<close>

definition counted :: "string list \<Rightarrow> string list" where
  "counted rs = filter (\<lambda>r. r \<noteq> disabled_in_config) rs"

lemma ledger_sum_insert:
  "ledger_sum g (hm_insert k v m) + (case hm_get m k of None \<Rightarrow> 0 | Some c \<Rightarrow> g c) = ledger_sum g m + g v"
  by (induction m) (auto simp: ledger_sum_def)

lemma ledger_sum_upsert:
  assumes "\<And>c. g (f c) = g c + 1" and "g d = 0"
  shows "ledger_sum g (hm_upsert k d f m) = ledger_sum g m + 1"
  using ledger_sum_insert [of g k "f (case hm_get m k of None \<Rightarrow> d | Some c \<Rightarrow> c)" m]
  by (simp add: hm_upsert_def assms split: option.splits)

lemma ledger_sum_bump:
  "ledger_sum rc_total (bump_ledger r m) = ledger_sum rc_total m + 1"
  "ledger_sum rc_since_report (bump_ledger r m) = ledger_sum rc_since_report m + 1"
  unfolding bump_ledger_def by (rule ledger_sum_upsert; simp add: count_refusal_def)+

definition ledger_inv :: "(string, refusal_counter) hash_map \<Rightarrow> bool" where
  "ledger_inv m \<longleftrightarrow> hm_wf m \<and>
     (length m \<le> max_refusal_kinds \<or> length m = max_refusal_kinds + 1 \<and> hm_contains ''other'' m)"

lemma ledger_inv_bump: "ledger_inv m \<Longrightarrow> ledger_inv (bump_ledger r m)"
  by (auto simp: ledger_inv_def bump_ledger_def hm_upsert_def hm_length_insert refusal_key_def
      simp del: hm_contains_iff) (auto simp: hm_contains_def split: if_splits)

lemma bump_run:
  "vs_refusals (fold bump_refusal rs st) = fold bump_ledger (counted rs) (vs_refusals st)"
  by (induction rs arbitrary: st) (simp_all add: bump_refusal_def counted_def)

lemma ledger_run:
  "ledger_sum rc_total (fold bump_ledger rs m) = ledger_sum rc_total m + length rs"
  "ledger_sum rc_since_report (fold bump_ledger rs m) = ledger_sum rc_since_report m + length rs"
  "ledger_inv m \<Longrightarrow> ledger_inv (fold bump_ledger rs m)"
  by (induction rs arbitrary: m) (simp_all add: ledger_sum_bump ledger_inv_bump)

text \<open>No refusal is lost or counted twice: over any sequence of reported reasons a viper's counters
  add up to the number of them that are not the switched-off line, and the ledger keeps one entry per
  kind and never more than the 32 tracked kinds and one for the rest.\<close>

theorem refusal_ledger_accounts:
  "ledger_sum rc_total (vs_refusals (fold bump_refusal rs (fresh now outcome))) = length (counted rs)
   \<and> refusal_ticks (fold bump_refusal rs (fresh now outcome)) = length (counted rs)
   \<and> distinct (map fst (vs_refusals (fold bump_refusal rs (fresh now outcome))))
   \<and> length (vs_refusals (fold bump_refusal rs (fresh now outcome))) \<le> max_refusal_kinds + 1"
proof -
  have "ledger_inv (fold bump_ledger (counted rs) [])"
    by (rule ledger_run(3)) (simp add: ledger_inv_def)
  then show ?thesis
    using ledger_run(1,2) [of "counted rs" "[]"]
    by (auto simp: bump_run fresh_def ledger_inv_def hm_wf_def refusal_ticks_def ledger_sum_def)
qed

lemma bump_keys:
  assumes "refusal_key (normalize_reason r) m = normalize_reason r"
  shows "hm_wf (bump_ledger r m) = hm_wf (hm_insert (normalize_reason r) undefined m)"
    and "fst ` set (bump_ledger r m) = insert (normalize_reason r) (fst ` set m)"
proof -
  show "hm_wf (bump_ledger r m) = hm_wf (hm_insert (normalize_reason r) undefined m)"
    by (simp add: bump_ledger_def assms hm_upsert_def hm_wf_def update_keys)
  show "fst ` set (bump_ledger r m) = insert (normalize_reason r) (fst ` set m)"
    unfolding bump_ledger_def assms hm_upsert_def dom_map_of_conv_image_fst [symmetric] update_conv' by simp
qed

lemma bump_at:
  assumes "refusal_key (normalize_reason r) m = normalize_reason r"
  shows "ledger_at (bump_ledger r m) k = ledger_at m k + (if k = normalize_reason r then 1 else 0)"
  by (simp add: bump_ledger_def assms ledger_at_def count_refusal_def split: option.split)

lemma ledger_exact:
  assumes "card (normalize_reason ` set rs) \<le> max_refusal_kinds"
  shows "hm_wf (fold bump_ledger rs []) \<and> fst ` set (fold bump_ledger rs []) = normalize_reason ` set rs
    \<and> ledger_at (fold bump_ledger rs []) k = length (filter (\<lambda>r. normalize_reason r = k) rs)"
  using assms
proof (induction rs rule: rev_induct)
  case Nil
  then show ?case by (simp add: ledger_at_def)
next
  case (snoc r rs)
  let ?m = "fold bump_ledger rs []" and ?k = "normalize_reason r"
  have "card (normalize_reason ` set rs) \<le> max_refusal_kinds"
    using snoc.prems card_mono [of "normalize_reason ` set (rs @ [r])" "normalize_reason ` set rs"] by fastforce
  note m = snoc.IH [OF this]
  have len: "length ?m = card (normalize_reason ` set rs)"
    using m distinct_card [of "map fst ?m"] by (simp add: hm_wf_def)
  have dom: "hm_contains k ?m \<longleftrightarrow> k \<in> normalize_reason ` set rs" for k
    using m by (simp add: hm_contains_def map_of_eq_None_iff del: hm_contains_iff)
  have key: "refusal_key ?k ?m = ?k"
    using snoc.prems len dom [of ?k] by (auto simp: refusal_key_def card_insert_if simp del: hm_contains_iff split: if_splits)
  show ?case using m by (simp add: bump_keys [OF key] bump_at [OF key])
qed

text \<open>While a viper's refusals fall into at most 32 kinds, the ledger is exact: the counter of every
  kind is the number of reported reasons of that kind, and a kind never reported has none.\<close>

theorem refusal_counts_exact:
  assumes "card (normalize_reason ` set (counted rs)) \<le> max_refusal_kinds"
  shows "ledger_at (vs_refusals (fold bump_refusal rs (fresh now outcome))) kind =
    length (filter (\<lambda>r. normalize_reason r = kind) (counted rs))"
  using ledger_exact [OF assms] by (simp add: bump_run fresh_def)

lemma refusal_counts_exact_witness:
  "ledger_at (vs_refusals (fold bump_refusal [''edge 0.1'', ''disabled in config'', ''edge 0.25'', ''flat''] (fresh 0 Idle))) ''edge #'' = 2"
proof -
  let ?rs = "[''edge 0.1'', ''disabled in config'', ''edge 0.25'', ''flat'']"
  have n: "map normalize_reason (counted ?rs) = [''edge #'', ''edge #'', ''flat'']" by code_simp
  have s: "normalize_reason ` set (counted ?rs) = {''edge #'', ''flat''}"
    unfolding set_map [symmetric] n by simp
  have "length (filter (\<lambda>r. normalize_reason r = ''edge #'') (counted ?rs)) =
      length (filter (\<lambda>k. k = ''edge #'') (map normalize_reason (counted ?rs)))" by (simp add: filter_map comp_def del: filter.simps)
  then show ?thesis
    using refusal_counts_exact [of ?rs 0 Idle "''edge #''"] by (simp add: s n max_refusal_kinds_def)
qed

section \<open>Waiting and reporting\<close>

text \<open>The age of a wait is the age of the wait: over a stretch of idle ticks the reason's time stays
  the time of the first one, however many follow, while every tick refreshes the liveness of the row.\<close>

theorem idle_age_is_the_wait:
  assumes "\<And>e. hm_get m (status_key asset strategy) = Some e \<Longrightarrow>
      \<not> (vs_last_outcome e = Idle \<and> vs_last_reason e = Some reason)"
  shows "\<exists>e. hm_get (fold (\<lambda>t. record_idle t asset strategy reason) (t0 # ts) m) (status_key asset strategy) = Some e
    \<and> vs_last_outcome e = Idle \<and> vs_last_reason e = Some reason \<and> vs_last_reason_at e = Some t0
    \<and> vs_last_eval_at e = last (t0 # ts)"
proof -
  let ?key = "status_key asset strategy"
  have first: "\<exists>e. hm_get (record_idle t0 asset strategy reason m) ?key = Some e \<and> vs_last_outcome e = Idle
      \<and> vs_last_reason e = Some reason \<and> vs_last_reason_at e = Some t0 \<and> vs_last_eval_at e = t0"
    using assms by (auto simp: record_idle_def idle_row_def fresh_def Let_def split: option.split)
  have "\<exists>e. hm_get (fold (\<lambda>t. record_idle t asset strategy reason) ts m) ?key = Some e \<and> vs_last_outcome e = Idle
      \<and> vs_last_reason e = Some reason \<and> vs_last_reason_at e = Some t0 \<and> vs_last_eval_at e = last (t1 # ts)"
    if "\<exists>e. hm_get m ?key = Some e \<and> vs_last_outcome e = Idle \<and> vs_last_reason e = Some reason
      \<and> vs_last_reason_at e = Some t0 \<and> vs_last_eval_at e = t1" for m t1
    using that by (induction ts arbitrary: m t1) (auto simp: record_idle_def idle_row_def Let_def)
  from this [OF first] show ?thesis by simp
qed

lemma lower_btc: "to_lowercase ''BTC'' = ''btc''"
  by code_simp

lemma idle_age_is_the_wait_witness:
  "\<exists>e. hm_get (fold (\<lambda>t. record_idle t ''BTC'' ''MakerStrategy'' idle_no_market) [10, 20, 30] []) (''btc'', ''MakerStrategy'') = Some e
     \<and> vs_last_reason_at e = Some 10 \<and> vs_last_eval_at e = 30"
  using idle_age_is_the_wait [of "[]" "''BTC''" "''MakerStrategy''" idle_no_market 10 "[20, 30]"]
  unfolding status_key_def lower_btc by auto

lemma report_reason_run:
  assumes "hm_get m (status_key asset s) = Some st"
  shows "\<exists>st'. hm_get (fold (\<lambda>(t, r). report_reason t asset s r) rs m) (status_key asset s) = Some st'
    \<and> vs_window_started_at st' = vs_window_started_at st
    \<and> refusal_ticks st' = refusal_ticks st + length (counted (map snd rs))"
  using assms
proof (induction rs arbitrary: m st)
  case (Cons a rs)
  obtain t r where a: "a = (t, r)" by (cases a)
  let ?st = "bump_refusal r (st\<lparr>vs_last_reason := Some r, vs_last_reason_at := Some t\<rparr>)"
  have "hm_get (report_reason t asset s r m) (status_key asset s) = Some ?st"
    using Cons.prems by (simp add: report_reason_def)
  moreover have "refusal_ticks ?st = refusal_ticks st + (if r = disabled_in_config then 0 else 1)"
      "vs_window_started_at ?st = vs_window_started_at st"
    using ledger_sum_bump(2) [of r "vs_refusals st"]
    by (simp_all add: bump_refusal_def refusal_ticks_def ledger_sum_def)
  ultimately show ?case using Cons.IH [of "report_reason t asset s r m" ?st] by (auto simp: a counted_def)
qed (simp add: counted_def)

lemma report_row:
  assumes "hm_get m (status_key asset s) = Some st"
  shows "report_of now (status_key asset s, st) \<in> set (fst (refusal_report now asset take_it m))"
  using map_of_SomeD [OF assms] by (force simp: refusal_report_def status_key_def Let_def)

lemma taken_row:
  assumes "hm_get m (status_key asset s) = Some st"
  shows "hm_get (snd (refusal_report now asset True m)) (status_key asset s) = Some (restart_window now st)"
  using assms by (induction m) (auto simp: refusal_report_def status_key_def Let_def split: if_splits)

text \<open>The advisor's window loses no refusal: once the ledger of an asset is taken, the next report of
  each of its vipers covers exactly the refusals reported since, over exactly the time since.\<close>

theorem advisor_window:
  fixes m :: status_registry and asset s :: string and t0 t1 :: utc
  assumes "hm_get m (status_key asset s) = Some st"
  defines "m1 \<equiv> snd (refusal_report t0 asset True m)"
  shows "\<exists>rep \<in> set (fst (refusal_report t1 asset take_it (fold (\<lambda>(t, r). report_reason t asset s r) rs m1))).
    rr_strategy rep = s \<and> rr_ticks rep = length (counted (map snd rs))
    \<and> rr_window_secs rep = num_seconds (t1 - t0)"
proof -
  have "hm_get m1 (status_key asset s) = Some (restart_window t0 st)"
    unfolding m1_def by (rule taken_row [OF assms(1)])
  moreover have "refusal_ticks (restart_window t0 st) = 0" "vs_window_started_at (restart_window t0 st) = t0"
    by (simp_all add: refusal_ticks_def restart_window_def comp_def split_beta)
  ultimately obtain st' where st': "hm_get (fold (\<lambda>(t, r). report_reason t asset s r) rs m1) (status_key asset s) = Some st'"
      "vs_window_started_at st' = t0" "refusal_ticks st' = length (counted (map snd rs))"
    using report_reason_run [of m1 asset s "restart_window t0 st" rs] by auto
  show ?thesis
    by (rule bexI [OF _ report_row [OF st'(1)]]) (simp add: report_of_def status_key_def st'(2,3))
qed

lemma advisor_window_witness:
  "\<exists>rep \<in> set (fst (refusal_report (from_secs 60) ''btc'' False
       (fold (\<lambda>(t, r). report_reason t ''btc'' ''M'' r) [(1, ''flat''), (2, ''flat''), (3, disabled_in_config)]
         (snd (refusal_report 0 ''btc'' True [((''btc'', ''M''), fresh 0 Idle)]))))).
     rr_strategy rep = ''M'' \<and> rr_ticks rep = 2 \<and> rr_window_secs rep = 60"
proof -
  have l: "to_lowercase ''btc'' = ''btc''" by code_simp
  have "length (counted (map snd [(1::int, ''flat''), (2, ''flat''), (3, disabled_in_config)])) = 2"
    by (simp add: counted_def disabled_in_config_def)
  moreover have "num_seconds (from_secs 60 - 0) = 60" by (simp add: num_seconds_def from_secs_def nanos_per_sec_def)
  ultimately show ?thesis
    using advisor_window [where m = "[((''btc'', ''M''), fresh 0 Idle)]" and asset = "''btc''" and s = "''M''"
        and st = "fresh 0 Idle" and ?t1.0 = "from_secs 60" and take_it = False and ?t0.0 = 0
        and rs = "[(1, ''flat''), (2, ''flat''), (3, disabled_in_config)]"]
    by (simp add: status_key_def l)
qed

end
