(* ===== verification/Fees.thy ===== *)
theory Fees
  imports Trading_State
begin

text \<open>
  The arithmetic of prices and fees: the tick and fixed-point conversions of \<open>src/helpers/price.rs\<close> and
  the taker-fee schedule of \<open>src/venues/mod.rs\<close>.  The venue's fee coefficient, a build-time constant
  or a live setting, is the argument \<open>fee_rate\<close>; quotients that need not be representable are rounded by
  \<open>rnd\<close>.  Moving the decimal point (the division by a tick of 0.01) is exact.
\<close>

section \<open>Ticks and fixed point\<close>

definition tick_size :: decimal where
  "tick_size = 1 / 100"

definition trunc_rat :: "decimal \<Rightarrow> int" where
  "trunc_rat x = (if 0 \<le> x then \<lfloor>x\<rfloor> else \<lceil>x\<rceil>)"

definition trunc_with_scale :: "decimal \<Rightarrow> nat \<Rightarrow> decimal" where
  "trunc_with_scale d scale = of_int (trunc_rat (d * 10 ^ scale)) / 10 ^ scale"

text \<open>Rounding to an integer, ties to the even one.\<close>

definition round_half_even :: "decimal \<Rightarrow> int" where
  "round_half_even x =
     (let n = \<lfloor>x\<rfloor>; r = x - of_int n
      in if r < 1 / 2 then n else if 1 / 2 < r then n + 1 else if even n then n else n + 1)"

definition to_fixed_u128_with_precision :: "decimal \<Rightarrow> nat \<Rightarrow> nat" where
  "to_fixed_u128_with_precision d precision =
     (let scaled = trunc_with_scale d precision * 10 ^ 6
      in if scaled < 0 then 0 else nat (trunc_rat scaled))"

definition to_fixed_u128 :: "decimal \<Rightarrow> nat" where
  "to_fixed_u128 d = to_fixed_u128_with_precision d 6"

definition round_to_tick_size :: "decimal \<Rightarrow> decimal" where
  "round_to_tick_size price = of_int (round_half_even (price / tick_size)) * tick_size"

definition floor_to_tick_size :: "decimal \<Rightarrow> decimal" where
  "floor_to_tick_size price = of_int \<lfloor>price / tick_size\<rfloor> * tick_size"

definition ceil_to_tick_size :: "decimal \<Rightarrow> decimal" where
  "ceil_to_tick_size price = of_int \<lceil>price / tick_size\<rceil> * tick_size"

definition ceil_with_scale :: "decimal \<Rightarrow> nat \<Rightarrow> decimal" where
  "ceil_with_scale value scale = of_int \<lceil>value * 10 ^ scale\<rceil> / 10 ^ scale"

lemma round_half_even_near: "\<bar>of_int (round_half_even x) - x\<bar> \<le> (1 / 2 :: rat)"
  using of_int_floor_le [of x] floor_correct [of x]
  by (auto simp: round_half_even_def Let_def abs_le_iff)

lemma round_half_even_int [simp]: "round_half_even (of_int n) = n"
  by (simp add: round_half_even_def)

lemma tick_multiple: "of_int n * tick_size / tick_size = (of_int n :: rat)"
  by (simp add: tick_size_def)

text \<open>The tick conversions bracket a price: flooring never raises it and ceiling never lowers it,
  neither moves it by a tick or more, the nearest tick is at most half a tick away and lies between the
  two, all three are whole ticks, and a price that already is one is left alone by all three.\<close>

theorem tick_conversions:
  "floor_to_tick_size p \<le> p \<and> p \<le> ceil_to_tick_size p
   \<and> p - floor_to_tick_size p < tick_size \<and> ceil_to_tick_size p - p < tick_size
   \<and> \<bar>round_to_tick_size p - p\<bar> \<le> tick_size / 2
   \<and> round_to_tick_size p \<in> {floor_to_tick_size p, ceil_to_tick_size p}
   \<and> (\<exists>n. round_to_tick_size p = of_int n * tick_size)
   \<and> floor_to_tick_size (of_int n * tick_size) = of_int n * tick_size
   \<and> ceil_to_tick_size (of_int n * tick_size) = of_int n * tick_size
   \<and> round_to_tick_size (of_int n * tick_size) = of_int n * tick_size"
proof -
  let ?x = "p / tick_size"
  have p: "p = ?x * tick_size" by (simp add: tick_size_def)
  have near: "\<bar>of_int (round_half_even ?x) - ?x\<bar> * tick_size \<le> 1 / 2 * tick_size"
    using round_half_even_near [of ?x] by (intro mult_right_mono) (simp_all add: tick_size_def)
  have "\<bar>round_to_tick_size p - p\<bar> = \<bar>of_int (round_half_even ?x) - ?x\<bar> * tick_size"
    by (simp add: round_to_tick_size_def tick_size_def abs_mult [symmetric] left_diff_distrib abs_mult_pos)
  moreover have "round_half_even ?x = \<lfloor>?x\<rfloor> \<or> round_half_even ?x = \<lceil>?x\<rceil>"
  proof (cases "?x = of_int \<lfloor>?x\<rfloor>")
    case True
    then show ?thesis by (metis round_half_even_int)
  next
    case False
    then have "\<lceil>?x\<rceil> = \<lfloor>?x\<rfloor> + 1" by (simp add: ceiling_altdef)
    then show ?thesis by (auto simp: round_half_even_def Let_def)
  qed
  ultimately show ?thesis
    using near floor_correct [of ?x] ceiling_correct [of ?x]
    by (auto simp: floor_to_tick_size_def ceil_to_tick_size_def round_to_tick_size_def tick_size_def)
qed

text \<open>The fixed-point amount of an on-chain order never overstates it: an amount of at most 6 decimals
  precision is truncated, so the fixed-point value is at most a million times the amount and short of it
  by less than one unit of the precision asked for; a negative amount becomes zero.\<close>

theorem fixed_point_truncates:
  assumes "precision \<le> 6"
  shows "(if 0 \<le> d then of_nat (to_fixed_u128_with_precision d precision) \<le> d * 10 ^ 6
      \<and> d * 10 ^ 6 - of_nat (to_fixed_u128_with_precision d precision) < 10 ^ (6 - precision)
    else to_fixed_u128_with_precision d precision = 0)"
proof (cases "0 \<le> d")
  case True
  let ?n = "\<lfloor>d * 10 ^ precision\<rfloor>"
  have pow: "(10::rat) ^ 6 = 10 ^ precision * 10 ^ (6 - precision)"
    using assms by (simp flip: power_add)
  have n: "0 \<le> ?n" using True by simp
  have "of_int ?n / 10 ^ precision * (10::rat) ^ 6 = of_int (?n * 10 ^ (6 - precision))"
    unfolding pow by simp
  moreover have "trunc_with_scale d precision = of_int ?n / 10 ^ precision"
    using True by (simp add: trunc_with_scale_def trunc_rat_def)
  ultimately have t: "trunc_with_scale d precision * 10 ^ 6 = of_int (?n * 10 ^ (6 - precision))" by (simp only:)
  have K: "0 \<le> ?n * 10 ^ (6 - precision)" using n by (intro mult_nonneg_nonneg) simp_all
  have "to_fixed_u128_with_precision d precision = nat (?n * 10 ^ (6 - precision))"
    using K unfolding to_fixed_u128_with_precision_def Let_def t trunc_rat_def of_int_less_0_iff of_int_0_le_iff floor_of_int
    by (simp only: not_less [symmetric] if_True if_False not_False_eq_True)
  then have v: "of_nat (to_fixed_u128_with_precision d precision) = of_int ?n * (10::rat) ^ (6 - precision)"
    using K by (simp only: of_nat_nat of_int_mult of_int_power of_int_numeral)
  have c: "(0::rat) < 10 ^ (6 - precision)" by simp
  have "of_int ?n * (10::rat) ^ (6 - precision) \<le> d * 10 ^ precision * 10 ^ (6 - precision)"
    by (rule mult_right_mono [OF of_int_floor_le less_imp_le [OF c]])
  moreover have "d * 10 ^ precision * 10 ^ (6 - precision) < (of_int ?n + 1) * (10::rat) ^ (6 - precision)"
    by (rule mult_strict_right_mono [OF _ c]) linarith
  moreover have "d * 10 ^ 6 = d * 10 ^ precision * 10 ^ (6 - precision)" by (simp only: pow mult.assoc)
  ultimately show ?thesis
    unfolding if_P [OF True] v by (simp only: distrib_right mult_1 diff_less_eq add.commute)
next
  case False
  then have "d * 10 ^ precision \<le> 0" by (simp add: mult_le_0_iff)
  then have "trunc_rat (d * 10 ^ precision) \<le> 0" by (simp add: trunc_rat_def ceiling_le_iff)
  then have "trunc_with_scale d precision * 10 ^ 6 \<le> 0"
    by (simp add: trunc_with_scale_def divide_le_0_iff mult_le_0_iff)
  with False show ?thesis by (auto simp: to_fixed_u128_with_precision_def trunc_rat_def Let_def)
qed

lemma fixed_point_truncates_witness: "of_nat (to_fixed_u128_with_precision (12345 / 10000) 2) \<le> (12345 / 10000 :: rat) * 10 ^ 6
  \<and> to_fixed_u128_with_precision (12345 / 10000) 2 = 1230000"
proof -
  have "\<lfloor>2469 / 20 :: rat\<rfloor> = 123" by (simp add: floor_eq_iff)
  then have "to_fixed_u128_with_precision (12345 / 10000) 2 = 1230000"
    by (simp add: to_fixed_u128_with_precision_def trunc_with_scale_def trunc_rat_def Let_def)
  then show ?thesis using fixed_point_truncates [of 2 "12345 / 10000"] by simp
qed

section \<open>The taker-fee schedule\<close>

definition round_trip_fee_pct :: "decimal \<Rightarrow> decimal \<Rightarrow> decimal" where
  "round_trip_fee_pct fee_rate entry_price =
     (if entry_price \<le> 0 \<or> 1 \<le> entry_price then 0 else 2 * fee_rate * (1 - entry_price))"

definition exit_only_fee_pct :: "decimal \<Rightarrow> decimal \<Rightarrow> decimal" where
  "exit_only_fee_pct fee_rate entry_price =
     (if entry_price \<le> 0 \<or> 1 \<le> entry_price then 0 else fee_rate * (1 - entry_price))"

definition entry_only_fee_pct :: "decimal \<Rightarrow> decimal \<Rightarrow> decimal" where
  "entry_only_fee_pct fee_rate entry_price = exit_only_fee_pct fee_rate entry_price"

definition taker_fee_per_share :: "decimal \<Rightarrow> decimal \<Rightarrow> decimal" where
  "taker_fee_per_share fee_rate price =
     (if price \<le> 0 \<or> 1 \<le> price then 0 else fee_rate * price * (1 - price))"

definition exit_fee_pct_at_gain :: "(decimal \<Rightarrow> decimal) \<Rightarrow> decimal \<Rightarrow> decimal \<Rightarrow> decimal \<Rightarrow> decimal" where
  "exit_fee_pct_at_gain rnd fee_rate entry_price gain =
     (if entry_price \<le> 0 \<or> 1 \<le> entry_price then 0
      else let exit_price = entry_price * (1 + gain)
           in if exit_price \<le> 0 \<or> 1 \<le> exit_price then 0
              else rnd (fee_rate * exit_price * (1 - exit_price) / entry_price))"

definition taker_fee_ceiling_bps :: "(decimal \<Rightarrow> decimal) \<Rightarrow> decimal \<Rightarrow> nat" where
  "taker_fee_ceiling_bps rnd rate =
     (if rate \<le> 0 then 0
      else let n = round_half_even (rnd (rate / 4) * 10000)
           in if 0 \<le> n \<and> n < 2 ^ 32 then nat n else 0)"

definition published_or_venue_fee_bps ::
  "(decimal \<Rightarrow> decimal) \<Rightarrow> decimal option \<Rightarrow> decimal \<Rightarrow> nat \<times> bool" where
  "published_or_venue_fee_bps rnd published venue_wide_rate =
     (case published of
        Some rate \<Rightarrow> (taker_fee_ceiling_bps rnd rate, True)
      | None \<Rightarrow> (taker_fee_ceiling_bps rnd venue_wide_rate, False))"

text \<open>The quotient of a 32-bit integer by 10000 is exact.\<close>

definition fee_rate_from_ceiling_bps :: "nat \<Rightarrow> decimal" where
  "fee_rate_from_ceiling_bps fee_bps = (if fee_bps = 0 then 0 else of_nat fee_bps / 10000 * 4)"

definition charged_fee_rate :: "decimal \<Rightarrow> nat \<Rightarrow> decimal" where
  "charged_fee_rate fee_rate fee_bps = min (fee_rate_from_ceiling_bps fee_bps) fee_rate"

definition taker_leg_fee_pct_at :: "decimal \<Rightarrow> decimal \<Rightarrow> decimal" where
  "taker_leg_fee_pct_at entry_price rate =
     (if entry_price \<le> 0 \<or> 1 \<le> entry_price then 0 else if rate \<le> 0 then 0 else rate * (1 - entry_price))"

definition taker_fee_headroom :: "decimal \<Rightarrow> decimal \<Rightarrow> nat \<Rightarrow> decimal" where
  "taker_fee_headroom fee_rate ask fee_bps = 1 + taker_leg_fee_pct_at ask (charged_fee_rate fee_rate fee_bps)"

lemma headroom_split:
  assumes "0 < ask" and "ask < 1" and "0 \<le> fee_rate"
  shows "shares * ask * taker_fee_headroom fee_rate ask fee_bps =
      shares * ask + shares * taker_fee_per_share (charged_fee_rate fee_rate fee_bps) ask
    \<and> 0 \<le> charged_fee_rate fee_rate fee_bps \<and> charged_fee_rate fee_rate fee_bps \<le> fee_rate"
proof -
  have r: "0 \<le> charged_fee_rate fee_rate fee_bps"
    using assms(3) by (simp add: charged_fee_rate_def fee_rate_from_ceiling_bps_def)
  have h: "taker_leg_fee_pct_at ask (charged_fee_rate fee_rate fee_bps) = charged_fee_rate fee_rate fee_bps * (1 - ask)"
    using assms r by (auto simp: taker_leg_fee_pct_at_def)
  have "shares * ask * taker_fee_headroom fee_rate ask fee_bps =
      shares * ask + shares * taker_fee_per_share (charged_fee_rate fee_rate fee_bps) ask"
    unfolding taker_fee_headroom_def h using assms by (simp add: taker_fee_per_share_def algebra_simps)
  with r show ?thesis by (simp add: charged_fee_rate_def)
qed

text \<open>A taker's reserve covers its order to the cent: for a buy inside the unit interval at a
  non-negative venue rate, shares times ask times the headroom is exactly the order's cost plus the
  quadratic fee on it, at the rate the market charges; and that rate is never above the venue's own.\<close>

theorem headroom_covers_the_fee:
  assumes "0 < ask" and "ask < 1" and "0 \<le> fee_rate"
  shows "shares * ask * taker_fee_headroom fee_rate ask fee_bps =
      shares * ask + shares * taker_fee_per_share (charged_fee_rate fee_rate fee_bps) ask
    \<and> 0 \<le> charged_fee_rate fee_rate fee_bps \<and> charged_fee_rate fee_rate fee_bps \<le> fee_rate"
  by (rule headroom_split [OF assms])

lemma headroom_covers_the_fee_witness:
  "20 * (1 / 2) * taker_fee_headroom (7 / 100) (1 / 2) 1000 = 20 * (1 / 2) + 20 * taker_fee_per_share (7 / 100) (1 / 2)"
  using headroom_covers_the_fee [of "1 / 2" "7 / 100" 20 1000]
  by (simp add: charged_fee_rate_def fee_rate_from_ceiling_bps_def)

lemma ceiling_bps_near:
  assumes "0 < rate" and "rate \<le> 1" and "rnd (rate / 4) = rate / 4"
  shows "\<bar>of_nat (taker_fee_ceiling_bps rnd rate) - rate * 2500\<bar> \<le> 1 / 2"
proof -
  let ?n = "round_half_even (rate * 2500)"
  have e: "rate / 4 * 10000 = rate * 2500" by simp
  have n: "\<bar>of_int ?n - rate * 2500\<bar> \<le> 1 / 2" by (rule round_half_even_near)
  have "0 \<le> rate * 2500" "rate * 2500 \<le> 2500" using assms(1,2) by simp_all
  with n have "(- 1 :: rat) < of_int ?n" "(of_int ?n :: rat) < 4294967296" by linarith+
  then have "0 \<le> ?n" "?n < 2 ^ 32" by (linarith, simp)
  with n show ?thesis
    using assms(1) unfolding taker_fee_ceiling_bps_def assms(3) e by (simp add: Let_def)
qed

lemma quadratic_peak: "(p::rat) * (1 - p) \<le> 1 / 4"
proof -
  have "0 \<le> (p - 1 / 2) * (p - 1 / 2)" by simp
  then show ?thesis by (simp add: algebra_simps)
qed

text \<open>A market's coefficient survives its storage as a ceiling in basis points: reading it back is off
  by at most 0.0002, and a coefficient whose ceiling is a whole number of basis points comes back
  exactly and is then a true ceiling of the fee per share at every price, reached at one half.\<close>

theorem fee_ceiling_round_trip:
  assumes "0 < rate" and "rate \<le> 1" and "rnd (rate / 4) = rate / 4"
  shows "\<bar>fee_rate_from_ceiling_bps (taker_fee_ceiling_bps rnd rate) - rate\<bar> \<le> 2 / 10000
    \<and> (rate * 2500 \<in> \<int> \<longrightarrow>
        fee_rate_from_ceiling_bps (taker_fee_ceiling_bps rnd rate) = rate
        \<and> taker_fee_per_share rate price \<le> of_nat (taker_fee_ceiling_bps rnd rate) / 10000
        \<and> taker_fee_per_share rate (1 / 2) = of_nat (taker_fee_ceiling_bps rnd rate) / 10000)"
proof -
  let ?c = "taker_fee_ceiling_bps rnd rate"
  have rd: "fee_rate_from_ceiling_bps ?c = of_nat ?c / 2500"
    by (simp add: fee_rate_from_ceiling_bps_def)
  have near: "\<bar>fee_rate_from_ceiling_bps ?c - rate\<bar> \<le> 2 / 10000"
    using ceiling_bps_near [of rate rnd, OF assms] unfolding rd by (simp add: abs_le_iff field_simps)
  have exact: "of_nat ?c = rate * 2500" if z: "rate * 2500 \<in> \<int>"
  proof -
    obtain n where n: "rate * 2500 = of_int n" using z by (elim Ints_cases)
    then have e: "rate / 4 * 10000 = of_int n" by simp
    have "(0 :: rat) < of_int n" "(of_int n :: rat) \<le> 2500" using n assms(1,2) by simp_all
    then have "0 < n" "n \<le> 2500" by simp_all
    then show ?thesis using assms(1) n unfolding taker_fee_ceiling_bps_def assms(3) e by (simp add: Let_def)
  qed
  have peak: "taker_fee_per_share rate price \<le> rate / 4"
    using mult_left_mono [OF quadratic_peak [of price], of rate] assms(1)
    by (simp add: taker_fee_per_share_def mult.assoc)
  have half: "taker_fee_per_share rate (1 / 2) = rate / 4" by (simp add: taker_fee_per_share_def)
  show ?thesis using near exact peak half by (auto simp: rd)
qed

lemma fee_ceiling_round_trip_witness:
  "taker_fee_ceiling_bps id (7 / 100) = 175 \<and> fee_rate_from_ceiling_bps (taker_fee_ceiling_bps id (7 / 100)) = 7 / 100"
proof -
  have "(7 / 100 * 2500 :: rat) \<in> \<int>" using Ints_of_int [of 175] by simp
  then show ?thesis
    using fee_ceiling_round_trip [of "7 / 100" id 0] round_half_even_int [of 175]
    by (simp add: taker_fee_ceiling_bps_def)
qed

text \<open>The stored ceiling is not always one: rounding to the nearest basis point can store less than
  the most a taker is charged per share, for a published coefficient that is not a multiple of 0.0004.\<close>

theorem fee_ceiling_can_undershoot:
  "taker_fee_ceiling_bps id (601 / 10000) = 150
   \<and> of_nat (taker_fee_ceiling_bps id (601 / 10000)) / 10000 < taker_fee_per_share (601 / 10000) (1 / 2)"
proof -
  have "\<lfloor>601 / 4 :: rat\<rfloor> = 150" by (simp add: floor_eq_iff)
  then have "taker_fee_ceiling_bps id (601 / 10000) = 150"
    by (simp add: taker_fee_ceiling_bps_def round_half_even_def Let_def)
  then show ?thesis by (simp add: taker_fee_per_share_def)
qed

text \<open>The entry-price figure of a one-leg exit fee is off by exactly \<open>rate * gain * (1 - p * (2 + gain))\<close>:
  the fee at the exit price is that much more, so the figure understates the toll of every gain that
  keeps \<open>p * (2 + gain)\<close> below 1 and overstates it beyond.\<close>

theorem exit_fee_at_gain_error:
  assumes "0 < p" and "p < 1" and "0 < p * (1 + gain)" and "p * (1 + gain) < 1"
  shows "exit_fee_pct_at_gain id fee_rate p gain - exit_only_fee_pct fee_rate p
      = fee_rate * gain * (1 - p * (2 + gain))"
  using assms by (simp add: exit_fee_pct_at_gain_def exit_only_fee_pct_def field_simps)

lemma exit_fee_at_gain_error_witness:
  "exit_fee_pct_at_gain id (7 / 100) (1 / 10) (1 / 5) - exit_only_fee_pct (7 / 100) (1 / 10) = 7 / 100 * (1 / 5) * (39 / 50)"
  using exit_fee_at_gain_error [of "1 / 10" "1 / 5" "7 / 100"] by simp

end
