(* ===== verification/Strategy_Context.thy ===== *)
theory Strategy_Context
  imports Trading_State
begin

text \<open>
  What a strategy is given and what it is: the context of \<open>src/orchestrator/strategy.rs\<close> and the settings
  of \<open>src/helpers/dynamic_config.rs\<close> that the modelled code reads, those of one viper grouped in a record
  of its own.  The context's bookmaker line, which none of the modelled code reads, is left out, and
  its shared set of arbitrage lockouts is state of the strategy that writes it.  A strategy's two
  evaluations are arguments of the executor.
\<close>

record arbitrage_settings =
  ab_enable :: bool
  ab_profit_threshold :: decimal
  ab_min_leg_conviction :: decimal
  ab_max_fill_gap :: decimal
  ab_max_leg_price :: decimal
  ab_max_leg_obi :: decimal
  ab_fak_rehedge_buffer :: decimal
  ab_max_rescue_cost :: decimal
  ab_position_size :: decimal

record time_decay_settings =
  td_enable :: bool
  td_min_secs_to_expiry :: int
  td_max_secs_to_expiry :: int
  td_max_fast_velocity_pct :: decimal
  td_max_slow_drift_pct :: decimal
  td_obi_adverse_block :: decimal
  td_max_entry_price :: decimal
  td_min_entry_price :: decimal
  td_max_net_theta :: decimal
  td_convergence_exit_bid :: decimal
  td_min_net_profit :: decimal
  td_position_size :: decimal
  td_lone_leg_stop_pct :: decimal
  td_stop_loss_pct :: decimal
  td_iv_stop_tighten :: decimal
  td_min_hold_secs :: int

record basis_settings =
  bs_enable :: bool
  bs_min_secs_to_expiry :: int
  bs_entry_skew_threshold :: decimal
  bs_max_spread_pct :: decimal
  bs_loss_lockout_count :: int
  bs_loss_lockout_secs :: int
  bs_extreme_skew_bypass :: bool
  bs_min_trade_size :: decimal
  bs_max_trade_size :: decimal
  bs_max_entry_price :: decimal
  bs_target_profit_pct :: decimal
  bs_stop_loss_pct :: decimal
  bs_catastrophic_sl_pct :: decimal
  bs_skew_collapse_threshold :: decimal

record trend_settings =
  tc_enable :: bool
  tc_min_trade_size :: decimal
  tc_max_trade_size :: decimal
  tc_stop_loss_pct :: decimal
  tc_target_profit_pct :: decimal
  tc_max_entry_price :: decimal
  tc_min_entry_price :: decimal
  tc_max_entry_ask_sum :: decimal
  tc_obi_adverse_block :: decimal
  tc_deriv_gate_enabled :: bool
  tc_deriv_cvd_confirm_margin :: decimal
  tc_deriv_oi_unwind_block :: decimal
  tc_obi_exhaustion_block :: decimal
  tc_max_token_spread_pct :: decimal
  tc_reversal_drift_pct :: decimal
  tc_strike_gap_pct :: decimal
  tc_take_profit_ceiling :: decimal
  tc_catastrophic_sl_pct :: decimal
  tc_fade_mode :: bool

record convergence_settings =
  cv_enable :: bool
  cv_position_size :: decimal
  cv_stop_loss_pct :: decimal
  cv_target_profit_pct :: decimal
  cv_max_entry_price :: decimal
  cv_min_entry_price :: decimal
  cv_pulse_threshold :: decimal
  cv_coherence_min :: decimal
  cv_cvd_confirm_margin :: decimal
  cv_max_token_spread_pct :: decimal
  cv_obi_adverse_block :: decimal
  cv_drift_coherence_deadband_pct :: decimal
  cv_velocity_opposition_pct :: decimal
  cv_skip_band_low :: decimal
  cv_skip_band_high :: decimal
  cv_max_fee_to_target_ratio :: decimal
  cv_tp_fee_margin_mult :: decimal
  cv_resting_tp_enabled :: bool

record helm_settings =
  hl_enabled :: bool
  hl_live_enabled :: bool
  hl_max_exposure_usdc :: decimal
  hl_max_open_intents :: nat
  hl_fee_verdict_enforce :: bool
  hl_fee_max_ratio :: decimal
  hl_fee_max_notional_pct :: decimal
  hl_entry_window_secs :: int
  hl_min_secs_to_close :: int
  hl_critique_timeout_secs :: nat
  hl_calibration_min_resolved :: nat

record dynamic_config =
  dc_ghost_mode :: bool
  dc_obi_use_whole_book :: bool
  dc_helm :: helm_settings
  dc_arbitrage :: arbitrage_settings
  dc_time_decay :: time_decay_settings
  dc_basis :: basis_settings
  dc_trend :: trend_settings
  dc_convergence :: convergence_settings
  dc_anchor_max_exposure :: decimal
  dc_arbitrage_max_exposure :: decimal
  dc_basis_max_exposure :: decimal
  dc_bookline_max_exposure :: decimal
  dc_convergence_max_exposure :: decimal
  dc_fairvalue_max_exposure :: decimal
  dc_gboost_max_exposure :: decimal
  dc_maker_max_exposure :: decimal
  dc_momentum_max_exposure :: decimal
  dc_time_decay_max_exposure :: decimal
  dc_trendcapture_max_exposure :: decimal
  dc_autoscale_enabled :: bool
  dc_autoscale_min_trades :: int
  dc_autoscale_lookback_trades :: int
  dc_autoscale_full_scale_return :: decimal
  dc_autoscale_max_multiplier :: decimal
  dc_autoscale_min_multiplier :: decimal
  dc_autoscale_max_order_usdc :: decimal

record strategy_context =
  cx_market :: market_config
  cx_snapshot :: market_snapshot
  cx_positions :: position_map
  cx_session_pnl :: decimal
  cx_starting_collateral :: decimal
  cx_crypto_filter :: string
  cx_squadron_id :: string
  cx_market_class :: "string option"
  cx_has_price_feed :: bool
  cx_market_started_at :: utc
  cx_maker_market :: "market_config option"
  cx_maker_snapshot :: "market_snapshot option"
  cx_available_collateral :: decimal
  cx_dynamic_config :: dynamic_config

text \<open>A set of settings, for the concrete inputs of the development.\<close>

definition sample_config :: dynamic_config where
  "sample_config =
     \<lparr>dc_ghost_mode = False, dc_obi_use_whole_book = False,
      dc_helm =
        \<lparr>hl_enabled = True, hl_live_enabled = True, hl_max_exposure_usdc = 50, hl_max_open_intents = 5,
         hl_fee_verdict_enforce = True, hl_fee_max_ratio = 2/5, hl_fee_max_notional_pct = 1/20,
         hl_entry_window_secs = 120, hl_min_secs_to_close = 300,
         hl_critique_timeout_secs = 60, hl_calibration_min_resolved = 30\<rparr>,
      dc_arbitrage =
        \<lparr>ab_enable = True, ab_profit_threshold = 3/200, ab_min_leg_conviction = 4/5, ab_max_fill_gap = 1/20,
         ab_max_leg_price = 3/5, ab_max_leg_obi = 1/2, ab_fak_rehedge_buffer = 1/200,
         ab_max_rescue_cost = 51/50, ab_position_size = 10\<rparr>,
      dc_time_decay =
        \<lparr>td_enable = True, td_min_secs_to_expiry = 300, td_max_secs_to_expiry = 1800,
         td_max_fast_velocity_pct = 1/2000, td_max_slow_drift_pct = 1/200, td_obi_adverse_block = - 1/5,
         td_max_entry_price = 1/2, td_min_entry_price = 2/5, td_max_net_theta = 1/20,
         td_convergence_exit_bid = 499/500, td_min_net_profit = 1/100, td_position_size = 10,
         td_lone_leg_stop_pct = 1/10, td_stop_loss_pct = 1/20, td_iv_stop_tighten = 1/2, td_min_hold_secs = 120\<rparr>,
      dc_basis =
        \<lparr>bs_enable = True, bs_min_secs_to_expiry = 600, bs_entry_skew_threshold = 1/10, bs_max_spread_pct = 1/10,
         bs_loss_lockout_count = 2, bs_loss_lockout_secs = 3600, bs_extreme_skew_bypass = True,
         bs_min_trade_size = 5, bs_max_trade_size = 15, bs_max_entry_price = 1/2, bs_target_profit_pct = 1/10,
         bs_stop_loss_pct = 1/10, bs_catastrophic_sl_pct = 1/4, bs_skew_collapse_threshold = 1/50\<rparr>,
      dc_trend =
        \<lparr>tc_enable = True, tc_min_trade_size = 5, tc_max_trade_size = 15, tc_stop_loss_pct = 1/20,
         tc_target_profit_pct = 1/20, tc_max_entry_price = 11/20, tc_min_entry_price = 9/20,
         tc_max_entry_ask_sum = 26/25, tc_obi_adverse_block = - 7/20, tc_deriv_gate_enabled = False,
         tc_deriv_cvd_confirm_margin = 3/20, tc_deriv_oi_unwind_block = - 1/20, tc_obi_exhaustion_block = 3/4,
         tc_max_token_spread_pct = 3/25, tc_reversal_drift_pct = 3/2000, tc_strike_gap_pct = 1/250,
         tc_take_profit_ceiling = 9/10, tc_catastrophic_sl_pct = 3/50, tc_fade_mode = True\<rparr>,
      dc_convergence =
        \<lparr>cv_enable = True, cv_position_size = 5, cv_stop_loss_pct = 1/10, cv_target_profit_pct = 3/20,
         cv_max_entry_price = 39/50, cv_min_entry_price = 29/50, cv_pulse_threshold = 1, cv_coherence_min = 3/5,
         cv_cvd_confirm_margin = 1/10, cv_max_token_spread_pct = 1/25, cv_obi_adverse_block = 1/2,
         cv_drift_coherence_deadband_pct = 1/2000, cv_velocity_opposition_pct = 1/25000, cv_skip_band_low = 9/20,
         cv_skip_band_high = 11/20, cv_max_fee_to_target_ratio = 2/5, cv_tp_fee_margin_mult = 27/20,
         cv_resting_tp_enabled = True\<rparr>,
      dc_anchor_max_exposure = 30, dc_arbitrage_max_exposure = 30,
      dc_basis_max_exposure = 30, dc_bookline_max_exposure = 30, dc_convergence_max_exposure = 30,
      dc_fairvalue_max_exposure = 30, dc_gboost_max_exposure = 30, dc_maker_max_exposure = 30,
      dc_momentum_max_exposure = 30, dc_time_decay_max_exposure = 30, dc_trendcapture_max_exposure = 30,
      dc_autoscale_enabled = True, dc_autoscale_min_trades = 20, dc_autoscale_lookback_trades = 30,
      dc_autoscale_full_scale_return = 1/10, dc_autoscale_max_multiplier = 2,
      dc_autoscale_min_multiplier = 1/2, dc_autoscale_max_order_usdc = 25\<rparr>"

end
