(* ===== verification/Risk_Gates.thy ===== *)
theory Risk_Gates
  imports Strategy_Context Book_Feed Viper_Status Fees
begin

text \<open>
  The risk helpers every strategy shares, \<open>src/vipers/mod.rs\<close>: the throttle of gate log lines, the daily
  drawdown limit, the liquidity and fee gates on an entry, the price of a resting take-profit, and the
  market a position is priced on.  The build's constants are arguments; a gate's reason is kept as data
  where the code formats it; a calendar day is an integer.
\<close>

section \<open>Throttled gate lines\<close>

type_synonym gate_log_state = "(string, (string, (string, instant) hash_map) hash_map) hash_map"

definition gate_log_at :: "gate_log_state \<Rightarrow> string \<Rightarrow> string \<Rightarrow> string \<Rightarrow> instant option" where
  "gate_log_at reg strategy asset key =
     (case hm_get reg strategy of
        None \<Rightarrow> None
      | Some by_asset \<Rightarrow> (case hm_get by_asset asset of None \<Rightarrow> None | Some by_key \<Rightarrow> hm_get by_key key))"

definition gate_log_permitted ::
  "nat \<Rightarrow> string \<Rightarrow> string \<Rightarrow> string \<Rightarrow> instant \<Rightarrow> gate_log_state \<Rightarrow> bool \<times> gate_log_state" where
  "gate_log_permitted interval_secs strategy asset key now reg =
     (if case gate_log_at reg strategy asset key of None \<Rightarrow> False | Some t \<Rightarrow> elapsed_secs now t < interval_secs
      then (False, reg)
      else (True, hm_upsert strategy [] (hm_upsert asset [] (hm_insert key now)) reg))"

lemma gate_log_at_permitted:
  "gate_log_at (snd (gate_log_permitted n s a k now reg)) s' a' k' =
    (if s' = s \<and> a' = a \<and> k' = k \<and> fst (gate_log_permitted n s a k now reg) then Some now
     else gate_log_at reg s' a' k')"
  by (auto simp: gate_log_permitted_def gate_log_at_def split: option.split)

interpretation gate_log: throttle "\<lambda>(s, a, k) (_::unit). gate_log_permitted n s a k"
    "\<lambda>reg (s, a, k). map_option (Pair ()) (gate_log_at reg s a k)" "\<lambda>now t. elapsed_secs now t < n" for n
proof
  fix x y :: "string \<times> string \<times> string" and p now reg
  show "fst ((case x of (s, a, k) \<Rightarrow> \<lambda>_. gate_log_permitted n s a k) p now reg) =
      (\<not> (\<exists>t. (case x of (s, a, k) \<Rightarrow> map_option (Pair ()) (gate_log_at reg s a k)) = Some (p, t)
        \<and> elapsed_secs now t < n))"
    by (cases x) (auto simp: gate_log_permitted_def split: option.split)
  show "(case y of (s, a, k) \<Rightarrow> map_option (Pair ())
        (gate_log_at (snd ((case x of (s, a, k) \<Rightarrow> \<lambda>_. gate_log_permitted n s a k) p now reg)) s a k)) =
      (if y = x \<and> fst ((case x of (s, a, k) \<Rightarrow> \<lambda>_. gate_log_permitted n s a k) p now reg) then Some (p, now)
       else case y of (s, a, k) \<Rightarrow> map_option (Pair ()) (gate_log_at reg s a k))"
    by (cases x; cases y) (auto simp: gate_log_at_permitted)
qed

section \<open>The daily drawdown limit\<close>

record day_anchor =
  da_day :: int
  da_anchor :: decimal

type_synonym day_anchors = "(string, day_anchor) hash_map"

definition roll_day :: "int \<Rightarrow> decimal \<Rightarrow> day_anchor \<Rightarrow> day_anchor" where
  "roll_day today session_pnl a =
     (if da_day a \<noteq> today then \<lparr>da_day = today, da_anchor = session_pnl\<rparr> else a)"

definition day_pnl_in :: "int \<Rightarrow> string \<Rightarrow> decimal \<Rightarrow> int \<Rightarrow> day_anchors \<Rightarrow> decimal \<times> day_anchors" where
  "day_pnl_in first_day scope session_pnl today anchors =
     (let a = roll_day today session_pnl (case hm_get anchors scope of
            None \<Rightarrow> \<lparr>da_day = today, da_anchor = (if today = first_day then 0 else session_pnl)\<rparr>
          | Some a \<Rightarrow> a)
      in (session_pnl - da_anchor a, hm_insert scope a anchors))"

text \<open>The process-wide day of the first reading is set by whichever reading comes first.\<close>

definition day_pnl ::
  "strategy_context \<Rightarrow> int \<Rightarrow> int option \<times> day_anchors \<Rightarrow> decimal \<times> (int option \<times> day_anchors)" where
  "day_pnl ctx today st =
     (let first_day = (case fst st of None \<Rightarrow> today | Some d \<Rightarrow> d);
          (pnl, anchors) = day_pnl_in first_day (to_lowercase (cx_crypto_filter ctx)) (cx_session_pnl ctx) today (snd st)
      in (pnl, (Some first_day, anchors)))"

definition is_drawdown_limit_hit ::
  "(decimal \<Rightarrow> decimal) \<Rightarrow> decimal \<Rightarrow> decimal \<Rightarrow> nat \<Rightarrow> nat \<Rightarrow> bool \<times> nat" where
  "is_drawdown_limit_hit max_drawdown pnl collateral now last_log =
     (if pnl \<le> - max_drawdown collateral
      then (True, if last_log + 60 \<le> now then now else last_log)
      else (False, last_log))"

definition drawdown_breached ::
  "(decimal \<Rightarrow> decimal) \<Rightarrow> strategy_context \<Rightarrow> int \<Rightarrow> int option \<times> day_anchors \<Rightarrow>
   bool \<times> (int option \<times> day_anchors)" where
  "drawdown_breached max_drawdown ctx today st =
     (let (pnl, st') = day_pnl ctx today st in (pnl \<le> - max_drawdown (cx_starting_collateral ctx), st'))"

definition drawdown_limit_hit ::
  "(decimal \<Rightarrow> decimal) \<Rightarrow> strategy_context \<Rightarrow> int \<Rightarrow> nat \<Rightarrow> (int option \<times> day_anchors) \<times> nat \<Rightarrow>
   bool \<times> (int option \<times> day_anchors) \<times> nat" where
  "drawdown_limit_hit max_drawdown ctx today now st =
     (let (pnl, st') = day_pnl ctx today (fst st);
          (hit, last_log) = is_drawdown_limit_hit max_drawdown pnl (cx_starting_collateral ctx) now (snd st)
      in (hit, st', last_log))"

section \<open>Entry gates\<close>

datatype liquidity_block =
    NearResolution int
  | ThinExitBook decimal decimal decimal

definition entry_liquidity_gate ::
  "int \<Rightarrow> decimal \<Rightarrow> int option \<Rightarrow> decimal \<Rightarrow> decimal \<Rightarrow> liquidity_block option" where
  "entry_liquidity_gate min_secs_to_resolution depth_ratio secs_left intended_shares exit_bid_depth =
     (let depth_check =
            (let required = intended_shares * depth_ratio
             in if exit_bid_depth < required then Some (ThinExitBook exit_bid_depth required intended_shares)
                else None)
      in case secs_left of
           Some s \<Rightarrow> if s < min_secs_to_resolution then Some (NearResolution s) else depth_check
         | None \<Rightarrow> depth_check)"

datatype fee_block =
    NoTarget decimal decimal
  | FeeDominated decimal decimal decimal

definition fee_dominated_entry ::
  "(decimal \<Rightarrow> decimal) \<Rightarrow> decimal \<Rightarrow> decimal \<Rightarrow> decimal \<Rightarrow> decimal \<Rightarrow> fee_block option" where
  "fee_dominated_entry rnd fee_rate ask target_pct max_ratio =
     (let fee = round_trip_fee_pct fee_rate ask
      in if fee \<le> 0 then None
         else if target_pct \<le> 0 then Some (NoTarget fee ask)
         else if max_ratio < rnd (fee / target_pct) then Some (FeeDominated fee (rnd (fee / target_pct)) ask)
         else None)"

definition resting_tp_price :: "decimal \<Rightarrow> decimal \<Rightarrow> decimal \<Rightarrow> decimal \<Rightarrow> decimal option" where
  "resting_tp_price avg_entry target_pct bid tp_ceiling =
     (if avg_entry \<le> 0 \<or> target_pct \<le> 0 then None
      else let target = ceil_to_tick_size (avg_entry * (1 + target_pct));
               price = (if 0 < tp_ceiling \<and> tp_ceiling < target then tp_ceiling else target)
           in if price \<le> bid \<or> 1 \<le> price then None else Some price)"

definition venue_for_token :: "strategy_context \<Rightarrow> market_id \<Rightarrow> (market_config \<times> market_snapshot) option" where
  "venue_for_token ctx token_id =
     (let primary =
            (if token_id = mc_yes_token (cx_market ctx) \<or> token_id = mc_no_token (cx_market ctx)
             then Some (cx_market ctx, cx_snapshot ctx) else None)
      in case (cx_maker_market ctx, cx_maker_snapshot ctx) of
           (Some mk, Some ms) \<Rightarrow>
             if token_id = mc_yes_token mk \<or> token_id = mc_no_token mk then Some (mk, ms) else primary
         | _ \<Rightarrow> primary)"

section \<open>The day's account\<close>

text \<open>Readings of the session's profit and loss: the scope, the figure and the day.\<close>

type_synonym reading = "string \<times> decimal \<times> int"

fun read_all :: "int \<Rightarrow> reading list \<Rightarrow> day_anchors \<Rightarrow> day_anchors" where
  "read_all first_day [] anchors = anchors"
| "read_all first_day ((scope, pnl, today) # rs) anchors =
     read_all first_day rs (snd (day_pnl_in first_day scope pnl today anchors))"

text \<open>What a scope's day is measured from: the start of the session on the process's first day, and the
  scope's own first reading of the day on any later one.\<close>

definition day_open :: "int \<Rightarrow> int \<Rightarrow> (decimal \<times> int) list \<Rightarrow> decimal" where
  "day_open first_day today rs =
     (if today = first_day then 0
      else case find (\<lambda>(_, d). d = today) rs of None \<Rightarrow> 0 | Some (pnl, _) \<Rightarrow> pnl)"

lemma read_all_append: "read_all f (xs @ ys) m = read_all f ys (read_all f xs m)"
  by (induction xs arbitrary: m) auto

lemma find_append: "find P (xs @ ys) = (case find P xs of None \<Rightarrow> find P ys | Some x \<Rightarrow> Some x)"
  by (induction xs) auto

definition anchor_step :: "int \<Rightarrow> decimal \<times> int \<Rightarrow> day_anchor option \<Rightarrow> day_anchor option" where
  "anchor_step first_day r a =
     Some (roll_day (snd r) (fst r) (case a of
        None \<Rightarrow> \<lparr>da_day = snd r, da_anchor = (if snd r = first_day then 0 else fst r)\<rparr> | Some a \<Rightarrow> a))"

lemma anchor_step_pair: "anchor_step f (p, d) a = Some (roll_day d p (case a of
    None \<Rightarrow> \<lparr>da_day = d, da_anchor = (if d = f then 0 else p)\<rparr> | Some a \<Rightarrow> a))"
  by (simp add: anchor_step_def split: option.split)

lemma read_all_scope:
  "hm_get (read_all f rs m) scope = fold (anchor_step f) (map snd (filter (\<lambda>r. fst r = scope) rs)) (hm_get m scope)"
  by (induction rs arbitrary: m) (auto simp: day_pnl_in_def anchor_step_pair Let_def)

lemma anchor_of_run:
  assumes "sorted (map snd rs)" and "\<forall>(_, d) \<in> set rs. first_day \<le> d" and "rs \<noteq> []"
  shows "fold (anchor_step first_day) rs None =
    Some \<lparr>da_day = snd (last rs), da_anchor = day_open first_day (snd (last rs)) rs\<rparr>"
  using assms
proof (induction rs rule: rev_induct)
  case (snoc r rs)
  obtain p d where r: "r = (p, d)" by (cases r)
  show ?case
  proof (cases "rs = []")
    case True
    then show ?thesis by (simp add: r anchor_step_pair roll_day_def day_open_def)
  next
    case False
    obtain p1 d1 where l: "last rs = (p1, d1)" by (cases "last rs")
    have mem: "(p1, d1) \<in> set rs" using last_in_set [OF False] by (simp add: l)
    have IH: "fold (anchor_step first_day) rs None = Some \<lparr>da_day = d1, da_anchor = day_open first_day d1 rs\<rparr>"
      using snoc False by (simp add: sorted_append l)
    have le: "d1 \<le> d" "first_day \<le> d1" using snoc.prems mem by (force simp: sorted_append r)+
    show ?thesis
    proof (cases "d1 = d")
      case True
      have "find (\<lambda>(_, d'). d' = d) rs \<noteq> None" using mem True by (auto simp: find_None_iff)
      then show ?thesis using True IH
        by (auto simp: r anchor_step_pair roll_day_def day_open_def find_append simp del: not_None_eq split: option.split)
    next
      case f: False
      have split: "rs = butlast rs @ [(p1, d1)]" using append_butlast_last_id [OF False] by (simp add: l)
      have "sorted (map snd (butlast rs @ [(p1, d1)]))"
        using snoc.prems(1) unfolding split [symmetric] by (simp add: sorted_append)
      then have "\<forall>(_, d') \<in> set (butlast rs @ [(p1, d1)]). d' \<le> d1" by (auto simp: sorted_append)
      then have "\<forall>(_, d') \<in> set rs. d' \<le> d1" unfolding split [symmetric] .
      then have "find (\<lambda>(_, d'). d' = d) rs = None" using f le by (force simp: find_None_iff)
      then show ?thesis using f le IH by (auto simp: r anchor_step_pair roll_day_def day_open_def find_append)
    qed
  qed
qed simp

text \<open>The drawdown limit counts the day: when days do not run backwards, the figure a scope is judged
  by is its session profit and loss less the figure of its own first reading that day (less nothing on
  the day the process started), whatever other scopes read in between.\<close>

theorem day_pnl_counts_the_day:
  assumes "sorted (map (snd \<circ> snd) (rs @ [(scope, pnl, today)]))"
    and "\<forall>(_, _, d) \<in> set (rs @ [(scope, pnl, today)]). first_day \<le> d"
  shows "fst (day_pnl_in first_day scope pnl today (read_all first_day rs [])) =
    pnl - day_open first_day today (map snd (filter (\<lambda>r. fst r = scope) (rs @ [(scope, pnl, today)])))"
proof -
  let ?own = "map snd (filter (\<lambda>r. fst r = scope) (rs @ [(scope, pnl, today)]))"
  have "sorted (map (snd \<circ> snd) (filter (\<lambda>r. fst r = scope) (rs @ [(scope, pnl, today)])))"
    using assms(1) by (rule sorted_filter)
  then have "sorted (map snd ?own)" by simp
  moreover have "\<forall>(_, d) \<in> set ?own. first_day \<le> d" using assms(2) by fastforce
  ultimately have run: "fold (anchor_step first_day) ?own None =
      Some \<lparr>da_day = today, da_anchor = day_open first_day today ?own\<rparr>"
    using anchor_of_run [of ?own first_day] by simp
  have "fst (day_pnl_in first_day scope pnl today (read_all first_day rs [])) =
      pnl - da_anchor (the (fold (anchor_step first_day) ?own None))"
    by (simp add: day_pnl_in_def Let_def read_all_scope anchor_step_pair)
  then show ?thesis unfolding run by simp
qed

lemma day_pnl_counts_the_day_witness:
  "fst (day_pnl_in 4 ''btc'' (- 5) 5 (read_all 4 [(''btc'', - 4, 4), (''eth'', 1, 5), (''btc'', - 4, 5)] [])) = - 1"
  using day_pnl_counts_the_day [of "[(''btc'', - 4, 4), (''eth'', 1, 5), (''btc'', - 4, 5)]" "''btc''" "- 5" 5 4]
  by (simp add: day_open_def)

text \<open>The scaler's quiet test and the entry guard agree: on the same context, day and readings they
  give the same answer and leave the same anchors, and the guard's notice moves only when it refuses
  and a minute has passed.\<close>

theorem drawdown_tests_agree:
  "(let (breached, st1) = drawdown_breached max_drawdown ctx today st;
        (hit, st2, last') = drawdown_limit_hit max_drawdown ctx today now (st, last_log)
    in breached = hit \<and> st1 = st2 \<and> (last' = last_log \<or> hit \<and> last' = now \<and> last_log + 60 \<le> now))"
  by (auto simp: drawdown_breached_def drawdown_limit_hit_def is_drawdown_limit_hit_def split_beta Let_def)

section \<open>Take-profits and venues\<close>

text \<open>A resting take-profit is an order the book can hold: it is above the bid and below a dollar, it
  never sells below the target unless the ceiling caps it there, and it is a whole number of ticks when
  the ceiling is; no price is given exactly when there is no position or target, or the price the rules
  arrive at would cross the bid or reach a dollar.\<close>

theorem resting_tp_price_sound:
  "(case resting_tp_price entry target bid tp_ceiling of
      Some price \<Rightarrow>
        bid < price \<and> price < 1 \<and> 0 < entry \<and> 0 < target \<and>
        (price = ceil_to_tick_size (entry * (1 + target)) \<and> entry * (1 + target) \<le> price
         \<or> price = tp_ceiling \<and> 0 < tp_ceiling \<and> tp_ceiling < ceil_to_tick_size (entry * (1 + target)))
    | None \<Rightarrow> entry \<le> 0 \<or> target \<le> 0 \<or> ceil_to_tick_size (entry * (1 + target)) \<le> bid
        \<or> 1 \<le> ceil_to_tick_size (entry * (1 + target)) \<or> 0 < tp_ceiling \<and> (tp_ceiling \<le> bid \<or> 1 \<le> tp_ceiling))"
proof -
  have "p \<le> ceil_to_tick_size p" for p
    using ceiling_correct [of "p / tick_size"] by (simp add: ceil_to_tick_size_def tick_size_def)
  then show ?thesis by (auto simp: resting_tp_price_def Let_def)
qed

text \<open>A position is only ever priced on a market that quotes its token: the market found is the maker
  market or the primary one and lists the token as an outcome, and none is found exactly when neither
  does; a token both list is priced on the maker market.\<close>

theorem venue_for_token_sound:
  "(case venue_for_token ctx token of
      Some (mk, ms) \<Rightarrow> (token = mc_yes_token mk \<or> token = mc_no_token mk)
        \<and> (cx_maker_market ctx = Some mk \<and> cx_maker_snapshot ctx = Some ms \<or> mk = cx_market ctx \<and> ms = cx_snapshot ctx)
    | None \<Rightarrow> token \<noteq> mc_yes_token (cx_market ctx) \<and> token \<noteq> mc_no_token (cx_market ctx)
        \<and> (\<forall>mk ms. cx_maker_market ctx = Some mk \<and> cx_maker_snapshot ctx = Some ms \<longrightarrow>
             token \<noteq> mc_yes_token mk \<and> token \<noteq> mc_no_token mk))"
  by (auto simp: venue_for_token_def Let_def split: option.split)

end
