(* ===== verification/Autoscale.thy ===== *)
theory Autoscale
  imports Risk_Gates
begin

text \<open>
  The capital auto-scaler of \<open>src/helpers/autoscale.rs\<close>: each strategy's entries are sized by its own
  recent return on the capital it risked.  Products of decimals are exact and quotients are rounded by
  \<open>rnd\<close>; the build's constants are in a record.  Reading the ledger's rows out of the databases is left
  out: the rows are an argument.
\<close>

section \<open>Records and settings\<close>

definition name_prefix :: string where
  "name_prefix = ''Script:''"

definition script_of :: "string \<Rightarrow> string option" where
  "script_of name =
     (if starts_with name name_prefix then Some (drop (length name_prefix) name) else None)"

record record_key =
  rk_strategy :: string
  rk_market_class :: string
  rk_underlying :: "string option"
  rk_ghost :: bool

definition record_key_new :: "string \<Rightarrow> string \<Rightarrow> string option \<Rightarrow> bool \<Rightarrow> record_key" where
  "record_key_new strategy market_class underlying ghost =
     (let mclass = to_lowercase market_class;
          lower = (case underlying of
             None \<Rightarrow> None
           | Some u \<Rightarrow> if to_lowercase u = [] then None else Some (to_lowercase u))
      in \<lparr>rk_strategy = strategy, rk_market_class = mclass,
          rk_underlying = (if mclass = ''crypto'' then lower else None), rk_ghost = ghost\<rparr>)"

record trade_record =
  tr_trades :: int
  tr_pnl :: decimal
  tr_risked :: decimal

definition default_record :: trade_record where
  "default_record = \<lparr>tr_trades = 0, tr_pnl = 0, tr_risked = 0\<rparr>"

definition return_on_capital :: "(decimal \<Rightarrow> decimal) \<Rightarrow> trade_record \<Rightarrow> decimal option" where
  "return_on_capital rnd r = (if 0 < tr_risked r then Some (rnd (tr_pnl r / tr_risked r)) else None)"

record settings =
  se_enabled :: bool
  se_min_trades :: int
  se_lookback :: int
  se_full_scale_return :: decimal
  se_max_multiplier :: decimal
  se_min_multiplier :: decimal
  se_max_order_usdc :: decimal

definition settings_from_config :: "dynamic_config \<Rightarrow> settings" where
  "settings_from_config c =
     \<lparr>se_enabled = dc_autoscale_enabled c,
      se_min_trades = max (dc_autoscale_min_trades c) 1,
      se_lookback = max (dc_autoscale_lookback_trades c) 1,
      se_full_scale_return = dc_autoscale_full_scale_return c,
      se_max_multiplier = max (dc_autoscale_max_multiplier c) 1,
      se_min_multiplier = max 0 (min 1 (dc_autoscale_min_multiplier c)),
      se_max_order_usdc = dc_autoscale_max_order_usdc c\<rparr>"

definition multiplier :: "(decimal \<Rightarrow> decimal) \<Rightarrow> trade_record \<Rightarrow> settings \<Rightarrow> decimal" where
  "multiplier rnd r s =
     (if tr_trades r < se_min_trades s then 1
      else case return_on_capital rnd r of
        None \<Rightarrow> 1
      | Some x \<Rightarrow>
          if se_full_scale_return s \<le> 0 then 1
          else let reach = min (rnd (\<bar>x\<bar> / se_full_scale_return s)) 1
               in if 0 \<le> x then 1 + (se_max_multiplier s - 1) * reach
                  else 1 - (1 - se_min_multiplier s) * reach)"

definition applied_factor ::
  "(decimal \<Rightarrow> decimal) \<Rightarrow> decimal \<Rightarrow> decimal \<Rightarrow> decimal \<Rightarrow> decimal option \<Rightarrow> decimal \<Rightarrow> bool \<Rightarrow> decimal \<Rightarrow> decimal" where
  "applied_factor rnd mult notional held max_exposure max_order_usdc drawdown_tripped min_factor =
     (if notional \<le> 0 then 1
      else if 1 < mult then
        (if drawdown_tripped then 1
         else case max_exposure of
           None \<Rightarrow> 1
         | Some cap \<Rightarrow>
             max (min (min mult (rnd (max max_order_usdc 0 / notional))) (rnd ((cap - held) / notional))) 1)
      else if mult < 1 then min (max mult min_factor) 1
      else 1)"

section \<open>Cached records\<close>

record applied_rec =
  ap_factor :: decimal
  ap_key :: record_key

type_synonym records = "(record_key, trade_record) hash_map"
type_synonym applied_map = "(string \<times> string, applied_rec) hash_map"

definition record_for :: "record_key \<Rightarrow> records \<Rightarrow> trade_record" where
  "record_for key m = (case hm_get m key of None \<Rightarrow> default_record | Some r \<Rightarrow> r)"

definition add_row :: "int \<Rightarrow> decimal \<Rightarrow> decimal \<Rightarrow> trade_record \<Rightarrow> trade_record" where
  "add_row lookback pnl risked r =
     (if lookback \<le> tr_trades r then r
      else \<lparr>tr_trades = tr_trades r + 1, tr_pnl = tr_pnl r + pnl, tr_risked = tr_risked r + risked\<rparr>)"

fun fold_rows :: "(record_key \<times> decimal \<times> decimal) list \<Rightarrow> int \<Rightarrow> records \<Rightarrow> records" where
  "fold_rows [] lookback out = out"
| "fold_rows ((key, pnl, risked) # rows) lookback out =
     fold_rows rows lookback (hm_upsert key default_record (add_row lookback pnl risked) out)"

text \<open>The rebuild: the rows of every pool, newest first by their stamp (a stable descending sort), folded
  into a fresh map.\<close>

definition refresh :: "int \<Rightarrow> (string \<times> record_key \<times> decimal \<times> decimal) list list \<Rightarrow> records" where
  "refresh lookback pools =
     fold_rows (map snd (rev (sort_key fst (rev (concat pools))))) lookback []"

section \<open>The hook\<close>

definition key_for :: "strategy_context \<Rightarrow> string \<Rightarrow> bool \<Rightarrow> record_key option" where
  "key_for ctx strategy ghost =
     (case cx_market_class ctx of
        None \<Rightarrow> None
      | Some c \<Rightarrow> Some (record_key_new strategy c (Some (cx_crypto_filter ctx)) ghost))"

definition viper_caps :: "dynamic_config \<Rightarrow> (string \<times> decimal) list" where
  "viper_caps dc =
     [(''AnchorStrategy'', dc_anchor_max_exposure dc),
      (''ArbitrageStrategy'', dc_arbitrage_max_exposure dc),
      (''BasisStrategy'', dc_basis_max_exposure dc),
      (''BooklineStrategy'', dc_bookline_max_exposure dc),
      (''ConvergenceStrategy'', dc_convergence_max_exposure dc),
      (''FairValueStrategy'', dc_fairvalue_max_exposure dc),
      (''GboostStrategy'', dc_gboost_max_exposure dc),
      (''MakerStrategy'', dc_maker_max_exposure dc),
      (''MomentumStrategy'', dc_momentum_max_exposure dc),
      (''TimeDecayStrategy'', dc_time_decay_max_exposure dc),
      (''TrendReversalStrategy'', dc_trendcapture_max_exposure dc)]"

definition viper_cap :: "string \<Rightarrow> dynamic_config \<Rightarrow> decimal option" where
  "viper_cap strategy dc = map_of (viper_caps dc) strategy"

definition scalable :: "string \<Rightarrow> bool" where
  "scalable strategy \<longleftrightarrow> strategy \<noteq> ''HelmStrategy'' \<and> script_of strategy = None"

definition scale_leg :: "decimal \<Rightarrow> order_params \<Rightarrow> order_params" where
  "scale_leg factor p = p\<lparr>op_shares := trunc_with_scale (op_shares p * factor) 2\<rparr>"

text \<open>What the build fixes: the ghost switch, the venue's minimum order, the drawdown limit and the
  rounding of a quotient.\<close>

record build =
  bd_ghost_mode :: bool
  bd_min_order_shares :: decimal
  bd_max_drawdown :: "decimal \<Rightarrow> decimal"
  bd_rnd :: "decimal \<Rightarrow> decimal"

type_synonym scaler_state = "applied_map \<times> (int option \<times> day_anchors)"

definition entry_notional :: "order_params \<Rightarrow> order_params option \<Rightarrow> decimal" where
  "entry_notional params pair_params =
     op_price params * op_shares params
     + (case pair_params of None \<Rightarrow> 0 | Some p \<Rightarrow> op_price p * op_shares p)"

definition held_by :: "strategy_context \<Rightarrow> string \<Rightarrow> decimal" where
  "held_by ctx strategy =
     sum_list (map (\<lambda>(_, p). p_shares p * p_avg_entry p)
       (filter (\<lambda>(k, _). k_squadron k = cx_squadron_id ctx \<and> k_strategy k = strategy) (cx_positions ctx)))"

definition min_factor_for :: "build \<Rightarrow> order_params \<Rightarrow> order_params option \<Rightarrow> decimal" where
  "min_factor_for bd params pair_params =
     (let smallest_leg = (case pair_params of
            None \<Rightarrow> op_shares params | Some p \<Rightarrow> min (op_shares p) (op_shares params))
      in if 0 < smallest_leg then bd_rnd bd (bd_min_order_shares bd / smallest_leg) else 1)"

definition scale_entry_with ::
  "build \<Rightarrow> int \<Rightarrow> records \<Rightarrow> strategy_context \<Rightarrow> string \<Rightarrow> strategy_signal \<Rightarrow> settings option \<Rightarrow> scaler_state \<Rightarrow>
   strategy_signal \<times> scaler_state" where
  "scale_entry_with bd today recs ctx strategy sig sets st =
     (case sig of
        Entry params pair_params \<Rightarrow>
          if \<not> scalable strategy then (sig, st)
          else (case sets of
            None \<Rightarrow> (sig, st)
          | Some s \<Rightarrow>
              if \<not> se_enabled s then (sig, st)
              else (case key_for ctx strategy (bd_ghost_mode bd \<or> dc_ghost_mode (cx_dynamic_config ctx)) of
                None \<Rightarrow> (sig, st)
              | Some key \<Rightarrow>
                  let mult = multiplier (bd_rnd bd) (record_for key recs) s
                  in if mult = 1 then (sig, st)
                     else let (drawdown, days) = drawdown_breached (bd_max_drawdown bd) ctx today (snd st);
                              factor = applied_factor (bd_rnd bd) mult (entry_notional params pair_params)
                                (held_by ctx strategy) (viper_cap strategy (cx_dynamic_config ctx))
                                (se_max_order_usdc s) drawdown (min_factor_for bd params pair_params);
                              applied = hm_insert (cx_squadron_id ctx, strategy)
                                \<lparr>ap_factor = factor, ap_key = key\<rparr> (fst st)
                          in if factor = 1 then (sig, (applied, days))
                             else (Entry (scale_leg factor params) (map_option (scale_leg factor) pair_params),
                                   (applied, days))))
      | _ \<Rightarrow> (sig, st))"

section \<open>The multiplier\<close>

lemma from_config_bounds:
  "1 \<le> se_min_trades (settings_from_config c)" "1 \<le> se_max_multiplier (settings_from_config c)"
  "0 \<le> se_min_multiplier (settings_from_config c)" "se_min_multiplier (settings_from_config c) \<le> 1"
  by (simp_all add: settings_from_config_def)

lemma rounding_nonneg: "decimal_rounding rnd \<Longrightarrow> 0 \<le> x \<Longrightarrow> 0 \<le> rnd x"
  unfolding decimal_rounding_def by (metis monoD)

lemma reach_bounds:
  assumes "decimal_rounding rnd" and "0 < f"
  shows "0 \<le> min (rnd (\<bar>x\<bar> / f)) 1" and "min (rnd (\<bar>x\<bar> / f)) 1 \<le> 1"
  using rounding_nonneg [OF assms(1), of "\<bar>x\<bar> / f"] assms(2) by simp_all

text \<open>What a record earns stays inside the operator's policy, whatever the configuration row says: the
  multiplier lies between the floor and the ceiling, is 1 until the record holds the minimum number of
  trades, and never grows an order on a losing record or shrinks one on a winning record.\<close>

theorem multiplier_bounds:
  fixes c :: dynamic_config and r :: trade_record
  assumes "decimal_rounding rnd"
  defines "s \<equiv> settings_from_config c"
  shows "se_min_multiplier s \<le> multiplier rnd r s \<and> multiplier rnd r s \<le> se_max_multiplier s
    \<and> (tr_trades r < se_min_trades s \<longrightarrow> multiplier rnd r s = 1)
    \<and> (0 \<le> tr_pnl r \<longrightarrow> 1 \<le> multiplier rnd r s) \<and> (tr_pnl r \<le> 0 \<longrightarrow> multiplier rnd r s \<le> 1)"
proof -
  note b = from_config_bounds [of c, folded s_def]
  show ?thesis
  proof (cases "tr_trades r < se_min_trades s \<or> tr_risked r \<le> 0 \<or> se_full_scale_return s \<le> 0")
    case True
    then show ?thesis using b by (auto simp: multiplier_def return_on_capital_def)
  next
    case False
    define x where "x = rnd (tr_pnl r / tr_risked r)"
    define reach where "reach = min (rnd (\<bar>x\<bar> / se_full_scale_return s)) 1"
    have reach: "0 \<le> reach" "reach \<le> 1"
      using reach_bounds [OF assms(1), of "se_full_scale_return s" x] False by (simp_all add: reach_def)
    have m: "multiplier rnd r s = (if 0 \<le> x then 1 + (se_max_multiplier s - 1) * reach else 1 - (1 - se_min_multiplier s) * reach)"
      using False by (simp add: multiplier_def return_on_capital_def Let_def reach_def x_def)
    have up: "0 \<le> (se_max_multiplier s - 1) * reach" "(se_max_multiplier s - 1) * reach \<le> se_max_multiplier s - 1"
      using b(2) reach by (simp_all add: mult_left_le)
    have down: "0 \<le> (1 - se_min_multiplier s) * reach" "(1 - se_min_multiplier s) * reach \<le> 1 - se_min_multiplier s"
      using b(4) reach by (simp_all add: mult_left_le)
    have pos: "0 \<le> x" if "0 \<le> tr_pnl r" using rounding_nonneg [OF assms(1)] that False by (simp add: x_def)
    have zero: "x \<le> 0" if "tr_pnl r \<le> 0"
    proof -
      have "tr_pnl r / tr_risked r \<le> 0" using that False by (simp add: divide_le_0_iff)
      then show ?thesis using assms(1) unfolding decimal_rounding_def x_def by (metis monoD)
    qed
    have still: "reach = 0" if "x = 0" using that assms(1) by (simp add: reach_def decimal_rounding_def)
    show ?thesis using m up down b pos zero still False by (cases "x = 0") auto
  qed
qed

lemma id_rounding: "decimal_rounding id"
  by (simp add: decimal_rounding_def mono_def)

lemma multiplier_bounds_witness:
  "multiplier id \<lparr>tr_trades = 20, tr_pnl = 5, tr_risked = 100\<rparr> (settings_from_config sample_config) = 3/2
   \<and> multiplier id \<lparr>tr_trades = 20, tr_pnl = 5, tr_risked = 100\<rparr> (settings_from_config sample_config)
     \<le> se_max_multiplier (settings_from_config sample_config)"
  using multiplier_bounds [OF id_rounding, of sample_config "\<lparr>tr_trades = 20, tr_pnl = 5, tr_risked = 100\<rparr>"]
  by (simp add: multiplier_def return_on_capital_def settings_from_config_def sample_config_def)

text \<open>A better record never earns less: at the same trades and risk, the multiplier grows with the
  profit.\<close>

theorem multiplier_mono:
  fixes c :: dynamic_config and r :: trade_record
  assumes "decimal_rounding rnd" and "tr_pnl r \<le> pnl'"
  defines "s \<equiv> settings_from_config c"
  shows "multiplier rnd r s \<le> multiplier rnd (r\<lparr>tr_pnl := pnl'\<rparr>) s"
proof (cases "tr_trades r < se_min_trades s \<or> tr_risked r \<le> 0 \<or> se_full_scale_return s \<le> 0")
  case True
  then show ?thesis by (auto simp: multiplier_def return_on_capital_def)
next
  case False
  note b = from_config_bounds [of c, folded s_def]
  have mono: "mono rnd" using assms(1) by (simp add: decimal_rounding_def)
  define f x y where "f = se_full_scale_return s" and "x = rnd (tr_pnl r / tr_risked r)"
    and "y = rnd (pnl' / tr_risked r)"
  define reach where "reach = (\<lambda>z. min (rnd (\<bar>z\<bar> / f)) 1)"
  have f: "0 < f" using False by (simp add: f_def)
  have xy: "x \<le> y" unfolding x_def y_def
    using False assms(2) by (intro monoD [OF mono] divide_right_mono) simp_all
  have reach: "0 \<le> reach z" "reach z \<le> 1" for z
    using reach_bounds [OF assms(1) f] by (simp_all add: reach_def)
  have rmono: "reach u \<le> reach v" if "\<bar>u\<bar> \<le> \<bar>v\<bar>" for u v
  proof -
    have "rnd (\<bar>u\<bar> / f) \<le> rnd (\<bar>v\<bar> / f)" using that f by (intro monoD [OF mono] divide_right_mono) simp_all
    then show ?thesis by (simp add: reach_def min_def)
  qed
  have m: "multiplier rnd r s = (if 0 \<le> x then 1 + (se_max_multiplier s - 1) * reach x else 1 - (1 - se_min_multiplier s) * reach x)"
      "multiplier rnd (r\<lparr>tr_pnl := pnl'\<rparr>) s = (if 0 \<le> y then 1 + (se_max_multiplier s - 1) * reach y else 1 - (1 - se_min_multiplier s) * reach y)"
    using False by (simp_all add: multiplier_def return_on_capital_def Let_def reach_def x_def y_def f_def)
  have c: "0 \<le> se_max_multiplier s - 1" "0 \<le> 1 - se_min_multiplier s" using b by simp_all
  consider (up) "0 \<le> x" "0 \<le> y" | (cross) "x < 0" "0 \<le> y" | (down) "x < 0" "y < 0" using xy by linarith
  then show ?thesis
  proof cases
    case up
    then show ?thesis using mult_left_mono [OF rmono [of x y] c(1)] xy by (simp add: m)
  next
    case cross
    then show ?thesis using mult_nonneg_nonneg [OF c(1) reach(1) [of y]] mult_nonneg_nonneg [OF c(2) reach(1) [of x]]
      by (simp add: m)
  next
    case down
    then show ?thesis using mult_left_mono [OF rmono [of y x] c(2)] xy by (simp add: m)
  qed
qed

lemma multiplier_mono_witness:
  "multiplier id \<lparr>tr_trades = 20, tr_pnl = - 5, tr_risked = 100\<rparr> (settings_from_config sample_config)
   \<le> multiplier id \<lparr>tr_trades = 20, tr_pnl = 5, tr_risked = 100\<rparr> (settings_from_config sample_config)"
  using multiplier_mono [OF id_rounding, of "\<lparr>tr_trades = 20, tr_pnl = - 5, tr_risked = 100\<rparr>" 5 sample_config] by simp

section \<open>The limits\<close>

text \<open>Growth respects every limit: an entry is scaled up only while the drawdown breaker is not tripped
  and the strategy's cap is known, and then, up to the rounding \<open>e\<close> of a quotient, the scaled order
  stays within the instance's order limit and what the strategy holds with it stays within its cap;
  and an entry is scaled down no further than it earned or than the venue's minimum allows.\<close>

theorem growth_within_limits:
  fixes mult notional held max_order min_factor e :: decimal and cap :: "decimal option" and drawdown :: bool
  assumes "\<And>x. \<bar>rnd x - x\<bar> \<le> e"
  defines "f \<equiv> applied_factor rnd mult notional held cap max_order drawdown min_factor"
  shows "(1 < f \<longrightarrow> \<not> drawdown \<and> f \<le> mult \<and> notional * f \<le> max max_order 0 + notional * e
        \<and> (\<exists>c. cap = Some c \<and> held + notional * f \<le> c + notional * e))
    \<and> (f < 1 \<longrightarrow> mult \<le> f \<and> min_factor \<le> f)"
proof (intro conjI impI)
  assume "1 < f"
  then have n: "\<not> notional \<le> 0" unfolding f_def applied_factor_def by (rule contrapos_pn) simp
  have m: "1 < mult"
  proof (rule ccontr)
    assume "\<not> 1 < mult"
    then have "f \<le> 1" by (simp add: f_def applied_factor_def)
    with \<open>1 < f\<close> show False by simp
  qed
  have d: "\<not> drawdown" using \<open>1 < f\<close> n m unfolding f_def applied_factor_def by (rule_tac notI) simp
  obtain c' where cap: "cap = Some c'" using \<open>1 < f\<close> n m d unfolding f_def applied_factor_def by (cases cap) simp_all
  have "f = max (min (min mult (rnd (max max_order 0 / notional))) (rnd ((c' - held) / notional))) 1"
    unfolding f_def applied_factor_def cap using n m d by simp
  with \<open>1 < f\<close> have "f = min (min mult (rnd (max max_order 0 / notional))) (rnd ((c' - held) / notional))"
    by (metis max_def less_irrefl)
  then obtain c where c: "cap = Some c" "\<not> drawdown" "0 < notional" "f \<le> mult"
      "f \<le> rnd (max max_order 0 / notional)" "f \<le> rnd ((c - held) / notional)"
    using n d cap by (auto simp: not_le)
  show "\<not> drawdown" "f \<le> mult" by fact+
  have up: "notional * f \<le> a + notional * e" if "f \<le> rnd (a / notional)" for a
  proof -
    have "f \<le> a / notional + e" using that assms(1) [of "a / notional"] by (simp add: abs_le_iff)
    then have "notional * f \<le> notional * (a / notional + e)" using c(3) by simp
    then show ?thesis using c(3) by (simp add: distrib_left)
  qed
  show "notional * f \<le> max max_order 0 + notional * e" by (rule up [OF c(5)])
  show "\<exists>c. cap = Some c \<and> held + notional * f \<le> c + notional * e"
    using up [OF c(6)] c(1) by auto
next
  assume "f < 1"
  then show "mult \<le> f" "min_factor \<le> f"
    unfolding f_def applied_factor_def by (auto simp: max_def min_def split: if_splits option.splits)
qed

lemma growth_within_limits_witness:
  "applied_factor id 2 10 8 (Some 22) 25 False (1/2) = 14/10
   \<and> 8 + 10 * applied_factor id 2 10 8 (Some 22) 25 False (1/2) \<le> (22::rat)"
  using growth_within_limits [of id 0 2 10 8 "Some 22" 25 False "1/2"]
  by (simp add: applied_factor_def)

section \<open>The ledger\<close>

definition rows_of :: "record_key \<Rightarrow> (record_key \<times> decimal \<times> decimal) list \<Rightarrow> (decimal \<times> decimal) list" where
  "rows_of key rows = map snd (filter (\<lambda>r. fst r = key) rows)"

definition record_of_rows :: "trade_record \<Rightarrow> (decimal \<times> decimal) list \<Rightarrow> trade_record" where
  "record_of_rows r rows =
     \<lparr>tr_trades = tr_trades r + int (length rows), tr_pnl = tr_pnl r + sum_list (map fst rows),
      tr_risked = tr_risked r + sum_list (map snd rows)\<rparr>"

lemma fold_rows_get:
  assumes "tr_trades (record_for key out) \<le> lookback"
  shows "record_for key (fold_rows rows lookback out) =
    record_of_rows (record_for key out)
      (take (nat (lookback - tr_trades (record_for key out))) (rows_of key rows))"
  using assms
proof (induction rows lookback out rule: fold_rows.induct)
  case (2 key' pnl risked rows lookback out)
  let ?r = "record_for key out" and ?out = "hm_upsert key' default_record (add_row lookback pnl risked) out"
  have r: "record_for key ?out = (if key = key' then add_row lookback pnl risked ?r else ?r)"
    by (simp add: record_for_def)
  show ?case
  proof (cases "key = key' \<and> tr_trades ?r < lookback")
    case True
    then have "nat (lookback - tr_trades ?r) = Suc (nat (lookback - (tr_trades ?r + 1)))" by linarith
    then show ?thesis
      using 2 r True by (simp add: add_row_def rows_of_def record_of_rows_def)
  next
    case False
    then have "record_for key ?out = ?r" using r by (auto simp: add_row_def)
    then show ?thesis using 2 False by (auto simp: rows_of_def record_of_rows_def)
  qed
qed (simp add: record_of_rows_def rows_of_def)

text \<open>A record is exactly a strategy's most recent trades: folding ledger rows newest first, the record
  of every key holds its first \<open>lookback\<close> rows and no other, their number, profit and risk added up,
  however rows of other keys are mixed in.\<close>

theorem fold_rows_exact:
  assumes "1 \<le> lookback"
  shows "record_for key (fold_rows rows lookback []) =
    (let own = take (nat lookback) (rows_of key rows)
     in \<lparr>tr_trades = int (length own), tr_pnl = sum_list (map fst own), tr_risked = sum_list (map snd own)\<rparr>)"
proof -
  have "record_for key [] = default_record" by (simp add: record_for_def)
  then show ?thesis
    using fold_rows_get [of key "[]" lookback rows] assms
    by (simp add: default_record_def record_of_rows_def Let_def)
qed

definition btc_key :: record_key where
  "btc_key = record_key_new ''AnchorStrategy'' ''crypto'' (Some ''btc'') False"

lemma fold_rows_exact_witness:
  "record_for btc_key (fold_rows [(btc_key, 2, 5), (btc_key, 3, 5), (btc_key, - 1, 5)] 2 [])
   = \<lparr>tr_trades = 2, tr_pnl = 5, tr_risked = 10\<rparr>"
  using fold_rows_exact [of 2 btc_key "[(btc_key, 2, 5), (btc_key, 3, 5), (btc_key, - 1, 5)]"]
  by (simp add: rows_of_def Let_def numeral_2_eq_2)

section \<open>The scaled entry\<close>

lemma scale_entry_cases:
  assumes "scale_entry_with bd today recs ctx strategy sig sets st = (sig', st')"
  shows "sig' = sig \<or> scalable strategy \<and> (\<exists>params pair_params f. sig = Entry params pair_params
      \<and> sig' = Entry (scale_leg f params) (map_option (scale_leg f) pair_params))"
  using assms unfolding scale_entry_with_def Let_def
  by (auto split: strategy_signal.splits if_splits option.splits prod.splits)

lemma scale_entry_tokens:
  assumes "scale_entry_with bd today recs ctx strategy sig sets st = (sig', st')"
  shows "tokens_opened sig' = tokens_opened sig \<and> tokens_closed sig' = tokens_closed sig"
proof -
  have "map op_token_id (opt_list (map_option (scale_leg f) p)) = map op_token_id (opt_list p)" for f p
    by (cases p) (simp_all add: scale_leg_def)
  then show ?thesis using scale_entry_cases [OF assms] by (auto simp: scale_leg_def)
qed

text \<open>Scaling only sizes: a signal that is not an entry passes through, as does every entry of the
  operator's own strategy or scripts; a scaled entry keeps token, price and every other field of both
  legs, and both legs' shares are scaled by one factor and cut to hundredths.\<close>

theorem scale_entry_only_sizes:
  assumes "scale_entry_with bd today recs ctx strategy sig sets st = (sig', st')"
  shows "(sig' = sig \<or> scalable strategy \<and> (\<exists>params pair_params f. sig = Entry params pair_params
      \<and> sig' = Entry (params\<lparr>op_shares := trunc_with_scale (op_shares params * f) 2\<rparr>)
          (map_option (\<lambda>p. p\<lparr>op_shares := trunc_with_scale (op_shares p * f) 2\<rparr>) pair_params)))
    \<and> tokens_opened sig' = tokens_opened sig \<and> tokens_closed sig' = tokens_closed sig"
proof -
  have "scale_leg f = (\<lambda>p. p\<lparr>op_shares := trunc_with_scale (op_shares p * f) 2\<rparr>)" for f
    by (rule ext) (simp add: scale_leg_def)
  then show ?thesis using scale_entry_cases [OF assms] scale_entry_tokens [OF assms] by auto
qed

text \<open>An entry of ten shares at one half under a cap of 12 with nothing held, earned twice its size.\<close>

definition scaler_context :: strategy_context where
  "scaler_context =
     \<lparr>cx_market = sample_market, cx_snapshot = blank_snapshot, cx_positions = [], cx_session_pnl = 0,
      cx_starting_collateral = 100, cx_crypto_filter = ''btc'', cx_squadron_id = ''btc-open'',
      cx_market_class = Some ''crypto'', cx_has_price_feed = True, cx_market_started_at = 0,
      cx_maker_market = None, cx_maker_snapshot = None, cx_available_collateral = 100,
      cx_dynamic_config = sample_config\<rparr>"

definition scaler_order :: order_params where
  "scaler_order =
     \<lparr>op_token_id = ''yes'', op_price = 1/2, op_shares = 10, op_fee_bps = 0, op_is_neg_risk = False,
      op_market_name = ''m'', op_condition_id = [], op_order_type = Fak, op_post_only = False, op_ghost_mode = False\<rparr>"

lemma scale_entry_only_sizes_witness:
  "tokens_opened (fst (scale_entry_with \<lparr>bd_ghost_mode = False, bd_min_order_shares = 5, bd_max_drawdown = (\<lambda>c. c / 10), bd_rnd = id\<rparr>
     0 [] scaler_context ''AnchorStrategy'' (Entry scaler_order None) (Some (settings_from_config sample_config)) ([], (None, []))))
   = [''yes'']"
proof -
  let ?r = "scale_entry_with \<lparr>bd_ghost_mode = False, bd_min_order_shares = 5, bd_max_drawdown = (\<lambda>c. c / 10), bd_rnd = id\<rparr>
     0 [] scaler_context ''AnchorStrategy'' (Entry scaler_order None) (Some (settings_from_config sample_config)) ([], (None, []))"
  have "?r = (fst ?r, snd ?r)" by simp
  from scale_entry_only_sizes [OF this] show ?thesis by (simp add: scaler_order_def)
qed

end
