(* ===== verification/Strategy_Executor.thy ===== *)
theory Strategy_Executor
  imports Autoscale
begin

text \<open>
  The tick of the orchestrator, \<open>src/orchestrator/executor.rs\<close>, and the registry of built-in strategies,
  \<open>src/orchestrator/registry.rs\<close>.  What a strategy answers in a context, and whether it answers within
  the timeout, are fields of a record; the process-wide registries an evaluation touches are the state
  that is passed along; the clock readings taken while a strategy is evaluated are an argument.  The
  log lines and the summary that throttles them are left out.
\<close>

section \<open>Strategies and the state of a tick\<close>

type_synonym eval_result = "string + strategy_signal"

record viper =
  vp_name :: string
  vp_entry :: "strategy_context \<Rightarrow> eval_result"
  vp_exit :: "strategy_context \<Rightarrow> eval_result"
  vp_in_time :: "strategy_context \<Rightarrow> bool"

type_synonym reentry_log = "(string, string \<times> instant) hash_map"

record tick_state =
  tk_status :: status_registry
  tk_reentry :: reentry_log
  tk_scaler :: scaler_state

record tick_env =
  te_build :: build
  te_records :: records
  te_settings :: "settings option"
  te_reentry_interval :: nat
  te_utc :: "string \<Rightarrow> utc"
  te_instant :: "string \<Rightarrow> instant"
  te_day :: "string \<Rightarrow> int"

record evaluation_result =
  er_entry_signals :: "(string \<times> strategy_signal) list"
  er_exit_signals :: "(string \<times> strategy_signal) list"

definition note_eval :: "tick_env \<Rightarrow> strategy_context \<Rightarrow> string \<Rightarrow> eval_outcome \<Rightarrow> tick_state \<Rightarrow> tick_state" where
  "note_eval env ctx name outcome st =
     st\<lparr>tk_status := record_eval (te_utc env name) (cx_crypto_filter ctx) name outcome (tk_status st)\<rparr>"

definition scale_in_tick ::
  "tick_env \<Rightarrow> strategy_context \<Rightarrow> string \<Rightarrow> strategy_signal \<Rightarrow> tick_state \<Rightarrow> strategy_signal \<times> tick_state" where
  "scale_in_tick env ctx name sig st =
     (let (sig', sc) = scale_entry_with (te_build env) (te_day env name) (te_records env) ctx name sig
            (te_settings env) (tk_scaler st)
      in (sig', st\<lparr>tk_scaler := sc\<rparr>))"

section \<open>The sequential evaluation\<close>

definition evaluate_entry_step ::
  "tick_env \<Rightarrow> strategy_context \<Rightarrow> viper \<Rightarrow> tick_state \<Rightarrow> (string \<times> strategy_signal) list \<times> tick_state" where
  "evaluate_entry_step env ctx v st =
     (case vp_entry v ctx of
        Inr sig \<Rightarrow>
          if sig = NoSignal then ([], note_eval env ctx (vp_name v) NoSignalOutcome st)
          else (let (sig', st') = scale_in_tick env ctx (vp_name v) sig (note_eval env ctx (vp_name v) Signal st)
                in ([(vp_name v, sig')], st'))
      | Inl _ \<Rightarrow> ([], note_eval env ctx (vp_name v) Error st))"

definition exit_signals_of :: "viper \<Rightarrow> strategy_context \<Rightarrow> (string \<times> strategy_signal) list" where
  "exit_signals_of v ctx =
     (case vp_exit v ctx of
        Inr sig \<Rightarrow> if sig = NoSignal then [] else [(vp_name v, sig)]
      | Inl _ \<Rightarrow> [])"

fun evaluate_strategies ::
  "tick_env \<Rightarrow> viper list \<Rightarrow> strategy_context \<Rightarrow> tick_state \<Rightarrow> evaluation_result \<times> tick_state" where
  "evaluate_strategies env [] ctx st = (\<lparr>er_entry_signals = [], er_exit_signals = []\<rparr>, st)"
| "evaluate_strategies env (v # vs) ctx st =
     (let (entries, st1) = evaluate_entry_step env ctx v st;
          (res, st2) = evaluate_strategies env vs ctx st1
      in (\<lparr>er_entry_signals = entries @ er_entry_signals res,
           er_exit_signals = exit_signals_of v ctx @ er_exit_signals res\<rparr>, st2))"

section \<open>The re-entry guard\<close>

definition reentry_log_permitted :: "nat \<Rightarrow> string \<Rightarrow> string \<Rightarrow> instant \<Rightarrow> reentry_log \<Rightarrow> bool \<times> reentry_log" where
  "reentry_log_permitted interval name pattern now reg =
     (case hm_get reg name of
        Some (prev, t) \<Rightarrow>
          if prev = pattern \<and> elapsed_secs now t < interval then (False, reg)
          else (True, hm_insert name (pattern, now) reg)
      | None \<Rightarrow> (True, hm_insert name (pattern, now) reg))"

interpretation reentry_log: throttle "\<lambda>name pattern. reentry_log_permitted n name pattern"
    "\<lambda>reg name. hm_get reg name" "\<lambda>now t. elapsed_secs now t < n" for n
  by unfold_locales (auto simp: reentry_log_permitted_def split: option.split)

definition bool_text :: "bool \<Rightarrow> string" where
  "bool_text b = (if b then ''true'' else ''false'')"

definition blocked_leg :: "market_id list \<Rightarrow> order_params option \<Rightarrow> bool" where
  "blocked_leg closing leg = (case leg of None \<Rightarrow> False | Some p \<Rightarrow> op_token_id p \<in> set closing)"

definition suppress_reentry ::
  "nat \<Rightarrow> instant \<Rightarrow> string \<Rightarrow> strategy_signal \<Rightarrow> market_id list \<Rightarrow> reentry_log \<Rightarrow> strategy_signal \<times> reentry_log" where
  "suppress_reentry interval now name sig closing reg =
     (if closing = [] then (sig, reg)
      else case sig of
        MakerQuote yes no \<Rightarrow>
          (let yes_blocked = blocked_leg closing yes;
               no_blocked = blocked_leg closing no;
               reg' = (if yes_blocked \<or> no_blocked
                       then snd (reentry_log_permitted interval name
                              (''quote:'' @ bool_text yes_blocked @ '':'' @ bool_text no_blocked) now reg)
                       else reg);
               yes' = (if yes_blocked then None else yes);
               no' = (if no_blocked then None else no)
           in (if yes' = None \<and> no' = None then NoSignal else MakerQuote yes' no', reg'))
      | other \<Rightarrow>
          if \<exists>t \<in> set (tokens_opened other). t \<in> set closing
          then (NoSignal, snd (reentry_log_permitted interval name ''entry'' now reg))
          else (other, reg))"

section \<open>The concurrent evaluation\<close>

definition handle_exit :: "viper \<Rightarrow> strategy_context \<Rightarrow> market_id list \<times> (string \<times> strategy_signal) list" where
  "handle_exit v ctx =
     (case vp_exit v ctx of
        Inr sig \<Rightarrow> if sig = NoSignal then ([], []) else (tokens_closed sig, [(vp_name v, sig)])
      | Inl _ \<Rightarrow> ([], []))"

definition handle_entry ::
  "tick_env \<Rightarrow> strategy_context \<Rightarrow> viper \<Rightarrow> market_id list \<Rightarrow> tick_state \<Rightarrow>
   (string \<times> strategy_signal) list \<times> tick_state" where
  "handle_entry env ctx v closing st =
     (case vp_entry v ctx of
        Inr sig \<Rightarrow>
          (let st1 = note_eval env ctx (vp_name v) (if sig = NoSignal then NoSignalOutcome else Signal) st;
               (sig1, reg) = suppress_reentry (te_reentry_interval env) (te_instant env (vp_name v)) (vp_name v)
                 sig closing (tk_reentry st1);
               st2 = st1\<lparr>tk_reentry := reg\<rparr>
           in if sig1 = NoSignal then ([], st2)
              else (let (sig2, st3) = scale_in_tick env ctx (vp_name v) sig1 st2
                    in ([(vp_name v, sig2)], st3)))
      | Inl _ \<Rightarrow> ([], note_eval env ctx (vp_name v) Error st))"

definition execute_one ::
  "tick_env \<Rightarrow> strategy_context \<Rightarrow> viper \<Rightarrow> tick_state \<Rightarrow>
   (string \<times> strategy_signal) list \<times> (string \<times> strategy_signal) list \<times> tick_state" where
  "execute_one env ctx v st =
     (if \<not> vp_in_time v ctx then ([], [], note_eval env ctx (vp_name v) Timeout st)
      else let (closing, exits) = handle_exit v ctx;
               (entries, st') = handle_entry env ctx v closing st
           in (entries, exits, st'))"

fun execute_strategies_concurrent ::
  "tick_env \<Rightarrow> viper list \<Rightarrow> strategy_context \<Rightarrow> tick_state \<Rightarrow> evaluation_result \<times> tick_state" where
  "execute_strategies_concurrent env [] ctx st = (\<lparr>er_entry_signals = [], er_exit_signals = []\<rparr>, st)"
| "execute_strategies_concurrent env (v # vs) ctx st =
     (let (entries, exits, st1) = execute_one env ctx v st;
          (res, st2) = execute_strategies_concurrent env vs ctx st1
      in (\<lparr>er_entry_signals = entries @ er_entry_signals res, er_exit_signals = exits @ er_exit_signals res\<rparr>, st2))"

definition prioritize_signals :: "evaluation_result \<Rightarrow> (string \<times> strategy_signal) list" where
  "prioritize_signals r = er_exit_signals r @ er_entry_signals r"

record conflict_info =
  ci_token_id :: market_id
  ci_signal_type :: string
  ci_conflicting_strategies :: "string list"
  ci_resolution :: string

definition aggregate_and_resolve_signals ::
  "evaluation_result \<Rightarrow> (string \<times> strategy_signal) list \<times> conflict_info list" where
  "aggregate_and_resolve_signals r = (er_exit_signals r @ er_entry_signals r, [])"

section \<open>The guard's effect\<close>

lemma opened_after_suppression:
  "set (tokens_opened (fst (suppress_reentry n now name sig closing reg))) \<inter> set closing = {}"
proof (cases sig)
  case (MakerQuote yes no)
  then show ?thesis
    by (cases yes; cases no) (auto simp: suppress_reentry_def blocked_leg_def Let_def)
qed (auto simp: suppress_reentry_def)

text \<open>The guard drops exactly what would be re-opened: no token the exit closes is opened by what is
  left of the entry; a two-sided quote keeps each leg whose token is not being closed, price and size
  untouched; a directional entry with no closing token is left as it is and one with any is dropped
  whole; with nothing closing, nothing changes.\<close>

theorem suppress_reentry_exact:
  "set (tokens_opened (fst (suppress_reentry n now name sig closing reg))) \<inter> set closing = {}
   \<and> (closing = [] \<or> set (tokens_opened sig) \<inter> set closing = {} \<and> (\<forall>yes no. sig = MakerQuote yes no \<longrightarrow> yes \<noteq> None \<or> no \<noteq> None)
       \<longrightarrow> suppress_reentry n now name sig closing reg = (sig, reg))
   \<and> (\<forall>yes no. sig = MakerQuote yes no \<and> closing \<noteq> [] \<longrightarrow>
        tokens_opened (fst (suppress_reentry n now name sig closing reg)) =
          filter (\<lambda>t. t \<notin> set closing) (tokens_opened sig)
        \<and> (\<forall>p. yes = Some p \<and> op_token_id p \<notin> set closing \<longrightarrow>
             (\<exists>no'. fst (suppress_reentry n now name sig closing reg) = MakerQuote yes no'))
        \<and> (\<forall>p. no = Some p \<and> op_token_id p \<notin> set closing \<longrightarrow>
             (\<exists>yes'. fst (suppress_reentry n now name sig closing reg) = MakerQuote yes' no)))
   \<and> (\<forall>p pair. sig = Entry p pair \<and> set (tokens_opened sig) \<inter> set closing \<noteq> {} \<longrightarrow>
        fst (suppress_reentry n now name sig closing reg) = NoSignal)"
proof (intro conjI)
  show "set (tokens_opened (fst (suppress_reentry n now name sig closing reg))) \<inter> set closing = {}"
    by (rule opened_after_suppression)
  show "closing = [] \<or> set (tokens_opened sig) \<inter> set closing = {} \<and> (\<forall>yes no. sig = MakerQuote yes no \<longrightarrow> yes \<noteq> None \<or> no \<noteq> None)
      \<longrightarrow> suppress_reentry n now name sig closing reg = (sig, reg)"
  proof (cases sig)
    case (MakerQuote yes no)
    then show ?thesis
      by (cases yes; cases no) (auto simp: suppress_reentry_def blocked_leg_def Let_def)
  qed (auto simp: suppress_reentry_def)
  show "\<forall>yes no. sig = MakerQuote yes no \<and> closing \<noteq> [] \<longrightarrow>
        tokens_opened (fst (suppress_reentry n now name sig closing reg)) =
          filter (\<lambda>t. t \<notin> set closing) (tokens_opened sig)
        \<and> (\<forall>p. yes = Some p \<and> op_token_id p \<notin> set closing \<longrightarrow>
             (\<exists>no'. fst (suppress_reentry n now name sig closing reg) = MakerQuote yes no'))
        \<and> (\<forall>p. no = Some p \<and> op_token_id p \<notin> set closing \<longrightarrow>
             (\<exists>yes'. fst (suppress_reentry n now name sig closing reg) = MakerQuote yes' no))"
  proof (intro allI impI)
    fix yes no assume "sig = MakerQuote yes no \<and> closing \<noteq> []"
    then show "tokens_opened (fst (suppress_reentry n now name sig closing reg)) =
          filter (\<lambda>t. t \<notin> set closing) (tokens_opened sig)
        \<and> (\<forall>p. yes = Some p \<and> op_token_id p \<notin> set closing \<longrightarrow>
             (\<exists>no'. fst (suppress_reentry n now name sig closing reg) = MakerQuote yes no'))
        \<and> (\<forall>p. no = Some p \<and> op_token_id p \<notin> set closing \<longrightarrow>
             (\<exists>yes'. fst (suppress_reentry n now name sig closing reg) = MakerQuote yes' no))"
      by (cases yes; cases no) (auto simp: suppress_reentry_def blocked_leg_def Let_def)
  qed
  show "\<forall>p pair. sig = Entry p pair \<and> set (tokens_opened sig) \<inter> set closing \<noteq> {} \<longrightarrow>
        fst (suppress_reentry n now name sig closing reg) = NoSignal"
    by (auto simp: suppress_reentry_def)
qed

definition order_on :: "market_id \<Rightarrow> order_params" where
  "order_on token =
     \<lparr>op_token_id = token, op_price = 51/100, op_shares = 20, op_fee_bps = 0, op_is_neg_risk = False,
      op_market_name = ''m'', op_condition_id = [], op_order_type = Fak, op_post_only = False, op_ghost_mode = True\<rparr>"

lemma suppress_reentry_exact_witness:
  "tokens_opened (fst (suppress_reentry 60 0 ''MakerStrategy''
     (MakerQuote (Some (order_on ''yes'')) (Some (order_on ''no''))) [''yes''] [])) = [''no'']"
  using suppress_reentry_exact [of 60 0 "''MakerStrategy''"
      "MakerQuote (Some (order_on ''yes'')) (Some (order_on ''no''))" "[''yes'']" "[]"]
  by (simp add: order_on_def)

section \<open>A tick opens nothing it closes\<close>

lemma scale_in_tick_tokens: "tokens_opened (fst (scale_in_tick env ctx name sig st)) = tokens_opened sig"
proof -
  obtain sig' sc where e: "scale_entry_with (te_build env) (te_day env name) (te_records env) ctx name sig
      (te_settings env) (tk_scaler st) = (sig', sc)" by (meson surj_pair)
  then show ?thesis
    unfolding scale_in_tick_def Let_def by (simp add: scale_entry_tokens [OF e])
qed

lemma execute_one_disjoint:
  assumes "execute_one env ctx v st = (entries, exits, st')" and "(n, e) \<in> set entries" and "(m, x) \<in> set exits"
  shows "set (tokens_opened e) \<inter> set (tokens_closed x) = {}"
proof -
  let ?closing = "fst (handle_exit v ctx)"
  have h: "handle_exit v ctx = (?closing, exits)" and entry: "entries = fst (handle_entry env ctx v ?closing st)"
    using assms by (auto simp: execute_one_def split_beta Let_def split: if_splits)
  have x: "tokens_closed x = ?closing"
    using h assms(3) by (auto simp: handle_exit_def split: sum.splits if_splits)
  obtain sig1 st2 where e: "e = fst (scale_in_tick env ctx (vp_name v) sig1 st2)"
      and d: "set (tokens_opened sig1) \<inter> set ?closing = {}"
    using assms(2) opened_after_suppression unfolding entry handle_entry_def Let_def
    by (auto simp: split_beta split: sum.splits if_splits)
  show ?thesis using d by (simp add: e x scale_in_tick_tokens)
qed

lemma execute_one_names:
  assumes "execute_one env ctx v st = (entries, exits, st')"
  shows "fst ` set entries \<subseteq> {vp_name v}" and "fst ` set exits \<subseteq> {vp_name v}"
  using assms
  by (auto simp: execute_one_def handle_exit_def handle_entry_def split_beta Let_def split: sum.splits if_splits)

lemma execute_names:
  "fst ` set (er_entry_signals (fst (execute_strategies_concurrent env vs ctx st))) \<subseteq> vp_name ` set vs
   \<and> fst ` set (er_exit_signals (fst (execute_strategies_concurrent env vs ctx st))) \<subseteq> vp_name ` set vs"
proof (induction vs arbitrary: st)
  case (Cons v vs)
  obtain entries exits st1 where one: "execute_one env ctx v st = (entries, exits, st1)"
    by (cases "execute_one env ctx v st") auto
  show ?case using Cons.IH [of st1] execute_one_names [OF one] by (auto simp: one split_beta)
qed simp


definition quiet_env :: tick_env where
  "quiet_env =
     \<lparr>te_build = \<lparr>bd_ghost_mode = False, bd_min_order_shares = 5, bd_max_drawdown = (\<lambda>c. c / 10), bd_rnd = id\<rparr>,
      te_records = [], te_settings = None, te_reentry_interval = 60, te_utc = (\<lambda>_. 0),
      te_instant = (\<lambda>_. 0), te_day = (\<lambda>_. 0)\<rparr>"

definition quiet_state :: tick_state where
  "quiet_state = \<lparr>tk_status = [], tk_reentry = [], tk_scaler = ([], (None, []))\<rparr>"

text \<open>A maker that stops out of YES while its entry quotes YES again, and an error-prone neighbour.\<close>

definition churning_maker :: viper where
  "churning_maker =
     \<lparr>vp_name = ''MakerStrategy'', vp_entry = (\<lambda>_. Inr (MakerQuote (Some (order_on ''yes'')) (Some (order_on ''no'')))),
      vp_exit = (\<lambda>_. Inr (Exit (order_on ''yes'') ''stop'' False)), vp_in_time = (\<lambda>_. True)\<rparr>"

lemma churning_result:
  "er_exit_signals (fst (execute_strategies_concurrent quiet_env [churning_maker] ctx quiet_state))
     = [(''MakerStrategy'', Exit (order_on ''yes'') ''stop'' False)]
   \<and> er_entry_signals (fst (execute_strategies_concurrent quiet_env [churning_maker] ctx quiet_state))
     = [(''MakerStrategy'', MakerQuote None (Some (order_on ''no'')))]"
  by (simp add: churning_maker_def quiet_env_def quiet_state_def execute_one_def handle_exit_def handle_entry_def
      note_eval_def suppress_reentry_def blocked_leg_def order_on_def scale_in_tick_def scale_entry_with_def Let_def split_beta)


text \<open>The sequential evaluation, which the Kalshi and Polymarket US traders run, has no such guard: a
  strategy that closes a token and quotes it again in the same tick gets both signals through it, where
  the concurrent evaluation of the same strategy drops the leg.\<close>

theorem sequential_evaluation_reenters:
  "\<exists>env vs st e x. (''MakerStrategy'', e) \<in> set (er_entry_signals (fst (evaluate_strategies env vs ctx st)))
    \<and> (''MakerStrategy'', x) \<in> set (er_exit_signals (fst (evaluate_strategies env vs ctx st)))
    \<and> set (tokens_opened e) \<inter> set (tokens_closed x) \<noteq> {}
    \<and> (\<exists>e'. er_entry_signals (fst (execute_strategies_concurrent env vs ctx st)) = [(''MakerStrategy'', e')]
         \<and> set (tokens_opened e') \<inter> set (tokens_closed x) = {})"
proof (intro exI conjI)
  show "(''MakerStrategy'', MakerQuote (Some (order_on ''yes'')) (Some (order_on ''no'')))
      \<in> set (er_entry_signals (fst (evaluate_strategies quiet_env [churning_maker] ctx quiet_state)))"
    by (simp add: churning_maker_def quiet_env_def quiet_state_def evaluate_entry_step_def note_eval_def
        scale_in_tick_def scale_entry_with_def)
  show "(''MakerStrategy'', Exit (order_on ''yes'') ''stop'' False)
      \<in> set (er_exit_signals (fst (evaluate_strategies quiet_env [churning_maker] ctx quiet_state)))"
    by (simp add: churning_maker_def exit_signals_of_def split_beta)
  show "set (tokens_opened (MakerQuote (Some (order_on ''yes'')) (Some (order_on ''no''))))
      \<inter> set (tokens_closed (Exit (order_on ''yes'') ''stop'' False)) \<noteq> {}" by simp
  show "er_entry_signals (fst (execute_strategies_concurrent quiet_env [churning_maker] ctx quiet_state))
      = [(''MakerStrategy'', MakerQuote None (Some (order_on ''no'')))]" by (simp only: churning_result)
  show "set (tokens_opened (MakerQuote None (Some (order_on ''no''))))
      \<inter> set (tokens_closed (Exit (order_on ''yes'') ''stop'' False)) = {}" by (simp add: order_on_def)
qed

end
