(* ===== verification/Viper_Common.thy ===== *)
theory Viper_Common
  imports Risk_Gates
begin

text \<open>
  What the built-in strategies of \<open>src/vipers\<close> share: the readings an evaluation takes from outside (clocks,
  the day, the rounding and formatting of decimals, the build's drawdown limit), the process-wide
  registries it writes (the status registry, the drawdown anchors, the decision notes an entry leaves
  for its record), and the pieces every evaluation is made of.  Clocks are read once per evaluation.
  An evaluation that panics (a division by zero) is \<open>None\<close>.
\<close>

record viper_env =
  ve_utc :: utc
  ve_instant :: instant
  ve_today :: int
  ve_unix :: nat
  ve_rnd :: "decimal \<Rightarrow> decimal"
  ve_show :: "nat \<Rightarrow> decimal \<Rightarrow> string"
  ve_show_int :: "int \<Rightarrow> string"
  ve_max_drawdown :: "decimal \<Rightarrow> decimal"
  ve_taker_fee_rate :: decimal

datatype note_value = NText string | NDecimal decimal | NBool bool | NInt int | NNull

type_synonym entry_note = "(string \<times> note_value) list"

record viper_world =
  vw_status :: status_registry
  vw_drawdown :: "(int option \<times> day_anchors) \<times> nat"
  vw_notes :: "(market_id, entry_note) hash_map"
  vw_venue_notices :: "(string, instant) hash_map"

definition idle ::
  "viper_env \<Rightarrow> strategy_context \<Rightarrow> string \<Rightarrow> string \<Rightarrow> 'a viper_world_scheme \<Rightarrow> 'a viper_world_scheme" where
  "idle env ctx name reason w =
     w\<lparr>vw_status := report_reason (ve_utc env) (cx_crypto_filter ctx) name reason (vw_status w)\<rparr>"

definition check_drawdown ::
  "viper_env \<Rightarrow> strategy_context \<Rightarrow> 'a viper_world_scheme \<Rightarrow> bool \<times> 'a viper_world_scheme" where
  "check_drawdown env ctx w =
     (let (hit, st) = drawdown_limit_hit (ve_max_drawdown env) ctx (ve_today env) (ve_unix env) (vw_drawdown w)
      in (hit, w\<lparr>vw_drawdown := st\<rparr>))"

definition stash_entry_signals :: "market_id \<Rightarrow> entry_note \<Rightarrow> 'a viper_world_scheme \<Rightarrow> 'a viper_world_scheme" where
  "stash_entry_signals token note w = w\<lparr>vw_notes := hm_insert token note (vw_notes w)\<rparr>"

text \<open>The throttled notice about a position whose market has rotated away; its entries are pruned after an hour.\<close>

definition note_position_without_venue ::
  "viper_env \<Rightarrow> string \<Rightarrow> market_id \<Rightarrow> 'a viper_world_scheme \<Rightarrow> 'a viper_world_scheme" where
  "note_position_without_venue env strategy token w =
     (let key = strategy @ '':'' @ token; reg = vw_venue_notices w; now = ve_instant env in
      if case hm_get reg key of None \<Rightarrow> True | Some t \<Rightarrow> 60 \<le> elapsed_secs now t
      then w\<lparr>vw_venue_notices := hm_retain (\<lambda>_ t. elapsed_secs now t < 3600) (hm_insert key now reg)\<rparr>
      else w)"

definition oracle_threshold :: "decimal \<Rightarrow> decimal \<Rightarrow> decimal" where
  "oracle_threshold pct oracle_price = pct * oracle_price"

definition position_key_new :: "string \<Rightarrow> string \<Rightarrow> market_id \<Rightarrow> position_key" where
  "position_key_new squadron strategy market =
     \<lparr>k_squadron = squadron, k_strategy = strategy, k_market = market\<rparr>"

text \<open>What the strategy has at risk in this squadron: the notional of its positions whose market has not
  closed.\<close>

definition current_exposure :: "viper_env \<Rightarrow> strategy_context \<Rightarrow> string \<Rightarrow> decimal" where
  "current_exposure env ctx name =
     sum_list (map (\<lambda>(k, p). p_shares p * p_avg_entry p)
       (filter (\<lambda>(k, p). k_strategy k = name \<and> k_squadron k = cx_squadron_id ctx
          \<and> counts_toward_exposure p (ve_utc env)) (cx_positions ctx)))"

text \<open>An order on one leg of a market; the fee field is cut to 16 bits where the code casts it.\<close>

definition leg_order ::
  "market_config \<Rightarrow> market_id \<Rightarrow> decimal \<Rightarrow> decimal \<Rightarrow> nat \<Rightarrow> time_in_force \<Rightarrow> bool \<Rightarrow> bool \<Rightarrow> order_params" where
  "leg_order market token price shares fee_bps tif post_only ghost =
     \<lparr>op_token_id = token, op_price = price, op_shares = shares, op_fee_bps = fee_bps,
      op_is_neg_risk = mc_is_neg_risk market, op_market_name = mc_market_name market,
      op_condition_id = mc_condition_id market, op_order_type = tif, op_post_only = post_only,
      op_ghost_mode = ghost\<rparr>"

definition as_u16 :: "nat \<Rightarrow> nat" where
  "as_u16 n = n mod 65536"

abbreviation resting_leg ::
  "market_config \<Rightarrow> market_id \<Rightarrow> decimal \<Rightarrow> decimal \<Rightarrow> bool \<Rightarrow> order_params" where
  "resting_leg market token price shares ghost \<equiv> leg_order market token price shares 0 Gtc True ghost"

abbreviation taker_leg ::
  "market_config \<Rightarrow> market_id \<Rightarrow> decimal \<Rightarrow> decimal \<Rightarrow> nat \<Rightarrow> bool \<Rightarrow> order_params" where
  "taker_leg market token price shares fee_bps ghost \<equiv> leg_order market token price shares (as_u16 fee_bps) Fak False ghost"

text \<open>The texts of the shared gates' refusals.\<close>

definition em_dash :: string where
  "em_dash = [CHR 0xE2, CHR 0x80, CHR 0x94]"

definition liquidity_reason :: "viper_env \<Rightarrow> int \<Rightarrow> liquidity_block \<Rightarrow> string" where
  "liquidity_reason env min_secs_to_resolution b =
     (case b of
        NearResolution s \<Rightarrow>
          ''near-resolution ('' @ ve_show_int env s @ ''s < '' @ ve_show_int env min_secs_to_resolution @ ''s) ''
            @ em_dash @ '' gap-through risk''
      | ThinExitBook depth required shares \<Rightarrow>
          ''thin exit book (bid_depth='' @ ve_show env 1 depth @ ''sh < required '' @ ve_show env 1 required @ ''sh for ''
            @ ve_show env 1 shares @ ''sh position) '' @ em_dash @ '' stop would gap through'')"

definition fee_reason :: "viper_env \<Rightarrow> decimal \<Rightarrow> decimal \<Rightarrow> fee_block \<Rightarrow> string" where
  "fee_reason env target_pct max_ratio b =
     (case b of
        NoTarget fee ask \<Rightarrow>
          ''fee-dominated: round-trip fee '' @ ve_show env 2 (fee * 100) @ ''% of notional at $'' @ ve_show env 2 ask
            @ '' against no take-profit target''
      | FeeDominated fee share ask \<Rightarrow>
          ''fee-dominated: round-trip fee '' @ ve_show env 2 (fee * 100) @ ''% is '' @ ve_show env 0 (share * 100)
            @ ''% of the '' @ ve_show env 1 (target_pct * 100) @ ''% target at $'' @ ve_show env 2 ask
            @ '' (max '' @ ve_show env 0 (max_ratio * 100) @ ''%)'')"

text \<open>Decimal division, which panics on a zero divisor.\<close>

definition checked_div :: "viper_env \<Rightarrow> decimal \<Rightarrow> decimal \<Rightarrow> decimal option" where
  "checked_div env a b = (if b = 0 then None else Some (ve_rnd env (a / b)))"

lemma idle_frame [simp]:
  "vw_drawdown (idle env ctx name reason w) = vw_drawdown w"
  "vw_notes (idle env ctx name reason w) = vw_notes w"
  "viper_world.more (idle env ctx name reason w) = viper_world.more w"
  by (simp_all add: idle_def)

lemma check_drawdown_frame [simp]:
  "vw_status (snd (check_drawdown env ctx w)) = vw_status w"
  "vw_notes (snd (check_drawdown env ctx w)) = vw_notes w"
  "viper_world.more (snd (check_drawdown env ctx w)) = viper_world.more w"
  by (simp_all add: check_drawdown_def split_beta)

lemma fresh_drawdown:
  assumes "vw_drawdown w = ((None, []), n)" and "cx_session_pnl ctx = 0"
    and "0 < ve_max_drawdown env (cx_starting_collateral ctx)"
  shows "\<not> fst (check_drawdown env ctx w)"
  using assms
  by (simp add: check_drawdown_def drawdown_limit_hit_def day_pnl_def day_pnl_in_def is_drawdown_limit_hit_def
      roll_day_def split_beta Let_def)

lemma stash_frame [simp]:
  "vw_status (stash_entry_signals token note w) = vw_status w"
  "vw_drawdown (stash_entry_signals token note w) = vw_drawdown w"
  "viper_world.more (stash_entry_signals token note w) = viper_world.more w"
  by (simp_all add: stash_entry_signals_def)

lemma note_venue_frame [simp]:
  "vw_status (note_position_without_venue env strategy token w) = vw_status w"
  "vw_drawdown (note_position_without_venue env strategy token w) = vw_drawdown w"
  "vw_notes (note_position_without_venue env strategy token w) = vw_notes w"
  "viper_world.more (note_position_without_venue env strategy token w) = viper_world.more w"
  by (simp_all add: note_position_without_venue_def Let_def)

lemma leg_order_fields [simp]:
  "op_token_id (leg_order market token price shares fee tif po ghost) = token"
  "op_price (leg_order market token price shares fee tif po ghost) = price"
  "op_shares (leg_order market token price shares fee tif po ghost) = shares"
  "op_fee_bps (leg_order market token price shares fee tif po ghost) = fee"
  "op_order_type (leg_order market token price shares fee tif po ghost) = tif"
  "op_post_only (leg_order market token price shares fee tif po ghost) = po"
  "op_ghost_mode (leg_order market token price shares fee tif po ghost) = ghost"
  by (simp_all add: leg_order_def)

text \<open>The readings used in the concrete inputs of the strategies' theories.\<close>

definition sample_env :: viper_env where
  "sample_env =
     \<lparr>ve_utc = 0, ve_instant = 0, ve_today = 1, ve_unix = 0, ve_rnd = id, ve_show = (\<lambda>_ _. []),
      ve_show_int = (\<lambda>_. []), ve_max_drawdown = (\<lambda>c. c / 10), ve_taker_fee_rate = 7/100\<rparr>"

end
