(* ===== verification/Arbitrage.thy ===== *)
theory Arbitrage
  imports Viper_Common
begin

text \<open>
  The arbitrage strategy, \<open>src/vipers/arbitrage_impl.rs\<close>: resting bids on both legs of the daily or window
  market when their sum leaves a profit below the one-dollar payout, and the exits of a pair and of a
  leg left alone.  The entry is written as the code's sequence of gates; a gate names the reason it
  stands down for.  The strategy's own state is the clock of its debounce; the session's set of
  locked-out tokens, which the context shares, is \<open>None\<close> where the venue supplies none.
\<close>

definition arbitrage_name :: string where
  "arbitrage_name = ''ArbitrageStrategy''"

definition arbiter_wait_secs :: int where
  "arbiter_wait_secs = 600"

record arb_world = viper_world +
  aw_profitable_since :: "(string \<times> instant) option"
  aw_lockouts :: "market_id set option"

type_synonym arb_result = "strategy_signal option \<times> arb_world"

definition stand_down_arb :: "viper_env \<Rightarrow> strategy_context \<Rightarrow> string \<Rightarrow> arb_world \<Rightarrow> arb_result" where
  "stand_down_arb env ctx reason w = (Some NoSignal, idle env ctx arbitrage_name reason w)"

section \<open>Gates on the book\<close>

definition is_maker_arb_profitable :: "decimal \<Rightarrow> decimal \<Rightarrow> decimal \<Rightarrow> bool" where
  "is_maker_arb_profitable yes_bid no_bid profit_threshold \<longleftrightarrow> profit_threshold \<le> 1 - yes_bid - no_bid"

definition arb_book_gate :: "market_snapshot \<Rightarrow> string option" where
  "arb_book_gate sn =
     (if \<not> yes_has_ask sn \<or> \<not> no_has_ask sn then Some ''no seller on one leg''
      else if ms_yes_ask sn \<le> ms_yes_bid sn \<or> ms_no_ask sn \<le> ms_no_bid sn then Some ''locked/inverted spread''
      else None)"

text \<open>The debounce: \<open>True\<close> once the quote has been profitable on this market for the persistence window.\<close>

definition arb_debounce ::
  "nat \<Rightarrow> instant \<Rightarrow> string \<Rightarrow> (string \<times> instant) option \<Rightarrow> bool \<times> (string \<times> instant) option" where
  "arb_debounce persistence_secs now cid since =
     (case since of
        Some (c, t) \<Rightarrow> if c = cid then (persistence_secs \<le> elapsed_secs now t, since) else (False, Some (cid, now))
      | None \<Rightarrow> (False, Some (cid, now)))"

text \<open>From the conviction gate to the ask ceiling: the reason to stand down, or the safe bids.\<close>

definition arb_price_gates :: "arbitrage_settings \<Rightarrow> market_snapshot \<Rightarrow> string + decimal \<times> decimal" where
  "arb_price_gates ab sn =
     (if max (ms_yes_bid sn) (ms_no_bid sn) < ab_min_leg_conviction ab
      then Inl ''near-coin-flip market (conviction gate)''
      else let sy = min (ms_yes_bid sn) (ms_yes_ask sn - 1 / 100);
               sno = min (ms_no_bid sn) (ms_no_ask sn - 1 / 100);
               complement_ask = (if ms_no_bid sn \<le> ms_yes_bid sn then ms_no_ask sn else ms_yes_ask sn)
           in if \<not> is_maker_arb_profitable sy sno (ab_profit_threshold ab) then Inl ''spread unprofitable at safe bids''
              else if ab_max_fill_gap ab < ms_yes_ask sn - sy \<or> ab_max_fill_gap ab < ms_no_ask sn - sno
              then Inl ''liquidity gap too wide''
              else if ab_max_leg_price ab < complement_ask then Inl ''market undecided (complement ask ceiling)''
              else Inr (sy, sno))"

definition arb_obi_gate ::
  "viper_env \<Rightarrow> arbitrage_settings \<Rightarrow> bool \<Rightarrow> market_snapshot \<Rightarrow> decimal \<Rightarrow> decimal \<Rightarrow> string option" where
  "arb_obi_gate env ab whole_book sn safe_yes safe_no =
     (let (yes_bid_d, yes_ask_d) = yes_depths sn whole_book;
          (no_bid_d, no_ask_d) = no_depths sn whole_book;
          yes_total = yes_bid_d + yes_ask_d;
          no_total = no_bid_d + no_ask_d;
          yes_is_dominant = (ms_no_bid sn \<le> ms_yes_bid sn)
      in if 0 < yes_total \<or> 0 < no_total then
           (let complement_total = (if yes_is_dominant then no_total else yes_total);
                complement_obi =
                  (if 0 < complement_total then
                     (if yes_is_dominant then ve_rnd env ((no_bid_d - no_ask_d) / no_total)
                      else ve_rnd env ((yes_bid_d - yes_ask_d) / yes_total))
                   else 1)
            in if ab_max_leg_obi ab < complement_obi then Some ''complement leg unlikely to fill (OBI)'' else None)
         else
           (let complement_bid = (if yes_is_dominant then safe_no else safe_yes)
            in if ab_max_leg_price ab < complement_bid then Some ''no depth data; complement over price cap'' else None))"

definition arb_rescue_gate :: "arbitrage_settings \<Rightarrow> market_snapshot \<Rightarrow> decimal \<Rightarrow> decimal \<Rightarrow> string option" where
  "arb_rescue_gate ab sn safe_yes safe_no =
     (let yes_rescue = safe_yes + ms_no_ask sn + 1 / 100 + ab_fak_rehedge_buffer ab;
          no_rescue = safe_no + ms_yes_ask sn + 1 / 100 + ab_fak_rehedge_buffer ab
      in if ab_max_rescue_cost ab \<le> yes_rescue \<or> ab_max_rescue_cost ab \<le> no_rescue
         then Some ''orphan rescue too costly'' else None)"

section \<open>The entry\<close>

text \<open>The pair itself: the dearer leg first, equal shares on both; both tokens are locked out.\<close>

definition arb_commit ::
  "viper_env \<Rightarrow> dynamic_config \<Rightarrow> market_config \<Rightarrow> decimal \<Rightarrow> decimal \<Rightarrow> arb_world \<Rightarrow> arb_result" where
  "arb_commit env dc market safe_yes safe_no w =
     (let trade_size = ab_position_size (dc_arbitrage dc) in
      case checked_div env trade_size (safe_yes + safe_no) of
        None \<Rightarrow> (None, w)
      | Some pair_shares \<Rightarrow>
          let (a_token, a_price, b_token, b_price) =
                (if safe_no \<le> safe_yes then (mc_yes_token market, safe_yes, mc_no_token market, safe_no)
                 else (mc_no_token market, safe_no, mc_yes_token market, safe_yes));
              locked = map_option (\<lambda>l. insert (mc_no_token market) (insert (mc_yes_token market) l)) (aw_lockouts w);
              note = [(''viper'', NText ''Arbitrage''), (''leg_a_price'', NDecimal a_price),
                      (''leg_b_price'', NDecimal b_price), (''pair_sum'', NDecimal (safe_yes + safe_no)),
                      (''pair_shares'', NDecimal pair_shares), (''trade_size'', NDecimal trade_size)]
          in (Some (Entry (resting_leg market a_token a_price pair_shares (dc_ghost_mode dc))
                (Some (resting_leg market b_token b_price pair_shares (dc_ghost_mode dc)))),
              stash_entry_signals a_token note (w\<lparr>aw_lockouts := locked\<rparr>)))"

definition arb_locked_out :: "market_config \<Rightarrow> arb_world \<Rightarrow> bool" where
  "arb_locked_out market w =
     (case aw_lockouts w of None \<Rightarrow> False | Some l \<Rightarrow> mc_yes_token market \<in> l \<or> mc_no_token market \<in> l)"

definition arb_holds :: "strategy_context \<Rightarrow> market_id \<Rightarrow> bool" where
  "arb_holds ctx token = hm_contains (position_key_new (cx_squadron_id ctx) arbitrage_name token) (cx_positions ctx)"

definition arb_size_and_commit ::
  "viper_env \<Rightarrow> strategy_context \<Rightarrow> market_config \<Rightarrow> decimal \<Rightarrow> decimal \<Rightarrow> arb_world \<Rightarrow> arb_result" where
  "arb_size_and_commit env ctx market safe_yes safe_no w =
     (let dc = cx_dynamic_config ctx; trade_size = ab_position_size (dc_arbitrage dc) in
      if cx_available_collateral ctx < trade_size * (105 / 100) then stand_down_arb env ctx ''insufficient collateral'' w
      else if arb_locked_out market w then stand_down_arb env ctx ''re-entry lockout (already traded market)'' w
      else if arb_holds ctx (mc_yes_token market) \<or> arb_holds ctx (mc_no_token market)
      then stand_down_arb env ctx ''position already open on this market'' w
      else if dc_arbitrage_max_exposure dc < current_exposure env ctx arbitrage_name + trade_size
      then stand_down_arb env ctx ''exposure cap reached'' w
      else arb_commit env dc market safe_yes safe_no w)"

text \<open>Everything after the debounce.\<close>

definition arb_quote ::
  "viper_env \<Rightarrow> strategy_context \<Rightarrow> market_config \<Rightarrow> market_snapshot \<Rightarrow> arb_world \<Rightarrow> arb_result" where
  "arb_quote env ctx market sn w =
     (let dc = cx_dynamic_config ctx; ab = dc_arbitrage dc in
      case arb_price_gates ab sn of
        Inl reason \<Rightarrow> stand_down_arb env ctx reason w
      | Inr (safe_yes, safe_no) \<Rightarrow>
          (case arb_obi_gate env ab (dc_obi_use_whole_book dc) sn safe_yes safe_no of
             Some reason \<Rightarrow> stand_down_arb env ctx reason w
           | None \<Rightarrow>
               (case arb_rescue_gate ab sn safe_yes safe_no of
                  Some reason \<Rightarrow> stand_down_arb env ctx reason w
                | None \<Rightarrow> arb_size_and_commit env ctx market safe_yes safe_no w)))"

definition arb_evaluate_entry :: "nat \<Rightarrow> viper_env \<Rightarrow> strategy_context \<Rightarrow> arb_world \<Rightarrow> arb_result" where
  "arb_evaluate_entry persistence_secs env ctx w =
     (let dc = cx_dynamic_config ctx; ab = dc_arbitrage dc in
      if \<not> ab_enable ab then stand_down_arb env ctx ''disabled in config'' w
      else let (hit, w) = check_drawdown env ctx w in
      if hit then stand_down_arb env ctx ''daily drawdown limit hit'' w
      else case (cx_maker_market ctx, cx_maker_snapshot ctx) of
        (Some market, Some sn) \<Rightarrow>
          (case arb_book_gate sn of
             Some reason \<Rightarrow> stand_down_arb env ctx reason w
           | None \<Rightarrow>
               if \<not> is_maker_arb_profitable (ms_yes_bid sn) (ms_no_bid sn) (ab_profit_threshold ab)
               then stand_down_arb env ctx ''no profitable spread'' (w\<lparr>aw_profitable_since := None\<rparr>)
               else let (held, since) = arb_debounce persistence_secs (ve_instant env) (mc_condition_id market)
                          (aw_profitable_since w);
                        w = w\<lparr>aw_profitable_since := since\<rparr>
                    in if \<not> held then stand_down_arb env ctx ''quote-persistence debounce'' w
                       else arb_quote env ctx market sn w)
      | _ \<Rightarrow> stand_down_arb env ctx ''no daily/window venue available'' w)"

section \<open>The exit\<close>

definition arb_pair_exit ::
  "strategy_context \<Rightarrow> market_config \<Rightarrow> market_snapshot \<Rightarrow> position \<Rightarrow> strategy_signal option" where
  "arb_pair_exit ctx market sn yp =
     (let yes_fee = of_nat (mc_yes_fee_bps market) / 10000; no_fee = of_nat (mc_no_fee_bps market) / 10000 in
      if 1 + yes_fee + no_fee \<le> ms_yes_bid sn + ms_no_bid sn
      then Some (Exit (taker_leg market (mc_yes_token market) (ms_yes_bid sn) (p_shares yp) (mc_yes_fee_bps market)
             (dc_ghost_mode (cx_dynamic_config ctx))) ''Arbitrage convergence'' True)
      else None)"

definition arb_naked_exit ::
  "viper_env \<Rightarrow> strategy_context \<Rightarrow> market_config \<Rightarrow> position \<Rightarrow> market_id \<Rightarrow> decimal \<Rightarrow> nat \<Rightarrow> string \<Rightarrow>
   strategy_signal" where
  "arb_naked_exit env ctx market pos token bid fee_bps leg =
     (let ghost = dc_ghost_mode (cx_dynamic_config ctx); age_secs = num_seconds (ve_utc env - p_opened_at pos) in
      if fill_effective_at pos ghost \<noteq> None \<and> arbiter_wait_secs + 60 < age_secs \<and> 0 < bid
      then Exit (taker_leg market token bid (p_shares pos) fee_bps ghost)
             (''Arb naked '' @ leg @ '' leg flatten (orphaned single-leg)'') False
      else NoSignal)"

definition arb_evaluate_exit :: "viper_env \<Rightarrow> strategy_context \<Rightarrow> strategy_signal" where
  "arb_evaluate_exit env ctx =
     (let market = (case cx_maker_market ctx of Some m \<Rightarrow> m | None \<Rightarrow> cx_market ctx);
          sn = (case cx_maker_snapshot ctx of Some s \<Rightarrow> s | None \<Rightarrow> cx_snapshot ctx);
          held = (\<lambda>token. hm_get (cx_positions ctx) (position_key_new (cx_squadron_id ctx) arbitrage_name token));
          yes = held (mc_yes_token market);
          no = held (mc_no_token market)
      in case (yes, no) of
           (Some yp, Some np) \<Rightarrow> (case arb_pair_exit ctx market sn yp of Some s \<Rightarrow> s | None \<Rightarrow> NoSignal)
         | (Some p, None) \<Rightarrow>
             arb_naked_exit env ctx market p (mc_yes_token market) (ms_yes_bid sn) (mc_yes_fee_bps market) ''YES''
         | (None, Some p) \<Rightarrow>
             arb_naked_exit env ctx market p (mc_no_token market) (ms_no_bid sn) (mc_no_fee_bps market) ''NO''
         | (None, None) \<Rightarrow> NoSignal)"

section \<open>What an entry went through\<close>

lemma arb_frame [simp]:
  "aw_lockouts (idle env ctx name r w) = aw_lockouts w"
  "aw_profitable_since (idle env ctx name r w) = aw_profitable_since w"
  "aw_lockouts (snd (check_drawdown env ctx w)) = aw_lockouts w"
  "aw_profitable_since (snd (check_drawdown env ctx w)) = aw_profitable_since w"
  "aw_lockouts (stash_entry_signals t n w) = aw_lockouts w"
  "aw_profitable_since (stash_entry_signals t n w) = aw_profitable_since w"
  by (simp_all add: idle_def check_drawdown_def stash_entry_signals_def split_beta)

lemmas arb_defs = arb_evaluate_entry_def arb_quote_def arb_size_and_commit_def arb_commit_def
  arb_price_gates_def arb_obi_gate_def arb_rescue_gate_def arb_book_gate_def arb_debounce_def
  is_maker_arb_profitable_def arb_locked_out_def arb_holds_def checked_div_def yes_has_ask_def no_has_ask_def

lemma not_entry [simp]: "stand_down_arb env ctx reason w \<noteq> (Some (Entry a b), w')"
  by (simp add: stand_down_arb_def)

lemma arb_commitE:
  assumes "arb_commit env dc market sy sno w = (Some (Entry a b), w')"
  obtains shares where "checked_div env (ab_position_size (dc_arbitrage dc)) (sy + sno) = Some shares"
    and "sno \<le> sy \<and> a = resting_leg market (mc_yes_token market) sy shares (dc_ghost_mode dc)
           \<and> b = Some (resting_leg market (mc_no_token market) sno shares (dc_ghost_mode dc))
         \<or> sy < sno \<and> a = resting_leg market (mc_no_token market) sno shares (dc_ghost_mode dc)
           \<and> b = Some (resting_leg market (mc_yes_token market) sy shares (dc_ghost_mode dc))"
    and "aw_lockouts w' = map_option (\<lambda>l. {mc_yes_token market, mc_no_token market} \<union> l) (aw_lockouts w)"
proof -
  obtain shares where s: "checked_div env (ab_position_size (dc_arbitrage dc)) (sy + sno) = Some shares"
    using assms by (auto simp: arb_commit_def Let_def split: option.splits)
  have l: "aw_lockouts w' = map_option (\<lambda>l. {mc_yes_token market, mc_no_token market} \<union> l) (aw_lockouts w)"
    using assms s by (auto simp: arb_commit_def stash_entry_signals_def Let_def insert_commute
        intro: option.map_cong split: if_splits)
  show thesis
    using assms s that [OF s _ l] by (auto simp: arb_commit_def Let_def split: if_splits)
qed

lemma arb_sizeE:
  assumes "arb_size_and_commit env ctx market sy sno w = (Some (Entry a b), w')"
  obtains "\<not> cx_available_collateral ctx < ab_position_size (dc_arbitrage (cx_dynamic_config ctx)) * (105 / 100)"
    and "\<not> arb_locked_out market w"
    and "\<not> arb_holds ctx (mc_yes_token market)" and "\<not> arb_holds ctx (mc_no_token market)"
    and "current_exposure env ctx arbitrage_name + ab_position_size (dc_arbitrage (cx_dynamic_config ctx))
           \<le> dc_arbitrage_max_exposure (cx_dynamic_config ctx)"
    and "arb_commit env (cx_dynamic_config ctx) market sy sno w = (Some (Entry a b), w')"
  using assms by (auto simp: arb_size_and_commit_def Let_def split: if_splits)

lemma arb_quoteE:
  assumes "arb_quote env ctx market sn w = (Some (Entry a b), w')"
  obtains sy sno where "arb_price_gates (dc_arbitrage (cx_dynamic_config ctx)) sn = Inr (sy, sno)"
    and "arb_rescue_gate (dc_arbitrage (cx_dynamic_config ctx)) sn sy sno = None"
    and "arb_size_and_commit env ctx market sy sno w = (Some (Entry a b), w')"
  using assms by (auto simp: arb_quote_def Let_def split: sum.splits option.splits prod.splits)

lemma arb_entryE:
  assumes "arb_evaluate_entry n env ctx w = (Some (Entry a b), w')"
  obtains market sn where "cx_maker_market ctx = Some market" and "cx_maker_snapshot ctx = Some sn"
    and "ab_enable (dc_arbitrage (cx_dynamic_config ctx))" and "\<not> fst (check_drawdown env ctx w)"
    and "arb_book_gate sn = None"
    and "is_maker_arb_profitable (ms_yes_bid sn) (ms_no_bid sn) (ab_profit_threshold (dc_arbitrage (cx_dynamic_config ctx)))"
    and "fst (arb_debounce n (ve_instant env) (mc_condition_id market) (aw_profitable_since (snd (check_drawdown env ctx w))))"
    and "arb_quote env ctx market sn ((snd (check_drawdown env ctx w))\<lparr>aw_profitable_since :=
           snd (arb_debounce n (ve_instant env) (mc_condition_id market) (aw_profitable_since (snd (check_drawdown env ctx w))))\<rparr>)
         = (Some (Entry a b), w')"
  using assms by (auto simp: arb_evaluate_entry_def Let_def split_beta split: if_splits option.splits)

lemma arb_price_gatesD:
  assumes "arb_price_gates ab sn = Inr (sy, sno)"
  shows "sy = min (ms_yes_bid sn) (ms_yes_ask sn - 1 / 100)" and "sno = min (ms_no_bid sn) (ms_no_ask sn - 1 / 100)"
    and "ab_profit_threshold ab \<le> 1 - sy - sno" and "ab_min_leg_conviction ab \<le> max (ms_yes_bid sn) (ms_no_bid sn)"
  using assms by (auto simp: arb_price_gates_def is_maker_arb_profitable_def Let_def split: if_splits)

text \<open>A market and a book near settlement, on which the strategy enters; the clock of its debounce started
  ten seconds ago.\<close>

definition daily_market :: market_config where
  "daily_market =
     \<lparr>mc_yes_token = ''up'', mc_no_token = ''down'', mc_market_name = ''btc daily'', mc_market_close_time = None,
      mc_strike_price = None, mc_window_secs = None, mc_is_neg_risk = False, mc_condition_id = ''daily'',
      mc_yes_fee_bps = 125, mc_no_fee_bps = 125\<rparr>"

definition daily_snapshot :: market_snapshot where
  "daily_snapshot = blank_snapshot
     \<lparr>ms_yes_bid := 9/10, ms_yes_ask := 91/100, ms_no_bid := 7/100, ms_no_ask := 8/100,
      ms_no_bid_depth := 10, ms_no_ask_depth := 40\<rparr>"

definition arb_context :: strategy_context where
  "arb_context =
     \<lparr>cx_market = daily_market, cx_snapshot = daily_snapshot, cx_positions = [], cx_session_pnl = 0,
      cx_starting_collateral = 100, cx_crypto_filter = ''btc'', cx_squadron_id = ''btc-open'',
      cx_market_class = Some ''crypto'', cx_has_price_feed = True, cx_market_started_at = 0,
      cx_maker_market = Some daily_market, cx_maker_snapshot = Some daily_snapshot,
      cx_available_collateral = 100, cx_dynamic_config = sample_config\<rparr>"

definition arb_start :: arb_world where
  "arb_start = \<lparr>vw_status = [], vw_drawdown = ((None, []), 0), vw_notes = [], vw_venue_notices = [],
     aw_profitable_since = Some (''daily'', - from_secs 10), aw_lockouts = Some {}\<rparr>"

lemmas arb_sample_defs = daily_market_def daily_snapshot_def arb_context_def arb_start_def sample_config_def
  sample_env_def blank_snapshot_def

definition arb_sample_entry :: strategy_signal where
  "arb_sample_entry = Entry (resting_leg daily_market ''up'' (9/10) (1000/97) False)
     (Some (resting_leg daily_market ''down'' (7/100) (1000/97) False))"

lemma arb_start_fields:
  "aw_profitable_since arb_start = Some (''daily'', - from_secs 10)" "aw_lockouts arb_start = Some {}"
  "3 \<le> elapsed_secs 0 (- from_secs 10)"
  by (simp_all add: arb_start_def elapsed_secs_def from_secs_def nanos_per_sec_def)

text \<open>The strategy enters whenever its clock has stood long enough and no limit is hit, whatever else its world
  holds.\<close>

lemma arb_enters_from:
  assumes "\<not> fst (check_drawdown (sample_env\<lparr>ve_instant := now\<rparr>) arb_context w)"
    and "aw_profitable_since w = Some (''daily'', t)" and "aw_lockouts w = Some {}" and "3 \<le> elapsed_secs now t"
  shows "fst (arb_evaluate_entry 3 (sample_env\<lparr>ve_instant := now\<rparr>) arb_context w) = Some arb_sample_entry"
  using assms unfolding arb_sample_entry_def
  by (simp add: arb_defs split_beta arb_sample_defs Let_def current_exposure_def yes_depths_def no_depths_def
      hm_contains_def)

lemma arb_start_no_drawdown: "\<not> fst (check_drawdown (sample_env\<lparr>ve_instant := now\<rparr>) arb_context arb_start)"
  by (rule fresh_drawdown) (simp_all add: arb_start_def arb_context_def sample_env_def)

lemma arb_enters: "fst (arb_evaluate_entry 3 sample_env arb_context arb_start) = Some arb_sample_entry"
proof -
  have "sample_env\<lparr>ve_instant := 0\<rparr> = sample_env" by (simp add: sample_env_def)
  then show ?thesis using arb_enters_from [OF arb_start_no_drawdown [of 0], of "- from_secs 10"] arb_start_fields by simp
qed

lemma arb_enters_pair:
  "\<exists>a b w'. arb_evaluate_entry 3 sample_env arb_context arb_start = (Some (Entry a b), w')
     \<and> Entry a b = arb_sample_entry"
  using arb_enters unfolding arb_sample_entry_def by (metis prod.collapse)

section \<open>The pair is a hedge\<close>

text \<open>C9: What the strategy enters is a hedged pair that pays: equal shares on the two legs of the daily or
  window market, both as post-only resting bids at most a cent below their asks and never above their
  bids, the dearer leg first, and together at least the profit threshold below the one dollar the pair
  pays out.\<close>

theorem arb_entry_is_a_hedge:
  assumes "arb_evaluate_entry n env ctx w = (Some (Entry a b), w')"
  shows "\<exists>market sn leg. cx_maker_market ctx = Some market \<and> cx_maker_snapshot ctx = Some sn \<and> b = Some leg
    \<and> op_shares a = op_shares leg \<and> op_price leg \<le> op_price a
    \<and> ab_profit_threshold (dc_arbitrage (cx_dynamic_config ctx)) \<le> 1 - (op_price a + op_price leg)
    \<and> {(op_token_id a, op_price a), (op_token_id leg, op_price leg)} =
        {(mc_yes_token market, min (ms_yes_bid sn) (ms_yes_ask sn - 1 / 100)),
         (mc_no_token market, min (ms_no_bid sn) (ms_no_ask sn - 1 / 100))}
    \<and> (\<forall>o' \<in> {a, leg}. op_order_type o' = Gtc \<and> op_post_only o')"
proof -
  obtain market sn where m: "cx_maker_market ctx = Some market" "cx_maker_snapshot ctx = Some sn"
    and q: "\<exists>w1. arb_quote env ctx market sn w1 = (Some (Entry a b), w')"
    using assms by (elim arb_entryE) blast
  then obtain w1 sy sno where g: "arb_price_gates (dc_arbitrage (cx_dynamic_config ctx)) sn = Inr (sy, sno)"
    and c: "arb_size_and_commit env ctx market sy sno w1 = (Some (Entry a b), w')"
    by (blast elim: arb_quoteE)
  show ?thesis
    using m arb_price_gatesD [OF g] c
    by (elim arb_sizeE arb_commitE) (auto simp: insert_commute)
qed

lemma arb_entry_is_a_hedge_witness:
  "op_price (resting_leg daily_market ''up'' (9/10) (1000/97) False)
     + op_price (resting_leg daily_market ''down'' (7/100) (1000/97) False) \<le> 1 - 3/200"
proof -
  obtain a b w' where e: "arb_evaluate_entry 3 sample_env arb_context arb_start = (Some (Entry a b), w')"
    and s: "Entry a b = arb_sample_entry" using arb_enters_pair by blast
  from arb_entry_is_a_hedge [OF e] s show ?thesis
    by (auto simp: arb_sample_entry_def arb_context_def sample_config_def)
qed

section \<open>What an entry may cost\<close>

lemma arb_rescue_gateD:
  "arb_rescue_gate ab sn sy sno = None \<Longrightarrow>
     sy + ms_no_ask sn + 1 / 100 + ab_fak_rehedge_buffer ab < ab_max_rescue_cost ab
     \<and> sno + ms_yes_ask sn + 1 / 100 + ab_fak_rehedge_buffer ab < ab_max_rescue_cost ab"
  by (auto simp: arb_rescue_gate_def Let_def split: if_splits)

definition other_ask :: "market_config \<Rightarrow> market_snapshot \<Rightarrow> market_id \<Rightarrow> decimal" where
  "other_ask market sn token = (if token = mc_yes_token market then ms_no_ask sn else ms_yes_ask sn)"

text \<open>An entry's cost is bounded before it is placed: with it the strategy's exposure in the squadron stays
  within its cap and the free collateral covers the position size with five percent to spare; the pair
  costs exactly the position size (where decimals divide exactly); and whichever leg fills alone, buying
  the other at its ask, a tick and the buffer above, costs less in all than the rescue limit.\<close>

theorem arb_entry_bounded:
  assumes "arb_evaluate_entry n env ctx w = (Some (Entry a (Some b)), w')"
    and "cx_maker_market ctx = Some market" and "cx_maker_snapshot ctx = Some sn"
    and "mc_yes_token market \<noteq> mc_no_token market"
  shows "let dc = cx_dynamic_config ctx; ab = dc_arbitrage dc in
    current_exposure env ctx ''ArbitrageStrategy'' + ab_position_size ab \<le> dc_arbitrage_max_exposure dc
    \<and> ab_position_size ab * (105 / 100) \<le> cx_available_collateral ctx
    \<and> (ve_rnd env = id \<longrightarrow> op_shares a * op_price a + op_shares b * op_price b = ab_position_size ab)
    \<and> (\<forall>leg \<in> {a, b}. op_price leg + other_ask market sn (op_token_id leg) + 1 / 100 + ab_fak_rehedge_buffer ab
          < ab_max_rescue_cost ab)"
proof -
  obtain market' sn' where m: "cx_maker_market ctx = Some market'" "cx_maker_snapshot ctx = Some sn'"
    and q: "\<exists>w1. arb_quote env ctx market' sn' w1 = (Some (Entry a (Some b)), w')"
    using assms(1) by (elim arb_entryE) blast
  then have eq: "market' = market" "sn' = sn" using assms(2,3) by simp_all
  obtain w1 sy sno where r: "arb_rescue_gate (dc_arbitrage (cx_dynamic_config ctx)) sn sy sno = None"
    and c: "arb_size_and_commit env ctx market sy sno w1 = (Some (Entry a (Some b)), w')"
    using q unfolding eq by (blast elim: arb_quoteE)
  obtain shares where d: "checked_div env (ab_position_size (dc_arbitrage (cx_dynamic_config ctx))) (sy + sno) = Some shares"
    and legs: "a = resting_leg market (mc_yes_token market) sy shares (dc_ghost_mode (cx_dynamic_config ctx))
           \<and> b = resting_leg market (mc_no_token market) sno shares (dc_ghost_mode (cx_dynamic_config ctx))
         \<or> a = resting_leg market (mc_no_token market) sno shares (dc_ghost_mode (cx_dynamic_config ctx))
           \<and> b = resting_leg market (mc_yes_token market) sy shares (dc_ghost_mode (cx_dynamic_config ctx))"
    using c by (elim arb_sizeE arb_commitE) auto
  have cost: "shares * (sy + sno) = ab_position_size (dc_arbitrage (cx_dynamic_config ctx))" if "ve_rnd env = id"
    using d that by (auto simp: checked_div_def split: if_splits)
  show ?thesis
    using c legs arb_rescue_gateD [OF r] cost assms(4)
    by (elim arb_sizeE) (auto simp: Let_def arbitrage_name_def other_ask_def distrib_left add.commute)
qed

lemma arb_entry_bounded_witness:
  "1000/97 * (9/10) + 1000/97 * (7/100) = ab_position_size (dc_arbitrage sample_config)"
proof -
  obtain a b w' where e: "arb_evaluate_entry 3 sample_env arb_context arb_start = (Some (Entry a b), w')"
    and s: "Entry a b = arb_sample_entry" using arb_enters_pair by blast
  from s obtain leg where b: "b = Some leg" by (auto simp: arb_sample_entry_def)
  from arb_entry_bounded [OF e [unfolded b], of daily_market daily_snapshot] s b show ?thesis
    by (simp add: arb_sample_entry_def arb_context_def daily_market_def sample_env_def Let_def)
qed

section \<open>One pair per market\<close>

text \<open>A session of evaluations, each with its readings and its context: what they answer.\<close>

fun arb_session :: "nat \<Rightarrow> (viper_env \<times> strategy_context) list \<Rightarrow> arb_world \<Rightarrow> strategy_signal option list" where
  "arb_session n [] w = []"
| "arb_session n ((env, ctx) # ticks) w =
     fst (arb_evaluate_entry n env ctx w) # arb_session n ticks (snd (arb_evaluate_entry n env ctx w))"

lemma lockouts_kept:
  assumes "aw_lockouts w = Some l"
  shows "\<exists>l'. aw_lockouts (snd (arb_evaluate_entry n env ctx w)) = Some l' \<and> l \<subseteq> l'"
  using assms
  by (auto simp: arb_evaluate_entry_def arb_quote_def arb_size_and_commit_def arb_commit_def stand_down_arb_def
      Let_def split_beta split: option.split sum.split)

lemma lockouts_entry:
  assumes "aw_lockouts w = Some l" and "fst (arb_evaluate_entry n env ctx w) = Some (Entry a b)"
  shows "set (tokens_opened (Entry a b)) \<inter> l = {}"
    and "\<exists>l'. aw_lockouts (snd (arb_evaluate_entry n env ctx w)) = Some l' \<and> set (tokens_opened (Entry a b)) \<subseteq> l'"
proof -
  obtain w' where e: "arb_evaluate_entry n env ctx w = (Some (Entry a b), w')"
    using assms(2) by (metis prod.collapse)
  obtain market sn where q: "arb_quote env ctx market sn ((snd (check_drawdown env ctx w))\<lparr>aw_profitable_since :=
           snd (arb_debounce n (ve_instant env) (mc_condition_id market) (aw_profitable_since (snd (check_drawdown env ctx w))))\<rparr>)
         = (Some (Entry a b), w')"
    using e by (elim arb_entryE) blast
  from q show "set (tokens_opened (Entry a b)) \<inter> l = {}"
    using assms(1) by (elim arb_quoteE arb_sizeE arb_commitE) (auto simp: arb_locked_out_def)
  from q show "\<exists>l'. aw_lockouts (snd (arb_evaluate_entry n env ctx w)) = Some l' \<and> set (tokens_opened (Entry a b)) \<subseteq> l'"
    using assms(1) by (elim arb_quoteE arb_sizeE arb_commitE) (auto simp: e)
qed

lemma session_avoids_lockouts:
  assumes "aw_lockouts w = Some l" and "Some (Entry a b) \<in> set (arb_session n ticks w)"
  shows "set (tokens_opened (Entry a b)) \<inter> l = {}"
  using assms
proof (induction ticks arbitrary: w l)
  case (Cons tick ticks)
  obtain env ctx where tick: "tick = (env, ctx)" by (cases tick)
  obtain l' where l': "aw_lockouts (snd (arb_evaluate_entry n env ctx w)) = Some l'" "l \<subseteq> l'"
    using lockouts_kept [OF Cons.prems(1)] by blast
  from Cons.prems(2) consider "fst (arb_evaluate_entry n env ctx w) = Some (Entry a b)"
    | "Some (Entry a b) \<in> set (arb_session n ticks (snd (arb_evaluate_entry n env ctx w)))"
    by (auto simp: tick)
  then show ?case
  proof cases
    case 1
    then show ?thesis by (rule lockouts_entry(1) [OF Cons.prems(1)])
  next
    case 2
    then show ?thesis using Cons.IH [OF l'(1)] l'(2) by blast
  qed
qed simp

text \<open>A session opens at most one pair per market: where the context shares the set of lockouts, no two
  entries of a session, whatever it is asked and whatever is filled, cancelled or flattened in between,
  have a token in common.\<close>

theorem arb_one_pair_per_market:
  assumes "aw_lockouts w = Some l" and "i < j" and "j < length (arb_session n ticks w)"
    and "arb_session n ticks w ! i = Some (Entry a b)" and "arb_session n ticks w ! j = Some (Entry a' b')"
  shows "set (tokens_opened (Entry a b)) \<inter> set (tokens_opened (Entry a' b')) = {}"
  using assms
proof (induction ticks arbitrary: w l i j)
  case (Cons tick ticks)
  obtain env ctx where tick: "tick = (env, ctx)" by (cases tick)
  let ?w = "snd (arb_evaluate_entry n env ctx w)"
  obtain j' where j: "j = Suc j'" using Cons.prems(2) by (cases j) auto
  have later: "Some (Entry a' b') \<in> set (arb_session n ticks ?w)"
    using Cons.prems(3,5) by (auto simp: tick j in_set_conv_nth)
  show ?case
  proof (cases i)
    case 0
    then have "fst (arb_evaluate_entry n env ctx w) = Some (Entry a b)" using Cons.prems(4) by (simp add: tick)
    then obtain l' where "aw_lockouts ?w = Some l'" "set (tokens_opened (Entry a b)) \<subseteq> l'"
      using lockouts_entry(2) [OF Cons.prems(1)] by blast
    then show ?thesis using session_avoids_lockouts [OF _ later] by blast
  next
    case (Suc i')
    obtain l' where "aw_lockouts ?w = Some l'" using lockouts_kept [OF Cons.prems(1)] by blast
    then show ?thesis using Cons.IH [of ?w l' i' j'] Cons.prems by (simp add: tick j Suc)
  qed
qed simp

lemma arb_one_pair_per_market_witness:
  "\<nexists>a b. arb_session 3 [(sample_env, arb_context), (sample_env, arb_context)] arb_start ! 1 = Some (Entry a b)
      \<and> op_token_id a = ''up''"
proof
  assume "\<exists>a b. arb_session 3 [(sample_env, arb_context), (sample_env, arb_context)] arb_start ! 1 = Some (Entry a b)
      \<and> op_token_id a = ''up''"
  then obtain a b where second: "arb_session 3 [(sample_env, arb_context), (sample_env, arb_context)] arb_start ! 1
      = Some (Entry a b)" "op_token_id a = ''up''" by blast
  have first: "arb_session 3 [(sample_env, arb_context), (sample_env, arb_context)] arb_start ! 0 =
      Some (Entry (resting_leg daily_market ''up'' (9/10) (1000/97) False)
        (Some (resting_leg daily_market ''down'' (7/100) (1000/97) False)))"
    using arb_enters by (simp add: arb_sample_entry_def)
  from arb_one_pair_per_market [OF arb_start_fields(2) zero_less_one _ first second(1)] second(2) show False by simp
qed

section \<open>The debounce\<close>

text \<open>What an evaluation that gets as far as the profitability test sees: the market and whether its spread
  pays.\<close>

definition arb_sighting :: "viper_env \<Rightarrow> strategy_context \<Rightarrow> arb_world \<Rightarrow> (string \<times> bool) option" where
  "arb_sighting env ctx w =
     (let ab = dc_arbitrage (cx_dynamic_config ctx) in
      if ab_enable ab \<and> \<not> fst (check_drawdown env ctx w)
      then (case (cx_maker_market ctx, cx_maker_snapshot ctx) of
              (Some market, Some sn) \<Rightarrow>
                if arb_book_gate sn = None
                then Some (mc_condition_id market,
                       is_maker_arb_profitable (ms_yes_bid sn) (ms_no_bid sn) (ab_profit_threshold ab))
                else None
            | _ \<Rightarrow> None)
      else None)"

definition clock_after ::
  "nat \<Rightarrow> instant \<Rightarrow> (string \<times> bool) option \<Rightarrow> (string \<times> instant) option \<Rightarrow> (string \<times> instant) option" where
  "clock_after n now sight since =
     (case sight of
        None \<Rightarrow> since
      | Some (cid, profitable) \<Rightarrow> if profitable then snd (arb_debounce n now cid since) else None)"

lemma arb_quote_clock [simp]:
  "aw_profitable_since (snd (arb_quote env ctx market sn w)) = aw_profitable_since w"
  by (auto simp: arb_quote_def arb_size_and_commit_def arb_commit_def stand_down_arb_def Let_def split_beta
      split: option.split sum.split)

lemma arb_clock_after:
  "aw_profitable_since (snd (arb_evaluate_entry n env ctx w)) =
     clock_after n (ve_instant env) (arb_sighting env ctx w) (aw_profitable_since w)"
  by (auto simp: arb_evaluate_entry_def arb_sighting_def clock_after_def stand_down_arb_def Let_def split_beta
      split: option.split)

text \<open>The evaluations of a session with the reading each was made at and what it saw.\<close>

fun arb_sightings :: "nat \<Rightarrow> (viper_env \<times> strategy_context) list \<Rightarrow> arb_world \<Rightarrow> (instant \<times> (string \<times> bool) option) list" where
  "arb_sightings n [] w = []"
| "arb_sightings n ((env, ctx) # ticks) w =
     (ve_instant env, arb_sighting env ctx w) # arb_sightings n ticks (snd (arb_evaluate_entry n env ctx w))"

fun arb_after :: "nat \<Rightarrow> (viper_env \<times> strategy_context) list \<Rightarrow> arb_world \<Rightarrow> arb_world" where
  "arb_after n [] w = w"
| "arb_after n ((env, ctx) # ticks) w = arb_after n ticks (snd (arb_evaluate_entry n env ctx w))"

lemma arb_clock_of_session:
  "aw_profitable_since (arb_after n ticks w) =
     fold (\<lambda>(t, s). clock_after n t s) (arb_sightings n ticks w) (aw_profitable_since w)"
  by (induction n ticks w rule: arb_sightings.induct) (simp_all add: arb_clock_after)

text \<open>The clock stands at a sighting of its market since which every sighting was of that market, paying.\<close>

lemma clock_stands:
  assumes "fold (\<lambda>(t, s). clock_after n t s) xs None = Some (cid, t0)"
  shows "\<exists>ys zs. xs = ys @ (t0, Some (cid, True)) # zs \<and> (\<forall>(t, s) \<in> set zs. s = None \<or> s = Some (cid, True))"
  using assms
proof (induction xs rule: rev_induct)
  case (snoc x xs)
  obtain t s where x: "x = (t, s)" by (cases x)
  let ?c = "fold (\<lambda>(t, s). clock_after n t s) xs None"
  show ?case
  proof (cases "?c = Some (cid, t0) \<and> (s = None \<or> s = Some (cid, True))")
    case True
    then obtain ys zs where "xs = ys @ (t0, Some (cid, True)) # zs"
        and "\<forall>(t, s) \<in> set zs. s = None \<or> s = Some (cid, True)" using snoc.IH by blast
    with True show ?thesis by (intro exI [of _ ys] exI [of _ "zs @ [x]"]) (auto simp: x)
  next
    case False
    have "clock_after n t s ?c = Some (cid, t0)" using snoc.prems by (simp add: x)
    then have "t = t0 \<and> s = Some (cid, True)" using False
      by (auto simp: clock_after_def arb_debounce_def split: option.splits if_splits prod.splits)
    then show ?thesis by (intro exI [of _ xs] exI [of _ "[]"]) (simp add: x)
  qed
qed simp

text \<open>The debounce holds: when a session that starts with no clock ends in an entry, the market entered was
  seen paying at least the persistence window earlier, and no evaluation since then saw another market
  or saw this one not paying.\<close>

theorem arb_entry_persisted:
  assumes "aw_profitable_since w = None"
    and "fst (arb_evaluate_entry n env ctx (arb_after n ticks w)) = Some (Entry a b)"
  shows "\<exists>market t0 ys zs. cx_maker_market ctx = Some market
    \<and> arb_sightings n ticks w = ys @ (t0, Some (mc_condition_id market, True)) # zs
    \<and> n \<le> elapsed_secs (ve_instant env) t0
    \<and> (\<forall>(t, s) \<in> set zs. s = None \<or> s = Some (mc_condition_id market, True))"
proof -
  let ?w = "arb_after n ticks w"
  obtain w' where "arb_evaluate_entry n env ctx ?w = (Some (Entry a b), w')"
    using assms(2) by (metis prod.collapse)
  then obtain market where m: "cx_maker_market ctx = Some market"
    and d: "fst (arb_debounce n (ve_instant env) (mc_condition_id market) (aw_profitable_since ?w))"
    by (elim arb_entryE) auto
  from d obtain t0 where t0: "aw_profitable_since ?w = Some (mc_condition_id market, t0)"
    and el: "n \<le> elapsed_secs (ve_instant env) t0"
    by (auto simp: arb_debounce_def split: option.splits if_splits)
  from t0 have "fold (\<lambda>(t, s). clock_after n t s) (arb_sightings n ticks w) None = Some (mc_condition_id market, t0)"
    using assms(1) by (simp add: arb_clock_of_session)
  from clock_stands [OF this] m el show ?thesis by blast
qed

definition arb_fresh :: arb_world where
  "arb_fresh = arb_start\<lparr>aw_profitable_since := None\<rparr>"

text \<open>The clock runs on while the market cannot be seen: between a sighting and the entry four seconds later,
  the evaluations had no daily or window venue at all.\<close>

definition arb_gap_session :: "(viper_env \<times> strategy_context) list" where
  "arb_gap_session =
     [(sample_env, arb_context),
      (sample_env\<lparr>ve_instant := from_secs 1\<rparr>, arb_context\<lparr>cx_maker_market := None, cx_maker_snapshot := None\<rparr>)]"

lemma arb_drawdown_state:
  "vw_drawdown (snd (arb_evaluate_entry n env ctx w)) =
     (if ab_enable (dc_arbitrage (cx_dynamic_config ctx)) then vw_drawdown (snd (check_drawdown env ctx w))
      else vw_drawdown w)"
  by (auto simp: arb_evaluate_entry_def arb_quote_def arb_size_and_commit_def arb_commit_def stand_down_arb_def
      stash_entry_signals_def Let_def split_beta split: option.split sum.split)

lemma no_venue_keeps_clock:
  assumes "cx_maker_market ctx = None"
  shows "aw_profitable_since (snd (arb_evaluate_entry n env ctx w)) = aw_profitable_since w"
    and "aw_lockouts (snd (arb_evaluate_entry n env ctx w)) = aw_lockouts w"
  using assms by (simp_all add: arb_evaluate_entry_def stand_down_arb_def Let_def split_beta)

lemma arb_gap_state:
  "aw_profitable_since (arb_after 3 arb_gap_session arb_fresh) = Some (''daily'', 0)"
  "aw_lockouts (arb_after 3 arb_gap_session arb_fresh) = Some {}"
  "\<not> fst (check_drawdown (sample_env\<lparr>ve_instant := from_secs 4\<rparr>) arb_context (arb_after 3 arb_gap_session arb_fresh))"
proof -
  have dd: "\<not> fst (check_drawdown sample_env arb_context arb_fresh)"
    by (rule fresh_drawdown) (simp_all add: arb_fresh_def arb_start_def arb_context_def sample_env_def)
  let ?w1 = "snd (arb_evaluate_entry 3 sample_env arb_context arb_fresh)"
  have w1: "aw_profitable_since ?w1 = Some (''daily'', 0)" "aw_lockouts ?w1 = Some {}"
    using dd
    by (simp_all add: arb_fresh_def arb_defs stand_down_arb_def split_beta arb_sample_defs Let_def)
  have d1: "hm_get (snd (fst (vw_drawdown ?w1))) (to_lowercase ''btc'') = Some \<lparr>da_day = 1, da_anchor = 0\<rparr>"
    by (simp add: arb_drawdown_state arb_fresh_def arb_start_def arb_context_def sample_config_def check_drawdown_def
        drawdown_limit_hit_def day_pnl_def day_pnl_in_def is_drawdown_limit_hit_def roll_day_def sample_env_def Let_def split_beta)
  show "aw_profitable_since (arb_after 3 arb_gap_session arb_fresh) = Some (''daily'', 0)"
    "aw_lockouts (arb_after 3 arb_gap_session arb_fresh) = Some {}"
    using w1 by (simp_all add: arb_gap_session_def no_venue_keeps_clock)
  show "\<not> fst (check_drawdown (sample_env\<lparr>ve_instant := from_secs 4\<rparr>) arb_context (arb_after 3 arb_gap_session arb_fresh))"
    using d1
    by (simp add: arb_gap_session_def arb_drawdown_state arb_context_def sample_config_def check_drawdown_def
        drawdown_limit_hit_def day_pnl_def day_pnl_in_def is_drawdown_limit_hit_def roll_day_def sample_env_def Let_def split_beta)
qed

lemma arb_entry_persisted_witness:
  "\<exists>t0 ys zs. arb_sightings 3 arb_gap_session arb_fresh = ys @ (t0, Some (''daily'', True)) # zs
     \<and> 3 \<le> elapsed_secs (from_secs 4) t0"
proof -
  have el: "3 \<le> elapsed_secs (from_secs 4) 0" by (simp add: elapsed_secs_def from_secs_def nanos_per_sec_def)
  have "aw_profitable_since arb_fresh = None" by (simp add: arb_fresh_def)
  from arb_entry_persisted [OF this arb_enters_from [OF arb_gap_state(3,1,2) el, unfolded arb_sample_entry_def]]
  show ?thesis by (auto simp: arb_context_def daily_market_def sample_env_def)
qed

text \<open>So the spread need not pay continuously: an entry can follow a single sighting.\<close>

theorem arb_clock_survives_a_gap:
  "fst (arb_evaluate_entry 3 (sample_env\<lparr>ve_instant := from_secs 4\<rparr>) arb_context
     (arb_after 3 arb_gap_session arb_fresh)) = Some arb_sample_entry"
proof (rule arb_enters_from [OF arb_gap_state(3,1,2)])
  show "3 \<le> elapsed_secs (from_secs 4) 0" by (simp add: elapsed_secs_def from_secs_def nanos_per_sec_def)
qed

section \<open>No division by zero\<close>

lemma safe_bids_positive:
  fixes yb ya nb na :: decimal
  assumes "yb < ya" and "nb < na" and "0 \<le> yb" and "0 \<le> nb" and "1 / 50 \<le> max yb nb"
  shows "0 < min yb (ya - 1 / 100) + min nb (na - 1 / 100)"
  using assms by (simp add: min_def max_def split: if_splits)

text \<open>The entry always answers: as long as the conviction floor is at least two cents and the venue's bids
  are not negative, no evaluation divides by zero, whatever else the book, the settings and the state are.\<close>

theorem arb_entry_answers:
  assumes "1 / 50 \<le> ab_min_leg_conviction (dc_arbitrage (cx_dynamic_config ctx))"
    and "case cx_maker_snapshot ctx of None \<Rightarrow> True | Some sn \<Rightarrow> 0 \<le> ms_yes_bid sn \<and> 0 \<le> ms_no_bid sn"
  shows "fst (arb_evaluate_entry n env ctx w) \<noteq> None"
proof
  assume none: "fst (arb_evaluate_entry n env ctx w) = None"
  then obtain market sn w1 where sn: "cx_maker_snapshot ctx = Some sn" "arb_book_gate sn = None"
    and q: "fst (arb_quote env ctx market sn w1) = None"
    by (auto simp: arb_evaluate_entry_def stand_down_arb_def Let_def split_beta split: if_splits option.splits)
  from q obtain sy sno where g: "arb_price_gates (dc_arbitrage (cx_dynamic_config ctx)) sn = Inr (sy, sno)"
    and z: "sy + sno = 0"
    by (auto simp: arb_quote_def arb_size_and_commit_def arb_commit_def stand_down_arb_def checked_div_def Let_def
        split_beta split: sum.splits option.splits if_splits)
  have "ms_yes_bid sn < ms_yes_ask sn" "ms_no_bid sn < ms_no_ask sn"
    using sn(2) by (auto simp: arb_book_gate_def split: if_splits)
  moreover have "0 \<le> ms_yes_bid sn" "0 \<le> ms_no_bid sn" using assms(2) sn(1) by simp_all
  ultimately have "0 < sy + sno"
    using safe_bids_positive arb_price_gatesD [OF g] assms(1) by (metis order_trans)
  with z show False by simp
qed

lemma arb_entry_answers_witness: "fst (arb_evaluate_entry 3 sample_env arb_context arb_fresh) \<noteq> None"
  using arb_entry_answers [of arb_context 3 sample_env arb_fresh] by (simp add: arb_sample_defs)

section \<open>Leaving a pair\<close>

text \<open>The strategy sells only for a reason: a pair is sold early only when its two bids, less the flat fee
  ceilings, bring at least the dollar that settlement pays; a leg alone is sold only when its partner is
  not held, its fill is confirmed, the arbiter's whole rescue window and a minute are over, and there is
  a bid; and what is sold is the strategy's own position in this squadron, all of it, at its bid.\<close>

theorem arb_exit_sound:
  assumes "arb_evaluate_exit env ctx = Exit p reason exit_pair"
    and "cx_maker_market ctx = Some market" and "cx_maker_snapshot ctx = Some sn"
  defines "held \<equiv> \<lambda>token. hm_get (cx_positions ctx) (position_key_new (cx_squadron_id ctx) ''ArbitrageStrategy'' token)"
  shows "(\<exists>pos. held (op_token_id p) = Some pos \<and> op_shares p = p_shares pos \<and> op_order_type p = Fak
      \<and> (op_token_id p = mc_yes_token market \<and> op_price p = ms_yes_bid sn
          \<or> op_token_id p = mc_no_token market \<and> op_price p = ms_no_bid sn)
      \<and> (exit_pair \<or> fill_effective_at pos (dc_ghost_mode (cx_dynamic_config ctx)) \<noteq> None
            \<and> 660 < num_seconds (ve_utc env - p_opened_at pos) \<and> 0 < op_price p))
    \<and> (if exit_pair
       then held (mc_yes_token market) \<noteq> None \<and> held (mc_no_token market) \<noteq> None
         \<and> 1 \<le> (ms_yes_bid sn - of_nat (mc_yes_fee_bps market) / 10000)
              + (ms_no_bid sn - of_nat (mc_no_fee_bps market) / 10000)
       else held (mc_yes_token market) = None \<or> held (mc_no_token market) = None)"
  using assms(1-3) unfolding held_def
  by (auto simp: arb_evaluate_exit_def arb_pair_exit_def arb_naked_exit_def arbitrage_name_def arbiter_wait_secs_def
      Let_def simp del: not_None_eq split: option.splits if_splits)

definition naked_position :: position where
  "naked_position =
     \<lparr>p_shares = 10, p_avg_entry = 9/10, p_opened_at = - from_secs 700, p_close_time = None, p_market_name = [],
      p_pair_token_id = ''up'', p_fill_confirmed_at = Some 0, p_paired_leg_token_id = Some ''down'', p_entry_fee = 0\<rparr>"

definition naked_context :: strategy_context where
  "naked_context = arb_context
     \<lparr>cx_positions := [(position_key_new ''btc-open'' ''ArbitrageStrategy'' ''up'', naked_position)]\<rparr>"

lemma arb_exit_sound_witness:
  "arb_evaluate_exit sample_env naked_context =
     Exit (taker_leg daily_market ''up'' (9/10) 10 125 False) ''Arb naked YES leg flatten (orphaned single-leg)'' False
   \<and> 660 < num_seconds (ve_utc sample_env - p_opened_at naked_position)"
proof -
  have age: "num_seconds (from_secs 700) = 700" by code_simp
  have e: "arb_evaluate_exit sample_env naked_context =
     Exit (taker_leg daily_market ''up'' (9/10) 10 125 False) ''Arb naked YES leg flatten (orphaned single-leg)'' False"
    by (simp add: arb_evaluate_exit_def arb_naked_exit_def arb_sample_defs naked_context_def naked_position_def
        fill_effective_at_def arbiter_wait_secs_def arbitrage_name_def position_key_new_def age Let_def)
  have "cx_maker_market naked_context = Some daily_market" "cx_maker_snapshot naked_context = Some daily_snapshot"
    by (simp_all add: naked_context_def arb_context_def)
  from e arb_exit_sound [OF e this] show ?thesis
    by (simp add: naked_context_def arb_context_def position_key_new_def naked_position_def sample_env_def age)
qed

end
