(* ===== verification/Time_Decay.thy ===== *)
theory Time_Decay
  imports Viper_Common
begin

text \<open>
  The time-decay strategy, \<open>src/vipers/time_decay_impl.rs\<close>: resting bids on both legs of an hourly market
  inside the theta window, the sorting of one-sided fills, the stop of a lone leg and the exits of a pair.
  The build's constants are in a record; the throttle of its gate lines is state of its own.
\<close>

definition time_decay_name :: string where
  "time_decay_name = ''TimeDecayStrategy''"

record td_build =
  tb_obi_adverse_block :: decimal
  tb_max_entry_price_ceiling :: decimal
  tb_max_snapshot_age_secs :: int
  tb_expiry_safety_buffer_secs :: int
  tb_gate_log_interval_secs :: nat
  tb_min_secs_to_expiry :: int
  tb_max_secs_to_expiry :: int
  tb_min_net_profit :: decimal
  tb_convergence_exit_bid :: decimal

type_synonym td_gate_log = "(string, string \<times> instant) hash_map"

record td_world = viper_world +
  tw_gate_log :: td_gate_log

type_synonym td_result = "strategy_signal option \<times> td_world"

section \<open>Which legs are in hand\<close>

datatype pair_legs =
    NoLegs
  | BothLegs
  | LoneYes bool
  | LoneNo bool

fun pair_state :: "bool option \<Rightarrow> bool option \<Rightarrow> pair_legs" where
  "pair_state None None = NoLegs"
| "pair_state (Some yes) (Some no) =
     (if yes \<and> \<not> no then LoneYes True else if \<not> yes \<and> no then LoneNo True else BothLegs)"
| "pair_state (Some _) None = LoneYes False"
| "pair_state None (Some _) = LoneNo False"

datatype lone_leg_decision = HoldLeg | StopLeg

definition lone_leg_decision ::
  "decimal \<Rightarrow> decimal \<Rightarrow> decimal \<Rightarrow> bool \<Rightarrow> decimal \<Rightarrow> int \<Rightarrow> int \<Rightarrow> lone_leg_decision" where
  "lone_leg_decision entry bid stop_pct iv_elevated tighten_mult held_secs min_hold_secs =
     (if bid \<le> 0 \<or> held_secs < min_hold_secs then HoldLeg
      else let pct = (if iv_elevated then stop_pct * tighten_mult else stop_pct)
           in if bid < entry * (1 - pct) then StopLeg else HoldLeg)"

section \<open>Gates\<close>

fun spreads_settled :: "(decimal \<times> decimal) list \<Rightarrow> decimal \<Rightarrow> string option" where
  "spreads_settled [] cap = None"
| "spreads_settled ((bid, ask) # legs) cap =
     (if 0 < ask \<and> cap < ask - bid then Some ''book in transition (leg spread above cap)''
      else spreads_settled legs cap)"

definition book_settled :: "decimal \<Rightarrow> decimal \<Rightarrow> decimal \<Rightarrow> decimal \<Rightarrow> decimal \<Rightarrow> string option" where
  "book_settled yes_bid no_bid yes_ask no_ask max_net_theta =
     (if max_net_theta < 1 - (yes_bid + no_bid) then Some ''book in transition (implied theta above cap)''
      else spreads_settled [(yes_bid, yes_ask), (no_bid, no_ask)] max_net_theta)"

definition time_decay_gate_log_permitted :: "nat \<Rightarrow> string \<Rightarrow> string \<Rightarrow> instant \<Rightarrow> td_gate_log \<Rightarrow> bool \<times> td_gate_log" where
  "time_decay_gate_log_permitted interval asset reason now reg =
     (case hm_get reg asset of
        Some (prev, t) \<Rightarrow>
          if prev = reason \<and> elapsed_secs now t < interval then (False, reg)
          else (True, hm_insert asset (reason, now) reg)
      | None \<Rightarrow> (True, hm_insert asset (reason, now) reg))"

interpretation td_gate_log: throttle "\<lambda>asset reason. time_decay_gate_log_permitted n asset reason"
    "\<lambda>reg asset. hm_get reg asset" "\<lambda>now t. elapsed_secs now t < n" for n
  by unfold_locales (auto simp: time_decay_gate_log_permitted_def split: option.split)

definition iv_thresholds :: "decimal \<Rightarrow> decimal \<Rightarrow> decimal \<Rightarrow> decimal \<times> decimal" where
  "iv_thresholds oracle_price max_fast_velocity_pct max_slow_drift_pct =
     (oracle_threshold max_fast_velocity_pct oracle_price, oracle_threshold max_slow_drift_pct oracle_price)"

text \<open>The theta window, the oracle and the age of the snapshot.\<close>

definition td_timing_gate :: "td_build \<Rightarrow> viper_env \<Rightarrow> strategy_context \<Rightarrow> string option" where
  "td_timing_gate bd env ctx =
     (let td = dc_time_decay (cx_dynamic_config ctx); snap = cx_snapshot ctx in
      case mc_market_close_time (cx_market ctx) of
        None \<Rightarrow> Some ''market has no close time''
      | Some close_time \<Rightarrow>
          let secs = num_seconds (close_time - ve_utc env);
              (max_fast, max_slow) = iv_thresholds (ms_oracle_price snap) (td_max_fast_velocity_pct td)
                (td_max_slow_drift_pct td)
          in if secs < td_min_secs_to_expiry td \<or> td_max_secs_to_expiry td < secs
             then Some ''outside theta window (expiry timing)''
             else if cx_has_price_feed ctx \<and> cx_market_class ctx = Some ''crypto'' \<and> ms_oracle_price snap \<le> 0
             then Some ''oracle price unknown (price raptor not connected)''
             else if max_fast < \<bar>ms_velocity snap\<bar> then Some ''underlying moving too fast''
             else if max_slow < \<bar>ms_oracle_drift_60m snap\<bar> then Some ''60m drift too large''
             else if tb_max_snapshot_age_secs bd < num_seconds (ve_utc env - ms_timestamp snap)
             then Some ''snapshot stale'' else None)"

text \<open>The imbalance, the price band, the settled book, and what is left of the theta.\<close>

definition td_book_gate :: "td_build \<Rightarrow> viper_env \<Rightarrow> strategy_context \<Rightarrow> string option" where
  "td_book_gate bd env ctx =
     (let dc = cx_dynamic_config ctx; td = dc_time_decay dc; snap = cx_snapshot ctx;
          yes_bid = ms_yes_bid snap; no_bid = ms_no_bid snap;
          obi_block = max (td_obi_adverse_block td) (tb_obi_adverse_block bd);
          max_entry = min (td_max_entry_price td) (tb_max_entry_price_ceiling bd)
      in if yes_obi (ve_rnd env) snap (dc_obi_use_whole_book dc) < obi_block
            \<or> no_obi (ve_rnd env) snap (dc_obi_use_whole_book dc) < obi_block
         then Some ''adverse book imbalance (OBI)''
         else if max_entry < yes_bid \<or> yes_bid < td_min_entry_price td
         then Some ''market skewed (YES leg outside symmetric band)''
         else if max_entry < no_bid \<or> no_bid < td_min_entry_price td
         then Some ''market skewed (NO leg outside symmetric band)''
         else case book_settled yes_bid no_bid (ms_yes_ask snap) (ms_no_ask snap) (td_max_net_theta td) of
             Some reason \<Rightarrow> Some reason
           | None \<Rightarrow>
               if td_convergence_exit_bid td \<le> yes_bid + no_bid then Some ''already converged (no theta left)''
               else if td_min_net_profit td \<le> 1 - (yes_bid + no_bid) then None
               else Some ''theta below minimum net profit'')"

section \<open>The entry\<close>

definition td_idle :: "td_build \<Rightarrow> viper_env \<Rightarrow> strategy_context \<Rightarrow> string \<Rightarrow> td_world \<Rightarrow> td_world" where
  "td_idle bd env ctx reason w =
     (let w1 = idle env ctx time_decay_name reason w
      in w1\<lparr>tw_gate_log := snd (time_decay_gate_log_permitted (tb_gate_log_interval_secs bd) (cx_crypto_filter ctx)
             reason (ve_instant env) (tw_gate_log w1))\<rparr>)"

definition stand_down_td :: "td_build \<Rightarrow> viper_env \<Rightarrow> strategy_context \<Rightarrow> string \<Rightarrow> td_world \<Rightarrow> td_result" where
  "stand_down_td bd env ctx reason w = (Some NoSignal, td_idle bd env ctx reason w)"

definition td_enter :: "td_build \<Rightarrow> viper_env \<Rightarrow> strategy_context \<Rightarrow> td_world \<Rightarrow> td_result" where
  "td_enter bd env ctx w =
     (let dc = cx_dynamic_config ctx; td = dc_time_decay dc; snap = cx_snapshot ctx; market = cx_market ctx;
          yes_bid = ms_yes_bid snap; no_bid = ms_no_bid snap;
          combined_bid = yes_bid + no_bid; trade_size = td_position_size td
      in if dc_time_decay_max_exposure dc < current_exposure env ctx time_decay_name + trade_size
         then stand_down_td bd env ctx ''exposure cap reached'' w
         else case checked_div env trade_size combined_bid of
             None \<Rightarrow> (None, w)
           | Some pair_shares \<Rightarrow>
               (Some (Entry (resting_leg market (mc_yes_token market) yes_bid pair_shares (dc_ghost_mode dc))
                  (Some (resting_leg market (mc_no_token market) no_bid pair_shares (dc_ghost_mode dc)))),
                stash_entry_signals (mc_yes_token market)
                  [(''viper'', NText ''TimeDecay''), (''yes_bid'', NDecimal yes_bid), (''no_bid'', NDecimal no_bid),
                   (''yes_ask'', NDecimal (ms_yes_ask snap)), (''no_ask'', NDecimal (ms_no_ask snap)),
                   (''combined_bid'', NDecimal combined_bid), (''max_net_theta'', NDecimal (td_max_net_theta td)),
                   (''net_theta'', NDecimal (1 - combined_bid)), (''pair_shares'', NDecimal pair_shares),
                   (''trade_size'', NDecimal trade_size)] w))"

definition td_evaluate_entry :: "td_build \<Rightarrow> viper_env \<Rightarrow> strategy_context \<Rightarrow> td_world \<Rightarrow> td_result" where
  "td_evaluate_entry bd env ctx w =
     (if \<not> td_enable (dc_time_decay (cx_dynamic_config ctx)) then stand_down_td bd env ctx ''disabled in config'' w
      else let (hit, w) = check_drawdown env ctx w in
      if hit then stand_down_td bd env ctx ''daily drawdown limit hit'' w
      else case td_timing_gate bd env ctx of
        Some reason \<Rightarrow> stand_down_td bd env ctx reason w
      | None \<Rightarrow>
          (case td_book_gate bd env ctx of
             Some reason \<Rightarrow> stand_down_td bd env ctx reason w
           | None \<Rightarrow> td_enter bd env ctx w))"

section \<open>The exit\<close>

definition td_iv_elevated :: "strategy_context \<Rightarrow> bool" where
  "td_iv_elevated ctx =
     (let td = dc_time_decay (cx_dynamic_config ctx); snap = cx_snapshot ctx
      in fst (iv_thresholds (ms_oracle_price snap) (td_max_fast_velocity_pct td) (td_max_slow_drift_pct td))
           < \<bar>ms_velocity snap\<bar>)"

definition td_lone_leg_exit ::
  "viper_env \<Rightarrow> strategy_context \<Rightarrow> position \<Rightarrow> market_id \<Rightarrow> decimal \<Rightarrow> nat \<Rightarrow> string \<Rightarrow> bool \<Rightarrow> strategy_signal" where
  "td_lone_leg_exit env ctx leg token bid fee_bps side_name partner_resting =
     (let dc = cx_dynamic_config ctx; td = dc_time_decay dc; iv = td_iv_elevated ctx;
          since = (case fill_effective_at leg (dc_ghost_mode dc) of Some t \<Rightarrow> t | None \<Rightarrow> p_opened_at leg);
          held_secs = num_seconds (ve_utc env - since)
      in case lone_leg_decision (p_avg_entry leg) bid (td_lone_leg_stop_pct td) iv (td_iv_stop_tighten td)
               held_secs (td_min_hold_secs td) of
           HoldLeg \<Rightarrow> NoSignal
         | StopLeg \<Rightarrow>
             Exit (taker_leg (cx_market ctx) token bid (p_shares leg) fee_bps (dc_ghost_mode dc))
               (''Time Decay lone-leg SL'' @ (if iv then '' (IV-tightened)'' else []) @ '': '' @ side_name @ '' bid=$''
                  @ ve_show env 4 bid @ '' entry=$'' @ ve_show env 4 (p_avg_entry leg) @ '' (''
                  @ (if partner_resting then ''partner bid resting'' else ''partner bid gone'') @ '')'') False)"

definition td_pair_exit ::
  "td_build \<Rightarrow> viper_env \<Rightarrow> strategy_context \<Rightarrow> position \<Rightarrow> position \<Rightarrow> strategy_signal" where
  "td_pair_exit bd env ctx yp np =
     (let dc = cx_dynamic_config ctx; td = dc_time_decay dc; snap = cx_snapshot ctx; market = cx_market ctx;
          combined_bid = ms_yes_bid snap + ms_no_bid snap;
          leave = (\<lambda>reason. Exit (taker_leg market (mc_yes_token market) (ms_yes_bid snap) (p_shares yp)
            (mc_yes_fee_bps market) (dc_ghost_mode dc)) reason True);
          iv = td_iv_elevated ctx;
          stop_pct = (if iv then td_stop_loss_pct td * td_iv_stop_tighten td else td_stop_loss_pct td);
          hold_secs = num_seconds (ve_utc env - p_opened_at yp);
          sl_threshold = (p_avg_entry yp + p_avg_entry np) * (1 - stop_pct)
      in if td_convergence_exit_bid td \<le> combined_bid then leave ''Time Decay convergence''
         else if td_min_hold_secs td \<le> hold_secs \<and> combined_bid < sl_threshold
         then leave (''Time Decay SL'' @ (if iv then '' (IV-tightened)'' else []))
         else case mc_market_close_time market of
             None \<Rightarrow> NoSignal
           | Some close_time \<Rightarrow>
               if num_seconds (close_time - ve_utc env) < tb_expiry_safety_buffer_secs bd
               then leave ''Time Decay Expiry'' else NoSignal)"

definition td_evaluate_exit :: "td_build \<Rightarrow> viper_env \<Rightarrow> strategy_context \<Rightarrow> strategy_signal" where
  "td_evaluate_exit bd env ctx =
     (let market = cx_market ctx; snap = cx_snapshot ctx; ghost = dc_ghost_mode (cx_dynamic_config ctx);
          held = (\<lambda>token. hm_get (cx_positions ctx) (position_key_new (cx_squadron_id ctx) time_decay_name token));
          yes = held (mc_yes_token market);
          no = held (mc_no_token market);
          confirmed = map_option (\<lambda>p. fill_effective_at p ghost \<noteq> None)
      in case pair_state (confirmed yes) (confirmed no) of
           NoLegs \<Rightarrow> NoSignal
         | LoneYes partner_resting \<Rightarrow>
             td_lone_leg_exit env ctx (the yes) (mc_yes_token market) (ms_yes_bid snap) (mc_yes_fee_bps market) ''YES''
               partner_resting
         | LoneNo partner_resting \<Rightarrow>
             td_lone_leg_exit env ctx (the no) (mc_no_token market) (ms_no_bid snap) (mc_no_fee_bps market) ''NO''
               partner_resting
         | BothLegs \<Rightarrow> td_pair_exit bd env ctx (the yes) (the no))"

section \<open>Theta helpers\<close>

datatype theta_mode = Settlement | Convergence

record theta_signal =
  th_mode :: theta_mode
  th_combined_ask :: decimal
  th_net_profit_per_share :: decimal
  th_total_fees :: decimal

definition is_in_theta_window :: "td_build \<Rightarrow> int \<Rightarrow> bool" where
  "is_in_theta_window bd secs \<longleftrightarrow> tb_min_secs_to_expiry bd \<le> secs \<and> secs \<le> tb_max_secs_to_expiry bd"

definition calculate_theta_opportunity :: "td_build \<Rightarrow> decimal \<Rightarrow> decimal \<Rightarrow> int \<Rightarrow> theta_signal option" where
  "calculate_theta_opportunity bd yes_bid no_bid secs =
     (if \<not> is_in_theta_window bd secs then None
      else let combined_bid = yes_bid + no_bid; net = 1 - combined_bid
           in if tb_min_net_profit bd \<le> net
              then Some \<lparr>th_mode = Settlement, th_combined_ask = combined_bid, th_net_profit_per_share = net,
                         th_total_fees = 0\<rparr>
              else None)"

definition should_convergence_exit :: "td_build \<Rightarrow> decimal \<Rightarrow> decimal \<Rightarrow> bool" where
  "should_convergence_exit bd yb nb \<longleftrightarrow> tb_convergence_exit_bid bd \<le> yb + nb"

section \<open>What an entry went through\<close>

lemma td_not_entry [simp]: "stand_down_td bd env ctx reason w \<noteq> (Some (Entry a b), w')"
  by (simp add: stand_down_td_def)

lemma td_entryE:
  assumes "td_evaluate_entry bd env ctx w = (Some (Entry a b), w')"
  obtains "td_enable (dc_time_decay (cx_dynamic_config ctx))"
    and "td_timing_gate bd env ctx = None" and "td_book_gate bd env ctx = None"
    and "td_enter bd env ctx (snd (check_drawdown env ctx w)) = (Some (Entry a b), w')"
  using assms by (auto simp: td_evaluate_entry_def Let_def split_beta split: if_splits option.splits)

lemma td_timing_gateD:
  assumes "td_timing_gate bd env ctx = None"
  shows "\<exists>close_time. mc_market_close_time (cx_market ctx) = Some close_time
      \<and> td_min_secs_to_expiry (dc_time_decay (cx_dynamic_config ctx)) \<le> num_seconds (close_time - ve_utc env)
      \<and> num_seconds (close_time - ve_utc env) \<le> td_max_secs_to_expiry (dc_time_decay (cx_dynamic_config ctx))"
    and "cx_has_price_feed ctx \<Longrightarrow> cx_market_class ctx = Some ''crypto'' \<Longrightarrow> 0 < ms_oracle_price (cx_snapshot ctx)"
    and "num_seconds (ve_utc env - ms_timestamp (cx_snapshot ctx)) \<le> tb_max_snapshot_age_secs bd"
    and "\<not> td_iv_elevated ctx"
  using assms
  by (auto simp: td_timing_gate_def td_iv_elevated_def iv_thresholds_def Let_def not_less split: option.splits if_splits)

lemma td_book_gateD:
  assumes "td_book_gate bd env ctx = None"
  defines "td \<equiv> dc_time_decay (cx_dynamic_config ctx)"
  defines "y \<equiv> ms_yes_bid (cx_snapshot ctx)" and "n \<equiv> ms_no_bid (cx_snapshot ctx)"
  shows "1 - (y + n) \<le> td_max_net_theta td" and "td_min_net_profit td \<le> 1 - (y + n)"
    and "y + n < td_convergence_exit_bid td"
    and "p \<in> {y, n} \<Longrightarrow> td_min_entry_price td \<le> p \<and> p \<le> td_max_entry_price td \<and> p \<le> tb_max_entry_price_ceiling bd"
    and "q \<in> {yes_obi (ve_rnd env) (cx_snapshot ctx) (dc_obi_use_whole_book (cx_dynamic_config ctx)),
              no_obi (ve_rnd env) (cx_snapshot ctx) (dc_obi_use_whole_book (cx_dynamic_config ctx))} \<Longrightarrow>
         td_obi_adverse_block td \<le> q \<and> tb_obi_adverse_block bd \<le> q"
  using assms(1) unfolding td_def y_def n_def
  by (auto simp: td_book_gate_def book_settled_def Let_def not_less split: option.splits if_splits)

lemma td_enterE:
  assumes "td_enter bd env ctx w = (Some (Entry a b), w')"
  obtains shares where
    "checked_div env (td_position_size (dc_time_decay (cx_dynamic_config ctx)))
       (ms_yes_bid (cx_snapshot ctx) + ms_no_bid (cx_snapshot ctx)) = Some shares"
    and "current_exposure env ctx time_decay_name + td_position_size (dc_time_decay (cx_dynamic_config ctx))
       \<le> dc_time_decay_max_exposure (cx_dynamic_config ctx)"
    and "a = resting_leg (cx_market ctx) (mc_yes_token (cx_market ctx)) (ms_yes_bid (cx_snapshot ctx)) shares
       (dc_ghost_mode (cx_dynamic_config ctx))"
    and "b = Some (resting_leg (cx_market ctx) (mc_no_token (cx_market ctx)) (ms_no_bid (cx_snapshot ctx)) shares
       (dc_ghost_mode (cx_dynamic_config ctx)))"
  using assms by (auto simp: td_enter_def Let_def not_less split: option.splits if_splits)

text \<open>An entry is a balanced pair bought inside every limit: equal shares resting at the bids of both legs,
  whose sum leaves at least the minimum profit and at most the theta a settled book can show; each price
  inside the settings' band and under the build's ceiling, each imbalance above both floors, whatever a
  stale setting says; the market inside the theta window, the snapshot fresh, the oracle known where the
  market has one; and the exposure with it within the strategy's cap.\<close>

theorem td_entry_within_limits:
  assumes "td_evaluate_entry bd env ctx w = (Some (Entry a b), w')"
  defines "td \<equiv> dc_time_decay (cx_dynamic_config ctx)" and "snap \<equiv> cx_snapshot ctx"
  shows "\<exists>leg close_time. b = Some leg \<and> op_shares a = op_shares leg
      \<and> op_token_id a = mc_yes_token (cx_market ctx) \<and> op_token_id leg = mc_no_token (cx_market ctx)
      \<and> op_price a = ms_yes_bid snap \<and> op_price leg = ms_no_bid snap
      \<and> 1 - (op_price a + op_price leg) \<in> {td_min_net_profit td .. td_max_net_theta td}
      \<and> (\<forall>o' \<in> {a, leg}. op_order_type o' = Gtc \<and> op_post_only o'
            \<and> op_price o' \<in> {td_min_entry_price td .. min (td_max_entry_price td) (tb_max_entry_price_ceiling bd)})
      \<and> (\<forall>q \<in> {yes_obi (ve_rnd env) snap (dc_obi_use_whole_book (cx_dynamic_config ctx)),
               no_obi (ve_rnd env) snap (dc_obi_use_whole_book (cx_dynamic_config ctx))}.
            max (td_obi_adverse_block td) (tb_obi_adverse_block bd) \<le> q)
      \<and> mc_market_close_time (cx_market ctx) = Some close_time
      \<and> num_seconds (close_time - ve_utc env) \<in> {td_min_secs_to_expiry td .. td_max_secs_to_expiry td}
      \<and> num_seconds (ve_utc env - ms_timestamp snap) \<le> tb_max_snapshot_age_secs bd
      \<and> (cx_has_price_feed ctx \<and> cx_market_class ctx = Some ''crypto'' \<longrightarrow> 0 < ms_oracle_price snap)
      \<and> current_exposure env ctx ''TimeDecayStrategy'' + td_position_size td
          \<le> dc_time_decay_max_exposure (cx_dynamic_config ctx)"
proof -
  have t: "td_timing_gate bd env ctx = None" and g: "td_book_gate bd env ctx = None"
    and e: "td_enter bd env ctx (snd (check_drawdown env ctx w)) = (Some (Entry a b), w')"
    using assms(1) by (elim td_entryE, simp)+
  from e show ?thesis
    using td_timing_gateD [OF t] td_book_gateD [OF g] unfolding td_def snap_def
    by (elim td_enterE) (auto simp: time_decay_name_def)
qed

text \<open>An hourly market twenty minutes from its close, on which the strategy enters.\<close>

definition hourly_market :: market_config where
  "hourly_market =
     \<lparr>mc_yes_token = ''up'', mc_no_token = ''down'', mc_market_name = ''btc hourly'',
      mc_market_close_time = Some (from_secs 1200), mc_strike_price = None, mc_window_secs = None,
      mc_is_neg_risk = False, mc_condition_id = ''hourly'', mc_yes_fee_bps = 1000, mc_no_fee_bps = 1000\<rparr>"

definition hourly_snapshot :: market_snapshot where
  "hourly_snapshot = blank_snapshot
     \<lparr>ms_yes_bid := 49/100, ms_yes_ask := 1/2, ms_no_bid := 49/100, ms_no_ask := 1/2, ms_oracle_price := 60000,
      ms_yes_bid_depth := 50, ms_yes_ask_depth := 50, ms_no_bid_depth := 50, ms_no_ask_depth := 50\<rparr>"

definition td_context :: strategy_context where
  "td_context =
     \<lparr>cx_market = hourly_market, cx_snapshot = hourly_snapshot, cx_positions = [], cx_session_pnl = 0,
      cx_starting_collateral = 100, cx_crypto_filter = ''btc'', cx_squadron_id = ''btc-open'',
      cx_market_class = Some ''crypto'', cx_has_price_feed = True, cx_market_started_at = 0,
      cx_maker_market = None, cx_maker_snapshot = None,
      cx_available_collateral = 100, cx_dynamic_config = sample_config\<rparr>"

definition sample_td_build :: td_build where
  "sample_td_build =
     \<lparr>tb_obi_adverse_block = - 1/5, tb_max_entry_price_ceiling = 1/2, tb_max_snapshot_age_secs = 10,
      tb_expiry_safety_buffer_secs = 180, tb_gate_log_interval_secs = 300, tb_min_secs_to_expiry = 300,
      tb_max_secs_to_expiry = 1800, tb_min_net_profit = 1/100, tb_convergence_exit_bid = 499/500\<rparr>"

definition td_start :: td_world where
  "td_start = \<lparr>vw_status = [], vw_drawdown = ((None, []), 0), vw_notes = [], vw_venue_notices = [], tw_gate_log = []\<rparr>"

lemmas td_sample_defs = hourly_market_def hourly_snapshot_def td_context_def sample_td_build_def td_start_def
  sample_config_def sample_env_def blank_snapshot_def

lemma secs_1200: "num_seconds (from_secs 1200) = 1200" "num_seconds 0 = 0"
  by code_simp+

lemma td_sample_entry:
  "\<exists>w'. td_evaluate_entry sample_td_build sample_env td_context td_start =
     (Some (Entry (resting_leg hourly_market ''up'' (49/100) (500/49) False)
        (Some (resting_leg hourly_market ''down'' (49/100) (500/49) False))), w')"
proof -
  have dd: "\<not> fst (check_drawdown sample_env td_context td_start)"
    by (rule fresh_drawdown) (simp_all add: td_start_def td_context_def sample_env_def)
  have t: "td_timing_gate sample_td_build sample_env td_context = None"
    by (simp add: td_timing_gate_def td_sample_defs iv_thresholds_def oracle_threshold_def secs_1200)
  have g: "td_book_gate sample_td_build sample_env td_context = None"
    by (simp add: td_book_gate_def td_sample_defs book_settled_def yes_obi_def no_obi_def obi_def yes_depths_def
        no_depths_def)
  have e: "fst (td_enter sample_td_build sample_env td_context w) =
      Some (Entry (resting_leg hourly_market ''up'' (49/100) (500/49) False)
        (Some (resting_leg hourly_market ''down'' (49/100) (500/49) False)))" for w
    by (simp add: td_enter_def td_sample_defs current_exposure_def checked_div_def Let_def)
  have "fst (td_evaluate_entry sample_td_build sample_env td_context td_start) =
      Some (Entry (resting_leg hourly_market ''up'' (49/100) (500/49) False)
        (Some (resting_leg hourly_market ''down'' (49/100) (500/49) False)))"
    using dd e by (simp add: td_evaluate_entry_def t g split_beta) (simp add: td_context_def sample_config_def)
  then show ?thesis by (metis prod.collapse)
qed

lemma td_entry_within_limits_witness:
  "op_price (resting_leg hourly_market ''up'' (49/100) (500/49) False)
     \<in> {td_min_entry_price (dc_time_decay sample_config) .. 1/2}"
proof -
  obtain w' where e: "td_evaluate_entry sample_td_build sample_env td_context td_start =
     (Some (Entry (resting_leg hourly_market ''up'' (49/100) (500/49) False)
        (Some (resting_leg hourly_market ''down'' (49/100) (500/49) False))), w')"
    using td_sample_entry by blast
  from td_entry_within_limits [OF e] show ?thesis by (simp add: td_sample_defs)
qed

text \<open>The entry always answers: with a theta cap below a dollar no evaluation divides by zero.\<close>

theorem td_entry_answers:
  assumes "td_max_net_theta (dc_time_decay (cx_dynamic_config ctx)) < 1"
  shows "fst (td_evaluate_entry bd env ctx w) \<noteq> None"
proof
  assume "fst (td_evaluate_entry bd env ctx w) = None"
  then have g: "td_book_gate bd env ctx = None"
    and z: "ms_yes_bid (cx_snapshot ctx) + ms_no_bid (cx_snapshot ctx) = 0"
    by (auto simp: td_evaluate_entry_def td_enter_def stand_down_td_def checked_div_def Let_def split_beta
        split: if_splits option.splits)
  then show False using td_book_gateD(1) [OF g] assms by simp
qed

lemma td_entry_answers_witness: "fst (td_evaluate_entry sample_td_build sample_env td_context td_start) \<noteq> None"
  using td_entry_answers [of td_context] by (simp add: td_context_def sample_config_def)

section \<open>The stop of a lone leg\<close>

text \<open>The stop of a lone leg is monotone: a leg that is sold at a bid is sold at every lower bid that is
  real, a leg held longer is sold too, and elevated velocity never delays a sale.  It never sells into an
  empty book or inside the minimum hold.\<close>

theorem lone_leg_stop_monotone:
  assumes "lone_leg_decision entry bid stop_pct iv tighten held min_hold = StopLeg"
  shows "0 < bid \<and> min_hold \<le> held
    \<and> (0 < bid' \<and> bid' \<le> bid \<and> held \<le> held' \<longrightarrow>
         lone_leg_decision entry bid' stop_pct iv tighten held' min_hold = StopLeg)
    \<and> (0 \<le> entry \<and> 0 \<le> stop_pct \<and> tighten \<le> 1 \<longrightarrow>
         lone_leg_decision entry bid stop_pct True tighten held min_hold = StopLeg)"
proof -
  have "entry * (1 - stop_pct) \<le> entry * (1 - stop_pct * tighten)" if "0 \<le> entry" "0 \<le> stop_pct" "tighten \<le> 1"
    using that by (intro mult_left_mono) (simp_all add: mult_left_le)
  then show ?thesis
    using assms by (auto simp: lone_leg_decision_def Let_def split: if_splits)
qed

lemma lone_leg_stop_monotone_witness:
  "lone_leg_decision (9/20) (2/5) (1/10) False (1/2) 300 120 = StopLeg
   \<and> lone_leg_decision (9/20) (1/5) (1/10) False (1/2) 300 120 = StopLeg"
proof -
  have s: "lone_leg_decision (9/20) (2/5) (1/10) False (1/2) 300 120 = StopLeg" by (simp add: lone_leg_decision_def)
  from lone_leg_stop_monotone [OF s, of "1/5" 300] s show ?thesis by simp
qed

section \<open>Leaving\<close>

lemma pair_state_legs:
  "pair_state y n = BothLegs \<longleftrightarrow> y \<noteq> None \<and> y = n"
  "pair_state y n = LoneYes r \<longleftrightarrow> y \<noteq> None \<and> y \<noteq> n \<and> (case n of None \<Rightarrow> \<not> r | Some c \<Rightarrow> r \<and> \<not> c)"
  "pair_state y n = LoneNo r \<longleftrightarrow> n \<noteq> None \<and> n \<noteq> y \<and> (case y of None \<Rightarrow> \<not> r | Some c \<Rightarrow> r \<and> \<not> c)"
  by (cases y; cases n; auto)+

lemma td_lone_leg_exitD:
  assumes "td_lone_leg_exit env ctx leg token bid fee name partner = Exit p reason exit_pair"
  shows "\<not> exit_pair \<and> op_token_id p = token \<and> op_price p = bid \<and> op_shares p = p_shares leg \<and> op_order_type p = Fak
    \<and> lone_leg_decision (p_avg_entry leg) bid (td_lone_leg_stop_pct (dc_time_decay (cx_dynamic_config ctx)))
        (td_iv_elevated ctx) (td_iv_stop_tighten (dc_time_decay (cx_dynamic_config ctx)))
        (num_seconds (ve_utc env - (case fill_effective_at leg (dc_ghost_mode (cx_dynamic_config ctx)) of
            Some t \<Rightarrow> t | None \<Rightarrow> p_opened_at leg)))
        (td_min_hold_secs (dc_time_decay (cx_dynamic_config ctx))) = StopLeg"
  using assms by (auto simp: td_lone_leg_exit_def Let_def split: lone_leg_decision.splits)

lemma td_pair_exitD:
  assumes "td_pair_exit bd env ctx yp np = Exit p reason exit_pair"
  defines "snap \<equiv> cx_snapshot ctx" and "td \<equiv> dc_time_decay (cx_dynamic_config ctx)"
  shows "exit_pair \<and> op_token_id p = mc_yes_token (cx_market ctx) \<and> op_price p = ms_yes_bid snap
    \<and> op_shares p = p_shares yp \<and> op_order_type p = Fak
    \<and> (td_convergence_exit_bid td \<le> ms_yes_bid snap + ms_no_bid snap
       \<or> td_min_hold_secs td \<le> num_seconds (ve_utc env - p_opened_at yp)
         \<and> ms_yes_bid snap + ms_no_bid snap <
            (p_avg_entry yp + p_avg_entry np)
              * (1 - (if td_iv_elevated ctx then td_stop_loss_pct td * td_iv_stop_tighten td else td_stop_loss_pct td))
       \<or> (\<exists>close_time. mc_market_close_time (cx_market ctx) = Some close_time
            \<and> num_seconds (close_time - ve_utc env) < tb_expiry_safety_buffer_secs bd))"
  using assms(1) unfolding snap_def td_def td_pair_exit_def Let_def
  by (simp split: if_split_asm option.split_asm, auto)

text \<open>The strategy leaves for a stated reason and sells what it holds.  A pair (two legs equally confirmed)
  is sold, its YES leg first, when its bids have converged, when they have fallen through the stop after
  the minimum hold, or when the market closes within the safety buffer; a leg whose partner is not there or not
  equally confirmed is sold alone, at its own bid, only on its own stop.  What is sold is a position of this
  strategy in this squadron, all of it.\<close>

theorem td_exit_sound:
  assumes "td_evaluate_exit bd env ctx = Exit p reason exit_pair"
  defines "held \<equiv> \<lambda>token. hm_get (cx_positions ctx) (position_key_new (cx_squadron_id ctx) ''TimeDecayStrategy'' token)"
  defines "confirmed \<equiv> map_option (\<lambda>p. fill_effective_at p (dc_ghost_mode (cx_dynamic_config ctx)) \<noteq> None)"
  defines "yes \<equiv> mc_yes_token (cx_market ctx)" and "no \<equiv> mc_no_token (cx_market ctx)"
  defines "snap \<equiv> cx_snapshot ctx" and "td \<equiv> dc_time_decay (cx_dynamic_config ctx)"
  shows "\<exists>pos. held (op_token_id p) = Some pos \<and> op_shares p = p_shares pos \<and> op_order_type p = Fak
    \<and> (op_token_id p = yes \<and> op_price p = ms_yes_bid snap \<or> op_token_id p = no \<and> op_price p = ms_no_bid snap)
    \<and> (if exit_pair
       then op_token_id p = yes \<and> confirmed (held yes) = confirmed (held no)
         \<and> (\<exists>np. held no = Some np \<and>
             (td_convergence_exit_bid td \<le> ms_yes_bid snap + ms_no_bid snap
              \<or> td_min_hold_secs td \<le> num_seconds (ve_utc env - p_opened_at pos)
                \<and> ms_yes_bid snap + ms_no_bid snap <
                   (p_avg_entry pos + p_avg_entry np)
                     * (1 - (if td_iv_elevated ctx then td_stop_loss_pct td * td_iv_stop_tighten td else td_stop_loss_pct td))
              \<or> (\<exists>close_time. mc_market_close_time (cx_market ctx) = Some close_time
                   \<and> num_seconds (close_time - ve_utc env) < tb_expiry_safety_buffer_secs bd)))
       else confirmed (held yes) \<noteq> confirmed (held no)
         \<and> lone_leg_decision (p_avg_entry pos) (op_price p) (td_lone_leg_stop_pct td) (td_iv_elevated ctx)
             (td_iv_stop_tighten td)
             (num_seconds (ve_utc env - (case fill_effective_at pos (dc_ghost_mode (cx_dynamic_config ctx)) of
                 Some t \<Rightarrow> t | None \<Rightarrow> p_opened_at pos)))
             (td_min_hold_secs td) = StopLeg)"
proof -
  let ?st = "pair_state (confirmed (held yes)) (confirmed (held no))"
  have e: "(case ?st of
           NoLegs \<Rightarrow> NoSignal
         | LoneYes r \<Rightarrow> td_lone_leg_exit env ctx (the (held yes)) yes (ms_yes_bid snap) (mc_yes_fee_bps (cx_market ctx)) ''YES'' r
         | LoneNo r \<Rightarrow> td_lone_leg_exit env ctx (the (held no)) no (ms_no_bid snap) (mc_no_fee_bps (cx_market ctx)) ''NO'' r
         | BothLegs \<Rightarrow> td_pair_exit bd env ctx (the (held yes)) (the (held no))) = Exit p reason exit_pair"
    using assms(1) unfolding td_evaluate_exit_def held_def confirmed_def yes_def no_def snap_def time_decay_name_def Let_def .
  show ?thesis
  proof (cases ?st)
    case NoLegs
    with e show ?thesis by simp
  next
    case BothLegs
    then have c: "confirmed (held yes) \<noteq> None" "confirmed (held yes) = confirmed (held no)"
      by (blast dest: pair_state_legs(1) [THEN iffD1])+
    then obtain yp np where h: "held yes = Some yp" "held no = Some np"
      unfolding confirmed_def by (cases "held yes"; cases "held no"; simp)
    have "td_pair_exit bd env ctx yp np = Exit p reason exit_pair" using e BothLegs h by simp
    from td_pair_exitD [OF this] h c(2) show ?thesis unfolding yes_def snap_def td_def by auto
  next
    case (LoneYes r)
    then have c: "confirmed (held yes) \<noteq> None" "confirmed (held yes) \<noteq> confirmed (held no)"
      by (blast dest: pair_state_legs(2) [THEN iffD1])+
    then obtain yp where h: "held yes = Some yp" unfolding confirmed_def by (cases "held yes") simp_all
    have "td_lone_leg_exit env ctx yp yes (ms_yes_bid snap) (mc_yes_fee_bps (cx_market ctx)) ''YES'' r = Exit p reason exit_pair"
      using e LoneYes h by simp
    from td_lone_leg_exitD [OF this] h c(2) show ?thesis unfolding td_def by simp
  next
    case (LoneNo r)
    then have c: "confirmed (held no) \<noteq> None" "confirmed (held no) \<noteq> confirmed (held yes)"
      by (blast dest: pair_state_legs(3) [THEN iffD1])+
    then obtain np where h: "held no = Some np" unfolding confirmed_def by (cases "held no") simp_all
    have "td_lone_leg_exit env ctx np no (ms_no_bid snap) (mc_no_fee_bps (cx_market ctx)) ''NO'' r = Exit p reason exit_pair"
      using e LoneNo h by simp
    from td_lone_leg_exitD [OF this] h c(2) [symmetric] show ?thesis unfolding td_def by simp
  qed
qed

definition lone_position :: position where
  "lone_position =
     \<lparr>p_shares = 10, p_avg_entry = 3/5, p_opened_at = - from_secs 700, p_close_time = None, p_market_name = [],
      p_pair_token_id = ''up'', p_fill_confirmed_at = Some (- from_secs 700), p_paired_leg_token_id = Some ''down'',
      p_entry_fee = 0\<rparr>"

definition lone_context :: strategy_context where
  "lone_context = td_context
     \<lparr>cx_positions := [(position_key_new ''btc-open'' ''TimeDecayStrategy'' ''up'', lone_position)]\<rparr>"

lemma td_exit_sound_witness:
  "\<exists>reason. td_evaluate_exit sample_td_build sample_env lone_context =
     Exit (taker_leg hourly_market ''up'' (49/100) 10 1000 False) reason False
   \<and> lone_leg_decision (3/5) (49/100) (1/10) False (1/2) 700 120 = StopLeg"
proof -
  have age: "num_seconds (from_secs 700) = 700" by code_simp
  have iv: "td_iv_elevated lone_context = False"
    by (simp add: td_iv_elevated_def lone_context_def td_sample_defs iv_thresholds_def oracle_threshold_def)
  note ctx = lone_context_def td_context_def hourly_market_def hourly_snapshot_def sample_env_def
  have f: "hm_get (cx_positions lone_context) (position_key_new (cx_squadron_id lone_context) ''TimeDecayStrategy'' ''up'')
        = Some lone_position"
      "hm_get (cx_positions lone_context) (position_key_new (cx_squadron_id lone_context) ''TimeDecayStrategy'' ''down'') = None"
    by (simp_all add: ctx position_key_new_def)
  have "td_evaluate_exit sample_td_build sample_env lone_context =
     td_lone_leg_exit sample_env lone_context lone_position ''up'' (49/100) 1000 ''YES'' False"
    using f by (simp add: td_evaluate_exit_def time_decay_name_def Let_def)
      (simp add: lone_position_def fill_effective_at_def ctx)
  moreover have "\<exists>reason. td_lone_leg_exit sample_env lone_context lone_position ''up'' (49/100) 1000 ''YES'' False =
      Exit (taker_leg hourly_market ''up'' (49/100) 10 1000 False) reason False"
    unfolding td_lone_leg_exit_def iv Let_def
    by (simp add: lone_leg_decision_def lone_position_def fill_effective_at_def)
      (simp add: lone_context_def td_context_def sample_config_def sample_env_def age)
  ultimately obtain reason where e: "td_evaluate_exit sample_td_build sample_env lone_context =
      Exit (taker_leg hourly_market ''up'' (49/100) 10 1000 False) reason False" by auto
  have "lone_leg_decision (p_avg_entry lone_position) (49/100)
      (td_lone_leg_stop_pct (dc_time_decay (cx_dynamic_config lone_context))) False
      (td_iv_stop_tighten (dc_time_decay (cx_dynamic_config lone_context)))
      (num_seconds (ve_utc sample_env - (case fill_effective_at lone_position (dc_ghost_mode (cx_dynamic_config lone_context)) of
          Some t \<Rightarrow> t | None \<Rightarrow> p_opened_at lone_position)))
      (td_min_hold_secs (dc_time_decay (cx_dynamic_config lone_context))) = StopLeg"
    using td_exit_sound [OF e] f(1) by (simp only: iv leg_order_fields if_False option.inject, metis)
  then have "lone_leg_decision (3/5) (49/100) (1/10) False (1/2) 700 120 = StopLeg"
    by (simp add: lone_position_def fill_effective_at_def lone_context_def td_context_def sample_config_def
        sample_env_def age)
  with e show ?thesis by blast
qed

section \<open>The gate lines\<close>

text \<open>A steady gate is one line per interval: whatever gates hold on other assets, two consecutive lines of one asset
  that give the same reason are at least the interval apart.\<close>

theorem td_gate_lines_spaced:
  assumes "td_gate_log.notices interval calls reg = xs @ (asset, reason, t) # ys @ (asset, reason, t') # zs"
    and "\<forall>(asset', _) \<in> set ys. asset' \<noteq> asset"
  shows "interval \<le> elapsed_secs t' t"
  using td_gate_log.notices_spaced [OF assms] by simp

lemma td_gate_lines_spaced_witness: "1 \<le> elapsed_secs (from_secs 2) 0"
proof -
  have "td_gate_log.notices 1 [(''btc'', ''snapshot stale'', 0), (''btc'', ''snapshot stale'', from_secs 2)] [] =
      [] @ (''btc'', ''snapshot stale'', 0) # [] @ (''btc'', ''snapshot stale'', from_secs 2) # []"
    by (simp add: time_decay_gate_log_permitted_def elapsed_secs_def from_secs_def nanos_per_sec_def)
  from td_gate_lines_spaced [OF this] show ?thesis by simp
qed

end
