(* ===== verification/Basis.thy ===== *)
theory Basis
  imports Viper_Common
begin

text \<open>
  The basis strategy, \<open>src/vipers/basis_impl.rs\<close>: fading a retail skew of the implied probability with one
  leg, sized by the skew; its exits; and the tally of stop-losses that locks a token out.  The loop over
  the positions runs in the order of the position map, which the code leaves open: the map's list stands
  for any such order.  The build's constants are in a record.
\<close>

definition basis_name :: string where
  "basis_name = ''BasisStrategy''"

record basis_build =
  bb_max_snapshot_age_secs :: int
  bb_max_taker_fee_bps :: nat
  bb_max_velocity_pct :: decimal
  bb_oracle_strike_buffer_pct :: decimal
  bb_negative_funding_threshold :: decimal
  bb_positive_funding_threshold :: decimal
  bb_tide_gate_enabled :: bool
  bb_tide_coherence_threshold :: decimal
  bb_tide_pulse_threshold :: decimal
  bb_entry_as_maker :: bool
  bb_maker_buy_price_adjustment :: decimal
  bb_min_hold_secs_before_stop_loss :: int
  bb_min_stop_loss_exit_bid :: decimal
  bb_expiry_min_exit_bid :: decimal
  bb_enable_kelly_sizing :: bool
  bb_kelly_max_multiplier :: decimal

type_synonym loss_book = "(market_id, int \<times> instant) hash_map"

record basis_world = viper_world +
  bw_loss_book :: loss_book

type_synonym basis_result = "strategy_signal option \<times> basis_world"

section \<open>The tally of stop-losses\<close>

definition locked_out :: "instant \<Rightarrow> market_id \<Rightarrow> int \<Rightarrow> int \<Rightarrow> loss_book \<Rightarrow> bool" where
  "locked_out now token limit secs book =
     (if limit \<le> 0 then False
      else case hm_get book token of
          Some (n, t) \<Rightarrow> limit \<le> n \<and> int (elapsed_secs now t) < secs
        | None \<Rightarrow> False)"

definition record_stop_loss :: "instant \<Rightarrow> market_id \<Rightarrow> loss_book \<Rightarrow> loss_book" where
  "record_stop_loss now token book = hm_upsert token (0, now) (\<lambda>(n, t). (n + 1, now)) book"

definition clear_losses :: "market_id \<Rightarrow> loss_book \<Rightarrow> loss_book" where
  "clear_losses token book = hm_remove token book"

definition on_exit_order_failed :: "market_id \<Rightarrow> loss_book \<Rightarrow> loss_book" where
  "on_exit_order_failed token book =
     (case hm_get book token of
        None \<Rightarrow> book
      | Some (n, t) \<Rightarrow> if n - 1 \<le> 0 then hm_remove token book else hm_insert token (n - 1, t) book)"

section \<open>Sizing\<close>

definition basis_trade_size :: "basis_build \<Rightarrow> viper_env \<Rightarrow> decimal \<Rightarrow> decimal \<Rightarrow> decimal \<Rightarrow> decimal \<Rightarrow> decimal option" where
  "basis_trade_size bd env skew_abs min_size max_size skew_threshold =
     (if \<not> bb_enable_kelly_sizing bd then Some min_size
      else if skew_threshold \<le> 0 then Some min_size
      else let mult = min (max (ve_rnd env (skew_abs / skew_threshold)) 1) (bb_kelly_max_multiplier bd)
           in map_option (\<lambda>fraction. min_size + fraction * (max_size - min_size))
                (checked_div env (mult - 1) (bb_kelly_max_multiplier bd - 1)))"

section \<open>Gates\<close>

definition basis_venue :: "strategy_context \<Rightarrow> market_config \<times> market_snapshot" where
  "basis_venue ctx =
     (case (cx_maker_market ctx, cx_maker_snapshot ctx) of
        (Some market, Some sn) \<Rightarrow> (market, sn)
      | _ \<Rightarrow> (cx_market ctx, cx_snapshot ctx))"

definition basis_market_gate ::
  "basis_build \<Rightarrow> viper_env \<Rightarrow> strategy_context \<Rightarrow> market_config \<Rightarrow> market_snapshot \<Rightarrow> string option" where
  "basis_market_gate bd env ctx market sn =
     (let bs = dc_basis (cx_dynamic_config ctx); own = cx_snapshot ctx; oracle = ms_oracle_price own in
      if case mc_market_close_time market of
           None \<Rightarrow> False
         | Some close_time \<Rightarrow> num_seconds (close_time - ve_utc env) < bs_min_secs_to_expiry bs
      then Some ''too close to expiry''
      else if bb_max_snapshot_age_secs bd < num_seconds (ve_utc env - ms_timestamp sn) then Some ''snapshot stale''
      else case mc_strike_price market of
          None \<Rightarrow> Some ''market has no strike price''
        | Some strike \<Rightarrow>
            if bb_max_taker_fee_bps bd < max (mc_yes_fee_bps market) (mc_no_fee_bps market)
            then Some ''market fees too high''
            else if oracle_threshold (bb_max_velocity_pct bd) oracle \<le> \<bar>ms_velocity own\<bar>
            then Some ''underlying moving too fast''
            else if oracle_threshold (bb_oracle_strike_buffer_pct bd) oracle \<le> \<bar>oracle - strike\<bar>
            then Some ''oracle too far from strike'' else None)"

text \<open>The skew of the implied probability, or the reason there is none to trade.\<close>

definition basis_skew_gate ::
  "viper_env \<Rightarrow> basis_settings \<Rightarrow> market_config \<Rightarrow> market_snapshot \<Rightarrow> loss_book \<Rightarrow> string + decimal" where
  "basis_skew_gate env bs market sn book =
     (if \<not> (0 < ms_yes_bid sn \<and> ms_yes_ask sn < 1) then Inl ''degenerate book (no usable mid)''
      else let skew = (ms_yes_bid sn + ms_yes_ask sn) / 2 - 1 / 2 in
      if \<bar>skew\<bar> < bs_entry_skew_threshold bs then Inl ''skew below entry threshold''
      else let (bid, ask, token) =
                 (if 0 < skew then (ms_no_bid sn, ms_no_ask sn, mc_no_token market)
                  else (ms_yes_bid sn, ms_yes_ask sn, mc_yes_token market));
               mid = (bid + ask) / 2
           in if mid \<le> 0 \<or> bs_max_spread_pct bs < ve_rnd env ((ask - bid) / mid) then Inl ''entry-side spread too wide''
              else if locked_out (ve_instant env) token (bs_loss_lockout_count bs) (bs_loss_lockout_secs bs) book
              then Inl ''post-loss lockout (repeated stops on this market)''
              else Inr skew)"

definition basis_tide_contradicts :: "basis_build \<Rightarrow> market_snapshot \<Rightarrow> decimal \<Rightarrow> bool" where
  "basis_tide_contradicts bd own skew \<longleftrightarrow>
     bb_tide_gate_enabled bd \<and> bb_tide_coherence_threshold bd \<le> ms_tide_coherence own \<and>
     (0 < skew \<and> bb_tide_pulse_threshold bd \<le> ms_institutional_pulse own
      \<or> skew < 0 \<and> ms_institutional_pulse own \<le> - bb_tide_pulse_threshold bd)"

definition funding_confirms :: "basis_build \<Rightarrow> market_snapshot \<Rightarrow> decimal \<Rightarrow> bool" where
  "funding_confirms bd own skew \<longleftrightarrow>
     0 < skew \<and> ms_funding_rate own < bb_negative_funding_threshold bd
     \<or> skew < 0 \<and> bb_positive_funding_threshold bd < ms_funding_rate own"

section \<open>The entry\<close>

definition stand_down_basis :: "viper_env \<Rightarrow> strategy_context \<Rightarrow> string \<Rightarrow> basis_world \<Rightarrow> basis_result" where
  "stand_down_basis env ctx reason w = (Some NoSignal, idle env ctx basis_name reason w)"

definition maker_buy_price :: "basis_build \<Rightarrow> decimal \<Rightarrow> decimal \<Rightarrow> decimal" where
  "maker_buy_price bd bid ask =
     (let proposed = bid + bb_maker_buy_price_adjustment bd
      in if ask \<le> proposed then (if ask - 1 / 100 \<le> bid then bid else ask - 1 / 100) else proposed)"

definition basis_take_side ::
  "basis_build \<Rightarrow> viper_env \<Rightarrow> strategy_context \<Rightarrow> market_config \<Rightarrow> market_snapshot \<Rightarrow> decimal \<Rightarrow> bool \<Rightarrow> decimal \<Rightarrow>
   decimal \<Rightarrow> decimal \<Rightarrow> basis_world \<Rightarrow> basis_result" where
  "basis_take_side bd env ctx market sn skew bypass trade_size no_headroom yes_headroom w =
     (let dc = cx_dynamic_config ctx; bs = dc_basis dc;
          (token, bid, ask, fee_bps, headroom, branch) =
            (if 0 < skew
             then (mc_no_token market, ms_no_bid sn, ms_no_ask sn, mc_no_fee_bps market, no_headroom, ''fade_YES_buy_NO'')
             else (mc_yes_token market, ms_yes_bid sn, ms_yes_ask sn, mc_yes_fee_bps market, yes_headroom, ''fade_NO_buy_YES''));
          confirms = funding_confirms bd (cx_snapshot ctx) skew
      in if \<not> confirms \<and> \<not> bypass then stand_down_basis env ctx ''funding rate does not confirm fade'' w
         else let (target_price, mult) =
                    (if bb_entry_as_maker bd then (maker_buy_price bd bid ask, 1) else (ask, headroom))
              in if bs_max_entry_price bs < target_price then stand_down_basis env ctx ''entry price above cap'' w
                 else let w' = stash_entry_signals token
                            [(''viper'', NText ''Basis''), (''branch'', NText branch), (''skew'', NDecimal skew),
                             (''funding_confirms'', NBool confirms), (''extreme_skew_bypass'', NBool bypass),
                             (''target_price'', NDecimal target_price), (''trade_size'', NDecimal trade_size),
                             (''maker_entry'', NBool (bb_entry_as_maker bd))] w
                      in case checked_div env trade_size mult of
                           None \<Rightarrow> (None, w')
                         | Some amount \<Rightarrow>
                             (case checked_div env amount target_price of
                                None \<Rightarrow> (None, w')
                              | Some shares \<Rightarrow>
                                  (Some (Entry
                                     (if bb_entry_as_maker bd
                                      then resting_leg market token target_price shares (dc_ghost_mode dc)
                                      else taker_leg market token target_price shares fee_bps (dc_ghost_mode dc)) None), w')))"

definition basis_size_and_take ::
  "basis_build \<Rightarrow> viper_env \<Rightarrow> strategy_context \<Rightarrow> market_config \<Rightarrow> market_snapshot \<Rightarrow> decimal \<Rightarrow> basis_world \<Rightarrow> basis_result" where
  "basis_size_and_take bd env ctx market sn skew w =
     (let dc = cx_dynamic_config ctx; bs = dc_basis dc;
          bypass = (bs_extreme_skew_bypass bs \<and> bs_entry_skew_threshold bs * 2 \<le> \<bar>skew\<bar>)
      in if basis_tide_contradicts bd (cx_snapshot ctx) skew
         then stand_down_basis env ctx ''institutional tide contradicts fade'' w
         else case basis_trade_size bd env \<bar>skew\<bar> (bs_min_trade_size bs) (bs_max_trade_size bs)
                     (bs_entry_skew_threshold bs) of
             None \<Rightarrow> (None, w)
           | Some trade_size \<Rightarrow>
               let no_headroom = taker_fee_headroom (ve_taker_fee_rate env) (ms_no_ask sn) (mc_no_fee_bps market);
                   yes_headroom = taker_fee_headroom (ve_taker_fee_rate env) (ms_yes_ask sn) (mc_yes_fee_bps market)
               in case checked_div env (bs_min_trade_size bs) (min no_headroom yes_headroom) of
                    None \<Rightarrow> (None, w)
                  | Some min_required \<Rightarrow>
                      if cx_available_collateral ctx < min_required then stand_down_basis env ctx ''insufficient collateral'' w
                      else if dc_basis_max_exposure dc < current_exposure env ctx basis_name + trade_size
                      then stand_down_basis env ctx ''exposure cap reached'' w
                      else basis_take_side bd env ctx market sn skew bypass trade_size no_headroom yes_headroom w)"

definition basis_evaluate_entry :: "basis_build \<Rightarrow> viper_env \<Rightarrow> strategy_context \<Rightarrow> basis_world \<Rightarrow> basis_result" where
  "basis_evaluate_entry bd env ctx w =
     (let bs = dc_basis (cx_dynamic_config ctx) in
      if \<not> bs_enable bs then stand_down_basis env ctx ''disabled in config'' w
      else let (hit, w) = check_drawdown env ctx w in
      if hit then stand_down_basis env ctx ''daily drawdown limit hit'' w
      else let (market, sn) = basis_venue ctx in
      case basis_market_gate bd env ctx market sn of
        Some reason \<Rightarrow> stand_down_basis env ctx reason w
      | None \<Rightarrow>
          (case basis_skew_gate env bs market sn (bw_loss_book w) of
             Inl reason \<Rightarrow> stand_down_basis env ctx reason w
           | Inr skew \<Rightarrow> basis_size_and_take bd env ctx market sn skew w))"

section \<open>The exit\<close>

text \<open>What the loop does about one position: leave it for a stated reason, go on to the next, or end the whole
  evaluation without a signal.\<close>

datatype verdict = Leave string | NextPosition | EndWithout

definition quot :: "int \<Rightarrow> int \<Rightarrow> int" where
  "quot a b = sgn a * sgn b * (\<bar>a\<bar> div \<bar>b\<bar>)"

definition basis_expiry_verdict ::
  "basis_build \<Rightarrow> viper_env \<Rightarrow> basis_settings \<Rightarrow> position \<Rightarrow> decimal \<Rightarrow> verdict" where
  "basis_expiry_verdict bd env bs pos bid =
     (case p_close_time pos of
        None \<Rightarrow> NextPosition
      | Some close_time \<Rightarrow>
          let secs_left = num_seconds (close_time - ve_utc env)
          in if secs_left < quot (bs_min_secs_to_expiry bs) 2
             then (if bid < bb_expiry_min_exit_bid bd then NextPosition
                   else Leave (''BasisExpiry: '' @ ve_show_int env secs_left @ ''s left''))
             else NextPosition)"

definition basis_position_verdict ::
  "basis_build \<Rightarrow> viper_env \<Rightarrow> basis_settings \<Rightarrow> market_config \<Rightarrow> market_snapshot \<Rightarrow> market_id \<Rightarrow> position \<Rightarrow> loss_book \<Rightarrow>
   verdict \<times> loss_book" where
  "basis_position_verdict bd env bs market sn token pos book =
     (let is_yes = (token = mc_yes_token market);
          bid = (if is_yes then ms_yes_bid sn else ms_no_bid sn);
          entry = p_avg_entry pos
      in if entry \<le> 0 then (NextPosition, book)
         else let margin = ve_rnd env ((bid - entry) / entry);
                  secs_held = num_seconds (ve_utc env - p_opened_at pos);
                  yes_mid = (if 0 < ms_yes_bid sn \<and> ms_yes_ask sn < 1 then (ms_yes_bid sn + ms_yes_ask sn) / 2 else 1 / 2);
                  current_skew = \<bar>yes_mid - 1 / 2\<bar>;
                  pct = ve_show env 2 (margin * 100)
              in if bs_target_profit_pct bs \<le> margin
                 then (Leave (''BasisTP: bid=$'' @ ve_show env 4 bid @ '', profit='' @ pct @ ''%''), clear_losses token book)
                 else if margin \<le> - bs_stop_loss_pct bs
                 then (let ask = (if is_yes then ms_yes_ask sn else ms_no_ask sn);
                           mid_margin = (if 0 < ask \<and> ask < 1 then ve_rnd env (((bid + ask) / 2 - entry) / entry) else margin);
                           catastrophic = (mid_margin \<le> - bs_catastrophic_sl_pct bs)
                       in if \<not> catastrophic \<and> secs_held < bb_min_hold_secs_before_stop_loss bd then (NextPosition, book)
                          else if bid < bb_min_stop_loss_exit_bid bd then (EndWithout, book)
                          else (Leave
                                  (if catastrophic
                                   then ''BasisCatastrophicSL: bid=$'' @ ve_show env 4 bid @ '', loss='' @ pct
                                          @ ''% (min-hold bypassed @ '' @ ve_show_int env secs_held @ ''s)''
                                   else ''BasisSL: bid=$'' @ ve_show env 4 bid @ '', loss='' @ pct @ ''%''),
                                record_stop_loss (ve_instant env) token book))
                 else if 0 < margin \<and> current_skew < bs_skew_collapse_threshold bs
                 then (Leave (''BasisSkewCollapse: yes_mid='' @ ve_show env 4 yes_mid @ '', profit='' @ pct @ ''%''), book)
                 else (basis_expiry_verdict bd env bs pos bid, book))"

fun basis_exit_loop ::
  "basis_build \<Rightarrow> viper_env \<Rightarrow> strategy_context \<Rightarrow> position_map \<Rightarrow> basis_world \<Rightarrow> strategy_signal \<times> basis_world" where
  "basis_exit_loop bd env ctx [] w = (NoSignal, w)"
| "basis_exit_loop bd env ctx ((key, pos) # rest) w =
     (if k_strategy key \<noteq> basis_name \<or> k_squadron key \<noteq> cx_squadron_id ctx then basis_exit_loop bd env ctx rest w
      else case venue_for_token ctx (k_market key) of
        None \<Rightarrow> basis_exit_loop bd env ctx rest (note_position_without_venue env (k_strategy key) (k_market key) w)
      | Some (market, sn) \<Rightarrow>
          (if k_market key \<noteq> mc_yes_token market \<and> k_market key \<noteq> mc_no_token market
           then basis_exit_loop bd env ctx rest w
           else let (v, book) = basis_position_verdict bd env (dc_basis (cx_dynamic_config ctx)) market sn (k_market key) pos
                      (bw_loss_book w);
                    w' = w\<lparr>bw_loss_book := book\<rparr>
                in case v of
                     Leave reason \<Rightarrow>
                       (Exit (taker_leg market (k_market key)
                           (if k_market key = mc_yes_token market then ms_yes_bid sn else ms_no_bid sn) (p_shares pos)
                           (if k_market key = mc_yes_token market then mc_yes_fee_bps market else mc_no_fee_bps market)
                           (dc_ghost_mode (cx_dynamic_config ctx))) reason False, w')
                   | NextPosition \<Rightarrow> basis_exit_loop bd env ctx rest w'
                   | EndWithout \<Rightarrow> (NoSignal, w')))"

definition basis_evaluate_exit :: "basis_build \<Rightarrow> viper_env \<Rightarrow> strategy_context \<Rightarrow> basis_world \<Rightarrow> strategy_signal \<times> basis_world" where
  "basis_evaluate_exit bd env ctx w = basis_exit_loop bd env ctx (cx_positions ctx) w"

section \<open>Sizing and the lockout\<close>

text \<open>The size of a basis trade stays between the minimum and the maximum and grows with the skew, however
  the quotients round.\<close>

theorem basis_trade_size_bounds:
  assumes "decimal_rounding (ve_rnd env)" and "min_size \<le> max_size" and "1 < bb_kelly_max_multiplier bd"
    and "skew \<le> skew'"
  shows "\<exists>s s'. basis_trade_size bd env skew min_size max_size threshold = Some s
    \<and> basis_trade_size bd env skew' min_size max_size threshold = Some s'
    \<and> min_size \<le> s \<and> s \<le> s' \<and> s' \<le> max_size"
proof (cases "bb_enable_kelly_sizing bd \<and> 0 < threshold")
  case True
  let ?k = "bb_kelly_max_multiplier bd" and ?rnd = "ve_rnd env"
  let ?m = "\<lambda>x. min (max (?rnd (x / threshold)) 1) ?k"
  let ?f = "\<lambda>x. ?rnd ((?m x - 1) / (?k - 1))"
  have rnd: "mono ?rnd" "?rnd 0 = 0" "?rnd 1 = 1" using assms(1) by (simp_all add: decimal_rounding_def)
  have "skew / threshold \<le> skew' / threshold" using True assms(4) by (simp add: divide_right_mono)
  then have "?rnd (skew / threshold) \<le> ?rnd (skew' / threshold)" by (rule monoD [OF rnd(1)])
  then have m: "1 \<le> ?m skew" "?m skew \<le> ?m skew'" "?m skew' \<le> ?k" using assms(3) by auto
  have "0 \<le> (?m skew - 1) / (?k - 1)" "(?m skew - 1) / (?k - 1) \<le> (?m skew' - 1) / (?k - 1)"
      "(?m skew' - 1) / (?k - 1) \<le> 1"
    using m assms(3) by (simp_all add: divide_right_mono)
  then have f: "0 \<le> ?f skew" "?f skew \<le> ?f skew'" "?f skew' \<le> 1"
    using monoD [OF rnd(1)] rnd(2,3) by metis+
  have e: "basis_trade_size bd env x min_size max_size threshold = Some (min_size + ?f x * (max_size - min_size))" for x
    using True assms(3) by (simp add: basis_trade_size_def checked_div_def Let_def)
  have "0 \<le> ?f skew * (max_size - min_size)" using f(1) assms(2) by simp
  moreover have "?f skew * (max_size - min_size) \<le> ?f skew' * (max_size - min_size)"
    using f(2) assms(2) by (intro mult_right_mono) simp_all
  moreover have "?f skew' * (max_size - min_size) \<le> max_size - min_size"
    using mult_right_mono [OF f(3), of "max_size - min_size"] assms(2) by simp
  moreover obtain F F' where "?f skew = F" "?f skew' = F'" by blast
  ultimately show ?thesis unfolding e by (simp only: option.inject ex_simps simp_thms) simp
qed (auto simp: basis_trade_size_def assms(2))

section \<open>What an entry went through\<close>

lemma basis_not_entry [simp]: "stand_down_basis env ctx reason w \<noteq> (Some (Entry a b), w')"
  by (simp add: stand_down_basis_def)

lemma basis_entryE:
  assumes "basis_evaluate_entry bd env ctx w = (Some (Entry a b), w')"
  obtains market sn skew w1 where "basis_venue ctx = (market, sn)" and "bw_loss_book w1 = bw_loss_book w"
    and "basis_market_gate bd env ctx market sn = None"
    and "basis_skew_gate env (dc_basis (cx_dynamic_config ctx)) market sn (bw_loss_book w) = Inr skew"
    and "basis_size_and_take bd env ctx market sn skew w1 = (Some (Entry a b), w')"
proof -
  have l: "bw_loss_book (snd (check_drawdown env ctx w)) = bw_loss_book w"
    by (simp add: check_drawdown_def split_beta)
  obtain market sn where v: "basis_venue ctx = (market, sn)" by (cases "basis_venue ctx")
  show thesis
    using assms l that [OF v, of "snd (check_drawdown env ctx w)"]
    by (auto simp: basis_evaluate_entry_def v Let_def split_beta split: if_splits option.splits sum.splits)
qed

lemma basis_skew_gateD:
  assumes "basis_skew_gate env bs market sn book = Inr skew"
  shows "skew = (ms_yes_bid sn + ms_yes_ask sn) / 2 - 1 / 2" and "bs_entry_skew_threshold bs \<le> \<bar>skew\<bar>"
    and "\<not> locked_out (ve_instant env) (if 0 < skew then mc_no_token market else mc_yes_token market)
           (bs_loss_lockout_count bs) (bs_loss_lockout_secs bs) book"
  using assms by (auto simp: basis_skew_gate_def Let_def split: if_splits)

lemma basis_sizeE:
  assumes "basis_size_and_take bd env ctx market sn skew w = (Some (Entry a b), w')"
  obtains amt where
    "basis_trade_size bd env \<bar>skew\<bar> (bs_min_trade_size (dc_basis (cx_dynamic_config ctx)))
       (bs_max_trade_size (dc_basis (cx_dynamic_config ctx))) (bs_entry_skew_threshold (dc_basis (cx_dynamic_config ctx))) = Some amt"
    and "\<not> basis_tide_contradicts bd (cx_snapshot ctx) skew"
    and "current_exposure env ctx basis_name + amt \<le> dc_basis_max_exposure (cx_dynamic_config ctx)"
    and "basis_take_side bd env ctx market sn skew
       (bs_extreme_skew_bypass (dc_basis (cx_dynamic_config ctx))
          \<and> bs_entry_skew_threshold (dc_basis (cx_dynamic_config ctx)) * 2 \<le> \<bar>skew\<bar>) amt
       (taker_fee_headroom (ve_taker_fee_rate env) (ms_no_ask sn) (mc_no_fee_bps market))
       (taker_fee_headroom (ve_taker_fee_rate env) (ms_yes_ask sn) (mc_yes_fee_bps market)) w = (Some (Entry a b), w')"
  using assms by (auto simp: basis_size_and_take_def Let_def not_less split: option.splits if_splits)

lemma basis_take_sideD:
  assumes "basis_take_side bd env ctx market sn skew bypass amt nh yh w = (Some (Entry a b), w')"
  shows "b = None" and "op_token_id a = (if 0 < skew then mc_no_token market else mc_yes_token market)"
    and "op_price a \<le> bs_max_entry_price (dc_basis (cx_dynamic_config ctx))"
    and "funding_confirms bd (cx_snapshot ctx) skew \<or> bypass"
    and "\<not> bb_entry_as_maker bd \<Longrightarrow> op_price a = (if 0 < skew then ms_no_ask sn else ms_yes_ask sn)"
    and "ve_rnd env = id \<Longrightarrow>
       op_shares a * op_price a * (if bb_entry_as_maker bd then 1 else if 0 < skew then nh else yh) = amt"
  using assms
  by (cases "0 < skew"; cases "bb_entry_as_maker bd";
      auto simp: basis_take_side_def checked_div_def Let_def not_less split: if_splits option.splits)+

text \<open>An entry fades the skew within its limits: it buys one leg only, NO when the implied probability is too high
  and YES when it is too low, by at least the threshold, at no more than the price cap; the token is not
  locked out, the funding rate confirms the fade or the skew is extreme, and the strategy's exposure with
  the trade stays within its cap.  Where decimals divide exactly, a taker entry costs, fee at the charged
  rate included, exactly the trade size, and a resting one exactly the trade size.\<close>

theorem basis_entry_fades:
  assumes "basis_evaluate_entry bd env ctx w = (Some (Entry a b), w')" and "basis_venue ctx = (market, sn)"
  defines "bs \<equiv> dc_basis (cx_dynamic_config ctx)" and "skew \<equiv> (ms_yes_bid sn + ms_yes_ask sn) / 2 - 1 / 2"
  defines "rate \<equiv> charged_fee_rate (ve_taker_fee_rate env) (if 0 < skew then mc_no_fee_bps market else mc_yes_fee_bps market)"
  shows "\<exists>amt. basis_trade_size bd env \<bar>skew\<bar> (bs_min_trade_size bs) (bs_max_trade_size bs) (bs_entry_skew_threshold bs) = Some amt
    \<and> b = None \<and> op_token_id a = (if 0 < skew then mc_no_token market else mc_yes_token market)
    \<and> bs_entry_skew_threshold bs \<le> \<bar>skew\<bar> \<and> op_price a \<le> bs_max_entry_price bs
    \<and> \<not> locked_out (ve_instant env) (op_token_id a) (bs_loss_lockout_count bs) (bs_loss_lockout_secs bs) (bw_loss_book w)
    \<and> (funding_confirms bd (cx_snapshot ctx) skew \<or> bs_extreme_skew_bypass bs \<and> bs_entry_skew_threshold bs * 2 \<le> \<bar>skew\<bar>)
    \<and> current_exposure env ctx ''BasisStrategy'' + amt \<le> dc_basis_max_exposure (cx_dynamic_config ctx)
    \<and> (ve_rnd env = id \<and> 0 < op_price a \<and> op_price a < 1 \<and> 0 \<le> ve_taker_fee_rate env \<longrightarrow>
         op_shares a * op_price a + (if bb_entry_as_maker bd then 0 else op_shares a * taker_fee_per_share rate (op_price a)) = amt)"
proof -
  obtain w1 skew1 where g: "basis_skew_gate env bs market sn (bw_loss_book w) = Inr skew1"
    and t: "basis_size_and_take bd env ctx market sn skew1 w1 = (Some (Entry a b), w')"
    using assms(1,2) unfolding bs_def by (elim basis_entryE) auto
  have sk: "skew1 = skew" unfolding skew_def by (rule basis_skew_gateD(1) [OF g])
  from t obtain amt where s: "basis_trade_size bd env \<bar>skew\<bar> (bs_min_trade_size bs) (bs_max_trade_size bs)
        (bs_entry_skew_threshold bs) = Some amt"
    and e: "current_exposure env ctx basis_name + amt \<le> dc_basis_max_exposure (cx_dynamic_config ctx)"
    and ts: "basis_take_side bd env ctx market sn skew
       (bs_extreme_skew_bypass bs \<and> bs_entry_skew_threshold bs * 2 \<le> \<bar>skew\<bar>) amt
       (taker_fee_headroom (ve_taker_fee_rate env) (ms_no_ask sn) (mc_no_fee_bps market))
       (taker_fee_headroom (ve_taker_fee_rate env) (ms_yes_ask sn) (mc_yes_fee_bps market)) w1 = (Some (Entry a b), w')"
    unfolding sk bs_def by (elim basis_sizeE)
  have cost: "op_shares a * op_price a
      + (if bb_entry_as_maker bd then 0 else op_shares a * taker_fee_per_share rate (op_price a)) = amt"
    if "ve_rnd env = id" "0 < op_price a" "op_price a < 1" "0 \<le> ve_taker_fee_rate env"
  proof (cases "bb_entry_as_maker bd")
    case True
    then show ?thesis using basis_take_sideD(6) [OF ts that(1)] by simp
  next
    case False
    have "op_shares a * op_price a * taker_fee_headroom (ve_taker_fee_rate env) (op_price a)
        (if 0 < skew then mc_no_fee_bps market else mc_yes_fee_bps market) = amt"
      using basis_take_sideD(5) [OF ts False] basis_take_sideD(6) [OF ts that(1)] False
      by (cases "0 < skew") simp_all
    then show ?thesis
      using headroom_split [OF that(2,3,4), of "op_shares a"] False by (simp add: rate_def)
  qed
  show ?thesis
    using s e cost basis_skew_gateD(2,3) [OF g] basis_take_sideD(1-4) [OF ts]
    by (intro exI [of _ amt]) (auto simp: sk bs_def basis_name_def)
qed

definition sample_basis_build :: basis_build where
  "sample_basis_build =
     \<lparr>bb_max_snapshot_age_secs = 15, bb_max_taker_fee_bps = 1000, bb_max_velocity_pct = 1/1000,
      bb_oracle_strike_buffer_pct = 1/100, bb_negative_funding_threshold = - 1/10000,
      bb_positive_funding_threshold = 1/10000, bb_tide_gate_enabled = False, bb_tide_coherence_threshold = 1,
      bb_tide_pulse_threshold = 1, bb_entry_as_maker = False, bb_maker_buy_price_adjustment = 1/100,
      bb_min_hold_secs_before_stop_loss = 60, bb_min_stop_loss_exit_bid = 1/20, bb_expiry_min_exit_bid = 1/20,
      bb_enable_kelly_sizing = True, bb_kelly_max_multiplier = 2\<rparr>"

definition skewed_market :: market_config where
  "skewed_market =
     \<lparr>mc_yes_token = ''up'', mc_no_token = ''down'', mc_market_name = ''btc'',
      mc_market_close_time = None, mc_strike_price = Some 60000, mc_window_secs = None,
      mc_is_neg_risk = False, mc_condition_id = ''skewed'', mc_yes_fee_bps = 1000, mc_no_fee_bps = 1000\<rparr>"

definition skewed_snapshot :: market_snapshot where
  "skewed_snapshot = blank_snapshot
     \<lparr>ms_yes_bid := 65/100, ms_yes_ask := 67/100, ms_no_bid := 33/100, ms_no_ask := 35/100,
      ms_oracle_price := 60000, ms_funding_rate := - 1/1000\<rparr>"

definition basis_context :: strategy_context where
  "basis_context =
     \<lparr>cx_market = skewed_market, cx_snapshot = skewed_snapshot, cx_positions = [], cx_session_pnl = 0,
      cx_starting_collateral = 100, cx_crypto_filter = ''btc'', cx_squadron_id = ''btc-open'',
      cx_market_class = Some ''crypto'', cx_has_price_feed = True, cx_market_started_at = 0,
      cx_maker_market = None, cx_maker_snapshot = None,
      cx_available_collateral = 100, cx_dynamic_config = sample_config\<rparr>"

definition basis_start :: basis_world where
  "basis_start = \<lparr>vw_status = [], vw_drawdown = ((None, []), 0), vw_notes = [], vw_venue_notices = [], bw_loss_book = []\<rparr>"

lemma basis_sample_fields [simp]:
  "basis_venue basis_context = (skewed_market, skewed_snapshot)" "cx_snapshot basis_context = skewed_snapshot"
  "cx_dynamic_config basis_context = sample_config" "cx_positions basis_context = []"
  "cx_available_collateral basis_context = 100" "bw_loss_book basis_start = []"
  by (simp_all add: basis_venue_def basis_context_def basis_start_def)

lemma basis_sample_entry:
  "\<exists>a w'. basis_evaluate_entry sample_basis_build sample_env basis_context basis_start = (Some (Entry a None), w')
     \<and> op_token_id a = ''down'' \<and> op_price a = 35/100"
proof -
  have dd: "\<not> fst (check_drawdown sample_env basis_context basis_start)"
    by (rule fresh_drawdown) (simp_all add: basis_start_def basis_context_def sample_env_def)
  have l: "bw_loss_book (snd (check_drawdown sample_env basis_context basis_start)) = []"
    by (simp add: check_drawdown_def split_beta)
  have m: "basis_market_gate sample_basis_build sample_env basis_context skewed_market skewed_snapshot = None"
    by (simp add: basis_market_gate_def sample_basis_build_def skewed_market_def skewed_snapshot_def blank_snapshot_def
        sample_env_def oracle_threshold_def num_seconds_def)
  have g: "basis_skew_gate sample_env (dc_basis sample_config) skewed_market skewed_snapshot [] = Inr (16/100)"
    by (simp add: basis_skew_gate_def skewed_market_def skewed_snapshot_def blank_snapshot_def sample_env_def
        sample_config_def locked_out_def Let_def)
  have en: "bs_enable (dc_basis sample_config)" by (simp add: sample_config_def)
  have h: "taker_fee_headroom (7/100) (7/20) 1000 = 1 + 7/100 * (65/100)"
      "taker_fee_headroom (7/100) (67/100) 1000 = 1 + 7/100 * (33/100)"
    by (simp_all add: taker_fee_headroom_def taker_leg_fee_pct_at_def charged_fee_rate_def fee_rate_from_ceiling_bps_def)
  have t: "\<exists>a w'. basis_size_and_take sample_basis_build sample_env basis_context skewed_market skewed_snapshot (16/100) w
      = (Some (Entry a None), w') \<and> op_token_id a = ''down'' \<and> op_price a = 35/100" for w
    by (simp add: basis_size_and_take_def basis_tide_contradicts_def basis_trade_size_def checked_div_def
        sample_basis_build_def sample_config_def sample_env_def skewed_market_def skewed_snapshot_def blank_snapshot_def
        current_exposure_def basis_take_side_def funding_confirms_def Let_def h)
  have "basis_evaluate_entry sample_basis_build sample_env basis_context basis_start =
      basis_size_and_take sample_basis_build sample_env basis_context skewed_market skewed_snapshot (16/100)
        (snd (check_drawdown sample_env basis_context basis_start))"
    using dd en by (simp add: basis_evaluate_entry_def split_beta l m g Let_def)
  with t show ?thesis by metis
qed

lemma basis_entry_fades_witness:
  "\<exists>a w'. basis_evaluate_entry sample_basis_build sample_env basis_context basis_start = (Some (Entry a None), w')
     \<and> op_price a \<le> bs_max_entry_price (dc_basis sample_config)"
proof -
  obtain a w' where e: "basis_evaluate_entry sample_basis_build sample_env basis_context basis_start = (Some (Entry a None), w')"
    using basis_sample_entry by blast
  from basis_entry_fades [OF e] e show ?thesis by auto
qed

lemma basis_trade_size_bounds_witness:
  "\<exists>s. basis_trade_size sample_basis_build sample_env (16/100) 5 15 (1/10) = Some s \<and> 5 \<le> s \<and> s \<le> 15"
proof -
  have "decimal_rounding (ve_rnd sample_env)" by (simp add: sample_env_def decimal_rounding_def mono_def)
  from basis_trade_size_bounds [OF this, of 5 15 sample_basis_build "16/100" "16/100" "1/10"]
  show ?thesis by (auto simp: sample_basis_build_def)
qed

section \<open>The lockout\<close>

datatype loss_event = Stopped market_id | Won market_id | Unplaced market_id

fun loss_step :: "instant \<times> loss_event \<Rightarrow> loss_book \<Rightarrow> loss_book" where
  "loss_step (now, Stopped token) book = record_stop_loss now token book"
| "loss_step (now, Won token) book = clear_losses token book"
| "loss_step (now, Unplaced token) book = on_exit_order_failed token book"

lemma record_stop_loss_get:
  "hm_get (record_stop_loss now token book) token' =
    (if token' = token then Some ((case hm_get book token of None \<Rightarrow> 1 | Some (n, _) \<Rightarrow> n + 1), now) else hm_get book token')"
  by (auto simp: record_stop_loss_def split: option.split)

lemma loss_step_other:
  "token \<notin> (case e of Stopped t \<Rightarrow> {t} | Won t \<Rightarrow> {t} | Unplaced t \<Rightarrow> {t}) \<Longrightarrow>
    hm_get (loss_step (now, e) book) token = hm_get book token"
  by (cases e) (auto simp: record_stop_loss_get clear_losses_def on_exit_order_failed_def split: option.split)

text \<open>Repeated stops lock a token out, and nothing else does: after a clean slate for the token, a run of events in
  which its exits are only stops that were placed locks it out exactly when there were at least the limit
  of them and the window since the last has not passed, whatever happens to other tokens.\<close>

theorem stops_lock_out:
  assumes "hm_get book token = None" and "0 < limit"
    and "\<forall>(t, e) \<in> set evs. e \<noteq> Won token \<and> e \<noteq> Unplaced token"
  defines "stops \<equiv> filter (\<lambda>(t, e). e = Stopped token) evs"
  shows "locked_out now token limit secs (fold loss_step evs book) \<longleftrightarrow>
    limit \<le> int (length stops) \<and> int (elapsed_secs now (fst (last stops))) < secs"
proof -
  have "hm_get (fold loss_step evs book) token =
      (if stops = [] then None else Some (int (length stops), fst (last stops)))"
    using assms(3) unfolding stops_def
  proof (induction evs rule: rev_induct)
    case (snoc ev evs)
    obtain t e where ev: "ev = (t, e)" by (cases ev)
    show ?case
    proof (cases "e = Stopped token")
      case True
      with snoc show ?thesis by (auto simp: ev record_stop_loss_get)
    next
      case False
      then have "token \<notin> (case e of Stopped t \<Rightarrow> {t} | Won t \<Rightarrow> {t} | Unplaced t \<Rightarrow> {t})"
        using snoc.prems by (auto simp: ev split: loss_event.split)
      from loss_step_other [OF this] False snoc show ?thesis by (simp add: ev)
    qed
  qed (simp add: assms(1))
  then show ?thesis using assms(2) by (simp add: locked_out_def)
qed

lemma stops_lock_out_witness:
  "locked_out (from_secs 60) ''down'' 2 3600
     (fold loss_step [(0, Stopped ''down''), (1, Won ''up''), (from_secs 30, Stopped ''down'')] [])"
proof -
  have "int (elapsed_secs (from_secs 60) (from_secs 30)) < 3600"
    by (simp add: elapsed_secs_def from_secs_def nanos_per_sec_def)
  then show ?thesis
    using stops_lock_out [of "[]" "''down''" 2 "[(0, Stopped ''down''), (1, Won ''up''), (from_secs 30, Stopped ''down'')]"
        "from_secs 60" 3600] by simp
qed

section \<open>What is sold\<close>

lemma basis_verdictD:
  assumes "basis_position_verdict bd env bs market sn token pos book = (Leave reason, book')"
  defines "bid \<equiv> if token = mc_yes_token market then ms_yes_bid sn else ms_no_bid sn"
  defines "margin \<equiv> ve_rnd env ((bid - p_avg_entry pos) / p_avg_entry pos)"
  shows "0 < p_avg_entry pos"
    and "bs_target_profit_pct bs \<le> margin
      \<or> margin \<le> - bs_stop_loss_pct bs \<and> bb_min_stop_loss_exit_bid bd \<le> bid
      \<or> 0 < margin
      \<or> (\<exists>close_time. p_close_time pos = Some close_time \<and> bb_expiry_min_exit_bid bd \<le> bid
           \<and> num_seconds (close_time - ve_utc env) < quot (bs_min_secs_to_expiry bs) 2)"
    and "hm_get book' token =
      (if bs_target_profit_pct bs \<le> margin then None
       else if margin \<le> - bs_stop_loss_pct bs
       then Some ((case hm_get book token of None \<Rightarrow> 1 | Some (n, _) \<Rightarrow> n + 1), ve_instant env)
       else hm_get book token)"
  using assms(1) unfolding margin_def bid_def
  by (auto simp: basis_position_verdict_def basis_expiry_verdict_def clear_losses_def record_stop_loss_get Let_def not_le
      not_less split: if_splits option.splits)

definition basis_leaves ::
  "basis_build \<Rightarrow> viper_env \<Rightarrow> strategy_context \<Rightarrow> order_params \<Rightarrow> string \<Rightarrow> bool \<Rightarrow> loss_book \<Rightarrow>
   position_key \<times> position \<Rightarrow> bool" where
  "basis_leaves bd env ctx p reason exit_pair book' = (\<lambda>(key, pos). \<exists>market sn book.
    k_strategy key = basis_name \<and> k_squadron key = cx_squadron_id ctx \<and> k_market key = op_token_id p
    \<and> venue_for_token ctx (op_token_id p) = Some (market, sn) \<and> \<not> exit_pair \<and> op_order_type p = Fak
    \<and> op_shares p = p_shares pos
    \<and> op_price p = (if op_token_id p = mc_yes_token market then ms_yes_bid sn else ms_no_bid sn)
    \<and> basis_position_verdict bd env (dc_basis (cx_dynamic_config ctx)) market sn (op_token_id p) pos book
        = (Leave reason, book'))"

lemma basis_exit_loopD:
  assumes "basis_exit_loop bd env ctx ps w = (Exit p reason exit_pair, w')"
  shows "\<exists>kp \<in> set ps. basis_leaves bd env ctx p reason exit_pair (bw_loss_book w') kp"
  using assms
proof (induction bd env ctx ps w rule: basis_exit_loop.induct)
  case (2 bd env ctx key pos rest w)
  show ?case
  proof (cases "k_strategy key \<noteq> basis_name \<or> k_squadron key \<noteq> cx_squadron_id ctx")
    case True
    then show ?thesis using 2 by auto
  next
    case own: False
    show ?thesis
    proof (cases "venue_for_token ctx (k_market key)")
      case None
      then show ?thesis using 2(2) [OF own None] 2(5) own by auto
    next
      case (Some ms)
      obtain market sn where ms: "ms = (market, sn)" by (cases ms)
      obtain v book where v: "basis_position_verdict bd env (dc_basis (cx_dynamic_config ctx)) market sn (k_market key) pos
          (bw_loss_book w) = (v, book)" by (cases "basis_position_verdict bd env (dc_basis (cx_dynamic_config ctx)) market sn (k_market key) pos (bw_loss_book w)")
      show ?thesis
      proof (cases "k_market key \<noteq> mc_yes_token market \<and> k_market key \<noteq> mc_no_token market")
        case True
        then show ?thesis using 2(3) [OF own Some ms [symmetric] True] 2(5) own Some ms by auto
      next
        case quoted: False
        show ?thesis
        proof (cases v)
          case (Leave r)
          have out: "p = taker_leg market (k_market key)
                (if k_market key = mc_yes_token market then ms_yes_bid sn else ms_no_bid sn) (p_shares pos)
                (if k_market key = mc_yes_token market then mc_yes_fee_bps market else mc_no_fee_bps market)
                (dc_ghost_mode (cx_dynamic_config ctx))" "r = reason" "\<not> exit_pair" "bw_loss_book w' = book"
            using 2(5) own Some ms quoted v Leave by auto
          have "basis_leaves bd env ctx p reason exit_pair (bw_loss_book w') (key, pos)"
            unfolding basis_leaves_def prod.case
            by (rule exI [of _ market], rule exI [of _ sn], rule exI [of _ "bw_loss_book w"])
              (use own Some ms v Leave in \<open>simp add: out\<close>)
          then show ?thesis by simp
        next
          case NextPosition
          then show ?thesis using 2(4) [OF own Some ms [symmetric] quoted refl v [symmetric] refl NextPosition] 2(5) own Some ms quoted v by auto
        next
          case EndWithout
          then show ?thesis using 2(5) own Some ms quoted v by auto
        qed
      qed
    qed
  qed
qed simp


text \<open>Two positions on one market: one deep under water with a bid below the floor, one past its target.\<close>

definition turned_snapshot :: market_snapshot where
  "turned_snapshot = blank_snapshot
     \<lparr>ms_yes_bid := 4/100, ms_yes_ask := 6/100, ms_no_bid := 93/100, ms_no_ask := 95/100\<rparr>"

definition held_at :: "decimal \<Rightarrow> position" where
  "held_at entry =
     \<lparr>p_shares = 10, p_avg_entry = entry, p_opened_at = - from_secs 700, p_close_time = None, p_market_name = [],
      p_pair_token_id = [], p_fill_confirmed_at = Some 0, p_paired_leg_token_id = None, p_entry_fee = 0\<rparr>"

definition sunk :: "position_key \<times> position" where
  "sunk = (position_key_new ''btc-open'' ''BasisStrategy'' ''up'', held_at (1/2))"

definition won :: "position_key \<times> position" where
  "won = (position_key_new ''btc-open'' ''BasisStrategy'' ''down'', held_at (1/2))"

definition two_positions :: "position_map \<Rightarrow> strategy_context" where
  "two_positions ps = basis_context\<lparr>cx_snapshot := turned_snapshot, cx_positions := ps\<rparr>"

lemma two_positions_venue:
  "venue_for_token (two_positions ps) ''up'' = Some (skewed_market, turned_snapshot)"
  "venue_for_token (two_positions ps) ''down'' = Some (skewed_market, turned_snapshot)"
  by (simp_all add: venue_for_token_def two_positions_def basis_context_def skewed_market_def)

lemma sunk_verdict:
  "basis_position_verdict sample_basis_build sample_env (dc_basis sample_config) skewed_market turned_snapshot ''up''
     (held_at (1/2)) book = (EndWithout, book)"
proof -
  have "num_seconds (from_secs 700) = 700" by code_simp
  then show ?thesis
    by (simp add: basis_position_verdict_def skewed_market_def turned_snapshot_def blank_snapshot_def held_at_def
        sample_env_def sample_config_def sample_basis_build_def Let_def)
qed

lemma won_verdict:
  "\<exists>reason. basis_position_verdict sample_basis_build sample_env (dc_basis sample_config) skewed_market turned_snapshot
     ''down'' (held_at (1/2)) book = (Leave reason, clear_losses ''down'' book)"
  by (simp add: basis_position_verdict_def skewed_market_def turned_snapshot_def blank_snapshot_def held_at_def
      sample_env_def sample_config_def sample_basis_build_def Let_def)

lemma two_positions_fields [simp]:
  "cx_squadron_id (two_positions ps) = ''btc-open''" "cx_dynamic_config (two_positions ps) = sample_config"
  "cx_positions (two_positions ps) = ps"
  by (simp_all add: two_positions_def basis_context_def)

lemma won_exit:
  "\<exists>reason w'. basis_evaluate_exit sample_basis_build sample_env (two_positions (won # ps)) w =
     (Exit (taker_leg skewed_market ''down'' (93/100) 10 1000 False) reason False, w')"
proof -
  obtain reason where v: "basis_position_verdict sample_basis_build sample_env (dc_basis sample_config) skewed_market
     turned_snapshot ''down'' (held_at (1/2)) (bw_loss_book w) = (Leave reason, clear_losses ''down'' (bw_loss_book w))"
    using won_verdict by blast
  show ?thesis
    by (simp add: basis_evaluate_exit_def won_def position_key_new_def basis_name_def two_positions_venue v Let_def)
      (simp add: skewed_market_def turned_snapshot_def blank_snapshot_def held_at_def sample_config_def)
qed

text \<open>One position can hide another: when a stop is deferred because the bid is below the floor, the evaluation ends
  there, so whether a take-profit on another position is signalled depends on the order in which the map
  happens to list the two.\<close>

theorem basis_deferred_stop_hides_exits:
  "fst (basis_evaluate_exit sample_basis_build sample_env (two_positions [sunk, won]) w) = NoSignal
   \<and> (\<exists>p reason. fst (basis_evaluate_exit sample_basis_build sample_env (two_positions [won, sunk]) w) = Exit p reason False
        \<and> op_token_id p = ''down'')"
proof
  show "fst (basis_evaluate_exit sample_basis_build sample_env (two_positions [sunk, won]) w) = NoSignal"
    by (simp add: basis_evaluate_exit_def sunk_def position_key_new_def basis_name_def two_positions_venue sunk_verdict Let_def)
      (simp add: skewed_market_def)
next
  show "\<exists>p reason. fst (basis_evaluate_exit sample_basis_build sample_env (two_positions [won, sunk]) w) = Exit p reason False
        \<and> op_token_id p = ''down''"
    using won_exit [of "[sunk]" w] by auto
qed


end
