(* ===== verification/Script_Manifest.thy ===== *)
theory Script_Manifest
  imports Book_Feed "HOL-Library.List_Lexorder" "HOL-Library.Char_ord"
begin

text \<open>
  What an operator's script declares, \<open>src/vipers/scripted/manifest.rs\<close>: the checks on a manifest and the
  parameter values in force.  Strings are ASCII; a JSON number is kept as its printed form, and reading a
  decimal from text, which belongs to the decimal crate, is the argument \<open>parse\<close>.  Problem texts are
  constructors.
\<close>

section \<open>Names\<close>

definition script_classes :: "string list" where
  "script_classes = [''crypto'', ''sports'', ''politics'', ''unknown'']"

definition script_venues :: "string list" where
  "script_venues = [''intl_clob'', ''us_retail'', ''kalshi'']"

definition max_exposure_ceiling :: decimal where
  "max_exposure_ceiling = 1000"

definition max_params :: nat where
  "max_params = 32"

definition reserved_words :: "string list" where
  "reserved_words =
     [''true'', ''false'', ''let'', ''const'', ''if'', ''else'', ''switch'', ''do'', ''while'', ''until'', ''loop'',
      ''for'', ''in'', ''continue'', ''break'', ''return'', ''throw'', ''try'', ''catch'', ''import'', ''export'',
      ''as'', ''global'', ''private'', ''fn'', ''this'', ''is'', ''var'', ''static'', ''shared'', ''with'', ''go'',
      ''spawn'', ''thread'', ''sync'', ''async'', ''await'', ''yield'', ''default'', ''void'', ''null'', ''nil'',
      ''case'', ''public'', ''protected'', ''super'', ''new'', ''use'', ''module'', ''package'', ''match'', ''goto'',
      ''exit'', ''type_of'', ''print'', ''debug'', ''eval'', ''call'', ''curry'', ''is_def_var'', ''is_def_fn'',
      ''is_shared'', ''object'', ''func'', ''macro'', ''include'', ''def'']"

definition route_names :: "string list" where
  "route_names = [''templates'', ''validate'']"

definition ascii_lower :: "char \<Rightarrow> bool" where
  "ascii_lower c \<longleftrightarrow> 97 \<le> (of_char c :: nat) \<and> (of_char c :: nat) \<le> 122"

definition ident_char :: "char \<Rightarrow> bool" where
  "ident_char c \<longleftrightarrow>
     ascii_lower c \<or> (48 \<le> (of_char c :: nat) \<and> (of_char c :: nat) \<le> 57) \<or> of_char c = (95 :: nat)"

definition valid_ident :: "string \<Rightarrow> bool" where
  "valid_ident name \<longleftrightarrow>
     3 \<le> length name \<and> length name \<le> 32 \<and> list_all ident_char name \<and> ascii_lower (hd name)"

definition valid_name :: "string \<Rightarrow> bool" where
  "valid_name name \<longleftrightarrow> name \<notin> set route_names \<and> valid_ident name"

definition is_space :: "char \<Rightarrow> bool" where
  "is_space c \<longleftrightarrow> of_char c = (32 :: nat) \<or> 9 \<le> (of_char c :: nat) \<and> (of_char c :: nat) \<le> 13"

definition trim :: "string \<Rightarrow> string" where
  "trim s = rev (dropWhile is_space (rev (dropWhile is_space s)))"

section \<open>Parameters\<close>

datatype json = JNull | JBool bool | JNumber string | JString string | JArray "json list" | JObject "(string \<times> json) list"

record param =
  pm_kind :: string
  pm_default :: json
  pm_min :: "decimal option"
  pm_max :: "decimal option"

datatype param_value = PBool bool | PInt int | PDecimal decimal

datatype coerce_error =
    BelowMinimum decimal
  | AboveMaximum decimal
  | ExpectedBool
  | ExpectedWhole
  | ExpectedNumber
  | IntOutOfRange
  | UnknownKind string

definition in_range :: "param \<Rightarrow> decimal \<Rightarrow> coerce_error + unit" where
  "in_range p d =
     (if (case pm_min p of None \<Rightarrow> False | Some lo \<Rightarrow> d < lo) then Inl (BelowMinimum d)
      else if (case pm_max p of None \<Rightarrow> False | Some hi \<Rightarrow> hi < d) then Inl (AboveMaximum d)
      else Inr ())"

definition as_decimal :: "(string \<Rightarrow> decimal option) \<Rightarrow> json \<Rightarrow> decimal option" where
  "as_decimal parse v =
     (case v of JNumber n \<Rightarrow> parse n | JString s \<Rightarrow> parse (trim s) | _ \<Rightarrow> None)"

definition is_whole :: "decimal \<Rightarrow> bool" where
  "is_whole d \<longleftrightarrow> snd (quotient_of d) = 1"

definition coerce :: "(string \<Rightarrow> decimal option) \<Rightarrow> param \<Rightarrow> json \<Rightarrow> coerce_error + param_value" where
  "coerce parse p v =
     (if pm_kind p = ''bool'' then (case v of JBool b \<Rightarrow> Inr (PBool b) | _ \<Rightarrow> Inl ExpectedBool)
      else if pm_kind p = ''int'' then
        (case as_decimal parse v of
           None \<Rightarrow> Inl ExpectedWhole
         | Some d \<Rightarrow>
             if \<not> is_whole d then Inl ExpectedWhole
             else case in_range p d of
                 Inl e \<Rightarrow> Inl e
               | Inr _ \<Rightarrow>
                   let i = fst (quotient_of d)
                   in if - (2 ^ 63) \<le> i \<and> i < 2 ^ 63 then Inr (PInt i) else Inl IntOutOfRange)
      else if pm_kind p = ''decimal'' then
        (case as_decimal parse v of
           None \<Rightarrow> Inl ExpectedNumber
         | Some d \<Rightarrow> (case in_range p d of Inl e \<Rightarrow> Inl e | Inr _ \<Rightarrow> Inr (PDecimal d)))
      else Inl (UnknownKind (pm_kind p)))"

definition ok_of :: "'e + 'a \<Rightarrow> 'a option" where
  "ok_of r = (case r of Inl _ \<Rightarrow> None | Inr v \<Rightarrow> Some v)"

section \<open>Manifests\<close>

record manifest =
  mf_name :: string
  mf_display_name :: string
  mf_classes :: "string list"
  mf_venues :: "string list"
  mf_max_exposure :: decimal
  mf_params :: "(string, param) btree_map"

datatype problem =
    ReservedName string
  | BadName string
  | BadDisplayName
  | NoClasses
  | UnknownClass string
  | UnknownVenue string
  | BadExposure
  | TooManyParams
  | BadParamName string
  | ReservedParam string
  | BadDefault string coerce_error
  | EmptyRange string

definition param_problems :: "(string \<Rightarrow> decimal option) \<Rightarrow> string \<times> param \<Rightarrow> problem list" where
  "param_problems parse kp =
     (let (k, p) = kp
      in (if \<not> valid_ident k then [BadParamName k]
          else if k \<in> set reserved_words then [ReservedParam k] else []) @
         (case coerce parse p (pm_default p) of Inr _ \<Rightarrow> [] | Inl e \<Rightarrow> [BadDefault k e]) @
         (case (pm_min p, pm_max p) of
            (Some lo, Some hi) \<Rightarrow> if hi < lo then [EmptyRange k] else []
          | _ \<Rightarrow> []))"

definition problems :: "(string \<Rightarrow> decimal option) \<Rightarrow> manifest \<Rightarrow> problem list" where
  "problems parse m =
     (if (mf_name m) \<in> set route_names then [ReservedName (mf_name m)]
      else if \<not> valid_name (mf_name m) then [BadName (mf_name m)] else []) @
     (if trim (mf_display_name m) = [] \<or> 64 < length (mf_display_name m) then [BadDisplayName] else []) @
     (if mf_classes m = [] then [NoClasses] else []) @
     map UnknownClass (filter (\<lambda>c. c \<notin> set script_classes) (mf_classes m)) @
     map UnknownVenue (filter (\<lambda>v. v \<notin> set script_venues) (mf_venues m)) @
     (if mf_max_exposure m \<le> 0 \<or> max_exposure_ceiling < mf_max_exposure m then [BadExposure] else []) @
     (if max_params < length (mf_params m) then [TooManyParams] else []) @
     concat (map (param_problems parse) (mf_params m))"

definition runs_on :: "manifest \<Rightarrow> string \<Rightarrow> bool" where
  "runs_on m venue \<longleftrightarrow> mf_venues m = [] \<or> venue \<in> set (mf_venues m)"

definition resolve_param ::
    "(string \<Rightarrow> decimal option) \<Rightarrow> (string, json) btree_map \<Rightarrow> string \<times> param \<Rightarrow> (string \<times> param_value) option" where
  "resolve_param parse overrides kp =
     (let (k, p) = kp;
          own = (case map_of overrides k of None \<Rightarrow> None | Some o' \<Rightarrow> ok_of (coerce parse p o'));
          v = (case own of None \<Rightarrow> ok_of (coerce parse p (pm_default p)) | Some v \<Rightarrow> Some v)
      in map_option (Pair k) v)"

definition resolve_params ::
    "(string \<Rightarrow> decimal option) \<Rightarrow> (string, json) btree_map \<Rightarrow> manifest \<Rightarrow> (string, param_value) btree_map" where
  "resolve_params parse overrides m = List.map_filter (resolve_param parse overrides) (mf_params m)"

section \<open>What a script may read\<close>

text \<open>A value of the parameter's kind inside its range.\<close>

definition value_fits :: "param \<Rightarrow> param_value \<Rightarrow> bool" where
  "value_fits p v \<longleftrightarrow>
     (case v of
        PBool _ \<Rightarrow> pm_kind p = ''bool''
      | PInt i \<Rightarrow> pm_kind p = ''int'' \<and> - (2 ^ 63) \<le> i \<and> i < 2 ^ 63 \<and>
          (\<forall>lo. pm_min p = Some lo \<longrightarrow> lo \<le> of_int i) \<and> (\<forall>hi. pm_max p = Some hi \<longrightarrow> of_int i \<le> hi)
      | PDecimal d \<Rightarrow> pm_kind p = ''decimal'' \<and>
          (\<forall>lo. pm_min p = Some lo \<longrightarrow> lo \<le> d) \<and> (\<forall>hi. pm_max p = Some hi \<longrightarrow> d \<le> hi))"

lemma is_whole_of_int: "is_whole d \<Longrightarrow> d = of_int (fst (quotient_of d))"
  using quotient_of_div [OF prod.collapse [symmetric], of d] by (simp add: is_whole_def)

lemma in_range_iff:
  "in_range p d = Inr u \<longleftrightarrow>
     (\<forall>lo. pm_min p = Some lo \<longrightarrow> lo \<le> d) \<and> (\<forall>hi. pm_max p = Some hi \<longrightarrow> d \<le> hi)"
  by (auto simp: in_range_def not_less split: option.splits)

lemma coerce_fits: "coerce parse p v = Inr x \<Longrightarrow> value_fits p x"
  using is_whole_of_int
  by (auto simp: coerce_def value_fits_def in_range_iff Let_def split: if_splits json.splits option.splits sum.splits)

lemma problems_nil_params:
  "problems parse m = [] \<Longrightarrow> (k, p) \<in> set (mf_params m) \<Longrightarrow> \<exists>v. coerce parse p (pm_default p) = Inr v"
  by (fastforce simp: problems_def param_problems_def split: sum.splits)

text \<open>Whatever the operator's overrides say, a script whose manifest is accepted reads a value for every declared
  parameter, under its name and in order, and every value is of the declared kind and inside the declared
  range: the override where it fits, the default otherwise.\<close>

theorem resolve_params_sound:
  assumes "problems parse m = []"
  shows "map fst (resolve_params parse overrides m) = map fst (mf_params m) \<and>
    list_all2 (\<lambda>(k, p) (k', v). value_fits p v \<and>
        (case map_of overrides k of None \<Rightarrow> coerce parse p (pm_default p) = Inr v
         | Some o' \<Rightarrow> (case coerce parse p o' of Inr v' \<Rightarrow> v = v' | Inl _ \<Rightarrow> coerce parse p (pm_default p) = Inr v)))
      (mf_params m) (resolve_params parse overrides m)"
proof -
  have "map fst (List.map_filter (resolve_param parse overrides) ps) = map fst ps \<and>
      list_all2 (\<lambda>(k, p) (k', v). value_fits p v \<and>
        (case map_of overrides k of None \<Rightarrow> coerce parse p (pm_default p) = Inr v
         | Some o' \<Rightarrow> (case coerce parse p o' of Inr v' \<Rightarrow> v = v' | Inl _ \<Rightarrow> coerce parse p (pm_default p) = Inr v)))
      ps (List.map_filter (resolve_param parse overrides) ps)"
    if "set ps \<subseteq> set (mf_params m)" for ps
    using that
  proof (induction ps)
    case (Cons kp ps)
    obtain k p where kp: "kp = (k, p)" by (cases kp)
    then obtain d where d: "coerce parse p (pm_default p) = Inr d"
      using problems_nil_params [OF assms] Cons.prems by fastforce
    show ?case
      using Cons d coerce_fits
      by (auto simp: kp map_filter_simps resolve_param_def ok_of_def split: option.splits sum.splits)
  qed (simp add: map_filter_simps)
  from this [of "mf_params m"] show ?thesis by (simp add: resolve_params_def)
qed

definition sample_parse :: "string \<Rightarrow> decimal option" where
  "sample_parse s = map_of [(''0.03'', 3 / 100), (''0.9'', 9 / 10), (''5'', 5), (''7'', 7)] s"

definition sample_manifest :: manifest where
  "sample_manifest =
     \<lparr>mf_name = ''fade_spikes'', mf_display_name = ''Fade Spikes'', mf_classes = [''crypto''], mf_venues = [],
      mf_max_exposure = 10,
      mf_params =
        [(''contracts'', \<lparr>pm_kind = ''int'', pm_default = JNumber ''5'', pm_min = Some 1, pm_max = Some 50\<rparr>),
         (''min_edge'', \<lparr>pm_kind = ''decimal'', pm_default = JNumber ''0.03'', pm_min = Some 0, pm_max = Some (1 / 2)\<rparr>),
         (''use_tp'', \<lparr>pm_kind = ''bool'', pm_default = JBool True, pm_min = None, pm_max = None\<rparr>)]\<rparr>"

lemma sample_manifest_accepted: "problems sample_parse sample_manifest = []"
  by code_simp

theorem resolve_params_sound_witness:
  "map fst (resolve_params sample_parse [(''min_edge'', JNumber ''0.9''), (''contracts'', JString ''7'')] sample_manifest)
     = [''contracts'', ''min_edge'', ''use_tp'']"
  using resolve_params_sound [OF sample_manifest_accepted] by (simp add: sample_manifest_def)

end
