(* ===== verification/Helm_Content.thy ===== *)
theory Helm_Content
  imports Fees Viper_Status Script_Manifest
begin

text \<open>
  What an operator states in an intent, \<open>src/helpers/helm.rs\<close>: its status machine, its content with the
  checks on its shape, the rules that tie it to the market's book, and the verdict on its fees.
  A message is a value naming the rule that failed, with the figures the program prints in it; the text
  itself, which nothing reads back, is left to a formatter where one is needed.
\<close>

section \<open>The status machine\<close>

datatype intent_status = Proposed | Acknowledged | Working | Filled | Partial | Missed | Closed | Superseded

definition all_statuses :: "intent_status list" where
  "all_statuses = [Proposed, Acknowledged, Working, Filled, Partial, Missed, Closed, Superseded]"

fun status_str :: "intent_status \<Rightarrow> string" where
  "status_str Proposed = ''proposed''"
| "status_str Acknowledged = ''acknowledged''"
| "status_str Working = ''working''"
| "status_str Filled = ''filled''"
| "status_str Partial = ''partial''"
| "status_str Missed = ''missed''"
| "status_str Closed = ''closed''"
| "status_str Superseded = ''superseded''"

definition parse_status :: "string \<Rightarrow> intent_status option" where
  "parse_status s = find (\<lambda>st. status_str st = to_lowercase (trim s)) all_statuses"

definition is_terminal :: "intent_status \<Rightarrow> bool" where
  "is_terminal s \<longleftrightarrow> s = Closed \<or> s = Superseded"

fun can_transition_to :: "intent_status \<Rightarrow> intent_status \<Rightarrow> bool" where
  "can_transition_to Proposed Acknowledged = True"
| "can_transition_to Acknowledged Working = True"
| "can_transition_to Working Filled = True"
| "can_transition_to Working Partial = True"
| "can_transition_to Working Missed = True"
| "can_transition_to Partial Filled = True"
| "can_transition_to from Closed = (\<not> is_terminal from)"
| "can_transition_to from Superseded = (\<not> is_terminal from)"
| "can_transition_to _ _ = False"

datatype horizon = Expiry | Sooner

fun horizon_str :: "horizon \<Rightarrow> string" where
  "horizon_str Expiry = ''expiry''"
| "horizon_str Sooner = ''sooner''"

definition parse_horizon :: "string \<Rightarrow> horizon option" where
  "parse_horizon s =
     (let t = to_lowercase (trim s)
      in if t = ''expiry'' then Some Expiry else if t = ''sooner'' then Some Sooner else None)"

datatype entry_kind = Taker | Resting

fun entry_kind_str :: "entry_kind \<Rightarrow> string" where
  "entry_kind_str Taker = ''taker''"
| "entry_kind_str Resting = ''resting''"

definition parse_entry_kind :: "string \<Rightarrow> entry_kind option" where
  "parse_entry_kind s =
     (let t = to_lowercase (trim s)
      in if t = ''taker'' then Some Taker else if t = ''resting'' then Some Resting else None)"

section \<open>Content and its shape\<close>

text \<open>The confidence is a floating-point number; \<open>None\<close> stands for one that is not finite.\<close>

record intent_content =
  ic_thesis :: string
  ic_confidence :: "decimal option"
  ic_horizon :: horizon
  ic_falsification :: string
  ic_entry_kind :: entry_kind
  ic_entry_limit_price :: "decimal option"
  ic_size_usdc :: decimal
  ic_stop_price :: "decimal option"
  ic_take_profit_price :: "decimal option"
  ic_time_limit_at :: "utc option"
  ic_hold_to_settlement :: bool
  ic_catastrophic_floor_pct :: "decimal option"

datatype posture_field = Stop_price | Take_profit_price | Catastrophic_floor_pct

datatype shape_error =
    Bad_side string
  | Empty_thesis
  | Empty_falsification
  | Bad_confidence "decimal option"
  | Bad_size decimal
  | Resting_without_limit
  | Limit_out_of_range decimal
  | Taker_with_limit
  | Posture_out_of_range posture_field decimal
  | No_exit_named

definition ascii_upper :: "char \<Rightarrow> char" where
  "ascii_upper c =
     (let n = of_char c :: nat in if 97 \<le> n \<and> n \<le> 122 then char_of (n - 32) else c)"

definition to_ascii_uppercase :: "string \<Rightarrow> string" where
  "to_ascii_uppercase s = map ascii_upper s"

definition in_unit :: "decimal \<Rightarrow> bool" where
  "in_unit p \<longleftrightarrow> 0 < p \<and> p < 1"

definition entry_shape :: "entry_kind \<Rightarrow> decimal option \<Rightarrow> shape_error list" where
  "entry_shape kind limit =
     (case (kind, limit) of
        (Resting, None) \<Rightarrow> [Resting_without_limit]
      | (Resting, Some p) \<Rightarrow> (if in_unit p then [] else [Limit_out_of_range p])
      | (Taker, Some _) \<Rightarrow> [Taker_with_limit]
      | (Taker, None) \<Rightarrow> [])"

definition posture_shape :: "posture_field \<Rightarrow> decimal option \<Rightarrow> shape_error list" where
  "posture_shape name v =
     (case v of None \<Rightarrow> [] | Some p \<Rightarrow> if in_unit p then [] else [Posture_out_of_range name p])"

definition shape_check :: "string \<Rightarrow> intent_content \<Rightarrow> shape_error list" where
  "shape_check side c =
     (if to_ascii_uppercase (trim side) \<in> {''YES'', ''NO''} then [] else [Bad_side side]) @
     (if trim (ic_thesis c) = [] then [Empty_thesis] else []) @
     (if trim (ic_falsification c) = [] then [Empty_falsification] else []) @
     (if (case ic_confidence c of None \<Rightarrow> False | Some x \<Rightarrow> 0 < x \<and> x < 1) then []
      else [Bad_confidence (ic_confidence c)]) @
     (if ic_size_usdc c \<le> 0 then [Bad_size (ic_size_usdc c)] else []) @
     entry_shape (ic_entry_kind c) (ic_entry_limit_price c) @
     posture_shape Stop_price (ic_stop_price c) @
     posture_shape Take_profit_price (ic_take_profit_price c) @
     posture_shape Catastrophic_floor_pct (ic_catastrophic_floor_pct c) @
     (if \<not> ic_hold_to_settlement c \<and> ic_stop_price c = None \<and> ic_take_profit_price c = None
         \<and> ic_time_limit_at c = None then [No_exit_named] else [])"

abbreviation well_shaped :: "string \<Rightarrow> intent_content \<Rightarrow> bool" where
  "well_shaped side c \<equiv> shape_check side c = []"

section \<open>Consistency with the book\<close>

record book_facts =
  bf_bid :: decimal
  bf_ask :: decimal
  bf_close_time :: "utc option"
  bf_now :: utc
  bf_min_shares :: decimal
  bf_min_secs_to_close :: int

definition entry_price :: "intent_content \<Rightarrow> book_facts \<Rightarrow> decimal option" where
  "entry_price c b =
     (case ic_entry_kind c of
        Taker \<Rightarrow> if 0 < bf_ask b \<and> bf_ask b < 1 then Some (bf_ask b) else None
      | Resting \<Rightarrow> ic_entry_limit_price c)"

datatype book_error =
    No_bid
  | No_ask
  | No_limit_price
  | Would_cross decimal decimal
  | Hold_with_stop
  | Stop_above_entry decimal decimal
  | Stop_above_bid decimal decimal
  | Target_below_entry decimal decimal
  | Time_limit_past
  | Time_limit_after_close utc utc
  | Hold_without_close
  | Too_close_to_close int
  | Below_minimum decimal decimal

definition price_rule :: "intent_content \<Rightarrow> book_facts \<Rightarrow> book_error list \<times> decimal option" where
  "price_rule c b =
     (case (ic_entry_kind c, entry_price c b) of
        (Taker, None) \<Rightarrow> ([No_ask], None)
      | (Resting, None) \<Rightarrow> ([No_limit_price], None)
      | (Resting, Some limit) \<Rightarrow>
          (if 0 < bf_ask b \<and> bf_ask b \<le> limit then [Would_cross limit (bf_ask b)] else [], Some limit)
      | (Taker, Some p) \<Rightarrow> ([], Some p))"

definition stop_rule :: "intent_content \<Rightarrow> book_facts \<Rightarrow> decimal option \<Rightarrow> book_error list" where
  "stop_rule c b price =
     (case (ic_stop_price c, price) of
        (Some stop, Some p) \<Rightarrow>
          if ic_hold_to_settlement c then []
          else if p \<le> stop then [Stop_above_entry stop p]
          else if 0 < bf_bid b \<and> bf_bid b \<le> stop then [Stop_above_bid stop (bf_bid b)]
          else []
      | _ \<Rightarrow> [])"

definition target_rule :: "intent_content \<Rightarrow> decimal option \<Rightarrow> book_error list" where
  "target_rule c price =
     (case (ic_take_profit_price c, price) of
        (Some tp, Some p) \<Rightarrow> if tp \<le> p then [Target_below_entry tp p] else []
      | _ \<Rightarrow> [])"

definition time_rule :: "intent_content \<Rightarrow> book_facts \<Rightarrow> book_error list" where
  "time_rule c b =
     (case ic_time_limit_at c of
        None \<Rightarrow> []
      | Some t \<Rightarrow>
          if t \<le> bf_now b then [Time_limit_past]
          else (case bf_close_time b of
                  None \<Rightarrow> []
                | Some close \<Rightarrow> if close \<le> t then [Time_limit_after_close t close] else []))"

definition close_rule :: "intent_content \<Rightarrow> book_facts \<Rightarrow> book_error list" where
  "close_rule c b =
     (case bf_close_time b of
        None \<Rightarrow> if ic_hold_to_settlement c then [Hold_without_close] else []
      | Some close \<Rightarrow>
          (let s = num_seconds (close - bf_now b)
           in if s < bf_min_secs_to_close b then [Too_close_to_close s] else []))"

definition size_rule :: "(decimal \<Rightarrow> decimal) \<Rightarrow> intent_content \<Rightarrow> book_facts \<Rightarrow> decimal option \<Rightarrow> book_error list" where
  "size_rule rnd c b price =
     (case price of
        None \<Rightarrow> []
      | Some p \<Rightarrow>
          if 0 < p \<and> rnd (ic_size_usdc c / p) < bf_min_shares b
          then [Below_minimum (rnd (ic_size_usdc c / p)) p] else [])"

text \<open>The side is only named in the messages.\<close>

definition validate_against_book :: "(decimal \<Rightarrow> decimal) \<Rightarrow> intent_content \<Rightarrow> book_facts \<Rightarrow> book_error list" where
  "validate_against_book rnd c b =
     (let (price_errs, price) = price_rule c b in
      (if bf_bid b \<le> 0 then [No_bid] else []) @
      price_errs @
      (if ic_hold_to_settlement c \<and> ic_stop_price c \<noteq> None then [Hold_with_stop] else []) @
      stop_rule c b price @
      target_rule c price @
      time_rule c b @
      close_rule c b @
      size_rule rnd c b price)"

section \<open>The fee verdict\<close>

datatype target_kind = Take_profit | Settlement

text \<open>The sentence shown to the operator, with its figures: a passing or refusing verdict on a measured
  target says whether a taker exit was counted, the fee, its share, the target, the price and the limit.\<close>

datatype verdict_text =
    No_price_to_measure
  | Fee_share bool bool decimal decimal decimal target_kind decimal decimal
  | No_target bool decimal decimal decimal

record fee_verdict =
  fv_text :: verdict_text
  fv_refusal :: "verdict_text option"

definition verdict_pass :: "verdict_text \<Rightarrow> fee_verdict" where
  "verdict_pass t = \<lparr>fv_text = t, fv_refusal = None\<rparr>"

definition verdict_refuse :: "verdict_text \<Rightarrow> fee_verdict" where
  "verdict_refuse t = \<lparr>fv_text = t, fv_refusal = Some t\<rparr>"

definition settles_without_selling :: "intent_content \<Rightarrow> bool" where
  "settles_without_selling c \<longleftrightarrow>
     ic_hold_to_settlement c \<and> ic_time_limit_at c = None \<and> ic_catastrophic_floor_pct c = None"

datatype take_profit_leg = Leg_resting | Leg_taker

definition entry_leg_pct :: "decimal \<Rightarrow> intent_content \<Rightarrow> decimal \<Rightarrow> decimal" where
  "entry_leg_pct fee_rate c p =
     (case ic_entry_kind c of Resting \<Rightarrow> 0 | Taker \<Rightarrow> entry_only_fee_pct fee_rate p)"

definition div_opt :: "(decimal \<Rightarrow> decimal) \<Rightarrow> decimal \<Rightarrow> decimal \<Rightarrow> decimal option" where
  "div_opt rnd a b = (if b = 0 then None else Some (rnd (a / b)))"

text \<open>The measurable target of a posture, as a fraction of the entry, with the cost of the exit that reaches
  it; the outer \<open>None\<close> is the panic of a division by a zero price.\<close>

definition fee_target ::
  "(decimal \<Rightarrow> decimal) \<Rightarrow> decimal \<Rightarrow> take_profit_leg \<Rightarrow> intent_content \<Rightarrow> decimal
     \<Rightarrow> (decimal \<times> decimal \<times> target_kind) option option" where
  "fee_target rnd fee_rate tp_leg c p =
     (case ic_take_profit_price c of
        Some tp \<Rightarrow>
          if p < tp
          then map_option (\<lambda>target. Some (target,
                 case tp_leg of Leg_resting \<Rightarrow> 0 | Leg_taker \<Rightarrow> exit_fee_pct_at_gain rnd fee_rate p target, Take_profit))
                 (div_opt rnd (tp - p) p)
          else if settles_without_selling c
          then map_option (\<lambda>target. Some (target, 0, Settlement)) (div_opt rnd (1 - p) p)
          else Some None
      | None \<Rightarrow>
          if settles_without_selling c
          then map_option (\<lambda>target. Some (target, 0, Settlement)) (div_opt rnd (1 - p) p)
          else Some None)"

definition fee_verdict_on ::
  "(decimal \<Rightarrow> decimal) \<Rightarrow> decimal \<Rightarrow> intent_content \<Rightarrow> book_facts \<Rightarrow> take_profit_leg \<Rightarrow> decimal \<Rightarrow> decimal
     \<Rightarrow> fee_verdict option" where
  "fee_verdict_on rnd fee_rate c b tp_leg max_ratio max_notional_pct =
     (case entry_price c b of
        None \<Rightarrow> Some (verdict_pass No_price_to_measure)
      | Some p \<Rightarrow>
          (case fee_target rnd fee_rate tp_leg c p of
             None \<Rightarrow> None
           | Some (Some (target, exit, which)) \<Rightarrow>
               (let fee = entry_leg_pct fee_rate c p + exit;
                    share = (if 0 < target then rnd (fee / target) else 0);
                    taker_exit = (which = Take_profit \<and> tp_leg = Leg_taker)
                in Some (if 0 < fee \<and> max_ratio < share
                         then verdict_refuse (Fee_share True taker_exit fee share target which p max_ratio)
                         else verdict_pass (Fee_share False taker_exit fee share target which p max_ratio)))
           | Some None \<Rightarrow>
               (let fee = entry_leg_pct fee_rate c p + exit_only_fee_pct fee_rate p
                in Some (if max_notional_pct < fee
                         then verdict_refuse (No_target True fee p max_notional_pct)
                         else verdict_pass (No_target False fee p max_notional_pct)))))"

definition calibration_visible :: "int \<Rightarrow> nat \<Rightarrow> bool" where
  "calibration_visible resolved min_resolved \<longleftrightarrow> int min_resolved \<le> resolved"

section \<open>The machine\<close>

text \<open>C39: A stored status, horizon or entry kind reads back as itself, and only its own spelling, whatever
  its case and the space around it, reads as it.\<close>

theorem stored_words_read_back:
  "(parse_status s = Some st \<longleftrightarrow> to_lowercase (trim s) = status_str st)
   \<and> (parse_horizon s = Some h \<longleftrightarrow> to_lowercase (trim s) = horizon_str h)
   \<and> (parse_entry_kind s = Some k \<longleftrightarrow> to_lowercase (trim s) = entry_kind_str k)
   \<and> parse_status (status_str st) = Some st
   \<and> parse_horizon (horizon_str h) = Some h
   \<and> parse_entry_kind (entry_kind_str k) = Some k"
proof -
  have "to_lowercase (trim (status_str st)) = status_str st"
    by (cases st) (simp_all, code_simp+)
  moreover have "to_lowercase (trim (horizon_str h)) = horizon_str h"
    by (cases h) (simp_all, code_simp+)
  moreover have "to_lowercase (trim (entry_kind_str k)) = entry_kind_str k"
    by (cases k) (simp_all, code_simp+)
  moreover have "find (\<lambda>st. status_str st = w) all_statuses = Some st \<longleftrightarrow> w = status_str st" for w
    by (cases st) (auto simp: all_statuses_def)
  moreover have "parse_horizon s = Some h \<longleftrightarrow> to_lowercase (trim s) = horizon_str h" for s
    by (cases h) (auto simp: parse_horizon_def Let_def)
  moreover have "parse_entry_kind s = Some k \<longleftrightarrow> to_lowercase (trim s) = entry_kind_str k" for s
    by (cases k) (auto simp: parse_entry_kind_def Let_def)
  ultimately show ?thesis by (simp add: parse_status_def)
qed

lemma terminal_simps [simp]:
  "is_terminal Closed" "is_terminal Superseded" "\<not> is_terminal Proposed" "\<not> is_terminal Acknowledged"
  "\<not> is_terminal Working" "\<not> is_terminal Filled" "\<not> is_terminal Partial" "\<not> is_terminal Missed"
  by (simp_all add: is_terminal_def)

text \<open>How far along its life a status is.\<close>

fun progress :: "intent_status \<Rightarrow> nat" where
  "progress Proposed = 0"
| "progress Acknowledged = 1"
| "progress Working = 2"
| "progress Partial = 3"
| "progress Filled = 4"
| "progress Missed = 4"
| "progress Closed = 5"
| "progress Superseded = 5"

lemma move_progresses: "can_transition_to s t \<Longrightarrow> progress s < progress t"
  by (cases s; cases t) auto

lemma no_move_from_terminal: "is_terminal s \<Longrightarrow> \<not> can_transition_to s t"
  by (cases s; cases t) auto

lemma terminal_iff_stuck: "is_terminal s \<longleftrightarrow> (\<forall>t. \<not> can_transition_to s t)"
proof
  show "\<forall>t. \<not> can_transition_to s t" if "is_terminal s" using that by (blast dest: no_move_from_terminal)
  show "is_terminal s" if "\<forall>t. \<not> can_transition_to s t" using that [rule_format, of Closed] by (cases s) auto
qed

inductive moves :: "intent_status \<Rightarrow> intent_status list \<Rightarrow> intent_status \<Rightarrow> bool" where
  stay: "moves s [] s"
| move: "can_transition_to s t \<Longrightarrow> moves t ts u \<Longrightarrow> moves s (t # ts) u"

inductive_cases moves_NilE: "moves s [] u"
inductive_cases moves_ConsE: "moves s (t # ts) u"
inductive_simps moves_Nil [simp]: "moves s [] u"
inductive_simps moves_Cons [simp]: "moves s (t # ts) u"

lemma moves_append: "moves s ts t \<Longrightarrow> can_transition_to t u \<Longrightarrow> moves s (ts @ [u]) u"
  by (induction rule: moves.induct) auto

lemma moves_last: "moves s ts u \<Longrightarrow> u = last (s # ts)"
  by (induction rule: moves.induct) auto

lemma moves_progress: "moves s ts u \<Longrightarrow> progress s + length ts \<le> progress u"
  by (induction rule: moves.induct) (auto dest: move_progresses)

lemma move_to_inv:
  "can_transition_to s Acknowledged \<longleftrightarrow> s = Proposed"
  "can_transition_to s Working \<longleftrightarrow> s = Acknowledged"
  "can_transition_to s Partial \<longleftrightarrow> s = Working"
  "can_transition_to s Missed \<longleftrightarrow> s = Working"
  "can_transition_to s Filled \<longleftrightarrow> s = Working \<or> s = Partial"
  by (cases s; simp)+

lemma moves_before:
  "moves s ts u \<Longrightarrow> v \<in> set ts \<Longrightarrow> \<exists>x \<in> set (s # ts). can_transition_to x v"
  by (induction rule: moves.induct) auto

text \<open>An intent that was ever filled, or was missed, had been acknowledged by the operator and gone to work.\<close>

lemma moves_from_proposed:
  assumes "moves Proposed ts u"
  shows "Working \<in> set ts \<Longrightarrow> Acknowledged \<in> set ts"
    and "Partial \<in> set ts \<Longrightarrow> Working \<in> set ts"
    and "Missed \<in> set ts \<Longrightarrow> Working \<in> set ts"
    and "Filled \<in> set ts \<Longrightarrow> Working \<in> set ts"
  using moves_before [OF assms, of Working] moves_before [OF assms, of Partial]
    moves_before [OF assms, of Missed] moves_before [OF assms, of Filled]
  by (auto simp: move_to_inv)

lemma moves_stop_at_terminal: "moves s ts u \<Longrightarrow> ts \<noteq> [] \<Longrightarrow> \<forall>x \<in> set (butlast (s # ts)). \<not> is_terminal x"
  by (induction rule: moves.induct) (auto dest: no_move_from_terminal)

text \<open>An intent for the concrete inputs of the development.\<close>

definition sample_content :: intent_content where
  "sample_content =
     \<lparr>ic_thesis = ''pinned'', ic_confidence = Some (7 / 10), ic_horizon = Expiry, ic_falsification = ''a print above'',
      ic_entry_kind = Taker, ic_entry_limit_price = None, ic_size_usdc = 6, ic_stop_price = Some (1 / 2),
      ic_take_profit_price = Some (9 / 10), ic_time_limit_at = None, ic_hold_to_settlement = False,
      ic_catastrophic_floor_pct = None\<rparr>"

end
