(* ===== verification/Retirement.thy ===== *)
theory Retirement
  imports Prelude
begin

text \<open>
  When a single-market squadron stands itself down: the game-over verdict of \<open>src/squadron/game_over.rs\<close>, the
  retirement rules of \<open>src/squadron/patrol_impl.rs\<close> and the part of the patrol tick that keeps the clocks they
  read.  The state is the tick's own variables; the answers of the venue, the ledger and the intent store in
  one tick, and the book and position facts it reads, are its input, taken at one instant.  Two ghost fields
  record what the venue answered and what each sports tick concluded, for the statements.
\<close>

section \<open>Is the game over?\<close>

datatype sports_book = AbsentBook int | LiveBook decimal

record sports_game_signals =
  sg_kick_off :: "utc option"
  sg_on_board :: bool
  sg_resolved_by_ledger :: bool
  sg_book :: sports_book

datatype game_over = GameResolved | BookDark int | BookDecided decimal

definition sports_game_over_verdict ::
    "utc \<Rightarrow> sports_game_signals \<Rightarrow> int \<Rightarrow> decimal \<Rightarrow> game_over option" where
  "sports_game_over_verdict now s after_kick_off_secs decided_bid =
     (if sg_on_board s then None
      else case sg_kick_off s of
          None \<Rightarrow> None
        | Some kick_off \<Rightarrow>
            if num_seconds (now - kick_off) < max after_kick_off_secs 0 then None
            else if sg_resolved_by_ledger s then Some GameResolved
            else case sg_book s of
                AbsentBook for_secs \<Rightarrow> Some (BookDark for_secs)
              | LiveBook top_bid \<Rightarrow> if decided_bid \<le> top_bid then Some (BookDecided top_bid) else None)"

definition sports_game_over_due :: "game_over option \<Rightarrow> int \<Rightarrow> int \<Rightarrow> bool \<Rightarrow> bool" where
  "sports_game_over_due verdict held_for_secs grace_secs holding_position =
     (if holding_position then False
      else case verdict of
          None \<Rightarrow> False
        | Some GameResolved \<Rightarrow> True
        | Some _ \<Rightarrow> grace_secs \<le> held_for_secs)"

section \<open>The retirement rules\<close>

datatype retire_reason = PastClose | VenueClosed | GameIsOver | HelmComplete

definition event_market_retire_due :: "bool \<Rightarrow> utc option \<Rightarrow> utc \<Rightarrow> int \<Rightarrow> bool \<Rightarrow> bool" where
  "event_market_retire_due single_market close_time now grace_secs holding_position =
     (if \<not> single_market \<or> holding_position then False
      else case close_time of None \<Rightarrow> False | Some close \<Rightarrow> grace_secs \<le> num_seconds (now - close))"

definition event_market_retire_reason ::
    "bool \<Rightarrow> utc option \<Rightarrow> utc \<Rightarrow> int \<Rightarrow> bool \<Rightarrow> bool option \<Rightarrow> int option \<Rightarrow> retire_reason option" where
  "event_market_retire_reason single_market close_time now grace_secs holding_position accepting closed_for =
     (if \<not> single_market \<or> holding_position then None
      else if (case closed_for of None \<Rightarrow> False | Some s \<Rightarrow> grace_secs \<le> s) then Some VenueClosed
      else if accepting = Some True then None
      else if event_market_retire_due True close_time now grace_secs False then Some PastClose
      else None)"

record intent_tally =
  it_total :: int
  it_open :: int

definition tally_complete :: "intent_tally \<Rightarrow> bool" where
  "tally_complete t \<longleftrightarrow> 0 < it_total t \<and> it_open t = 0"

definition helm_complete_retire_due :: "bool \<Rightarrow> intent_tally option \<Rightarrow> bool \<Rightarrow> bool" where
  "helm_complete_retire_due helm_squadron tally holding_position \<longleftrightarrow>
     helm_squadron \<and> \<not> holding_position \<and> (case tally of None \<Rightarrow> False | Some t \<Rightarrow> tally_complete t)"

section \<open>The patrol's part of it\<close>

definition event_market_status_poll_secs :: nat where
  "event_market_status_poll_secs = 60"

definition helm_intent_poll_secs :: nat where
  "helm_intent_poll_secs = 5"

record retire_input =
  ri_instant :: instant
  ri_now :: utc
  ri_class :: string
  ri_holding :: bool
  ri_grace :: int
  ri_close :: "utc option"
  ri_status :: "bool option"
  ri_ghosting :: bool
  ri_has_book :: bool
  ri_top_bid :: decimal
  ri_ledger :: bool
  ri_ledger_kick_off :: "utc option"
  ri_ledger_resolved :: bool
  ri_on_board :: bool
  ri_after_secs :: int
  ri_decided_bid :: decimal
  ri_intents :: "intent_tally option"

record retire_watch =
  rw_status_probed_at :: instant
  rw_accepting :: "bool option"
  rw_closed_since :: "instant option"
  rw_ghost_probed_at :: "instant option"
  rw_signals_probed_at :: instant
  rw_kick_off :: "utc option"
  rw_resolved :: bool
  rw_book_absent_since :: "instant option"
  rw_over_since :: "instant option"
  rw_intents_probed_at :: instant
  rw_tally :: "intent_tally option"
  rw_answers :: "(instant \<times> bool option) list"
  rw_verdicts :: "(instant \<times> game_over option) list"

definition patrol_start :: "instant \<Rightarrow> retire_watch" where
  "patrol_start now =
     \<lparr>rw_status_probed_at = now - from_secs event_market_status_poll_secs, rw_accepting = None,
      rw_closed_since = None, rw_ghost_probed_at = None,
      rw_signals_probed_at = now - from_secs event_market_status_poll_secs, rw_kick_off = None,
      rw_resolved = False, rw_book_absent_since = None, rw_over_since = None,
      rw_intents_probed_at = now - from_secs helm_intent_poll_secs, rw_tally = None,
      rw_answers = [], rw_verdicts = []\<rparr>"

definition held_for :: "instant \<Rightarrow> instant option \<Rightarrow> int option" where
  "held_for now since = map_option (\<lambda>t. int (elapsed_secs now t)) since"

definition probe_venue_status :: "retire_input \<Rightarrow> retire_watch \<Rightarrow> retire_watch" where
  "probe_venue_status i w =
     (if event_market_status_poll_secs \<le> elapsed_secs (ri_instant i) (rw_status_probed_at w)
      then let w = w\<lparr>rw_status_probed_at := ri_instant i, rw_answers := (ri_instant i, ri_status i) # rw_answers w\<rparr>
           in case ri_status i of
               None \<Rightarrow> w\<lparr>rw_accepting := None\<rparr>
             | Some True \<Rightarrow> w\<lparr>rw_accepting := Some True, rw_closed_since := None\<rparr>
             | Some False \<Rightarrow>
                 w\<lparr>rw_accepting := Some False,
                   rw_closed_since := (case rw_closed_since w of None \<Rightarrow> Some (ri_instant i) | s \<Rightarrow> s)\<rparr>
      else w)"

text \<open>The settlement of simulated positions itself is asked of the cleanup task.\<close>

definition ghost_settle_due :: "retire_input \<Rightarrow> retire_watch \<Rightarrow> bool" where
  "ghost_settle_due i w \<longleftrightarrow>
     ri_holding i \<and>
     (case rw_ghost_probed_at w of None \<Rightarrow> True
      | Some t \<Rightarrow> event_market_status_poll_secs \<le> elapsed_secs (ri_instant i) t) \<and>
     rw_accepting w = Some False \<and> ri_ghosting i"

definition probe_ghost_settlement :: "retire_input \<Rightarrow> retire_watch \<Rightarrow> retire_watch" where
  "probe_ghost_settlement i w =
     (if ghost_settle_due i w then w\<lparr>rw_ghost_probed_at := Some (ri_instant i)\<rparr> else w)"

definition note_book :: "retire_input \<Rightarrow> retire_watch \<Rightarrow> retire_watch" where
  "note_book i w =
     (if ri_has_book i then w\<lparr>rw_book_absent_since := None\<rparr>
      else if rw_book_absent_since w = None then w\<lparr>rw_book_absent_since := Some (ri_instant i)\<rparr>
      else w)"

definition probe_sports_signals :: "retire_input \<Rightarrow> retire_watch \<Rightarrow> retire_watch" where
  "probe_sports_signals i w =
     (if event_market_status_poll_secs \<le> elapsed_secs (ri_instant i) (rw_signals_probed_at w)
      then let w = w\<lparr>rw_signals_probed_at := ri_instant i\<rparr>
           in if ri_ledger i
              then w\<lparr>rw_kick_off := (case rw_kick_off w of None \<Rightarrow> ri_ledger_kick_off i | k \<Rightarrow> k),
                     rw_resolved := (rw_resolved w \<or> ri_ledger_resolved i)\<rparr>
              else w
      else w)"

definition game_signals :: "retire_input \<Rightarrow> retire_watch \<Rightarrow> sports_game_signals" where
  "game_signals i w =
     \<lparr>sg_kick_off = rw_kick_off w, sg_on_board = ri_on_board i, sg_resolved_by_ledger = rw_resolved w,
      sg_book = (if ri_has_book i then LiveBook (ri_top_bid i)
                 else AbsentBook (case held_for (ri_instant i) (rw_book_absent_since w) of None \<Rightarrow> 0 | Some s \<Rightarrow> s))\<rparr>"

definition note_verdict :: "retire_input \<Rightarrow> game_over option \<Rightarrow> retire_watch \<Rightarrow> retire_watch" where
  "note_verdict i v w =
     w\<lparr>rw_over_since := (if v = None then None
                        else case rw_over_since w of None \<Rightarrow> Some (ri_instant i) | s \<Rightarrow> s),
       rw_verdicts := (ri_instant i, v) # rw_verdicts w\<rparr>"

definition probe_game_over :: "retire_input \<Rightarrow> retire_watch \<Rightarrow> bool \<times> retire_watch" where
  "probe_game_over i w =
     (if ri_class i = ''sports''
      then let w = probe_sports_signals i (note_book i w);
               v = sports_game_over_verdict (ri_now i) (game_signals i w) (ri_after_secs i) (ri_decided_bid i);
               w = note_verdict i v w;
               held = (case held_for (ri_instant i) (rw_over_since w) of None \<Rightarrow> 0 | Some s \<Rightarrow> s)
           in (sports_game_over_due v held (ri_grace i) (ri_holding i), w)
      else (False, w))"

definition helm_kind :: string where
  "helm_kind = ''helm''"

definition probe_helm :: "retire_input \<Rightarrow> retire_watch \<Rightarrow> bool \<times> retire_watch" where
  "probe_helm i w =
     (if ri_class i = helm_kind
      then let w = (if helm_intent_poll_secs \<le> elapsed_secs (ri_instant i) (rw_intents_probed_at w)
                    then w\<lparr>rw_intents_probed_at := ri_instant i,
                           rw_tally := (case ri_intents i of None \<Rightarrow> rw_tally w | t \<Rightarrow> t)\<rparr>
                    else w)
           in (helm_complete_retire_due True (rw_tally w) (ri_holding i), w)
      else (False, w))"

definition retire_tick :: "retire_input \<Rightarrow> retire_watch \<Rightarrow> retire_reason option \<times> retire_watch" where
  "retire_tick i w =
     (let w = probe_venue_status i w;
          closed_for = held_for (ri_instant i) (rw_closed_since w);
          w = probe_ghost_settlement i w;
          (over_due, w) = probe_game_over i w;
          (helm_due, w) = probe_helm i w;
          market = event_market_retire_reason True (ri_close i) (ri_now i) (ri_grace i) (ri_holding i)
            (rw_accepting w) closed_for
      in (if market \<noteq> None then market
          else if over_due then Some GameIsOver
          else if helm_due then Some HelmComplete
          else None, w))"

text \<open>What retiring does, in order.\<close>

datatype retire_action =
    CloseOpenIntents string
  | EnterMarketRotate
  | CancelAllOrders
  | StandDown
  | RetireFromCag
  | CancelWebsocket
  | ForgetBookFeed

definition retire_actions :: "string \<Rightarrow> retire_reason \<Rightarrow> retire_action list" where
  "retire_actions cls reason =
     (let intent_reason = (case reason of
            HelmComplete \<Rightarrow> None
          | PastClose \<Rightarrow> Some ''market closed''
          | VenueClosed \<Rightarrow> Some ''market closed''
          | GameIsOver \<Rightarrow> Some ''game over'')
      in (if cls = helm_kind then (case intent_reason of None \<Rightarrow> [] | Some r \<Rightarrow> [CloseOpenIntents r]) else []) @
         [EnterMarketRotate, CancelAllOrders, StandDown, RetireFromCag, CancelWebsocket, ForgetBookFeed])"

text \<open>The loop ends at the first tick that retires.\<close>

fun patrol :: "retire_input list \<Rightarrow> retire_watch \<Rightarrow> retire_reason option \<times> retire_watch" where
  "patrol [] w = (None, w)"
| "patrol (i # is) w =
     (case retire_tick i w of
        (Some r, w') \<Rightarrow> (Some r, w')
      | (None, w') \<Rightarrow> patrol is w')"

section \<open>What the watch remembers\<close>

lemmas watch_defs = probe_venue_status_def probe_ghost_settlement_def note_book_def probe_sports_signals_def
  note_verdict_def

text \<open>The clocks are the history's: a standing \<open>closed\<close> clock started at an answer \<open>no\<close> after which no \<open>yes\<close> came,
  and a standing \<open>over\<close> clock started at a tick that read as over and every later one did.\<close>

definition watch_inv :: "instant \<Rightarrow> retire_watch \<Rightarrow> bool" where
  "watch_inv now w \<longleftrightarrow>
     (\<forall>x \<in> set (rw_answers w). fst x \<le> now) \<and> (\<forall>x \<in> set (rw_verdicts w). fst x \<le> now) \<and>
     (\<forall>t. rw_closed_since w = Some t \<longrightarrow>
        (t, Some False) \<in> set (rw_answers w) \<and> (\<forall>(t', a) \<in> set (rw_answers w). t < t' \<longrightarrow> a \<noteq> Some True)) \<and>
     (\<forall>t. rw_over_since w = Some t \<longrightarrow>
        (\<exists>v. (t, Some v) \<in> set (rw_verdicts w)) \<and> (\<forall>(t', v) \<in> set (rw_verdicts w). t < t' \<longrightarrow> v \<noteq> None))"

lemma watch_inv_start: "watch_inv now (patrol_start now)"
  by (simp add: watch_inv_def patrol_start_def)

lemma watch_inv_later: "watch_inv now w \<Longrightarrow> now \<le> now' \<Longrightarrow> watch_inv now' w"
  by (auto simp: watch_inv_def)

lemma watch_inv_status: "watch_inv (ri_instant i) w \<Longrightarrow> watch_inv (ri_instant i) (probe_venue_status i w)"
  by (fastforce simp: watch_inv_def probe_venue_status_def Let_def split: option.splits bool.splits)

lemma watch_inv_verdict: "watch_inv (ri_instant i) w \<Longrightarrow> watch_inv (ri_instant i) (note_verdict i v w)"
  by (cases v; cases "rw_over_since w") (fastforce simp: watch_inv_def note_verdict_def)+

lemma watch_inv_frame:
  "watch_inv now (probe_ghost_settlement i w) = watch_inv now w"
  "watch_inv now (note_book i w) = watch_inv now w"
  "watch_inv now (probe_sports_signals i w) = watch_inv now w"
  "watch_inv now (snd (probe_helm i w)) = watch_inv now w"
  by (simp_all add: watch_inv_def watch_defs probe_helm_def Let_def)

lemma watch_inv_game: "watch_inv (ri_instant i) w \<Longrightarrow> watch_inv (ri_instant i) (snd (probe_game_over i w))"
  by (simp add: probe_game_over_def Let_def watch_inv_verdict watch_inv_frame)

lemma retire_tick_snd:
  "snd (retire_tick i w) = snd (probe_helm i (snd (probe_game_over i (probe_ghost_settlement i (probe_venue_status i w)))))"
  by (simp add: retire_tick_def Let_def split_beta)

lemma watch_inv_tick:
  "watch_inv now w \<Longrightarrow> now \<le> ri_instant i \<Longrightarrow> watch_inv (ri_instant i) (snd (retire_tick i w))"
  using watch_inv_game [of i "probe_ghost_settlement i (probe_venue_status i w)"] watch_inv_status [of i w]
    watch_inv_later [of now w "ri_instant i"]
  by (simp add: retire_tick_snd watch_inv_frame)

lemma patrol_ends:
  assumes "patrol is w = (Some r, w')" "sorted (map ri_instant is)" "\<And>i. i \<in> set is \<Longrightarrow> now \<le> ri_instant i"
    "watch_inv now w"
  shows "\<exists>i \<in> set is. \<exists>v. retire_tick i v = (Some r, w') \<and> watch_inv (ri_instant i) w'"
  using assms
proof (induction "is" arbitrary: w now)
  case (Cons i "is")
  have inv: "watch_inv (ri_instant i) (snd (retire_tick i w))"
    using Cons.prems(3,4) watch_inv_tick [of now w i] by simp
  show ?case
  proof (cases "fst (retire_tick i w)")
    case None
    then have "patrol is (snd (retire_tick i w)) = (Some r, w')"
      using Cons.prems(1) by (cases "retire_tick i w") simp
    from Cons.IH [OF this _ _ inv] Cons.prems(2) show ?thesis by auto
  next
    case (Some q)
    then have "retire_tick i w = (Some r, w')" using Cons.prems(1) by (cases "retire_tick i w") simp
    with inv show ?thesis by auto
  qed
qed simp

section \<open>Why a squadron retires\<close>

lemma tick_frame:
  "rw_closed_since (snd (probe_helm i w)) = rw_closed_since w"
  "rw_accepting (snd (probe_helm i w)) = rw_accepting w"
  "rw_over_since (snd (probe_helm i w)) = rw_over_since w"
  "rw_verdicts (snd (probe_helm i w)) = rw_verdicts w"
  "rw_closed_since (snd (probe_game_over i w)) = rw_closed_since w"
  "rw_accepting (snd (probe_game_over i w)) = rw_accepting w"
  "rw_closed_since (probe_ghost_settlement i w) = rw_closed_since w"
  "rw_accepting (probe_ghost_settlement i w) = rw_accepting w"
  by (simp_all add: probe_helm_def probe_game_over_def watch_defs Let_def)

lemma retire_tick_reason:
  "fst (retire_tick i w) =
     (let w' = snd (retire_tick i w);
          g = probe_ghost_settlement i (probe_venue_status i w);
          market = event_market_retire_reason True (ri_close i) (ri_now i) (ri_grace i) (ri_holding i)
            (rw_accepting w') (held_for (ri_instant i) (rw_closed_since w'))
      in if market \<noteq> None then market
         else if fst (probe_game_over i g) then Some GameIsOver
         else if fst (probe_helm i (snd (probe_game_over i g))) then Some HelmComplete
         else None)"
  by (simp add: retire_tick_def Let_def split_beta tick_frame)

lemma game_over_due:
  assumes "fst (probe_game_over i w)"
  shows "\<not> ri_holding i \<and> ri_class i = ''sports'' \<and> \<not> ri_on_board i \<and>
    (\<exists>v. (ri_instant i, Some v) \<in> set (rw_verdicts (snd (probe_game_over i w))) \<and>
      (v = GameResolved \<or>
       (\<exists>t. rw_over_since (snd (probe_game_over i w)) = Some t \<and> ri_grace i \<le> int (elapsed_secs (ri_instant i) t))))"
  using assms
  by (auto simp: probe_game_over_def note_verdict_def sports_game_over_due_def held_for_def game_signals_def
      sports_game_over_verdict_def Let_def split: if_splits option.splits game_over.splits sports_book.splits)

definition retire_grounds :: "retire_reason \<Rightarrow> retire_input \<Rightarrow> retire_watch \<Rightarrow> bool" where
  "retire_grounds r i w =
     (case r of
        VenueClosed \<Rightarrow> (\<exists>t. rw_closed_since w = Some t \<and> ri_grace i \<le> int (elapsed_secs (ri_instant i) t))
      | PastClose \<Rightarrow> rw_accepting w \<noteq> Some True \<and>
          (\<exists>c. ri_close i = Some c \<and> ri_grace i \<le> num_seconds (ri_now i - c))
      | GameIsOver \<Rightarrow> ri_class i = ''sports'' \<and> \<not> ri_on_board i \<and>
          (\<exists>v. (ri_instant i, Some v) \<in> set (rw_verdicts w) \<and>
            (v = GameResolved \<or>
             (\<exists>t. rw_over_since w = Some t \<and> ri_grace i \<le> int (elapsed_secs (ri_instant i) t))))
      | HelmComplete \<Rightarrow> ri_class i = helm_kind \<and> (\<exists>t. rw_tally w = Some t \<and> tally_complete t))"

lemma retire_tick_grounds:
  assumes "retire_tick i w = (Some r, w')"
  shows "\<not> ri_holding i \<and> retire_grounds r i w'"
proof -
  let ?g = "probe_ghost_settlement i (probe_venue_status i w)"
  let ?h = "snd (probe_game_over i ?g)"
  let ?m = "event_market_retire_reason True (ri_close i) (ri_now i) (ri_grace i) (ri_holding i)
    (rw_accepting w') (held_for (ri_instant i) (rw_closed_since w'))"
  have w': "w' = snd (probe_helm i ?h)" using assms retire_tick_snd [of i w] by simp
  have "Some r = (if ?m \<noteq> None then ?m else if fst (probe_game_over i ?g) then Some GameIsOver
      else if fst (probe_helm i ?h) then Some HelmComplete else None)"
    using retire_tick_reason [of i w] assms by (simp add: Let_def)
  then consider "?m = Some r" | "fst (probe_game_over i ?g)" "r = GameIsOver"
    | "fst (probe_helm i ?h)" "r = HelmComplete" by (auto split: if_splits)
  then show ?thesis
  proof cases
    case 1
    then show ?thesis
      by (auto simp: event_market_retire_reason_def event_market_retire_due_def retire_grounds_def held_for_def
          split: if_splits option.splits)
  next
    case 2
    from game_over_due [OF 2(1)] show ?thesis using 2(2) by (auto simp: retire_grounds_def w' tick_frame)
  next
    case 3
    then show ?thesis
      by (auto simp: probe_helm_def helm_complete_retire_due_def retire_grounds_def w' Let_def
          split: if_splits option.splits)
  qed
qed


definition dead_game_tick :: "int \<Rightarrow> retire_input" where
  "dead_game_tick secs =
     \<lparr>ri_instant = secs * nanos_per_sec, ri_now = (20000 + secs) * nanos_per_sec, ri_class = ''sports'',
      ri_holding = False, ri_grace = 300, ri_close = None, ri_status = Some True, ri_ghosting = False,
      ri_has_book = True, ri_top_bid = 999 / 1000, ri_ledger = True, ri_ledger_kick_off = Some 0,
      ri_ledger_resolved = False, ri_on_board = False, ri_after_secs = 10800, ri_decided_bid = 99 / 100,
      ri_intents = None\<rparr>"

lemmas retire_eval = dead_game_tick_def patrol_start_def retire_tick_def probe_venue_status_def
  probe_ghost_settlement_def ghost_settle_due_def probe_game_over_def probe_sports_signals_def note_book_def
  note_verdict_def game_signals_def sports_game_over_verdict_def sports_game_over_due_def held_for_def
  probe_helm_def helm_kind_def event_market_retire_reason_def event_market_retire_due_def
  event_market_status_poll_secs_def elapsed_secs_def from_secs_def nanos_per_sec_def num_seconds_def Let_def

lemma dead_game_retires:
  "fst (patrol [dead_game_tick 0, dead_game_tick 300] (patrol_start 0)) = Some GameIsOver"
  by (simp add: retire_eval)


text \<open>The clocks are continuous: over a patrol with rising instants, a squadron retires as venue-closed only if the
  venue answered \<open>no\<close> at least the grace ago and never \<open>yes\<close> since; and as game-over only if the resolution is
  recorded or the game read as over at a tick at least the grace ago and at every sports tick since.\<close>

theorem retirement_clocks_continuous:
  assumes "patrol is (patrol_start t0) = (Some r, w)" "sorted (map ri_instant is)"
    "\<And>i. i \<in> set is \<Longrightarrow> t0 \<le> ri_instant i"
  shows "(r = VenueClosed \<longrightarrow> (\<exists>i \<in> set is. \<exists>t. (t, Some False) \<in> set (rw_answers w) \<and>
      ri_grace i \<le> int (elapsed_secs (ri_instant i) t) \<and>
      (\<forall>(t', a) \<in> set (rw_answers w). t < t' \<longrightarrow> a \<noteq> Some True))) \<and>
    (r = GameIsOver \<longrightarrow> (\<exists>i \<in> set is. (ri_instant i, Some GameResolved) \<in> set (rw_verdicts w) \<or>
      (\<exists>t v. (t, Some v) \<in> set (rw_verdicts w) \<and> ri_grace i \<le> int (elapsed_secs (ri_instant i) t) \<and>
        (\<forall>(t', v) \<in> set (rw_verdicts w). t < t' \<longrightarrow> v \<noteq> None))))"
proof -
  obtain i v where i: "i \<in> set is" "retire_tick i v = (Some r, w)" "watch_inv (ri_instant i) w"
    using patrol_ends [OF assms(1,2) assms(3) watch_inv_start] by blast
  then have grounds: "retire_grounds r i w" using retire_tick_grounds by blast
  have closed: "\<exists>i \<in> set is. \<exists>t. (t, Some False) \<in> set (rw_answers w) \<and>
      ri_grace i \<le> int (elapsed_secs (ri_instant i) t) \<and>
      (\<forall>(t', a) \<in> set (rw_answers w). t < t' \<longrightarrow> a \<noteq> Some True)" if "r = VenueClosed"
  proof -
    obtain t where t: "rw_closed_since w = Some t" "ri_grace i \<le> int (elapsed_secs (ri_instant i) t)"
      using grounds \<open>r = VenueClosed\<close> by (auto simp: retire_grounds_def)
    then have "(t, Some False) \<in> set (rw_answers w) \<and> (\<forall>(t', a) \<in> set (rw_answers w). t < t' \<longrightarrow> a \<noteq> Some True)"
      using i(3) unfolding watch_inv_def by blast
    with t(2) i(1) show ?thesis by blast
  qed
  have over: "\<exists>i \<in> set is. (ri_instant i, Some GameResolved) \<in> set (rw_verdicts w) \<or>
      (\<exists>t v. (t, Some v) \<in> set (rw_verdicts w) \<and> ri_grace i \<le> int (elapsed_secs (ri_instant i) t) \<and>
        (\<forall>(t', v) \<in> set (rw_verdicts w). t < t' \<longrightarrow> v \<noteq> None))" if "r = GameIsOver"
  proof (cases "(ri_instant i, Some GameResolved) \<in> set (rw_verdicts w)")
    case False
    then obtain t where t: "rw_over_since w = Some t" "ri_grace i \<le> int (elapsed_secs (ri_instant i) t)"
      using grounds \<open>r = GameIsOver\<close> by (auto simp: retire_grounds_def)
    then have "(\<exists>v. (t, Some v) \<in> set (rw_verdicts w)) \<and>
        (\<forall>(t', v) \<in> set (rw_verdicts w). t < t' \<longrightarrow> v \<noteq> None)"
      using i(3) unfolding watch_inv_def by blast
    with t(2) i(1) show ?thesis by blast
  qed (use i(1) in blast)
  show ?thesis using closed over by blast
qed

theorem retirement_clocks_continuous_witness:
  "\<exists>i \<in> set [dead_game_tick 0, dead_game_tick 300].
     (ri_instant i, Some GameResolved) \<in> set (rw_verdicts (snd (patrol [dead_game_tick 0, dead_game_tick 300] (patrol_start 0)))) \<or>
     (\<exists>t v. (t, Some v) \<in> set (rw_verdicts (snd (patrol [dead_game_tick 0, dead_game_tick 300] (patrol_start 0)))) \<and>
        ri_grace i \<le> int (elapsed_secs (ri_instant i) t) \<and>
        (\<forall>(t', v) \<in> set (rw_verdicts (snd (patrol [dead_game_tick 0, dead_game_tick 300] (patrol_start 0)))).
           t < t' \<longrightarrow> v \<noteq> None))"
proof -
  have run: "patrol [dead_game_tick 0, dead_game_tick 300] (patrol_start 0) =
      (Some GameIsOver, snd (patrol [dead_game_tick 0, dead_game_tick 300] (patrol_start 0)))"
    using dead_game_retires by (metis prod.collapse)
  have rising: "sorted (map ri_instant [dead_game_tick 0, dead_game_tick 300])"
    by (simp add: dead_game_tick_def nanos_per_sec_def)
  have start: "0 \<le> ri_instant i" if "i \<in> set [dead_game_tick 0, dead_game_tick 300]" for i
    using that by (auto simp: dead_game_tick_def nanos_per_sec_def)
  from retirement_clocks_continuous [OF run rising start] show ?thesis by blast
qed

section \<open>No squadron lingers\<close>

lemma due_probe_retires:
  assumes "\<not> ri_holding i" "ri_close i = Some c" "ri_grace i \<le> num_seconds (ri_now i - c)" "ri_status i \<noteq> Some True"
    "event_market_status_poll_secs \<le> elapsed_secs (ri_instant i) (rw_status_probed_at w)"
  shows "fst (retire_tick i w) \<noteq> None"
proof -
  have "rw_accepting (snd (retire_tick i w)) \<noteq> Some True"
    using assms(4,5) by (auto simp: retire_tick_snd tick_frame probe_venue_status_def Let_def split: option.splits bool.splits)
  then show ?thesis
    using assms(1-3)
    by (simp add: retire_tick_reason Let_def event_market_retire_reason_def event_market_retire_due_def)
qed

lemma early_probe_kept:
  "\<not> event_market_status_poll_secs \<le> elapsed_secs (ri_instant i) (rw_status_probed_at w) \<Longrightarrow>
     rw_status_probed_at (snd (retire_tick i w)) = rw_status_probed_at w"
  by (simp add: retire_tick_snd probe_helm_def probe_game_over_def watch_defs Let_def)

text \<open>No squadron lingers on a dead market: if every tick of a stretch is flat, past the stated close by its grace,
  and finds the venue silent or closed whenever it asks, then the patrol retires within the stretch as soon as
  it holds one tick a minute after the last probe; a venue that stops answering cannot pin the squadron.\<close>

theorem dead_market_is_left:
  assumes "\<And>i. i \<in> set is \<Longrightarrow> \<not> ri_holding i \<and> ri_status i \<noteq> Some True \<and>
      (\<exists>c. ri_close i = Some c \<and> ri_grace i \<le> num_seconds (ri_now i - c))"
    and "j \<in> set is" "rw_status_probed_at w + from_secs 60 \<le> ri_instant j"
  shows "fst (patrol is w) \<noteq> None"
  using assms
proof (induction "is" arbitrary: w)
  case (Cons i "is")
  show ?case
  proof (cases "fst (retire_tick i w)")
    case (Some r)
    then show ?thesis by (cases "retire_tick i w") simp
  next
    case None
    then have early: "\<not> event_market_status_poll_secs \<le> elapsed_secs (ri_instant i) (rw_status_probed_at w)"
      using due_probe_retires Cons.prems(1) [of i] by fastforce
    then have "j \<noteq> i"
      using Cons.prems(3) elapsed_secs_ge_iff [of 60 "ri_instant i" "rw_status_probed_at w"]
      by (auto simp: event_market_status_poll_secs_def)
    then have "fst (patrol is (snd (retire_tick i w))) \<noteq> None"
      using Cons.prems Cons.IH [of "snd (retire_tick i w)"] early_probe_kept [OF early] by simp
    then show ?thesis using None by (cases "retire_tick i w") simp
  qed
qed simp

theorem dead_market_is_left_witness:
  "fst (patrol [dead_game_tick 0\<lparr>ri_status := None, ri_close := Some 0\<rparr>] (patrol_start 0)) \<noteq> None"
  by (rule dead_market_is_left [where j = "dead_game_tick 0\<lparr>ri_status := None, ri_close := Some 0\<rparr>"])
    (simp_all add: retire_eval)

text \<open>One \<open>no\<close> is enough: the clock of a closed venue is not stopped when the venue falls silent, so a single
  answer \<open>no\<close> followed by probes that get no answer retires the squadron as venue-closed after the grace,
  although its last answer is forgotten and its market has no stated close.\<close>

theorem silence_after_a_no_retires:
  "let i = dead_game_tick 0\<lparr>ri_class := ''politics'', ri_status := Some False\<rparr>;
       j = dead_game_tick 60\<lparr>ri_class := ''politics'', ri_status := None\<rparr>;
       k = dead_game_tick 300\<lparr>ri_class := ''politics'', ri_status := None\<rparr>
   in fst (patrol [i, j, k] (patrol_start 0)) = Some VenueClosed \<and>
      rw_accepting (snd (patrol [i, j, k] (patrol_start 0))) = None"
  by (simp add: retire_eval)

end
