(* ===== verification/Helm_Intents.thy ===== *)
theory Helm_Intents
  imports Helm_Content Retirement
begin

text \<open>
  The intents of the operator in the database, \<open>src/helpers/helm.rs\<close>: the three tables of intents, revisions and
  events with the columns of positions and trades that point at them, and every write and read.
  A statement is one call of the database; whether the n-th call succeeds is a function in the state, so a
  statement about every such function covers every pattern of failures, a crash included.  An
  operation is a chain of statements that stops at the first failure and keeps what was written.
  The clock does not move during an operation.  A time is stored as itself, as is a decimal.
\<close>

section \<open>Tables\<close>

record new_intent =
  ni_squadron_id :: string
  ni_market_id :: string
  ni_market_name :: string
  ni_side :: string
  ni_content :: intent_content
  ni_ghost :: bool
  ni_venue :: string

record helm_intent =
  hi_id :: nat
  hi_squadron_id :: string
  hi_market_id :: string
  hi_market_name :: string
  hi_side :: string
  hi_first :: intent_content
  hi_current_version :: nat
  hi_status :: intent_status
  hi_status_detail :: "string option"
  hi_critique :: "string option"
  hi_critique_at :: "utc option"
  hi_critique_model :: "string option"
  hi_superseded_by :: "nat option"
  hi_close_reason :: "string option"
  hi_ghost :: bool
  hi_venue :: string
  hi_session_id :: string
  hi_created_at :: utc
  hi_acknowledged_at :: "utc option"
  hi_updated_at :: utc
  hi_closed_at :: "utc option"
  hi_token_id :: "string option"
  hi_entry_price :: "decimal option"
  hi_entry_shares :: "decimal option"
  hi_working_at :: "utc option"
  hi_fee_verdict :: "verdict_text option"
  hi_critique_requested_at :: "utc option"
  hi_critique_outcome :: "string option"

record intent_revision =
  iv_intent_id :: nat
  iv_version :: nat
  iv_reason :: string
  iv_content :: intent_content
  iv_created_at :: utc

record intent_event =
  ie_intent_id :: nat
  ie_at :: utc
  ie_from_status :: "intent_status option"
  ie_to_status :: intent_status
  ie_detail :: "string option"

record position_row =
  pr_token_id :: string
  pr_strategy :: string
  pr_squadron_id :: string
  pr_shares :: "decimal option"
  pr_intent_id :: "nat option"

record trade_row =
  tr_id :: nat
  tr_strategy :: string
  tr_market :: string
  tr_side :: string
  tr_intent_id :: "nat option"

record helm_db =
  db_intents :: "helm_intent list"
  db_revisions :: "intent_revision list"
  db_events :: "intent_event list"
  db_positions :: "position_row list"
  db_trades :: "trade_row list"
  db_last_rowid :: nat
  db_session :: string
  db_now :: utc
  db_ok :: "nat \<Rightarrow> bool"
  db_calls :: nat

datatype helm_error =
    Malformed "shape_error list"
  | Not_found nat
  | Cannot_move nat intent_status intent_status
  | Cannot_revise nat intent_status
  | Cannot_supersede nat intent_status
  | Needs_reason
  | Bad_outcome string
  | Not_resolved nat intent_status
  | Statement_failed

type_synonym 'a helm_op = "helm_db \<Rightarrow> (helm_error + 'a) \<times> helm_db"

section \<open>Statements\<close>

definition tick :: "helm_db \<Rightarrow> helm_db" where
  "tick db = db\<lparr>db_calls := Suc (db_calls db)\<rparr>"

definition succeeds :: "helm_db \<Rightarrow> bool" where
  "succeeds db = db_ok db (db_calls db)"

definition exec :: "(helm_db \<Rightarrow> helm_db) \<Rightarrow> unit helm_op" where
  "exec upd db = (if succeeds db then (Inr (), upd (tick db)) else (Inl Statement_failed, tick db))"

definition query :: "(helm_db \<Rightarrow> 'a) \<Rightarrow> 'a helm_op" where
  "query read db = (if succeeds db then (Inr (read (tick db)), tick db) else (Inl Statement_failed, tick db))"

text \<open>A read whose failure reads as the given value.\<close>

definition query_or :: "'a \<Rightarrow> (helm_db \<Rightarrow> 'a) \<Rightarrow> helm_db \<Rightarrow> 'a \<times> helm_db" where
  "query_or x read db = (if succeeds db then read (tick db) else x, tick db)"

definition ret :: "'a \<Rightarrow> 'a helm_op" where
  "ret x db = (Inr x, db)"

definition fail :: "helm_error \<Rightarrow> 'a helm_op" where
  "fail e db = (Inl e, db)"

definition and_then :: "'a helm_op \<Rightarrow> ('a \<Rightarrow> 'b helm_op) \<Rightarrow> 'b helm_op" where
  "and_then m k db =
     (case m db of (Inl e, db') \<Rightarrow> (Inl e, db') | (Inr x, db') \<Rightarrow> k x db')"

text \<open>A transaction: a failure inside it leaves every table as it was when the transaction began.\<close>

definition transaction :: "'a helm_op \<Rightarrow> 'a helm_op" where
  "transaction body db =
     (case and_then (exec id) (\<lambda>_. and_then body (\<lambda>x. and_then (exec id) (\<lambda>_. ret x))) db of
        (Inr x, db') \<Rightarrow> (Inr x, db')
      | (Inl e, db') \<Rightarrow> (Inl e, db\<lparr>db_calls := db_calls db'\<rparr>))"

definition update_intent :: "nat \<Rightarrow> (helm_intent \<Rightarrow> helm_intent) \<Rightarrow> helm_db \<Rightarrow> helm_db" where
  "update_intent i f db = db\<lparr>db_intents := map (\<lambda>r. if hi_id r = i then f r else r) (db_intents db)\<rparr>"

definition find_intent :: "nat \<Rightarrow> helm_db \<Rightarrow> helm_intent option" where
  "find_intent i db = find (\<lambda>r. hi_id r = i) (db_intents db)"

definition add_event :: "nat \<Rightarrow> intent_status option \<Rightarrow> intent_status \<Rightarrow> string option \<Rightarrow> helm_db \<Rightarrow> helm_db" where
  "add_event i from to detail db =
     db\<lparr>db_events := db_events db @
        [\<lparr>ie_intent_id = i, ie_at = db_now db, ie_from_status = from, ie_to_status = to, ie_detail = detail\<rparr>]\<rparr>"

definition new_row :: "new_intent \<Rightarrow> helm_db \<Rightarrow> helm_intent" where
  "new_row new db =
     \<lparr>hi_id = Suc (db_last_rowid db), hi_squadron_id = ni_squadron_id new, hi_market_id = ni_market_id new,
      hi_market_name = ni_market_name new, hi_side = to_ascii_uppercase (trim (ni_side new)),
      hi_first = ni_content new, hi_current_version = 1, hi_status = Proposed, hi_status_detail = None,
      hi_critique = None, hi_critique_at = None, hi_critique_model = None, hi_superseded_by = None,
      hi_close_reason = None, hi_ghost = ni_ghost new, hi_venue = ni_venue new, hi_session_id = db_session db,
      hi_created_at = db_now db, hi_acknowledged_at = None, hi_updated_at = db_now db, hi_closed_at = None,
      hi_token_id = None, hi_entry_price = None, hi_entry_shares = None, hi_working_at = None,
      hi_fee_verdict = None, hi_critique_requested_at = None, hi_critique_outcome = None\<rparr>"

definition insert_intent :: "new_intent \<Rightarrow> helm_db \<Rightarrow> helm_db" where
  "insert_intent new db =
     db\<lparr>db_intents := db_intents db @ [new_row new db], db_last_rowid := Suc (db_last_rowid db)\<rparr>"

section \<open>Writes\<close>

definition get :: "nat \<Rightarrow> helm_intent option helm_op" where
  "get i = query (find_intent i)"

definition get_existing :: "nat \<Rightarrow> helm_intent helm_op" where
  "get_existing i = and_then (get i) (\<lambda>r. case r of None \<Rightarrow> fail (Not_found i) | Some r \<Rightarrow> ret r)"

definition record_event :: "nat \<Rightarrow> intent_status option \<Rightarrow> intent_status \<Rightarrow> string option \<Rightarrow> unit helm_op" where
  "record_event i from to detail = exec (add_event i from to detail)"

definition create :: "new_intent \<Rightarrow> nat helm_op" where
  "create new db =
     (let errs = shape_check (ni_side new) (ni_content new) in
      if errs \<noteq> [] then (Inl (Malformed errs), db)
      else (let i = Suc (db_last_rowid db) in
            and_then (exec (insert_intent new)) (\<lambda>_.
            and_then (record_event i None Proposed None) (\<lambda>_. ret i)) db))"

definition moved :: "utc \<Rightarrow> intent_status \<Rightarrow> string option \<Rightarrow> helm_intent \<Rightarrow> helm_intent" where
  "moved now to detail r =
     r\<lparr>hi_status := to, hi_status_detail := detail, hi_updated_at := now,
       hi_acknowledged_at := (if to = Acknowledged then Some now else hi_acknowledged_at r),
       hi_closed_at := (if is_terminal to then Some now else hi_closed_at r),
       hi_close_reason :=
         (if to = Closed then Some (case detail of None \<Rightarrow> ''closed'' | Some d \<Rightarrow> d) else hi_close_reason r)\<rparr>"

text \<open>The statements of a move, after the row was read and the move found legal; the row is not read again.\<close>

definition write_move :: "helm_intent \<Rightarrow> intent_status \<Rightarrow> string option \<Rightarrow> helm_intent helm_op" where
  "write_move cur to detail =
     and_then (exec (\<lambda>db. update_intent (hi_id cur) (moved (db_now db) to detail) db)) (\<lambda>_.
     and_then (record_event (hi_id cur) (Some (hi_status cur)) to detail) (\<lambda>_.
     get_existing (hi_id cur)))"

definition transition :: "nat \<Rightarrow> intent_status \<Rightarrow> string option \<Rightarrow> helm_intent helm_op" where
  "transition i to detail =
     and_then (get_existing i) (\<lambda>cur.
     if \<not> can_transition_to (hi_status cur) to then fail (Cannot_move i (hi_status cur) to)
     else write_move cur to detail)"

definition insert_revision :: "nat \<Rightarrow> nat \<Rightarrow> intent_content \<Rightarrow> string \<Rightarrow> unit helm_op" where
  "insert_revision i version content reason db =
     (if list_ex (\<lambda>v. iv_intent_id v = i \<and> iv_version v = version) (db_revisions db)
      then (Inl Statement_failed, tick db)
      else exec (\<lambda>db. db\<lparr>db_revisions := db_revisions db @
             [\<lparr>iv_intent_id = i, iv_version = version, iv_reason = trim reason, iv_content = content,
               iv_created_at = db_now db\<rparr>]\<rparr>) db)"

definition set_version :: "nat \<Rightarrow> nat \<Rightarrow> unit helm_op" where
  "set_version i version =
     exec (\<lambda>db. update_intent i (\<lambda>r. r\<lparr>hi_current_version := version, hi_updated_at := db_now db\<rparr>) db)"

definition revise :: "nat \<Rightarrow> intent_content \<Rightarrow> string \<Rightarrow> nat helm_op" where
  "revise i content reason =
     and_then (get_existing i) (\<lambda>cur.
     if is_terminal (hi_status cur) then fail (Cannot_revise i (hi_status cur))
     else if shape_check (hi_side cur) content \<noteq> [] then fail (Malformed (shape_check (hi_side cur) content))
     else if trim reason = [] then fail Needs_reason
     else (let version = Suc (hi_current_version cur) in
           transaction (and_then (insert_revision i version content reason) (\<lambda>_.
                        and_then (set_version i version) (\<lambda>_. ret version)))))"

definition supersede :: "nat \<Rightarrow> new_intent \<Rightarrow> string \<Rightarrow> nat helm_op" where
  "supersede old_id new reason =
     and_then (get_existing old_id) (\<lambda>old.
     if is_terminal (hi_status old) then fail (Cannot_supersede old_id (hi_status old))
     else if trim reason = [] then fail Needs_reason
     else and_then (create new) (\<lambda>new_id.
          and_then (exec (update_intent old_id (\<lambda>r. r\<lparr>hi_superseded_by := Some new_id\<rparr>))) (\<lambda>_.
          and_then (transition old_id Superseded (Some (trim reason))) (\<lambda>_. ret new_id))))"

definition mark_working ::
  "(nat \<Rightarrow> decimal \<Rightarrow> string) \<Rightarrow> nat \<Rightarrow> string \<Rightarrow> decimal \<Rightarrow> decimal \<Rightarrow> helm_intent helm_op" where
  "mark_working show i token price shares =
     and_then (transition i Working
       (Some (''entry to the book: '' @ show 4 shares @ '' shares @ $'' @ show 4 price))) (\<lambda>_.
     and_then (exec (\<lambda>db. update_intent i (\<lambda>r. r\<lparr>hi_token_id := Some token, hi_entry_price := Some price,
         hi_entry_shares := Some shares, hi_working_at := Some (db_now db)\<rparr>) db)) (\<lambda>_.
     get_existing i))"

text \<open>Rows newest first; the open ones are those whose status is not terminal.\<close>

definition squadron_rows :: "string \<Rightarrow> bool \<Rightarrow> helm_db \<Rightarrow> helm_intent list" where
  "squadron_rows squadron include_terminal db =
     rev (sort_key hi_id (filter (\<lambda>r. hi_squadron_id r = squadron
       \<and> (include_terminal \<or> \<not> is_terminal (hi_status r))) (db_intents db)))"

definition list_for_squadron :: "string \<Rightarrow> bool \<Rightarrow> helm_db \<Rightarrow> helm_intent list \<times> helm_db" where
  "list_for_squadron squadron include_terminal = query_or [] (squadron_rows squadron include_terminal)"

fun close_each :: "helm_intent list \<Rightarrow> string \<Rightarrow> helm_db \<Rightarrow> nat \<times> helm_db" where
  "close_each [] reason db = (0, db)"
| "close_each (r # rs) reason db =
     (let (res, db1) = transition (hi_id r) Closed (Some reason) db;
          (n, db2) = close_each rs reason db1
      in ((case res of Inr _ \<Rightarrow> Suc n | Inl _ \<Rightarrow> n), db2))"

definition close_open_for_squadron :: "string \<Rightarrow> string \<Rightarrow> helm_db \<Rightarrow> nat \<times> helm_db" where
  "close_open_for_squadron squadron reason db =
     (let (rows, db) = list_for_squadron squadron False db in close_each rows reason db)"

definition annotate :: "nat \<Rightarrow> (utc \<Rightarrow> helm_intent \<Rightarrow> helm_intent) \<Rightarrow> unit helm_op" where
  "annotate i f = exec (\<lambda>db. update_intent i (\<lambda>r. (f (db_now db) r)\<lparr>hi_updated_at := db_now db\<rparr>) db)"

definition set_critique_requested :: "nat \<Rightarrow> unit helm_op" where
  "set_critique_requested i = annotate i (\<lambda>now r. r\<lparr>hi_critique_requested_at := Some now\<rparr>)"

definition set_fee_verdict :: "nat \<Rightarrow> verdict_text \<Rightarrow> unit helm_op" where
  "set_fee_verdict i verdict = annotate i (\<lambda>_ r. r\<lparr>hi_fee_verdict := Some verdict\<rparr>)"

definition set_critique :: "nat \<Rightarrow> string \<Rightarrow> string \<Rightarrow> unit helm_op" where
  "set_critique i critique model =
     annotate i (\<lambda>now r. r\<lparr>hi_critique := Some critique, hi_critique_at := Some now, hi_critique_model := Some model\<rparr>)"

definition critique_outcomes :: "string list" where
  "critique_outcomes = [''named_it'', ''missed_it'', ''no_critique'']"

definition set_critique_outcome :: "nat \<Rightarrow> string \<Rightarrow> unit helm_op" where
  "set_critique_outcome i outcome =
     (if outcome \<notin> set critique_outcomes then fail (Bad_outcome outcome)
      else and_then (get_existing i) (\<lambda>cur.
           if \<not> is_terminal (hi_status cur) then fail (Not_resolved i (hi_status cur))
           else annotate i (\<lambda>_ r. r\<lparr>hi_critique_outcome := Some outcome\<rparr>)))"

section \<open>Positions and trades\<close>

definition helm_strategy_name :: string where
  "helm_strategy_name = ''HelmStrategy''"

definition held_shares_for_squadron :: "string \<Rightarrow> helm_db \<Rightarrow> decimal \<times> helm_db" where
  "held_shares_for_squadron squadron =
     query_or 0 (\<lambda>db. sum_list (map (\<lambda>p. case pr_shares p of None \<Rightarrow> 0 | Some s \<Rightarrow> s)
       (filter (\<lambda>p. pr_squadron_id p = squadron \<and> pr_strategy p = helm_strategy_name) (db_positions db))))"

definition labels_trade :: "string \<Rightarrow> string \<Rightarrow> trade_row \<Rightarrow> bool" where
  "labels_trade market side t \<longleftrightarrow>
     tr_strategy t = helm_strategy_name \<and> tr_market t = market \<and> tr_side t = side \<and> tr_intent_id t = None"

definition label_trades :: "string \<Rightarrow> string \<Rightarrow> nat \<Rightarrow> helm_db \<Rightarrow> nat \<times> helm_db" where
  "label_trades market side i db =
     (if succeeds db
      then (length (filter (labels_trade market side) (db_trades db)),
            (tick db)\<lparr>db_trades := map (\<lambda>t. if labels_trade market side t then t\<lparr>tr_intent_id := Some i\<rparr> else t) (db_trades db)\<rparr>)
      else (0, tick db))"

definition set_position_intent :: "string \<Rightarrow> string \<Rightarrow> nat \<Rightarrow> nat helm_op" where
  "set_position_intent token strategy i db =
     (let hit = (\<lambda>p. pr_token_id p = token \<and> pr_strategy p = strategy) in
      if succeeds db
      then (Inr (length (filter hit (db_positions db))),
            (tick db)\<lparr>db_positions := map (\<lambda>p. if hit p then p\<lparr>pr_intent_id := Some i\<rparr> else p) (db_positions db)\<rparr>)
      else (Inl Statement_failed, tick db))"

definition position_intent :: "string \<Rightarrow> string \<Rightarrow> helm_db \<Rightarrow> nat option \<times> helm_db" where
  "position_intent token strategy =
     query_or None (\<lambda>db. case filter (\<lambda>p. pr_token_id p = token \<and> pr_strategy p = strategy) (db_positions db) of
       [] \<Rightarrow> None | ps \<Rightarrow> pr_intent_id (last ps))"

definition set_trade_intent :: "nat \<Rightarrow> nat \<Rightarrow> nat helm_op" where
  "set_trade_intent trade_id i db =
     (if succeeds db
      then (Inr (length (filter (\<lambda>t. tr_id t = trade_id) (db_trades db))),
            (tick db)\<lparr>db_trades := map (\<lambda>t. if tr_id t = trade_id then t\<lparr>tr_intent_id := Some i\<rparr> else t) (db_trades db)\<rparr>)
      else (Inl Statement_failed, tick db))"

section \<open>Reads\<close>

definition list_all_intents :: "nat \<Rightarrow> helm_db \<Rightarrow> helm_intent list \<times> helm_db" where
  "list_all_intents limit = query_or [] (\<lambda>db. take limit (rev (sort_key hi_id (db_intents db))))"

definition revision_rows :: "nat \<Rightarrow> helm_db \<Rightarrow> intent_revision list" where
  "revision_rows i db = sort_key iv_version (filter (\<lambda>v. iv_intent_id v = i) (db_revisions db))"

definition revisions :: "nat \<Rightarrow> helm_db \<Rightarrow> intent_revision list \<times> helm_db" where
  "revisions i = query_or [] (revision_rows i)"

definition event_rows :: "nat \<Rightarrow> helm_db \<Rightarrow> intent_event list" where
  "event_rows i db = filter (\<lambda>e. ie_intent_id e = i) (db_events db)"

definition events :: "nat \<Rightarrow> helm_db \<Rightarrow> intent_event list \<times> helm_db" where
  "events i = query_or [] (event_rows i)"

definition pick_version :: "helm_intent \<Rightarrow> intent_revision list \<Rightarrow> intent_content" where
  "pick_version r vs =
     (case find (\<lambda>v. iv_version v = hi_current_version r) vs of None \<Rightarrow> hi_first r | Some v \<Rightarrow> iv_content v)"

definition current_content :: "helm_intent \<Rightarrow> helm_db \<Rightarrow> intent_content \<times> helm_db" where
  "current_content r db =
     (if hi_current_version r \<le> 1 then (hi_first r, db)
      else (let (vs, db) = revisions (hi_id r) db in (pick_version r vs, db)))"

definition squadron_tally :: "string \<Rightarrow> helm_db \<Rightarrow> intent_tally \<times> helm_db" where
  "squadron_tally squadron =
     query_or \<lparr>it_total = 0, it_open = 0\<rparr>
       (\<lambda>db. \<lparr>it_total = int (length (squadron_rows squadron True db)),
              it_open = int (length (squadron_rows squadron False db))\<rparr>)"

definition open_intents_total :: "helm_db \<Rightarrow> nat \<times> helm_db" where
  "open_intents_total =
     query_or 0 (\<lambda>db. length (filter (\<lambda>r. \<not> is_terminal (hi_status r)) (db_intents db)))"

definition resolved_count :: "helm_db \<Rightarrow> nat \<times> helm_db" where
  "resolved_count =
     query_or 0 (\<lambda>db. length (remdups (map hi_id (filter (\<lambda>r. hi_status r = Closed
        \<and> list_ex (\<lambda>e. ie_intent_id e = hi_id r \<and> (ie_to_status e = Filled \<or> ie_to_status e = Partial))
            (db_events db)) (db_intents db)))))"

definition is_in_flight :: "helm_intent \<Rightarrow> bool" where
  "is_in_flight r \<longleftrightarrow> hi_status r = Working \<or> hi_status r = Partial \<or> hi_status r = Filled"

definition working_for_secs :: "helm_intent \<Rightarrow> utc \<Rightarrow> int option" where
  "working_for_secs r now = map_option (\<lambda>t. num_seconds (now - t)) (hi_working_at r)"

definition critique_pending_for :: "helm_intent \<Rightarrow> utc \<Rightarrow> int option" where
  "critique_pending_for r now =
     (if hi_critique r \<noteq> None then None
      else map_option (\<lambda>t. num_seconds (now - t)) (hi_critique_requested_at r))"

end
