(* ===== verification/Ghost_Settlement.thy ===== *)
theory Ghost_Settlement
  imports Helm_Intents Probe_Gate Fees Viper_Common
begin

text \<open>
  Settlement of simulated positions, \<open>src/helpers/ghost_settlement.rs\<close>, with the statements of
  \<open>src/helpers/db.rs\<close> it books through and its caller for event markets in \<open>src/tasks/cleanup.rs\<close>.  Whether the n-th
  statement of the database succeeds is a function in the state.  At every await of the code the position map may be
  changed by the other tasks of the session: what they do at the n-th await is a function in the state too.
  Numbers and times are stored as themselves.  The venue's answers are arguments.
\<close>

section \<open>The ledger\<close>

record trade_entry =
  te_ts :: utc
  te_strategy :: string
  te_market :: string
  te_side :: string
  te_entry_price :: decimal
  te_exit_price :: decimal
  te_shares :: decimal
  te_pnl :: decimal
  te_reason :: string
  te_session :: string
  te_fees :: decimal
  te_venue :: "string option"
  te_market_class :: "string option"
  te_underlying :: "string option"
  te_ghost :: bool
  te_token_id :: "string option"

text \<open>A row of the open positions; a price, size or time that does not parse is \<open>None\<close>.\<close>

record open_row =
  ow_strategy :: string
  ow_token_id :: string
  ow_market :: string
  ow_side :: string
  ow_entry_price :: "decimal option"
  ow_shares :: "decimal option"
  ow_entry_fee :: "decimal option"
  ow_ts :: "utc option"
  ow_ghost_mode :: bool
  ow_squadron_id :: string
  ow_session_id :: "string option"
  ow_status :: "string option"

record ghost_hold_row =
  gh_strategy :: string
  gh_token_id :: string
  gh_market :: string
  gh_side :: string
  gh_entry_price :: decimal
  gh_shares :: decimal
  gh_entry_fee :: "decimal option"
  gh_opened_at :: utc

record ledger =
  lg_trades :: "trade_entry list"
  lg_rows :: "open_row list"
  lg_session :: string
  lg_now :: utc
  lg_ok :: "nat \<Rightarrow> bool"
  lg_calls :: nat

datatype settlement_write = Inserted | Duplicate | Failed

definition lg_tick :: "ledger \<Rightarrow> ledger" where
  "lg_tick db = db\<lparr>lg_calls := Suc (lg_calls db)\<rparr>"

definition lg_succeeds :: "ledger \<Rightarrow> bool" where
  "lg_succeeds db = lg_ok db (lg_calls db)"

text \<open>\<open>None\<close> is the error: the read could not tell.\<close>

definition open_row_claims_token_in :: "string \<Rightarrow> ledger \<Rightarrow> bool option \<times> ledger" where
  "open_row_claims_token_in token db =
     (if lg_succeeds db then Some (list_ex (\<lambda>r. ow_token_id r = token \<and> \<not> ow_ghost_mode r) (lg_rows db)) else None,
      lg_tick db)"

text \<open>The row an earlier pass would have written for the same settlement; a row that names no leg counts
  when it was written after the position opened.\<close>

definition same_settlement :: "(string \<times> utc) option \<Rightarrow> trade_entry \<Rightarrow> trade_entry \<Rightarrow> bool" where
  "same_settlement leg new old \<longleftrightarrow>
     te_strategy old = te_strategy new \<and> te_market old = te_market new \<and> te_side old = te_side new
     \<and> te_reason old = te_reason new \<and> te_shares old = te_shares new \<and> te_pnl old = te_pnl new
     \<and> (case leg of
          None \<Rightarrow> True
        | Some (token, opened) \<Rightarrow>
            te_token_id old = Some token \<or> (te_token_id old = None \<and> opened \<le> te_ts old))"

definition record_settlement_trade_for_token ::
  "(string \<times> utc) option \<Rightarrow> trade_entry \<Rightarrow> ledger \<Rightarrow> settlement_write \<times> ledger" where
  "record_settlement_trade_for_token leg new db =
     (if \<not> lg_succeeds db then (Failed, lg_tick db)
      else if list_ex (same_settlement leg new) (lg_trades db) then (Duplicate, lg_tick db)
      else (Inserted, (lg_tick db)\<lparr>lg_trades := lg_trades db @ [new]\<rparr>))"

text \<open>The columns of the row the writer fills in itself.\<close>

definition settlement_entry ::
  "(trade_scope \<Rightarrow> string option) \<Rightarrow> trade_scope \<Rightarrow> (string \<times> utc) option \<Rightarrow> string \<Rightarrow> string \<Rightarrow> string \<Rightarrow> decimal \<Rightarrow> decimal
     \<Rightarrow> decimal \<Rightarrow> decimal \<Rightarrow> decimal \<Rightarrow> string \<Rightarrow> ledger \<Rightarrow> trade_entry" where
  "settlement_entry venue_of scope leg strategy market side entry_px exit_px shares pnl fees reason db =
     \<lparr>te_ts = lg_now db, te_strategy = strategy, te_market = market, te_side = side, te_entry_price = entry_px,
      te_exit_price = exit_px, te_shares = shares, te_pnl = pnl, te_reason = reason, te_session = lg_session db,
      te_fees = fees, te_venue = venue_of scope, te_market_class = ts_market_class scope,
      te_underlying = ts_underlying scope, te_ghost = ts_ghost scope, te_token_id = map_option fst leg\<rparr>"

definition delete_rows :: "(open_row \<Rightarrow> bool) \<Rightarrow> ledger \<Rightarrow> unit \<times> ledger" where
  "delete_rows gone db =
     ((), if lg_succeeds db then (lg_tick db)\<lparr>lg_rows := filter (\<lambda>r. \<not> gone r) (lg_rows db)\<rparr> else lg_tick db)"

definition close_ghost_open_position :: "string \<Rightarrow> ledger \<Rightarrow> unit \<times> ledger" where
  "close_ghost_open_position token = delete_rows (\<lambda>r. ow_token_id r = token \<and> ow_ghost_mode r)"

definition close_ghost_open_position_for :: "string \<Rightarrow> string \<Rightarrow> string \<Rightarrow> ledger \<Rightarrow> unit \<times> ledger" where
  "close_ghost_open_position_for squadron strategy token =
     delete_rows (\<lambda>r. ow_ghost_mode r \<and> ow_squadron_id r = squadron \<and> ow_strategy r = strategy \<and> ow_token_id r = token)"

definition close_stale_ghost_positions :: "string \<Rightarrow> ledger \<Rightarrow> nat \<times> ledger" where
  "close_stale_ghost_positions session db =
     (let stale = (\<lambda>r. ow_ghost_mode r \<and> (case ow_session_id r of None \<Rightarrow> [] | Some s \<Rightarrow> s) \<noteq> session)
      in (if lg_succeeds db then length (filter stale (lg_rows db)) else 0, snd (delete_rows stale db)))"

text \<open>The earliest time the calendar of the program can name.\<close>

definition dawn :: utc where
  "dawn = - 8334601228800 * nanos_per_sec"

definition opened_at_or_dawn :: "utc option \<Rightarrow> utc" where
  "opened_at_or_dawn t = (case t of None \<Rightarrow> dawn | Some t \<Rightarrow> t)"

definition settlement_row_covers :: "string option \<Rightarrow> utc option \<Rightarrow> string \<Rightarrow> utc \<Rightarrow> bool" where
  "settlement_row_covers row_token row_ts token opened =
     (case row_token of
        Some t \<Rightarrow> t = token
      | None \<Rightarrow> (case row_ts of None \<Rightarrow> True | Some t \<Rightarrow> opened \<le> t))"

definition is_confirmed_row :: "open_row \<Rightarrow> bool" where
  "is_confirmed_row r \<longleftrightarrow> (case ow_status r of None \<Rightarrow> True | Some s \<Rightarrow> s = ''confirmed'')"

definition ghost_hold_of :: "open_row \<Rightarrow> ghost_hold_row option" where
  "ghost_hold_of r =
     (case (ow_entry_price r, ow_shares r) of
        (Some price, Some shares) \<Rightarrow>
          Some \<lparr>gh_strategy = ow_strategy r, gh_token_id = ow_token_id r, gh_market = ow_market r, gh_side = ow_side r,
                gh_entry_price = price, gh_shares = shares, gh_entry_fee = ow_entry_fee r,
                gh_opened_at = opened_at_or_dawn (ow_ts r)\<rparr>
      | _ \<Rightarrow> None)"

definition ghost_open_rows :: "string \<Rightarrow> ledger \<Rightarrow> ghost_hold_row list option \<times> ledger" where
  "ghost_open_rows squadron db =
     (if lg_succeeds db
      then Some (List.map_filter ghost_hold_of
             (filter (\<lambda>r. ow_ghost_mode r \<and> ow_squadron_id r = squadron \<and> ow_session_id r = Some (lg_session db)
                \<and> is_confirmed_row r) (lg_rows db)))
      else None, lg_tick db)"

section \<open>Prices and fees\<close>

datatype price_source = Resolved_price | Tie | Mark_fallback

definition source_of :: "decimal \<Rightarrow> price_source" where
  "source_of px = (if px = 1 / 2 then Tie else Resolved_price)"

type_synonym price_map = "(string, decimal \<times> price_source) hash_map"

definition resolution_prices :: "market_id \<Rightarrow> market_id \<Rightarrow> decimal \<Rightarrow> price_map" where
  "resolution_prices yes no yes_price =
     hm_insert no (1 - yes_price, source_of yes_price) (hm_insert yes (yes_price, source_of yes_price) [])"

definition price_for :: "decimal option \<Rightarrow> bool \<Rightarrow> decimal option \<Rightarrow> (decimal \<times> price_source) option" where
  "price_for settled past_defer_bound mark =
     (case settled of
        Some px \<Rightarrow> Some (px, source_of px)
      | None \<Rightarrow> if past_defer_bound then map_option (\<lambda>px. (px, Mark_fallback)) mark else None)"

definition settlement_candidates :: "position_map \<Rightarrow> market_id \<Rightarrow> market_id \<Rightarrow> (position_key \<times> position) list" where
  "settlement_candidates m yes no =
     filter (\<lambda>(k, p). (k_market k = yes \<or> k_market k = no) \<and> p_fill_confirmed_at p \<noteq> None \<and> 0 < p_shares p) m"

definition anchor_strategy_name :: string where
  "anchor_strategy_name = ''AnchorStrategy''"

definition taker_entry_strategy :: "bool \<Rightarrow> string \<Rightarrow> bool" where
  "taker_entry_strategy basis_as_maker strategy =
     (if strategy \<in> set [''FairValueStrategy'', ''MomentumStrategy'', ''GboostStrategy'', ''ConvergenceStrategy'',
          ''TrendReversalStrategy''] then True
      else if strategy = anchor_strategy_name then True
      else if strategy = ''BasisStrategy'' then \<not> basis_as_maker
      else strategy = helm_strategy_name)"

text \<open>What the pass is compiled and called with: the venue's fee rate, the profile of Basis, the venue a
  scope files under, the venue's answer on a token, and the process clock.\<close>

record settle_env =
  se_fee_rate :: decimal
  se_basis_as_maker :: bool
  se_venue_of :: "trade_scope \<Rightarrow> string option"
  se_resolution :: "string \<Rightarrow> string + token_resolution"
  se_instant :: instant

definition simulated_entry_fee :: "settle_env \<Rightarrow> string \<Rightarrow> decimal \<Rightarrow> decimal \<Rightarrow> decimal" where
  "simulated_entry_fee env strategy avg_entry shares =
     (if taker_entry_strategy (se_basis_as_maker env) strategy
      then avg_entry * shares * entry_only_fee_pct (se_fee_rate env) avg_entry else 0)"

definition settlement_outcome :: "decimal \<Rightarrow> price_source \<Rightarrow> string" where
  "settlement_outcome resolved source =
     (case source of
        Tie \<Rightarrow> ''tied or canceled''
      | Mark_fallback \<Rightarrow> ''mark after 24h deferral''
      | Resolved_price \<Rightarrow> if 1 / 2 < resolved then ''won'' else ''lost'')"

definition settlement_reason :: "decimal \<Rightarrow> price_source \<Rightarrow> string" where
  "settlement_reason resolved source =
     ''Settlement ('' @ settlement_outcome resolved source @ '' '' @ em_dash @ '' simulated)''"

section \<open>Booking from the position map\<close>

record settle_world =
  gw_positions :: position_map
  gw_gate :: gate
  gw_db :: ledger
  gw_asked :: "string list"
  gw_others :: "nat \<Rightarrow> position_map \<Rightarrow> position_map"
  gw_awaits :: nat

text \<open>A statement is awaited: it runs, and the other tasks run meanwhile.\<close>

definition pause :: "settle_world \<Rightarrow> settle_world" where
  "pause w = w\<lparr>gw_positions := gw_others w (gw_awaits w) (gw_positions w), gw_awaits := Suc (gw_awaits w)\<rparr>"

definition await :: "(ledger \<Rightarrow> 'a \<times> ledger) \<Rightarrow> settle_world \<Rightarrow> 'a \<times> settle_world" where
  "await stmt w = (let (x, db) = stmt (gw_db w) in (x, pause (w\<lparr>gw_db := db\<rparr>)))"

definition ghost_scope :: "string \<Rightarrow> string option \<Rightarrow> trade_scope" where
  "ghost_scope asset market_class = (scope_new asset [] market_class None)\<lparr>ts_ghost := True\<rparr>"

definition or_insert :: "position_key \<Rightarrow> position \<Rightarrow> position_map \<Rightarrow> position_map" where
  "or_insert k p m = (if hm_contains k m then m else hm_insert k p m)"

definition map_entry ::
  "settle_env \<Rightarrow> string \<Rightarrow> string option \<Rightarrow> market_id \<Rightarrow> decimal \<Rightarrow> price_source \<Rightarrow> position_key \<times> position \<Rightarrow> ledger
     \<Rightarrow> trade_entry" where
  "map_entry env asset market_class yes resolved source kp db =
     (let (k, p) = kp; fee = simulated_entry_fee env (k_strategy k) (p_avg_entry p) (p_shares p)
      in settlement_entry (se_venue_of env) (ghost_scope asset market_class) (Some (k_market k, p_opened_at p))
           (k_strategy k) (p_market_name p) (if k_market k = yes then ''YES'' else ''NO'') (p_avg_entry p) resolved
           (p_shares p) ((resolved - p_avg_entry p) * p_shares p - fee) fee (settlement_reason resolved source) db)"

text \<open>After the position was taken out of the map.\<close>

definition book_removed ::
  "settle_env \<Rightarrow> string \<Rightarrow> string option \<Rightarrow> market_id \<Rightarrow> decimal \<Rightarrow> price_source \<Rightarrow> position_key \<times> position
     \<Rightarrow> settle_world \<Rightarrow> bool \<times> settle_world" where
  "book_removed env asset market_class yes resolved source kp w =
     (let (k, p) = kp;
          (written, w) = await (\<lambda>db. record_settlement_trade_for_token (Some (k_market k, p_opened_at p))
             (map_entry env asset market_class yes resolved source kp db) db) w
      in if written = Failed then (False, w\<lparr>gw_positions := or_insert k p (gw_positions w)\<rparr>)
         else (True, snd (await (close_ghost_open_position (k_market k)) w)))"

definition book_one ::
  "settle_env \<Rightarrow> string \<Rightarrow> string option \<Rightarrow> market_id \<Rightarrow> price_map \<Rightarrow> position_key \<times> position
     \<Rightarrow> settle_world \<Rightarrow> bool \<times> settle_world" where
  "book_one env asset market_class yes prices kp w =
     (let (k, p) = kp in
      case hm_get prices (k_market k) of
        None \<Rightarrow> (False, w)
      | Some (resolved, source) \<Rightarrow>
          (let (claimed, w) = await (open_row_claims_token_in (k_market k)) w in
           if claimed \<noteq> Some False then (False, w)
           else (case hm_get (gw_positions w) k of
                   Some cur \<Rightarrow>
                     if p_shares cur = p_shares p \<and> p_avg_entry cur = p_avg_entry p
                     then book_removed env asset market_class yes resolved source (k, p)
                            (w\<lparr>gw_positions := hm_remove k (gw_positions w)\<rparr>)
                     else (False, w)
                 | None \<Rightarrow> (False, w))))"

fun book_ghost_settlements ::
  "settle_env \<Rightarrow> string \<Rightarrow> string option \<Rightarrow> market_id \<Rightarrow> price_map \<Rightarrow> (position_key \<times> position) list
     \<Rightarrow> settle_world \<Rightarrow> nat \<times> settle_world" where
  "book_ghost_settlements env asset market_class yes prices [] w = (0, w)"
| "book_ghost_settlements env asset market_class yes prices (kp # kps) w =
     (let (booked, w) = book_one env asset market_class yes prices kp w;
          (n, w) = book_ghost_settlements env asset market_class yes prices kps w
      in (if booked then Suc n else n, w))"

definition settle_ghost_positions_at ::
  "settle_env \<Rightarrow> string \<Rightarrow> string option \<Rightarrow> market_id \<Rightarrow> market_id \<Rightarrow> decimal \<Rightarrow> settle_world \<Rightarrow> nat \<times> settle_world" where
  "settle_ghost_positions_at env asset market_class yes no yes_price w =
     book_ghost_settlements env asset market_class yes (resolution_prices yes no yes_price)
       (settlement_candidates (gw_positions w) yes no) w"

text \<open>The event-market caller of Polymarket international: the settled prices and the mark are the venue's
  answers on a token; every token is priced before anything is booked.\<close>

definition event_prices ::
  "(string \<Rightarrow> decimal option) \<Rightarrow> (string \<Rightarrow> decimal option) \<Rightarrow> bool \<Rightarrow> string list \<Rightarrow> price_map" where
  "event_prices settled mark past_defer_bound tokens =
     fold (\<lambda>t m. case price_for (settled t) past_defer_bound
             (if settled t = None \<and> past_defer_bound then mark t else None) of
           None \<Rightarrow> m | Some v \<Rightarrow> hm_insert t v m) tokens []"

definition settle_ghost_event_positions ::
  "settle_env \<Rightarrow> (string \<Rightarrow> decimal option) \<Rightarrow> (string \<Rightarrow> decimal option) \<Rightarrow> bool \<Rightarrow> string \<Rightarrow> string option \<Rightarrow> market_id
     \<Rightarrow> market_id \<Rightarrow> int \<Rightarrow> settle_world \<Rightarrow> nat \<times> settle_world" where
  "settle_ghost_event_positions env settled mark has_pool asset market_class yes no venue_closed_for_secs w =
     (let candidates = settlement_candidates (gw_positions w) yes no in
      if candidates = [] \<or> \<not> has_pool then (0, w)
      else (let prices = event_prices settled mark (int settlement_defer_max_secs \<le> venue_closed_for_secs)
                  (remdups (map (k_market \<circ> fst) candidates));
                w = pause w
            in if prices = [] then (0, w) else book_ghost_settlements env asset market_class yes prices candidates w))"

section \<open>Holds whose market closed under them\<close>

definition closed_hold_probes_per_pass :: nat where
  "closed_hold_probes_per_pass = 8"

definition row_entry ::
  "settle_env \<Rightarrow> trade_scope \<Rightarrow> ghost_hold_row \<Rightarrow> decimal \<Rightarrow> ledger \<Rightarrow> trade_entry" where
  "row_entry env scope r px db =
     (let fee = (case gh_entry_fee r of
            Some f \<Rightarrow> f | None \<Rightarrow> simulated_entry_fee env (gh_strategy r) (gh_entry_price r) (gh_shares r))
      in settlement_entry (se_venue_of env) (scope\<lparr>ts_ghost := True\<rparr>) (Some (gh_token_id r, gh_opened_at r))
           (gh_strategy r) (gh_market r) (gh_side r) (gh_entry_price r) px (gh_shares r)
           ((px - gh_entry_price r) * gh_shares r - fee) fee (settlement_reason px (source_of px)) db)"

definition book_row ::
  "settle_env \<Rightarrow> trade_scope \<Rightarrow> string \<Rightarrow> ghost_hold_row \<Rightarrow> decimal \<Rightarrow> settle_world \<Rightarrow> bool \<times> settle_world" where
  "book_row env scope squadron r px w =
     (let (written, w) = await (\<lambda>db. record_settlement_trade_for_token (Some (gh_token_id r, gh_opened_at r))
             (row_entry env scope r px db) db) w
      in if written = Failed then (False, w)
         else (True, snd (await (close_ghost_open_position_for squadron (gh_strategy r) (gh_token_id r)) w)))"

definition book_closed_hold ::
  "settle_env \<Rightarrow> trade_scope \<Rightarrow> string \<Rightarrow> string \<Rightarrow> ghost_hold_row \<Rightarrow> decimal \<Rightarrow> settle_world \<Rightarrow> bool \<times> settle_world" where
  "book_closed_hold env scope asset squadron r px w =
     (let (claimed, w) = await (open_row_claims_token_in (gh_token_id r)) w in
      if claimed \<noteq> Some False then (False, w)
      else (let k = position_key_new squadron (gh_strategy r) (gh_token_id r) in
            case hm_get (gw_positions w) k of
              Some p \<Rightarrow>
                if 0 < p_shares p
                then (let yes = (if to_ascii_uppercase (gh_side r) = ''YES'' then gh_token_id r else []);
                          (n, w) = book_ghost_settlements env asset (ts_market_class scope) yes
                             (hm_insert (gh_token_id r) (px, source_of px) []) [(k, p)] w
                      in (0 < n, w))
                else book_row env scope squadron r px w
            | None \<Rightarrow> book_row env scope squadron r px w))"

definition back_off :: "settle_env \<Rightarrow> string \<Rightarrow> settle_world \<Rightarrow> settle_world" where
  "back_off env token w = w\<lparr>gw_gate := record_unknown_at (gw_gate w) token (se_instant env)\<rparr>"

text \<open>One lookup at the venue and what follows from its answer.\<close>

definition probe_hold ::
  "settle_env \<Rightarrow> trade_scope \<Rightarrow> string \<Rightarrow> string \<Rightarrow> ghost_hold_row \<Rightarrow> settle_world \<Rightarrow> bool \<times> settle_world" where
  "probe_hold env scope asset squadron r w =
     (let w = pause (w\<lparr>gw_asked := gw_asked w @ [gh_token_id r]\<rparr>) in
      case se_resolution env (gh_token_id r) of
        Inr (Resolved px) \<Rightarrow>
          (let (booked, w) = book_closed_hold env scope asset squadron r px w
           in if booked then (True, w\<lparr>gw_gate := record_decisive (gw_gate w) (gh_token_id r)\<rparr>)
              else (False, back_off env (gh_token_id r) w))
      | _ \<Rightarrow> (False, back_off env (gh_token_id r) w))"

fun hold_loop ::
  "settle_env \<Rightarrow> trade_scope \<Rightarrow> string \<Rightarrow> string \<Rightarrow> market_id list \<Rightarrow> ghost_hold_row list \<Rightarrow> nat \<Rightarrow> settle_world
     \<Rightarrow> nat \<times> settle_world" where
  "hold_loop env scope asset squadron live_legs [] probed w = (0, w)"
| "hold_loop env scope asset squadron live_legs (r # rs) probed w =
     (if gh_shares r \<le> 0 \<or> gh_token_id r \<in> set live_legs \<or> gh_strategy r = anchor_strategy_name
      then hold_loop env scope asset squadron live_legs rs probed w
      else (let (open, g) = should_probe_at (gw_gate w) (gh_token_id r) (se_instant env); w = w\<lparr>gw_gate := g\<rparr> in
            if \<not> open then hold_loop env scope asset squadron live_legs rs probed w
            else if probed = closed_hold_probes_per_pass then (0, w)
            else (let (booked, w) = probe_hold env scope asset squadron r w;
                      (n, w) = hold_loop env scope asset squadron live_legs rs (Suc probed) w
                  in (if booked then Suc n else n, w))))"

definition settle_closed_ghost_holds ::
  "settle_env \<Rightarrow> trade_scope \<Rightarrow> string \<Rightarrow> string \<Rightarrow> market_id list \<Rightarrow> settle_world \<Rightarrow> nat \<times> settle_world" where
  "settle_closed_ghost_holds env scope asset squadron live_legs w =
     (let (rows, w) = await (ghost_open_rows squadron) w in
      case rows of
        None \<Rightarrow> (0, w)
      | Some rs \<Rightarrow> hold_loop env scope asset squadron live_legs rs 0 w)"

end
