(* ===== verification/Trend_Reversal.thy ===== *)
theory Trend_Reversal
  imports Ghost_Settlement "HOL-Library.Sublist"
begin

text \<open>
  The trend-reversal strategy, \<open>src/vipers/trendreversal_impl.rs\<close>, and its guard in the trades table,
  \<open>recent_stop_loss_exists\<close> of \<open>src/helpers/db.rs\<close>.  In fade mode a sharp move over ten minutes inside a flat hour
  is bought against, otherwise a confirmed move is followed.  The state is what the strategy keeps: when
  it last left a token, how often it was stopped on a market, and when it last signalled an exit; with it
  goes the ledger it asks.  The build's constants are in a record.
\<close>

definition trend_name :: string where
  "trend_name = ''TrendReversalStrategy''"

definition trend_names :: "string set" where
  "trend_names = {''TrendReversalStrategy'', ''TrendCaptureStrategy''}"

record trend_build =
  fb_max_snapshot_age_secs :: int
  fb_min_secs_to_expiry :: int
  fb_max_secs_to_expiry :: int
  fb_late_market_secs :: int
  fb_late_market_min_entry_price :: decimal
  fb_market_warmup_secs :: int
  fb_exhaustion_mult :: decimal
  fb_drift_10m_pct :: decimal
  fb_drift_60m_pct :: decimal
  fb_exhaustion_drift_60m_pct :: decimal
  fb_require_60m_confirmation :: bool
  fb_post_exit_cooldown_secs :: nat
  fb_loss_threshold :: nat
  fb_loss_cooldown_secs :: nat
  fb_enable_kelly_sizing :: bool
  fb_kelly_max_multiplier :: decimal
  fb_min_edge_from_fair :: decimal
  fb_horizon_coherence_min :: decimal
  fb_horizon_tradfi_confirm :: decimal
  fb_horizon_veto_enforce :: bool
  fb_min_secs_to_resolution :: int
  fb_min_exit_bid_depth_ratio :: decimal
  fb_exit_signal_cooldown_secs :: nat
  fb_late_market_sl_secs :: int
  fb_late_market_stop_loss_pct :: decimal
  fb_reversal_stop_loss_pct :: decimal
  fb_reversal_catastrophic_sl_pct :: decimal
  fb_reversal_target_profit_pct :: decimal
  fb_sell_price_offset :: decimal
  fb_expiry_exit_secs :: int
  fb_expiry_min_profit_to_hold :: decimal
  fb_fill_confirm_min_hold_secs :: int
  fb_max_hold_secs :: int
  fb_min_hold_before_reversal_secs :: int

record trend_world = viper_world +
  fw_cooldown :: "(market_id, instant) hash_map"
  fw_losses :: "(string, nat) hash_map"
  fw_last_exit :: "instant option"
  fw_pool :: "ledger option"

type_synonym trend_result = "strategy_signal option \<times> trend_world"

section \<open>The guard in the trades table\<close>

text \<open>\<open>LIKE '%pat%'\<close>, which folds the case of letters.\<close>

definition like_infix :: "string \<Rightarrow> string \<Rightarrow> bool" where
  "like_infix pat s \<longleftrightarrow> sublist (to_lowercase pat) (to_lowercase s)"

definition recent_stop :: "string \<Rightarrow> string \<Rightarrow> int \<Rightarrow> utc \<Rightarrow> trade_entry \<Rightarrow> bool" where
  "recent_stop market side within_secs now t \<longleftrightarrow>
     te_strategy t \<in> trend_names \<and> te_market t = market \<and> te_side t = side
     \<and> (like_infix ''SL:'' (te_reason t) \<or> like_infix ''Catastrophic'' (te_reason t))
     \<and> now - te_ts t \<le> within_secs * nanos_per_sec"

definition recent_stop_loss_exists :: "string \<Rightarrow> string \<Rightarrow> int \<Rightarrow> ledger \<Rightarrow> bool \<times> ledger" where
  "recent_stop_loss_exists market side within_secs db =
     (lg_succeeds db \<and> list_ex (recent_stop market side within_secs (lg_now db)) (lg_trades db), lg_tick db)"

section \<open>Thresholds\<close>

definition trend_venue :: "strategy_context \<Rightarrow> market_config \<times> market_snapshot" where
  "trend_venue ctx =
     (case (cx_maker_market ctx, cx_maker_snapshot ctx) of
        (Some market, Some sn) \<Rightarrow> (market, sn)
      | _ \<Rightarrow> (cx_market ctx, cx_snapshot ctx))"

definition trend_trigger :: "trend_build \<Rightarrow> strategy_context \<Rightarrow> decimal" where
  "trend_trigger bd ctx =
     oracle_threshold (fb_drift_10m_pct bd) (ms_oracle_price (cx_snapshot ctx))
       * (if tc_fade_mode (dc_trend (cx_dynamic_config ctx)) then fb_exhaustion_mult bd else 1)"

definition align_threshold :: "trend_build \<Rightarrow> strategy_context \<Rightarrow> decimal" where
  "align_threshold bd ctx = oracle_threshold (fb_drift_60m_pct bd) (ms_oracle_price (cx_snapshot ctx))"

definition trend_min_price :: "trend_build \<Rightarrow> trend_settings \<Rightarrow> int option \<Rightarrow> decimal" where
  "trend_min_price bd tc secs_left =
     (case secs_left of
        Some s \<Rightarrow> if s < fb_late_market_secs bd then fb_late_market_min_entry_price bd else tc_min_entry_price tc
      | None \<Rightarrow> tc_min_entry_price tc)"

definition trend_exposure :: "viper_env \<Rightarrow> strategy_context \<Rightarrow> decimal" where
  "trend_exposure env ctx =
     sum_list (map (\<lambda>(k, p). p_shares p * p_avg_entry p)
       (filter (\<lambda>(k, p). k_strategy k \<in> trend_names \<and> k_squadron k = cx_squadron_id ctx
          \<and> counts_toward_exposure p (ve_utc env)) (cx_positions ctx)))"

section \<open>Gates of an entry\<close>

definition trend_expiry_gate :: "trend_build \<Rightarrow> viper_env \<Rightarrow> market_config \<Rightarrow> string + int option" where
  "trend_expiry_gate bd env market =
     (case mc_market_close_time market of
        None \<Rightarrow> Inr None
      | Some close_time \<Rightarrow>
          (let s = num_seconds (close_time - ve_utc env) in
           if s < fb_min_secs_to_expiry bd then Inl ''too close to expiry''
           else if fb_max_secs_to_expiry bd < s then Inl ''too far from expiry (drift horizon mismatch)''
           else Inr (Some s)))"

text \<open>The seconds left, when the market can be entered at all.\<close>

definition trend_market_gate ::
  "trend_build \<Rightarrow> viper_env \<Rightarrow> strategy_context \<Rightarrow> market_config \<Rightarrow> market_snapshot \<Rightarrow> string + int option" where
  "trend_market_gate bd env ctx market sn =
     (let tc = dc_trend (cx_dynamic_config ctx) in
      if fb_max_snapshot_age_secs bd < num_seconds (ve_utc env - ms_timestamp sn) then Inl ''snapshot stale''
      else if ms_oracle_drift_10m (cx_snapshot ctx) = 0 then Inl ''oracle drift history warming up''
      else case trend_expiry_gate bd env market of
        Inl reason \<Rightarrow> Inl reason
      | Inr secs_left \<Rightarrow>
          if num_seconds (ve_utc env - cx_market_started_at ctx) < fb_market_warmup_secs bd then Inl ''market warmup''
          else if tc_max_entry_ask_sum tc < ms_yes_ask sn + ms_no_ask sn then Inl ''book too wide''
          else if ms_yes_ask sn < trend_min_price bd tc secs_left \<and> ms_no_ask sn < trend_min_price bd tc secs_left
          then Inl ''asks below entry price floor''
          else if dc_trendcapture_max_exposure (cx_dynamic_config ctx) \<le> trend_exposure env ctx
          then Inl ''exposure cap reached''
          else Inr secs_left)"

definition intended_side :: "decimal \<Rightarrow> decimal \<Rightarrow> string option" where
  "intended_side trigger drift_10m =
     (if drift_10m \<le> - trigger then Some ''YES'' else if trigger \<le> drift_10m then Some ''NO'' else None)"

definition cascade_guard ::
  "trend_build \<Rightarrow> strategy_context \<Rightarrow> market_config \<Rightarrow> trend_world \<Rightarrow> bool \<times> trend_world" where
  "cascade_guard bd ctx market w =
     (if tc_fade_mode (dc_trend (cx_dynamic_config ctx))
      then case (intended_side (trend_trigger bd ctx) (ms_oracle_drift_10m (cx_snapshot ctx)), fw_pool w) of
          (Some side, Some db) \<Rightarrow>
            (let (blocked, db') = recent_stop_loss_exists (mc_market_name market) side (int (fb_post_exit_cooldown_secs bd)) db
             in (blocked, w\<lparr>fw_pool := Some db'\<rparr>))
        | _ \<Rightarrow> (False, w)
      else (False, w))"

text \<open>Whether the hour's drift allows an entry on a move up, or down.\<close>

definition regime_ok :: "trend_build \<Rightarrow> strategy_context \<Rightarrow> bool \<Rightarrow> bool" where
  "regime_ok bd ctx up =
     (let own = cx_snapshot ctx; drift = ms_oracle_drift_60m own; align = align_threshold bd ctx;
          exhaustion = oracle_threshold (fb_exhaustion_drift_60m_pct bd) (ms_oracle_price own)
      in if tc_fade_mode (dc_trend (cx_dynamic_config ctx)) then \<bar>drift\<bar> < align
         else if up
         then \<not> drift \<le> - align \<and> (\<not> fb_require_60m_confirmation bd \<or> align \<le> drift) \<and> \<not> exhaustion \<le> drift
         else \<not> align \<le> drift \<and> (\<not> fb_require_60m_confirmation bd \<or> drift \<le> - align) \<and> \<not> drift \<le> - exhaustion)"

definition trend_obi :: "viper_env \<Rightarrow> decimal \<Rightarrow> decimal \<Rightarrow> decimal" where
  "trend_obi env bid_depth ask_depth =
     (if 0 < bid_depth + ask_depth then ve_rnd env ((bid_depth - ask_depth) / (bid_depth + ask_depth)) else - 1)"

definition obi_vetoes :: "viper_env \<Rightarrow> trend_settings \<Rightarrow> market_snapshot \<Rightarrow> bool \<Rightarrow> bool" where
  "obi_vetoes env tc sn up =
     (let obi = (if up then trend_obi env (ms_yes_bid_depth sn) (ms_yes_ask_depth sn)
                 else trend_obi env (ms_no_bid_depth sn) (ms_no_ask_depth sn))
      in obi < tc_obi_adverse_block tc \<or> tc_obi_exhaustion_block tc < obi)"

definition deriv_blocks :: "trend_settings \<Rightarrow> market_snapshot \<Rightarrow> bool \<Rightarrow> bool" where
  "deriv_blocks tc own up =
     (let cvd = ms_cvd_ratio own; margin = tc_deriv_cvd_confirm_margin tc
      in tc_deriv_gate_enabled tc \<and>
         (ms_oi_delta_pct own \<le> tc_deriv_oi_unwind_block tc
          \<or> 0 < cvd \<and> (if up then cvd \<le> 1 - margin else 1 + margin \<le> cvd)))"

definition passes_gap :: "strategy_context \<Rightarrow> market_config \<Rightarrow> bool \<Rightarrow> bool" where
  "passes_gap ctx market up =
     (let oracle = ms_oracle_price (cx_snapshot ctx);
          gap = oracle_threshold (tc_strike_gap_pct (dc_trend (cx_dynamic_config ctx))) oracle
      in case mc_strike_price market of
           None \<Rightarrow> True
         | Some strike \<Rightarrow> if up then strike + gap \<le> oracle else oracle \<le> strike - gap)"

section \<open>The entry\<close>

definition effective_cooldown :: "trend_build \<Rightarrow> (string, nat) hash_map \<Rightarrow> string \<Rightarrow> nat" where
  "effective_cooldown bd losses condition_id =
     (if fb_loss_threshold bd \<le> (case hm_get losses condition_id of None \<Rightarrow> 0 | Some n \<Rightarrow> n)
      then fb_loss_cooldown_secs bd else fb_post_exit_cooldown_secs bd)"

definition trend_trade_size ::
  "trend_build \<Rightarrow> viper_env \<Rightarrow> trend_settings \<Rightarrow> decimal \<Rightarrow> decimal \<Rightarrow> decimal option" where
  "trend_trade_size bd env tc trigger drift_abs =
     (if \<not> fb_enable_kelly_sizing bd then Some (tc_min_trade_size tc)
      else let strength = min (max (ve_rnd env (drift_abs / max \<bar>trigger\<bar> 1)) 1) (fb_kelly_max_multiplier bd)
           in map_option (\<lambda>fraction. (tc_min_trade_size tc + fraction * (tc_max_trade_size tc - tc_min_trade_size tc)) * (1 / 2))
                (checked_div env (strength - 1) (fb_kelly_max_multiplier bd - 1)))"

text \<open>The sizing helper the file exports, which nothing calls.\<close>

definition kelly_trendcapture_size ::
  "trend_build \<Rightarrow> viper_env \<Rightarrow> decimal \<Rightarrow> decimal \<Rightarrow> decimal \<Rightarrow> decimal \<Rightarrow> decimal option" where
  "kelly_trendcapture_size bd env drift_abs threshold min_size max_size =
     (if \<not> fb_enable_kelly_sizing bd then Some min_size
      else if threshold \<le> 0 then Some min_size
      else let strength = min (max (ve_rnd env (drift_abs / threshold)) 1) (fb_kelly_max_multiplier bd)
           in map_option (\<lambda>fraction. min_size + fraction * (max_size - min_size))
                (checked_div env (strength - 1) (fb_kelly_max_multiplier bd - 1)))"

definition stand_down_trend :: "viper_env \<Rightarrow> strategy_context \<Rightarrow> string \<Rightarrow> trend_world \<Rightarrow> trend_result" where
  "stand_down_trend env ctx reason w = (Some NoSignal, idle env ctx trend_name reason w)"

text \<open>The leg an entry on a move buys: token, ask, bid, depth of the bid, fee.\<close>

definition bought_leg :: "market_config \<Rightarrow> market_snapshot \<Rightarrow> bool \<Rightarrow> market_id \<times> decimal \<times> decimal \<times> decimal \<times> nat" where
  "bought_leg market sn yes =
     (if yes then (mc_yes_token market, ms_yes_ask sn, ms_yes_bid sn, ms_yes_bid_depth sn, mc_yes_fee_bps market)
      else (mc_no_token market, ms_no_ask sn, ms_no_bid sn, ms_no_bid_depth sn, mc_no_fee_bps market))"

definition trend_note ::
  "trend_build \<Rightarrow> strategy_context \<Rightarrow> bool \<Rightarrow> decimal \<Rightarrow> decimal \<Rightarrow> decimal \<Rightarrow> decimal \<Rightarrow> decimal \<Rightarrow> nat \<Rightarrow> int option \<Rightarrow> entry_note" where
  "trend_note bd ctx up ask bid spread depth amount cooldown secs_left =
     [(''viper'', NText ''TrendReversal''), (''branch'', NText (if up then ''BULL_fade'' else ''BEAR_fade'')),
      (''fade_mode'', NBool (tc_fade_mode (dc_trend (cx_dynamic_config ctx)))),
      (''drift_10m'', NDecimal (ms_oracle_drift_10m (cx_snapshot ctx))),
      (''drift_60m'', NDecimal (ms_oracle_drift_60m (cx_snapshot ctx))),
      (''align_thr'', NDecimal (align_threshold bd ctx)), (''buy_ask'', NDecimal ask), (''buy_bid'', NDecimal bid),
      (''buy_spread'', NDecimal spread), (''buy_bid_depth'', NDecimal depth), (''trade_size'', NDecimal amount),
      (''cooldown_secs'', NInt (int cooldown)),
      (''secs_left'', case secs_left of None \<Rightarrow> NNull | Some s \<Rightarrow> NInt s)]"

definition trend_order ::
  "trend_build \<Rightarrow> viper_env \<Rightarrow> strategy_context \<Rightarrow> market_config \<Rightarrow> market_snapshot \<Rightarrow> int option \<Rightarrow> bool \<Rightarrow> decimal \<Rightarrow> nat
     \<Rightarrow> trend_world \<Rightarrow> trend_result" where
  "trend_order bd env ctx market sn secs_left up spread cooldown w =
     (let dc = cx_dynamic_config ctx; tc = dc_trend dc;
          (token, ask, bid, depth, fee_bps) = bought_leg market sn (up \<noteq> tc_fade_mode tc)
      in case trend_trade_size bd env tc (trend_trigger bd ctx) \<bar>ms_oracle_drift_10m (cx_snapshot ctx)\<bar> of
           None \<Rightarrow> (None, w)
         | Some amount \<Rightarrow>
             (case entry_liquidity_gate (fb_min_secs_to_resolution bd) (fb_min_exit_bid_depth_ratio bd) secs_left
                     (if 0 < ask then ve_rnd env (amount / ask) else 0) depth of
                Some block \<Rightarrow> stand_down_trend env ctx (liquidity_reason env (fb_min_secs_to_resolution bd) block) w
              | None \<Rightarrow>
                  (let w' = stash_entry_signals token (trend_note bd ctx up ask bid spread depth amount cooldown secs_left) w
                   in case checked_div env amount ask of
                        None \<Rightarrow> (None, w')
                      | Some shares \<Rightarrow> (Some (Entry (taker_leg market token ask shares fee_bps (dc_ghost_mode dc)) None), w'))))"

text \<open>What an entry on a move does once its signal is there; \<open>None\<close> when the bought token is cooling down and the
  evaluation goes on.\<close>

definition trend_buy ::
  "trend_build \<Rightarrow> viper_env \<Rightarrow> strategy_context \<Rightarrow> market_config \<Rightarrow> market_snapshot \<Rightarrow> int option \<Rightarrow> bool \<Rightarrow> trend_world
     \<Rightarrow> trend_result option" where
  "trend_buy bd env ctx market sn secs_left up w =
     (let tc = dc_trend (cx_dynamic_config ctx); own = cx_snapshot ctx; fade = tc_fade_mode tc;
          (token, ask, bid, depth, fee_bps) = bought_leg market sn (up \<noteq> fade);
          spread = (if 0 < ask then ve_rnd env ((ask - bid) / ask) else 1);
          cooldown = effective_cooldown bd (fw_losses w) (mc_condition_id market)
      in if fade \<and> \<bar>ask - 1 / 2\<bar> < fb_min_edge_from_fair bd
         then Some (stand_down_trend env ctx ''fade coin-flip zone (bought ask near $0.50)'' w)
         else if fade \<and> fb_horizon_coherence_min bd \<le> ms_macro_coherence own
           \<and> (if up then fb_horizon_tradfi_confirm bd \<le> ms_tradfi_velocity own
              else ms_tradfi_velocity own \<le> - fb_horizon_tradfi_confirm bd)
           \<and> fb_horizon_veto_enforce bd
         then Some (stand_down_trend env ctx ''Horizon veto (TradFi confirms the trend)'' w)
         else if tc_max_token_spread_pct tc < spread then Some (stand_down_trend env ctx ''bought-token spread too wide'' w)
         else if (case hm_get (fw_cooldown w) token of None \<Rightarrow> False | Some t \<Rightarrow> elapsed_secs (ve_instant env) t < cooldown)
         then None
         else Some (trend_order bd env ctx market sn secs_left up spread cooldown w))"

definition trend_branch ::
  "trend_build \<Rightarrow> viper_env \<Rightarrow> strategy_context \<Rightarrow> market_config \<Rightarrow> market_snapshot \<Rightarrow> int option \<Rightarrow> bool \<Rightarrow> trend_world
     \<Rightarrow> trend_result option" where
  "trend_branch bd env ctx market sn secs_left up w =
     (let tc = dc_trend (cx_dynamic_config ctx); own = cx_snapshot ctx; drift = ms_oracle_drift_10m own;
          signal_ask = (if up then ms_yes_ask sn else ms_no_ask sn)
      in if (if up then trend_trigger bd ctx \<le> drift else drift \<le> - trend_trigger bd ctx)
           \<and> regime_ok bd ctx up \<and> \<not> obi_vetoes env tc sn up \<and> \<not> deriv_blocks tc own up
           \<and> passes_gap ctx market up \<and> trend_min_price bd tc secs_left \<le> signal_ask \<and> signal_ask \<le> tc_max_entry_price tc
         then trend_buy bd env ctx market sn secs_left up w
         else None)"

definition trend_evaluate_entry :: "trend_build \<Rightarrow> viper_env \<Rightarrow> strategy_context \<Rightarrow> trend_world \<Rightarrow> trend_result" where
  "trend_evaluate_entry bd env ctx w =
     (if \<not> tc_enable (dc_trend (cx_dynamic_config ctx)) then stand_down_trend env ctx ''disabled in config'' w
      else let (hit, w) = check_drawdown env ctx w in
      if hit then stand_down_trend env ctx ''daily drawdown limit hit'' w
      else let (market, sn) = trend_venue ctx in
      case trend_market_gate bd env ctx market sn of
        Inl reason \<Rightarrow> stand_down_trend env ctx reason w
      | Inr secs_left \<Rightarrow>
          (let (blocked, w) = cascade_guard bd ctx market w in
           if blocked then stand_down_trend env ctx ''cascade guard (recent stop-loss)'' w
           else case trend_branch bd env ctx market sn secs_left True w of
             Some r \<Rightarrow> r
           | None \<Rightarrow>
               (case trend_branch bd env ctx market sn secs_left False w of
                  Some r \<Rightarrow> r
                | None \<Rightarrow> stand_down_trend env ctx ''no reversal setup (drift below trigger)'' w)))"

section \<open>The exit\<close>

datatype trend_cause = Catastrophic | Near_expiry | Target_reached | Stop_loss | Time_stop | Drift_flip

definition catastrophic_pct :: "trend_build \<Rightarrow> trend_settings \<Rightarrow> decimal" where
  "catastrophic_pct bd tc =
     (if tc_fade_mode tc then max (fb_reversal_catastrophic_sl_pct bd) (tc_catastrophic_sl_pct tc)
      else tc_catastrophic_sl_pct tc)"

definition trend_stop_pct :: "trend_build \<Rightarrow> trend_settings \<Rightarrow> int option \<Rightarrow> decimal" where
  "trend_stop_pct bd tc secs_left =
     (if tc_fade_mode tc then fb_reversal_stop_loss_pct bd
      else case secs_left of
          Some s \<Rightarrow> if s < fb_late_market_sl_secs bd then fb_late_market_stop_loss_pct bd else tc_stop_loss_pct tc
        | None \<Rightarrow> tc_stop_loss_pct tc)"

definition trend_target_pct :: "trend_build \<Rightarrow> trend_settings \<Rightarrow> decimal" where
  "trend_target_pct bd tc = (if tc_fade_mode tc then fb_reversal_target_profit_pct bd else tc_target_profit_pct tc)"

definition secs_to_market_close :: "viper_env \<Rightarrow> market_config \<Rightarrow> int option" where
  "secs_to_market_close env market = map_option (\<lambda>c. num_seconds (c - ve_utc env)) (mc_market_close_time market)"

definition trend_margin :: "viper_env \<Rightarrow> decimal \<Rightarrow> position \<Rightarrow> decimal" where
  "trend_margin env bid pos = ve_rnd env ((bid - p_avg_entry pos) / p_avg_entry pos)"

definition trend_net :: "trend_build \<Rightarrow> viper_env \<Rightarrow> decimal \<Rightarrow> position \<Rightarrow> decimal" where
  "trend_net bd env bid pos = ve_rnd env ((bid - fb_sell_price_offset bd - p_avg_entry pos) / p_avg_entry pos)"

definition trend_bid :: "market_config \<Rightarrow> market_snapshot \<Rightarrow> market_id \<Rightarrow> decimal" where
  "trend_bid market sn token = (if token = mc_yes_token market then ms_yes_bid sn else ms_no_bid sn)"

text \<open>Why a position with a positive entry is left now, if it is.\<close>

definition trend_cause_of ::
  "trend_build \<Rightarrow> viper_env \<Rightarrow> strategy_context \<Rightarrow> market_config \<Rightarrow> market_snapshot \<Rightarrow> bool \<Rightarrow> market_id \<Rightarrow> position
     \<Rightarrow> trend_cause option" where
  "trend_cause_of bd env ctx market sn soft token pos =
     (let dc = cx_dynamic_config ctx; tc = dc_trend dc; own = cx_snapshot ctx;
          bid = trend_bid market sn token; margin = trend_margin env bid pos; net = trend_net bd env bid pos;
          secs_held = num_seconds (ve_utc env - p_opened_at pos);
          flip = oracle_threshold (tc_reversal_drift_pct tc) (ms_oracle_price own)
      in if fill_effective_at pos (dc_ghost_mode dc) = None
           \<and> ve_rnd env ((p_avg_entry pos - bid) / p_avg_entry pos) < catastrophic_pct bd tc then None
         else if margin \<le> - catastrophic_pct bd tc then Some Catastrophic
         else if (case secs_to_market_close env market of None \<Rightarrow> False | Some s \<Rightarrow> s \<le> fb_expiry_exit_secs bd)
           \<and> net < fb_expiry_min_profit_to_hold bd then Some Near_expiry
         else if \<not> soft \<and> (trend_target_pct bd tc \<le> margin \<or> tc_take_profit_ceiling tc \<le> bid) then Some Target_reached
         else if fb_fill_confirm_min_hold_secs bd \<le> secs_held \<and> margin \<le> - trend_stop_pct bd tc (secs_to_market_close env market)
         then Some Stop_loss
         else if tc_fade_mode tc \<and> fb_max_hold_secs bd \<le> secs_held then Some Time_stop
         else if \<not> tc_fade_mode tc \<and> \<not> soft \<and> fb_min_hold_before_reversal_secs bd \<le> secs_held
           \<and> (if token = mc_yes_token market then ms_oracle_drift_10m own \<le> - flip else flip \<le> ms_oracle_drift_10m own)
           \<and> 0 < net
         then Some Drift_flip
         else None)"

fun is_stop :: "decimal \<Rightarrow> trend_cause \<Rightarrow> bool" where
  "is_stop margin Catastrophic = True"
| "is_stop margin Near_expiry = True"
| "is_stop margin Target_reached = False"
| "is_stop margin Stop_loss = True"
| "is_stop margin Time_stop = (margin < 0)"
| "is_stop margin Drift_flip = False"

definition trend_tag :: "trend_settings \<Rightarrow> string" where
  "trend_tag tc = (if tc_fade_mode tc then ''TrendReversal'' else ''TrendCapture'')"

definition trend_reason ::
  "trend_build \<Rightarrow> viper_env \<Rightarrow> strategy_context \<Rightarrow> decimal \<Rightarrow> position \<Rightarrow> trend_cause \<Rightarrow> string" where
  "trend_reason bd env ctx bid pos cause =
     (let tag = trend_tag (dc_trend (cx_dynamic_config ctx)); quote = '': bid=$'' @ ve_show env 4 bid;
          pct = ve_show env 2 (trend_margin env bid pos * 100) @ ''%''
      in case cause of
           Catastrophic \<Rightarrow> tag @ ''Catastrophic'' @ quote @ '', loss='' @ pct
         | Near_expiry \<Rightarrow> tag @ ''NearExpiry'' @ quote @ '', net='' @ ve_show env 2 (trend_net bd env bid pos * 100) @ ''%''
         | Target_reached \<Rightarrow> tag @ ''TP'' @ quote @ '', profit='' @ pct
         | Stop_loss \<Rightarrow> tag @ ''SL'' @ quote @ '', loss='' @ pct
         | Time_stop \<Rightarrow> tag @ ''TimeStop'' @ quote @ '', pnl='' @ pct @ '' after ''
             @ ve_show_int env (num_seconds (ve_utc env - p_opened_at pos)) @ ''s''
         | Drift_flip \<Rightarrow> ''TrendCaptureRev'' @ quote @ '', drift_10m='' @ ve_show env 0 (ms_oracle_drift_10m (cx_snapshot ctx))
             @ '', profit='' @ pct)"

definition record_exit :: "instant \<Rightarrow> market_id \<Rightarrow> string \<Rightarrow> bool \<Rightarrow> trend_world \<Rightarrow> trend_world" where
  "record_exit now token condition_id stop w =
     w\<lparr>fw_cooldown := hm_insert token now (fw_cooldown w),
       fw_losses := (if stop then hm_upsert condition_id 0 Suc (fw_losses w) else hm_remove condition_id (fw_losses w))\<rparr>"

definition trend_owns :: "strategy_context \<Rightarrow> market_config \<Rightarrow> position_key \<Rightarrow> position \<Rightarrow> bool" where
  "trend_owns ctx market key pos \<longleftrightarrow>
     k_squadron key = cx_squadron_id ctx \<and> k_strategy key \<in> trend_names
     \<and> (k_market key = mc_yes_token market \<or> k_market key = mc_no_token market) \<and> 0 < p_avg_entry pos"

fun trend_pending ::
  "trend_build \<Rightarrow> viper_env \<Rightarrow> strategy_context \<Rightarrow> market_config \<Rightarrow> market_snapshot \<Rightarrow> bool \<Rightarrow> position_map
     \<Rightarrow> (market_id \<times> position \<times> trend_cause) option" where
  "trend_pending bd env ctx market sn soft [] = None"
| "trend_pending bd env ctx market sn soft ((key, pos) # rest) =
     (if \<not> trend_owns ctx market key pos then trend_pending bd env ctx market sn soft rest
      else case trend_cause_of bd env ctx market sn soft (k_market key) pos of
        None \<Rightarrow> trend_pending bd env ctx market sn soft rest
      | Some cause \<Rightarrow> Some (k_market key, pos, cause))"

definition soft_exit_cooldown_active :: "trend_build \<Rightarrow> viper_env \<Rightarrow> trend_world \<Rightarrow> bool" where
  "soft_exit_cooldown_active bd env w =
     (case fw_last_exit w of
        None \<Rightarrow> False | Some t \<Rightarrow> elapsed_secs (ve_instant env) t < fb_exit_signal_cooldown_secs bd)"

definition trend_evaluate_exit ::
  "trend_build \<Rightarrow> viper_env \<Rightarrow> strategy_context \<Rightarrow> trend_world \<Rightarrow> strategy_signal \<times> trend_world" where
  "trend_evaluate_exit bd env ctx w =
     (let (market, sn) = trend_venue ctx in
      case trend_pending bd env ctx market sn (soft_exit_cooldown_active bd env w) (cx_positions ctx) of
        None \<Rightarrow> (NoSignal, w)
      | Some (token, pos, cause) \<Rightarrow>
          (let bid = trend_bid market sn token;
               w' = record_exit (ve_instant env) token (mc_condition_id market) (is_stop (trend_margin env bid pos) cause) w
           in (Exit (taker_leg market token bid (p_shares pos)
                 (if token = mc_yes_token market then mc_yes_fee_bps market else mc_no_fee_bps market)
                 (dc_ghost_mode (cx_dynamic_config ctx)))
                 (trend_reason bd env ctx bid pos cause) False, w'\<lparr>fw_last_exit := Some (ve_instant env)\<rparr>)))"

definition trend_on_exit_order_failed :: "market_id \<Rightarrow> trend_world \<Rightarrow> trend_world" where
  "trend_on_exit_order_failed token w = w\<lparr>fw_last_exit := None\<rparr>"

end
