(* ===== verification/Trend_Properties.thy ===== *)
theory Trend_Properties
  imports Trend_Reversal
begin

text \<open>
  What the trend-reversal strategy guarantees: what an entry went through, that a stop on the books keeps the
  side closed across a restart, that nothing hides the catastrophic floor, what an exit may be for, and
  what its counters count.
\<close>

section \<open>What an entry went through\<close>

lemma trend_not_entry [simp]: "stand_down_trend env ctx reason w \<noteq> (Some (Entry a b), w')"
  by (simp add: stand_down_trend_def)

lemma trend_orderD:
  assumes "trend_order bd env ctx market sn secs_left up spread cooldown w = (Some (Entry a b), w')"
  shows "b = None" and "op_order_type a = Fak"
    and "op_token_id a = (if up \<noteq> tc_fade_mode (dc_trend (cx_dynamic_config ctx)) then mc_yes_token market else mc_no_token market)"
    and "op_price a = (if up \<noteq> tc_fade_mode (dc_trend (cx_dynamic_config ctx)) then ms_yes_ask sn else ms_no_ask sn)"
    and "\<exists>amount. trend_trade_size bd env (dc_trend (cx_dynamic_config ctx)) (trend_trigger bd ctx)
        \<bar>ms_oracle_drift_10m (cx_snapshot ctx)\<bar> = Some amount \<and> op_price a \<noteq> 0 \<and> op_shares a = ve_rnd env (amount / op_price a)"
  using assms
  by (auto simp: trend_order_def bought_leg_def checked_div_def Let_def split: if_splits option.splits)

lemma trend_buyD:
  assumes "trend_buy bd env ctx market sn secs_left up w = Some (Some (Entry a b), w')"
  defines "tc \<equiv> dc_trend (cx_dynamic_config ctx)"
  shows "tc_fade_mode tc \<Longrightarrow> fb_min_edge_from_fair bd \<le> \<bar>op_price a - 1 / 2\<bar>"
    and "\<And>t. hm_get (fw_cooldown w) (op_token_id a) = Some t \<Longrightarrow>
        effective_cooldown bd (fw_losses w) (mc_condition_id market) \<le> elapsed_secs (ve_instant env) t"
    and "\<exists>spread cooldown. trend_order bd env ctx market sn secs_left up spread cooldown w = (Some (Entry a b), w')"
proof -
  obtain token ask bid depth fee where leg: "bought_leg market sn (up \<noteq> tc_fade_mode tc) = (token, ask, bid, depth, fee)"
    by (cases "bought_leg market sn (up \<noteq> tc_fade_mode tc)") auto
  show o: "\<exists>spread cooldown. trend_order bd env ctx market sn secs_left up spread cooldown w = (Some (Entry a b), w')"
    using assms(1) by (auto simp: trend_buy_def Let_def split_beta split: if_splits)
  then have a: "op_token_id a = token" "op_price a = ask"
    using leg trend_orderD(3,4) unfolding tc_def by (auto simp: bought_leg_def split: if_splits)
  note b = assms(1) [unfolded trend_buy_def Let_def tc_def [symmetric] leg prod.case]
  show "tc_fade_mode tc \<Longrightarrow> fb_min_edge_from_fair bd \<le> \<bar>op_price a - 1 / 2\<bar>"
    using b by (auto simp: a split: if_splits)
  show "hm_get (fw_cooldown w) (op_token_id a) = Some t \<Longrightarrow>
      effective_cooldown bd (fw_losses w) (mc_condition_id market) \<le> elapsed_secs (ve_instant env) t" for t
    using b by (auto simp: a split: if_splits)
qed

lemma trend_branchD:
  assumes "trend_branch bd env ctx market sn secs_left up w = Some r"
  defines "tc \<equiv> dc_trend (cx_dynamic_config ctx)"
  shows "if up then trend_trigger bd ctx \<le> ms_oracle_drift_10m (cx_snapshot ctx)
      else ms_oracle_drift_10m (cx_snapshot ctx) \<le> - trend_trigger bd ctx"
    and "regime_ok bd ctx up" and "trend_buy bd env ctx market sn secs_left up w = Some r"
  using assms by (auto simp: trend_branch_def Let_def split: if_splits)

lemma cascade_frame [simp]:
  "fw_cooldown (snd (cascade_guard bd ctx market w)) = fw_cooldown w"
  "fw_losses (snd (cascade_guard bd ctx market w)) = fw_losses w"
  by (simp_all add: cascade_guard_def split_beta Let_def split: option.splits)

lemma check_drawdown_trend [simp]:
  "fw_cooldown (snd (check_drawdown env ctx w)) = fw_cooldown w" "fw_losses (snd (check_drawdown env ctx w)) = fw_losses w"
  "fw_pool (snd (check_drawdown env ctx w)) = fw_pool w"
  by (simp_all add: check_drawdown_def split_beta)

lemma trend_entryE:
  assumes "trend_evaluate_entry bd env ctx w = (Some (Entry a b), w')" and "trend_venue ctx = (market, sn)"
  obtains secs_left up w1 w2 where "trend_market_gate bd env ctx market sn = Inr secs_left"
    and "fw_pool w1 = fw_pool w" and "\<not> fst (cascade_guard bd ctx market w1)"
    and "fw_cooldown w2 = fw_cooldown w" and "fw_losses w2 = fw_losses w"
    and "trend_branch bd env ctx market sn secs_left up w2 = Some (Some (Entry a b), w')"
proof -
  let ?w1 = "snd (check_drawdown env ctx w)" and ?w2 = "snd (cascade_guard bd ctx market (snd (check_drawdown env ctx w)))"
  obtain secs_left where "trend_market_gate bd env ctx market sn = Inr secs_left" "\<not> fst (cascade_guard bd ctx market ?w1)"
    and "trend_branch bd env ctx market sn secs_left True ?w2 = Some (Some (Entry a b), w')
      \<or> trend_branch bd env ctx market sn secs_left False ?w2 = Some (Some (Entry a b), w')"
    using assms
    by (auto simp: trend_evaluate_entry_def split_beta Let_def split: if_splits sum.splits option.splits)
  then show thesis using that [of secs_left ?w1 ?w2] by auto
qed

lemma cascade_clear:
  assumes "\<not> fst (cascade_guard bd ctx market w)" and "tc_fade_mode (dc_trend (cx_dynamic_config ctx))"
    and "if up then trend_trigger bd ctx \<le> ms_oracle_drift_10m (cx_snapshot ctx)
         else ms_oracle_drift_10m (cx_snapshot ctx) \<le> - trend_trigger bd ctx" and "0 < trend_trigger bd ctx"
    and "fw_pool w = Some db" and "lg_succeeds db" and "t \<in> set (lg_trades db)"
  shows "\<not> recent_stop (mc_market_name market) (if up then ''NO'' else ''YES'') (int (fb_post_exit_cooldown_secs bd)) (lg_now db) t"
proof -
  have "intended_side (trend_trigger bd ctx) (ms_oracle_drift_10m (cx_snapshot ctx)) = Some (if up then ''NO'' else ''YES'')"
    using assms(3,4) by (auto simp: intended_side_def split: if_splits)
  then show ?thesis
    using assms(1,2,5-7) by (auto simp: cascade_guard_def recent_stop_loss_exists_def list_ex_iff)
qed

text \<open>The leg a fade buys, and the table that was clear of a stop on its side.\<close>

lemma trend_fade_entry:
  assumes "trend_evaluate_entry bd env ctx w = (Some (Entry a b), w')" and "trend_venue ctx = (market, sn)"
    and "tc_fade_mode (dc_trend (cx_dynamic_config ctx))" and "0 < trend_trigger bd ctx"
    and "fw_pool w = Some db" and "lg_succeeds db" and "t \<in> set (lg_trades db)"
  obtains up where "op_token_id a = (if up then mc_no_token market else mc_yes_token market)"
    and "\<not> recent_stop (mc_market_name market) (if up then ''NO'' else ''YES'') (int (fb_post_exit_cooldown_secs bd)) (lg_now db) t"
proof -
  from assms(1,2) obtain secs_left up w1 w2 where casc: "fw_pool w1 = fw_pool w" "\<not> fst (cascade_guard bd ctx market w1)"
    and br: "trend_branch bd env ctx market sn secs_left up w2 = Some (Some (Entry a b), w')"
    by (rule trend_entryE)
  obtain spread cooldown where "trend_order bd env ctx market sn secs_left up spread cooldown w2 = (Some (Entry a b), w')"
    using trend_buyD(3) [OF trend_branchD(3) [OF br]] by blast
  from trend_orderD(3) [OF this] assms(3) have "op_token_id a = (if up then mc_no_token market else mc_yes_token market)" by simp
  then show thesis
    using that cascade_clear [OF casc(2) assms(3) trend_branchD(1) [OF br] assms(4) _ assms(6,7)] casc(1) assms(5) by simp
qed


section \<open>A stop outlives a restart\<close>

lemma like_infixI: "like_infix pat (pre @ pat @ post)"
  by (auto simp: like_infix_def to_lowercase_def sublist_def)

lemma stop_reason_found:
  "like_infix ''SL:'' (trend_reason bd env ctx bid pos Stop_loss)"
  "like_infix ''Catastrophic'' (trend_reason bd env ctx bid pos Catastrophic)"
  using like_infixI [of "''SL:''" "trend_tag (dc_trend (cx_dynamic_config ctx))"
        "'' bid=$'' @ ve_show env 4 bid @ '', loss='' @ ve_show env 2 (trend_margin env bid pos * 100) @ ''%''"]
    like_infixI [of "''Catastrophic''" "trend_tag (dc_trend (cx_dynamic_config ctx))"]
  by (simp_all add: trend_reason_def Let_def)

lemma trend_exit_reason:
  assumes "trend_venue ctx = (market, sn)"
    and "trend_pending bd env ctx market sn (soft_exit_cooldown_active bd env w) (cx_positions ctx) = Some (token, pos, cause)"
    and "trend_evaluate_exit bd env ctx w = (Exit p reason pair, w1)"
  shows "reason = trend_reason bd env ctx (trend_bid market sn token) pos cause"
    and "p = taker_leg market token (trend_bid market sn token) (p_shares pos)
      (if token = mc_yes_token market then mc_yes_fee_bps market else mc_no_fee_bps market) (dc_ghost_mode (cx_dynamic_config ctx))"
    and "\<not> pair" and "w1 = record_exit (ve_instant env) token (mc_condition_id market)
      (is_stop (trend_margin env (trend_bid market sn token) pos) cause) w\<lparr>fw_last_exit := Some (ve_instant env)\<rparr>"
  using assms by (auto simp: trend_evaluate_exit_def Let_def)

text \<open>C15: A stop outlives a restart.  Once a stop-loss or catastrophic exit is in the trades table under the reason the
  strategy gave it, no evaluation in fade mode enters the same side of that market within the cooldown,
  whatever the strategy itself remembers, as long as the table can be read.\<close>

theorem stop_keeps_the_side_closed:
  assumes "trend_venue ctx = (market, sn)"
    and "trend_pending bd env ctx market sn (soft_exit_cooldown_active bd env w) (cx_positions ctx) = Some (token, pos, cause)"
    and "cause = Stop_loss \<or> cause = Catastrophic"
    and "trend_evaluate_exit bd env ctx w = (Exit p reason pair, w1)"
    and "t \<in> set (lg_trades db)" and "te_reason t = reason" and "te_market t = op_market_name p"
    and "te_strategy t = ''TrendReversalStrategy''" and "te_side t = (if token = mc_yes_token market then ''YES'' else ''NO'')"
    and "lg_now db - te_ts t \<le> int (fb_post_exit_cooldown_secs bd) * nanos_per_sec" and "lg_succeeds db"
    and "trend_venue ctx' = (market, sn')" and "mc_yes_token market \<noteq> mc_no_token market"
    and "tc_fade_mode (dc_trend (cx_dynamic_config ctx'))" and "0 < trend_trigger bd ctx'" and "fw_pool w2 = Some db"
    and "trend_evaluate_entry bd env' ctx' w2 = (Some (Entry a b), w3)"
  shows "op_token_id a \<noteq> token"
proof
  assume same: "op_token_id a = token"
  note exit = trend_exit_reason [OF assms(1,2,4)]
  have "like_infix ''SL:'' reason \<or> like_infix ''Catastrophic'' reason"
    using assms(3) stop_reason_found unfolding exit(1) by blast
  then have recent: "recent_stop (mc_market_name market) (if token = mc_yes_token market then ''YES'' else ''NO'')
      (int (fb_post_exit_cooldown_secs bd)) (lg_now db) t"
    using assms(6-10) by (simp add: recent_stop_def trend_names_def exit(2) leg_order_def)
  from assms(17,12,14,15,16,11,5) obtain up where "op_token_id a = (if up then mc_no_token market else mc_yes_token market)"
    "\<not> recent_stop (mc_market_name market) (if up then ''NO'' else ''YES'') (int (fb_post_exit_cooldown_secs bd)) (lg_now db) t"
    by (rule trend_fade_entry)
  with same recent assms(13) show False by (auto split: if_splits)
qed

section \<open>The exit\<close>

lemma trend_pendingD:
  assumes "trend_pending bd env ctx market sn soft ps = Some (token, pos, cause)"
  shows "\<exists>key. (key, pos) \<in> set ps \<and> k_market key = token \<and> trend_owns ctx market key pos
    \<and> trend_cause_of bd env ctx market sn soft token pos = Some cause"
  using assms
  by (induction bd env ctx market sn soft ps rule: trend_pending.induct) (auto split: if_splits option.splits)

lemma trend_pendingI:
  assumes "(key, pos) \<in> set ps" and "trend_owns ctx market key pos"
    and "trend_cause_of bd env ctx market sn soft (k_market key) pos \<noteq> None"
  shows "trend_pending bd env ctx market sn soft ps \<noteq> None"
  using assms
  by (induction bd env ctx market sn soft ps rule: trend_pending.induct) (auto split: option.splits)

lemma market_close_iff:
  "secs_to_market_close env market = Some s
     \<longleftrightarrow> (\<exists>c. mc_market_close_time market = Some c \<and> s = num_seconds (c - ve_utc env))"
  by (auto simp: secs_to_market_close_def)

lemma catastrophic_cause:
  assumes "trend_margin env (trend_bid market sn token) pos \<le> - catastrophic_pct bd (dc_trend (cx_dynamic_config ctx))"
    and "\<And>x. ve_rnd env (- x) = - ve_rnd env x"
  shows "trend_cause_of bd env ctx market sn soft token pos = Some Catastrophic"
proof -
  have "(p_avg_entry pos - trend_bid market sn token) / p_avg_entry pos = - ((trend_bid market sn token - p_avg_entry pos) / p_avg_entry pos)"
    by (simp add: diff_divide_distrib)
  then have "ve_rnd env ((p_avg_entry pos - trend_bid market sn token) / p_avg_entry pos)
      = - trend_margin env (trend_bid market sn token) pos" by (simp add: assms(2) trend_margin_def)
  with assms(1) show ?thesis by (simp add: trend_cause_of_def Let_def)
qed

text \<open>C12: Nothing hides the catastrophic floor.  When some position of the strategy on its market is at or past the
  floor, the evaluation signals an exit: whether or not the fill is confirmed, however recently the
  position was opened or an exit was signalled, and whatever other positions the map holds.\<close>

theorem catastrophic_floor_is_never_frozen:
  assumes "(key, pos) \<in> set (cx_positions ctx)" and "trend_venue ctx = (market, sn)" and "trend_owns ctx market key pos"
    and "trend_margin env (trend_bid market sn (k_market key)) pos \<le> - catastrophic_pct bd (dc_trend (cx_dynamic_config ctx))"
    and "\<And>x. ve_rnd env (- x) = - ve_rnd env x"
  shows "\<exists>p reason w'. trend_evaluate_exit bd env ctx w = (Exit p reason False, w')
    \<and> (cx_positions ctx = [(key, pos)] \<longrightarrow> op_token_id p = k_market key \<and> op_shares p = p_shares pos)"
proof -
  let ?soft = "soft_exit_cooldown_active bd env w"
  have "trend_pending bd env ctx market sn ?soft (cx_positions ctx) \<noteq> None"
    using trend_pendingI [OF assms(1,3)] catastrophic_cause [OF assms(4,5)] by simp
  then obtain token q cause where q: "trend_pending bd env ctx market sn ?soft (cx_positions ctx) = Some (token, q, cause)" by auto
  from trend_pendingD [OF q] obtain k where "(k, q) \<in> set (cx_positions ctx)" "k_market k = token" by blast
  with q assms(2) show ?thesis by (auto simp: trend_evaluate_exit_def Let_def)
qed

text \<open>What an exit is for.  Every exit sells a position of this strategy on its market, whole, at the bid, by a
  fill-and-kill order, and its cause holds; an unconfirmed fill is only ever left past the floor; the
  discretionary causes wait for the cooldown after the last signal.  The exit stamps the token and the
  signal, and counts as a stop or ends the market's streak.\<close>

theorem trend_exit_sound:
  assumes "trend_evaluate_exit bd env ctx w = (Exit p reason pair, w')" and "trend_venue ctx = (market, sn)"
  defines "tc \<equiv> dc_trend (cx_dynamic_config ctx)" and "now \<equiv> ve_utc env" and "soft \<equiv> soft_exit_cooldown_active bd env w"
  shows "\<exists>key pos cause. (key, pos) \<in> set (cx_positions ctx) \<and> trend_owns ctx market key pos \<and> \<not> pair
    \<and> op_token_id p = k_market key \<and> op_shares p = p_shares pos \<and> op_order_type p = Fak
    \<and> op_price p = trend_bid market sn (k_market key) \<and> reason = trend_reason bd env ctx (op_price p) pos cause
    \<and> (fill_effective_at pos (dc_ghost_mode (cx_dynamic_config ctx)) = None \<longrightarrow>
        catastrophic_pct bd tc \<le> ve_rnd env ((p_avg_entry pos - op_price p) / p_avg_entry pos))
    \<and> (let margin = trend_margin env (op_price p) pos; net = trend_net bd env (op_price p) pos;
           held = num_seconds (now - p_opened_at pos)
       in (case cause of
             Catastrophic \<Rightarrow> margin \<le> - catastrophic_pct bd tc
           | Near_expiry \<Rightarrow> net < fb_expiry_min_profit_to_hold bd
               \<and> (\<exists>c. mc_market_close_time market = Some c \<and> num_seconds (c - now) \<le> fb_expiry_exit_secs bd)
           | Target_reached \<Rightarrow> \<not> soft \<and> (trend_target_pct bd tc \<le> margin \<or> tc_take_profit_ceiling tc \<le> op_price p)
           | Stop_loss \<Rightarrow> fb_fill_confirm_min_hold_secs bd \<le> held \<and> margin \<le> - trend_stop_pct bd tc (secs_to_market_close env market)
           | Time_stop \<Rightarrow> tc_fade_mode tc \<and> fb_max_hold_secs bd \<le> held
           | Drift_flip \<Rightarrow> \<not> tc_fade_mode tc \<and> \<not> soft \<and> 0 < net)
         \<and> hm_get (fw_losses w') (mc_condition_id market)
             = (if is_stop margin cause
                then Some (Suc (case hm_get (fw_losses w) (mc_condition_id market) of None \<Rightarrow> 0 | Some n \<Rightarrow> n)) else None))
    \<and> hm_get (fw_cooldown w') (op_token_id p) = Some (ve_instant env) \<and> fw_last_exit w' = Some (ve_instant env)"
proof -
  from assms(1,2) obtain token pos cause where q:
    "trend_pending bd env ctx market sn soft (cx_positions ctx) = Some (token, pos, cause)"
    by (auto simp: trend_evaluate_exit_def soft_def split: option.splits)
  note out = trend_exit_reason [OF assms(2) q [unfolded soft_def] assms(1)]
  from trend_pendingD [OF q] obtain key where key: "(key, pos) \<in> set (cx_positions ctx)" "k_market key = token"
      "trend_owns ctx market key pos" and cause: "trend_cause_of bd env ctx market sn soft token pos = Some cause" by blast
  have price: "op_price p = trend_bid market sn token" by (simp add: out(2))
  let ?margin = "trend_margin env (op_price p) pos" and ?net = "trend_net bd env (op_price p) pos"
    and ?held = "num_seconds (now - p_opened_at pos)"
  have unconfirmed: "fill_effective_at pos (dc_ghost_mode (cx_dynamic_config ctx)) = None \<longrightarrow>
      catastrophic_pct bd tc \<le> ve_rnd env ((p_avg_entry pos - op_price p) / p_avg_entry pos)"
    using cause by (auto simp: trend_cause_of_def Let_def tc_def price split: if_splits)
  have why: "case cause of
       Catastrophic \<Rightarrow> ?margin \<le> - catastrophic_pct bd tc
     | Near_expiry \<Rightarrow> ?net < fb_expiry_min_profit_to_hold bd
         \<and> (\<exists>c. mc_market_close_time market = Some c \<and> num_seconds (c - now) \<le> fb_expiry_exit_secs bd)
     | Target_reached \<Rightarrow> \<not> soft \<and> (trend_target_pct bd tc \<le> ?margin \<or> tc_take_profit_ceiling tc \<le> op_price p)
     | Stop_loss \<Rightarrow> fb_fill_confirm_min_hold_secs bd \<le> ?held \<and> ?margin \<le> - trend_stop_pct bd tc (secs_to_market_close env market)
     | Time_stop \<Rightarrow> tc_fade_mode tc \<and> fb_max_hold_secs bd \<le> ?held
     | Drift_flip \<Rightarrow> \<not> tc_fade_mode tc \<and> \<not> soft \<and> 0 < ?net"
    using cause
    by (auto simp: trend_cause_of_def Let_def tc_def now_def price market_close_iff split: if_splits option.splits)
  have effects: "hm_get (fw_losses w') (mc_condition_id market)
      = (if is_stop ?margin cause then Some (Suc (case hm_get (fw_losses w) (mc_condition_id market) of None \<Rightarrow> 0 | Some n \<Rightarrow> n)) else None)"
    "hm_get (fw_cooldown w') (op_token_id p) = Some (ve_instant env)" "fw_last_exit w' = Some (ve_instant env)"
    by (simp_all add: out(2,4) record_exit_def)
  have "op_token_id p = k_market key" "op_shares p = p_shares pos" "op_order_type p = Fak"
    "op_price p = trend_bid market sn (k_market key)" "reason = trend_reason bd env ctx (op_price p) pos cause"
    by (simp_all add: out(1,2) key(2))
  with key(1,3) out(3) unconfirmed why effects show ?thesis unfolding Let_def
    by - (rule exI [of _ key], rule exI [of _ pos], rule exI [of _ cause], intro conjI; assumption)
qed

section \<open>What the counters count\<close>

text \<open>An exit as the strategy records it: when, of which token, on which market, and whether it was a stop.\<close>

definition record_exits :: "(instant \<times> market_id \<times> string \<times> bool) list \<Rightarrow> trend_world \<Rightarrow> trend_world" where
  "record_exits = fold (\<lambda>(now, token, condition_id, stop). record_exit now token condition_id stop)"

definition stop_streak :: "string \<Rightarrow> (instant \<times> market_id \<times> string \<times> bool) list \<Rightarrow> nat" where
  "stop_streak condition_id es =
     length (takeWhile (\<lambda>(_, _, _, stop). stop) (rev (filter (\<lambda>(_, _, c, _). c = condition_id) es)))"

definition last_left :: "market_id \<Rightarrow> (instant \<times> market_id \<times> string \<times> bool) list \<Rightarrow> instant option" where
  "last_left token es = map_option fst (find (\<lambda>(_, t, _, _). t = token) (rev es))"

text \<open>The counters are the history.  However exits are interleaved over markets and tokens, the tally of a market
  is the number of stops since the last exit of it that was none, the cooldown that applies is the long
  one exactly when that streak has reached the threshold, and a token cools down from its last exit.\<close>

theorem cooldowns_are_the_history:
  assumes "fw_losses w = []" and "fw_cooldown w = []"
  shows "effective_cooldown bd (fw_losses (record_exits es w)) condition_id =
      (if fb_loss_threshold bd \<le> stop_streak condition_id es then fb_loss_cooldown_secs bd else fb_post_exit_cooldown_secs bd)
    \<and> hm_get (fw_cooldown (record_exits es w)) token = last_left token es"
proof -
  have "(case hm_get (fw_losses (record_exits es w)) condition_id of None \<Rightarrow> 0 | Some n \<Rightarrow> n) = stop_streak condition_id es
    \<and> hm_get (fw_cooldown (record_exits es w)) token = last_left token es"
  proof (induction es rule: rev_induct)
    case (snoc e es)
    then show ?case
      by (cases e) (auto simp: record_exits_def stop_streak_def last_left_def record_exit_def split: option.splits)
  qed (use assms in \<open>simp add: record_exits_def stop_streak_def last_left_def\<close>)
  then show ?thesis by (simp add: effective_cooldown_def)
qed

text \<open>An exit order that keeps missing.\<close>

definition missed_exit :: "trend_build \<Rightarrow> viper_env \<Rightarrow> strategy_context \<Rightarrow> market_id \<Rightarrow> trend_world \<Rightarrow> trend_world" where
  "missed_exit bd env ctx token w = trend_on_exit_order_failed token (snd (trend_evaluate_exit bd env ctx w))"

text \<open>One position is counted as many losses.  While the stop of a position past the catastrophic floor is refused
  by the venue, every attempt adds one to the tally of its market, and the refusal takes none back: after
  as many attempts as the threshold, the long cooldown applies although nothing was sold.\<close>

theorem refused_stop_counts_every_tick:
  assumes "trend_venue ctx = (market, sn)" and "cx_positions ctx = [(key, pos)]" and "trend_owns ctx market key pos"
    and "trend_margin env (trend_bid market sn (k_market key)) pos \<le> - catastrophic_pct bd (dc_trend (cx_dynamic_config ctx))"
    and "\<And>x. ve_rnd env (- x) = - ve_rnd env x" and "hm_get (fw_losses w) (mc_condition_id market) = None" and "0 < n"
  shows "hm_get (fw_losses ((missed_exit bd env ctx (k_market key) ^^ n) w)) (mc_condition_id market) = Some n
    \<and> (fb_loss_threshold bd \<le> n \<longrightarrow>
        effective_cooldown bd (fw_losses ((missed_exit bd env ctx (k_market key) ^^ n) w)) (mc_condition_id market)
          = fb_loss_cooldown_secs bd)"
proof -
  have "trend_pending bd env ctx market sn soft (cx_positions ctx) = Some (k_market key, pos, Catastrophic)" for soft
    using catastrophic_cause [OF assms(4,5)] assms(2,3) by simp
  then have step: "fw_losses (missed_exit bd env ctx (k_market key) v)
      = hm_upsert (mc_condition_id market) 0 Suc (fw_losses v)" for v
    using assms(1) by (simp add: missed_exit_def trend_evaluate_exit_def trend_on_exit_order_failed_def record_exit_def Let_def)
  have "(case hm_get (fw_losses ((missed_exit bd env ctx (k_market key) ^^ n) w)) (mc_condition_id market) of
      None \<Rightarrow> 0 | Some k \<Rightarrow> k) = n" for n
    by (induction n) (simp_all add: step assms(6))
  moreover obtain k where "n = Suc k" using assms(7) by (cases n) auto
  ultimately show ?thesis by (simp add: step effective_cooldown_def)
qed

section \<open>Sizes and panics\<close>

text \<open>The size scales with the move between half the minimum and half the maximum; at the trigger it is half the
  minimum the operator set.\<close>

theorem trend_trade_size_range:
  assumes "decimal_rounding (ve_rnd env)" and "tc_min_trade_size tc \<le> tc_max_trade_size tc"
    and "1 < fb_kelly_max_multiplier bd" and "fb_enable_kelly_sizing bd"
  shows "\<exists>s. trend_trade_size bd env tc trigger drift = Some s \<and> tc_min_trade_size tc / 2 \<le> s \<and> s \<le> tc_max_trade_size tc / 2
    \<and> (drift \<le> max \<bar>trigger\<bar> 1 \<longrightarrow> s = tc_min_trade_size tc / 2)"
proof -
  let ?k = "fb_kelly_max_multiplier bd" and ?rnd = "ve_rnd env"
  let ?m = "min (max (?rnd (drift / max \<bar>trigger\<bar> 1)) 1) ?k"
  let ?f = "?rnd ((?m - 1) / (?k - 1))"
  have rnd: "mono ?rnd" "?rnd 0 = 0" "?rnd 1 = 1" using assms(1) by (simp_all add: decimal_rounding_def)
  have "0 \<le> (?m - 1) / (?k - 1)" "(?m - 1) / (?k - 1) \<le> 1" using assms(3) by simp_all
  then have f: "0 \<le> ?f" "?f \<le> 1" using monoD [OF rnd(1)] rnd(2,3) by metis+
  have "0 \<le> ?f * (tc_max_trade_size tc - tc_min_trade_size tc)" using f(1) assms(2) by simp
  moreover have "?f * (tc_max_trade_size tc - tc_min_trade_size tc) \<le> tc_max_trade_size tc - tc_min_trade_size tc"
    using mult_right_mono [OF f(2), of "tc_max_trade_size tc - tc_min_trade_size tc"] assms(2) by simp
  moreover have "?f = 0" if "drift \<le> max \<bar>trigger\<bar> 1"
  proof -
    have "drift / max \<bar>trigger\<bar> 1 \<le> 1" using that by simp
    then have "?rnd (drift / max \<bar>trigger\<bar> 1) \<le> 1" using monoD [OF rnd(1)] rnd(3) by metis
    then have "?m = 1" using assms(3) by simp
    then show ?thesis using rnd(2) by simp
  qed
  moreover have "trend_trade_size bd env tc trigger drift
      = Some ((tc_min_trade_size tc + ?f * (tc_max_trade_size tc - tc_min_trade_size tc)) * (1 / 2))"
    using assms(3,4) by (simp add: trend_trade_size_def checked_div_def Let_def)
  moreover obtain F where F: "?f = F" by blast
  moreover obtain D where "F * (tc_max_trade_size tc - tc_min_trade_size tc) = D" by blast
  ultimately have "trend_trade_size bd env tc trigger drift = Some ((tc_min_trade_size tc + D) * (1 / 2))"
    "0 \<le> D" "D \<le> tc_max_trade_size tc - tc_min_trade_size tc" "drift \<le> max \<bar>trigger\<bar> 1 \<longrightarrow> D = 0"
    unfolding F by auto
  then show ?thesis by (intro exI [of _ "(tc_min_trade_size tc + D) / 2"]) auto
qed

text \<open>No evaluation of an entry panics: with a spread limit below one hundred percent and a sizing ceiling other
  than one, no division on the way has a zero divisor, even over an empty book.\<close>

theorem trend_entry_never_panics:
  assumes "tc_max_token_spread_pct (dc_trend (cx_dynamic_config ctx)) < 1" and "fb_kelly_max_multiplier bd \<noteq> 1"
  shows "fst (trend_evaluate_entry bd env ctx w) \<noteq> None"
proof -
  have size: "trend_trade_size bd env tc trigger drift \<noteq> None" for tc trigger drift
    using assms(2) by (simp add: trend_trade_size_def checked_div_def Let_def del: not_None_eq)
  have order: "fst (trend_order bd env ctx market sn secs_left up spread cooldown w) \<noteq> None"
    if "fst (snd (bought_leg market sn (up \<noteq> tc_fade_mode (dc_trend (cx_dynamic_config ctx))))) \<noteq> 0"
    for market sn secs_left up spread cooldown w
    using that size
    by (auto simp: trend_order_def stand_down_trend_def checked_div_def split_beta Let_def split: option.splits)
  have buy: "fst r \<noteq> None" if "trend_buy bd env ctx market sn secs_left up w = Some r" for market sn secs_left up w r
    using that assms(1) order [of market sn up]
    by (auto simp: trend_buy_def stand_down_trend_def split_beta Let_def not_less split: if_splits)
  have branch: "fst r \<noteq> None" if "trend_branch bd env ctx market sn secs_left up w = Some r" for market sn secs_left up w r
    using trend_branchD(3) [OF that] by (rule buy)
  show ?thesis
    using branch by (auto simp: trend_evaluate_entry_def stand_down_trend_def split_beta Let_def split: sum.splits option.splits)
qed

section \<open>A spike in a flat hour\<close>

definition sample_trend_build :: trend_build where
  "sample_trend_build =
     \<lparr>fb_max_snapshot_age_secs = 15, fb_min_secs_to_expiry = 1800, fb_max_secs_to_expiry = 14400,
      fb_late_market_secs = 7200, fb_late_market_min_entry_price = 12/25, fb_market_warmup_secs = 120,
      fb_exhaustion_mult = 1, fb_drift_10m_pct = 1/250, fb_drift_60m_pct = 3/1000,
      fb_exhaustion_drift_60m_pct = 1/100, fb_require_60m_confirmation = True, fb_post_exit_cooldown_secs = 1800,
      fb_loss_threshold = 2, fb_loss_cooldown_secs = 3600, fb_enable_kelly_sizing = True,
      fb_kelly_max_multiplier = 3, fb_min_edge_from_fair = 1/20, fb_horizon_coherence_min = 1/2,
      fb_horizon_tradfi_confirm = 1/10, fb_horizon_veto_enforce = False, fb_min_secs_to_resolution = 900,
      fb_min_exit_bid_depth_ratio = 1, fb_exit_signal_cooldown_secs = 180, fb_late_market_sl_secs = 3600,
      fb_late_market_stop_loss_pct = 1/20, fb_reversal_stop_loss_pct = 3/25,
      fb_reversal_catastrophic_sl_pct = 9/50, fb_reversal_target_profit_pct = 2/25, fb_sell_price_offset = 1/100,
      fb_expiry_exit_secs = 900, fb_expiry_min_profit_to_hold = 1/50, fb_fill_confirm_min_hold_secs = 30,
      fb_max_hold_secs = 2700, fb_min_hold_before_reversal_secs = 90\<rparr>"

definition spiked_market :: market_config where
  "spiked_market =
     \<lparr>mc_yes_token = ''up'', mc_no_token = ''down'', mc_market_name = ''btc'',
      mc_market_close_time = None, mc_strike_price = None, mc_window_secs = None,
      mc_is_neg_risk = False, mc_condition_id = ''spiked'', mc_yes_fee_bps = 1000, mc_no_fee_bps = 1000\<rparr>"

definition spiked_snapshot :: market_snapshot where
  "spiked_snapshot = blank_snapshot
     \<lparr>ms_yes_bid := 44/100, ms_yes_ask := 48/100, ms_no_bid := 52/100, ms_no_ask := 56/100,
      ms_yes_bid_depth := 50, ms_yes_ask_depth := 50, ms_no_bid_depth := 100, ms_no_ask_depth := 100,
      ms_oracle_price := 100000, ms_oracle_drift_10m := 400\<rparr>"

definition trend_context :: "position_map \<Rightarrow> strategy_context" where
  "trend_context ps =
     \<lparr>cx_market = spiked_market, cx_snapshot = spiked_snapshot, cx_positions = ps, cx_session_pnl = 0,
      cx_starting_collateral = 100, cx_crypto_filter = ''btc'', cx_squadron_id = ''btc-daily'',
      cx_market_class = Some ''crypto'', cx_has_price_feed = True, cx_market_started_at = - from_secs 1000,
      cx_maker_market = None, cx_maker_snapshot = None,
      cx_available_collateral = 100, cx_dynamic_config = sample_config\<rparr>"

definition trend_start :: "trade_entry list \<Rightarrow> trend_world" where
  "trend_start trades =
     \<lparr>vw_status = [], vw_drawdown = ((None, []), 0), vw_notes = [], vw_venue_notices = [], fw_cooldown = [], fw_losses = [],
      fw_last_exit = None,
      fw_pool = Some \<lparr>lg_trades = trades, lg_rows = [], lg_session = [], lg_now = 0, lg_ok = (\<lambda>_. True), lg_calls = 0\<rparr>\<rparr>"

lemma trend_sample_venue [simp]: "trend_venue (trend_context ps) = (spiked_market, spiked_snapshot)"
  by (simp add: trend_venue_def trend_context_def)

lemma sample_trend_fields [simp]:
  "fb_max_snapshot_age_secs sample_trend_build = 15" "fb_market_warmup_secs sample_trend_build = 120"
  "fb_exhaustion_mult sample_trend_build = 1" "fb_drift_10m_pct sample_trend_build = 1/250"
  "fb_drift_60m_pct sample_trend_build = 3/1000" "fb_post_exit_cooldown_secs sample_trend_build = 1800"
  "fb_loss_threshold sample_trend_build = 2" "fb_loss_cooldown_secs sample_trend_build = 3600"
  "fb_enable_kelly_sizing sample_trend_build" "fb_kelly_max_multiplier sample_trend_build = 3"
  "fb_min_edge_from_fair sample_trend_build = 1/20" "\<not> fb_horizon_veto_enforce sample_trend_build"
  "fb_min_exit_bid_depth_ratio sample_trend_build = 1" "fb_reversal_catastrophic_sl_pct sample_trend_build = 9/50"
  "fb_reversal_target_profit_pct sample_trend_build = 2/25"
  by (simp_all add: sample_trend_build_def)

lemma sample_trend_settings [simp]:
  "tc_enable (dc_trend sample_config)" "tc_min_trade_size (dc_trend sample_config) = 5"
  "tc_max_trade_size (dc_trend sample_config) = 15" "tc_max_entry_price (dc_trend sample_config) = 11/20"
  "tc_min_entry_price (dc_trend sample_config) = 9/20" "tc_max_entry_ask_sum (dc_trend sample_config) = 26/25"
  "tc_obi_adverse_block (dc_trend sample_config) = - 7/20" "\<not> tc_deriv_gate_enabled (dc_trend sample_config)"
  "tc_obi_exhaustion_block (dc_trend sample_config) = 3/4" "tc_max_token_spread_pct (dc_trend sample_config) = 3/25"
  "tc_strike_gap_pct (dc_trend sample_config) = 1/250" "tc_catastrophic_sl_pct (dc_trend sample_config) = 3/50"
  "tc_take_profit_ceiling (dc_trend sample_config) = 9/10" "tc_fade_mode (dc_trend sample_config)"
  "dc_trendcapture_max_exposure sample_config = 30" "\<not> dc_ghost_mode sample_config"
  "ve_utc sample_env = 0" "ve_instant sample_env = 0" "ve_rnd sample_env x = x"
  by (simp_all add: sample_config_def sample_env_def)

lemma spiked_fields [simp]:
  "cx_snapshot (trend_context ps) = spiked_snapshot" "cx_dynamic_config (trend_context ps) = sample_config"
  "cx_positions (trend_context ps) = ps" "cx_squadron_id (trend_context ps) = ''btc-daily''"
  "cx_market_started_at (trend_context ps) = - from_secs 1000"
  "ms_yes_bid spiked_snapshot = 44/100" "ms_yes_ask spiked_snapshot = 48/100" "ms_no_bid spiked_snapshot = 52/100"
  "ms_no_ask spiked_snapshot = 56/100" "ms_oracle_price spiked_snapshot = 100000" "ms_timestamp spiked_snapshot = 0"
  "ms_oracle_drift_10m spiked_snapshot = 400" "ms_oracle_drift_60m spiked_snapshot = 0"
  "ms_no_bid_depth spiked_snapshot = 100" "ms_yes_bid_depth spiked_snapshot = 50" "ms_yes_ask_depth spiked_snapshot = 50"
  "mc_yes_token spiked_market = ''up''" "mc_no_token spiked_market = ''down''" "mc_condition_id spiked_market = ''spiked''"
  "mc_yes_fee_bps spiked_market = 1000" "mc_no_fee_bps spiked_market = 1000" "mc_market_name spiked_market = ''btc''"
  "mc_strike_price spiked_market = None" "mc_market_close_time spiked_market = None"
  "fw_cooldown (trend_start ts) = []" "fw_losses (trend_start ts) = []"
  by (simp_all add: trend_context_def spiked_snapshot_def blank_snapshot_def spiked_market_def trend_start_def)

lemma sample_trigger [simp]:
  "trend_trigger sample_trend_build (trend_context ps) = 400" "align_threshold sample_trend_build (trend_context ps) = 300"
  by (simp_all add: trend_trigger_def align_threshold_def oracle_threshold_def)

lemma trend_sample_gate: "trend_market_gate sample_trend_build sample_env (trend_context []) spiked_market spiked_snapshot = Inr None"
proof -
  have "num_seconds (from_secs 1000) = 1000" "num_seconds 0 = 0" by code_simp+
  then show ?thesis
    by (simp add: trend_market_gate_def trend_expiry_gate_def trend_min_price_def trend_exposure_def Let_def)
qed

lemma trend_sample_size: "trend_trade_size sample_trend_build sample_env (dc_trend sample_config) 400 400 = Some (5/2)"
  by (simp add: trend_trade_size_def checked_div_def Let_def)

lemma trend_sample_branch:
  assumes "fw_cooldown w = []" and "fw_losses w = []"
  shows "\<exists>w'. trend_branch sample_trend_build sample_env (trend_context []) spiked_market spiked_snapshot None True w =
     Some (Some (Entry (taker_leg spiked_market ''down'' (56/100) (125/28) 1000 False) None), w')"
  using assms
  by (simp add: trend_branch_def regime_ok_def obi_vetoes_def trend_obi_def deriv_blocks_def passes_gap_def trend_min_price_def
      trend_buy_def bought_leg_def trend_order_def trend_sample_size entry_liquidity_gate_def checked_div_def Let_def)

lemma trend_sample_entry:
  assumes "\<forall>t \<in> set ts. te_side t = ''YES''"
  shows "\<exists>w'. trend_evaluate_entry sample_trend_build sample_env (trend_context []) (trend_start ts) =
     (Some (Entry (taker_leg spiked_market ''down'' (56/100) (125/28) 1000 False) None), w')"
proof -
  have dd: "\<not> fst (check_drawdown sample_env (trend_context []) (trend_start ts))"
    by (rule fresh_drawdown) (simp_all add: trend_start_def trend_context_def sample_env_def)
  let ?w = "snd (check_drawdown sample_env (trend_context []) (trend_start ts))"
  have pool: "fw_pool ?w = fw_pool (trend_start ts)" by simp
  have open_: "\<not> fst (cascade_guard sample_trend_build (trend_context []) spiked_market ?w)"
    unfolding cascade_guard_def pool using assms
    by (auto simp: intended_side_def recent_stop_loss_exists_def trend_start_def list_ex_iff recent_stop_def)
  show ?thesis
    using trend_sample_branch [of "snd (cascade_guard sample_trend_build (trend_context []) spiked_market ?w)"] dd open_
    by (auto simp: trend_evaluate_entry_def trend_sample_gate split_beta Let_def)
qed


text \<open>In fade mode the limits on the price are read off the other leg: with every setting at its shipped value a
  spike up is faded by buying NO at 0.56, above the highest price the strategy is set to pay.\<close>

theorem fade_pays_above_its_cap:
  "\<exists>a w'. trend_evaluate_entry sample_trend_build sample_env (trend_context []) (trend_start []) = (Some (Entry a None), w')
     \<and> tc_fade_mode (dc_trend sample_config) \<and> tc_max_entry_price (dc_trend sample_config) < op_price a"
  using trend_sample_entry [of "[]"] by auto

definition sunk_fade :: "position_key \<times> position" where
  "sunk_fade = (position_key_new ''btc-daily'' ''TrendReversalStrategy'' ''up'',
     \<lparr>p_shares = 10, p_avg_entry = 3/5, p_opened_at = 0, p_close_time = None, p_market_name = [],
      p_pair_token_id = [], p_fill_confirmed_at = None, p_paired_leg_token_id = None, p_entry_fee = 0\<rparr>)"

lemma sunk_fade_facts:
  "trend_owns (trend_context [sunk_fade]) spiked_market (fst sunk_fade) (snd sunk_fade)"
  "trend_margin sample_env (trend_bid spiked_market spiked_snapshot (k_market (fst sunk_fade))) (snd sunk_fade)
     \<le> - catastrophic_pct sample_trend_build (dc_trend sample_config)"
  "k_market (fst sunk_fade) = ''up''"
  by (simp_all add: trend_owns_def sunk_fade_def position_key_new_def trend_names_def trend_margin_def trend_bid_def catastrophic_pct_def)

lemma sunk_fade_pending:
  "trend_pending sample_trend_build sample_env (trend_context [sunk_fade]) spiked_market spiked_snapshot soft [sunk_fade]
     = Some (''up'', snd sunk_fade, Catastrophic)"
proof -
  have "trend_pending sample_trend_build sample_env (trend_context [sunk_fade]) spiked_market spiked_snapshot soft
      [(fst sunk_fade, snd sunk_fade)] = Some (''up'', snd sunk_fade, Catastrophic)"
    using catastrophic_cause [of sample_env spiked_market spiked_snapshot "''up''" "snd sunk_fade" sample_trend_build
        "trend_context [sunk_fade]" soft] sunk_fade_facts
    by (simp del: prod.collapse)
  then show ?thesis by simp
qed

lemma catastrophic_floor_is_never_frozen_witness:
  "\<exists>p reason w'. trend_evaluate_exit sample_trend_build sample_env (trend_context [sunk_fade])
      (trend_start []\<lparr>fw_last_exit := Some 0\<rparr>) = (Exit p reason False, w') \<and> op_token_id p = ''up'' \<and> op_shares p = 10"
  using catastrophic_floor_is_never_frozen [of "fst sunk_fade" "snd sunk_fade" "trend_context [sunk_fade]" spiked_market spiked_snapshot
      sample_env sample_trend_build "trend_start []\<lparr>fw_last_exit := Some 0\<rparr>"] sunk_fade_facts
  by (auto simp: sunk_fade_def)

lemma sunk_fade_exit:
  "\<exists>p reason w'. trend_evaluate_exit sample_trend_build sample_env (trend_context [sunk_fade]) (trend_start []) = (Exit p reason False, w')
     \<and> op_token_id p = ''up'' \<and> op_market_name p = ''btc''"
  using sunk_fade_pending [of "soft_exit_cooldown_active sample_trend_build sample_env (trend_start [])"]
  by (simp add: trend_evaluate_exit_def leg_order_def Let_def)

lemma trend_exit_sound_witness:
  "\<exists>key pos. (key, pos) \<in> set [sunk_fade] \<and> k_market key = ''up'' \<and> p_shares pos = 10"
proof -
  obtain p reason w' where e: "trend_evaluate_exit sample_trend_build sample_env (trend_context [sunk_fade]) (trend_start [])
      = (Exit p reason False, w')" "op_token_id p = ''up''" using sunk_fade_exit by blast
  from trend_exit_sound [OF e(1) trend_sample_venue] e(2) show ?thesis by (auto simp: sunk_fade_def)
qed

lemma refused_stop_counts_every_tick_witness:
  "effective_cooldown sample_trend_build (fw_losses ((missed_exit sample_trend_build sample_env (trend_context [sunk_fade]) ''up'' ^^ 2)
      (trend_start []))) ''spiked'' = 3600"
  using refused_stop_counts_every_tick [of "trend_context [sunk_fade]" spiked_market spiked_snapshot "fst sunk_fade" "snd sunk_fade"
      sample_env sample_trend_build "trend_start []" 2] sunk_fade_facts
  by simp

lemma trend_trade_size_range_witness:
  "trend_trade_size sample_trend_build sample_env (dc_trend sample_config) 400 400 = Some (5/2)
     \<and> (5/2::decimal) < tc_min_trade_size (dc_trend sample_config)"
  using trend_trade_size_range [of sample_env "dc_trend sample_config" sample_trend_build 400 400]
  by (auto simp: decimal_rounding_def mono_def)

lemma trend_entry_never_panics_witness:
  "fst (trend_evaluate_entry sample_trend_build sample_env (trend_context []\<lparr>cx_snapshot := spiked_snapshot\<lparr>ms_no_ask := 0\<rparr>\<rparr>)
      (trend_start [])) \<noteq> None"
  by (rule trend_entry_never_panics) (simp_all add: trend_context_def)

lemma cooldowns_are_the_history_witness:
  "effective_cooldown sample_trend_build (fw_losses (record_exits
      [(1, ''up'', ''spiked'', True), (2, ''x'', ''y'', False), (3, ''down'', ''spiked'', True)] (trend_start []))) ''spiked'' = 3600"
  using cooldowns_are_the_history [of "trend_start []" sample_trend_build
      "[(1, ''up'', ''spiked'', True), (2, ''x'', ''y'', False), (3, ''down'', ''spiked'', True)]" "''spiked''"]
  by (simp add: stop_streak_def)

text \<open>The stop of the position on \<open>up\<close>, as the trades table keeps it.\<close>

definition stop_row :: "string \<Rightarrow> trade_entry" where
  "stop_row reason =
     \<lparr>te_ts = 0, te_strategy = ''TrendReversalStrategy'', te_market = ''btc'', te_side = ''YES'', te_entry_price = 3/5,
      te_exit_price = 44/100, te_shares = 10, te_pnl = - 8/5, te_reason = reason, te_session = [], te_fees = 0,
      te_venue = None, te_market_class = None, te_underlying = None, te_ghost = False, te_token_id = None\<rparr>"

lemma stop_keeps_the_side_closed_witness:
  "\<exists>reason. (\<exists>p w'. trend_evaluate_exit sample_trend_build sample_env (trend_context [sunk_fade]) (trend_start []) = (Exit p reason False, w'))
     \<and> (\<exists>a b w3. trend_evaluate_entry sample_trend_build sample_env (trend_context []) (trend_start [stop_row reason])
          = (Some (Entry a b), w3) \<and> op_token_id a \<noteq> ''up'')"
proof -
  obtain p reason w1 where e: "trend_evaluate_exit sample_trend_build sample_env (trend_context [sunk_fade]) (trend_start [])
      = (Exit p reason False, w1)" "op_market_name p = ''btc''" using sunk_fade_exit by blast
  have pending: "trend_pending sample_trend_build sample_env (trend_context [sunk_fade]) spiked_market spiked_snapshot
      (soft_exit_cooldown_active sample_trend_build sample_env (trend_start [])) (cx_positions (trend_context [sunk_fade]))
      = Some (''up'', snd sunk_fade, Catastrophic)" by (simp add: sunk_fade_pending)
  obtain db where db: "fw_pool (trend_start [stop_row reason]) = Some db" "lg_trades db = [stop_row reason]" "lg_succeeds db"
      "lg_now db = 0" by (auto simp: trend_start_def lg_succeeds_def)
  obtain a b w3 where r: "trend_evaluate_entry sample_trend_build sample_env (trend_context []) (trend_start [stop_row reason])
      = (Some (Entry a b), w3)" using trend_sample_entry [of "[stop_row reason]"] by (auto simp: stop_row_def)
  have "op_token_id a \<noteq> ''up''"
    using stop_keeps_the_side_closed [OF trend_sample_venue pending _ e(1), of "stop_row reason" db, OF _ _ _ _ _ _ _ _ trend_sample_venue
        _ _ _ db(1) r] db(2-4) e(2)
    by (simp add: stop_row_def nanos_per_sec_def)
  with e(1) r show ?thesis by blast
qed

end
