(* ===== verification/Convergence.thy ===== *)
theory Convergence
  imports Viper_Common "HOL-Library.Sublist"
begin

text \<open>
  The convergence strategy, \<open>src/vipers/convergence_impl.rs\<close>: an entry when institutions, derivatives and book agree
  on a direction and go on agreeing for a while; stops measured from the bid at entry; resting take-profits
  one at a time.  The state is what the strategy keeps, and the counter that rotates the resting asks,
  which is shared by every instance in the process.  The build's constants are in a record.
\<close>

definition convergence_name :: string where
  "convergence_name = ''ConvergenceStrategy''"

record convergence_build =
  vb_market_warmup_secs :: int
  vb_oi_min_build :: decimal
  vb_exhaustion_drift_60m_pct :: decimal
  vb_signal_continuity_gap_secs :: nat
  vb_entry_persistence_secs :: nat
  vb_post_exit_cooldown_secs :: nat
  vb_stop_market_cooldown_secs :: nat
  vb_min_secs_to_resolution :: int
  vb_min_exit_bid_depth_ratio :: decimal
  vb_exit_signal_cooldown_secs :: nat
  vb_catastrophic_sl_mult :: decimal
  vb_catastrophic_sl_pct :: decimal
  vb_min_hold_secs :: int
  vb_min_order_shares :: decimal

type_synonym signal_streak = "string \<times> bool \<times> instant \<times> instant"

record convergence_world = viper_world +
  cw_post_exit :: "(market_id, instant) hash_map"
  cw_stop_market :: "(string, instant) hash_map"
  cw_last_exit :: "instant option"
  cw_entry_bid :: "(market_id, decimal) hash_map"
  cw_streak :: "signal_streak option"
  cw_rotation :: nat

type_synonym convergence_result = "strategy_signal option \<times> convergence_world"

definition str_contains :: "string \<Rightarrow> string \<Rightarrow> bool" where
  "str_contains pat s = sublist pat s"

definition is_btc :: "strategy_context \<Rightarrow> bool" where
  "is_btc ctx \<longleftrightarrow>
     to_lowercase (cx_crypto_filter ctx) = ''btc''
     \<or> (let name = to_lowercase (mc_market_name (cx_market ctx)) in str_contains ''btc'' name \<or> str_contains ''bitcoin'' name)"

definition conv_record_exit :: "instant \<Rightarrow> market_id \<Rightarrow> convergence_world \<Rightarrow> convergence_world" where
  "conv_record_exit now token w =
     w\<lparr>cw_post_exit := hm_insert token now (cw_post_exit w), cw_entry_bid := hm_remove token (cw_entry_bid w),
       cw_last_exit := Some now\<rparr>"

definition record_market_stop :: "instant \<Rightarrow> string \<Rightarrow> convergence_world \<Rightarrow> convergence_world" where
  "record_market_stop now condition_id w = w\<lparr>cw_stop_market := hm_insert condition_id now (cw_stop_market w)\<rparr>"

section \<open>The signal\<close>

definition drift_incoherent :: "decimal \<Rightarrow> decimal \<Rightarrow> decimal \<Rightarrow> bool" where
  "drift_incoherent drift_10m drift_60m deadband \<longleftrightarrow>
     deadband \<le> \<bar>drift_10m\<bar> \<and> deadband \<le> \<bar>drift_60m\<bar> \<and> (0 \<le> drift_10m) \<noteq> (0 \<le> drift_60m)"

definition velocity_opposes_entry :: "decimal \<Rightarrow> bool \<Rightarrow> decimal \<Rightarrow> bool" where
  "velocity_opposes_entry velocity want_bull deadband =
     (if want_bull then velocity \<le> - deadband else deadband \<le> velocity)"

definition cvd_confirms :: "convergence_settings \<Rightarrow> bool \<Rightarrow> decimal \<Rightarrow> bool" where
  "cvd_confirms cv want_bull cvd =
     (if want_bull then 1 + cv_cvd_confirm_margin cv \<le> cvd else 0 < cvd \<and> cvd \<le> 1 - cv_cvd_confirm_margin cv)"

definition conv_obi :: "viper_env \<Rightarrow> market_snapshot \<Rightarrow> bool \<Rightarrow> decimal" where
  "conv_obi env sn whole_book =
     (let (bid, ask) = yes_depths sn whole_book in if 0 < bid + ask then ve_rnd env ((bid - ask) / (bid + ask)) else 0)"

definition obi_adverse :: "viper_env \<Rightarrow> strategy_context \<Rightarrow> bool \<Rightarrow> bool" where
  "obi_adverse env ctx want_bull =
     (let dc = cx_dynamic_config ctx; block = cv_obi_adverse_block (dc_convergence dc);
          obi = conv_obi env (cx_snapshot ctx) (dc_obi_use_whole_book dc)
      in if want_bull then obi < - block else block < obi)"

text \<open>The direction every gate agrees on, or the reason there is none.\<close>

definition conv_signal :: "convergence_build \<Rightarrow> viper_env \<Rightarrow> strategy_context \<Rightarrow> string + bool" where
  "conv_signal bd env ctx =
     (let dc = cx_dynamic_config ctx; cv = dc_convergence dc; sn = cx_snapshot ctx;
          want_bull = (cv_pulse_threshold cv \<le> ms_institutional_pulse sn);
          want_bear = (ms_institutional_pulse sn \<le> - cv_pulse_threshold cv);
          exhaustion = oracle_threshold (vb_exhaustion_drift_60m_pct bd) (ms_oracle_price sn);
          drift_60m = ms_oracle_drift_60m sn
      in if \<not> is_btc ctx then Inl ''BTC-only strategy (no ETF tide for this asset)''
         else if num_seconds (ve_utc env - cx_market_started_at ctx) < vb_market_warmup_secs bd then Inl ''market warmup''
         else if \<not> want_bull \<and> \<not> want_bear then Inl ''no institutional pulse (or outside US hours)''
         else if ms_tide_coherence sn < cv_coherence_min cv then Inl ''ETF tide not coherent''
         else if ms_oi_delta_pct sn < vb_oi_min_build bd then Inl ''open interest unwinding''
         else if want_bull \<and> exhaustion \<le> drift_60m \<or> want_bear \<and> drift_60m \<le> - exhaustion
         then Inl ''60m drift exhausted (move priced in)''
         else if drift_incoherent (ms_oracle_drift_10m sn) drift_60m
             (oracle_threshold (cv_drift_coherence_deadband_pct cv) (ms_oracle_price sn))
         then Inl ''10m/60m drift disagree (counter-trend)''
         else if velocity_opposes_entry (ms_velocity sn) want_bull
             (oracle_threshold (cv_velocity_opposition_pct cv) (ms_oracle_price sn))
         then Inl ''oracle velocity opposes entry''
         else if \<not> cvd_confirms cv want_bull (ms_cvd_ratio sn) then Inl ''taker flow (CVD) does not confirm''
         else if obi_adverse env ctx want_bull then Inl ''book stacked against entry (OBI)''
         else Inr want_bull)"

text \<open>Whether the signal has held long enough, and the streak it leaves.\<close>

definition debounce ::
  "convergence_build \<Rightarrow> instant \<Rightarrow> string \<Rightarrow> bool \<Rightarrow> signal_streak option \<Rightarrow> bool \<times> signal_streak option" where
  "debounce bd now condition_id want_bull streak =
     (case streak of
        Some (cid, dir, first_seen, last_seen) \<Rightarrow>
          if cid = condition_id \<and> dir = want_bull \<and> elapsed_secs now last_seen \<le> vb_signal_continuity_gap_secs bd
          then (vb_entry_persistence_secs bd \<le> elapsed_secs now first_seen, Some (cid, dir, first_seen, now))
          else (False, Some (condition_id, want_bull, now, now))
      | None \<Rightarrow> (False, Some (condition_id, want_bull, now, now)))"

section \<open>The entry\<close>

definition stand_down_conv :: "viper_env \<Rightarrow> strategy_context \<Rightarrow> string \<Rightarrow> convergence_world \<Rightarrow> convergence_result" where
  "stand_down_conv env ctx reason w = (Some NoSignal, idle env ctx convergence_name reason w)"

definition conv_owns :: "strategy_context \<Rightarrow> position_key \<Rightarrow> bool" where
  "conv_owns ctx key \<longleftrightarrow> k_strategy key = convergence_name \<and> k_squadron key = cx_squadron_id ctx"

definition on_market :: "market_config \<Rightarrow> position_key \<Rightarrow> bool" where
  "on_market market key \<longleftrightarrow> k_market key = mc_yes_token market \<or> k_market key = mc_no_token market"

definition conv_exposure :: "strategy_context \<Rightarrow> decimal" where
  "conv_exposure ctx =
     sum_list (map (\<lambda>(k, p). p_shares p * p_avg_entry p) (filter (\<lambda>(k, p). conv_owns ctx k) (cx_positions ctx)))"

text \<open>The gates on the price of the leg and on what is held already.\<close>

definition conv_leg_gate ::
  "convergence_build \<Rightarrow> viper_env \<Rightarrow> strategy_context \<Rightarrow> market_id \<Rightarrow> decimal \<Rightarrow> decimal \<Rightarrow> convergence_world \<Rightarrow> string option" where
  "conv_leg_gate bd env ctx token ask bid w =
     (let dc = cx_dynamic_config ctx; cv = dc_convergence dc; market = cx_market ctx; now = ve_instant env in
      if ask < cv_min_entry_price cv \<or> cv_max_entry_price cv < ask then Some ''ask outside entry price band''
      else if cv_skip_band_low cv < cv_skip_band_high cv \<and> cv_skip_band_low cv \<le> ask \<and> ask \<le> cv_skip_band_high cv
      then Some ''coin-flip price band''
      else if cv_max_token_spread_pct cv < (if 0 < ask then ve_rnd env ((ask - bid) / ask) else 1) then Some ''spread too wide''
      else case fee_dominated_entry (ve_rnd env) (ve_taker_fee_rate env) ask (cv_target_profit_pct cv)
              (cv_max_fee_to_target_ratio cv) of
        Some block \<Rightarrow> Some (fee_reason env (cv_target_profit_pct cv) (cv_max_fee_to_target_ratio cv) block)
      | None \<Rightarrow>
          if (case hm_get (cw_post_exit w) token of
                None \<Rightarrow> False | Some t \<Rightarrow> elapsed_secs now t < vb_post_exit_cooldown_secs bd)
          then Some ''post-exit cooldown''
          else if (case hm_get (cw_stop_market w) (mc_condition_id market) of
                None \<Rightarrow> False | Some t \<Rightarrow> elapsed_secs now t < vb_stop_market_cooldown_secs bd)
          then Some ''post-stop market cooldown''
          else if list_ex (\<lambda>(k, p). conv_owns ctx k \<and> on_market market k) (cx_positions ctx)
          then Some ''position already open on this market''
          else if dc_convergence_max_exposure dc < conv_exposure ctx + cv_position_size cv then Some ''exposure cap reached''
          else None)"

definition conv_note ::
  "strategy_context \<Rightarrow> bool \<Rightarrow> decimal \<Rightarrow> decimal \<Rightarrow> decimal \<Rightarrow> decimal \<Rightarrow> int option \<Rightarrow> entry_note" where
  "conv_note ctx want_bull ask bid amount depth secs_left =
     (let sn = cx_snapshot ctx in
      [(''viper'', NText ''Convergence''), (''branch'', NText (if want_bull then ''BULL'' else ''BEAR'')),
       (''pulse'', NDecimal (ms_institutional_pulse sn)), (''coherence'', NDecimal (ms_tide_coherence sn)),
       (''cvd'', NDecimal (ms_cvd_ratio sn)), (''oi'', NDecimal (ms_oi_delta_pct sn)), (''ask'', NDecimal ask),
       (''bid'', NDecimal bid), (''trade_size'', NDecimal amount), (''exit_bid_depth'', NDecimal depth),
       (''secs_left'', case secs_left of None \<Rightarrow> NNull | Some s \<Rightarrow> NInt s)])"

text \<open>Once the signal has persisted.\<close>

definition conv_take ::
  "convergence_build \<Rightarrow> viper_env \<Rightarrow> strategy_context \<Rightarrow> bool \<Rightarrow> convergence_world \<Rightarrow> convergence_result" where
  "conv_take bd env ctx want_bull w =
     (let dc = cx_dynamic_config ctx; cv = dc_convergence dc; market = cx_market ctx; sn = cx_snapshot ctx;
          amount = cv_position_size cv;
          (token, ask, bid, fee_bps, depth) =
            (if want_bull then (mc_yes_token market, ms_yes_ask sn, ms_yes_bid sn, mc_yes_fee_bps market, ms_yes_bid_depth sn)
             else (mc_no_token market, ms_no_ask sn, ms_no_bid sn, mc_no_fee_bps market, ms_no_bid_depth sn))
      in case conv_leg_gate bd env ctx token ask bid w of
           Some reason \<Rightarrow> stand_down_conv env ctx reason w
         | None \<Rightarrow>
             (case checked_div env amount ask of
                None \<Rightarrow> (None, w)
              | Some shares \<Rightarrow>
                  (let secs_left = map_option (\<lambda>c. num_seconds (c - ve_utc env)) (mc_market_close_time market) in
                   case entry_liquidity_gate (vb_min_secs_to_resolution bd) (vb_min_exit_bid_depth_ratio bd) secs_left shares depth of
                     Some block \<Rightarrow> stand_down_conv env ctx (liquidity_reason env (vb_min_secs_to_resolution bd) block) w
                   | None \<Rightarrow>
                       (Some (Entry (taker_leg market token ask shares fee_bps (dc_ghost_mode dc)) None),
                        stash_entry_signals token (conv_note ctx want_bull ask bid amount depth secs_left)
                          (w\<lparr>cw_entry_bid := hm_insert token bid (cw_entry_bid w), cw_streak := None\<rparr>)))))"

definition conv_evaluate_entry ::
  "convergence_build \<Rightarrow> viper_env \<Rightarrow> strategy_context \<Rightarrow> convergence_world \<Rightarrow> convergence_result" where
  "conv_evaluate_entry bd env ctx w =
     (if \<not> cv_enable (dc_convergence (cx_dynamic_config ctx)) then stand_down_conv env ctx ''disabled in config'' w
      else let (hit, w) = check_drawdown env ctx w in
      if hit then stand_down_conv env ctx ''daily drawdown limit hit'' w
      else case conv_signal bd env ctx of
        Inl reason \<Rightarrow> stand_down_conv env ctx reason w
      | Inr want_bull \<Rightarrow>
          (let (held, streak) = debounce bd (ve_instant env) (mc_condition_id (cx_market ctx)) want_bull (cw_streak w);
               w = w\<lparr>cw_streak := streak\<rparr>
           in if \<not> held then stand_down_conv env ctx ''signal persistence debounce'' w
              else conv_take bd env ctx want_bull w))"

section \<open>The exit\<close>

datatype conv_cause = Conv_catastrophic | Conv_dead_zone | Conv_stop | Conv_target | Conv_decay

definition conv_bid :: "strategy_context \<Rightarrow> market_id \<Rightarrow> decimal" where
  "conv_bid ctx token = (if token = mc_yes_token (cx_market ctx) then ms_yes_bid (cx_snapshot ctx) else ms_no_bid (cx_snapshot ctx))"

definition conv_margin :: "viper_env \<Rightarrow> decimal \<Rightarrow> position \<Rightarrow> decimal" where
  "conv_margin env bid pos = ve_rnd env ((bid - p_avg_entry pos) / p_avg_entry pos)"

definition conv_catastrophic_pct :: "convergence_build \<Rightarrow> convergence_settings \<Rightarrow> decimal" where
  "conv_catastrophic_pct bd cv = max (- (cv_stop_loss_pct cv * vb_catastrophic_sl_mult bd)) (vb_catastrophic_sl_pct bd)"

definition recorded_entry_bid :: "market_id \<Rightarrow> convergence_world \<Rightarrow> decimal option" where
  "recorded_entry_bid token w =
     (case hm_get (cw_entry_bid w) token of None \<Rightarrow> None | Some b \<Rightarrow> if 0 < b then Some b else None)"

definition cat_ref :: "market_id \<Rightarrow> position \<Rightarrow> convergence_world \<Rightarrow> decimal" where
  "cat_ref token pos w = (case recorded_entry_bid token w of None \<Rightarrow> p_avg_entry pos | Some b \<Rightarrow> b)"

definition cat_move :: "viper_env \<Rightarrow> decimal \<Rightarrow> market_id \<Rightarrow> position \<Rightarrow> convergence_world \<Rightarrow> decimal" where
  "cat_move env bid token pos w = ve_rnd env ((bid - cat_ref token pos w) / cat_ref token pos w)"

definition conv_target_pct :: "viper_env \<Rightarrow> convergence_settings \<Rightarrow> decimal \<Rightarrow> decimal" where
  "conv_target_pct env cv avg_entry =
     max (cv_target_profit_pct cv) (round_trip_fee_pct (ve_taker_fee_rate env) avg_entry * cv_tp_fee_margin_mult cv)"

definition conv_cause_of ::
  "convergence_build \<Rightarrow> viper_env \<Rightarrow> strategy_context \<Rightarrow> bool \<Rightarrow> market_id \<Rightarrow> position \<Rightarrow> convergence_world \<Rightarrow> conv_cause option" where
  "conv_cause_of bd env ctx soft token pos w =
     (let dc = cx_dynamic_config ctx; cv = dc_convergence dc; sn = cx_snapshot ctx;
          bid = conv_bid ctx token; margin = conv_margin env bid pos; move = cat_move env bid token pos w;
          secs_held = num_seconds (ve_utc env - p_opened_at pos);
          half = ve_rnd env (cv_pulse_threshold cv / 2)
      in if move \<le> conv_catastrophic_pct bd cv then Some Conv_catastrophic
         else if recorded_entry_bid token w \<noteq> None \<and> secs_held < vb_min_hold_secs bd \<and> move \<le> - cv_stop_loss_pct cv
         then Some Conv_dead_zone
         else if fill_effective_at pos (dc_ghost_mode dc) = None then None
         else if vb_min_hold_secs bd \<le> secs_held \<and> margin \<le> - cv_stop_loss_pct cv then Some Conv_stop
         else if \<not> soft \<and> conv_target_pct env cv (p_avg_entry pos) \<le> margin then Some Conv_target
         else if \<not> soft \<and> vb_min_hold_secs bd \<le> secs_held
           \<and> ((if token = mc_yes_token (cx_market ctx) then ms_institutional_pulse sn \<le> - half
               else half \<le> ms_institutional_pulse sn)
              \<or> ms_tide_coherence sn < ve_rnd env (cv_coherence_min cv / 2))
         then Some Conv_decay
         else None)"

definition conv_reason ::
  "viper_env \<Rightarrow> strategy_context \<Rightarrow> market_id \<Rightarrow> position \<Rightarrow> convergence_world \<Rightarrow> conv_cause \<Rightarrow> string" where
  "conv_reason env ctx token pos w cause =
     (let bid = conv_bid ctx token; quote = '': bid=$'' @ ve_show env 4 bid;
          pct = ve_show env 2 (conv_margin env bid pos * 100) @ ''%'';
          move = ve_show env 2 (cat_move env bid token pos w * 100) @ ''%''; ref = ve_show env 4 (cat_ref token pos w)
      in case cause of
           Conv_catastrophic \<Rightarrow> ''ConvergenceCatastrophic'' @ quote @ '' move='' @ move @ '' (ref=$'' @ ref @ '') pnl='' @ pct
         | Conv_dead_zone \<Rightarrow> ''ConvergenceDeadZoneSL'' @ quote @ '' move='' @ move @ '' bid-to-bid (ref=$'' @ ref @ '', ''
             @ ve_show_int env (num_seconds (ve_utc env - p_opened_at pos)) @ ''s held) pnl='' @ pct
         | Conv_stop \<Rightarrow> ''ConvergenceSL'' @ quote @ '' loss='' @ pct
         | Conv_target \<Rightarrow> ''ConvergenceTP'' @ quote @ '' profit='' @ pct
         | Conv_decay \<Rightarrow> ''ConvergenceDecay'' @ quote @ '' pulse='' @ ve_show env 2 (ms_institutional_pulse (cx_snapshot ctx))
             @ '' coh='' @ ve_show env 2 (ms_tide_coherence (cx_snapshot ctx)) @ '' profit='' @ pct)"

definition show_signed :: "viper_env \<Rightarrow> nat \<Rightarrow> decimal \<Rightarrow> string" where
  "show_signed env n x = (if 0 \<le> x then ''+'' @ ve_show env n x else ve_show env n x)"

text \<open>The ask a healthy, confirmed position rests.\<close>

definition conv_resting ::
  "convergence_build \<Rightarrow> viper_env \<Rightarrow> strategy_context \<Rightarrow> bool \<Rightarrow> market_id \<Rightarrow> position \<Rightarrow> strategy_signal option" where
  "conv_resting bd env ctx soft token pos =
     (let dc = cx_dynamic_config ctx; cv = dc_convergence dc; market = cx_market ctx;
          target = max (cv_target_profit_pct cv)
            (entry_only_fee_pct (ve_taker_fee_rate env) (p_avg_entry pos) * cv_tp_fee_margin_mult cv)
      in if fill_effective_at pos (dc_ghost_mode dc) = None \<or> \<not> cv_resting_tp_enabled cv \<or> soft
           \<or> p_shares pos < vb_min_order_shares bd
         then None
         else case resting_tp_price (p_avg_entry pos) target (conv_bid ctx token) 0 of
             None \<Rightarrow> None
           | Some price \<Rightarrow>
               Some (MakerRestingExit
                 (leg_order market token price (p_shares pos)
                    (as_u16 (if token = mc_yes_token market then mc_yes_fee_bps market else mc_no_fee_bps market))
                    Gtc True (dc_ghost_mode dc))
                 (''ConvergenceRestingTP: ask=$'' @ ve_show env 4 price @ '' entry=$'' @ ve_show env 4 (p_avg_entry pos)
                    @ '' target='' @ show_signed env 2 (ve_rnd env ((price - p_avg_entry pos) / p_avg_entry pos) * 100) @ ''%'')))"

definition conv_tradeable :: "strategy_context \<Rightarrow> position_key \<Rightarrow> position \<Rightarrow> bool" where
  "conv_tradeable ctx key pos \<longleftrightarrow> conv_owns ctx key \<and> on_market (cx_market ctx) key \<and> 0 < p_avg_entry pos"

text \<open>The first position with a cause to leave, and the resting asks of those before it.\<close>

fun conv_scan ::
  "convergence_build \<Rightarrow> viper_env \<Rightarrow> strategy_context \<Rightarrow> bool \<Rightarrow> convergence_world \<Rightarrow> position_map
     \<Rightarrow> (market_id \<times> position \<times> conv_cause) option \<times> strategy_signal list" where
  "conv_scan bd env ctx soft w [] = (None, [])"
| "conv_scan bd env ctx soft w ((key, pos) # rest) =
     (if \<not> conv_tradeable ctx key pos then conv_scan bd env ctx soft w rest
      else case conv_cause_of bd env ctx soft (k_market key) pos w of
        Some cause \<Rightarrow> (Some (k_market key, pos, cause), [])
      | None \<Rightarrow>
          (let (pending, asks) = conv_scan bd env ctx soft w rest
           in (pending, (case conv_resting bd env ctx soft (k_market key) pos of None \<Rightarrow> asks | Some s \<Rightarrow> s # asks))))"

definition conv_soft :: "convergence_build \<Rightarrow> viper_env \<Rightarrow> convergence_world \<Rightarrow> bool" where
  "conv_soft bd env w =
     (case cw_last_exit w of
        None \<Rightarrow> False | Some t \<Rightarrow> elapsed_secs (ve_instant env) t < vb_exit_signal_cooldown_secs bd)"

definition arms_market_stop :: "string \<Rightarrow> bool" where
  "arms_market_stop reason \<longleftrightarrow> prefix ''ConvergenceCatastrophic'' reason \<or> prefix ''ConvergenceSL'' reason"

text \<open>The counter is a 64-bit atomic.\<close>

definition rotate :: "strategy_signal list \<Rightarrow> convergence_world \<Rightarrow> strategy_signal \<times> convergence_world" where
  "rotate asks w = (asks ! (cw_rotation w mod length asks), w\<lparr>cw_rotation := Suc (cw_rotation w) mod 2 ^ 64\<rparr>)"

definition conv_evaluate_exit ::
  "convergence_build \<Rightarrow> viper_env \<Rightarrow> strategy_context \<Rightarrow> convergence_world \<Rightarrow> strategy_signal \<times> convergence_world" where
  "conv_evaluate_exit bd env ctx w =
     (let dc = cx_dynamic_config ctx; market = cx_market ctx in
      case conv_scan bd env ctx (conv_soft bd env w) w (cx_positions ctx) of
        (Some (token, pos, cause), _) \<Rightarrow>
          (let reason = conv_reason env ctx token pos w cause;
               w' = conv_record_exit (ve_instant env) token w
           in (Exit (taker_leg market token (conv_bid ctx token) (p_shares pos)
                 (if token = mc_yes_token market then mc_yes_fee_bps market else mc_no_fee_bps market) (dc_ghost_mode dc))
                 reason False,
               if arms_market_stop reason then record_market_stop (ve_instant env) (mc_condition_id market) w' else w'))
      | (None, asks) \<Rightarrow> if asks \<noteq> [] then rotate asks w else (NoSignal, w))"

definition conv_on_exit_order_failed :: "market_id \<Rightarrow> convergence_world \<Rightarrow> convergence_world" where
  "conv_on_exit_order_failed token w = w\<lparr>cw_last_exit := None\<rparr>"

end
