(* ===== verification/Convergence_Properties.thy ===== *)
theory Convergence_Properties
  imports Convergence
begin

text \<open>
  What the convergence strategy guarantees: what an entry agreed with and how long the agreement had lasted, what
  an exit may be for, that no stop is frozen, that a take-profit is a profit after fees, and how the
  resting asks take turns.
\<close>

section \<open>What an entry went through\<close>

lemma conv_not_entry [simp]: "stand_down_conv env ctx reason w \<noteq> (Some (Entry a b), w')"
  by (simp add: stand_down_conv_def)

lemma stand_down_streak [simp]: "cw_streak (snd (stand_down_conv env ctx reason w)) = cw_streak w"
  by (simp add: stand_down_conv_def idle_def)

lemma check_drawdown_conv [simp]:
  "cw_streak (snd (check_drawdown env ctx w)) = cw_streak w"
  "cw_post_exit (snd (check_drawdown env ctx w)) = cw_post_exit w"
  "cw_stop_market (snd (check_drawdown env ctx w)) = cw_stop_market w"
  by (simp_all add: check_drawdown_def split_beta)

definition conv_dir_of :: "convergence_build \<Rightarrow> viper_env \<Rightarrow> strategy_context \<Rightarrow> convergence_world \<Rightarrow> bool option" where
  "conv_dir_of bd env ctx w =
     (if cv_enable (dc_convergence (cx_dynamic_config ctx)) \<and> \<not> fst (check_drawdown env ctx w)
      then case conv_signal bd env ctx of Inl _ \<Rightarrow> None | Inr want_bull \<Rightarrow> Some want_bull
      else None)"

text \<open>The evaluation, as what it does to the streak and what it does once the streak has held.\<close>

lemma conv_entry_cases:
  "conv_evaluate_entry bd env ctx w =
     (case conv_dir_of bd env ctx w of
        None \<Rightarrow> conv_evaluate_entry bd env ctx w
      | Some want_bull \<Rightarrow>
          (let (held, streak) = debounce bd (ve_instant env) (mc_condition_id (cx_market ctx)) want_bull (cw_streak w);
               w = snd (check_drawdown env ctx w)\<lparr>cw_streak := streak\<rparr>
           in if held then conv_take bd env ctx want_bull w
              else stand_down_conv env ctx ''signal persistence debounce'' w))"
  by (auto simp: conv_evaluate_entry_def conv_dir_of_def split_beta Let_def split: sum.splits option.splits)

lemma conv_no_dir:
  assumes "conv_dir_of bd env ctx w = None"
  shows "fst (conv_evaluate_entry bd env ctx w) = Some NoSignal"
    and "cw_streak (snd (conv_evaluate_entry bd env ctx w)) = cw_streak w"
  using assms
  by (auto simp: conv_evaluate_entry_def conv_dir_of_def split_beta Let_def split: sum.splits if_splits)
    (auto simp: stand_down_conv_def idle_def)

lemma conv_take_entry:
  assumes "conv_take bd env ctx want_bull w = (Some (Entry a b), w')"
  shows "b = None" and "op_order_type a = Fak"
    and "op_token_id a = (if want_bull then mc_yes_token (cx_market ctx) else mc_no_token (cx_market ctx))"
    and "op_price a = (if want_bull then ms_yes_ask (cx_snapshot ctx) else ms_no_ask (cx_snapshot ctx))"
    and "op_shares a = ve_rnd env (cv_position_size (dc_convergence (cx_dynamic_config ctx)) / op_price a)"
    and "conv_leg_gate bd env ctx (op_token_id a) (op_price a)
        (if want_bull then ms_yes_bid (cx_snapshot ctx) else ms_no_bid (cx_snapshot ctx)) w = None"
    and "hm_get (cw_entry_bid w') (op_token_id a)
        = Some (if want_bull then ms_yes_bid (cx_snapshot ctx) else ms_no_bid (cx_snapshot ctx))"
    and "cw_streak w' = None"
  using assms
  by (auto simp: conv_take_def checked_div_def stash_entry_signals_def Let_def split: if_splits option.splits)

lemma conv_take_streak: "cw_streak (snd (conv_take bd env ctx want_bull w)) \<in> {cw_streak w, None}"
  by (auto simp: conv_take_def checked_div_def stash_entry_signals_def split_beta Let_def split: option.splits)

lemma conv_entryE:
  assumes "conv_evaluate_entry bd env ctx w = (Some (Entry a b), w')"
  obtains want_bull streak w1 where "conv_dir_of bd env ctx w = Some want_bull"
    and "debounce bd (ve_instant env) (mc_condition_id (cx_market ctx)) want_bull (cw_streak w) = (True, streak)"
    and "cw_post_exit w1 = cw_post_exit w" and "cw_stop_market w1 = cw_stop_market w"
    and "conv_take bd env ctx want_bull w1 = (Some (Entry a b), w')"
proof (cases "conv_dir_of bd env ctx w")
  case None
  then show thesis using conv_no_dir(1) [OF None] assms by simp
next
  case (Some want_bull)
  obtain held streak where "debounce bd (ve_instant env) (mc_condition_id (cx_market ctx)) want_bull (cw_streak w) = (held, streak)"
    by fastforce
  with Some show thesis
    using that [of want_bull streak "snd (check_drawdown env ctx w)\<lparr>cw_streak := streak\<rparr>"] assms
    by (subst (asm) conv_entry_cases) (auto simp: Let_def split: if_splits)
qed

lemma conv_dirD:
  assumes "conv_dir_of bd env ctx w = Some want_bull"
  shows "conv_signal bd env ctx = Inr want_bull"
  using assms by (auto simp: conv_dir_of_def split: if_splits sum.splits)

lemma conv_signalD:
  assumes "conv_signal bd env ctx = Inr want_bull"
  defines "cv \<equiv> dc_convergence (cx_dynamic_config ctx)" and "sn \<equiv> cx_snapshot ctx"
  shows "is_btc ctx"
    and "if want_bull then cv_pulse_threshold cv \<le> ms_institutional_pulse sn else ms_institutional_pulse sn \<le> - cv_pulse_threshold cv"
    and "cv_coherence_min cv \<le> ms_tide_coherence sn" and "vb_oi_min_build bd \<le> ms_oi_delta_pct sn"
    and "if want_bull then ms_oracle_drift_60m sn < oracle_threshold (vb_exhaustion_drift_60m_pct bd) (ms_oracle_price sn)
         else - oracle_threshold (vb_exhaustion_drift_60m_pct bd) (ms_oracle_price sn) < ms_oracle_drift_60m sn"
    and "\<not> drift_incoherent (ms_oracle_drift_10m sn) (ms_oracle_drift_60m sn)
        (oracle_threshold (cv_drift_coherence_deadband_pct cv) (ms_oracle_price sn))"
    and "\<not> velocity_opposes_entry (ms_velocity sn) want_bull
        (oracle_threshold (cv_velocity_opposition_pct cv) (ms_oracle_price sn))"
    and "cvd_confirms cv want_bull (ms_cvd_ratio sn)" and "\<not> obi_adverse env ctx want_bull"
  using assms(1) by (auto simp: conv_signal_def cv_def sn_def Let_def not_le not_less split: if_splits)

lemma conv_leg_gateD:
  assumes "conv_leg_gate bd env ctx token ask bid w = None"
  defines "cv \<equiv> dc_convergence (cx_dynamic_config ctx)"
  shows "cv_min_entry_price cv \<le> ask" and "ask \<le> cv_max_entry_price cv"
    and "fee_dominated_entry (ve_rnd env) (ve_taker_fee_rate env) ask (cv_target_profit_pct cv) (cv_max_fee_to_target_ratio cv) = None"
    and "\<And>t. hm_get (cw_post_exit w) token = Some t \<Longrightarrow> vb_post_exit_cooldown_secs bd \<le> elapsed_secs (ve_instant env) t"
    and "\<And>t. hm_get (cw_stop_market w) (mc_condition_id (cx_market ctx)) = Some t \<Longrightarrow>
        vb_stop_market_cooldown_secs bd \<le> elapsed_secs (ve_instant env) t"
    and "\<And>k p. (k, p) \<in> set (cx_positions ctx) \<Longrightarrow> conv_owns ctx k \<Longrightarrow> \<not> on_market (cx_market ctx) k"
    and "conv_exposure ctx + cv_position_size cv \<le> dc_convergence_max_exposure (cx_dynamic_config ctx)"
  using assms(1)
  by (auto simp: conv_leg_gate_def cv_def Let_def not_less list_ex_iff split: if_splits option.splits)

text \<open>C16: An entry is one everything agreed on.  It buys the leg the institutions lean to, with the strategy's fixed size
  at the ask inside its price band; the three funds cohere, open interest builds, the hour is not exhausted
  in that direction, the two drifts do not disagree, the price is not moving away, and taker flow and
  book confirm; the same signal was seen on this market long enough ago and recently enough; the token
  and the market have cooled down, the market holds no position of the strategy, and the exposure with
  the entry is within the cap.\<close>

theorem conv_entry_sound:
  assumes "conv_evaluate_entry bd env ctx w = (Some (Entry a b), w')"
  defines "cv \<equiv> dc_convergence (cx_dynamic_config ctx)" and "sn \<equiv> cx_snapshot ctx" and "now \<equiv> ve_instant env"
    and "market \<equiv> cx_market ctx"
  shows "\<exists>want_bull first_seen last_seen. b = None \<and> op_order_type a = Fak
    \<and> op_token_id a = (if want_bull then mc_yes_token market else mc_no_token market)
    \<and> op_price a = (if want_bull then ms_yes_ask sn else ms_no_ask sn) \<and> op_price a \<in> {cv_min_entry_price cv..cv_max_entry_price cv}
    \<and> op_shares a = ve_rnd env (cv_position_size cv / op_price a)
    \<and> (if want_bull then cv_pulse_threshold cv \<le> ms_institutional_pulse sn else ms_institutional_pulse sn \<le> - cv_pulse_threshold cv)
    \<and> cv_coherence_min cv \<le> ms_tide_coherence sn \<and> vb_oi_min_build bd \<le> ms_oi_delta_pct sn
    \<and> (if want_bull then ms_oracle_drift_60m sn < oracle_threshold (vb_exhaustion_drift_60m_pct bd) (ms_oracle_price sn)
       else - oracle_threshold (vb_exhaustion_drift_60m_pct bd) (ms_oracle_price sn) < ms_oracle_drift_60m sn)
    \<and> \<not> drift_incoherent (ms_oracle_drift_10m sn) (ms_oracle_drift_60m sn)
        (oracle_threshold (cv_drift_coherence_deadband_pct cv) (ms_oracle_price sn))
    \<and> \<not> velocity_opposes_entry (ms_velocity sn) want_bull (oracle_threshold (cv_velocity_opposition_pct cv) (ms_oracle_price sn))
    \<and> cvd_confirms cv want_bull (ms_cvd_ratio sn) \<and> \<not> obi_adverse env ctx want_bull
    \<and> cw_streak w = Some (mc_condition_id market, want_bull, first_seen, last_seen)
    \<and> vb_entry_persistence_secs bd \<le> elapsed_secs now first_seen \<and> elapsed_secs now last_seen \<le> vb_signal_continuity_gap_secs bd
    \<and> (\<forall>t. hm_get (cw_post_exit w) (op_token_id a) = Some t \<longrightarrow> vb_post_exit_cooldown_secs bd \<le> elapsed_secs now t)
    \<and> (\<forall>t. hm_get (cw_stop_market w) (mc_condition_id market) = Some t \<longrightarrow> vb_stop_market_cooldown_secs bd \<le> elapsed_secs now t)
    \<and> (\<forall>(k, p) \<in> set (cx_positions ctx). conv_owns ctx k \<longrightarrow> \<not> on_market market k)
    \<and> conv_exposure ctx + cv_position_size cv \<le> dc_convergence_max_exposure (cx_dynamic_config ctx)"
proof -
  from assms(1) obtain want_bull streak w1 where dir: "conv_dir_of bd env ctx w = Some want_bull"
    and deb: "debounce bd now (mc_condition_id market) want_bull (cw_streak w) = (True, streak)"
    and w1: "cw_post_exit w1 = cw_post_exit w" "cw_stop_market w1 = cw_stop_market w"
    and take_: "conv_take bd env ctx want_bull w1 = (Some (Entry a b), w')"
    unfolding now_def market_def by (rule conv_entryE)
  from deb obtain first_seen last_seen where streak: "cw_streak w = Some (mc_condition_id market, want_bull, first_seen, last_seen)"
    "vb_entry_persistence_secs bd \<le> elapsed_secs now first_seen" "elapsed_secs now last_seen \<le> vb_signal_continuity_gap_secs bd"
    by (auto simp: debounce_def split: option.splits if_splits)
  note sig = conv_signalD [OF conv_dirD [OF dir], folded cv_def sn_def]
  note ord = conv_take_entry [OF take_, folded cv_def sn_def market_def]
  note gate = conv_leg_gateD [OF ord(6), folded cv_def now_def market_def, unfolded w1]
  have free: "\<forall>(k, p) \<in> set (cx_positions ctx). conv_owns ctx k \<longrightarrow> \<not> on_market market k" using gate(6) by blast
  have band: "op_price a \<in> {cv_min_entry_price cv..cv_max_entry_price cv}" using gate(1,2) by simp
  show ?thesis
    using ord(1-5) band sig(2-9) streak gate(4,5) free gate(7) by blast
qed

section \<open>How long the agreement had lasted\<close>

type_synonym conv_tick = "viper_env \<times> strategy_context"

fun conv_run :: "convergence_build \<Rightarrow> conv_tick list \<Rightarrow> convergence_world \<Rightarrow> convergence_world" where
  "conv_run bd [] w = w"
| "conv_run bd ((env, ctx) # ticks) w = conv_run bd ticks (snd (conv_evaluate_entry bd env ctx w))"

text \<open>A tick on which every gate agreed on a direction of a market.\<close>

definition sighted :: "convergence_build \<Rightarrow> string \<Rightarrow> bool \<Rightarrow> conv_tick \<Rightarrow> bool" where
  "sighted bd condition_id want_bull t \<longleftrightarrow>
     conv_signal bd (fst t) (snd t) = Inr want_bull \<and> mc_condition_id (cx_market (snd t)) = condition_id"

definition close_ticks :: "convergence_build \<Rightarrow> conv_tick \<Rightarrow> conv_tick \<Rightarrow> bool" where
  "close_ticks bd t t' \<longleftrightarrow> elapsed_secs (ve_instant (fst t')) (ve_instant (fst t)) \<le> vb_signal_continuity_gap_secs bd"

definition streak_seen :: "convergence_build \<Rightarrow> conv_tick list \<Rightarrow> signal_streak \<Rightarrow> conv_tick list \<Rightarrow> bool" where
  "streak_seen bd ticks streak seen \<longleftrightarrow>
     (case streak of (cid, dir, first_seen, last_seen) \<Rightarrow>
        subseq seen ticks \<and> seen \<noteq> [] \<and> (\<forall>t \<in> set seen. sighted bd cid dir t)
        \<and> ve_instant (fst (hd seen)) = first_seen \<and> ve_instant (fst (last seen)) = last_seen
        \<and> successively (close_ticks bd) seen)"

lemma conv_run_append: "conv_run bd (xs @ ys) w = conv_run bd ys (conv_run bd xs w)"
  by (induction xs arbitrary: w) auto

lemma streak_seen_start:
  "sighted bd cid dir t \<Longrightarrow> streak_seen bd (ticks @ [t]) (cid, dir, ve_instant (fst t), ve_instant (fst t)) [t]"
  by (simp add: streak_seen_def subseq_singleton_left)

lemma streak_seen_next:
  assumes "streak_seen bd ticks (cid, dir, first_seen, last_seen) seen" and "sighted bd cid dir t"
    and "elapsed_secs (ve_instant (fst t)) last_seen \<le> vb_signal_continuity_gap_secs bd"
  shows "streak_seen bd (ticks @ [t]) (cid, dir, first_seen, ve_instant (fst t)) (seen @ [t])"
  using assms by (auto simp: streak_seen_def successively_append_iff close_ticks_def)

lemma streak_seen_skip:
  assumes "streak_seen bd ticks streak seen"
  shows "streak_seen bd (ticks @ [t]) streak seen"
  using assms subseq_append_le_same_iff by (auto simp: streak_seen_def split: prod.splits intro: subseq_rev_drop_many)

lemma conv_streak_step:
  "cw_streak (snd (conv_evaluate_entry bd env ctx w)) \<in> {cw_streak w, None}
   \<or> (\<exists>want_bull. conv_signal bd env ctx = Inr want_bull
      \<and> cw_streak (snd (conv_evaluate_entry bd env ctx w))
          = snd (debounce bd (ve_instant env) (mc_condition_id (cx_market ctx)) want_bull (cw_streak w)))"
proof (cases "conv_dir_of bd env ctx w")
  case None
  then show ?thesis using conv_no_dir(2) by simp
next
  case (Some want_bull)
  obtain held streak where d: "debounce bd (ve_instant env) (mc_condition_id (cx_market ctx)) want_bull (cw_streak w) = (held, streak)"
    by fastforce
  let ?w = "snd (check_drawdown env ctx w)\<lparr>cw_streak := streak\<rparr>"
  have "conv_evaluate_entry bd env ctx w = (if held then conv_take bd env ctx want_bull ?w
      else stand_down_conv env ctx ''signal persistence debounce'' ?w)"
    by (subst conv_entry_cases) (simp add: Some d Let_def)
  with conv_take_streak [of bd env ctx want_bull ?w] conv_dirD [OF Some] d show ?thesis by (auto split: if_splits)
qed

lemma streak_invariant:
  assumes "cw_streak w = None" and "cw_streak (conv_run bd ticks w) = Some streak"
  shows "\<exists>seen. streak_seen bd ticks streak seen"
  using assms(2)
proof (induction ticks arbitrary: streak rule: rev_induct)
  case (snoc t ticks)
  let ?w = "conv_run bd ticks w"
  have now: "cw_streak (snd (conv_evaluate_entry bd (fst t) (snd t) ?w)) = Some streak"
    using snoc.prems by (cases t) (simp add: conv_run_append)
  consider "cw_streak ?w = Some streak"
    | want_bull where "conv_signal bd (fst t) (snd t) = Inr want_bull"
        "snd (debounce bd (ve_instant (fst t)) (mc_condition_id (cx_market (snd t))) want_bull (cw_streak ?w)) = Some streak"
    using conv_streak_step [of bd "fst t" "snd t" ?w] now by auto
  then show ?case
  proof cases
    case 1
    then show ?thesis using snoc.IH streak_seen_skip by blast
  next
    case 2
    have s: "sighted bd (mc_condition_id (cx_market (snd t))) want_bull t" using 2(1) by (simp add: sighted_def)
    show ?thesis
    proof (cases "fst (debounce bd (ve_instant (fst t)) (mc_condition_id (cx_market (snd t))) want_bull (cw_streak ?w))
        \<or> (\<exists>f l. cw_streak ?w = Some (mc_condition_id (cx_market (snd t)), want_bull, f, l)
          \<and> elapsed_secs (ve_instant (fst t)) l \<le> vb_signal_continuity_gap_secs bd)")
      case True
      then obtain f l where fl: "cw_streak ?w = Some (mc_condition_id (cx_market (snd t)), want_bull, f, l)"
        "elapsed_secs (ve_instant (fst t)) l \<le> vb_signal_continuity_gap_secs bd"
        by (auto simp: debounce_def split: option.splits if_splits)
      from snoc.IH [OF fl(1)] obtain seen where
        "streak_seen bd ticks (mc_condition_id (cx_market (snd t)), want_bull, f, l) seen" by blast
      from streak_seen_next [OF this s fl(2)] 2(2) fl show ?thesis by (auto simp: debounce_def)
    next
      case False
      then have "streak = (mc_condition_id (cx_market (snd t)), want_bull, ve_instant (fst t), ve_instant (fst t))"
        using 2(2) by (auto simp: debounce_def split: option.splits if_splits)
      then show ?thesis using streak_seen_start [OF s] by blast
    qed
  qed
qed (use assms(1) in simp)

text \<open>C14: No entry on a burst.  In any run that starts with no streak, an entry is preceded by sightings of the same
  signal on the same market, the first at least the persistence ago and each within the gap of the next,
  the entry's own tick included.\<close>

theorem entry_signal_persisted:
  assumes "cw_streak w = None" and "conv_evaluate_entry bd env ctx (conv_run bd ticks w) = (Some (Entry a b), w')"
  shows "\<exists>seen want_bull. subseq seen ticks \<and> seen \<noteq> []
    \<and> op_token_id a = (if want_bull then mc_yes_token (cx_market ctx) else mc_no_token (cx_market ctx))
    \<and> (\<forall>t \<in> set (seen @ [(env, ctx)]). sighted bd (mc_condition_id (cx_market ctx)) want_bull t)
    \<and> vb_entry_persistence_secs bd \<le> elapsed_secs (ve_instant env) (ve_instant (fst (hd seen)))
    \<and> successively (close_ticks bd) (seen @ [(env, ctx)])"
proof -
  from assms(2) obtain want_bull streak w1 where dir: "conv_dir_of bd env ctx (conv_run bd ticks w) = Some want_bull"
    and deb: "debounce bd (ve_instant env) (mc_condition_id (cx_market ctx)) want_bull (cw_streak (conv_run bd ticks w)) = (True, streak)"
    and take_: "conv_take bd env ctx want_bull w1 = (Some (Entry a b), w')" by (rule conv_entryE)
  from deb obtain f l where fl: "cw_streak (conv_run bd ticks w) = Some (mc_condition_id (cx_market ctx), want_bull, f, l)"
    "vb_entry_persistence_secs bd \<le> elapsed_secs (ve_instant env) f"
    "elapsed_secs (ve_instant env) l \<le> vb_signal_continuity_gap_secs bd"
    by (auto simp: debounce_def split: option.splits if_splits)
  from streak_invariant [OF assms(1) fl(1)] obtain seen where
    seen: "streak_seen bd ticks (mc_condition_id (cx_market ctx), want_bull, f, l) seen" by blast
  have "sighted bd (mc_condition_id (cx_market ctx)) want_bull (env, ctx)"
    using conv_dirD [OF dir] by (simp add: sighted_def)
  from streak_seen_next [OF seen this] fl(3) have all: "streak_seen bd (ticks @ [(env, ctx)])
      (mc_condition_id (cx_market ctx), want_bull, f, ve_instant env) (seen @ [(env, ctx)])" by simp
  have "op_token_id a = (if want_bull then mc_yes_token (cx_market ctx) else mc_no_token (cx_market ctx))"
    using conv_take_entry(3) [OF take_] .
  with seen all fl(2) show ?thesis
    unfolding streak_seen_def prod.case by (intro exI [of _ seen] exI [of _ want_bull]) auto
qed

section \<open>The exit\<close>

lemma conv_scanD:
  assumes "conv_scan bd env ctx soft w ps = (Some (token, pos, cause), asks)"
  shows "\<exists>key. (key, pos) \<in> set ps \<and> k_market key = token \<and> conv_tradeable ctx key pos
    \<and> conv_cause_of bd env ctx soft token pos w = Some cause"
  using assms
proof (induction bd env ctx soft w ps arbitrary: asks rule: conv_scan.induct)
  case (2 bd env ctx soft w key pos' rest)
  then show ?case by (auto simp: Let_def split_beta split: if_splits option.splits) (metis prod.collapse)+
qed simp

lemma conv_scanI:
  assumes "(key, pos) \<in> set ps" and "conv_tradeable ctx key pos"
    and "conv_cause_of bd env ctx soft (k_market key) pos w \<noteq> None"
  shows "fst (conv_scan bd env ctx soft w ps) \<noteq> None"
  using assms
  by (induction bd env ctx soft w ps rule: conv_scan.induct) (auto simp: split_beta Let_def split: option.splits)

lemma conv_exit_cases:
  assumes "conv_evaluate_exit bd env ctx w = (Exit p reason pair, w')"
  obtains token pos cause key where "fst (conv_scan bd env ctx (conv_soft bd env w) w (cx_positions ctx)) = Some (token, pos, cause)"
    and "(key, pos) \<in> set (cx_positions ctx)" and "k_market key = token" and "conv_tradeable ctx key pos"
    and "conv_cause_of bd env ctx (conv_soft bd env w) token pos w = Some cause"
    and "p = taker_leg (cx_market ctx) token (conv_bid ctx token) (p_shares pos)
      (if token = mc_yes_token (cx_market ctx) then mc_yes_fee_bps (cx_market ctx) else mc_no_fee_bps (cx_market ctx))
      (dc_ghost_mode (cx_dynamic_config ctx))"
    and "\<not> pair" and "reason = conv_reason env ctx token pos w cause"
    and "w' = (if arms_market_stop reason
      then record_market_stop (ve_instant env) (mc_condition_id (cx_market ctx)) (conv_record_exit (ve_instant env) token w)
      else conv_record_exit (ve_instant env) token w)"
proof -
  let ?scan = "conv_scan bd env ctx (conv_soft bd env w) w (cx_positions ctx)"
  have "fst ?scan \<noteq> None"
  proof
    assume "fst ?scan = None"
    then obtain asks where asks: "?scan = (None, asks)" by (metis prod.collapse)
    have "\<forall>s \<in> set (snd (conv_scan bd env ctx soft w ps)). \<exists>q r. s = MakerRestingExit q r" for soft ps
      by (induction bd env ctx soft w ps rule: conv_scan.induct)
        (auto simp: split_beta Let_def conv_resting_def split: option.splits if_splits)
    from this [of "conv_soft bd env w" "cx_positions ctx"] have "asks \<noteq> [] \<Longrightarrow> \<exists>q r. fst (rotate asks w) = MakerRestingExit q r"
      by (simp add: asks rotate_def)
    with assms asks show False
      by (cases "asks = []") (force simp: conv_evaluate_exit_def rotate_def)+
  qed
  then obtain token pos cause asks where s: "?scan = (Some (token, pos, cause), asks)" by (metis not_None_eq prod.collapse)
  from conv_scanD [OF s] obtain key where key: "(key, pos) \<in> set (cx_positions ctx)" "k_market key = token"
    "conv_tradeable ctx key pos" "conv_cause_of bd env ctx (conv_soft bd env w) token pos w = Some cause" by blast
  show thesis
    using that [OF _ key] assms s by (auto simp: conv_evaluate_exit_def Let_def)
qed

lemma conv_cause_arms:
  "arms_market_stop (conv_reason env ctx token pos w cause) \<longleftrightarrow> cause = Conv_catastrophic \<or> cause = Conv_stop"
  by (cases cause) (simp_all add: arms_market_stop_def conv_reason_def Let_def)

text \<open>What an exit is for.  Every exit sells a position of this strategy on its market, whole, at the bid, by a
  fill-and-kill order, for a cause that holds; only the two stops measured from the bid at entry leave an
  unconfirmed fill; the discretionary causes wait for the cooldown after the last signal, and a target is
  the operator's or the fee floor, whichever is higher.\<close>

theorem conv_exit_sound:
  assumes "conv_evaluate_exit bd env ctx w = (Exit p reason pair, w')"
  defines "cv \<equiv> dc_convergence (cx_dynamic_config ctx)" and "soft \<equiv> conv_soft bd env w"
  shows "\<exists>key pos cause. (key, pos) \<in> set (cx_positions ctx) \<and> conv_tradeable ctx key pos \<and> \<not> pair
    \<and> op_token_id p = k_market key \<and> op_shares p = p_shares pos \<and> op_order_type p = Fak
    \<and> op_price p = conv_bid ctx (k_market key) \<and> reason = conv_reason env ctx (k_market key) pos w cause
    \<and> (fill_effective_at pos (dc_ghost_mode (cx_dynamic_config ctx)) = None \<longrightarrow> cause \<in> {Conv_catastrophic, Conv_dead_zone})
    \<and> (let margin = conv_margin env (op_price p) pos; move = cat_move env (op_price p) (k_market key) pos w;
           held = num_seconds (ve_utc env - p_opened_at pos)
       in case cause of
            Conv_catastrophic \<Rightarrow> move \<le> conv_catastrophic_pct bd cv
          | Conv_dead_zone \<Rightarrow> recorded_entry_bid (k_market key) w \<noteq> None \<and> held < vb_min_hold_secs bd \<and> move \<le> - cv_stop_loss_pct cv
          | Conv_stop \<Rightarrow> vb_min_hold_secs bd \<le> held \<and> margin \<le> - cv_stop_loss_pct cv
          | Conv_target \<Rightarrow> \<not> soft \<and> conv_target_pct env cv (p_avg_entry pos) \<le> margin
          | Conv_decay \<Rightarrow> \<not> soft \<and> vb_min_hold_secs bd \<le> held)
    \<and> hm_get (cw_post_exit w') (op_token_id p) = Some (ve_instant env) \<and> cw_last_exit w' = Some (ve_instant env)
    \<and> recorded_entry_bid (op_token_id p) w' = None"
  using assms(1)
proof (cases rule: conv_exit_cases)
  case (1 token pos cause key)
  have price: "op_price p = conv_bid ctx token" "op_token_id p = token" by (simp_all add: 1(6))
  have why: "(fill_effective_at pos (dc_ghost_mode (cx_dynamic_config ctx)) = None \<longrightarrow> cause \<in> {Conv_catastrophic, Conv_dead_zone})
    \<and> (case cause of
          Conv_catastrophic \<Rightarrow> cat_move env (op_price p) token pos w \<le> conv_catastrophic_pct bd cv
        | Conv_dead_zone \<Rightarrow> recorded_entry_bid token w \<noteq> None
            \<and> num_seconds (ve_utc env - p_opened_at pos) < vb_min_hold_secs bd \<and> cat_move env (op_price p) token pos w \<le> - cv_stop_loss_pct cv
        | Conv_stop \<Rightarrow> vb_min_hold_secs bd \<le> num_seconds (ve_utc env - p_opened_at pos)
            \<and> conv_margin env (op_price p) pos \<le> - cv_stop_loss_pct cv
        | Conv_target \<Rightarrow> \<not> soft \<and> conv_target_pct env cv (p_avg_entry pos) \<le> conv_margin env (op_price p) pos
        | Conv_decay \<Rightarrow> \<not> soft \<and> vb_min_hold_secs bd \<le> num_seconds (ve_utc env - p_opened_at pos))"
    using 1(5) unfolding price(1)
    by (auto simp: conv_cause_of_def Let_def cv_def soft_def not_less split: if_splits)
  have effects: "hm_get (cw_post_exit w') (op_token_id p) = Some (ve_instant env)" "cw_last_exit w' = Some (ve_instant env)"
    "recorded_entry_bid (op_token_id p) w' = None"
    by (simp_all add: 1(9) price(2) conv_record_exit_def record_market_stop_def recorded_entry_bid_def)
  have order: "op_token_id p = k_market key" "op_shares p = p_shares pos" "op_order_type p = Fak"
    "op_price p = conv_bid ctx (k_market key)" "reason = conv_reason env ctx (k_market key) pos w cause"
    by (simp_all add: 1(3,6,8))
  show ?thesis
    unfolding Let_def
    using 1(2,4,7) conjunct1 [OF why] conjunct2 [OF why [folded 1(3)]] effects order
    by - (rule exI [of _ key], rule exI [of _ pos], rule exI [of _ cause], intro conjI; assumption)
qed

text \<open>No stop is frozen.  When some position of the strategy on its market has moved past the catastrophic floor from
  the bid at entry, or is confirmed, old enough and past the stop, the evaluation signals an exit, however
  recently one was signalled and whatever asks are resting.\<close>

theorem conv_stops_are_never_frozen:
  assumes "(key, pos) \<in> set (cx_positions ctx)" and "conv_tradeable ctx key pos"
    and "cat_move env (conv_bid ctx (k_market key)) (k_market key) pos w \<le> conv_catastrophic_pct bd (dc_convergence (cx_dynamic_config ctx))
      \<or> fill_effective_at pos (dc_ghost_mode (cx_dynamic_config ctx)) \<noteq> None
        \<and> vb_min_hold_secs bd \<le> num_seconds (ve_utc env - p_opened_at pos)
        \<and> conv_margin env (conv_bid ctx (k_market key)) pos \<le> - cv_stop_loss_pct (dc_convergence (cx_dynamic_config ctx))"
  shows "\<exists>p reason w'. conv_evaluate_exit bd env ctx w = (Exit p reason False, w')
    \<and> (cx_positions ctx = [(key, pos)] \<longrightarrow> op_token_id p = k_market key \<and> op_shares p = p_shares pos)"
proof -
  let ?soft = "conv_soft bd env w"
  have "conv_cause_of bd env ctx ?soft (k_market key) pos w \<noteq> None"
    using assms(3) by (auto simp: conv_cause_of_def Let_def)
  then have "fst (conv_scan bd env ctx ?soft w (cx_positions ctx)) \<noteq> None" using conv_scanI [OF assms(1,2)] by simp
  then obtain token q cause asks where q: "conv_scan bd env ctx ?soft w (cx_positions ctx) = (Some (token, q, cause), asks)"
    by (metis not_None_eq prod.collapse)
  from conv_scanD [OF q] obtain k where "(k, q) \<in> set (cx_positions ctx)" "k_market k = token" by blast
  with q show ?thesis by (auto simp: conv_evaluate_exit_def Let_def)
qed

text \<open>A dead-zone stop leaves the market open.  The two other stops close both legs of the market for the cooldown;
  a dead-zone stop, whose reason begins with neither of the two texts looked for, closes nothing, so the
  other leg can be bought on the next tick.\<close>

theorem dead_zone_stop_arms_nothing:
  assumes "cx_positions ctx = [(key, pos)]" and "conv_tradeable ctx key pos"
    and "conv_cause_of bd env ctx (conv_soft bd env w) (k_market key) pos w = Some cause"
  shows "\<exists>p reason w'. conv_evaluate_exit bd env ctx w = (Exit p reason False, w')
    \<and> (if cause \<in> {Conv_catastrophic, Conv_stop}
       then hm_get (cw_stop_market w') (mc_condition_id (cx_market ctx)) = Some (ve_instant env)
       else cw_stop_market w' = cw_stop_market w)"
  using assms conv_cause_arms [of env ctx "k_market key" pos w cause]
  by (auto simp: conv_evaluate_exit_def Let_def record_market_stop_def conv_record_exit_def)

text \<open>A missed exit forgets the bid at entry.  The bid is dropped when the exit is signalled, and a refused order does
  not bring it back: from then on the position, still held, has no dead-zone stop, and its catastrophic
  floor is measured from the ask it paid.\<close>

theorem missed_exit_forgets_the_entry_bid:
  assumes "conv_evaluate_exit bd env ctx w = (Exit p reason pair, w')"
  shows "\<exists>key pos. (key, pos) \<in> set (cx_positions ctx) \<and> op_token_id p = k_market key
    \<and> (\<forall>env' ctx' soft. conv_cause_of bd env' ctx' soft (k_market key) pos (conv_on_exit_order_failed (op_token_id p) w') \<noteq> Some Conv_dead_zone
        \<and> cat_ref (k_market key) pos (conv_on_exit_order_failed (op_token_id p) w') = p_avg_entry pos)"
  using assms
proof (cases rule: conv_exit_cases)
  case (1 token pos cause key)
  have "recorded_entry_bid token (conv_on_exit_order_failed token w') = None"
    by (simp add: 1(9) conv_record_exit_def record_market_stop_def recorded_entry_bid_def conv_on_exit_order_failed_def)
  with 1(2,3,6) show ?thesis
    by (intro exI [of _ key] exI [of _ pos]) (auto simp: conv_cause_of_def cat_ref_def Let_def)
qed

section \<open>A take-profit is a profit\<close>

text \<open>C27: Whatever the price, a position sold for its target makes money after both taker fees, provided the fee margin
  times one less the fee rate is at least one: a margin of 1.35 with the shipped rate of seven percent does.\<close>

theorem conv_target_is_a_profit:
  assumes "conv_cause_of bd env ctx soft token pos w = Some Conv_target" and "ve_rnd env = id"
    and "0 < p_avg_entry pos" and "p_avg_entry pos < 1" and "conv_bid ctx token < 1"
    and "0 < ve_taker_fee_rate env" and "ve_taker_fee_rate env < 1"
    and "1 \<le> cv_tp_fee_margin_mult (dc_convergence (cx_dynamic_config ctx)) * (1 - ve_taker_fee_rate env)"
  shows "taker_fee_per_share (ve_taker_fee_rate env) (p_avg_entry pos) + taker_fee_per_share (ve_taker_fee_rate env) (conv_bid ctx token)
    \<le> conv_bid ctx token - p_avg_entry pos"
proof -
  define a b r k where "a = p_avg_entry pos" and "b = conv_bid ctx token" and "r = ve_taker_fee_rate env"
    and "k = cv_tp_fee_margin_mult (dc_convergence (cx_dynamic_config ctx))"
  have a: "0 < a" "a < 1" and b: "b < 1" and r: "0 < r" "r < 1" and k: "1 \<le> k * (1 - r)"
    using assms(3-8) by (simp_all add: a_def b_def r_def k_def)
  have "conv_target_pct env (dc_convergence (cx_dynamic_config ctx)) a \<le> conv_margin env b pos"
    using assms(1) by (auto simp: conv_cause_of_def Let_def a_def b_def split: if_splits)
  then have "2 * r * (1 - a) * k \<le> (b - a) / a"
    using assms(2) a by (simp add: conv_target_pct_def conv_margin_def round_trip_fee_pct_def a_def b_def r_def k_def)
  then have gain: "2 * r * (1 - a) * k * a \<le> b - a" using a(1) by (simp add: pos_le_divide_eq)
  have "0 < k * (1 - r)" using k by simp
  then have k0: "0 < k" using r(2) by (simp add: zero_less_mult_iff)
  have "0 \<le> 2 * r * (1 - a) * k * a" using r(1) a k0 by (intro mult_nonneg_nonneg) simp_all
  with gain have ab: "a \<le> b" by linarith
  have fee: "r * b * (1 - b) \<le> r * b * (1 - a)" using r(1) a(1) ab by (intro mult_left_mono) simp_all
  have "2 * r * (1 - a) * a \<le> 2 * r * (1 - a) * a * (k * (1 - r))"
    using mult_left_mono [OF k, of "2 * r * (1 - a) * a"] r(1) a by simp
  also have "\<dots> = (2 * r * (1 - a) * k * a) * (1 - r)" by (simp add: mult.commute mult.left_commute)
  also have "\<dots> \<le> (b - a) * (1 - r)" using mult_right_mono [OF gain, of "1 - r"] r(2) by simp
  finally have scaled: "2 * r * (1 - a) * a \<le> (b - a) * (1 - r)" .
  have "r * (b - a) * (1 - a) \<le> r * (b - a)" using r(1) a(1) ab mult_left_mono [of "1 - a" 1 "r * (b - a)"] by simp
  moreover have "r * a * (1 - a) + r * b * (1 - a) = 2 * r * (1 - a) * a + r * (b - a) * (1 - a)" by (simp add: algebra_simps)
  moreover have "(b - a) * (1 - r) = (b - a) - r * (b - a)" by (simp add: algebra_simps)
  ultimately have "r * a * (1 - a) + r * b * (1 - b) \<le> b - a" using fee scaled by linarith
  then show ?thesis
    using a b ab by (simp add: taker_fee_per_share_def flip: a_def b_def r_def)
qed

section \<open>Resting asks take turns\<close>

lemma scan_rotation [simp]:
  "conv_scan bd env ctx soft (w\<lparr>cw_rotation := n\<rparr>) ps = conv_scan bd env ctx soft w ps"
  "conv_soft bd env (w\<lparr>cw_rotation := n\<rparr>) = conv_soft bd env w"
proof -
  have "conv_cause_of bd env ctx soft token pos (w\<lparr>cw_rotation := n\<rparr>) = conv_cause_of bd env ctx soft token pos w" for token pos
    by (simp add: conv_cause_of_def cat_move_def cat_ref_def recorded_entry_bid_def Let_def cong: option.case_cong)
  then show "conv_scan bd env ctx soft (w\<lparr>cw_rotation := n\<rparr>) ps = conv_scan bd env ctx soft w ps"
    by (induction ps) (auto simp: Let_def split_beta split: option.splits)
  show "conv_soft bd env (w\<lparr>cw_rotation := n\<rparr>) = conv_soft bd env w" by (simp add: conv_soft_def)
qed

definition resting_of :: "convergence_build \<Rightarrow> viper_env \<Rightarrow> strategy_context \<Rightarrow> convergence_world \<Rightarrow> strategy_signal list option" where
  "resting_of bd env ctx w =
     (case conv_scan bd env ctx (conv_soft bd env w) w (cx_positions ctx) of
        (None, a # asks) \<Rightarrow> Some (a # asks) | _ \<Rightarrow> None)"

lemma resting_exit:
  assumes "resting_of bd env ctx w = Some asks"
  shows "conv_evaluate_exit bd env ctx (w\<lparr>cw_rotation := n\<rparr>) = (asks ! (n mod length asks), w\<lparr>cw_rotation := Suc n mod 2 ^ 64\<rparr>)"
    and "asks \<noteq> []"
  using assms by (auto simp: resting_of_def conv_evaluate_exit_def rotate_def Let_def split: prod.splits option.splits list.splits)

definition exit_tick :: "convergence_build \<Rightarrow> viper_env \<Rightarrow> strategy_context \<Rightarrow> convergence_world \<Rightarrow> convergence_world" where
  "exit_tick bd env ctx w = snd (conv_evaluate_exit bd env ctx w)"

lemma exit_ticks:
  assumes "resting_of bd env ctx w = Some asks" and "cw_rotation w + n < 2 ^ 64"
  shows "(exit_tick bd env ctx ^^ n) w = w\<lparr>cw_rotation := cw_rotation w + n\<rparr>"
  using assms(2)
proof (induction n)
  case (Suc n)
  then show ?case using resting_exit(1) [OF assms(1), of "cw_rotation w + n"] by (simp add: exit_tick_def)
qed simp

text \<open>Every ask gets its turn: left alone, a loop whose positions are all healthy signals each of their asks within as
  many ticks as there are asks, wherever the counter stands short of its wrap.\<close>

theorem every_ask_gets_its_turn:
  assumes "resting_of bd env ctx w = Some asks" and "cw_rotation w + length asks \<le> 2 ^ 64" and "i < length asks"
  shows "\<exists>n < length asks. fst (conv_evaluate_exit bd env ctx ((exit_tick bd env ctx ^^ n) w)) = asks ! i"
proof -
  define m r where "m = length asks" and "r = cw_rotation w"
  let ?n = "(i + m - r mod m) mod m"
  have m: "0 < m" using assms(3) by (cases asks) (auto simp: m_def)
  have n: "?n < m" using m by simp
  have "(r + ?n) mod m = (r mod m + (i + m - r mod m)) mod m" by (metis mod_add_left_eq mod_add_right_eq)
  also have "r mod m + (i + m - r mod m) = i + m" using mod_less_divisor [OF m, of r] by linarith
  also have "(i + m) mod m = i" using assms(3) by (simp add: m_def)
  finally have "(r + ?n) mod m = i" .
  moreover have "fst (conv_evaluate_exit bd env ctx ((exit_tick bd env ctx ^^ ?n) w)) = asks ! ((r + ?n) mod m)"
    using exit_ticks [OF assms(1), of ?n] resting_exit(1) [OF assms(1), of "r + ?n"] n assms(2) by (simp add: m_def r_def)
  ultimately show ?thesis using n by (auto simp: m_def)
qed

text \<open>Two loops share the counter: each evaluates its exits once in every round.\<close>

definition exit_round ::
  "convergence_build \<Rightarrow> viper_env \<Rightarrow> strategy_context \<Rightarrow> strategy_context \<Rightarrow> convergence_world \<times> convergence_world
     \<Rightarrow> convergence_world \<times> convergence_world" where
  "exit_round bd env ctx1 ctx2 ws =
     (let w1 = exit_tick bd env ctx1 (fst ws); w2 = exit_tick bd env ctx2 (snd ws\<lparr>cw_rotation := cw_rotation w1\<rparr>)
      in (w1\<lparr>cw_rotation := cw_rotation w2\<rparr>, w2))"

text \<open>Next to another loop an ask can wait forever.  When two loops with two healthy positions each take turns, the
  counter moves by two between the ticks of either, so each signals one of its asks on every tick and the
  other never.\<close>

theorem shared_counter_starves_an_ask:
  assumes "resting_of bd env ctx1 w1 = Some [x, x']" and "resting_of bd env ctx2 w2 = Some [y, y']" and "even (cw_rotation w1)"
    and "cw_rotation w1 < 2 ^ 64"
  shows "fst (conv_evaluate_exit bd env ctx1 (fst ((exit_round bd env ctx1 ctx2 ^^ n) (w1, w2)))) = x"
proof -
  have "\<exists>r q. even r \<and> r < 2 ^ 64 \<and> (exit_round bd env ctx1 ctx2 ^^ n) (w1, w2) = (w1\<lparr>cw_rotation := r\<rparr>, w2\<lparr>cw_rotation := q\<rparr>)"
  proof (induction n)
    case 0
    have "w1 = w1\<lparr>cw_rotation := cw_rotation w1\<rparr>" "w2 = w2\<lparr>cw_rotation := cw_rotation w2\<rparr>" by simp_all
    then show ?case using assms(3,4) by (metis funpow_0)
  next
    case (Suc n)
    then obtain r q where r: "even r" "(exit_round bd env ctx1 ctx2 ^^ n) (w1, w2) = (w1\<lparr>cw_rotation := r\<rparr>, w2\<lparr>cw_rotation := q\<rparr>)"
      by blast
    let ?r = "Suc (Suc r mod 2 ^ 64) mod 2 ^ 64"
    have "(exit_round bd env ctx1 ctx2 ^^ Suc n) (w1, w2) = (w1\<lparr>cw_rotation := ?r\<rparr>, w2\<lparr>cw_rotation := ?r\<rparr>)"
      using resting_exit(1) [OF assms(1)] resting_exit(1) [OF assms(2)]
      by (simp add: r(2) exit_round_def exit_tick_def Let_def)
    moreover have "even ?r"
    proof -
      have "even (k mod 2 ^ 64) = even k" for k :: nat by (simp add: dvd_mod_iff)
      then show ?thesis using r(1) by simp
    qed
    moreover have "?r < 2 ^ 64" by simp
    ultimately show ?case by blast
  qed
  then obtain r q where r: "even r" "(exit_round bd env ctx1 ctx2 ^^ n) (w1, w2) = (w1\<lparr>cw_rotation := r\<rparr>, w2\<lparr>cw_rotation := q\<rparr>)"
    by blast
  have "fst (conv_evaluate_exit bd env ctx1 (w1\<lparr>cw_rotation := r\<rparr>)) = [x, x'] ! (r mod length [x, x'])"
    by (simp only: resting_exit(1) [OF assms(1)] fst_conv)
  also have "r mod length [x, x'] = 0" using r(1) by (simp add: numeral_2_eq_2 flip: even_iff_mod_2_eq_zero)
  finally show ?thesis by (simp only: r(2) fst_conv nth_Cons_0)
qed

text \<open>A flat feed vetoes at a zero deadband: with the opposition setting at zero, the lowest value it may be given, a
  velocity of zero opposes every entry, in either direction.\<close>

theorem flat_feed_vetoes_at_zero_deadband:
  assumes "cv_velocity_opposition_pct (dc_convergence (cx_dynamic_config ctx)) = 0" and "ms_velocity (cx_snapshot ctx) = 0"
  shows "fst (conv_evaluate_entry bd env ctx w) = Some NoSignal"
proof -
  have "\<exists>reason. conv_signal bd env ctx = Inl reason"
  proof (cases "conv_signal bd env ctx")
    case (Inr want_bull)
    from conv_signalD(7) [OF this] show ?thesis by (simp add: assms velocity_opposes_entry_def oracle_threshold_def split: if_splits)
  qed simp
  then have "conv_dir_of bd env ctx w = None" by (auto simp: conv_dir_of_def)
  then show ?thesis by (rule conv_no_dir(1))
qed

section \<open>A market the institutions lean on\<close>

definition sample_conv_build :: convergence_build where
  "sample_conv_build =
     \<lparr>vb_market_warmup_secs = 60, vb_oi_min_build = 0, vb_exhaustion_drift_60m_pct = 3/2000,
      vb_signal_continuity_gap_secs = 60, vb_entry_persistence_secs = 60, vb_post_exit_cooldown_secs = 300,
      vb_stop_market_cooldown_secs = 1800, vb_min_secs_to_resolution = 900, vb_min_exit_bid_depth_ratio = 1,
      vb_exit_signal_cooldown_secs = 20, vb_catastrophic_sl_mult = 3/2, vb_catastrophic_sl_pct = - 3/20,
      vb_min_hold_secs = 60, vb_min_order_shares = 1\<rparr>"

definition leaning_market :: market_config where
  "leaning_market =
     \<lparr>mc_yes_token = ''up'', mc_no_token = ''down'', mc_market_name = ''btc'',
      mc_market_close_time = None, mc_strike_price = None, mc_window_secs = None,
      mc_is_neg_risk = False, mc_condition_id = ''leaning'', mc_yes_fee_bps = 1000, mc_no_fee_bps = 1000\<rparr>"

definition leaning_snapshot :: "decimal \<Rightarrow> market_snapshot" where
  "leaning_snapshot yes_bid = blank_snapshot
     \<lparr>ms_yes_bid := yes_bid, ms_yes_ask := 3/4, ms_no_bid := 24/100, ms_no_ask := 26/100,
      ms_yes_bid_depth := 50, ms_yes_ask_depth := 50, ms_oracle_price := 100000, ms_institutional_pulse := 2,
      ms_tide_coherence := 1, ms_cvd_ratio := 6/5\<rparr>"

definition conv_context :: "decimal \<Rightarrow> position_map \<Rightarrow> strategy_context" where
  "conv_context yes_bid ps =
     \<lparr>cx_market = leaning_market, cx_snapshot = leaning_snapshot yes_bid, cx_positions = ps, cx_session_pnl = 0,
      cx_starting_collateral = 100, cx_crypto_filter = ''BTC'', cx_squadron_id = ''btc-hourly'',
      cx_market_class = Some ''crypto'', cx_has_price_feed = True, cx_market_started_at = - from_secs 1000,
      cx_maker_market = None, cx_maker_snapshot = None,
      cx_available_collateral = 100, cx_dynamic_config = sample_config\<rparr>"

definition conv_start :: convergence_world where
  "conv_start =
     \<lparr>vw_status = [], vw_drawdown = ((None, []), 0), vw_notes = [], vw_venue_notices = [], cw_post_exit = [],
      cw_stop_market = [], cw_last_exit = None, cw_entry_bid = [], cw_streak = None, cw_rotation = 0\<rparr>"

definition feeless_env :: viper_env where
  "feeless_env = sample_env\<lparr>ve_taker_fee_rate := 0, ve_instant := from_secs 60\<rparr>"

lemma sample_conv_fields [simp]:
  "vb_market_warmup_secs sample_conv_build = 60" "vb_oi_min_build sample_conv_build = 0"
  "vb_exhaustion_drift_60m_pct sample_conv_build = 3/2000" "vb_signal_continuity_gap_secs sample_conv_build = 60"
  "vb_entry_persistence_secs sample_conv_build = 60" "vb_min_exit_bid_depth_ratio sample_conv_build = 1"
  "vb_catastrophic_sl_mult sample_conv_build = 3/2" "vb_catastrophic_sl_pct sample_conv_build = - 3/20"
  "vb_min_hold_secs sample_conv_build = 60" "vb_min_order_shares sample_conv_build = 1"
  by (simp_all add: sample_conv_build_def)

lemma sample_conv_settings [simp]:
  "cv_enable (dc_convergence sample_config)" "cv_position_size (dc_convergence sample_config) = 5"
  "cv_stop_loss_pct (dc_convergence sample_config) = 1/10" "cv_target_profit_pct (dc_convergence sample_config) = 3/20"
  "cv_max_entry_price (dc_convergence sample_config) = 39/50" "cv_min_entry_price (dc_convergence sample_config) = 29/50"
  "cv_pulse_threshold (dc_convergence sample_config) = 1" "cv_coherence_min (dc_convergence sample_config) = 3/5"
  "cv_cvd_confirm_margin (dc_convergence sample_config) = 1/10"
  "cv_max_token_spread_pct (dc_convergence sample_config) = 1/25" "cv_obi_adverse_block (dc_convergence sample_config) = 1/2"
  "cv_drift_coherence_deadband_pct (dc_convergence sample_config) = 1/2000"
  "cv_velocity_opposition_pct (dc_convergence sample_config) = 1/25000"
  "cv_skip_band_low (dc_convergence sample_config) = 9/20" "cv_skip_band_high (dc_convergence sample_config) = 11/20"
  "cv_max_fee_to_target_ratio (dc_convergence sample_config) = 2/5"
  "cv_tp_fee_margin_mult (dc_convergence sample_config) = 27/20" "cv_resting_tp_enabled (dc_convergence sample_config)"
  "dc_convergence_max_exposure sample_config = 30" "\<not> dc_ghost_mode sample_config" "\<not> dc_obi_use_whole_book sample_config"
  "ve_utc sample_env = 0" "ve_instant sample_env = 0" "ve_rnd sample_env x = x" "ve_taker_fee_rate sample_env = 7/100"
  "ve_utc feeless_env = 0" "ve_instant feeless_env = from_secs 60" "ve_rnd feeless_env x = x" "ve_taker_fee_rate feeless_env = 0"
  by (simp_all add: sample_config_def sample_env_def feeless_env_def)

lemma leaning_fields [simp]:
  "cx_market (conv_context b ps) = leaning_market" "cx_snapshot (conv_context b ps) = leaning_snapshot b"
  "cx_positions (conv_context b ps) = ps" "cx_squadron_id (conv_context b ps) = ''btc-hourly''"
  "cx_dynamic_config (conv_context b ps) = sample_config" "cx_market_started_at (conv_context b ps) = - from_secs 1000"
  "cx_crypto_filter (conv_context b ps) = ''BTC''" "cx_session_pnl (conv_context b ps) = 0"
  "cx_starting_collateral (conv_context b ps) = 100"
  "ms_yes_bid (leaning_snapshot b) = b" "ms_yes_ask (leaning_snapshot b) = 3/4" "ms_no_bid (leaning_snapshot b) = 24/100"
  "ms_no_ask (leaning_snapshot b) = 26/100" "ms_yes_bid_depth (leaning_snapshot b) = 50"
  "ms_yes_ask_depth (leaning_snapshot b) = 50" "ms_oracle_price (leaning_snapshot b) = 100000"
  "ms_institutional_pulse (leaning_snapshot b) = 2" "ms_tide_coherence (leaning_snapshot b) = 1"
  "ms_cvd_ratio (leaning_snapshot b) = 6/5" "ms_oi_delta_pct (leaning_snapshot b) = 0"
  "ms_oracle_drift_60m (leaning_snapshot b) = 0" "ms_oracle_drift_10m (leaning_snapshot b) = 0" "ms_velocity (leaning_snapshot b) = 0"
  "mc_yes_token leaning_market = ''up''" "mc_no_token leaning_market = ''down''" "mc_condition_id leaning_market = ''leaning''"
  "mc_yes_fee_bps leaning_market = 1000" "mc_no_fee_bps leaning_market = 1000" "mc_market_close_time leaning_market = None"
  "cw_post_exit conv_start = []" "cw_stop_market conv_start = []" "cw_streak conv_start = None" "cw_last_exit conv_start = None"
  "cw_entry_bid conv_start = []" "cw_rotation conv_start = 0" "vw_drawdown conv_start = ((None, []), 0)"
  by (simp_all add: conv_context_def leaning_snapshot_def blank_snapshot_def leaning_market_def conv_start_def)

lemma btc_lowercase: "to_lowercase ''BTC'' = ''btc''"
  by code_simp

lemma leaning_signal:
  assumes "env \<in> {sample_env, feeless_env}"
  shows "conv_signal sample_conv_build env (conv_context b ps) = Inr True"
proof -
  have "num_seconds (from_secs 1000) = 1000" by code_simp
  moreover have "is_btc (conv_context b ps)" by (simp add: is_btc_def btc_lowercase)
  ultimately show ?thesis
    using assms
    by (auto simp: conv_signal_def drift_incoherent_def velocity_opposes_entry_def cvd_confirms_def obi_adverse_def conv_obi_def
        yes_depths_def oracle_threshold_def Let_def)
qed

text \<open>The day's account stays flat however often it is read.\<close>

definition flat_account :: "viper_env \<Rightarrow> (int option \<times> day_anchors) \<times> nat \<Rightarrow> bool" where
  "flat_account env st \<longleftrightarrow> fst (fst st) \<in> {None, Some (ve_today env)}
     \<and> (\<forall>a. hm_get (snd (fst st)) ''btc'' = Some a \<longrightarrow> da_anchor a = 0)"

lemma flat_account_kept:
  assumes "flat_account env (vw_drawdown w)" and "ve_max_drawdown env 100 = 10"
  shows "\<not> fst (check_drawdown env (conv_context b ps) w)" and "flat_account env (vw_drawdown (snd (check_drawdown env (conv_context b ps) w)))"
proof -
  note low = btc_lowercase
  have "fst (day_pnl (conv_context b ps) (ve_today env) (fst (vw_drawdown w))) = 0
    \<and> flat_account env (snd (day_pnl (conv_context b ps) (ve_today env) (fst (vw_drawdown w))), n)" for n
    using assms(1)
    by (cases "hm_get (snd (fst (vw_drawdown w))) ''btc''")
      (auto simp: flat_account_def day_pnl_def day_pnl_in_def roll_day_def low split_beta Let_def split: option.splits)
  then show "\<not> fst (check_drawdown env (conv_context b ps) w)"
    and "flat_account env (vw_drawdown (snd (check_drawdown env (conv_context b ps) w)))"
    using assms(2) by (auto simp: check_drawdown_def drawdown_limit_hit_def is_drawdown_limit_hit_def split_beta Let_def)
qed

lemma sample_accounts [simp]:
  "ve_max_drawdown sample_env 100 = 10" "ve_max_drawdown feeless_env 100 = 10" "flat_account env ((None, []), 0)"
  "flat_account feeless_env st = flat_account sample_env st"
  by (simp_all add: sample_env_def feeless_env_def flat_account_def)

text \<open>The first sighting, and the entry a minute later.\<close>

lemma leaning_dir:
  assumes "flat_account env (vw_drawdown w)" and "env \<in> {sample_env, feeless_env}"
  shows "conv_dir_of sample_conv_build env (conv_context b ps) w = Some True"
  using flat_account_kept(1) [OF assms(1)] assms(2) leaning_signal by (auto simp: conv_dir_of_def)

definition first_look :: convergence_world where
  "first_look = conv_run sample_conv_build [(sample_env, conv_context (74/100) [])] conv_start"

lemma first_look_facts:
  "cw_streak first_look = Some (''leaning'', True, 0, 0)" "flat_account sample_env (vw_drawdown first_look)"
  "cw_post_exit first_look = []" "cw_stop_market first_look = []"
proof -
  let ?w = "snd (check_drawdown sample_env (conv_context (74/100) []) conv_start)"
  have look: "first_look = snd (stand_down_conv sample_env (conv_context (74/100) []) ''signal persistence debounce''
      (?w\<lparr>cw_streak := Some (''leaning'', True, 0, 0)\<rparr>))"
    unfolding first_look_def conv_run.simps
    by (subst conv_entry_cases) (simp add: leaning_dir debounce_def Let_def)
  show "cw_streak first_look = Some (''leaning'', True, 0, 0)" "flat_account sample_env (vw_drawdown first_look)"
    "cw_post_exit first_look = []" "cw_stop_market first_look = []"
    unfolding look
    using flat_account_kept(2) [of sample_env conv_start "74/100" "[]"]
    by (simp_all add: stand_down_conv_def idle_def)
qed

lemma leaning_take:
  assumes "cw_post_exit w = []" and "cw_stop_market w = []"
  shows "\<exists>w'. conv_take sample_conv_build feeless_env (conv_context (74/100) []) True w =
    (Some (Entry (taker_leg leaning_market ''up'' (3/4) (20/3) 1000 False) None), w')"
  using assms
  by (simp add: conv_take_def conv_leg_gate_def fee_dominated_entry_def round_trip_fee_pct_def checked_div_def
      entry_liquidity_gate_def conv_exposure_def Let_def)

lemma leaning_entry:
  "\<exists>w'. conv_evaluate_entry sample_conv_build feeless_env (conv_context (74/100) []) first_look =
     (Some (Entry (taker_leg leaning_market ''up'' (3/4) (20/3) 1000 False) None), w')"
proof -
  let ?w = "snd (check_drawdown feeless_env (conv_context (74/100) []) first_look)
    \<lparr>cw_streak := Some (''leaning'', True, 0, from_secs 60)\<rparr>"
  have secs: "elapsed_secs (from_secs 60) 0 = 60" by code_simp
  have "conv_evaluate_entry sample_conv_build feeless_env (conv_context (74/100) []) first_look
      = conv_take sample_conv_build feeless_env (conv_context (74/100) []) True ?w"
    by (subst conv_entry_cases) (simp add: leaning_dir first_look_facts debounce_def secs Let_def)
  then show ?thesis using leaning_take [of ?w] by (simp add: first_look_facts)
qed

lemma conv_entry_sound_witness:
  "\<exists>first_seen last_seen. cw_streak first_look = Some (''leaning'', True, first_seen, last_seen)
     \<and> 60 \<le> elapsed_secs (from_secs 60) first_seen"
proof -
  obtain w' where e: "conv_evaluate_entry sample_conv_build feeless_env (conv_context (74/100) []) first_look =
     (Some (Entry (taker_leg leaning_market ''up'' (3/4) (20/3) 1000 False) None), w')" using leaning_entry by blast
  from conv_entry_sound [OF e] show ?thesis by (auto split: if_splits)
qed

lemma entry_signal_persisted_witness:
  "\<exists>seen. subseq seen [(sample_env, conv_context (74/100) [])] \<and> seen \<noteq> []
     \<and> 60 \<le> elapsed_secs (from_secs 60) (ve_instant (fst (hd seen)))"
proof -
  obtain w' where e: "conv_evaluate_entry sample_conv_build feeless_env (conv_context (74/100) [])
      (conv_run sample_conv_build [(sample_env, conv_context (74/100) [])] conv_start) =
     (Some (Entry (taker_leg leaning_market ''up'' (3/4) (20/3) 1000 False) None), w')"
    using leaning_entry unfolding first_look_def by blast
  from entry_signal_persisted [OF _ e] show ?thesis by auto
qed

definition conv_held :: "string \<Rightarrow> decimal \<Rightarrow> position_key \<times> position" where
  "conv_held token entry = (position_key_new ''btc-hourly'' ''ConvergenceStrategy'' token,
     \<lparr>p_shares = 10, p_avg_entry = entry, p_opened_at = 0, p_close_time = None, p_market_name = [],
      p_pair_token_id = [], p_fill_confirmed_at = Some 0, p_paired_leg_token_id = None, p_entry_fee = 0\<rparr>)"

lemma conv_held_simps [simp]:
  "k_market (fst (conv_held token entry)) = token" "p_avg_entry (snd (conv_held token entry)) = entry"
  "p_shares (snd (conv_held token entry)) = 10" "p_opened_at (snd (conv_held token entry)) = 0"
  "p_fill_confirmed_at (snd (conv_held token entry)) = Some 0"
  "0 < entry \<Longrightarrow> token \<in> {''up'', ''down''} \<Longrightarrow> conv_tradeable (conv_context b ps) (fst (conv_held token entry)) (snd (conv_held token entry))"
  by (auto simp: conv_held_def position_key_new_def conv_tradeable_def conv_owns_def on_market_def convergence_name_def)

text \<open>Bought at 0.75 over a bid of 0.74, now bid 0.66: past the stop, short of the floor.\<close>

lemma dead_zone_cause:
  "conv_cause_of sample_conv_build sample_env (conv_context (66/100) ps) soft ''up'' (snd (conv_held ''up'' (3/4)))
     (conv_start\<lparr>cw_entry_bid := [(''up'', 74/100)]\<rparr>) = Some Conv_dead_zone"
  by (simp add: conv_cause_of_def recorded_entry_bid_def cat_move_def cat_ref_def conv_bid_def conv_catastrophic_pct_def
      num_seconds_def Let_def)

abbreviation "dead_zone_context \<equiv> conv_context (66/100) [(fst (conv_held ''up'' (3/4)), snd (conv_held ''up'' (3/4)))]"
abbreviation "dead_zone_world \<equiv> conv_start\<lparr>cw_entry_bid := [(''up'', 74/100)]\<rparr>"

lemma dead_zone_stop_arms_nothing_witness:
  "\<exists>p reason w'. conv_evaluate_exit sample_conv_build sample_env dead_zone_context dead_zone_world = (Exit p reason False, w')
     \<and> cw_stop_market w' = []"
  using dead_zone_stop_arms_nothing [of dead_zone_context "fst (conv_held ''up'' (3/4))" "snd (conv_held ''up'' (3/4))"
      sample_conv_build sample_env dead_zone_world Conv_dead_zone] dead_zone_cause
  by (auto simp del: prod.collapse)

lemma dead_zone_exit:
  "\<exists>p reason w'. conv_evaluate_exit sample_conv_build sample_env dead_zone_context dead_zone_world = (Exit p reason False, w')
     \<and> op_token_id p = ''up'' \<and> op_shares p = 10"
proof -
  have "conv_scan sample_conv_build sample_env dead_zone_context soft dead_zone_world (cx_positions dead_zone_context)
      = (Some (''up'', snd (conv_held ''up'' (3/4)), Conv_dead_zone), [])" for soft
    using dead_zone_cause by (simp del: prod.collapse)
  then show ?thesis by (simp add: conv_evaluate_exit_def Let_def)
qed

lemma missed_exit_forgets_the_entry_bid_witness:
  "\<exists>p reason w'. conv_evaluate_exit sample_conv_build sample_env dead_zone_context dead_zone_world = (Exit p reason False, w')
     \<and> recorded_entry_bid ''up'' dead_zone_world = Some (74/100)
     \<and> cat_ref ''up'' (snd (conv_held ''up'' (3/4))) (conv_on_exit_order_failed ''up'' w') = 3/4"
proof -
  obtain p reason w' where e: "conv_evaluate_exit sample_conv_build sample_env dead_zone_context dead_zone_world = (Exit p reason False, w')"
    using dead_zone_exit by blast
  have held: "k_market key = ''up'' \<and> p_avg_entry pos = 3/4" if "(key, pos) \<in> set (cx_positions dead_zone_context)" for key pos
    using that by (auto simp: conv_held_def position_key_new_def)
  from missed_exit_forgets_the_entry_bid [OF e] held have "op_token_id p = ''up''"
    and "cat_ref ''up'' (snd (conv_held ''up'' (3/4))) (conv_on_exit_order_failed ''up'' w') = 3/4"
    by (auto simp: cat_ref_def split: option.splits)
  with e show ?thesis by (auto simp: recorded_entry_bid_def)
qed

lemma conv_exit_sound_witness:
  "\<exists>p reason w'. conv_evaluate_exit sample_conv_build sample_env dead_zone_context dead_zone_world = (Exit p reason False, w')
     \<and> cw_last_exit w' = Some 0 \<and> recorded_entry_bid (op_token_id p) w' = None"
proof -
  obtain p reason w' where e: "conv_evaluate_exit sample_conv_build sample_env dead_zone_context dead_zone_world = (Exit p reason False, w')"
    using dead_zone_exit by blast
  from conv_exit_sound [OF e] e show ?thesis by auto
qed

text \<open>The bid falls from 0.74 to 0.50.\<close>

lemma conv_stops_are_never_frozen_witness:
  "\<exists>p reason w'. conv_evaluate_exit sample_conv_build sample_env (conv_context (1/2) [(fst (conv_held ''up'' (3/4)), snd (conv_held ''up'' (3/4)))])
       dead_zone_world = (Exit p reason False, w') \<and> op_token_id p = ''up'' \<and> op_shares p = 10"
  using conv_stops_are_never_frozen [of "fst (conv_held ''up'' (3/4))" "snd (conv_held ''up'' (3/4))"
      "conv_context (1/2) [(fst (conv_held ''up'' (3/4)), snd (conv_held ''up'' (3/4)))]" sample_env dead_zone_world sample_conv_build]
  by (simp add: cat_move_def cat_ref_def recorded_entry_bid_def conv_bid_def conv_catastrophic_pct_def del: prod.collapse)

text \<open>Bought at 0.60 and bid at 0.90: the fees of both legs are less than the gain.\<close>

lemma conv_target_is_a_profit_witness:
  "taker_fee_per_share (7/100) (6/10) + taker_fee_per_share (7/100) (9/10) \<le> 9/10 - (6/10 :: rat)"
proof -
  have cause: "conv_cause_of sample_conv_build sample_env (conv_context (9/10) []) False ''up'' (snd (conv_held ''up'' (6/10))) conv_start
      = Some Conv_target"
    by (simp add: conv_cause_of_def recorded_entry_bid_def cat_move_def cat_ref_def conv_bid_def conv_catastrophic_pct_def
        conv_margin_def conv_target_pct_def round_trip_fee_pct_def fill_effective_at_def num_seconds_def Let_def)
  have "ve_rnd sample_env = id" by (auto simp: fun_eq_iff)
  from conv_target_is_a_profit [OF cause this] show ?thesis by (simp add: conv_bid_def)
qed

text \<open>Both legs held, neither moved.\<close>

abbreviation "both_legs \<equiv> conv_context (3/5) [(fst (conv_held ''up'' (3/5)), snd (conv_held ''up'' (3/5))),
  (fst (conv_held ''down'' (6/25)), snd (conv_held ''down'' (6/25)))]"

lemma both_legs_rest:
  obtains x x' where "resting_of sample_conv_build sample_env both_legs conv_start = Some [x, x']"
proof -
  have none: "conv_cause_of sample_conv_build sample_env both_legs False ''up'' (snd (conv_held ''up'' (3/5))) conv_start = None"
    "conv_cause_of sample_conv_build sample_env both_legs False ''down'' (snd (conv_held ''down'' (6/25))) conv_start = None"
    by (simp_all add: conv_cause_of_def recorded_entry_bid_def cat_move_def cat_ref_def conv_bid_def conv_catastrophic_pct_def
        conv_margin_def conv_target_pct_def round_trip_fee_pct_def fill_effective_at_def num_seconds_def Let_def)
  have "conv_resting sample_conv_build sample_env both_legs False ''up'' (snd (conv_held ''up'' (3/5))) \<noteq> None"
    "conv_resting sample_conv_build sample_env both_legs False ''down'' (snd (conv_held ''down'' (6/25))) \<noteq> None"
    by (simp_all add: conv_resting_def entry_only_fee_pct_def exit_only_fee_pct_def fill_effective_at_def conv_bid_def
        resting_tp_price_def ceil_to_tick_size_def tick_size_def max_def Let_def split: option.splits)
  then obtain x x' where "conv_resting sample_conv_build sample_env both_legs False ''up'' (snd (conv_held ''up'' (3/5))) = Some x"
    "conv_resting sample_conv_build sample_env both_legs False ''down'' (snd (conv_held ''down'' (6/25))) = Some x'" by blast
  then have "resting_of sample_conv_build sample_env both_legs conv_start = Some [x, x']"
    by (simp add: resting_of_def none conv_soft_def Let_def del: prod.collapse)
  then show thesis by (rule that)
qed

lemma every_ask_gets_its_turn_witness:
  "\<exists>x x' n. resting_of sample_conv_build sample_env both_legs conv_start = Some [x, x'] \<and> n < 2
     \<and> fst (conv_evaluate_exit sample_conv_build sample_env both_legs ((exit_tick sample_conv_build sample_env both_legs ^^ n) conv_start)) = x'"
proof -
  obtain x x' where xs: "resting_of sample_conv_build sample_env both_legs conv_start = Some [x, x']" by (rule both_legs_rest)
  have "cw_rotation conv_start + length [x, x'] \<le> 2 ^ 64" by simp
  from every_ask_gets_its_turn [OF xs this, of 1] obtain n where "n < length [x, x']"
    "fst (conv_evaluate_exit sample_conv_build sample_env both_legs
      ((exit_tick sample_conv_build sample_env both_legs ^^ n) conv_start)) = [x, x'] ! 1" by auto
  with xs show ?thesis by (intro exI [of _ x] exI [of _ x'] exI [of _ n]) simp
qed

lemma shared_counter_starves_an_ask_witness:
  "\<exists>x x'. resting_of sample_conv_build sample_env both_legs conv_start = Some [x, x']
     \<and> (\<forall>n. fst (conv_evaluate_exit sample_conv_build sample_env both_legs
          (fst ((exit_round sample_conv_build sample_env both_legs both_legs ^^ n) (conv_start, conv_start)))) = x)"
proof -
  obtain x x' where xs: "resting_of sample_conv_build sample_env both_legs conv_start = Some [x, x']" by (rule both_legs_rest)
  have even: "even (cw_rotation conv_start)" "cw_rotation conv_start < 2 ^ 64" by simp_all
  from shared_counter_starves_an_ask [OF xs xs even] xs show ?thesis by blast
qed

definition zero_deadband_context :: strategy_context where
  "zero_deadband_context = (conv_context (74/100) [])
     \<lparr>cx_dynamic_config := sample_config\<lparr>dc_convergence := dc_convergence sample_config\<lparr>cv_velocity_opposition_pct := 0\<rparr>\<rparr>\<rparr>"

lemma flat_feed_vetoes_at_zero_deadband_witness:
  "fst (conv_evaluate_entry sample_conv_build sample_env zero_deadband_context first_look) = Some NoSignal"
  by (rule flat_feed_vetoes_at_zero_deadband) (simp_all add: zero_deadband_context_def)

end
