(* ===== verification/Script_Store.thy ===== *)
theory Script_Store
  imports Script_Manifest "HOL-Library.Word"
begin

text \<open>
  The process-wide set of operator scripts, \<open>src/vipers/scripted/store.rs\<close>, with the shape test of a compiled
  script (\<open>src/vipers/scripted/runtime.rs\<close>).  The scripting engine, the hash of a source and the parser of
  decimals are arguments (\<open>script_env\<close>).  The folder is two maps from stems to contents; whether each write or
  removal succeeds is an argument of the operation, so an operation that fails half way, or a crash there, is
  one of its behaviours.  Problem and error texts are constructors.
\<close>

section \<open>The engine and the folder\<close>

record 'ast script_env =
  se_parse :: "string \<Rightarrow> decimal option"
  se_engine :: "string \<Rightarrow> 'ast option"
  se_functions :: "'ast \<Rightarrow> (string \<times> nat) list"
  se_hash :: "string \<Rightarrow> string"

definition compile_script :: "'ast script_env \<Rightarrow> string \<Rightarrow> 'ast option" where
  "compile_script env source =
     (case se_engine env source of
        None \<Rightarrow> None
      | Some ast \<Rightarrow>
          if (''entry'', 1) \<in> set (se_functions env ast) \<and> (''exit'', 2) \<in> set (se_functions env ast)
          then Some ast else None)"

definition max_source_bytes :: nat where
  "max_source_bytes = 64 * 1024"

datatype check_problem = InManifest problem | SourceTooLong | DoesNotCompile

definition check :: "'ast script_env \<Rightarrow> manifest \<Rightarrow> string \<Rightarrow> check_problem list + 'ast" where
  "check env m source =
     (let ps = map InManifest (problems (se_parse env) m) @ (if max_source_bytes < length source then [SourceTooLong] else [])
      in case compile_script env source of
          None \<Rightarrow> Inl (ps @ [DoesNotCompile])
        | Some ast \<Rightarrow> if ps = [] then Inr ast else Inl ps)"

record 'ast script =
  sc_manifest :: manifest
  sc_source :: string
  sc_ast :: 'ast
  sc_hash :: string
  sc_saved_at :: utc

datatype json_file = Garbled | ManifestFile manifest

record folder =
  fo_json :: "(string, json_file) hash_map"
  fo_rhai :: "(string, string) hash_map"

datatype load_error = BadManifest | NameMismatch string | NoSource | Rejected "check_problem list"

record 'ast store =
  so_scripts :: "(string, 'ast script) btree_map"
  so_broken :: "(string, load_error) btree_map"
  so_generation :: "64 word"

definition empty_store :: "'ast store" where
  "empty_store = \<lparr>so_scripts = [], so_broken = [], so_generation = 0\<rparr>"

definition empty_folder :: folder where
  "empty_folder = \<lparr>fo_json = [], fo_rhai = []\<rparr>"

definition bump :: "'ast store \<Rightarrow> 'ast store" where
  "bump s = s\<lparr>so_generation := so_generation s + 1\<rparr>"

section \<open>Operations\<close>

record io_answers =
  io_dir :: bool
  io_first :: bool
  io_second :: bool

datatype save_error = SaveRejected "check_problem list" | CannotCreate | CannotWrite

definition store_script :: "string \<Rightarrow> 'ast script \<Rightarrow> 'ast store \<Rightarrow> 'ast store" where
  "store_script name sc s =
     bump (s\<lparr>so_broken := AList.delete name (so_broken s), so_scripts := bt_insert name sc (so_scripts s)\<rparr>)"

definition save_in ::
    "'ast script_env \<Rightarrow> io_answers \<Rightarrow> utc \<Rightarrow> manifest \<Rightarrow> string \<Rightarrow> folder \<times> 'ast store \<Rightarrow>
     (save_error + 'ast script) \<times> folder \<times> 'ast store" where
  "save_in env io now m source fs =
     (let (f, s) = fs; name = mf_name m in
      case check env m source of
        Inl ps \<Rightarrow> (Inl (SaveRejected ps), f, s)
      | Inr ast \<Rightarrow>
          if \<not> io_dir io then (Inl CannotCreate, f, s)
          else if \<not> io_first io then (Inl CannotWrite, f, s)
          else let f = f\<lparr>fo_rhai := hm_insert name source (fo_rhai f)\<rparr> in
            if \<not> io_second io then (Inl CannotWrite, f, s)
            else let f = f\<lparr>fo_json := hm_insert name (ManifestFile m) (fo_json f)\<rparr>;
                     sc = \<lparr>sc_manifest = m, sc_source = source, sc_ast = ast, sc_hash = se_hash env source,
                           sc_saved_at = now\<rparr>
                 in (Inr sc, f, store_script name sc s))"

text \<open>The manifest goes first, so what is left by a half-done removal is never loaded.\<close>

definition delete_in :: "io_answers \<Rightarrow> string \<Rightarrow> folder \<times> 'ast store \<Rightarrow> bool option \<times> folder \<times> 'ast store" where
  "delete_in io name fs =
     (let (f, s) = fs in
      if \<not> valid_name name then (Some False, f, s)
      else if hm_contains name (fo_json f) \<and> \<not> io_first io then (None, f, s)
      else let f = f\<lparr>fo_json := hm_remove name (fo_json f)\<rparr> in
        if hm_contains name (fo_rhai f) \<and> \<not> io_second io then (None, f, s)
        else let f = f\<lparr>fo_rhai := hm_remove name (fo_rhai f)\<rparr>;
                 had = (hm_contains name (so_scripts s) \<or> hm_contains name (so_broken s))
             in (Some had, f, bump (s\<lparr>so_scripts := AList.delete name (so_scripts s),
                                      so_broken := AList.delete name (so_broken s)\<rparr>)))"

definition load_one ::
    "'ast script_env \<Rightarrow> utc \<Rightarrow> folder \<Rightarrow> string \<Rightarrow> json_file \<Rightarrow> load_error + 'ast script" where
  "load_one env now f stem file =
     (case file of
        Garbled \<Rightarrow> Inl BadManifest
      | ManifestFile m \<Rightarrow>
          if mf_name m \<noteq> stem then Inl (NameMismatch (mf_name m))
          else case hm_get (fo_rhai f) stem of
              None \<Rightarrow> Inl NoSource
            | Some source \<Rightarrow>
                (case check env m source of
                   Inl ps \<Rightarrow> Inl (Rejected ps)
                 | Inr ast \<Rightarrow>
                     Inr \<lparr>sc_manifest = m, sc_source = source, sc_ast = ast, sc_hash = se_hash env source,
                           sc_saved_at = now\<rparr>))"

definition bt_extend :: "('k::linorder \<times> 'v) list \<Rightarrow> ('k, 'v) btree_map \<Rightarrow> ('k, 'v) btree_map" where
  "bt_extend kvs m = fold (\<lambda>(k, v) m. bt_insert k v m) kvs m"

definition loaded_of :: "'ast script_env \<Rightarrow> utc \<Rightarrow> folder \<Rightarrow> (string, 'ast script) btree_map" where
  "loaded_of env now f =
     bt_collect (List.map_filter
       (\<lambda>(stem, file). map_option (Pair stem) (ok_of (load_one env now f stem file))) (fo_json f))"

definition broken_of :: "'ast script_env \<Rightarrow> utc \<Rightarrow> folder \<Rightarrow> (string, load_error) btree_map" where
  "broken_of env now f =
     bt_collect (List.map_filter
       (\<lambda>(stem, file). case load_one env now f stem file of Inl e \<Rightarrow> Some (stem, e) | Inr _ \<Rightarrow> None) (fo_json f))"

definition load_all_in :: "'ast script_env \<Rightarrow> utc \<Rightarrow> bool \<Rightarrow> folder \<Rightarrow> 'ast store \<Rightarrow> nat \<times> 'ast store" where
  "load_all_in env now readable f s =
     (if \<not> readable then (0, s)
      else let loaded = loaded_of env now f
           in (length loaded,
               bump (s\<lparr>so_broken :=
                         bt_extend (broken_of env now f) (fold (\<lambda>(k, _) m. AList.delete k m) loaded (so_broken s)),
                       so_scripts := bt_extend loaded (so_scripts s)\<rparr>)))"

definition names :: "'ast store \<Rightarrow> string list" where
  "names s = map fst (so_scripts s)"

definition names_for_class_on :: "string \<Rightarrow> string \<Rightarrow> 'ast store \<Rightarrow> string list" where
  "names_for_class_on cls venue s =
     (if cls = ''helm'' then []
      else map (\<lambda>(k, sc). mf_name (sc_manifest sc))
        (filter (\<lambda>(k, sc). cls \<in> set (mf_classes (sc_manifest sc)) \<and> runs_on (sc_manifest sc) venue)
          (so_scripts s)))"

section \<open>Only checked scripts run\<close>

definition script_ok :: "'ast script_env \<Rightarrow> string \<Rightarrow> 'ast script \<Rightarrow> bool" where
  "script_ok env name sc \<longleftrightarrow>
     mf_name (sc_manifest sc) = name \<and> check env (sc_manifest sc) (sc_source sc) = Inr (sc_ast sc) \<and>
     sc_hash sc = se_hash env (sc_source sc)"

definition store_ok :: "'ast script_env \<Rightarrow> 'ast store \<Rightarrow> bool" where
  "store_ok env s \<longleftrightarrow> bt_wf (so_scripts s) \<and> (\<forall>(k, sc) \<in> set (so_scripts s). script_ok env k sc)"

datatype script_op =
    SaveScript io_answers utc manifest string
  | DeleteScript io_answers string
  | LoadScripts utc bool

fun script_op_step :: "'ast script_env \<Rightarrow> script_op \<Rightarrow> folder \<times> 'ast store \<Rightarrow> folder \<times> 'ast store" where
  "script_op_step env (SaveScript io now m source) fs = snd (save_in env io now m source fs)"
| "script_op_step env (DeleteScript io name) fs = snd (delete_in io name fs)"
| "script_op_step env (LoadScripts now readable) fs = (fst fs, snd (load_all_in env now readable (fst fs) (snd fs)))"

text \<open>The check of a manifest does not depend on the source, nor that of the source on the manifest.\<close>

lemma check_Inr_iff:
  "check env m source = Inr ast \<longleftrightarrow>
     problems (se_parse env) m = [] \<and> length source \<le> max_source_bytes \<and> compile_script env source = Some ast"
  by (auto simp: check_def Let_def split: option.splits)

lemma bump_fields [simp]:
  "so_scripts (bump s) = so_scripts s" "so_broken (bump s) = so_broken s"
  "so_generation (bump s) = so_generation s + 1"
  by (simp_all add: bump_def)

lemma load_one_ok: "load_one env now f stem file = Inr sc \<Longrightarrow> script_ok env stem sc"
  by (auto simp: load_one_def script_ok_def split: json_file.splits if_splits option.splits sum.splits)

lemma set_map_filter: "set (List.map_filter f xs) = {y. \<exists>x \<in> set xs. f x = Some y}"
  by (induction xs) (auto simp: map_filter_simps split: option.splits)

lemma loaded_ok:
  assumes "(k, sc) \<in> set (loaded_of env now f)"
  shows "script_ok env k sc"
proof -
  have "(k, sc) \<in> set (List.map_filter
      (\<lambda>(stem, file). map_option (Pair stem) (ok_of (load_one env now f stem file))) (fo_json f))"
    using assms unfolding loaded_of_def by (rule bt_collect_values)
  then obtain jf where "load_one env now f k jf = Inr sc"
    by (auto simp: set_map_filter ok_of_def split: sum.splits)
  then show ?thesis by (rule load_one_ok)
qed

lemma bt_extend_values: "(k, v) \<in> set (bt_extend kvs m) \<Longrightarrow> (k, v) \<in> set kvs \<or> (k, v) \<in> set m"
  unfolding bt_extend_def
  by (induction kvs arbitrary: m) (auto dest!: bt_insert_values)

lemma bt_wf_extend [simp, intro]: "bt_wf m \<Longrightarrow> bt_wf (bt_extend kvs m)"
  by (simp add: bt_extend_def bt_wf_collect_fold)

lemma store_ok_store:
  "store_ok env s \<Longrightarrow> script_ok env name sc \<Longrightarrow> store_ok env (store_script name sc s)"
  by (auto simp: store_ok_def store_script_def dest!: bt_insert_values)

lemma delete_values: "(k, v) \<in> set (AList.delete x m) \<Longrightarrow> (k, v) \<in> set m"
  by (auto simp: AList.delete_eq)

lemma store_ok_step: "store_ok env (snd fs) \<Longrightarrow> store_ok env (snd (script_op_step env op fs))"
proof (cases op)
  case (SaveScript io now m source)
  then show "store_ok env (snd fs) \<Longrightarrow> ?thesis"
    by (cases fs) (auto simp: save_in_def Let_def script_ok_def intro!: store_ok_store split: sum.splits)
next
  case (DeleteScript io name)
  then show "store_ok env (snd fs) \<Longrightarrow> ?thesis"
    by (cases fs) (auto simp: delete_in_def Let_def store_ok_def dest: delete_values)
next
  case (LoadScripts now readable)
  then show "store_ok env (snd fs) \<Longrightarrow> ?thesis"
    by (auto simp: load_all_in_def Let_def store_ok_def dest!: bt_extend_values dest: loaded_ok)
qed

lemma empty_store_ok: "store_ok env empty_store"
  by (simp add: store_ok_def empty_store_def)

lemma store_ok_run: "store_ok env (snd fs) \<Longrightarrow> store_ok env (snd (fold (script_op_step env) ops fs))"
  by (induction ops arbitrary: fs) (simp_all add: store_ok_step)

definition manifest_flies :: "manifest \<Rightarrow> bool" where
  "manifest_flies m \<longleftrightarrow>
     valid_name (mf_name m) \<and> set (mf_classes m) \<subseteq> {''crypto'', ''sports'', ''politics'', ''unknown''} \<and>
     0 < mf_max_exposure m \<and> mf_max_exposure m \<le> 1000"

lemma problems_nil_flies: "problems parse m = [] \<Longrightarrow> manifest_flies m"
  by (auto simp: problems_def manifest_flies_def script_classes_def max_exposure_ceiling_def valid_name_def
      filter_empty_conv split: if_splits)

lemma check_problems_nil: "check env m source = Inr ast \<Longrightarrow> problems (se_parse env) m = []"
  by (auto simp: check_def Let_def split: option.splits if_splits)

text \<open>C30: Whatever sequence of saves, removals and loads has run, and whichever of their writes failed, every script in
  the running set was checked with exactly the source it runs: its manifest has no problem and its name is the
  key, its source is within the limit and compiles to the code it runs, its dollar cap lies in (0, 1000], and
  its classes are among the four a script may fly, so no script flies a Helm squadron.\<close>

theorem running_scripts_checked:
  assumes "(name, sc) \<in> set (so_scripts (snd (fold (script_op_step env) ops (f, empty_store))))"
  shows "mf_name (sc_manifest sc) = name \<and> problems (se_parse env) (sc_manifest sc) = [] \<and>
    length (sc_source sc) \<le> 65536 \<and> compile_script env (sc_source sc) = Some (sc_ast sc) \<and>
    manifest_flies (sc_manifest sc) \<and> ''helm'' \<notin> set (mf_classes (sc_manifest sc))"
proof -
  have ok: "script_ok env name sc"
    using store_ok_run [of env "(f, empty_store)" ops] empty_store_ok [of env] assms by (auto simp: store_ok_def)
  then have "problems (se_parse env) (sc_manifest sc) = []"
    using check_problems_nil by (auto simp: script_ok_def)
  with ok show ?thesis
    using problems_nil_flies [of "se_parse env" "sc_manifest sc"]
    by (auto simp: script_ok_def check_def max_source_bytes_def manifest_flies_def Let_def
        split: option.splits if_splits)
qed

definition sample_env :: "nat script_env" where
  "sample_env =
     \<lparr>se_parse = sample_parse, se_engine = (\<lambda>s. if s = [] then None else Some (length s)),
      se_functions = (\<lambda>_. [(''entry'', 1), (''exit'', 2)]), se_hash = (\<lambda>s. take 8 s)\<rparr>"

definition all_good :: io_answers where
  "all_good = \<lparr>io_dir = True, io_first = True, io_second = True\<rparr>"

definition one_script :: "folder \<times> nat store" where
  "one_script = fold (script_op_step sample_env) [SaveScript all_good 0 sample_manifest ''fn entry'']
     (empty_folder, empty_store)"

definition the_script :: "nat script" where
  "the_script = \<lparr>sc_manifest = sample_manifest, sc_source = ''fn entry'', sc_ast = 8, sc_hash = ''fn entry'',
     sc_saved_at = 0\<rparr>"

lemma sample_check: "check sample_env sample_manifest ''fn entry'' = Inr 8"
  using sample_manifest_accepted
  by (simp add: check_Inr_iff sample_env_def compile_script_def max_source_bytes_def)

lemma one_script_running: "so_scripts (snd one_script) = [(''fade_spikes'', the_script)]"
  by (simp add: one_script_def save_in_def sample_check all_good_def empty_folder_def empty_store_def store_script_def
      the_script_def Let_def) (simp add: sample_manifest_def sample_env_def)

theorem running_scripts_checked_witness:
  "compile_script sample_env (sc_source the_script) = Some (sc_ast the_script) \<and> manifest_flies sample_manifest"
  using running_scripts_checked [of "''fade_spikes''" the_script sample_env
      "[SaveScript all_good 0 sample_manifest ''fn entry'']" empty_folder]
    one_script_running
  by (simp add: one_script_def the_script_def)

section \<open>The folder always loads\<close>

text \<open>Every manifest in the folder is its stem's, and it and its source pass the check.\<close>

definition folder_ok :: "'ast script_env \<Rightarrow> folder \<Rightarrow> bool" where
  "folder_ok env f \<longleftrightarrow>
     hm_wf (fo_json f) \<and>
     (\<forall>stem file. hm_get (fo_json f) stem = Some file \<longrightarrow>
        (\<exists>m source ast. file = ManifestFile m \<and> mf_name m = stem \<and> hm_get (fo_rhai f) stem = Some source \<and>
           check env m source = Inr ast))"

lemma folder_ok_empty: "folder_ok env empty_folder"
  by (simp add: folder_ok_def empty_folder_def)

lemma folder_ok_rhai:
  "folder_ok env f \<Longrightarrow> check env m source = Inr ast \<Longrightarrow>
     folder_ok env (f\<lparr>fo_rhai := hm_insert name source (fo_rhai f)\<rparr>)"
  by (fastforce simp: folder_ok_def check_Inr_iff)

lemma folder_ok_json:
  "folder_ok env f \<Longrightarrow> check env m source = Inr ast \<Longrightarrow> hm_get (fo_rhai f) (mf_name m) = Some source \<Longrightarrow>
     folder_ok env (f\<lparr>fo_json := hm_insert (mf_name m) (ManifestFile m) (fo_json f)\<rparr>)"
  by (auto simp: folder_ok_def)

lemma folder_ok_remove:
  "folder_ok env f \<Longrightarrow> folder_ok env (f\<lparr>fo_json := hm_remove name (fo_json f)\<rparr>)"
  "folder_ok env f \<Longrightarrow>
     folder_ok env (f\<lparr>fo_json := hm_remove name (fo_json f), fo_rhai := hm_remove name (fo_rhai f)\<rparr>)"
  by (auto simp: folder_ok_def)

lemma folder_ok_step: "folder_ok env (fst fs) \<Longrightarrow> folder_ok env (fst (script_op_step env op fs))"
proof (cases op)
  case (SaveScript io now m source)
  then show "folder_ok env (fst fs) \<Longrightarrow> ?thesis"
    using folder_ok_rhai [of env "fst fs" m source _ "mf_name m"]
      folder_ok_json [of env "fst fs\<lparr>fo_rhai := hm_insert (mf_name m) source (fo_rhai (fst fs))\<rparr>" m source]
    by (cases fs) (auto simp: save_in_def Let_def split: sum.splits)
next
  case (DeleteScript io name)
  then show "folder_ok env (fst fs) \<Longrightarrow> ?thesis"
    by (cases fs) (auto simp: delete_in_def Let_def folder_ok_remove)
next
  case (LoadScripts now readable)
  then show "folder_ok env (fst fs) \<Longrightarrow> ?thesis" by simp
qed

lemma folder_ok_run: "folder_ok env (fst fs) \<Longrightarrow> folder_ok env (fst (fold (script_op_step env) ops fs))"
  by (induction ops arbitrary: fs) (simp_all add: folder_ok_step)

lemma folder_ok_load_one:
  "folder_ok env f \<Longrightarrow> (stem, file) \<in> set (fo_json f) \<Longrightarrow> \<exists>sc. load_one env now f stem file = Inr sc"
  by (fastforce simp: folder_ok_def load_one_def hm_get_mem_iff)

lemma bt_fold_get:
  "distinct (map fst kvs) \<Longrightarrow> map_of (fold (\<lambda>(k, v) m. bt_insert k v m) kvs m) k =
     (case map_of kvs k of None \<Rightarrow> map_of m k | Some v \<Rightarrow> Some v)"
proof (induction kvs arbitrary: m)
  case (Cons kv kvs)
  obtain a b where kv: "kv = (a, b)" by (cases kv)
  have "map_of kvs a = None" using Cons.prems by (simp add: kv map_of_eq_None_iff)
  with Cons show ?case by (simp add: kv split: option.split)
qed simp

lemma bt_collect_get: "distinct (map fst kvs) \<Longrightarrow> map_of (bt_collect kvs) k = map_of kvs k"
  by (simp add: bt_collect_def bt_fold_get split: option.split)

lemma map_filter_total:
  "(\<And>a b. (a, b) \<in> set js \<Longrightarrow> \<exists>c. g a b = Some c) \<Longrightarrow>
     map fst (List.map_filter (\<lambda>(a, b). map_option (Pair a) (g a b)) js) = map fst js \<and>
     map_of (List.map_filter (\<lambda>(a, b). map_option (Pair a) (g a b)) js) k =
       (case map_of js k of None \<Rightarrow> None | Some b \<Rightarrow> g k b)"
proof (induction js)
  case (Cons ab js)
  obtain a b where ab: "ab = (a, b)" by (cases ab)
  obtain c where "g a b = Some c" using Cons.prems [of a b] ab by auto
  with Cons ab show ?case by (simp add: map_filter_simps)
qed (simp add: map_filter_simps)

lemma map_filter_none: "(\<And>x. x \<in> set js \<Longrightarrow> g x = None) \<Longrightarrow> List.map_filter g js = []"
  by (induction js) (simp_all add: map_filter_simps)

lemma folder_ok_loaded:
  assumes "folder_ok env f"
  shows "map_of (loaded_of env now f) stem =
      (case hm_get (fo_json f) stem of None \<Rightarrow> None | Some file \<Rightarrow> ok_of (load_one env now f stem file))"
    and "broken_of env now f = []"
proof -
  let ?load = "\<lambda>(stem, file). map_option (Pair stem) (ok_of (load_one env now f stem file))"
  have total: "\<exists>c. ok_of (load_one env now f a b) = Some c" if mem: "(a, b) \<in> set (fo_json f)" for a b
  proof -
    obtain sc where "load_one env now f a b = Inr sc" using folder_ok_load_one [OF assms mem] by blast
    then show ?thesis by (simp add: ok_of_def)
  qed
  have dist: "distinct (map fst (List.map_filter ?load (fo_json f)))"
    using map_filter_total [of "fo_json f" "\<lambda>stem file. ok_of (load_one env now f stem file)" stem] total assms
    by (simp add: folder_ok_def hm_wf_def)
  show "map_of (loaded_of env now f) stem =
      (case hm_get (fo_json f) stem of None \<Rightarrow> None | Some file \<Rightarrow> ok_of (load_one env now f stem file))"
    using map_filter_total [of "fo_json f" "\<lambda>stem file. ok_of (load_one env now f stem file)" stem] total
    by (simp add: loaded_of_def bt_collect_get [OF dist])
  have "List.map_filter (\<lambda>(stem, file). case load_one env now f stem file of Inl e \<Rightarrow> Some (stem, e) | Inr _ \<Rightarrow> None)
      (fo_json f) = []"
  proof (rule map_filter_none)
    fix x assume "x \<in> set (fo_json f)"
    then obtain sc where "load_one env now f (fst x) (snd x) = Inr sc"
      using folder_ok_load_one [OF assms, of "fst x" "snd x" now] by auto
    then show "(case x of (stem, file) \<Rightarrow>
        (case load_one env now f stem file of Inl e \<Rightarrow> Some (stem, e) | Inr _ \<Rightarrow> None)) = None"
      by (simp add: split_beta)
  qed
  then show "broken_of env now f = []" by (simp add: broken_of_def bt_collect_def)
qed

lemma bt_extend_empty: "bt_wf m \<Longrightarrow> map_of (bt_extend m []) k = map_of m k"
  by (simp add: bt_extend_def bt_fold_get bt_wf_distinct split: option.split)

lemma bt_wf_loaded: "bt_wf (loaded_of env now f)"
  by (simp add: loaded_of_def bt_wf_collect)

definition restart :: "'ast script_env \<Rightarrow> utc \<Rightarrow> folder \<Rightarrow> 'ast store" where
  "restart env now f = snd (load_all_in env now True f empty_store)"

lemma restart_get:
  assumes "folder_ok env f"
  shows "map_of (so_scripts (restart env now f)) stem =
      (case hm_get (fo_json f) stem of None \<Rightarrow> None | Some file \<Rightarrow> ok_of (load_one env now f stem file))"
    and "so_broken (restart env now f) = []"
proof -
  show "map_of (so_scripts (restart env now f)) stem =
      (case hm_get (fo_json f) stem of None \<Rightarrow> None | Some file \<Rightarrow> ok_of (load_one env now f stem file))"
    using folder_ok_loaded(1) [OF assms]
    by (simp add: restart_def load_all_in_def empty_store_def Let_def bt_extend_empty bt_wf_loaded)
  have "fold (\<lambda>(k, _) m. AList.delete k m) kvs [] = []" for kvs :: "(string \<times> 'a script) list"
    by (induction kvs) auto
  then show "so_broken (restart env now f) = []"
    using folder_ok_loaded(2) [OF assms]
    by (simp add: restart_def load_all_in_def empty_store_def Let_def bt_extend_def)
qed

lemma restart_script:
  assumes "folder_ok env f" "hm_get (fo_json f) stem = Some (ManifestFile m)" "hm_get (fo_rhai f) stem = Some source"
  shows "\<exists>sc. map_of (so_scripts (restart env now f)) stem = Some sc \<and> sc_manifest sc = m \<and> sc_source sc = source"
proof -
  obtain ast where "mf_name m = stem" "check env m source = Inr ast"
    using assms by (fastforce simp: folder_ok_def)
  then show ?thesis
    using assms by (simp add: restart_get load_one_def ok_of_def)
qed

text \<open>A folder that only the store's own saves and removals have written always loads at the next start, whichever
  of their writes failed or never came: nothing is listed as broken, exactly the stems that have a manifest
  run, and each runs the manifest and the source in its two files, even if a cut-off save left a newer source
  beside the older manifest.\<close>

theorem restart_loads_everything:
  assumes "f = fst (fold (script_op_step env) ops (empty_folder, s))"
  shows "so_broken (restart env now f) = [] \<and>
    ((\<exists>sc. map_of (so_scripts (restart env now f)) stem = Some sc) \<longleftrightarrow> hm_contains stem (fo_json f)) \<and>
    (\<forall>sc. map_of (so_scripts (restart env now f)) stem = Some sc \<longrightarrow>
      hm_get (fo_json f) stem = Some (ManifestFile (sc_manifest sc)) \<and> hm_get (fo_rhai f) stem = Some (sc_source sc))"
proof -
  have ok: "folder_ok env f"
    unfolding assms using folder_ok_run [of env "(empty_folder, s)"] folder_ok_empty [of env] by simp
  have unbroken: "so_broken (restart env now f) = []" by (rule restart_get(2) [OF ok])
  have file_shape: "\<exists>m source. hm_get (fo_json f) stem = Some (ManifestFile m) \<and> hm_get (fo_rhai f) stem = Some source"
    if "hm_contains stem (fo_json f)"
    using ok that by (fastforce simp: folder_ok_def)
  then have stems: "(\<exists>sc. map_of (so_scripts (restart env now f)) stem = Some sc) \<longleftrightarrow> hm_contains stem (fo_json f)"
    using restart_script [OF ok, of stem _ _ now] restart_get(1) [OF ok, of now stem]
    by (cases "hm_get (fo_json f) stem") (simp, simp, blast)
  have files: "hm_get (fo_json f) stem = Some (ManifestFile (sc_manifest sc)) \<and> hm_get (fo_rhai f) stem = Some (sc_source sc)"
    if sc: "map_of (so_scripts (restart env now f)) stem = Some sc" for sc
  proof -
    have "hm_contains stem (fo_json f)"
      using sc restart_get(1) [OF ok, of now stem] by (auto split: option.splits)
    from file_shape [OF this] obtain m source
      where files: "hm_get (fo_json f) stem = Some (ManifestFile m)" "hm_get (fo_rhai f) stem = Some source"
      by blast
    then show ?thesis using restart_script [OF ok files, of now] sc by simp
  qed
  show ?thesis using unbroken stems files by blast
qed

theorem restart_loads_everything_witness:
  "so_broken (restart sample_env 9
     (fst (fold (script_op_step sample_env)
       [SaveScript all_good 0 sample_manifest ''fn entry'',
        SaveScript (all_good\<lparr>io_second := False\<rparr>) 1 sample_manifest ''fn exit'']
       (empty_folder, empty_store)))) = []"
  using restart_loads_everything [OF refl] by blast

section \<open>A restart restores the running set\<close>

definition clean_op :: "script_op \<Rightarrow> bool" where
  "clean_op op \<longleftrightarrow>
     (case op of
        SaveScript io _ _ _ \<Rightarrow> io = all_good
      | DeleteScript io _ \<Rightarrow> io = all_good
      | LoadScripts _ _ \<Rightarrow> False)"

definition files_of :: "folder \<Rightarrow> string \<Rightarrow> (json_file \<times> string) option" where
  "files_of f name =
     (case hm_get (fo_json f) name of None \<Rightarrow> None | Some file \<Rightarrow> map_option (Pair file) (hm_get (fo_rhai f) name))"

definition files_of_script :: "'ast script \<Rightarrow> json_file \<times> string" where
  "files_of_script sc = (ManifestFile (sc_manifest sc), sc_source sc)"

definition mirrored :: "folder \<times> 'ast store \<Rightarrow> bool" where
  "mirrored fs \<longleftrightarrow>
     (\<forall>name. map_option files_of_script (map_of (so_scripts (snd fs)) name) = files_of (fst fs) name)"

lemma files_of_save:
  "files_of (f\<lparr>fo_rhai := hm_insert n src (fo_rhai f), fo_json := hm_insert n j (fo_json f)\<rparr>) name =
     (if name = n then Some (j, src) else files_of f name)"
  by (simp add: files_of_def split: option.split)

lemma files_of_delete:
  "files_of (f\<lparr>fo_json := hm_remove n (fo_json f), fo_rhai := hm_remove n (fo_rhai f)\<rparr>) name =
     (if name = n then None else files_of f name)"
  by (simp add: files_of_def split: option.split)

lemma mirrored_step:
  assumes "mirrored fs" "clean_op op"
  shows "mirrored (script_op_step env op fs)"
proof (cases op)
  case (SaveScript io now m source)
  then show ?thesis
    using assms
    by (cases "check env m source"; cases fs)
      (simp_all add: mirrored_def clean_op_def save_in_def all_good_def store_script_def Let_def files_of_save
        files_of_script_def)
next
  case (DeleteScript io name)
  then show ?thesis
    using assms
    by (cases fs) (simp add: mirrored_def clean_op_def delete_in_def all_good_def Let_def files_of_delete delete_conv')
next
  case (LoadScripts now readable)
  then show ?thesis using assms(2) by (simp add: clean_op_def)
qed

lemma mirrored_run:
  "mirrored fs \<Longrightarrow> list_all clean_op ops \<Longrightarrow> mirrored (fold (script_op_step env) ops fs)"
  by (induction ops arbitrary: fs) (simp_all add: mirrored_step)



end
