(* ===== verification/Registry.thy ===== *)
theory Registry
  imports Autoscale Script_Store
begin

text \<open>
  The registry of strategies, \<open>src/orchestrator/registry.rs\<close>, and the hot attachment of operator scripts,
  \<open>src/vipers/scripted/mod.rs\<close> with the loop registry of \<open>src/vipers/scripted/store.rs\<close>.  A strategy is its
  name.  The counter of loops is a natural number: it would take \<open>2 ^ 64\<close> loops to wrap.
\<close>

section \<open>The registry\<close>

definition built_in_strategies :: "string list" where
  "built_in_strategies =
     [''MomentumStrategy'', ''ArbitrageStrategy'', ''TimeDecayStrategy'', ''MakerStrategy'', ''BasisStrategy'',
      ''GboostStrategy'', ''TrendReversalStrategy'', ''ConvergenceStrategy'', ''FairValueStrategy'',
      ''AnchorStrategy'', ''BooklineStrategy'', ''HelmStrategy'']"

definition strategy_name :: "string \<Rightarrow> string" where
  "strategy_name name = name_prefix @ name"

definition kind_prefix :: string where
  "kind_prefix = ''script:''"

definition kind_of :: "string \<Rightarrow> string" where
  "kind_of name = kind_prefix @ name"

definition adapters :: "'ast store \<Rightarrow> string list" where
  "adapters s = map strategy_name (names s)"

definition create_all_strategies :: "'ast store \<Rightarrow> string list" where
  "create_all_strategies s = built_in_strategies @ adapters s"

definition built_in_kinds :: "(string \<times> string) list" where
  "built_in_kinds =
     [(''ArbitrageStrategy'', ''arbitrage''), (''MakerStrategy'', ''maker''), (''MomentumStrategy'', ''momentum''),
      (''TimeDecayStrategy'', ''time_decay''), (''BasisStrategy'', ''basis''), (''GboostStrategy'', ''gboost''),
      (''ConvergenceStrategy'', ''convergence''), (''FairValueStrategy'', ''fairvalue''),
      (''BooklineStrategy'', ''bookline''), (''AnchorStrategy'', ''anchor''),
      (''TrendReversalStrategy'', ''trendcapture''), (''TrendCaptureStrategy'', ''trendcapture''),
      (''HelmStrategy'', ''helm'')]"

definition strategy_name_to_kind :: "string \<Rightarrow> string" where
  "strategy_name_to_kind name =
     (case map_of built_in_kinds name of
        Some k \<Rightarrow> k
      | None \<Rightarrow> (case script_of name of Some script \<Rightarrow> kind_of script | None \<Rightarrow> []))"

definition create_strategies_for_kinds :: "string list \<Rightarrow> 'ast store \<Rightarrow> string list" where
  "create_strategies_for_kinds kinds s =
     filter (\<lambda>n. list_ex (\<lambda>k. k = strategy_name_to_kind n) kinds) (create_all_strategies s)"

definition strategy_names :: "string list" where
  "strategy_names =
     [''MomentumStrategy'', ''ArbitrageStrategy'', ''TimeDecayStrategy'', ''MakerStrategy'', ''BasisStrategy'',
      ''GboostStrategy'', ''TrendReversalStrategy'', ''ConvergenceStrategy'', ''FairValueStrategy'',
      ''BooklineStrategy'', ''AnchorStrategy'', ''HelmStrategy'']"

fun position_of :: "string \<Rightarrow> string list \<Rightarrow> nat option" where
  "position_of x [] = None"
| "position_of x (y # ys) = (if y = x then Some 0 else map_option Suc (position_of x ys))"

definition get_strategy_priority :: "string \<Rightarrow> nat option" where
  "get_strategy_priority name = position_of name strategy_names"

section \<open>One strategy per kind\<close>

lemma script_of_strategy_name [simp]: "script_of (strategy_name n) = Some n"
  by (simp add: script_of_def strategy_name_def starts_with_def)

lemma script_kind [simp]: "strategy_name_to_kind (strategy_name n) = kind_of n"
proof -
  have "map_of built_in_kinds (strategy_name n) = None"
    by (simp add: built_in_kinds_def strategy_name_def name_prefix_def)
  then show ?thesis by (simp add: strategy_name_to_kind_def)
qed

lemma built_in_kind_list:
  "map strategy_name_to_kind built_in_strategies =
     [''momentum'', ''arbitrage'', ''time_decay'', ''maker'', ''basis'', ''gboost'', ''trendcapture'',
      ''convergence'', ''fairvalue'', ''anchor'', ''bookline'', ''helm'']"
  by (simp add: built_in_strategies_def strategy_name_to_kind_def built_in_kinds_def)

lemma kind_of_inj: "inj kind_of"
  by (rule injI) (simp add: kind_of_def)

lemma kinds_distinct:
  assumes "bt_wf (so_scripts s)"
  shows "distinct (map strategy_name_to_kind (create_all_strategies s))"
proof -
  have script_kinds: "map strategy_name_to_kind (adapters s) = map kind_of (names s)"
    by (simp add: adapters_def comp_def)
  have "distinct (names s)" using assms by (simp add: names_def bt_wf_distinct)
  then have "distinct (map kind_of (names s))"
    by (simp add: distinct_map inj_on_subset [OF kind_of_inj])
  moreover have "set (map strategy_name_to_kind built_in_strategies) \<inter> set (map kind_of (names s)) = {}"
    unfolding built_in_kind_list by (auto simp: kind_of_def kind_prefix_def)
  moreover have "distinct (map strategy_name_to_kind built_in_strategies)"
    unfolding built_in_kind_list by simp
  ultimately show ?thesis
    by (simp only: create_all_strategies_def map_append distinct_append script_kinds simp_thms)
qed

lemma kind_selects_one:
  assumes "distinct (map f xs)"
  shows "filter (\<lambda>n. f n = k) xs = [] \<or> (\<exists>n \<in> set xs. f n = k \<and> filter (\<lambda>n. f n = k) xs = [n])"
  using assms
proof (induction xs)
  case (Cons x xs)
  show ?case
  proof (cases "f x = k")
    case True
    then have "filter (\<lambda>n. f n = k) xs = []"
      using Cons.prems by (metis (mono_tags, lifting) distinct.simps(2) filter_empty_conv imageI list.set_map list.simps(9))
    with True show ?thesis by simp
  next
    case False
    with Cons show ?thesis by auto
  qed
qed simp

text \<open>Every kind names one strategy: each strategy the registry builds, scripts included, has a kind, no two share
  one, and a class configured with a single kind runs at most the one strategy of that kind; so the Helm class
  runs Helm and nothing else, and a class with no kinds runs nothing.\<close>

theorem one_strategy_per_kind:
  assumes "store_ok env s"
  shows "distinct (map strategy_name_to_kind (create_all_strategies s)) \<and>
    [] \<notin> set (map strategy_name_to_kind (create_all_strategies s)) \<and>
    (create_strategies_for_kinds [k] s = [] \<or>
      (\<exists>n \<in> set (create_all_strategies s). strategy_name_to_kind n = k \<and> create_strategies_for_kinds [k] s = [n])) \<and>
    create_strategies_for_kinds [''helm''] s = [''HelmStrategy''] \<and>
    create_strategies_for_kinds [] s = []"
proof -
  have wf: "bt_wf (so_scripts s)" using assms by (simp add: store_ok_def)
  have dist: "distinct (map strategy_name_to_kind (create_all_strategies s))" by (rule kinds_distinct [OF wf])
  have script_kinds: "map strategy_name_to_kind (adapters s) = map kind_of (names s)"
    by (simp add: adapters_def comp_def)
  have nonempty: "[] \<notin> set (map kind_of (names s))" by (auto simp: kind_of_def kind_prefix_def)
  then have filled: "[] \<notin> set (map strategy_name_to_kind (create_all_strategies s))"
    unfolding create_all_strategies_def map_append set_append script_kinds by (simp add: built_in_kind_list)
  have single: "create_strategies_for_kinds [k] s = filter (\<lambda>n. strategy_name_to_kind n = k) (create_all_strategies s)"
    for k by (simp add: create_strategies_for_kinds_def eq_commute)
  have one: "create_strategies_for_kinds [k] s = [] \<or>
      (\<exists>n \<in> set (create_all_strategies s). strategy_name_to_kind n = k \<and> create_strategies_for_kinds [k] s = [n])"
    unfolding single by (rule kind_selects_one [OF dist])
  have no_script: "filter (\<lambda>n. strategy_name_to_kind n = ''helm'') (adapters s) = []"
    by (auto simp: filter_empty_conv adapters_def kind_of_def kind_prefix_def)
  have helm: "create_strategies_for_kinds [''helm''] s = [''HelmStrategy'']"
    unfolding single create_all_strategies_def filter_append no_script
    by (simp add: built_in_strategies_def strategy_name_to_kind_def built_in_kinds_def)
  show ?thesis using dist filled one helm by (auto simp: create_strategies_for_kinds_def [of "[]"])
qed

theorem one_strategy_per_kind_witness:
  "create_strategies_for_kinds [''helm''] (empty_store :: nat store) = [''HelmStrategy'']"
  using one_strategy_per_kind [OF empty_store_ok] by blast

lemma adoption_order:
  "distinct strategy_names" "set strategy_names = set built_in_strategies" "last strategy_names = ''HelmStrategy''"
  by (simp_all add: strategy_names_def built_in_strategies_def insert_commute)

lemma position_of_iff: "position_of x ys = Some i \<Longrightarrow> i < length ys \<and> ys ! i = x \<and> (\<forall>j < i. ys ! j \<noteq> x)"
  by (induction ys arbitrary: i) (auto split: if_splits simp: nth_Cons split: nat.splits)

section \<open>Attaching scripts to a running loop\<close>

record attacher =
  at_loop_id :: nat
  at_squadron :: string
  at_status_asset :: string
  at_class :: string
  at_venue :: string
  at_seen :: "64 word option"

record attachment =
  am_script :: string
  am_squadron :: string
  am_status_asset :: string
  am_class :: string
  am_attached_at :: utc
  am_hot :: bool
  am_loop_id :: nat

record running_loop =
  rl_squadron :: string
  rl_class :: string
  rl_loop_id :: nat

record loop_registry =
  lr_next :: nat
  lr_loops :: "running_loop list"
  lr_rows :: "attachment list"

definition no_loops :: loop_registry where
  "no_loops = \<lparr>lr_next = 1, lr_loops = [], lr_rows = []\<rparr>"

definition note_loop :: "nat \<Rightarrow> string \<Rightarrow> string \<Rightarrow> loop_registry \<Rightarrow> loop_registry" where
  "note_loop i squadron cls r =
     r\<lparr>lr_loops := lr_loops r @ [\<lparr>rl_squadron = squadron, rl_class = cls, rl_loop_id = i\<rparr>]\<rparr>"

definition note_attached ::
    "nat \<Rightarrow> string \<Rightarrow> string \<Rightarrow> string \<Rightarrow> string \<Rightarrow> bool \<Rightarrow> utc \<Rightarrow> loop_registry \<Rightarrow> loop_registry" where
  "note_attached i script squadron status_asset cls hot now r =
     (if list_ex (\<lambda>x. am_loop_id x = i \<and> am_script x = script) (lr_rows r) then r
      else r\<lparr>lr_rows := lr_rows r @
        [\<lparr>am_script = script, am_squadron = squadron, am_status_asset = status_asset, am_class = cls,
          am_attached_at = now, am_hot = hot, am_loop_id = i\<rparr>]\<rparr>)"

definition forget_loop :: "nat \<Rightarrow> loop_registry \<Rightarrow> loop_registry" where
  "forget_loop i r =
     r\<lparr>lr_loops := filter (\<lambda>x. rl_loop_id x \<noteq> i) (lr_loops r), lr_rows := filter (\<lambda>x. am_loop_id x \<noteq> i) (lr_rows r)\<rparr>"

definition attachments_of :: "string \<Rightarrow> loop_registry \<Rightarrow> attachment list" where
  "attachments_of script r = filter (\<lambda>x. am_script x = script) (lr_rows r)"

definition attacher_new :: "string \<Rightarrow> string \<Rightarrow> string \<Rightarrow> string \<Rightarrow> loop_registry \<Rightarrow> attacher \<times> loop_registry" where
  "attacher_new venue squadron status_asset cls r =
     (let i = lr_next r
      in (\<lparr>at_loop_id = i, at_squadron = squadron, at_status_asset = to_lowercase status_asset, at_class = cls,
           at_venue = venue, at_seen = None\<rparr>,
          note_loop i squadron cls (r\<lparr>lr_next := i + 1\<rparr>)))"

definition attach_one :: "string \<Rightarrow> string list \<times> string list \<Rightarrow> string list \<times> string list" where
  "attach_one n sa =
     (let (strategies, added) = sa; sn = strategy_name n
      in if sn \<in> set strategies then sa else (strategies @ [sn], added @ [sn]))"

definition note_strategy ::
    "attacher \<Rightarrow> bool \<Rightarrow> string list \<Rightarrow> utc \<Rightarrow> string \<Rightarrow> loop_registry \<Rightarrow> loop_registry" where
  "note_strategy a first added now name r =
     (case script_of name of
        None \<Rightarrow> r
      | Some script \<Rightarrow>
          note_attached (at_loop_id a) script (at_squadron a) (at_status_asset a) (at_class a)
            (\<not> first \<or> name \<in> set added) now r)"

definition attacher_sync ::
    "'ast store \<Rightarrow> utc \<Rightarrow> attacher \<Rightarrow> string list \<Rightarrow> loop_registry \<Rightarrow>
     string list \<times> attacher \<times> string list \<times> loop_registry" where
  "attacher_sync s now a strategies r =
     (let g = so_generation s; first = (at_seen a = None)
      in if at_seen a = Some g then ([], a, strategies, r)
         else let (strategies, added) = fold attach_one (names_for_class_on (at_class a) (at_venue a) s) (strategies, []);
                  r = fold (note_strategy a first added now) strategies r
              in (added, a\<lparr>at_seen := Some g\<rparr>, strategies, r))"

lemma strategy_name_inj: "strategy_name a = strategy_name b \<longleftrightarrow> a = b"
  by (simp add: strategy_name_def)

lemma fold_attach_one:
  "distinct ns \<Longrightarrow>
     fold attach_one ns (strategies, added) =
       (let new = map strategy_name (filter (\<lambda>n. strategy_name n \<notin> set strategies) ns)
        in (strategies @ new, added @ new))"
proof (induction ns arbitrary: strategies added)
  case (Cons n ns)
  have "filter (\<lambda>m. strategy_name m \<noteq> strategy_name n \<and> strategy_name m \<notin> set strategies) ns =
      filter (\<lambda>m. strategy_name m \<notin> set strategies) ns"
    using Cons.prems by (intro filter_cong) (auto simp: strategy_name_inj)
  with Cons show ?case by (auto simp: attach_one_def Let_def)
qed simp

lemma script_store_simp: "so_scripts (store_script n sc s) = bt_insert n sc (so_scripts s)"
  by (simp add: store_script_def)

lemma names_for_class_distinct: "store_ok env s \<Longrightarrow> distinct (names_for_class_on cls venue s)"
proof -
  assume ok: "store_ok env s"
  have keys: "map (\<lambda>(k, sc). mf_name (sc_manifest sc)) xs = map fst xs" if "set xs \<subseteq> set (so_scripts s)" for xs
    using ok that by (induction xs) (auto simp: store_ok_def script_ok_def)
  have flt: "map (\<lambda>(k, sc). mf_name (sc_manifest sc)) (filter P (so_scripts s)) = map fst (filter P (so_scripts s))"
    for P by (rule keys [OF filter_is_subset])
  show ?thesis
    unfolding names_for_class_on_def flt using ok by (simp add: store_ok_def bt_wf_distinct bt_wf_filter)
qed

lemma attacher_sync_cases:
  assumes "store_ok env s" "attacher_sync s now a strategies r = (added, a', strategies', r')"
  obtains (same) "at_seen a = Some (so_generation s)" "added = []" "strategies' = strategies" "a' = a"
    | (new) "at_seen a \<noteq> Some (so_generation s)"
        "added = map strategy_name
          (filter (\<lambda>n. strategy_name n \<notin> set strategies) (names_for_class_on (at_class a) (at_venue a) s))"
        "strategies' = strategies @ added" "a' = a\<lparr>at_seen := Some (so_generation s)\<rparr>"
  using assms(2) fold_attach_one [OF names_for_class_distinct [OF assms(1), of "at_class a" "at_venue a"],
      where strategies = strategies and added = "[]"]
  by (auto simp: attacher_sync_def Let_def split: if_splits)

text \<open>A loop only ever gains scripts: a synchronisation keeps the strategies the loop runs in their places, appends
  each script of its class and venue it did not run, once, and nothing else, so that afterwards it runs every
  one of them, still without duplicates, and the next one changes nothing until the set of scripts does.  A
  Helm loop gains none.\<close>

theorem attacher_sync_exact:
  assumes "store_ok env s" "attacher_sync s now a strategies r = (added, a', strategies', r')"
  shows "strategies' = strategies @ added \<and> (distinct strategies \<longrightarrow> distinct strategies') \<and>
    (at_seen a \<noteq> Some (so_generation s) \<longrightarrow>
      set added = strategy_name ` set (names_for_class_on (at_class a) (at_venue a) s) - set strategies) \<and>
    fst (attacher_sync s now' a' strategies' r') = [] \<and>
    (at_class a = ''helm'' \<longrightarrow> added = [])"
proof -
  let ?ns = "names_for_class_on (at_class a) (at_venue a) s"
  let ?new = "map strategy_name (filter (\<lambda>n. strategy_name n \<notin> set strategies) ?ns)"
  have dist: "distinct ?ns" by (rule names_for_class_distinct [OF assms(1)])
  note cases = attacher_sync_cases [OF assms]
  have "distinct ?new" using dist by (auto simp: distinct_map inj_on_def strategy_name_inj)
  then have "distinct strategies \<longrightarrow> distinct strategies'" by (cases rule: cases) auto
  moreover have "at_seen a \<noteq> Some (so_generation s) \<longrightarrow> set added = strategy_name ` set ?ns - set strategies"
    by (cases rule: cases) auto
  moreover have "strategies' = strategies @ added" "fst (attacher_sync s now' a' strategies' r') = []"
      "at_class a = ''helm'' \<longrightarrow> added = []"
    by (cases rule: cases; simp add: attacher_sync_def names_for_class_on_def Let_def)+
  ultimately show ?thesis by blast
qed

definition crypto_loop :: attacher where
  "crypto_loop = fst (attacher_new ''kalshi'' ''btc-open'' ''BTC'' ''crypto'' no_loops)"

theorem attacher_sync_exact_witness:
  "fst (snd (snd (attacher_sync (snd one_script) 0 crypto_loop [''ArbitrageStrategy''] no_loops))) =
     [''ArbitrageStrategy''] @ fst (attacher_sync (snd one_script) 0 crypto_loop [''ArbitrageStrategy''] no_loops)"
proof -
  have ok: "store_ok sample_env (snd one_script)"
    unfolding one_script_def by (rule store_ok_run) (simp add: empty_store_ok)
  obtain added a' ss r where sync: "attacher_sync (snd one_script) 0 crypto_loop [''ArbitrageStrategy''] no_loops = (added, a', ss, r)"
    by (metis surj_pair)
  from attacher_sync_exact [OF ok sync] show ?thesis by (simp add: sync)
qed

text \<open>A saved script joins: after a save that succeeded, the next synchronisation of every loop of one of the
  script's classes on one of its venues, whenever it last looked, leaves it running the script.\<close>

theorem saved_script_joins:
  assumes "store_ok env (snd fs)" "save_in env io now m source fs = (Inr sc, f', s')"
    "at_seen a = Some (so_generation (snd fs)) \<or> at_seen a = None"
    "at_class a \<in> set (mf_classes m)" "runs_on m (at_venue a)"
    "attacher_sync s' now' a strategies r = (added, a', strategies', r')"
  shows "strategy_name (mf_name m) \<in> set strategies'"
proof -
  have saved: "s' = store_script (mf_name m) sc (snd fs)" "sc_manifest sc = m" "check env m source = Inr (sc_ast sc)"
    using assms(2) by (auto simp: save_in_def Let_def split_beta split: sum.splits if_splits)
  have ok: "store_ok env s'"
    using store_ok_step [of env fs "SaveScript io now m source"] assms(1,2) by simp
  have "at_class a \<noteq> ''helm''"
    using problems_nil_flies [OF check_problems_nil [OF saved(3)]] assms(4) by (auto simp: manifest_flies_def)
  moreover have "(mf_name m, sc) \<in> set (so_scripts s')"
    using saved(1) by (metis bt_get_insert bump_fields(1) map_of_SomeD script_store_simp)
  ultimately have "mf_name m \<in> set (names_for_class_on (at_class a) (at_venue a) s')"
    using assms(4,5) saved(2) by (force simp: names_for_class_on_def)
  moreover have "at_seen a \<noteq> Some (so_generation s')"
    using assms(3) saved(1) by (auto simp: store_script_def)
  ultimately show ?thesis
    by (cases rule: attacher_sync_cases [OF ok assms(6)]) auto
qed

theorem saved_script_joins_witness:
  "''Script:fade_spikes'' \<in> set (fst (snd (snd
     (attacher_sync (snd one_script) 0 crypto_loop [''ArbitrageStrategy''] no_loops))))"
proof -
  obtain added a' ss r where sync:
      "attacher_sync (snd one_script) 0 crypto_loop [''ArbitrageStrategy''] no_loops = (added, a', ss, r)"
    by (metis surj_pair)
  have save: "save_in sample_env all_good 0 sample_manifest ''fn entry'' (empty_folder, empty_store) =
      (Inr the_script, fst one_script, snd one_script)"
    by (simp add: one_script_def save_in_def sample_check all_good_def the_script_def Let_def) (simp add: sample_env_def)
  have "strategy_name (mf_name sample_manifest) \<in> set ss"
    by (rule saved_script_joins [OF _ save _ _ _ sync])
      (simp_all add: empty_store_ok crypto_loop_def attacher_new_def no_loops_def sample_manifest_def runs_on_def)
  then show ?thesis by (simp add: sync strategy_name_def name_prefix_def sample_manifest_def)
qed

section \<open>The registry of loops\<close>

text \<open>Loops start, look and end in any order; a loop that has ended does not look again.\<close>

datatype 'ast loop_event =
    LoopStarts string string string string "string list"
  | LoopLooks nat "'ast store" utc
  | LoopEnds nat

record loop_world =
  lw_registry :: loop_registry
  lw_live :: "(nat, attacher \<times> string list) hash_map"

fun loop_step :: "'ast loop_event \<Rightarrow> loop_world \<Rightarrow> loop_world" where
  "loop_step (LoopStarts venue squadron status_asset cls strategies) w =
     (let (a, r) = attacher_new venue squadron status_asset cls (lw_registry w)
      in \<lparr>lw_registry = r, lw_live = hm_insert (at_loop_id a) (a, strategies) (lw_live w)\<rparr>)"
| "loop_step (LoopLooks i s now) w =
     (case hm_get (lw_live w) i of
        None \<Rightarrow> w
      | Some (a, strategies) \<Rightarrow>
          let (_, a, strategies, r) = attacher_sync s now a strategies (lw_registry w)
          in \<lparr>lw_registry = r, lw_live = hm_insert i (a, strategies) (lw_live w)\<rparr>)"
| "loop_step (LoopEnds i) w =
     (if hm_contains i (lw_live w)
      then \<lparr>lw_registry = forget_loop i (lw_registry w), lw_live = hm_remove i (lw_live w)\<rparr> else w)"

definition row_key :: "attachment \<Rightarrow> nat \<times> string" where
  "row_key x = (am_loop_id x, am_script x)"

definition loops_inv :: "loop_world \<Rightarrow> bool" where
  "loops_inv w \<longleftrightarrow>
     (\<forall>i a ss. hm_get (lw_live w) i = Some (a, ss) \<longrightarrow> at_loop_id a = i \<and> i < lr_next (lw_registry w)) \<and>
     distinct (map rl_loop_id (lr_loops (lw_registry w))) \<and>
     rl_loop_id ` set (lr_loops (lw_registry w)) = dom (map_of (lw_live w)) \<and>
     distinct (map row_key (lr_rows (lw_registry w))) \<and>
     (\<forall>x \<in> set (lr_rows (lw_registry w)). am_loop_id x \<in> dom (map_of (lw_live w)))"

lemma note_attached_frame:
  "lr_loops (note_attached i script sq st cls hot now r) = lr_loops r"
  "lr_next (note_attached i script sq st cls hot now r) = lr_next r"
  by (simp_all add: note_attached_def)

lemma note_attached_rows:
  "distinct (map row_key (lr_rows r)) \<Longrightarrow> distinct (map row_key (lr_rows (note_attached i script sq st cls hot now r)))"
  by (auto simp: note_attached_def row_key_def list_ex_iff)

lemma note_attached_owner:
  "x \<in> set (lr_rows (note_attached i script sq st cls hot now r)) \<Longrightarrow> x \<in> set (lr_rows r) \<or> am_loop_id x = i"
  by (auto simp: note_attached_def split: if_splits)

lemma note_strategy_step:
  "lr_loops (note_strategy a first added now n r) = lr_loops r"
  "lr_next (note_strategy a first added now n r) = lr_next r"
  "distinct (map row_key (lr_rows r)) \<Longrightarrow> distinct (map row_key (lr_rows (note_strategy a first added now n r)))"
  "x \<in> set (lr_rows (note_strategy a first added now n r)) \<Longrightarrow> x \<in> set (lr_rows r) \<or> am_loop_id x = at_loop_id a"
  by (cases "script_of n"; auto simp: note_strategy_def note_attached_frame note_attached_rows dest: note_attached_owner)+

lemma note_strategies_frame:
  "lr_loops (fold (note_strategy a first added now) ss r) = lr_loops r"
  "lr_next (fold (note_strategy a first added now) ss r) = lr_next r"
  by (induction ss arbitrary: r) (simp_all add: note_strategy_step)

lemma note_strategies_rows:
  "distinct (map row_key (lr_rows r)) \<Longrightarrow>
     distinct (map row_key (lr_rows (fold (note_strategy a first added now) ss r)))"
  by (induction ss arbitrary: r) (simp_all add: note_strategy_step)

lemma note_strategies_owner:
  "x \<in> set (lr_rows (fold (note_strategy a first added now) ss r)) \<Longrightarrow>
     x \<in> set (lr_rows r) \<or> am_loop_id x = at_loop_id a"
  by (induction ss arbitrary: r) (auto dest: note_strategy_step(4))

lemma attacher_sync_frame:
  assumes "attacher_sync s now a ss r = (added, a', ss', r')"
  shows "at_loop_id a' = at_loop_id a" "lr_loops r' = lr_loops r" "lr_next r' = lr_next r"
    and "distinct (map row_key (lr_rows r)) \<Longrightarrow> distinct (map row_key (lr_rows r'))"
    and "x \<in> set (lr_rows r') \<Longrightarrow> x \<in> set (lr_rows r) \<or> am_loop_id x = at_loop_id a"
  using assms
  by (auto simp: attacher_sync_def Let_def split_beta note_strategies_frame note_strategies_rows
      split: if_splits dest: note_strategies_owner)

lemma loops_inv_start:
  assumes "loops_inv w"
  shows "loops_inv (loop_step (LoopStarts venue squadron status_asset cls strategies) w)"
proof -
  let ?n = "lr_next (lw_registry w)"
  have fresh: "hm_get (lw_live w) ?n = None"
    using assms by (cases "hm_get (lw_live w) ?n") (fastforce simp: loops_inv_def)+
  have "?n \<notin> rl_loop_id ` set (lr_loops (lw_registry w))"
    using assms fresh by (simp add: loops_inv_def domIff)
  then show ?thesis
    using assms
    by (simp add: loops_inv_def attacher_new_def note_loop_def Let_def update_conv' less_SucI)
qed

lemma loops_inv_look:
  assumes "loops_inv w"
  shows "loops_inv (loop_step (LoopLooks i s now) w)"
proof (cases "hm_get (lw_live w) i")
  case (Some e)
  obtain a ss where e: "e = (a, ss)" by (cases e)
  obtain added a' ss' r' where sync: "attacher_sync s now a ss (lw_registry w) = (added, a', ss', r')"
    by (metis surj_pair)
  have i: "at_loop_id a = i" "i < lr_next (lw_registry w)" "i \<in> dom (map_of (lw_live w))"
    using assms Some e by (auto simp: loops_inv_def)
  have "loops_inv \<lparr>lw_registry = r', lw_live = hm_insert i (a', ss') (lw_live w)\<rparr>"
    unfolding loops_inv_def
  proof (intro conjI)
    show "\<forall>x \<in> set (lr_rows (lw_registry \<lparr>lw_registry = r', lw_live = hm_insert i (a', ss') (lw_live w)\<rparr>)).
        am_loop_id x \<in> dom (map_of (lw_live \<lparr>lw_registry = r', lw_live = hm_insert i (a', ss') (lw_live w)\<rparr>))"
    proof
      fix x assume "x \<in> set (lr_rows (lw_registry \<lparr>lw_registry = r', lw_live = hm_insert i (a', ss') (lw_live w)\<rparr>))"
      then have "x \<in> set (lr_rows (lw_registry w)) \<or> am_loop_id x = i"
        using attacher_sync_frame(5) [OF sync] i(1) by simp
      moreover have "x \<in> set (lr_rows (lw_registry w)) \<Longrightarrow> am_loop_id x \<in> dom (map_of (lw_live w))"
        using assms unfolding loops_inv_def by blast
      ultimately show "am_loop_id x \<in> dom (map_of (lw_live
          \<lparr>lw_registry = r', lw_live = hm_insert i (a', ss') (lw_live w)\<rparr>))"
        by (auto simp: update_conv')
    qed
  qed (use assms i attacher_sync_frame(1-4) [OF sync] in \<open>auto simp: loops_inv_def update_conv'\<close>)
  then show ?thesis using Some e sync by simp
qed (use assms in simp)

lemma loops_inv_end: "loops_inv w \<Longrightarrow> loops_inv (loop_step (LoopEnds i) w)"
  by (simp add: loops_inv_def forget_loop_def distinct_map_filter delete_conv') blast

lemma loops_inv_step: "loops_inv w \<Longrightarrow> loops_inv (loop_step e w)"
  by (cases e) (simp_all only: loops_inv_start loops_inv_look loops_inv_end)

definition no_loop_world :: loop_world where
  "no_loop_world = \<lparr>lw_registry = no_loops, lw_live = []\<rparr>"

lemma loops_inv_run: "loops_inv w \<Longrightarrow> loops_inv (fold loop_step es w)"
  by (induction es arbitrary: w) (simp_all only: fold_simps comp_apply loops_inv_step)

text \<open>The page's rows are the truth: after any interleaving of loops starting, looking and ending, the running
  loops listed are exactly the live ones, each once, no script is listed twice for a loop, every row belongs to
  a live loop, and a loop that ends takes its own rows and no other's.\<close>

theorem attachment_rows_exact:
  fixes es :: "'ast loop_event list"
  shows "let w = fold loop_step es no_loop_world in
    distinct (map rl_loop_id (lr_loops (lw_registry w))) \<and>
    set (map rl_loop_id (lr_loops (lw_registry w))) = {i. hm_contains i (lw_live w)} \<and>
    distinct (map (\<lambda>x. (am_loop_id x, am_script x)) (lr_rows (lw_registry w))) \<and>
    am_loop_id ` set (lr_rows (lw_registry w)) \<subseteq> {i. hm_contains i (lw_live w)} \<and>
    lr_rows (lw_registry (loop_step (LoopEnds i :: 'ast loop_event) w)) =
      filter (\<lambda>x. am_loop_id x \<noteq> i) (lr_rows (lw_registry w))"
proof -
  define w where "w = fold loop_step es no_loop_world"
  have inv: "loops_inv w"
    unfolding w_def by (rule loops_inv_run) (simp add: loops_inv_def no_loop_world_def no_loops_def)
  have ids: "distinct (map rl_loop_id (lr_loops (lw_registry w)))" using inv by (simp add: loops_inv_def)
  have live: "set (map rl_loop_id (lr_loops (lw_registry w))) = {i. hm_contains i (lw_live w)}"
    using inv by (simp add: loops_inv_def hm_contains_def dom_def del: hm_contains_iff)
  have keys: "distinct (map (\<lambda>x. (am_loop_id x, am_script x)) (lr_rows (lw_registry w)))"
    using inv by (simp add: loops_inv_def row_key_def [abs_def])
  have rows: "\<forall>x \<in> set (lr_rows (lw_registry w)). hm_contains (am_loop_id x) (lw_live w)"
    using inv by (simp add: loops_inv_def dom_def)
  have ends: "lr_rows (lw_registry (loop_step (LoopEnds i :: 'ast loop_event) w)) =
      filter (\<lambda>x. am_loop_id x \<noteq> i) (lr_rows (lw_registry w))"
    using rows by (auto simp: forget_loop_def intro!: filter_True [symmetric])
  show ?thesis
    unfolding w_def [symmetric] Let_def using ids live keys rows ends by (intro conjI) blast+
qed

end
