(* ===== verification/Config_Store.thy ===== *)
theory Config_Store
  imports Registry
begin

text \<open>
  The settings of the engine, \<open>src/helpers/dynamic_config.rs\<close>, and the requests that change them, \<open>patch_config\<close>
  and \<open>patch_squadron_config\<close> of \<open>src/api/server.rs\<close>.  One global row, one row per squadron, a broadcast of the
  global value and a live handle per running squadron.  A stored text is the JSON value it denotes, and a text
  that is no JSON a value nothing reads, such as null.  The fields that describe the instance, the capped
  fields and the scripts' settings are fields of the record; the other knobs are kept in their JSON form, and
  what the type of a knob reads is an argument, as are the decimal crate and the build's constants.  Every
  statement of the database may fail.
\<close>

section \<open>Settings and their JSON form\<close>

record custom_viper =
  cv_enabled :: bool
  cv_live :: bool
  cv_max_exposure :: "decimal option"
  cv_params :: "(string \<times> json) list"

record config =
  cf_ghost_mode :: bool
  cf_book_price_changes :: bool
  cf_helm_enabled :: bool
  cf_helm_live_enabled :: bool
  cf_max_open_intents :: nat
  cf_td_max_entry_price :: decimal
  cf_td_stop_loss_pct :: decimal
  cf_momentum_stop_loss_pct :: decimal
  cf_custom_vipers :: "(string, custom_viper) hash_map"
  cf_knobs :: "(string, json) hash_map"

text \<open>What a build fixes: its decimal text and what the decoder of a field reads in a JSON number, the count text, every other knob with the default of its field when it
  has one, what a knob's type reads, the compiled settings and the three ceilings.\<close>

record config_build =
  cb_show :: "decimal \<Rightarrow> string"
  cb_parse :: "string \<Rightarrow> decimal option"
  cb_number :: "string \<Rightarrow> decimal option"
  cb_show_nat :: "nat \<Rightarrow> string"
  cb_parse_nat :: "string \<Rightarrow> nat option"
  cb_knobs :: "(string \<times> json option) list"
  cb_fits :: "string \<Rightarrow> json \<Rightarrow> bool"
  cb_default :: config
  cb_td_entry_ceiling :: decimal
  cb_td_stop_ceiling :: decimal
  cb_momentum_stop_ceiling :: decimal

definition decimal_json :: "config_build \<Rightarrow> decimal \<Rightarrow> json" where
  "decimal_json bd d = JString (cb_show bd d)"

definition read_decimal :: "config_build \<Rightarrow> json \<Rightarrow> decimal option" where
  "read_decimal bd v = (case v of JString s \<Rightarrow> cb_parse bd s | JNumber n \<Rightarrow> cb_number bd n | _ \<Rightarrow> None)"

definition read_bool :: "json \<Rightarrow> bool option" where
  "read_bool v = (case v of JBool b \<Rightarrow> Some b | _ \<Rightarrow> None)"

definition read_count :: "config_build \<Rightarrow> json \<Rightarrow> nat option" where
  "read_count bd v = (case v of JNumber n \<Rightarrow> cb_parse_nat bd n | _ \<Rightarrow> None)"

text \<open>A field with a default, and a field without one.\<close>

definition field_or :: "(string \<times> json) list \<Rightarrow> string \<Rightarrow> 'a \<Rightarrow> (json \<Rightarrow> 'a option) \<Rightarrow> 'a option" where
  "field_or m k d rd = (case map_of m k of None \<Rightarrow> Some d | Some v \<Rightarrow> rd v)"

definition field_of :: "(string \<times> json) list \<Rightarrow> string \<Rightarrow> (json \<Rightarrow> 'a option) \<Rightarrow> 'a option" where
  "field_of m k rd = Option.bind (map_of m k) rd"

definition viper_json :: "config_build \<Rightarrow> custom_viper \<Rightarrow> json" where
  "viper_json bd c = JObject
     [(''enabled'', JBool (cv_enabled c)), (''live'', JBool (cv_live c)),
      (''max_exposure_usdc'', case cv_max_exposure c of None \<Rightarrow> JNull | Some d \<Rightarrow> decimal_json bd d),
      (''params'', JObject (cv_params c))]"

definition read_cap :: "config_build \<Rightarrow> json \<Rightarrow> decimal option option" where
  "read_cap bd v = (case v of JNull \<Rightarrow> Some None | _ \<Rightarrow> map_option Some (read_decimal bd v))"

definition read_object :: "json \<Rightarrow> (string \<times> json) list option" where
  "read_object v = (case v of JObject m \<Rightarrow> Some m | _ \<Rightarrow> None)"

definition read_viper :: "config_build \<Rightarrow> json \<Rightarrow> custom_viper option" where
  "read_viper bd v =
     (case v of
        JObject m \<Rightarrow>
          (case (field_or m ''enabled'' True read_bool, field_or m ''live'' False read_bool,
                 field_or m ''max_exposure_usdc'' None (read_cap bd), field_or m ''params'' [] read_object) of
             (Some en, Some live, Some cap, Some params) \<Rightarrow>
               Some \<lparr>cv_enabled = en, cv_live = live, cv_max_exposure = cap, cv_params = params\<rparr>
           | _ \<Rightarrow> None)
      | _ \<Rightarrow> None)"

definition default_viper :: custom_viper where
  "default_viper = \<lparr>cv_enabled = True, cv_live = False, cv_max_exposure = None, cv_params = []\<rparr>"

text \<open>Every entry read, or none.\<close>

fun read_entries :: "(json \<Rightarrow> 'a option) \<Rightarrow> (string \<times> json) list \<Rightarrow> (string \<times> 'a) list option" where
  "read_entries rd [] = Some []"
| "read_entries rd ((k, v) # m) =
     (case (rd v, read_entries rd m) of (Some x, Some xs) \<Rightarrow> Some ((k, x) # xs) | _ \<Rightarrow> None)"

definition read_vipers :: "config_build \<Rightarrow> json \<Rightarrow> (string, custom_viper) hash_map option" where
  "read_vipers bd v = (case v of JObject m \<Rightarrow> read_entries (read_viper bd) m | _ \<Rightarrow> None)"

fun read_knobs :: "config_build \<Rightarrow> (string \<times> json) list \<Rightarrow> (string \<times> json option) list \<Rightarrow> (string, json) hash_map option" where
  "read_knobs bd m [] = Some []"
| "read_knobs bd m ((k, d) # ks) =
     (case (case map_of m k of None \<Rightarrow> d | Some v \<Rightarrow> if cb_fits bd k v then Some v else None, read_knobs bd m ks) of
        (Some v, Some rest) \<Rightarrow> Some ((k, v) # rest) | _ \<Rightarrow> None)"

definition config_fields :: "config_build \<Rightarrow> config \<Rightarrow> (string \<times> json) list" where
  "config_fields bd c =
     [(''ghost_mode'', JBool (cf_ghost_mode c)), (''book_apply_price_changes'', JBool (cf_book_price_changes c)),
      (''helm_enabled'', JBool (cf_helm_enabled c)), (''helm_live_enabled'', JBool (cf_helm_live_enabled c)),
      (''helm_max_open_intents'', JNumber (cb_show_nat bd (cf_max_open_intents c))),
      (''time_decay_max_entry_price'', decimal_json bd (cf_td_max_entry_price c)),
      (''time_decay_stop_loss_pct'', decimal_json bd (cf_td_stop_loss_pct c)),
      (''momentum_stop_loss_pct'', decimal_json bd (cf_momentum_stop_loss_pct c)),
      (''custom_vipers'', JObject (map (\<lambda>(n, v). (n, viper_json bd v)) (cf_custom_vipers c)))]
     @ cf_knobs c"

definition config_json :: "config_build \<Rightarrow> config \<Rightarrow> json" where
  "config_json bd c = JObject (config_fields bd c)"

text \<open>Keys the type does not name are ignored.\<close>

definition read_config :: "config_build \<Rightarrow> json \<Rightarrow> config option" where
  "read_config bd v =
     (case v of
        JObject m \<Rightarrow>
          (let d = cb_default bd in
           case (field_or m ''ghost_mode'' (cf_ghost_mode d) read_bool,
                 field_or m ''book_apply_price_changes'' (cf_book_price_changes d) read_bool,
                 field_or m ''helm_enabled'' (cf_helm_enabled d) read_bool,
                 field_or m ''helm_live_enabled'' (cf_helm_live_enabled d) read_bool,
                 field_or m ''helm_max_open_intents'' (cf_max_open_intents d) (read_count bd)) of
             (Some ghost, Some changes, Some helm, Some helm_live, Some intents) \<Rightarrow>
               (case (field_of m ''time_decay_max_entry_price'' (read_decimal bd),
                      field_of m ''time_decay_stop_loss_pct'' (read_decimal bd),
                      field_of m ''momentum_stop_loss_pct'' (read_decimal bd),
                      field_or m ''custom_vipers'' [] (read_vipers bd), read_knobs bd m (cb_knobs bd)) of
                  (Some td_entry, Some td_stop, Some mom_stop, Some vipers, Some knobs) \<Rightarrow>
                    Some \<lparr>cf_ghost_mode = ghost, cf_book_price_changes = changes, cf_helm_enabled = helm,
                          cf_helm_live_enabled = helm_live, cf_max_open_intents = intents,
                          cf_td_max_entry_price = td_entry, cf_td_stop_loss_pct = td_stop,
                          cf_momentum_stop_loss_pct = mom_stop, cf_custom_vipers = vipers, cf_knobs = knobs\<rparr>
                | _ \<Rightarrow> None)
           | _ \<Rightarrow> None)
      | _ \<Rightarrow> None)"

section \<open>Patches\<close>

text \<open>One script's entry in a patch of \<open>custom_vipers\<close>.\<close>

fun merge_viper :: "string \<times> json \<Rightarrow> (string \<times> json) list \<Rightarrow> (string \<times> json) list" where
  "merge_viper (name, JNull) cur = hm_remove name cur"
| "merge_viper (name, JObject fs) cur =
     (case map_of cur name of
        Some (JObject existing) \<Rightarrow> hm_insert name (JObject (fold (\<lambda>(f, v). hm_insert f v) fs existing)) cur
      | _ \<Rightarrow> hm_insert name (JObject fs) cur)"
| "merge_viper (name, entry) cur = hm_insert name entry cur"

definition merge_field :: "string \<times> json \<Rightarrow> (string \<times> json) list \<Rightarrow> (string \<times> json) list" where
  "merge_field kv obj =
     (case kv of (k, v) \<Rightarrow>
        if k = ''custom_vipers''
        then case (map_of obj k, v) of
               (Some (JObject cur), JObject p) \<Rightarrow> hm_insert k (JObject (fold merge_viper p cur)) obj
             | _ \<Rightarrow> hm_insert k v obj
        else hm_insert k v obj)"

definition merge_patch_into :: "(string \<times> json) list \<Rightarrow> (string \<times> json) list \<Rightarrow> (string \<times> json) list" where
  "merge_patch_into obj patch = fold merge_field patch obj"

section \<open>Ceilings\<close>

record ceiling_clamp =
  cl_key :: string
  cl_configured :: decimal
  cl_ceiling :: decimal

definition build_capped_keys :: "string list" where
  "build_capped_keys = [''time_decay_max_entry_price'', ''time_decay_stop_loss_pct'', ''momentum_stop_loss_pct'']"

definition build_cap_for :: "config_build \<Rightarrow> string \<Rightarrow> decimal option" where
  "build_cap_for bd field =
     (if field = ''time_decay_max_entry_price'' then Some (cb_td_entry_ceiling bd)
      else if field = ''time_decay_stop_loss_pct'' then Some (cb_td_stop_ceiling bd)
      else if field = ''momentum_stop_loss_pct'' then Some (cb_momentum_stop_ceiling bd)
      else None)"

definition clamp_one :: "string \<Rightarrow> decimal \<Rightarrow> decimal \<Rightarrow> decimal \<times> ceiling_clamp list" where
  "clamp_one key value cap =
     (if cap < value then (cap, [\<lparr>cl_key = key, cl_configured = value, cl_ceiling = cap\<rparr>]) else (value, []))"

definition apply_build_caps :: "config_build \<Rightarrow> config \<Rightarrow> config \<times> ceiling_clamp list" where
  "apply_build_caps bd c =
     (let (e, l1) = clamp_one ''time_decay_max_entry_price'' (cf_td_max_entry_price c) (cb_td_entry_ceiling bd);
          (s, l2) = clamp_one ''time_decay_stop_loss_pct'' (cf_td_stop_loss_pct c) (cb_td_stop_ceiling bd);
          (m, l3) = clamp_one ''momentum_stop_loss_pct'' (cf_momentum_stop_loss_pct c) (cb_momentum_stop_ceiling bd)
      in (c\<lparr>cf_td_max_entry_price := e, cf_td_stop_loss_pct := s, cf_momentum_stop_loss_pct := m\<rparr>, l1 @ l2 @ l3))"

text \<open>The value the ceilings are compared with: a number is printed and parsed as a decimal.\<close>

definition configured_value :: "config_build \<Rightarrow> json \<Rightarrow> decimal option" where
  "configured_value bd v = (case v of JString s \<Rightarrow> cb_parse bd s | JNumber n \<Rightarrow> cb_parse bd n | _ \<Rightarrow> None)"

definition ceiling_violations :: "config_build \<Rightarrow> json \<Rightarrow> ceiling_clamp list" where
  "ceiling_violations bd patch =
     (case patch of
        JObject obj \<Rightarrow>
          List.map_filter (\<lambda>key.
            case (Option.bind (map_of obj key) (configured_value bd), build_cap_for bd key) of
              (Some d, Some cap) \<Rightarrow>
                if cap < d then Some \<lparr>cl_key = key, cl_configured = d, cl_ceiling = cap\<rparr> else None
            | _ \<Rightarrow> None) build_capped_keys
      | _ \<Rightarrow> [])"

datatype config_error = Not_json | Above_ceiling "ceiling_clamp list" | Bad_value

definition refuse_ceiling_violations :: "config_build \<Rightarrow> json \<Rightarrow> config_error + unit" where
  "refuse_ceiling_violations bd patch =
     (case ceiling_violations bd patch of [] \<Rightarrow> Inr () | over \<Rightarrow> Inl (Above_ceiling over))"

section \<open>Fields of the instance\<close>

definition global_semantics_keys :: "string list" where
  "global_semantics_keys =
     [''ghost_mode'', ''book_apply_price_changes'', ''helm_enabled'', ''helm_live_enabled'', ''helm_max_open_intents'']"

text \<open>The live switch and the cap of a script, as the global row has them.\<close>

definition global_switch :: "config \<Rightarrow> string \<Rightarrow> bool \<times> decimal option" where
  "global_switch g name =
     (case map_of (cf_custom_vipers g) name of None \<Rightarrow> (False, None) | Some c \<Rightarrow> (cv_live c, cv_max_exposure c))"

definition follow_switch :: "config \<Rightarrow> string \<times> custom_viper \<Rightarrow> string \<times> custom_viper" where
  "follow_switch g nc =
     (fst nc, (snd nc)\<lparr>cv_live := fst (global_switch g (fst nc)), cv_max_exposure := snd (global_switch g (fst nc))\<rparr>)"

definition add_switch :: "string \<times> custom_viper \<Rightarrow> (string, custom_viper) hash_map \<Rightarrow> (string, custom_viper) hash_map" where
  "add_switch ng vipers =
     (if (cv_live (snd ng) \<or> cv_max_exposure (snd ng) \<noteq> None) \<and> map_of vipers (fst ng) = None
      then hm_insert (fst ng) (default_viper\<lparr>cv_live := cv_live (snd ng), cv_max_exposure := cv_max_exposure (snd ng)\<rparr>) vipers
      else vipers)"

definition reconciled_vipers :: "config \<Rightarrow> (string, custom_viper) hash_map \<Rightarrow> (string, custom_viper) hash_map" where
  "reconciled_vipers g vipers = fold add_switch (cf_custom_vipers g) (map (follow_switch g) vipers)"

definition with_instance_fields :: "config \<Rightarrow> config \<Rightarrow> config" where
  "with_instance_fields g c =
     c\<lparr>cf_ghost_mode := cf_ghost_mode g, cf_book_price_changes := cf_book_price_changes g,
       cf_helm_enabled := cf_helm_enabled g, cf_helm_live_enabled := cf_helm_live_enabled g,
       cf_max_open_intents := cf_max_open_intents g\<rparr>"

definition differing_instance_fields :: "config \<Rightarrow> config \<Rightarrow> string list" where
  "differing_instance_fields c g =
     (if cf_ghost_mode c \<noteq> cf_ghost_mode g then [''ghost_mode''] else [])
     @ (if cf_book_price_changes c \<noteq> cf_book_price_changes g then [''book_apply_price_changes''] else [])
     @ (if cf_helm_enabled c \<noteq> cf_helm_enabled g then [''helm_enabled''] else [])
     @ (if cf_helm_live_enabled c \<noteq> cf_helm_live_enabled g then [''helm_live_enabled''] else [])
     @ (if cf_max_open_intents c \<noteq> cf_max_open_intents g then [''helm_max_open_intents''] else [])"

definition reconcile_global_semantics :: "config \<Rightarrow> config \<Rightarrow> config \<times> string list" where
  "reconcile_global_semantics c g =
     (let vipers = reconciled_vipers g (cf_custom_vipers c)
      in ((with_instance_fields g c)\<lparr>cf_custom_vipers := vipers\<rparr>,
          differing_instance_fields c g
          @ (if vipers \<noteq> cf_custom_vipers c then [''custom_vipers (live, cap)''] else [])))"

definition keep_instance_level_defaults :: "config_build \<Rightarrow> config \<Rightarrow> config \<times> string list" where
  "keep_instance_level_defaults bd c =
     (with_instance_fields (cb_default bd) c, differing_instance_fields c (cb_default bd))"

section \<open>The rows, the broadcast and the handles\<close>

datatype config_origin = Shard | Defaults | Seeded string "string list"

record config_change =
  cc_by :: string
  cc_param :: string
  cc_old :: "json option"
  cc_new :: json

record shard_row =
  sr_path :: string
  sr_updated_at :: string
  sr_json :: json

record config_world =
  cw_global :: "json option"
  cw_rows :: "(string, json) hash_map"
  cw_history :: "config_change list"
  cw_tx :: "config option"
  cw_live :: "(string, config) hash_map"
  cw_origin :: config_origin
  cw_pool :: bool
  cw_read_only :: bool
  cw_siblings :: "shard_row list"
  cw_ok :: "nat \<Rightarrow> bool"
  cw_calls :: nat

definition cw_tick :: "config_world \<Rightarrow> config_world" where
  "cw_tick w = w\<lparr>cw_calls := Suc (cw_calls w)\<rparr>"

definition cw_succeeds :: "config_world \<Rightarrow> bool" where
  "cw_succeeds w = cw_ok w (cw_calls w)"

text \<open>A read that fails is a row that is not there; a write that fails is logged.\<close>

definition config_get :: "config_world \<Rightarrow> json option \<times> config_world" where
  "config_get w = (if cw_succeeds w then cw_global w else None, cw_tick w)"

definition config_set :: "json \<Rightarrow> config_world \<Rightarrow> config_world" where
  "config_set v w = (if cw_succeeds w then (cw_tick w)\<lparr>cw_global := Some v\<rparr> else cw_tick w)"

definition squadron_config_get :: "string \<Rightarrow> config_world \<Rightarrow> json option \<times> config_world" where
  "squadron_config_get sid w = (if cw_succeeds w then hm_get (cw_rows w) sid else None, cw_tick w)"

definition squadron_config_set :: "string \<Rightarrow> json \<Rightarrow> config_world \<Rightarrow> config_world" where
  "squadron_config_set sid v w = (if cw_succeeds w then (cw_tick w)\<lparr>cw_rows := hm_insert sid v (cw_rows w)\<rparr> else cw_tick w)"

definition squadron_config_list :: "config_world \<Rightarrow> string list \<times> config_world" where
  "squadron_config_list w = (if cw_succeeds w then rev (map fst (cw_rows w)) else [], cw_tick w)"

definition record_config_change :: "string \<Rightarrow> string \<Rightarrow> json option \<Rightarrow> json \<Rightarrow> config_world \<Rightarrow> config_world" where
  "record_config_change who param old new w =
     (if cw_succeeds w
      then (cw_tick w)\<lparr>cw_history := cw_history w @ [\<lparr>cc_by = who, cc_param = param, cc_old = old, cc_new = new\<rparr>]\<rparr>
      else cw_tick w)"

section \<open>The global row\<close>

text \<open>The last of the newest rows, as the iterator's maximum is.\<close>

definition newest_row :: "shard_row list \<Rightarrow> shard_row option" where
  "newest_row rows =
     fold (\<lambda>r best. case best of None \<Rightarrow> Some r | Some b \<Rightarrow> if sr_updated_at b \<le> sr_updated_at r then Some r else Some b) rows None"

definition seed_from_siblings :: "config_build \<Rightarrow> shard_row list \<Rightarrow> (config \<times> string \<times> string list) option" where
  "seed_from_siblings bd rows =
     (case newest_row rows of
        None \<Rightarrow> None
      | Some r \<Rightarrow>
          (case read_config bd (sr_json r) of
             None \<Rightarrow> None
           | Some c \<Rightarrow> (let (c', kept) = keep_instance_level_defaults bd c in Some (c', sr_path r, kept))))"

definition save_as :: "config_build \<Rightarrow> string \<Rightarrow> config \<Rightarrow> config_world \<Rightarrow> config_world" where
  "save_as bd changed_by c w =
     (let w = (if changed_by \<noteq> ''startup_dynamic'' \<and> changed_by \<noteq> ''seeded_from_shard''
                 \<and> (case cw_origin w of Seeded _ _ \<Rightarrow> True | _ \<Rightarrow> False)
               then w\<lparr>cw_origin := Shard\<rparr> else w)
      in if \<not> cw_pool w then w
         else let (old, w) = config_get w; w = config_set (config_json bd c) w
              in record_config_change changed_by ''full_snapshot'' old (config_json bd c) w)"

definition load_inner :: "config_build \<Rightarrow> bool \<Rightarrow> config_world \<Rightarrow> config \<times> config_world" where
  "load_inner bd record_session w =
     (let defaults = (\<lambda>w. (cb_default bd, save_as bd ''startup_dynamic'' (cb_default bd) (w\<lparr>cw_origin := Defaults\<rparr>)))
      in if cw_read_only w then (cb_default bd, w)
         else if \<not> cw_pool w then defaults w
         else let (row, w) = config_get w in
           case row of
             Some v \<Rightarrow>
               (case read_config bd v of
                  None \<Rightarrow> defaults w
                | Some c \<Rightarrow>
                    (let c = fst (apply_build_caps bd c);
                         w = (if record_session
                              then record_config_change ''startup_dynamic'' ''session_start_snapshot'' None (config_json bd c) w
                              else w)
                     in (c, w\<lparr>cw_origin := Shard\<rparr>)))
           | None \<Rightarrow>
               (case seed_from_siblings bd (cw_siblings w) of
                  None \<Rightarrow> defaults w
                | Some (c, source, kept) \<Rightarrow>
                    (let c = fst (apply_build_caps bd c); w = save_as bd ''seeded_from_shard'' c w;
                         w = record_config_change ''seeded_from_shard'' ''seeded_from'' None (JString source) w
                     in (c, w\<lparr>cw_origin := Seeded source kept\<rparr>))))"

definition load_or_default :: "config_build \<Rightarrow> config_world \<Rightarrow> config \<times> config_world" where
  "load_or_default bd = load_inner bd False"

definition load_at_startup :: "config_build \<Rightarrow> config_world \<Rightarrow> config \<times> config_world" where
  "load_at_startup bd = load_inner bd True"

text \<open>The body of a patch is the JSON value it denotes, or none.\<close>

definition merged :: "config_build \<Rightarrow> config \<Rightarrow> json \<Rightarrow> config option" where
  "merged bd current patch =
     read_config bd (case patch of
       JObject p \<Rightarrow> JObject (merge_patch_into (config_fields bd current) p) | _ \<Rightarrow> config_json bd current)"

definition apply_patch_as ::
  "config_build \<Rightarrow> config \<Rightarrow> json option \<Rightarrow> string \<Rightarrow> config_world \<Rightarrow> (config_error + config) \<times> config_world" where
  "apply_patch_as bd current body actor w =
     (case body of
        None \<Rightarrow> (Inl Not_json, w)
      | Some patch \<Rightarrow>
          (case refuse_ceiling_violations bd patch of
             Inl e \<Rightarrow> (Inl e, w)
           | Inr _ \<Rightarrow>
               (case merged bd current patch of
                  None \<Rightarrow> (Inl Bad_value, w)
                | Some c \<Rightarrow> (Inr c, save_as bd actor c w))))"

section \<open>Squadron rows\<close>

definition global_now :: "config_build \<Rightarrow> config_world \<Rightarrow> config \<times> config_world" where
  "global_now bd w = (case cw_tx w of Some g \<Rightarrow> (g, w) | None \<Rightarrow> load_or_default bd w)"

definition load_for_squadron :: "config_build \<Rightarrow> string \<Rightarrow> config_world \<Rightarrow> config \<times> config_world" where
  "load_for_squadron bd sid w =
     (if cw_read_only w \<or> \<not> cw_pool w then (cb_default bd, w)
      else let (row, w) = squadron_config_get sid w in
        case Option.bind row (read_config bd) of
          None \<Rightarrow> (cb_default bd, w)
        | Some c \<Rightarrow>
            (let (g, w) = global_now bd w in (fst (reconcile_global_semantics (fst (apply_build_caps bd c)) g), w)))"

definition save_for_squadron :: "config_build \<Rightarrow> string \<Rightarrow> config \<Rightarrow> config_world \<Rightarrow> config_world" where
  "save_for_squadron bd sid c w = (if cw_pool w then squadron_config_set sid (config_json bd c) w else w)"

definition init_for_squadron :: "config_build \<Rightarrow> string \<Rightarrow> config_world \<Rightarrow> config \<times> config_world" where
  "init_for_squadron bd sid w = (let (c, w) = load_or_default bd w in (c, save_for_squadron bd sid c w))"

definition load_or_init_for_squadron :: "config_build \<Rightarrow> string \<Rightarrow> config_world \<Rightarrow> config \<times> config_world" where
  "load_or_init_for_squadron bd sid w =
     (if cw_read_only w then load_for_squadron bd sid w
      else if \<not> cw_pool w then init_for_squadron bd sid w
      else let (row, w) = squadron_config_get sid w in
        if row \<noteq> None then load_for_squadron bd sid w else init_for_squadron bd sid w)"

definition push_live :: "string \<Rightarrow> config \<Rightarrow> config_world \<Rightarrow> config_world" where
  "push_live sid c w = (if hm_contains sid (cw_live w) then w\<lparr>cw_live := hm_insert sid c (cw_live w)\<rparr> else w)"

definition record_squadron_change :: "config_build \<Rightarrow> string \<Rightarrow> string \<Rightarrow> config \<Rightarrow> config_world \<Rightarrow> config_world" where
  "record_squadron_change bd sid actor c w =
     (if cw_pool w
      then let (old, w) = squadron_config_get sid w
           in record_config_change actor (''squadron:'' @ sid) old (config_json bd c) w
      else w)"

definition apply_squadron_patch_as ::
  "config_build \<Rightarrow> string \<Rightarrow> json option \<Rightarrow> string \<Rightarrow> config_world \<Rightarrow> (config_error + config) \<times> config_world" where
  "apply_squadron_patch_as bd sid body actor w =
     (let (current, w) = load_for_squadron bd sid w in
      case body of
        None \<Rightarrow> (Inl Not_json, w)
      | Some patch \<Rightarrow>
          (case refuse_ceiling_violations bd patch of
             Inl e \<Rightarrow> (Inl e, w)
           | Inr _ \<Rightarrow>
               (case merged bd current patch of
                  None \<Rightarrow> (Inl Bad_value, w)
                | Some c \<Rightarrow>
                    (let (g, w) = global_now bd w; c = fst (reconcile_global_semantics c g);
                         w = record_squadron_change bd sid actor c w; w = save_for_squadron bd sid c w
                     in (Inr c, push_live sid c w)))))"

definition register_squadron_config_handle :: "string \<Rightarrow> config \<Rightarrow> config_world \<Rightarrow> config_world" where
  "register_squadron_config_handle sid c w = w\<lparr>cw_live := hm_insert sid c (cw_live w)\<rparr>"

definition squadron_config_snapshot :: "string \<Rightarrow> config_world \<Rightarrow> config option" where
  "squadron_config_snapshot sid w = hm_get (cw_live w) sid"

definition registered_squadron_ids :: "config_world \<Rightarrow> string list" where
  "registered_squadron_ids w = sort (map fst (cw_live w))"

definition ghosting_now :: "bool \<Rightarrow> config_world \<Rightarrow> bool" where
  "ghosting_now build_ghost w \<longleftrightarrow> build_ghost \<or> (case cw_tx w of None \<Rightarrow> False | Some g \<Rightarrow> cf_ghost_mode g)"

text \<open>A deployment of \<open>cag/run.rs\<close>: the squadron's settings are loaded, or seeded, and its handle registered.\<close>

definition deploy_squadron :: "config_build \<Rightarrow> string \<Rightarrow> config_world \<Rightarrow> config_world" where
  "deploy_squadron bd sid w =
     (let (c, w) = load_or_init_for_squadron bd sid w in register_squadron_config_handle sid c w)"

section \<open>Requests\<close>

datatype patch_scope = Global_only | Global_and_deployed

definition config_write_targets :: "config_world \<Rightarrow> string list \<times> config_world" where
  "config_write_targets w =
     (let ids = registered_squadron_ids w in
      if cw_pool w
      then let (rows, w) = squadron_config_list w
           in (fold (\<lambda>sid ids. if sid \<in> set ids then ids else ids @ [sid]) rows ids, w)
      else (ids, w))"

fun fan_out :: "config_build \<Rightarrow> json option \<Rightarrow> string \<Rightarrow> string list \<Rightarrow> config_world \<Rightarrow> config_world" where
  "fan_out bd body actor [] w = w"
| "fan_out bd body actor (sid # sids) w = fan_out bd body actor sids (snd (apply_squadron_patch_as bd sid body actor w))"

text \<open>\<open>current\<close> is the broadcast value the request read before it began.\<close>

definition patch_config ::
  "config_build \<Rightarrow> patch_scope \<Rightarrow> config \<Rightarrow> json option \<Rightarrow> string \<Rightarrow> config_world \<Rightarrow> (config_error + config) \<times> config_world" where
  "patch_config bd scope current body actor w =
     (case apply_patch_as bd current body actor w of
        (Inl e, w) \<Rightarrow> (Inl e, w)
      | (Inr c, w) \<Rightarrow>
          (let w = w\<lparr>cw_tx := Some c\<rparr> in
           (Inr c, if scope = Global_and_deployed
                   then let (ids, w) = config_write_targets w in fan_out bd body actor ids w
                   else w)))"

definition patch_squadron_config ::
  "config_build \<Rightarrow> string \<Rightarrow> json option \<Rightarrow> config_world \<Rightarrow> (config_error + config) \<times> config_world" where
  "patch_squadron_config bd sid body w = apply_squadron_patch_as bd sid body ''operator'' w"

section \<open>Switches\<close>

definition switch_key :: "string \<Rightarrow> string option" where
  "switch_key kind = map_of
     [(''arbitrage'', ''enable_arbitrage''), (''maker'', ''enable_maker''), (''momentum'', ''enable_momentum''),
      (''time_decay'', ''enable_time_decay''), (''basis'', ''enable_basis''), (''gboost'', ''enable_gboost''),
      (''convergence'', ''enable_convergence''), (''fairvalue'', ''enable_fairvalue''),
      (''trendcapture'', ''enable_trendcapture''), (''bookline'', ''bookline_enabled''), (''anchor'', ''anchor_enabled'')] kind"

definition knob_on :: "config \<Rightarrow> string \<Rightarrow> bool" where
  "knob_on c key \<longleftrightarrow> map_of (cf_knobs c) key = Some (JBool True)"

definition script_on :: "config \<Rightarrow> string \<Rightarrow> bool" where
  "script_on c name \<longleftrightarrow> (case map_of (cf_custom_vipers c) name of None \<Rightarrow> True | Some v \<Rightarrow> cv_enabled v)"

definition viper_enabled :: "config \<Rightarrow> string \<Rightarrow> bool option" where
  "viper_enabled c kind =
     (case switch_key kind of
        Some key \<Rightarrow> Some (knob_on c key)
      | None \<Rightarrow>
          if kind = ''helm'' then Some (cf_helm_enabled c)
          else if take (length kind_prefix) kind = kind_prefix then Some (script_on c (drop (length kind_prefix) kind))
          else None)"

definition strategy_enabled :: "config \<Rightarrow> string \<Rightarrow> bool" where
  "strategy_enabled c name =
     (let kind = strategy_name_to_kind name in
      case switch_key kind of
        Some key \<Rightarrow> knob_on c key
      | None \<Rightarrow>
          if kind = ''helm'' then cf_helm_enabled c
          else if take (length kind_prefix) kind = kind_prefix then script_on c (drop (length kind_prefix) kind)
          else True)"

end
