(* ===== verification/Config_Properties.thy ===== *)
theory Config_Properties
  imports Config_Store
begin

text \<open>
  What a change of the settings does: what is stored reads back; a patch sets what it names and nothing else; no
  value passes a ceiling of the build; the fields of the instance are the same everywhere, and what a running
  squadron uses is what a restart would load, over every run without a failed statement; and what is lost when
  a statement fails or two requests overlap.
\<close>

section \<open>Stored settings read back\<close>

definition named_keys :: "string list" where
  "named_keys =
     [''ghost_mode'', ''book_apply_price_changes'', ''helm_enabled'', ''helm_live_enabled'', ''helm_max_open_intents'',
      ''time_decay_max_entry_price'', ''time_decay_stop_loss_pct'', ''momentum_stop_loss_pct'', ''custom_vipers'']"

definition knobs_ok :: "config_build \<Rightarrow> config \<Rightarrow> bool" where
  "knobs_ok bd c \<longleftrightarrow> map fst (cf_knobs c) = map fst (cb_knobs bd) \<and> (\<forall>(k, v) \<in> set (cf_knobs c). cb_fits bd k v)"

definition within_ceilings :: "config_build \<Rightarrow> config \<Rightarrow> bool" where
  "within_ceilings bd c \<longleftrightarrow> cf_td_max_entry_price c \<le> cb_td_entry_ceiling bd
     \<and> cf_td_stop_loss_pct c \<le> cb_td_stop_ceiling bd \<and> cf_momentum_stop_loss_pct c \<le> cb_momentum_stop_ceiling bd"

text \<open>The decimal crate and the number format read what they print; the keys of the type are distinct; a default
  fits its knob; and the compiled settings are complete and under the ceilings.\<close>

definition build_ok :: "config_build \<Rightarrow> bool" where
  "build_ok bd \<longleftrightarrow> (\<forall>d. cb_parse bd (cb_show bd d) = Some d) \<and> (\<forall>n. cb_parse_nat bd (cb_show_nat bd n) = Some n)
     \<and> distinct (named_keys @ map fst (cb_knobs bd)) \<and> (\<forall>(k, d) \<in> set (cb_knobs bd). \<forall>v. d = Some v \<longrightarrow> cb_fits bd k v)
     \<and> knobs_ok bd (cb_default bd) \<and> within_ceilings bd (cb_default bd)"

lemma build_okD:
  assumes "build_ok bd"
  shows "cb_parse bd (cb_show bd d) = Some d" "cb_parse_nat bd (cb_show_nat bd n) = Some n"
    "distinct (map fst (cb_knobs bd))" "k \<in> set named_keys \<Longrightarrow> k \<notin> fst ` set (cb_knobs bd)"
    "knobs_ok bd (cb_default bd)" "within_ceilings bd (cb_default bd)"
  using assms by (auto simp: build_ok_def)

lemma read_decimal_json [simp]: "build_ok bd \<Longrightarrow> read_decimal bd (decimal_json bd d) = Some d"
  by (simp add: read_decimal_def decimal_json_def build_okD)

lemma read_viper_json [simp]: "build_ok bd \<Longrightarrow> read_viper bd (viper_json bd c) = Some c"
  by (cases "cv_max_exposure c")
    (simp_all add: read_viper_def viper_json_def field_or_def read_bool_def read_cap_def read_object_def
      decimal_json_def read_decimal_def build_okD(1))

lemma read_vipers_json [simp]:
  "build_ok bd \<Longrightarrow> read_vipers bd (JObject (map (\<lambda>(n, v). (n, viper_json bd v)) vs)) = Some vs"
  by (simp add: read_vipers_def) (induction vs; auto)

lemma read_knobs_back:
  assumes "map fst kn = map fst ks" and "\<forall>(k, v) \<in> set kn. map_of m k = Some v \<and> cb_fits bd k v"
  shows "read_knobs bd m ks = Some kn"
  using assms
proof (induction ks arbitrary: kn)
  case (Cons kd ks)
  then obtain k v kn' where "kn = (k, v) # kn'" by (cases kn) auto
  with Cons show ?case by (cases kd) simp
qed simp

lemma read_knobs_cong:
  "(\<And>k. k \<in> fst ` set ks \<Longrightarrow> map_of m k = map_of m' k) \<Longrightarrow> read_knobs bd m ks = read_knobs bd m' ks"
  by (induction ks) auto

lemma named_keyI [simp]:
  "''ghost_mode'' \<in> set named_keys" "''book_apply_price_changes'' \<in> set named_keys" "''helm_enabled'' \<in> set named_keys"
  "''helm_live_enabled'' \<in> set named_keys" "''helm_max_open_intents'' \<in> set named_keys"
  "''time_decay_max_entry_price'' \<in> set named_keys" "''time_decay_stop_loss_pct'' \<in> set named_keys"
  "''momentum_stop_loss_pct'' \<in> set named_keys" "''custom_vipers'' \<in> set named_keys"
  by (simp_all add: named_keys_def)

lemma knob_field:
  assumes "build_ok bd" and "knobs_ok bd c" and "k \<in> fst ` set (cb_knobs bd)"
  shows "map_of (config_fields bd c) k = map_of (cf_knobs c) k"
proof -
  have "k \<notin> set named_keys" using build_okD(4) [OF assms(1)] assms(3) by blast
  then show ?thesis by (simp add: config_fields_def named_keys_def)
qed

lemma named_fields:
  "map_of (config_fields bd c) ''ghost_mode'' = Some (JBool (cf_ghost_mode c))"
  "map_of (config_fields bd c) ''book_apply_price_changes'' = Some (JBool (cf_book_price_changes c))"
  "map_of (config_fields bd c) ''helm_enabled'' = Some (JBool (cf_helm_enabled c))"
  "map_of (config_fields bd c) ''helm_live_enabled'' = Some (JBool (cf_helm_live_enabled c))"
  "map_of (config_fields bd c) ''helm_max_open_intents'' = Some (JNumber (cb_show_nat bd (cf_max_open_intents c)))"
  "map_of (config_fields bd c) ''time_decay_max_entry_price'' = Some (decimal_json bd (cf_td_max_entry_price c))"
  "map_of (config_fields bd c) ''time_decay_stop_loss_pct'' = Some (decimal_json bd (cf_td_stop_loss_pct c))"
  "map_of (config_fields bd c) ''momentum_stop_loss_pct'' = Some (decimal_json bd (cf_momentum_stop_loss_pct c))"
  "map_of (config_fields bd c) ''custom_vipers''
     = Some (JObject (map (\<lambda>(n, v). (n, viper_json bd v)) (cf_custom_vipers c)))"
  by (simp_all add: config_fields_def)

text \<open>The fields a reader finds in an object, whatever else the object holds.\<close>

lemma read_config_fields:
  "read_config bd (JObject m) = Some c \<longleftrightarrow>
     field_or m ''ghost_mode'' (cf_ghost_mode (cb_default bd)) read_bool = Some (cf_ghost_mode c)
     \<and> field_or m ''book_apply_price_changes'' (cf_book_price_changes (cb_default bd)) read_bool = Some (cf_book_price_changes c)
     \<and> field_or m ''helm_enabled'' (cf_helm_enabled (cb_default bd)) read_bool = Some (cf_helm_enabled c)
     \<and> field_or m ''helm_live_enabled'' (cf_helm_live_enabled (cb_default bd)) read_bool = Some (cf_helm_live_enabled c)
     \<and> field_or m ''helm_max_open_intents'' (cf_max_open_intents (cb_default bd)) (read_count bd) = Some (cf_max_open_intents c)
     \<and> field_of m ''time_decay_max_entry_price'' (read_decimal bd) = Some (cf_td_max_entry_price c)
     \<and> field_of m ''time_decay_stop_loss_pct'' (read_decimal bd) = Some (cf_td_stop_loss_pct c)
     \<and> field_of m ''momentum_stop_loss_pct'' (read_decimal bd) = Some (cf_momentum_stop_loss_pct c)
     \<and> field_or m ''custom_vipers'' [] (read_vipers bd) = Some (cf_custom_vipers c)
     \<and> read_knobs bd m (cb_knobs bd) = Some (cf_knobs c)"
  unfolding read_config_def Let_def json.case by (cases c) (simp split: option.splits)

lemma read_config_json:
  assumes "build_ok bd" and "knobs_ok bd c"
  shows "read_config bd (config_json bd c) = Some c"
proof -
  have "map_of (config_fields bd c) k = Some v \<and> cb_fits bd k v" if "(k, v) \<in> set (cf_knobs c)" for k v
  proof -
    have keys: "map fst (cf_knobs c) = map fst (cb_knobs bd)" using assms(2) by (simp add: knobs_ok_def)
    have "k \<in> set (map fst (cb_knobs bd))" using that keys by (metis in_set_zipE zip_map_fst_snd)
    then have "map_of (config_fields bd c) k = map_of (cf_knobs c) k" using knob_field [OF assms] by simp
    moreover have "distinct (map fst (cf_knobs c))" using build_okD(3) [OF assms(1)] keys by simp
    ultimately show ?thesis using that assms(2) by (auto simp: knobs_ok_def)
  qed
  then have "read_knobs bd (config_fields bd c) (cb_knobs bd) = Some (cf_knobs c)"
    using assms(2) by (intro read_knobs_back) (auto simp: knobs_ok_def)
  then show ?thesis
    using assms(1) unfolding config_json_def read_config_fields
    by (simp add: field_or_def field_of_def named_fields read_bool_def read_count_def build_okD(2))
qed

text \<open>What is stored reads back, every field of it: a write followed by a read is the settings written.\<close>

theorem settings_read_back:
  assumes "build_ok bd" and "knobs_ok bd c" and "cw_succeeds w" and "cw_ok w (Suc (cw_calls w))"
  shows "Option.bind (fst (squadron_config_get sid (squadron_config_set sid (config_json bd c) w))) (read_config bd) = Some c"
  using assms read_config_json [OF assms(1,2)]
  by (simp add: squadron_config_get_def squadron_config_set_def cw_succeeds_def cw_tick_def)

section \<open>What a patch sets\<close>

lemma merge_field_other: "k \<noteq> fst kv \<Longrightarrow> map_of (merge_field kv obj) k = map_of obj k"
  by (cases kv) (auto simp: merge_field_def split: option.splits json.splits)

lemma merge_field_same: "k \<noteq> ''custom_vipers'' \<Longrightarrow> map_of (merge_field (k, v) obj) k = Some v"
  by (simp add: merge_field_def)

lemma merge_patch_other: "k \<notin> fst ` set p \<Longrightarrow> map_of (merge_patch_into obj p) k = map_of obj k"
  by (induction p arbitrary: obj) (simp_all add: merge_patch_into_def merge_field_other)

lemma merge_patch_get:
  assumes "k \<noteq> ''custom_vipers''"
  shows "map_of (merge_patch_into obj p) k = (case map_of (rev p) k of None \<Rightarrow> map_of obj k | Some v \<Rightarrow> Some v)"
proof (induction p arbitrary: obj)
  case (Cons kv p)
  obtain k' v where kv: "kv = (k', v)" by fastforce
  have "map_of (merge_patch_into obj (kv # p)) k = map_of (merge_patch_into (merge_field kv obj) p) k"
    by (simp add: merge_patch_into_def)
  also have "\<dots> = (case map_of (rev p) k of None \<Rightarrow> map_of (merge_field kv obj) k | Some v \<Rightarrow> Some v)" by (rule Cons.IH)
  also have "map_of (merge_field kv obj) k = (if k = k' then Some v else map_of obj k)"
    using assms merge_field_other [of k kv obj] merge_field_same [of k v obj] by (auto simp: kv)
  finally show ?case by (auto simp: kv map_add_def split: option.splits)
qed (simp add: merge_patch_into_def)

text \<open>The value a patch leaves a key at: the last it gives, or the one there was.\<close>

definition patched :: "(string \<times> json) list \<Rightarrow> string \<Rightarrow> json option \<Rightarrow> json option" where
  "patched p k old = (case map_of (rev p) k of None \<Rightarrow> old | Some v \<Rightarrow> Some v)"

lemma read_knobs_ConsD:
  assumes "read_knobs bd m ((k, d) # ks) = Some kn"
  obtains v rest where "kn = (k, v) # rest" and "read_knobs bd m ks = Some rest"
    and "(case map_of m k of None \<Rightarrow> d | Some v \<Rightarrow> if cb_fits bd k v then Some v else None) = Some v"
  using assms by (auto split: option.splits)

lemma read_knobs_keys: "read_knobs bd m ks = Some kn \<Longrightarrow> map fst kn = map fst ks"
proof (induction ks arbitrary: kn)
  case (Cons kd ks)
  obtain k d where kd: "kd = (k, d)" by fastforce
  obtain v rest where "kn = (k, v) # rest" "read_knobs bd m ks = Some rest"
    using Cons.prems unfolding kd by (rule read_knobs_ConsD)
  with Cons.IH show ?case by (simp add: kd)
qed simp

lemma read_knobs_get:
  assumes "read_knobs bd m ks = Some kn" and "distinct (map fst ks)" and "k \<in> fst ` set ks"
  shows "map_of kn k = (case map_of m k of None \<Rightarrow> the (map_of ks k) | Some v \<Rightarrow> Some v)"
  using assms
proof (induction ks arbitrary: kn)
  case (Cons kd ks)
  obtain k' d where kd: "kd = (k', d)" by fastforce
  obtain v rest where v: "kn = (k', v) # rest" "read_knobs bd m ks = Some rest"
    "(case map_of m k' of None \<Rightarrow> d | Some v \<Rightarrow> if cb_fits bd k' v then Some v else None) = Some v"
    using Cons.prems(1) unfolding kd by (rule read_knobs_ConsD)
  show ?case
  proof (cases "k = k'")
    case True
    then show ?thesis using v(1,3) by (auto simp: kd split: option.splits if_splits)
  next
    case False
    then have k: "k \<in> fst ` set ks" using Cons.prems(3) by (auto simp: kd)
    have "distinct (map fst ks)" using Cons.prems(2) by (simp add: kd)
    from Cons.IH [OF v(2) this k] False show ?thesis by (simp add: v(1) kd split: option.splits)
  qed
qed simp

lemma read_knobs_fit:
  assumes "read_knobs bd m ks = Some kn" and "(k, v) \<in> set kn" and "\<And>d. (k, Some d) \<in> set ks \<Longrightarrow> cb_fits bd k d"
  shows "cb_fits bd k v"
  using assms
proof (induction ks arbitrary: kn)
  case (Cons kd ks)
  obtain k' d where kd: "kd = (k', d)" by fastforce
  obtain v' rest where v: "kn = (k', v') # rest" "read_knobs bd m ks = Some rest"
    "(case map_of m k' of None \<Rightarrow> d | Some v \<Rightarrow> if cb_fits bd k' v then Some v else None) = Some v'"
    using Cons.prems(1) unfolding kd by (rule read_knobs_ConsD)
  show ?case
  proof (cases "(k, v) \<in> set rest")
    case True
    then show ?thesis using Cons.IH [OF v(2)] Cons.prems(3) by (simp add: kd)
  next
    case False
    then have "k = k'" "v = v'" using Cons.prems(2) by (simp_all add: v(1))
    then show ?thesis using v(3) Cons.prems(3) by (auto simp: kd split: option.splits if_splits)
  qed
qed simp

lemma knob_not_named: "build_ok bd \<Longrightarrow> k \<in> fst ` set (cb_knobs bd) \<Longrightarrow> k \<noteq> ''custom_vipers''"
  using build_okD(4) [of bd "''custom_vipers''"] by (metis named_keyI(9))

lemma read_config_ok:
  assumes "build_ok bd" and "read_config bd v = Some c"
  shows "knobs_ok bd c"
proof -
  obtain m where "v = JObject m" using assms(2) by (cases v) (auto simp: read_config_def)
  with assms(2) have kn: "read_knobs bd m (cb_knobs bd) = Some (cf_knobs c)" by (simp add: read_config_fields)
  have "cb_fits bd k v" if "(k, v) \<in> set (cf_knobs c)" for k v
    by (rule read_knobs_fit [OF kn that]) (use assms(1) in \<open>auto simp: build_ok_def\<close>)
  with read_knobs_keys [OF kn] show ?thesis by (auto simp: knobs_ok_def)
qed

lemma merged_ok: "build_ok bd \<Longrightarrow> merged bd current patch = Some c \<Longrightarrow> knobs_ok bd c"
  unfolding merged_def by (rule read_config_ok)

lemma merged_knob:
  assumes "build_ok bd" and "knobs_ok bd current" and "merged bd current (JObject p) = Some c"
    and "k \<in> fst ` set (cb_knobs bd)"
  shows "map_of (cf_knobs c) k = patched p k (map_of (cf_knobs current) k)"
proof -
  note nk = knob_not_named [OF assms(1,4)]
  have "read_knobs bd (merge_patch_into (config_fields bd current) p) (cb_knobs bd) = Some (cf_knobs c)"
    using assms(3) by (simp add: merged_def read_config_fields)
  from read_knobs_get [OF this build_okD(3) [OF assms(1)] assms(4)]
  have eq: "map_of (cf_knobs c) k = (case patched p k (map_of (cf_knobs current) k) of
      None \<Rightarrow> the (map_of (cb_knobs bd) k) | Some v \<Rightarrow> Some v)"
    by (simp add: merge_patch_get [OF nk] knob_field [OF assms(1,2,4)] patched_def split: option.splits)
  have "fst ` set (cf_knobs current) = fst ` set (cb_knobs bd)"
    using assms(2) by (metis knobs_ok_def list.set_map)
  then have "map_of (cf_knobs current) k \<noteq> None" using assms(4) by (simp add: map_of_eq_None_iff)
  with eq show ?thesis by (auto simp: patched_def split: option.splits)
qed

lemma merged_id: "build_ok bd \<Longrightarrow> knobs_ok bd current \<Longrightarrow> (\<forall>p. patch \<noteq> JObject p) \<Longrightarrow> merged bd current patch = Some current"
  by (cases patch) (simp_all add: merged_def read_config_json)

text \<open>What a patch may hold, apart from the scripts' settings.\<close>

definition patch_fits :: "config_build \<Rightarrow> (string \<times> json) list \<Rightarrow> bool" where
  "patch_fits bd p \<longleftrightarrow>
     (\<forall>k \<in> {''ghost_mode'', ''book_apply_price_changes'', ''helm_enabled'', ''helm_live_enabled''}.
        \<forall>v. map_of (rev p) k = Some v \<longrightarrow> read_bool v \<noteq> None)
     \<and> (\<forall>v. map_of (rev p) ''helm_max_open_intents'' = Some v \<longrightarrow> read_count bd v \<noteq> None)
     \<and> (\<forall>k \<in> {''time_decay_max_entry_price'', ''time_decay_stop_loss_pct'', ''momentum_stop_loss_pct''}.
        \<forall>v. map_of (rev p) k = Some v \<longrightarrow> read_decimal bd v \<noteq> None)
     \<and> (\<forall>k \<in> fst ` set (cb_knobs bd). \<forall>v. map_of (rev p) k = Some v \<longrightarrow> cb_fits bd k v)"

lemma read_knobs_some:
  "read_knobs bd m ks \<noteq> None \<longleftrightarrow>
     (\<forall>(k, d) \<in> set ks. case map_of m k of None \<Rightarrow> d \<noteq> None | Some v \<Rightarrow> cb_fits bd k v)"
proof (induction ks)
  case (Cons kd ks)
  obtain k d where "kd = (k, d)" by fastforce
  with Cons show ?case by (cases "map_of m k"; cases d; cases "read_knobs bd m ks") auto
qed simp

lemma knob_here:
  assumes "knobs_ok bd c" and "k \<in> fst ` set (cb_knobs bd)"
  obtains v where "map_of (cf_knobs c) k = Some v" and "cb_fits bd k v"
proof -
  have "fst ` set (cf_knobs c) = fst ` set (cb_knobs bd)" using assms(1) by (metis knobs_ok_def list.set_map)
  with assms(2) obtain v where "map_of (cf_knobs c) k = Some v" by (metis map_of_eq_None_iff not_None_eq)
  moreover from map_of_SomeD [OF this] assms(1) have "cb_fits bd k v" by (auto simp: knobs_ok_def)
  ultimately show thesis by (rule that)
qed

lemma read_config_some:
  "read_config bd (JObject m) \<noteq> None \<longleftrightarrow>
     field_or m ''ghost_mode'' (cf_ghost_mode (cb_default bd)) read_bool \<noteq> None
     \<and> field_or m ''book_apply_price_changes'' (cf_book_price_changes (cb_default bd)) read_bool \<noteq> None
     \<and> field_or m ''helm_enabled'' (cf_helm_enabled (cb_default bd)) read_bool \<noteq> None
     \<and> field_or m ''helm_live_enabled'' (cf_helm_live_enabled (cb_default bd)) read_bool \<noteq> None
     \<and> field_or m ''helm_max_open_intents'' (cf_max_open_intents (cb_default bd)) (read_count bd) \<noteq> None
     \<and> field_of m ''time_decay_max_entry_price'' (read_decimal bd) \<noteq> None
     \<and> field_of m ''time_decay_stop_loss_pct'' (read_decimal bd) \<noteq> None
     \<and> field_of m ''momentum_stop_loss_pct'' (read_decimal bd) \<noteq> None
     \<and> field_or m ''custom_vipers'' [] (read_vipers bd) \<noteq> None
     \<and> read_knobs bd m (cb_knobs bd) \<noteq> None" (is "?l \<longleftrightarrow> ?r")
proof
  assume ?l
  then obtain c where "read_config bd (JObject m) = Some c" by blast
  then show ?r unfolding read_config_fields by simp
next
  assume ?r
  then obtain a b c d e f g h i j where
    "field_or m ''ghost_mode'' (cf_ghost_mode (cb_default bd)) read_bool = Some a"
    "field_or m ''book_apply_price_changes'' (cf_book_price_changes (cb_default bd)) read_bool = Some b"
    "field_or m ''helm_enabled'' (cf_helm_enabled (cb_default bd)) read_bool = Some c"
    "field_or m ''helm_live_enabled'' (cf_helm_live_enabled (cb_default bd)) read_bool = Some d"
    "field_or m ''helm_max_open_intents'' (cf_max_open_intents (cb_default bd)) (read_count bd) = Some e"
    "field_of m ''time_decay_max_entry_price'' (read_decimal bd) = Some f"
    "field_of m ''time_decay_stop_loss_pct'' (read_decimal bd) = Some g"
    "field_of m ''momentum_stop_loss_pct'' (read_decimal bd) = Some h"
    "field_or m ''custom_vipers'' [] (read_vipers bd) = Some i" "read_knobs bd m (cb_knobs bd) = Some j"
    by blast
  then have "read_config bd (JObject m) = Some \<lparr>cf_ghost_mode = a, cf_book_price_changes = b, cf_helm_enabled = c,
      cf_helm_live_enabled = d, cf_max_open_intents = e, cf_td_max_entry_price = f, cf_td_stop_loss_pct = g,
      cf_momentum_stop_loss_pct = h, cf_custom_vipers = i, cf_knobs = j\<rparr>"
    unfolding read_config_fields by simp
  then show ?l by simp
qed

text \<open>A patch that leaves the scripts alone is readable on any settings, or on none.\<close>

lemma merged_iff:
  assumes "build_ok bd" and "knobs_ok bd current" and "''custom_vipers'' \<notin> fst ` set p"
  shows "merged bd current (JObject p) \<noteq> None \<longleftrightarrow> patch_fits bd p"
    and "merged bd current (JObject p) = Some c \<Longrightarrow> cf_custom_vipers c = cf_custom_vipers current"
proof -
  let ?m = "merge_patch_into (config_fields bd current) p"
  have vip: "field_or ?m ''custom_vipers'' [] (read_vipers bd) = Some (cf_custom_vipers current)"
    using assms(1) merge_patch_other [OF assms(3)] by (simp add: field_or_def named_fields)
  then have v1: "field_or ?m ''custom_vipers'' [] (read_vipers bd) \<noteq> None \<longleftrightarrow> True" by simp
  have get: "map_of ?m k = (case map_of (rev p) k of None \<Rightarrow> map_of (config_fields bd current) k | Some v \<Rightarrow> Some v)"
    if "k \<noteq> ''custom_vipers''" for k using merge_patch_get [OF that] .
  have bools: "field_or ?m k d read_bool \<noteq> None \<longleftrightarrow> (\<forall>v. map_of (rev p) k = Some v \<longrightarrow> read_bool v \<noteq> None)"
    if "k \<in> {''ghost_mode'', ''book_apply_price_changes'', ''helm_enabled'', ''helm_live_enabled''}" for k d
    using that by (auto simp: field_or_def get named_fields read_bool_def split: option.splits)
  have count: "field_or ?m ''helm_max_open_intents'' d (read_count bd) \<noteq> None
      \<longleftrightarrow> (\<forall>v. map_of (rev p) ''helm_max_open_intents'' = Some v \<longrightarrow> read_count bd v \<noteq> None)" for d
    using build_okD(2) [OF assms(1)] by (auto simp: field_or_def get named_fields read_count_def split: option.splits)
  have decs: "field_of ?m k (read_decimal bd) \<noteq> None \<longleftrightarrow> (\<forall>v. map_of (rev p) k = Some v \<longrightarrow> read_decimal bd v \<noteq> None)"
    if "k \<in> {''time_decay_max_entry_price'', ''time_decay_stop_loss_pct'', ''momentum_stop_loss_pct''}" for k
    using that assms(1) by (auto simp: field_of_def get named_fields split: option.splits)
  have knob: "(case map_of ?m k of None \<Rightarrow> d \<noteq> None | Some v \<Rightarrow> cb_fits bd k v)
      \<longleftrightarrow> (\<forall>v. map_of (rev p) k = Some v \<longrightarrow> cb_fits bd k v)" if "(k, d) \<in> set (cb_knobs bd)" for k d
  proof -
    have k: "k \<in> fst ` set (cb_knobs bd)" using that by force
    obtain v where "map_of (config_fields bd current) k = Some v" "cb_fits bd k v"
      using knob_here [OF assms(2) k] knob_field [OF assms(1,2) k] by metis
    then show ?thesis by (simp add: get [OF knob_not_named [OF assms(1) k]] split: option.split)
  qed
  have knobs: "read_knobs bd ?m (cb_knobs bd) \<noteq> None
      \<longleftrightarrow> (\<forall>k \<in> fst ` set (cb_knobs bd). \<forall>v. map_of (rev p) k = Some v \<longrightarrow> cb_fits bd k v)"
    using knob unfolding read_knobs_some by fastforce
  show "merged bd current (JObject p) \<noteq> None \<longleftrightarrow> patch_fits bd p"
    unfolding merged_def json.case read_config_some knobs patch_fits_def count v1
      bools [OF insertI1] bools [OF insertI2 [OF insertI1]] bools [OF insertI2 [OF insertI2 [OF insertI1]]]
      bools [OF insertI2 [OF insertI2 [OF insertI2 [OF insertI1]]]]
      decs [OF insertI1] decs [OF insertI2 [OF insertI1]] decs [OF insertI2 [OF insertI2 [OF insertI1]]]
      ball_simps(5,7) simp_thms conj_assoc ..
  show "merged bd current (JObject p) = Some c \<Longrightarrow> cf_custom_vipers c = cf_custom_vipers current"
    using vip by (simp add: merged_def read_config_fields)
qed

section \<open>Ceilings\<close>

lemma within_caps [simp]: "within_ceilings bd (fst (apply_build_caps bd c))"
  by (auto simp: within_ceilings_def apply_build_caps_def clamp_one_def split_beta Let_def)

lemma caps_id [simp]: "within_ceilings bd c \<Longrightarrow> fst (apply_build_caps bd c) = c"
  by (auto simp: within_ceilings_def apply_build_caps_def clamp_one_def split_beta Let_def not_less)

lemma knobs_ok_caps [simp]: "knobs_ok bd (fst (apply_build_caps bd c)) = knobs_ok bd c"
  by (simp add: knobs_ok_def apply_build_caps_def split_beta Let_def)

lemma custom_caps [simp]: "cf_custom_vipers (fst (apply_build_caps bd c)) = cf_custom_vipers c"
  by (simp add: apply_build_caps_def split_beta Let_def)

lemma capped_key [simp]:
  "build_cap_for bd ''time_decay_max_entry_price'' = Some (cb_td_entry_ceiling bd)"
  "build_cap_for bd ''time_decay_stop_loss_pct'' = Some (cb_td_stop_ceiling bd)"
  "build_cap_for bd ''momentum_stop_loss_pct'' = Some (cb_momentum_stop_ceiling bd)"
  by (simp_all add: build_cap_for_def)

lemma not_refusedD:
  assumes "refuse_ceiling_violations bd (JObject p) = Inr u" and "key \<in> set build_capped_keys"
    and "map_of p key = Some v" and "configured_value bd v = Some d" and "build_cap_for bd key = Some cap"
  shows "d \<le> cap"
proof (rule ccontr)
  assume "\<not> d \<le> cap"
  then have "\<lparr>cl_key = key, cl_configured = d, cl_ceiling = cap\<rparr> \<in> set (ceiling_violations bd (JObject p))"
    using assms(2-5) by (force simp: ceiling_violations_def set_map_filter)
  with assms(1) show False by (auto simp: refuse_ceiling_violations_def split: list.splits)
qed

text \<open>The keys of a parsed object are distinct; and where it sets a capped field by a number, the decoder and the test
  of the ceilings read the same in it.\<close>

definition plain_number :: "config_build \<Rightarrow> json \<Rightarrow> bool" where
  "plain_number bd v = (case v of JNumber n \<Rightarrow> cb_number bd n = cb_parse bd n | _ \<Rightarrow> True)"

lemma configured_plain: "plain_number bd v \<Longrightarrow> configured_value bd v = read_decimal bd v"
  by (cases v) (simp_all add: plain_number_def configured_value_def read_decimal_def)

definition object_ok :: "config_build \<Rightarrow> json \<Rightarrow> bool" where
  "object_ok bd v = (case v of
     JObject m \<Rightarrow> distinct (map fst m) \<and> (\<forall>(k, x) \<in> set m. k \<in> set build_capped_keys \<longrightarrow> plain_number bd x) | _ \<Rightarrow> True)"

lemma map_of_rev_distinct:
  assumes "distinct (map fst p)"
  shows "map_of (rev p) k = map_of p k"
proof (cases "map_of p k")
  case None
  then have "k \<notin> fst ` set (rev p)" by (simp add: map_of_eq_None_iff)
  then show ?thesis using None by (metis map_of_eq_None_iff)
next
  case (Some v)
  then have "(k, v) \<in> set (rev p)" by (simp add: map_of_SomeD)
  moreover have "distinct (map fst (rev p))" using assms by (simp flip: rev_map)
  ultimately show ?thesis using Some by simp
qed

lemma merged_within:
  assumes "build_ok bd" and "knobs_ok bd current" and "within_ceilings bd current" and "object_ok bd patch"
    and "refuse_ceiling_violations bd patch = Inr u" and "merged bd current patch = Some c"
  shows "within_ceilings bd c"
proof (cases "\<exists>p. patch = JObject p")
  case False
  then show ?thesis using merged_id [OF assms(1,2)] assms(3,6) by simp
next
  case True
  then obtain p where p: "patch = JObject p" "distinct (map fst p)" using assms(4) by (auto simp: object_ok_def)
  have plain: "plain_number bd x" if "(k, x) \<in> set p" "k \<in> set build_capped_keys" for k x
    using that assms(4) by (auto simp: object_ok_def p(1))
  have cap: "d' \<le> cap"
    if "field_of (merge_patch_into (config_fields bd current) p) key (read_decimal bd) = Some d'" "key \<in> set build_capped_keys"
      "map_of (config_fields bd current) key = Some (decimal_json bd d)" "build_cap_for bd key = Some cap" "d \<le> cap"
    for key d d' cap
  proof -
    have "key \<noteq> ''custom_vipers''" using that(2) by (auto simp: build_capped_keys_def)
    from merge_patch_get [OF this, of "config_fields bd current" p] p(2)
    have "map_of (merge_patch_into (config_fields bd current) p) key =
        (case map_of p key of None \<Rightarrow> Some (decimal_json bd d) | Some v \<Rightarrow> Some v)"
      by (simp only: that(3) map_of_rev_distinct)
    with that(1,5) show ?thesis
      using not_refusedD [OF assms(5) [unfolded p(1)] that(2) _ _ that(4)] assms(1) configured_plain [OF plain [OF _ that(2)]]
      by (auto simp: field_of_def dest: map_of_SomeD split: option.splits)
  qed
  have "read_config bd (JObject (merge_patch_into (config_fields bd current) p)) = Some c"
    using assms(6) by (simp add: merged_def p(1))
  then show ?thesis
    using assms(3) cap [OF _ _ named_fields(6)] cap [OF _ _ named_fields(7)] cap [OF _ _ named_fields(8)]
    unfolding read_config_fields within_ceilings_def by (simp add: build_capped_keys_def)
qed

section \<open>The fields of the instance\<close>

definition instance_fields :: "config \<Rightarrow> bool \<times> bool \<times> bool \<times> bool \<times> nat" where
  "instance_fields c = (cf_ghost_mode c, cf_book_price_changes c, cf_helm_enabled c, cf_helm_live_enabled c, cf_max_open_intents c)"

text \<open>Whether a script may send real orders, and under which cap.\<close>

definition script_switch :: "config \<Rightarrow> string \<Rightarrow> bool \<times> decimal option" where
  "script_switch c name =
     (case map_of (cf_custom_vipers c) name of None \<Rightarrow> (False, None) | Some v \<Rightarrow> (cv_live v, cv_max_exposure v))"

lemma map_of_follow:
  "map_of (map (follow_switch g) vs) n
     = map_option (\<lambda>v. v\<lparr>cv_live := fst (global_switch g n), cv_max_exposure := snd (global_switch g n)\<rparr>) (map_of vs n)"
  by (induction vs) (auto simp: follow_switch_def)

lemma add_switches_keep: "map_of vs n \<noteq> None \<Longrightarrow> map_of (fold add_switch gs vs) n = map_of vs n"
proof (induction gs arbitrary: vs)
  case (Cons x gs)
  have "map_of (add_switch x vs) n = map_of vs n" using Cons.prems by (auto simp: add_switch_def)
  with Cons show ?case by simp
qed simp

lemma add_switches_new:
  assumes "map_of vs n = None" and "distinct (map fst gs)"
  shows "map_of (fold add_switch gs vs) n =
    (case map_of gs n of None \<Rightarrow> None
     | Some g \<Rightarrow> if cv_live g \<or> cv_max_exposure g \<noteq> None
         then Some (default_viper\<lparr>cv_live := cv_live g, cv_max_exposure := cv_max_exposure g\<rparr>) else None)"
  using assms
proof (induction gs arbitrary: vs)
  case (Cons x gs)
  obtain m g where x: "x = (m, g)" by fastforce
  show ?case
  proof (cases "m = n")
    case True
    then have out: "map_of gs n = None" using Cons.prems(2) by (auto simp: x map_of_eq_None_iff)
    show ?thesis
    proof (cases "cv_live g \<or> cv_max_exposure g \<noteq> None")
      case live: True
      then have "map_of (add_switch x vs) n = Some (default_viper\<lparr>cv_live := cv_live g, cv_max_exposure := cv_max_exposure g\<rparr>)"
        using Cons.prems(1) True by (simp add: add_switch_def x)
      then show ?thesis using add_switches_keep [of "add_switch x vs" n gs] live True by (simp add: x)
    next
      case False
      then have "add_switch x vs = vs" by (simp add: add_switch_def x)
      then show ?thesis using Cons.IH [OF Cons.prems(1)] Cons.prems(2) False True out by (simp add: x)
    qed
  next
    case False
    then have "map_of (add_switch x vs) n = None" using Cons.prems(1) by (auto simp: add_switch_def x)
    from Cons.IH [OF this] Cons.prems(2) False show ?thesis by (simp add: x)
  qed
qed simp

lemma script_switch_reconciled:
  assumes "hm_wf (cf_custom_vipers g)"
  shows "script_switch (fst (reconcile_global_semantics c g)) n = script_switch g n"
proof -
  have d: "distinct (map fst (cf_custom_vipers g))" using assms by (simp add: hm_wf_def)
  show ?thesis
  proof (cases "map_of (cf_custom_vipers c) n")
    case None
    then have "map_of (map (follow_switch g) (cf_custom_vipers c)) n = None" by (simp add: map_of_follow)
    from add_switches_new [OF this d] show ?thesis
      by (auto simp: script_switch_def reconcile_global_semantics_def reconciled_vipers_def Let_def split: option.splits)
  next
    case (Some v)
    then have m: "map_of (map (follow_switch g) (cf_custom_vipers c)) n
        = Some (v\<lparr>cv_live := fst (global_switch g n), cv_max_exposure := snd (global_switch g n)\<rparr>)"
      by (simp add: map_of_follow)
    then have "map_of (reconciled_vipers g (cf_custom_vipers c)) n
        = Some (v\<lparr>cv_live := fst (global_switch g n), cv_max_exposure := snd (global_switch g n)\<rparr>)"
      by (simp add: reconciled_vipers_def add_switches_keep)
    then show ?thesis
      by (simp add: script_switch_def reconcile_global_semantics_def global_switch_def Let_def split: option.splits)
  qed
qed

lemma reconciled_instance [simp]: "instance_fields (fst (reconcile_global_semantics c g)) = instance_fields g"
  by (simp add: instance_fields_def reconcile_global_semantics_def with_instance_fields_def Let_def)

lemma knobs_ok_reconciled [simp]: "knobs_ok bd (fst (reconcile_global_semantics c g)) = knobs_ok bd c"
  by (simp add: knobs_ok_def reconcile_global_semantics_def with_instance_fields_def Let_def)

lemma reconciled_knobs [simp]: "cf_knobs (fst (reconcile_global_semantics c g)) = cf_knobs c"
  by (simp add: reconcile_global_semantics_def with_instance_fields_def Let_def)

lemma within_reconciled [simp]: "within_ceilings bd (fst (reconcile_global_semantics c g)) = within_ceilings bd c"
  by (simp add: within_ceilings_def reconcile_global_semantics_def with_instance_fields_def Let_def)

lemma add_switches_none:
  assumes "\<forall>(n, g) \<in> set gs. (cv_live g \<or> cv_max_exposure g \<noteq> None) \<longrightarrow> map_of vs n \<noteq> None"
  shows "fold add_switch gs vs = vs"
  using assms by (induction gs) (auto simp: add_switch_def)

lemma switches_follow:
  assumes "\<And>n v. (n, v) \<in> set vs \<Longrightarrow> (cv_live v, cv_max_exposure v) = global_switch g n"
  shows "map (follow_switch g) vs = vs"
  using assms by (intro map_idI) (auto simp: follow_switch_def prod_eq_iff intro!: custom_viper.equality)

lemma insert_fresh: "map_of m k = None \<Longrightarrow> hm_insert k v m = m @ [(k, v)]"
  by (induction m) (auto split: if_splits)

lemma set_add_switches:
  "(n, v) \<in> set (fold add_switch gs vs) \<Longrightarrow> (n, v) \<in> set vs
     \<or> (\<exists>g. (n, g) \<in> set gs \<and> v = default_viper\<lparr>cv_live := cv_live g, cv_max_exposure := cv_max_exposure g\<rparr>)"
proof (induction gs arbitrary: vs)
  case (Cons x gs)
  then have "(n, v) \<in> set (add_switch x vs)
      \<or> (\<exists>g. (n, g) \<in> set gs \<and> v = default_viper\<lparr>cv_live := cv_live g, cv_max_exposure := cv_max_exposure g\<rparr>)" by simp
  then show ?case by (cases x) (auto simp: add_switch_def insert_fresh split: if_splits)
qed simp

lemma reconcile_twice:
  assumes "hm_wf (cf_custom_vipers g)"
  shows "fst (reconcile_global_semantics (fst (reconcile_global_semantics c g)) g) = fst (reconcile_global_semantics c g)"
proof -
  let ?gs = "cf_custom_vipers g"
  let ?r = "reconciled_vipers g (cf_custom_vipers c)"
  have sw: "global_switch g n = (cv_live x, cv_max_exposure x)" if "(n, x) \<in> set ?gs" for n x
    using that assms by (simp add: global_switch_def hm_get_mem_iff)
  have "(cv_live v, cv_max_exposure v) = global_switch g n" if "(n, v) \<in> set ?r" for n v
    using set_add_switches [OF that [unfolded reconciled_vipers_def]] sw by (auto simp: follow_switch_def)
  then have follow: "map (follow_switch g) ?r = ?r" by (rule switches_follow)
  have "map_of ?r n \<noteq> None" if "(n, x) \<in> set ?gs" "cv_live x \<or> cv_max_exposure x \<noteq> None" for n x
  proof (cases "map_of (map (follow_switch g) (cf_custom_vipers c)) n")
    case None
    then show ?thesis
      using add_switches_new [OF None, of ?gs] that assms by (simp add: reconciled_vipers_def hm_wf_def)
  next
    case (Some v)
    then show ?thesis by (simp add: reconciled_vipers_def add_switches_keep)
  qed
  then have "fold add_switch ?gs ?r = ?r" by (intro add_switches_none) auto
  with follow have "reconciled_vipers g ?r = ?r" by (simp add: reconciled_vipers_def [of g ?r])
  then show ?thesis by (simp add: reconcile_global_semantics_def with_instance_fields_def Let_def)
qed

lemma reconcile_self:
  assumes "hm_wf (cf_custom_vipers g)"
  shows "fst (reconcile_global_semantics g g) = g"
proof -
  have "map (follow_switch g) (cf_custom_vipers g) = cf_custom_vipers g"
    by (rule switches_follow) (use assms in \<open>simp add: global_switch_def hm_get_mem_iff\<close>)
  moreover have "fold add_switch (cf_custom_vipers g) (cf_custom_vipers g) = cf_custom_vipers g"
    by (rule add_switches_none) (use assms in \<open>auto simp: hm_get_mem_iff\<close>)
  ultimately show ?thesis by (simp add: reconcile_global_semantics_def reconciled_vipers_def with_instance_fields_def Let_def)
qed

section \<open>A patch of a squadron\<close>

definition all_ok :: "config_world \<Rightarrow> bool" where
  "all_ok w \<longleftrightarrow> \<not> cw_read_only w \<and> cw_pool w \<and> (\<forall>n. cw_ok w n)"

lemma cw_tick_simps [simp]:
  "cw_global (cw_tick w) = cw_global w" "cw_rows (cw_tick w) = cw_rows w" "cw_tx (cw_tick w) = cw_tx w"
  "cw_live (cw_tick w) = cw_live w" "cw_pool (cw_tick w) = cw_pool w" "cw_read_only (cw_tick w) = cw_read_only w"
  "cw_ok (cw_tick w) = cw_ok w" "cw_calls (cw_tick w) = Suc (cw_calls w)" "cw_siblings (cw_tick w) = cw_siblings w"
  "cw_history (cw_tick w) = cw_history w" "all_ok (cw_tick w) = all_ok w"
  by (simp_all add: cw_tick_def all_ok_def)

lemma all_ok_succeeds [simp]: "all_ok w \<Longrightarrow> cw_succeeds w"
  by (simp add: all_ok_def cw_succeeds_def)

lemma all_ok_upd [simp]:
  "all_ok (w\<lparr>cw_global := v\<rparr>) = all_ok w" "all_ok (w\<lparr>cw_rows := rs\<rparr>) = all_ok w" "all_ok (w\<lparr>cw_history := h\<rparr>) = all_ok w"
  "all_ok (w\<lparr>cw_tx := t\<rparr>) = all_ok w" "all_ok (w\<lparr>cw_live := l\<rparr>) = all_ok w" "all_ok (w\<lparr>cw_origin := og\<rparr>) = all_ok w"
  by (simp_all add: all_ok_def)

lemma all_okD: "all_ok w \<Longrightarrow> cw_pool w" "all_ok w \<Longrightarrow> \<not> cw_read_only w"
  by (simp_all add: all_ok_def)

text \<open>What a squadron's row stands for under a global value.\<close>

definition loaded :: "config_build \<Rightarrow> config \<Rightarrow> json option \<Rightarrow> config" where
  "loaded bd g row =
     (case Option.bind row (read_config bd) of
        None \<Rightarrow> cb_default bd | Some c \<Rightarrow> fst (reconcile_global_semantics (fst (apply_build_caps bd c)) g))"

lemma load_run:
  "all_ok w \<Longrightarrow> cw_tx w = Some g \<Longrightarrow> load_for_squadron bd sid w = (loaded bd g (hm_get (cw_rows w) sid), cw_tick w)"
  by (simp add: load_for_squadron_def loaded_def squadron_config_get_def global_now_def all_okD split: option.split)

lemma row_value_ok:
  assumes "build_ok bd"
  shows "knobs_ok bd (loaded bd g row)" "within_ceilings bd (loaded bd g row)"
  using assms build_okD(5,6) [OF assms] read_config_ok [OF assms]
  by (auto simp: loaded_def split: option.splits bind_splits)

definition patch_outcome :: "config_build \<Rightarrow> config \<Rightarrow> config \<Rightarrow> json option \<Rightarrow> config_error + config" where
  "patch_outcome bd g current body =
     (case body of
        None \<Rightarrow> Inl Not_json
      | Some patch \<Rightarrow>
          (case refuse_ceiling_violations bd patch of
             Inl e \<Rightarrow> Inl e
           | Inr _ \<Rightarrow>
               (case merged bd current patch of
                  None \<Rightarrow> Inl Bad_value | Some c \<Rightarrow> Inr (fst (reconcile_global_semantics c g)))))"

text \<open>A patch whose statements succeed, as what it does to the row and to the handle.\<close>

lemma squadron_patch_run:
  fixes bd :: config_build and sid actor :: string and body :: "json option"
  assumes "all_ok w" and "cw_tx w = Some g"
  defines "out \<equiv> patch_outcome bd g (loaded bd g (hm_get (cw_rows w) sid)) body"
  defines "r \<equiv> apply_squadron_patch_as bd sid body actor w"
  shows "fst r = out" and "all_ok (snd r)" and "cw_tx (snd r) = Some g" and "cw_global (snd r) = cw_global w"
    and "cw_rows (snd r) = (case out of Inl _ \<Rightarrow> cw_rows w | Inr c \<Rightarrow> hm_insert sid (config_json bd c) (cw_rows w))"
    and "cw_live (snd r) = (case out of Inl _ \<Rightarrow> cw_live w
      | Inr c \<Rightarrow> if hm_contains sid (cw_live w) then hm_insert sid c (cw_live w) else cw_live w)"
  using assms(1,2) all_okD [OF assms(1)]
  unfolding r_def out_def apply_squadron_patch_as_def load_run [OF assms(1,2)]
  by (auto simp: patch_outcome_def Let_def global_now_def record_squadron_change_def squadron_config_get_def
      record_config_change_def save_for_squadron_def squadron_config_set_def push_live_def split: option.split sum.split)

lemma patch_outcomeD:
  assumes "patch_outcome bd g current body = Inr c"
  obtains patch c1 u where "body = Some patch" and "refuse_ceiling_violations bd patch = Inr u"
    and "merged bd current patch = Some c1" and "c = fst (reconcile_global_semantics c1 g)"
  using assms by (auto simp: patch_outcome_def split: option.splits sum.splits)

definition body_ok :: "config_build \<Rightarrow> json option \<Rightarrow> bool" where
  "body_ok bd body = (case body of None \<Rightarrow> True | Some v \<Rightarrow> object_ok bd v)"

text \<open>The settings a successful patch of a squadron leaves.\<close>

lemma patch_outcome_ok:
  assumes "build_ok bd" and "knobs_ok bd current" and "within_ceilings bd current" and "body_ok bd body"
    and "patch_outcome bd g current body = Inr c"
  shows "knobs_ok bd c" and "within_ceilings bd c" and "instance_fields c = instance_fields g"
    and "hm_wf (cf_custom_vipers g) \<Longrightarrow> fst (reconcile_global_semantics c g) = c"
    and "hm_wf (cf_custom_vipers g) \<Longrightarrow> script_switch c n = script_switch g n"
proof -
  from assms(5) obtain patch c1 u where p: "body = Some patch" "refuse_ceiling_violations bd patch = Inr u"
    "merged bd current patch = Some c1" "c = fst (reconcile_global_semantics c1 g)" by (rule patch_outcomeD)
  show "knobs_ok bd c" using merged_ok [OF assms(1) p(3)] by (simp add: p(4))
  show "within_ceilings bd c"
    using merged_within [OF assms(1-3) _ p(2,3)] assms(4) by (simp add: p(1,4) body_ok_def)
  show "instance_fields c = instance_fields g" by (simp add: p(4))
  show "fst (reconcile_global_semantics c g) = c" if "hm_wf (cf_custom_vipers g)" using reconcile_twice [OF that] by (simp add: p(4))
  show "script_switch c n = script_switch g n" if "hm_wf (cf_custom_vipers g)"
    using script_switch_reconciled [OF that] by (simp add: p(4))
qed


section \<open>What runs is what is stored\<close>

definition rows_readable :: "config_build \<Rightarrow> config_world \<Rightarrow> bool" where
  "rows_readable bd w \<longleftrightarrow> (\<forall>sid r. hm_get (cw_rows w) sid = Some r \<longrightarrow> read_config bd r \<noteq> None)"

definition global_ok :: "config_build \<Rightarrow> config \<Rightarrow> config_world \<Rightarrow> bool" where
  "global_ok bd g w \<longleftrightarrow> all_ok w \<and> rows_readable bd w \<and> cw_tx w = Some g
     \<and> (\<exists>c. Option.bind (cw_global w) (read_config bd) = Some c \<and> fst (apply_build_caps bd c) = g)
     \<and> knobs_ok bd g \<and> within_ceilings bd g \<and> hm_wf (cf_custom_vipers g)"

text \<open>The handle of a squadron, when it has one, is what its row stands for.\<close>

definition in_step :: "config_build \<Rightarrow> config \<Rightarrow> config_world \<Rightarrow> string \<Rightarrow> bool" where
  "in_step bd g w sid \<longleftrightarrow>
     (\<forall>c. hm_get (cw_live w) sid = Some c \<longrightarrow> hm_get (cw_rows w) sid \<noteq> None \<and> c = loaded bd g (hm_get (cw_rows w) sid))"

definition config_inv :: "config_build \<Rightarrow> config_world \<Rightarrow> bool" where
  "config_inv bd w \<longleftrightarrow> (\<exists>g. global_ok bd g w \<and> (\<forall>sid. in_step bd g w sid))"

lemma loaded_written:
  assumes "build_ok bd" and "knobs_ok bd c" and "within_ceilings bd c" and "fst (reconcile_global_semantics c g) = c"
  shows "loaded bd g (Some (config_json bd c)) = c"
  using assms read_config_json [OF assms(1,2)] by (simp add: loaded_def)

lemma patch_keeps_in_step:
  fixes sid actor :: string
  assumes "build_ok bd" and "global_ok bd g w" and "body_ok bd body"
  defines "w' \<equiv> snd (apply_squadron_patch_as bd sid body actor w)"
  shows "global_ok bd g w'" and "in_step bd g w s \<Longrightarrow> in_step bd g w' s"
    and "(\<exists>c. patch_outcome bd g (loaded bd g (hm_get (cw_rows w) sid)) body = Inr c) \<Longrightarrow> in_step bd g w' sid"
    and "hm_contains s (cw_live w') = hm_contains s (cw_live w)"
proof -
  have w: "all_ok w" "cw_tx w = Some g" "hm_wf (cf_custom_vipers g)" using assms(2) by (simp_all add: global_ok_def)
  let ?out = "patch_outcome bd g (loaded bd g (hm_get (cw_rows w) sid)) body"
  note run = squadron_patch_run [OF w(1,2), of bd sid body actor, folded w'_def]
  have ok: "knobs_ok bd c \<and> loaded bd g (Some (config_json bd c)) = c" if "?out = Inr c" for c
    using patch_outcome_ok [OF assms(1) row_value_ok [OF assms(1)] assms(3) that] loaded_written [OF assms(1)] w(3) by blast
  show "global_ok bd g w'"
    using assms(2) run(2-5) ok read_config_json [OF assms(1)]
    by (auto simp: global_ok_def rows_readable_def split: sum.splits)
  show "in_step bd g w' s" if "in_step bd g w s"
    using that run(5,6) ok by (auto simp: in_step_def split: sum.splits)
  show "in_step bd g w' sid" if "\<exists>c. ?out = Inr c"
    using that run(5,6) ok by (auto simp: in_step_def split: sum.splits)
  show "hm_contains s (cw_live w') = hm_contains s (cw_live w)"
    using run(6) by (auto split: sum.splits)
qed

lemma fan_out_in_step:
  assumes "build_ok bd" and "global_ok bd g w" and "body_ok bd body"
    and "\<And>current. knobs_ok bd current \<Longrightarrow> \<exists>c. patch_outcome bd g current body = Inr c"
    and "s \<in> set sids \<or> in_step bd g w s"
  shows "global_ok bd g (fan_out bd body actor sids w) \<and> in_step bd g (fan_out bd body actor sids w) s"
  using assms(2,5)
proof (induction sids arbitrary: w)
  case (Cons sid sids)
  let ?w = "snd (apply_squadron_patch_as bd sid body actor w)"
  note step = patch_keeps_in_step [OF assms(1) Cons.prems(1) assms(3), where sid = sid and actor = actor]
  have "s \<in> set sids \<or> in_step bd g ?w s"
    using Cons.prems(2) step(2) step(3) [OF assms(4) [OF row_value_ok(1) [OF assms(1)]]] by auto
  with Cons.IH [OF step(1)] show ?case by simp
qed simp

datatype config_event = Deploy string | Patch_squadron string "json option" | Patch_global "json option"

text \<open>A request of the operator on the global settings leaves the scripts alone here; their switches have requests of
  their own.\<close>

fun event_ok :: "config_build \<Rightarrow> config_event \<Rightarrow> bool" where
  "event_ok bd (Deploy sid) = True"
| "event_ok bd (Patch_squadron sid body) = body_ok bd body"
| "event_ok bd (Patch_global body) = (body_ok bd body \<and> (\<forall>p. body = Some (JObject p) \<longrightarrow> ''custom_vipers'' \<notin> fst ` set p))"

fun config_step :: "config_build \<Rightarrow> config_event \<Rightarrow> config_world \<Rightarrow> config_world" where
  "config_step bd (Deploy sid) w = deploy_squadron bd sid w"
| "config_step bd (Patch_squadron sid body) w = snd (patch_squadron_config bd sid body w)"
| "config_step bd (Patch_global body) w = snd (patch_config bd Global_and_deployed (the (cw_tx w)) body ''operator'' w)"

definition config_run :: "config_build \<Rightarrow> config_event list \<Rightarrow> config_world \<Rightarrow> config_world" where
  "config_run bd es w = fold (config_step bd) es w"

lemma load_or_default_run:
  assumes "build_ok bd" and "global_ok bd g w"
  shows "load_or_default bd w = (g, (cw_tick w)\<lparr>cw_origin := Shard\<rparr>)"
proof -
  obtain v c where "cw_global w = Some v" "read_config bd v = Some c" "fst (apply_build_caps bd c) = g" "all_ok w"
    using assms(2) by (auto simp: global_ok_def bind_eq_Some_conv)
  then show ?thesis by (simp add: load_or_default_def load_inner_def config_get_def all_okD Let_def)
qed

lemma deploy_in_step:
  assumes "build_ok bd" and "global_ok bd g w" and "\<forall>s. in_step bd g w s"
  shows "global_ok bd g (deploy_squadron bd sid w) \<and> (\<forall>s. in_step bd g (deploy_squadron bd sid w) s)"
proof -
  have w: "all_ok w" "cw_tx w = Some g" "hm_wf (cf_custom_vipers g)" "knobs_ok bd g" "within_ceilings bd g"
    using assms(2) by (simp_all add: global_ok_def)
  have tick: "global_ok bd g (cw_tick w)" using assms(2) by (simp add: global_ok_def rows_readable_def)
  show ?thesis
  proof (cases "hm_get (cw_rows w) sid")
    case None
    have "deploy_squadron bd sid w = register_squadron_config_handle sid g
        (squadron_config_set sid (config_json bd g) ((cw_tick (cw_tick w))\<lparr>cw_origin := Shard\<rparr>))"
      using load_or_default_run [OF assms(1) tick] None w(1)
      by (simp add: deploy_squadron_def load_or_init_for_squadron_def init_for_squadron_def save_for_squadron_def
          squadron_config_get_def all_okD Let_def)
    then show ?thesis
      using assms(2,3) None w read_config_json [OF assms(1) w(4)] loaded_written [OF assms(1) w(4,5) reconcile_self [OF w(3)]]
      by (auto simp: register_squadron_config_handle_def squadron_config_set_def global_ok_def rows_readable_def in_step_def)
  next
    case (Some r)
    have "deploy_squadron bd sid w
        = register_squadron_config_handle sid (loaded bd g (Some r)) (cw_tick (cw_tick w))"
      using load_run [of "cw_tick w" g bd sid] Some w(1,2)
      by (simp add: deploy_squadron_def load_or_init_for_squadron_def squadron_config_get_def all_okD Let_def)
    then show ?thesis
      using assms(2,3) Some
      by (auto simp: register_squadron_config_handle_def global_ok_def rows_readable_def in_step_def)
  qed
qed

lemma save_run:
  assumes "all_ok w"
  shows "cw_global (save_as bd who c w) = Some (config_json bd c)" "cw_rows (save_as bd who c w) = cw_rows w"
    "cw_tx (save_as bd who c w) = cw_tx w" "cw_live (save_as bd who c w) = cw_live w" "all_ok (save_as bd who c w)"
  using assms
  by (simp_all add: save_as_def config_get_def config_set_def record_config_change_def all_okD Let_def)

lemma global_ok_saved:
  assumes "build_ok bd" and "all_ok w" and "rows_readable bd w" and "knobs_ok bd c" and "within_ceilings bd c"
    and "hm_wf (cf_custom_vipers c)"
  shows "global_ok bd c ((save_as bd who c w)\<lparr>cw_tx := Some c\<rparr>)"
  using assms save_run [OF assms(2), of bd who c] read_config_json [OF assms(1,4)]
  by (simp add: global_ok_def rows_readable_def)

lemma set_targets:
  "set (fold (\<lambda>sid ids. if sid \<in> set ids then ids else ids @ [sid]) ys xs) = set ys \<union> set xs"
  by (induction ys arbitrary: xs) auto

lemma targets_run:
  assumes "all_ok w" and "config_write_targets w = (ids, w')"
  shows "w' = cw_tick w" and "set (map fst (cw_live w)) \<subseteq> set ids"
  using assms set_targets [of "rev (map fst (cw_rows w))" "registered_squadron_ids w"]
  by (simp_all add: config_write_targets_def squadron_config_list_def all_okD registered_squadron_ids_def)

text \<open>Whether a patch of the global settings is accepted does not depend on the settings it is applied to.\<close>

lemma outcome_any:
  assumes "build_ok bd" and "event_ok bd (Patch_global (Some v))" and "refuse_ceiling_violations bd v = Inr u"
    and "merged bd g v = Some c" and "knobs_ok bd g" and "knobs_ok bd current"
  shows "\<exists>c'. patch_outcome bd c current (Some v) = Inr c'"
proof -
  have "merged bd current v \<noteq> None"
  proof (cases "\<exists>p. v = JObject p")
    case True
    then obtain p where p: "v = JObject p" by blast
    with assms(2) have "''custom_vipers'' \<notin> fst ` set p" by simp
    from merged_iff(1) [OF assms(1,5) this] merged_iff(1) [OF assms(1,6) this] assms(4) show ?thesis by (simp add: p)
  next
    case False
    then show ?thesis using merged_id [OF assms(1,6)] by simp
  qed
  with assms(3) show ?thesis by (auto simp: patch_outcome_def)
qed

text \<open>A patch of the global settings that succeeds, built on settings \<open>cur\<close> that need not be the broadcast's.\<close>

lemma global_patch_success:
  assumes "build_ok bd" and "global_ok bd g w" and "knobs_ok bd cur" and "within_ceilings bd cur"
    and "hm_wf (cf_custom_vipers cur)" and "event_ok bd (Patch_global body)"
    and "patch_config bd Global_and_deployed cur body actor w = (Inr c, w')"
  obtains v ids w3 where "body = Some v" and "merged bd cur v = Some c" and "w' = fan_out bd body actor ids w3" and "global_ok bd c w3"
    and "cw_rows w3 = cw_rows w" and "cw_live w3 = cw_live w" and "set (map fst (cw_live w)) \<subseteq> set ids"
    and "\<And>current. knobs_ok bd current \<Longrightarrow> \<exists>c'. patch_outcome bd c current body = Inr c'"
proof -
  have w: "all_ok w" "rows_readable bd w" using assms(2) by (simp_all add: global_ok_def)
  obtain r w1 where app: "apply_patch_as bd cur body actor w = (r, w1)" by fastforce
  with assms(7) have r: "r = Inr c" by (auto simp: patch_config_def Let_def split: sum.splits)
  with app obtain v u where v: "body = Some v" "refuse_ceiling_violations bd v = Inr u" "merged bd cur v = Some c"
    "w1 = save_as bd actor c w"
    by (auto simp: apply_patch_as_def split: option.splits sum.splits)
  have ev: "event_ok bd (Patch_global (Some v))" "object_ok bd v" using assms(6) by (simp_all add: v(1) body_ok_def)
  have "cf_custom_vipers c = cf_custom_vipers cur"
  proof (cases "\<exists>p. v = JObject p")
    case True
    with ev v(3) show ?thesis using merged_iff(2) [OF assms(1,3)] by auto
  next
    case False
    then show ?thesis using merged_id [OF assms(1,3)] v(3) by simp
  qed
  with assms(5) have c: "knobs_ok bd c" "within_ceilings bd c" "hm_wf (cf_custom_vipers c)"
    using merged_ok [OF assms(1) v(3)] merged_within [OF assms(1,3,4) ev(2) v(2,3)] by simp_all
  let ?w2 = "w1\<lparr>cw_tx := Some c\<rparr>"
  have g2: "global_ok bd c ?w2" unfolding v(4) by (rule global_ok_saved [OF assms(1) w(1,2) c])
  obtain ids w3 where ids: "config_write_targets ?w2 = (ids, w3)" by fastforce
  have "all_ok ?w2" using g2 by (simp add: global_ok_def)
  note t = targets_run [OF this ids]
  show thesis
  proof (rule that [OF v(1,3)])
    show "w' = fan_out bd body actor ids w3" using assms(7) by (simp add: patch_config_def app r ids)
    show "global_ok bd c w3" using g2 by (simp add: t(1) global_ok_def rows_readable_def)
    show "cw_rows w3 = cw_rows w" "cw_live w3 = cw_live w" "set (map fst (cw_live w)) \<subseteq> set ids"
      using t save_run [OF w(1)] by (simp_all add: v(4))
    show "\<exists>c'. patch_outcome bd c current body = Inr c'" if "knobs_ok bd current" for current
      unfolding v(1) by (rule outcome_any [OF assms(1) ev(1) v(2,3) assms(3) that])
  qed
qed

lemma fan_out_all_in_step:
  assumes "build_ok bd" and "global_ok bd c w" and "body_ok bd body" and "set (map fst (cw_live w)) \<subseteq> set ids"
    and "\<And>current. knobs_ok bd current \<Longrightarrow> \<exists>c'. patch_outcome bd c current body = Inr c'"
  shows "global_ok bd c (fan_out bd body actor ids w)" and "in_step bd c (fan_out bd body actor ids w) s"
proof -
  have "s \<in> set ids \<or> in_step bd c w s" for s
  proof (cases "hm_get (cw_live w) s")
    case (Some x)
    then have "s \<in> set (map fst (cw_live w))" by (force dest: map_of_SomeD)
    then show ?thesis using assms(4) by blast
  qed (simp add: in_step_def)
  with fan_out_in_step [OF assms(1-3,5)]
  show "global_ok bd c (fan_out bd body actor ids w)" and "in_step bd c (fan_out bd body actor ids w) s" by blast+
qed

lemma global_patch_in_step:
  assumes "build_ok bd" and "global_ok bd g w" and "\<forall>s. in_step bd g w s" and "event_ok bd (Patch_global body)"
  shows "config_inv bd (snd (patch_config bd Global_and_deployed g body actor w))"
proof -
  obtain r w' where p: "patch_config bd Global_and_deployed g body actor w = (r, w')" by fastforce
  show ?thesis
  proof (cases r)
    case (Inl e)
    then have "w' = w" using p
      by (auto simp: patch_config_def apply_patch_as_def Let_def split: option.splits sum.splits prod.splits)
    then show ?thesis using assms(2,3) p by (auto simp: config_inv_def)
  next
    case (Inr c)
    have g: "knobs_ok bd g" "within_ceilings bd g" "hm_wf (cf_custom_vipers g)" "body_ok bd body"
      using assms(2,4) by (simp_all add: global_ok_def)
    from global_patch_success [OF assms(1,2) g(1-3) assms(4) p [unfolded Inr]]
    obtain ids w3 where f: "w' = fan_out bd body actor ids w3" "global_ok bd c w3" "set (map fst (cw_live w3)) \<subseteq> set ids"
      "\<And>current. knobs_ok bd current \<Longrightarrow> \<exists>c'. patch_outcome bd c current body = Inr c'" by metis
    note all = fan_out_all_in_step [OF assms(1) f(2) g(4) f(3,4), of actor]
    show ?thesis unfolding p snd_conv f(1) config_inv_def using all by blast
  qed
qed

lemma config_step_inv:
  assumes "build_ok bd" and "config_inv bd w" and "event_ok bd e"
  shows "config_inv bd (config_step bd e w)"
proof -
  obtain g where g: "global_ok bd g w" "\<forall>s. in_step bd g w s" using assms(2) by (auto simp: config_inv_def)
  then have tx: "cw_tx w = Some g" by (simp add: global_ok_def)
  show ?thesis
  proof (cases e)
    case (Deploy sid)
    then show ?thesis using deploy_in_step [OF assms(1) g] by (auto simp: config_inv_def)
  next
    case (Patch_squadron sid body)
    then have "body_ok bd body" using assms(3) by simp
    note keep = patch_keeps_in_step(1,2) [OF assms(1) g(1) this, where sid = sid and actor = "''operator''"]
    have "in_step bd g (snd (apply_squadron_patch_as bd sid body ''operator'' w)) s" for s using keep(2) g(2) by blast
    with keep(1) show ?thesis unfolding Patch_squadron config_inv_def patch_squadron_config_def config_step.simps by blast
  next
    case (Patch_global body)
    then show ?thesis using global_patch_in_step [OF assms(1) g, of body "''operator''"] assms(3) tx by simp
  qed
qed

lemma config_run_inv:
  assumes "build_ok bd" and "config_inv bd w" and "\<forall>e \<in> set es. event_ok bd e"
  shows "config_inv bd (config_run bd es w)"
  using assms(2,3) unfolding config_run_def
  by (induction es arbitrary: w) (auto simp: config_step_inv [OF assms(1)])

text \<open>The start: the settings are loaded and broadcast, and no squadron runs.\<close>

definition booted :: "config_build \<Rightarrow> config_world \<Rightarrow> config_world" where
  "booted bd w = (let (c, w) = load_at_startup bd w in w\<lparr>cw_tx := Some c\<rparr>)"

lemma defaults_run:
  assumes "build_ok bd" and "all_ok w"
  shows "Option.bind (cw_global (save_as bd who (cb_default bd) w)) (read_config bd) = Some (cb_default bd)"
  using read_config_json [OF assms(1)] build_okD(5) [OF assms(1)] by (simp add: save_run [OF assms(2)])

lemma knobs_ok_instance [simp]: "knobs_ok bd (with_instance_fields g c) = knobs_ok bd c"
  by (simp add: knobs_ok_def with_instance_fields_def)

lemma seeded_ok:
  assumes "build_ok bd" and "seed_from_siblings bd rows = Some (c, source, kept)"
  shows "knobs_ok bd c"
  using assms(2) read_config_ok [OF assms(1)]
  by (auto simp: seed_from_siblings_def keep_instance_level_defaults_def split: option.splits)

lemma all_ok_change [simp]: "all_ok w \<Longrightarrow> all_ok (record_config_change who param old new w)"
  by (simp add: record_config_change_def)

lemma change_fields [simp]:
  "cw_global (record_config_change who param old new w) = cw_global w" "cw_rows (record_config_change who param old new w) = cw_rows w"
  "cw_live (record_config_change who param old new w) = cw_live w" "cw_tx (record_config_change who param old new w) = cw_tx w"
  by (simp_all add: record_config_change_def)

lemma startup_run:
  assumes "build_ok bd" and "all_ok w" and "load_at_startup bd w = (g, w')"
  shows "cw_rows w' = cw_rows w" and "cw_live w' = cw_live w" and "all_ok w'" and "knobs_ok bd g" and "within_ceilings bd g"
    and "\<exists>c. Option.bind (cw_global w') (read_config bd) = Some c \<and> fst (apply_build_caps bd c) = g"
proof -
  note w = assms(2) all_okD [OF assms(2)]
  note build = build_okD(5,6) [OF assms(1)]
  let ?P = "\<lambda>g w'. cw_rows w' = cw_rows w \<and> cw_live w' = cw_live w \<and> all_ok w' \<and> knobs_ok bd g \<and> within_ceilings bd g
    \<and> (\<exists>c. Option.bind (cw_global w') (read_config bd) = Some c \<and> fst (apply_build_caps bd c) = g)"
  have defaults: "?P (cb_default bd) (save_as bd ''startup_dynamic'' (cb_default bd) ((cw_tick w)\<lparr>cw_origin := Defaults\<rparr>))"
    using defaults_run [OF assms(1), of "(cw_tick w)\<lparr>cw_origin := Defaults\<rparr>" "''startup_dynamic''"] build w by (simp add: save_run)
  have "?P g w'"
  proof (cases "cw_global w")
    case None
    show ?thesis
    proof (cases "seed_from_siblings bd (cw_siblings (cw_tick w))")
      case Nothing: None
      then show ?thesis using assms(3) None w defaults
        by (auto simp: load_at_startup_def load_inner_def config_get_def Let_def)
    next
      case (Some x)
      obtain c source kept where x: "x = (c, source, kept)" by (cases x)
      let ?c = "fst (apply_build_caps bd c)"
      have c: "knobs_ok bd ?c" using seeded_ok [OF assms(1) Some [unfolded x]] by simp
      have g: "g = ?c" and w': "w' = (record_config_change ''seeded_from_shard'' ''seeded_from'' None (JString source)
          (save_as bd ''seeded_from_shard'' ?c (cw_tick w)))\<lparr>cw_origin := Seeded source kept\<rparr>"
        using assms(3) [symmetric] None Some w by (simp_all add: load_at_startup_def load_inner_def config_get_def Let_def x)
      show ?thesis unfolding g w' using c w read_config_json [OF assms(1) c] by (simp add: save_run)
    qed
  next
    case (Some v)
    show ?thesis
    proof (cases "read_config bd v")
      case None
      then show ?thesis using assms(3) Some w defaults
        by (auto simp: load_at_startup_def load_inner_def config_get_def Let_def)
    next
      case read: (Some c)
      then show ?thesis using assms(3) Some w read_config_ok [OF assms(1) read]
        by (auto simp: load_at_startup_def load_inner_def config_get_def Let_def)
    qed
  qed
  then show "cw_rows w' = cw_rows w" and "cw_live w' = cw_live w" and "all_ok w'" and "knobs_ok bd g" and "within_ceilings bd g"
    and "\<exists>c. Option.bind (cw_global w') (read_config bd) = Some c \<and> fst (apply_build_caps bd c) = g"
    by simp_all
qed

lemma booted_inv:
  assumes "build_ok bd" and "all_ok w" and "rows_readable bd w" and "cw_live w = []"
    and "hm_wf (cf_custom_vipers (fst (load_at_startup bd w)))"
  shows "config_inv bd (booted bd w)"
proof -
  obtain g w' where g: "load_at_startup bd w = (g, w')" by fastforce
  note run = startup_run [OF assms(1,2) g]
  have "global_ok bd g (booted bd w)" and "in_step bd g (booted bd w) s" for s
    using assms(3-5) run by (simp_all add: booted_def g global_ok_def rows_readable_def in_step_def)
  then show ?thesis by (auto simp: config_inv_def)
qed


section \<open>What can be lost\<close>

lemma loaded_knobs: "cf_knobs (loaded bd g row) = cf_knobs (loaded bd g' row)"
  by (simp add: loaded_def split: option.split)

lemma patch_row_knob:
  fixes sid actor :: string
  assumes "build_ok bd" and "global_ok bd g w" and "body_ok bd (Some (JObject p))" and "k \<in> fst ` set (cb_knobs bd)"
    and "\<exists>c. patch_outcome bd g (loaded bd g (hm_get (cw_rows w) sid)) (Some (JObject p)) = Inr c"
  shows "map_of (cf_knobs (loaded bd g (hm_get (cw_rows (snd (apply_squadron_patch_as bd sid (Some (JObject p)) actor w))) s))) k
    = (if s = sid then patched p k (map_of (cf_knobs (loaded bd g (hm_get (cw_rows w) s))) k)
       else map_of (cf_knobs (loaded bd g (hm_get (cw_rows w) s))) k)"
proof -
  let ?cur = "loaded bd g (hm_get (cw_rows w) sid)"
  have w: "all_ok w" "cw_tx w = Some g" "hm_wf (cf_custom_vipers g)" using assms(2) by (simp_all add: global_ok_def)
  from assms(5) obtain c where c: "patch_outcome bd g ?cur (Some (JObject p)) = Inr c" by blast
  note ok = patch_outcome_ok [OF assms(1) row_value_ok [OF assms(1)] assms(3) c]
  from patch_outcomeD [OF c] obtain c1 where c1: "merged bd ?cur (JObject p) = Some c1"
    "c = fst (reconcile_global_semantics c1 g)" by blast
  have "cw_rows (snd (apply_squadron_patch_as bd sid (Some (JObject p)) actor w)) = hm_insert sid (config_json bd c) (cw_rows w)"
    using squadron_patch_run(5) [OF w(1,2), of bd sid "Some (JObject p)" actor] by (simp add: c)
  moreover have "loaded bd g (Some (config_json bd c)) = c"
    using loaded_written [OF assms(1) ok(1,2)] ok(4) w(3) by blast
  moreover have "map_of (cf_knobs c) k = patched p k (map_of (cf_knobs ?cur) k)"
    using merged_knob [OF assms(1) row_value_ok(1) [OF assms(1)] c1(1) assms(4)] by (simp add: c1(2))
  ultimately show ?thesis by simp
qed

lemma fan_out_knob:
  assumes "build_ok bd" and "global_ok bd g w" and "body_ok bd (Some (JObject p))" and "k \<in> fst ` set (cb_knobs bd)"
    and "\<And>current. knobs_ok bd current \<Longrightarrow> \<exists>c. patch_outcome bd g current (Some (JObject p)) = Inr c"
  shows "map_of (cf_knobs (loaded bd g (hm_get (cw_rows (fan_out bd (Some (JObject p)) actor sids w)) s))) k
    = (if s \<in> set sids then patched p k (map_of (cf_knobs (loaded bd g (hm_get (cw_rows w) s))) k)
       else map_of (cf_knobs (loaded bd g (hm_get (cw_rows w) s))) k)"
  using assms(2)
proof (induction sids arbitrary: w)
  case (Cons sid sids)
  have step: "global_ok bd g (snd (apply_squadron_patch_as bd sid (Some (JObject p)) actor w))"
    by (rule patch_keeps_in_step(1) [OF assms(1) Cons.prems assms(3)])
  have twice: "patched p k (patched p k x) = patched p k x" for x by (simp add: patched_def split: option.split)
  show ?case
    using Cons.IH [OF step] patch_row_knob [where s = s and sid = sid and actor = actor,
        OF assms(1) Cons.prems assms(3,4) assms(5) [OF row_value_ok(1) [OF assms(1)]]]
    by (cases "s = sid") (simp_all add: twice)
qed simp

text \<open>C33: A patch of the global settings is built on the broadcast value it read before it began, and unlike the
  patches of a squadron two of them are not serialized.  When a second one read the broadcast before the first
  was applied, the knob the first set is back at its old value in the broadcast and in the row a restart loads,
  although both requests reported success; and every running squadron keeps the first one's value, so the
  settings the operator is shown are not the ones that trade.\<close>

theorem stale_global_patch_loses_the_other:
  assumes "build_ok bd" and "global_ok bd g w" and "\<forall>s. in_step bd g w s"
    and "event_ok bd (Patch_global (Some (JObject p1)))" and "event_ok bd (Patch_global (Some (JObject p2)))"
    and "patch_config bd Global_and_deployed g (Some (JObject p1)) ''operator'' w = (Inr c1, w1)"
    and "patch_config bd Global_and_deployed g (Some (JObject p2)) ''operator'' w1 = (Inr c2, w2)"
    and "k \<in> fst ` set (cb_knobs bd)" and "map_of p1 k = Some v" and "map_of p2 k = None"
  shows "map_of (cf_knobs c1) k = Some v \<and> map_of (cf_knobs c2) k = map_of (cf_knobs g) k
    \<and> cw_tx w2 = Some c2 \<and> fst (load_or_default bd w2) = c2
    \<and> (\<forall>sid c. hm_contains sid (cw_live w) \<and> squadron_config_snapshot sid w2 = Some c \<longrightarrow> map_of (cf_knobs c) k = Some v)"
proof -
  have g: "knobs_ok bd g" "within_ceilings bd g" "hm_wf (cf_custom_vipers g)" using assms(2) by (simp_all add: global_ok_def)
  have b1: "body_ok bd (Some (JObject p1))" and b2: "body_ok bd (Some (JObject p2))" using assms(4,5) by simp_all
  then have d: "distinct (map fst p1)" "distinct (map fst p2)" by (simp_all add: body_ok_def object_ok_def)
  obtain ids1 w3 where f1: "merged bd g (JObject p1) = Some c1" "w1 = fan_out bd (Some (JObject p1)) ''operator'' ids1 w3"
    "global_ok bd c1 w3" "cw_live w3 = cw_live w" "set (map fst (cw_live w)) \<subseteq> set ids1"
    "\<And>current. knobs_ok bd current \<Longrightarrow> \<exists>c'. patch_outcome bd c1 current (Some (JObject p1)) = Inr c'"
    using global_patch_success [OF assms(1,2) g assms(4,6)] by (metis option.inject)
  have live1: "set (map fst (cw_live w3)) \<subseteq> set ids1" using f1(4,5) by simp
  have w1: "global_ok bd c1 w1"
    unfolding f1(2) by (rule fan_out_all_in_step(1) [OF assms(1) f1(3) b1 live1 f1(6)])
  obtain ids2 w4 where f2: "merged bd g (JObject p2) = Some c2" "w2 = fan_out bd (Some (JObject p2)) ''operator'' ids2 w4"
    "global_ok bd c2 w4" "cw_rows w4 = cw_rows w1" "cw_live w4 = cw_live w1" "set (map fst (cw_live w1)) \<subseteq> set ids2"
    "\<And>current. knobs_ok bd current \<Longrightarrow> \<exists>c'. patch_outcome bd c2 current (Some (JObject p2)) = Inr c'"
    using global_patch_success [OF assms(1) w1 g assms(5,7)] by (metis option.inject)
  have live2: "set (map fst (cw_live w4)) \<subseteq> set ids2" using f2(5,6) by simp
  note w2 = fan_out_all_in_step [OF assms(1) f2(3) b2 live2 f2(7), where actor = "''operator''", folded f2(2)]
  have "map_of (cf_knobs c) k = Some v" if "hm_contains sid (cw_live w)" "squadron_config_snapshot sid w2 = Some c" for sid c
  proof -
    have in1: "sid \<in> set ids1" using that(1) f1(5) by (force simp: hm_contains_def dest: map_of_SomeD)
    have c: "c = loaded bd c2 (hm_get (cw_rows w2) sid)"
      using w2(2) [of sid] that(2) by (simp add: in_step_def squadron_config_snapshot_def)
    have row1: "map_of (cf_knobs (loaded bd c2 (hm_get (cw_rows w1) sid))) k = Some v"
      using fan_out_knob [OF assms(1) f1(3) b1 assms(8) f1(6), of "''operator''" ids1 sid] in1
      by (simp add: loaded_knobs [of bd c2 _ c1] f1(2) patched_def map_of_rev_distinct [OF d(1)] assms(9))
    show ?thesis
      using fan_out_knob [OF assms(1) f2(3) b2 assms(8) f2(7), of "''operator''" ids2 sid] row1
      by (simp add: c f2(2,4) patched_def map_of_rev_distinct [OF d(2)] assms(10))
  qed
  moreover have "cw_tx w2 = Some c2" using w2(1) by (simp add: global_ok_def)
  moreover have "map_of (cf_knobs c1) k = Some v" "map_of (cf_knobs c2) k = map_of (cf_knobs g) k"
    using merged_knob [OF assms(1) g(1) f1(1) assms(8)] merged_knob [OF assms(1) g(1) f2(1) assms(8)]
    by (simp_all add: patched_def map_of_rev_distinct [OF d(1)] map_of_rev_distinct [OF d(2)] assms(9,10))
  ultimately show ?thesis using load_or_default_run [OF assms(1) w2(1)] by auto
qed

text \<open>A failed read of a squadron's row is taken for a row that is not there.  A patch that meets one answers success
  and stores the compiled default in every knob it does not name, whatever the squadron's row held.\<close>

theorem failed_read_resets_squadron:
  assumes "build_ok bd" and "cw_pool w" and "\<not> cw_read_only w" and "cw_tx w = Some g"
    and "\<not> cw_ok w (cw_calls w)" and "\<forall>n > cw_calls w. cw_ok w n" and "distinct (map fst p)"
    and "patch_squadron_config bd sid (Some (JObject p)) w = (Inr c, w')"
    and "k \<in> fst ` set (cb_knobs bd)" and "map_of p k = None"
  shows "map_of (cf_knobs c) k = map_of (cf_knobs (cb_default bd)) k \<and> hm_get (cw_rows w') sid = Some (config_json bd c)"
proof -
  have load: "load_for_squadron bd sid w = (cb_default bd, cw_tick w)"
    using assms(2-5) by (simp add: load_for_squadron_def squadron_config_get_def cw_succeeds_def)
  from assms(8) obtain c1 where c1: "merged bd (cb_default bd) (JObject p) = Some c1" "c = fst (reconcile_global_semantics c1 g)"
    and w': "w' = push_live sid c (save_for_squadron bd sid c (record_squadron_change bd sid ''operator'' c (cw_tick w)))"
    using assms(4) unfolding patch_squadron_config_def apply_squadron_patch_as_def load
    by (auto simp: global_now_def Let_def split: sum.splits option.splits)
  have "map_of (cf_knobs c) k = map_of (cf_knobs (cb_default bd)) k"
    using merged_knob [OF assms(1) build_okD(5) [OF assms(1)] c1(1) assms(9)] assms(10)
    by (simp add: c1(2) patched_def map_of_rev_distinct [OF assms(7)])
  moreover have "hm_get (cw_rows w') sid = Some (config_json bd c)"
    using assms(2,6) by (simp add: w' push_live_def save_for_squadron_def record_squadron_change_def squadron_config_get_def
        record_config_change_def squadron_config_set_def cw_succeeds_def)
  ultimately show ?thesis by simp
qed

text \<open>C34: The read of the global settings, which the seeding of a squadron calls, writes when its row cannot be read: a single
  failed statement, on an instance with one shard, replaces the operator's row by the compiled settings and adds
  to the history, while the broadcast goes on with the old ones until a restart.\<close>

theorem failed_read_overwrites_settings:
  assumes "cw_pool w" and "\<not> cw_read_only w" and "\<not> cw_ok w (cw_calls w)" and "\<forall>n > cw_calls w. cw_ok w n" and "cw_siblings w = []"
  shows "fst (load_or_default bd w) = cb_default bd
    \<and> cw_global (snd (load_or_default bd w)) = Some (config_json bd (cb_default bd))
    \<and> length (cw_history (snd (load_or_default bd w))) = Suc (length (cw_history w))
    \<and> cw_tx (snd (load_or_default bd w)) = cw_tx w"
  using assms
  by (simp add: load_or_default_def load_inner_def config_get_def cw_succeeds_def seed_from_siblings_def newest_row_def
      save_as_def config_set_def record_config_change_def Let_def)

text \<open>A squadron whose row cannot be parsed runs on the compiled settings as they are: its instance fields are not those
  of the broadcast.\<close>

theorem unreadable_row_own_instance_fields:
  assumes "all_ok w" and "cw_tx w = Some g" and "hm_get (cw_rows w) sid = Some r" and "read_config bd r = None"
  shows "squadron_config_snapshot sid (deploy_squadron bd sid w) = Some (cb_default bd)
    \<and> cw_tx (deploy_squadron bd sid w) = Some g"
proof -
  have "load_for_squadron bd sid (cw_tick w) = (cb_default bd, cw_tick (cw_tick w))"
    using load_run [of "cw_tick w" g bd sid] assms by (simp add: loaded_def)
  then show ?thesis
    using assms by (simp add: deploy_squadron_def load_or_init_for_squadron_def squadron_config_get_def all_okD Let_def
        register_squadron_config_handle_def squadron_config_snapshot_def)
qed

text \<open>The test of the ceilings parses the text of a number, and the decoder reads the number itself.  A number that only
  the decoder reads, one printed with an exponent, is not refused: it becomes a stop above every ceiling, in the
  row and in what the request answers, until the next load lowers it.\<close>

theorem exponent_passes_the_ceiling:
  assumes "build_ok bd" and "knobs_ok bd current" and "cb_parse bd n = None" and "cb_number bd n = Some d"
  shows "fst (apply_patch_as bd current (Some (JObject [(''momentum_stop_loss_pct'', JNumber n)])) actor w)
    = Inr (current\<lparr>cf_momentum_stop_loss_pct := d\<rparr>)"
proof -
  let ?p = "[(''momentum_stop_loss_pct'', JNumber n)]"
  let ?c = "current\<lparr>cf_momentum_stop_loss_pct := d\<rparr>"
  have "refuse_ceiling_violations bd (JObject ?p) = Inr ()"
    using assms(3) by (simp add: refuse_ceiling_violations_def ceiling_violations_def build_capped_keys_def
        List.map_filter_simps configured_value_def)
  moreover have "merged bd current (JObject ?p) = Some ?c"
  proof -
    let ?m = "merge_patch_into (config_fields bd current) ?p"
    have same: "map_of ?m k = map_of (config_fields bd current) k" if "k \<noteq> ''momentum_stop_loss_pct''" for k
      using that by (simp add: merge_patch_other)
    have stop: "map_of ?m ''momentum_stop_loss_pct'' = Some (JNumber n)"
      using merge_patch_get [of "''momentum_stop_loss_pct''" "config_fields bd current" ?p] by simp
    have old: "read_config bd (JObject (config_fields bd current)) = Some current"
      using read_config_json [OF assms(1,2)] by (simp add: config_json_def)
    have "k \<noteq> ''momentum_stop_loss_pct''" if "k \<in> fst ` set (cb_knobs bd)" for k
      using build_okD(4) [OF assms(1)] that named_keyI(8) by metis
    then have knobs: "read_knobs bd ?m (cb_knobs bd) = read_knobs bd (config_fields bd current) (cb_knobs bd)"
      by (intro read_knobs_cong) (simp add: same)
    show ?thesis
      using old assms(4) unfolding merged_def json.case read_config_fields knobs
      by (simp add: field_or_def field_of_def same stop read_decimal_def)
  qed
  ultimately show ?thesis by (simp add: apply_patch_as_def)
qed

section \<open>Concrete runs\<close>

text \<open>A build with two knobs, and a text of numbers in tallies.\<close>

definition tally :: "nat \<Rightarrow> string" where
  "tally n = replicate n CHR ''1''"

definition tally_show :: "decimal \<Rightarrow> string" where
  "tally_show d = (case quotient_of d of
     (n, m) \<Rightarrow> (if n < 0 then CHR ''-'' else CHR ''+'') # tally (nat \<bar>n\<bar>) @ CHR '':'' # tally (nat m))"

definition tally_parse :: "string \<Rightarrow> decimal option" where
  "tally_parse t = (case t of
     [] \<Rightarrow> None
   | s # t \<Rightarrow>
       (let a = length (takeWhile (\<lambda>x. x = CHR ''1'') t); b = length t - Suc a
        in if b = 0 then None else Some (of_int ((if s = CHR ''-'' then -1 else 1) * int a) / of_int (int b))))"

lemma takeWhile_tally: "takeWhile (\<lambda>x. x = CHR ''1'') (tally n @ CHR '':'' # xs) = tally n"
  by (induction n) (auto simp: tally_def)

lemma tally_parse_show: "tally_parse (tally_show d) = Some d"
proof -
  obtain n m where q: "quotient_of d = (n, m)" by fastforce
  have "m > 0" using quotient_of_denom_pos [OF q] .
  then have "tally_parse (tally_show d) = Some (of_int n / of_int m)"
    by (simp add: tally_show_def tally_parse_def q takeWhile_tally Let_def) (simp add: tally_def)
  also have "of_int n / of_int m = d" using quotient_of_div [OF q] by simp
  finally show ?thesis .
qed

definition settings_sample :: config where
  "settings_sample =
     \<lparr>cf_ghost_mode = True, cf_book_price_changes = False, cf_helm_enabled = False, cf_helm_live_enabled = False,
      cf_max_open_intents = 2, cf_td_max_entry_price = 1/2, cf_td_stop_loss_pct = 1/2, cf_momentum_stop_loss_pct = 1/2,
      cf_custom_vipers = [], cf_knobs = [(''enable_maker'', JBool False), (''enable_momentum'', JBool False)]\<rparr>"

definition build_sample :: config_build where
  "build_sample =
     \<lparr>cb_show = tally_show, cb_parse = tally_parse, cb_number = (\<lambda>s. Some (of_nat (length s))), cb_show_nat = tally, cb_parse_nat = (\<lambda>s. Some (length s)),
      cb_knobs = [(''enable_maker'', None), (''enable_momentum'', None)], cb_fits = (\<lambda>k v. case v of JBool b \<Rightarrow> True | _ \<Rightarrow> False),
      cb_default = settings_sample, cb_td_entry_ceiling = 1/2, cb_td_stop_ceiling = 1/2, cb_momentum_stop_ceiling = 1/2\<rparr>"

definition store_sample :: config_world where
  "store_sample =
     \<lparr>cw_global = None, cw_rows = [], cw_history = [], cw_tx = None, cw_live = [], cw_origin = Defaults, cw_pool = True,
      cw_read_only = False, cw_siblings = [], cw_ok = (\<lambda>n. True), cw_calls = 0\<rparr>"

lemma build_sample_ok: "build_ok build_sample"
  by (simp add: build_ok_def build_sample_def tally_parse_show tally_def knobs_ok_def settings_sample_def within_ceilings_def
      named_keys_def)

lemma store_sample_ok [simp]: "all_ok store_sample" "rows_readable build_sample store_sample" "cw_live store_sample = []"
  by (simp_all add: all_ok_def rows_readable_def store_sample_def)

theorem settings_read_back_witness:
  "Option.bind (fst (squadron_config_get ''a'' (squadron_config_set ''a'' (config_json build_sample settings_sample) store_sample)))
     (read_config build_sample) = Some settings_sample"
  by (rule settings_read_back [OF build_sample_ok])
    (simp_all add: store_sample_def cw_succeeds_def knobs_ok_def build_sample_def settings_sample_def)

definition maker_on :: "(string \<times> json) list" where
  "maker_on = [(''enable_maker'', JBool True), (''ghost_mode'', JBool False)]"

definition momentum_on :: "(string \<times> json) list" where
  "momentum_on = [(''enable_momentum'', JBool True)]"

definition request_sample :: "config_event list" where
  "request_sample = [Deploy ''a'', Patch_squadron ''a'' (Some (JObject momentum_on)), Patch_global (Some (JObject maker_on))]"

lemma sample_events: "\<forall>e \<in> set request_sample. event_ok build_sample e"
  by (simp add: request_sample_def body_ok_def object_ok_def maker_on_def momentum_on_def build_capped_keys_def)

lemma sample_running:
  "squadron_config_snapshot ''a'' (config_run build_sample request_sample (booted build_sample store_sample))
     = Some (settings_sample\<lparr>cf_ghost_mode := False,
         cf_knobs := [(''enable_maker'', JBool True), (''enable_momentum'', JBool True)]\<rparr>)"
  by code_simp

lemma request_sample_start: "hm_wf (cf_custom_vipers (fst (load_at_startup build_sample store_sample)))"
  by code_simp


text \<open>The same start with one squadron running, and the patches of the two operators.\<close>

definition deployed_sample :: config_world where
  "deployed_sample = config_run build_sample [Deploy ''a''] (booted build_sample store_sample)"

definition both_patched :: config_world where
  "both_patched =
     snd (patch_config build_sample Global_and_deployed settings_sample (Some (JObject maker_on)) ''operator'' deployed_sample)"

lemma deployed_sample_tx: "cw_tx deployed_sample = Some settings_sample"
  by code_simp

lemma deployed_sample_ok: "global_ok build_sample settings_sample deployed_sample" "\<forall>s. in_step build_sample settings_sample deployed_sample s"
proof -
  have "config_inv build_sample deployed_sample"
    unfolding deployed_sample_def
    by (rule config_run_inv [OF build_sample_ok booted_inv [OF build_sample_ok store_sample_ok request_sample_start]]) simp
  with deployed_sample_tx show "global_ok build_sample settings_sample deployed_sample" "\<forall>s. in_step build_sample settings_sample deployed_sample s"
    by (auto simp: config_inv_def global_ok_def)
qed


theorem stale_global_patch_loses_the_other_witness:
  "map_of (cf_knobs (the (cw_tx (snd (patch_config build_sample Global_and_deployed settings_sample (Some (JObject momentum_on)) ''operator''
     both_patched))))) ''enable_maker'' = Some (JBool False)"
proof -
  let ?a = "patch_config build_sample Global_and_deployed settings_sample (Some (JObject maker_on)) ''operator'' deployed_sample"
  let ?b = "patch_config build_sample Global_and_deployed settings_sample (Some (JObject momentum_on)) ''operator'' both_patched"
  have "\<not> isl (fst ?a)" "\<not> isl (fst ?b)" by code_simp+
  then obtain c1 c2 w2 where a: "?a = (Inr c1, both_patched)" and b: "?b = (Inr c2, w2)"
    unfolding both_patched_def by (metis isl_def prod.collapse sum.exhaust)
  have ev: "event_ok build_sample (Patch_global (Some (JObject maker_on)))" "event_ok build_sample (Patch_global (Some (JObject momentum_on)))"
    by (simp_all add: body_ok_def object_ok_def maker_on_def momentum_on_def build_capped_keys_def)
  have "map_of (cf_knobs c2) ''enable_maker'' = Some (JBool False) \<and> cw_tx w2 = Some c2"
    using stale_global_patch_loses_the_other [OF build_sample_ok deployed_sample_ok ev a b, of "''enable_maker''" "JBool True"]
    by (simp add: build_sample_def settings_sample_def maker_on_def momentum_on_def)
  then show ?thesis by (simp add: b)
qed

text \<open>The first statement of a request fails.\<close>

definition flaky_sample :: config_world where
  "flaky_sample = deployed_sample\<lparr>cw_ok := (\<lambda>n. n \<noteq> cw_calls deployed_sample), cw_rows := [(''a'', JNull)]\<rparr>"

theorem failed_read_resets_squadron_witness:
  "\<exists>c w'. patch_squadron_config build_sample ''a'' (Some (JObject maker_on)) flaky_sample = (Inr c, w')
     \<and> map_of (cf_knobs c) ''enable_momentum'' = Some (JBool False)"
proof -
  let ?r = "patch_squadron_config build_sample ''a'' (Some (JObject maker_on)) flaky_sample"
  have "\<not> isl (fst ?r)" by code_simp
  then obtain c w' where r: "?r = (Inr c, w')" by (metis isl_def prod.collapse sum.exhaust)
  have d: "all_ok deployed_sample" using deployed_sample_ok(1) by (simp add: global_ok_def)
  have "cw_pool flaky_sample" "\<not> cw_read_only flaky_sample" "cw_tx flaky_sample = Some settings_sample"
    "\<not> cw_ok flaky_sample (cw_calls flaky_sample)" "\<forall>n > cw_calls flaky_sample. cw_ok flaky_sample n"
    "distinct (map fst maker_on)"
    using all_okD [OF d] deployed_sample_tx by (simp_all add: flaky_sample_def maker_on_def)
  from failed_read_resets_squadron [OF build_sample_ok this r, of "''enable_momentum''"] r show ?thesis
    by (simp add: build_sample_def maker_on_def settings_sample_def)
qed

theorem failed_read_overwrites_settings_witness:
  "cw_global (snd (load_or_default build_sample flaky_sample)) = Some (config_json build_sample settings_sample)"
proof -
  have d: "all_ok deployed_sample" using deployed_sample_ok(1) by (simp add: global_ok_def)
  have "cw_siblings deployed_sample = []" by code_simp
  then have "cw_pool flaky_sample" "\<not> cw_read_only flaky_sample" "\<not> cw_ok flaky_sample (cw_calls flaky_sample)"
    "\<forall>n > cw_calls flaky_sample. cw_ok flaky_sample n" "cw_siblings flaky_sample = []"
    using all_okD [OF d] by (simp_all add: flaky_sample_def)
  from failed_read_overwrites_settings [OF this, of build_sample] show ?thesis by (simp add: build_sample_def)
qed

theorem unreadable_row_own_instance_fields_witness:
  "squadron_config_snapshot ''a'' (deploy_squadron build_sample ''a''
     (store_sample\<lparr>cw_tx := Some (settings_sample\<lparr>cf_ghost_mode := False\<rparr>), cw_rows := [(''a'', JNull)]\<rparr>)) = Some settings_sample"
  using unreadable_row_own_instance_fields [of "store_sample\<lparr>cw_tx := Some (settings_sample\<lparr>cf_ghost_mode := False\<rparr>),
      cw_rows := [(''a'', JNull)]\<rparr>" "settings_sample\<lparr>cf_ghost_mode := False\<rparr>" "''a''" JNull build_sample]
  by (simp add: read_config_def build_sample_def)

text \<open>A number the sample's decoder reads and its decimals do not parse.\<close>

theorem exponent_passes_the_ceiling_witness:
  "fst (apply_patch_as build_sample settings_sample (Some (JObject [(''momentum_stop_loss_pct'', JNumber ''1e'')])) ''operator'' store_sample)
     = Inr (settings_sample\<lparr>cf_momentum_stop_loss_pct := 2\<rparr>)"
  by (rule exponent_passes_the_ceiling [OF build_sample_ok])
    (simp_all add: knobs_ok_def build_sample_def settings_sample_def tally_parse_def)

end
