(* ===== verification/Watchdog.thy ===== *)
theory Watchdog
  imports Viper_Status
begin

text \<open>
  The activity breadcrumb of \<open>src/helpers/watchdog.rs\<close> and the native watchdog thread of \<open>src/main.rs\<close> that
  reads it.  The breadcrumb's atomics are a record; clocks are whole seconds and an argument.  The thread
  is one function per wake-up, and the process around it a step relation: the trading loop beats, the
  engine parks for its setup (there is no way back from that), and the thread wakes.  The dump of thread
  states and the texts on standard error are left out, the fact that they are written is not.
\<close>

section \<open>The breadcrumb\<close>

datatype loop_phase =
    IdlePhase | SignalEval | GboostRetrain | OrderPlace | OrderCancel | MarketRotate | ChainSync | SettlementPhase
  | CleanupPhase | WsReconnect | OtherPhase

fun phase_code :: "loop_phase \<Rightarrow> nat" where
  "phase_code IdlePhase = 0"
| "phase_code SignalEval = 1"
| "phase_code GboostRetrain = 2"
| "phase_code OrderPlace = 3"
| "phase_code OrderCancel = 4"
| "phase_code MarketRotate = 5"
| "phase_code ChainSync = 6"
| "phase_code SettlementPhase = 7"
| "phase_code CleanupPhase = 8"
| "phase_code WsReconnect = 9"
| "phase_code OtherPhase = 255"

definition phase_name :: "nat \<Rightarrow> string" where
  "phase_name code =
     (if code = 0 then ''IDLE'' else if code = 1 then ''SIGNAL_EVAL'' else if code = 2 then ''GBOOST_RETRAIN''
      else if code = 3 then ''ORDER_PLACE'' else if code = 4 then ''ORDER_CANCEL'' else if code = 5 then ''MARKET_ROTATE''
      else if code = 6 then ''CHAIN_SYNC'' else if code = 7 then ''SETTLEMENT'' else if code = 8 then ''CLEANUP''
      else if code = 9 then ''WS_RECONNECT'' else ''OTHER'')"

record breadcrumb =
  bc_phase :: nat
  bc_since :: nat
  bc_seq :: nat
  bc_detail :: nat

definition no_breadcrumb :: breadcrumb where
  "no_breadcrumb = \<lparr>bc_phase = phase_code IdlePhase, bc_since = 0, bc_seq = 0, bc_detail = 255\<rparr>"

definition next_seq :: "nat \<Rightarrow> nat" where
  "next_seq n = (n + 1) mod 2 ^ 64"

definition enter :: "loop_phase \<Rightarrow> nat \<Rightarrow> breadcrumb \<Rightarrow> breadcrumb" where
  "enter p now bc = \<lparr>bc_phase = phase_code p, bc_since = now, bc_seq = next_seq (bc_seq bc), bc_detail = 255\<rparr>"

definition set_detail :: "nat \<Rightarrow> breadcrumb \<Rightarrow> breadcrumb" where
  "set_detail d bc = bc\<lparr>bc_detail := d\<rparr>"

definition enter_eval :: "nat \<Rightarrow> nat \<Rightarrow> breadcrumb \<Rightarrow> breadcrumb" where
  "enter_eval d now bc =
     \<lparr>bc_phase = phase_code SignalEval, bc_since = now, bc_seq = next_seq (bc_seq bc), bc_detail = d\<rparr>"

definition has_substring :: "string \<Rightarrow> string \<Rightarrow> bool" where
  "has_substring s needle \<longleftrightarrow> list_ex (\<lambda>i. take (length needle) (drop i s) = needle) [0..<Suc (length s)]"

definition signal_detail_for :: "string \<Rightarrow> nat" where
  "signal_detail_for strategy_name =
     (let n = to_lowercase strategy_name in
      if has_substring n ''momentum'' then 0
      else if has_substring n ''arbitrage'' then 1
      else if has_substring n ''timedecay'' \<or> has_substring n ''time_decay'' then 2
      else if has_substring n ''maker'' then 3
      else if has_substring n ''basis'' then 4
      else if has_substring n ''gboost'' then 5
      else if has_substring n ''trendreversal'' \<or> has_substring n ''trend_reversal'' then 6
      else if has_substring n ''convergence'' then 7
      else if has_substring n ''trendcapture'' \<or> has_substring n ''trend_capture'' then 8
      else 255)"

definition detail_name :: "nat \<Rightarrow> string option" where
  "detail_name d =
     map_of [(100, ''setup:book_snapshot''), (101, ''setup:config_read''), (102, ''setup:pnl_lock''),
       (103, ''setup:collateral_lock''), (104, ''setup:positions_lock''), (105, ''setup:quote_epochs_lock''),
       (106, ''setup:ctx_build''), (0, ''momentum''), (1, ''arbitrage''), (2, ''time_decay''), (3, ''maker''),
       (4, ''basis''), (5, ''gboost''), (6, ''trend_reversal''), (7, ''convergence''), (8, ''trend_capture'')] d"

definition breadcrumb_snapshot :: "nat \<Rightarrow> breadcrumb \<Rightarrow> string \<times> nat \<times> nat" where
  "breadcrumb_snapshot now bc =
     (let never_entered = (bc_seq bc = 0);
          secs = (if never_entered then 0 else now - bc_since bc);
          label = (case detail_name (bc_detail bc) of
              Some d \<Rightarrow> phase_name (bc_phase bc) @ ''/'' @ d
            | None \<Rightarrow> phase_name (bc_phase bc) @ (if never_entered then '' (never entered)'' else []))
      in (label, secs, bc_seq bc))"

section \<open>The watchdog thread\<close>

definition process_watchdog_timeout_secs :: nat where
  "process_watchdog_timeout_secs = 300"

definition soft_warn_secs :: nat where
  "soft_warn_secs = 180"

record dog =
  dog_soft_warned :: bool
  dog_parked_noted :: bool

datatype dog_outcome = SleepOn | Noted | SoftWarned | Killed

text \<open>One wake-up: the outcome, the heartbeat (a parked engine's is refreshed) and the thread's own state.\<close>

definition dog_wake :: "bool \<Rightarrow> bool \<Rightarrow> bool \<Rightarrow> nat \<Rightarrow> nat \<Rightarrow> dog \<Rightarrow> dog_outcome \<times> nat \<times> dog" where
  "dog_wake parked_for_setup retired parked_for_backup now last_beat d =
     (let silent = now - last_beat;
          noted = (if dog_parked_noted d then SleepOn else Noted)
      in if parked_for_setup then (noted, last_beat, d\<lparr>dog_parked_noted := True\<rparr>)
         else if retired \<or> parked_for_backup then (noted, now, d\<lparr>dog_parked_noted := True\<rparr>)
         else let warn = (soft_warn_secs < silent \<and> silent \<le> process_watchdog_timeout_secs \<and> \<not> dog_soft_warned d);
                  d' = (if soft_warn_secs < silent \<and> silent \<le> process_watchdog_timeout_secs
                        then d\<lparr>dog_soft_warned := True\<rparr>
                        else if silent \<le> soft_warn_secs then d\<lparr>dog_soft_warned := False\<rparr> else d)
              in (if process_watchdog_timeout_secs < silent then Killed else if warn then SoftWarned else SleepOn,
                  last_beat, d'))"

section \<open>The process around it\<close>

record process =
  pr_clock :: nat
  pr_heartbeat :: nat
  pr_beats :: "nat list"
  pr_setup :: bool
  pr_retired :: bool
  pr_backup :: bool
  pr_dog :: dog
  pr_last_wake :: nat
  pr_warnings :: "nat list"

definition boot :: "nat \<Rightarrow> process" where
  "boot t =
     \<lparr>pr_clock = t, pr_heartbeat = t, pr_beats = [], pr_setup = False, pr_retired = False, pr_backup = False,
      pr_dog = \<lparr>dog_soft_warned = False, dog_parked_noted = False\<rparr>, pr_last_wake = t, pr_warnings = []\<rparr>"

definition wake_outcome :: "nat \<Rightarrow> process \<Rightarrow> dog_outcome" where
  "wake_outcome t p = fst (dog_wake (pr_setup p) (pr_retired p) (pr_backup p) t (pr_heartbeat p) (pr_dog p))"

definition after_wake :: "nat \<Rightarrow> process \<Rightarrow> process" where
  "after_wake t p =
     (let (out, hb, d) = dog_wake (pr_setup p) (pr_retired p) (pr_backup p) t (pr_heartbeat p) (pr_dog p)
      in p\<lparr>pr_clock := t, pr_heartbeat := hb, pr_dog := d, pr_last_wake := t,
           pr_warnings := (if out = SoftWarned then [t] else []) @ pr_warnings p\<rparr>)"

text \<open>The thread sleeps a minute between wake-ups; \<open>gap\<close> bounds how late a wake-up may come.\<close>

inductive process_step :: "nat \<Rightarrow> process \<Rightarrow> process \<Rightarrow> bool" for gap where
  beats: "pr_clock p \<le> t \<Longrightarrow>
     process_step gap p (p\<lparr>pr_clock := t, pr_heartbeat := t, pr_beats := t # pr_beats p\<rparr>)"
| parks_for_setup: "process_step gap p (p\<lparr>pr_setup := True\<rparr>)"
| backs_up: "process_step gap p (p\<lparr>pr_backup := b\<rparr>)"
| retires: "process_step gap p (p\<lparr>pr_retired := b\<rparr>)"
| wakes: "pr_clock p \<le> t \<Longrightarrow> t \<le> pr_last_wake p + gap \<Longrightarrow> wake_outcome t p \<noteq> Killed \<Longrightarrow>
     process_step gap p (after_wake t p)"

inductive_cases process_stepE: "process_step gap p q"

inductive reachable :: "nat \<Rightarrow> process \<Rightarrow> bool" for gap where
  booted: "reachable gap (boot t)"
| steps: "reachable gap p \<Longrightarrow> process_step gap p q \<Longrightarrow> reachable gap q"

lemmas dog_defs = dog_wake_def wake_outcome_def after_wake_def process_watchdog_timeout_secs_def soft_warn_secs_def

section \<open>When it kills\<close>

lemma wake_killed_iff:
  "wake_outcome t p = Killed \<longleftrightarrow>
     \<not> pr_setup p \<and> \<not> pr_retired p \<and> \<not> pr_backup p \<and> pr_heartbeat p + 300 < t"
  by (auto simp: dog_defs Let_def)

definition dog_inv :: "process \<Rightarrow> bool" where
  "dog_inv p \<longleftrightarrow>
     pr_heartbeat p \<le> pr_clock p \<and> pr_last_wake p \<le> pr_clock p \<and>
     (\<forall>b \<in> set (pr_beats p). b \<le> pr_heartbeat p)"

lemma dog_inv_step: "process_step gap p q \<Longrightarrow> dog_inv p \<Longrightarrow> dog_inv q"
  by (induction rule: process_step.induct) (auto simp: dog_inv_def dog_defs Let_def split: if_splits)

lemma dog_inv_reachable: "reachable gap p \<Longrightarrow> dog_inv p"
  by (induction rule: reachable.induct) (auto simp: dog_inv_step, simp add: dog_inv_def boot_def)

text \<open>With wake-ups at most two minutes apart, a thread that has not warned has seen the heartbeat no more than
  three minutes old, and one that has warned did so since that heartbeat.\<close>

definition warned_inv :: "process \<Rightarrow> bool" where
  "warned_inv p \<longleftrightarrow>
     (\<not> pr_setup p \<longrightarrow>
        (if dog_soft_warned (pr_dog p)
         then (\<exists>w \<in> set (pr_warnings p). pr_heartbeat p < w) \<or> pr_last_wake p \<le> pr_heartbeat p
         else pr_last_wake p \<le> pr_heartbeat p + 180))"

lemma warned_inv_step:
  "process_step gap p q \<Longrightarrow> gap \<le> 120 \<Longrightarrow> dog_inv p \<Longrightarrow> warned_inv p \<Longrightarrow> warned_inv q"
proof (induction rule: process_step.induct)
  case (wakes p t)
  then show ?case
    by (cases "pr_setup p"; cases "pr_retired p \<or> pr_backup p"; cases "dog_soft_warned (pr_dog p)")
      (auto simp: warned_inv_def dog_inv_def dog_defs Let_def split: if_splits)
qed (auto simp: warned_inv_def dog_inv_def)

lemma warned_inv_reachable: "reachable gap p \<Longrightarrow> gap \<le> 120 \<Longrightarrow> warned_inv p"
  by (induction rule: reachable.induct)
    (auto simp: warned_inv_step dog_inv_reachable, simp add: warned_inv_def boot_def)

text \<open>C29: The watchdog kills only a silent engine: never one that is parked for its setup, retired or backing up,
  never one whose loop has beaten within the last five minutes, and (when its wake-ups come at most two
  minutes apart, as the one-minute sleep intends) never without having warned since the last beat.\<close>

theorem watchdog_warns_before_it_kills:
  assumes "reachable gap p" "gap \<le> 120" "t \<le> pr_last_wake p + gap" "wake_outcome t p = Killed"
  shows "\<not> pr_setup p \<and> \<not> pr_retired p \<and> \<not> pr_backup p \<and>
    (\<forall>b \<in> set (pr_beats p). b + 300 < t) \<and> (\<exists>w \<in> set (pr_warnings p). pr_heartbeat p < w)"
proof -
  have silent: "\<not> pr_setup p" "\<not> pr_retired p" "\<not> pr_backup p" "pr_heartbeat p + 300 < t"
    using assms(4) by (auto simp: wake_killed_iff)
  have "\<forall>b \<in> set (pr_beats p). b \<le> pr_heartbeat p"
    using dog_inv_reachable [OF assms(1)] by (simp add: dog_inv_def)
  then have beats: "\<forall>b \<in> set (pr_beats p). b + 300 < t" using silent(4) by fastforce
  have late: "pr_heartbeat p + 180 < pr_last_wake p" using silent(4) assms(2,3) by linarith
  then show ?thesis
    using warned_inv_reachable [OF assms(1,2)] silent beats by (auto simp: warned_inv_def split: if_splits)
qed

lemma frozen_engine_reachable: "reachable 120 (after_wake 240 (after_wake 120 (boot 0)))"
proof -
  have "reachable 120 (after_wake 120 (boot 0))"
    by (rule reachable.steps [OF reachable.booted], rule process_step.wakes) (simp_all add: boot_def dog_defs)
  then show ?thesis
    by (rule reachable.steps, intro process_step.wakes) (simp_all add: boot_def dog_defs)
qed

theorem watchdog_warns_before_it_kills_witness:
  "\<exists>w \<in> set (pr_warnings (after_wake 240 (after_wake 120 (boot 0)))). 0 < w"
  using watchdog_warns_before_it_kills [OF frozen_engine_reachable, of 301]
  by (simp add: boot_def dog_defs)

text \<open>A wake-up kills exactly when the engine is neither parked, nor retired, nor backing up, and shows no sign
  of life for more than five minutes: so a frozen engine dies at the first such wake-up, and one that was
  seen backing up gets a full five minutes after it.\<close>

theorem watchdog_kills_the_frozen:
  "wake_outcome t p = Killed \<longleftrightarrow>
     \<not> pr_setup p \<and> \<not> pr_retired p \<and> \<not> pr_backup p \<and> pr_heartbeat p + process_watchdog_timeout_secs < t"
  "\<not> pr_setup p \<Longrightarrow> pr_backup p \<Longrightarrow>
     wake_outcome u (after_wake t p\<lparr>pr_backup := False, pr_retired := False\<rparr>) = Killed \<longleftrightarrow> t + 300 < u"
  by (auto simp: wake_killed_iff process_watchdog_timeout_secs_def) (auto simp: dog_defs)

end
