(* ===== verification/Collateral_Sweep.thy ===== *)
theory Collateral_Sweep
  imports Watchdog
begin

text \<open>
  The sweep of stranded collateral, \<open>src/tasks/collateral_sweep.rs\<close>, with the confirmed Safe transaction it
  uses (\<open>src/tasks/cleanup.rs\<close>).  What the chain answers in one run is a record of answers (\<open>None\<close> is an error
  or a time-out), and the module's statics are a state.  Every submitted transaction is logged with the time
  of the run's decision, every recorded failure with its time; the log lines are left out.
\<close>

section \<open>Transactions through the Safe\<close>

datatype address = UsdceCollateral | PusdCollateral | CollateralOnramp | SafeAddress | OtherAddress nat

datatype calldata =
    ApproveCall address nat
  | WrapCall address address nat

datatype send_answer = SendFailed | ReceiptTimedOut | ReceiptFailed | Receipt bool

definition submitted :: "send_answer \<Rightarrow> bool" where
  "submitted a \<longleftrightarrow> a \<noteq> SendFailed"

definition send_via_safe :: "send_answer \<Rightarrow> bool option" where
  "send_via_safe a = (case a of Receipt s \<Rightarrow> Some s | _ \<Rightarrow> None)"

definition execute_via_safe_confirmed :: "send_answer \<Rightarrow> bool" where
  "execute_via_safe_confirmed a = (case send_via_safe a of None \<Rightarrow> False | Some succeeded \<Rightarrow> succeeded)"

section \<open>The decision\<close>

definition failure_cooldown_secs :: int where
  "failure_cooldown_secs = 30 * 60"

datatype sweep_decision_kind = NothingStranded | SweepDisabled | BelowMinimum | CoolingDown | SweepNow

definition sweep_decision :: "bool \<Rightarrow> decimal \<Rightarrow> decimal \<Rightarrow> utc option \<Rightarrow> utc \<Rightarrow> sweep_decision_kind" where
  "sweep_decision enabled stranded min_usdc last_failure now =
     (if stranded \<le> 0 then NothingStranded
      else if \<not> enabled then SweepDisabled
      else if stranded < max min_usdc (1 / 100) then BelowMinimum
      else case last_failure of
          Some failed_at \<Rightarrow> if num_seconds (now - failed_at) < failure_cooldown_secs then CoolingDown else SweepNow
        | None \<Rightarrow> SweepNow)"

text \<open>The decimal type holds integers below \<open>2 ^ 96\<close>; a longer amount does not parse.\<close>

definition base_units_to_decimal :: "nat \<Rightarrow> decimal" where
  "base_units_to_decimal raw = (if raw < 2 ^ 96 then of_nat raw / 1000000 else 0)"

section \<open>One run\<close>

record answers =
  an_contended :: bool
  an_started :: utc
  an_balance :: "nat option"
  an_enabled :: bool
  an_min_usdc :: decimal
  an_now :: utc
  an_token :: "address option"
  an_paused :: "bool option"
  an_allowance :: "nat option"
  an_approve :: send_answer
  an_wrap :: send_answer
  an_balance_after :: "nat option"
  an_finished :: utc

record sweep_state =
  sw_last_failure :: "utc option"
  sw_stranded :: "decimal option"
  sw_refresh :: bool
  sw_crumb :: breadcrumb
  sw_txs :: "(utc \<times> address \<times> calldata) list"
  sw_failures :: "utc list"

definition record_failure :: "utc \<Rightarrow> sweep_state \<Rightarrow> sweep_state" where
  "record_failure now st = st\<lparr>sw_last_failure := Some now, sw_failures := now # sw_failures st\<rparr>"

definition publish_stranded :: "decimal \<Rightarrow> sweep_state \<Rightarrow> sweep_state" where
  "publish_stranded v st = st\<lparr>sw_stranded := Some v\<rparr>"

definition take_clob_refresh_needed :: "sweep_state \<Rightarrow> bool \<times> sweep_state" where
  "take_clob_refresh_needed st = (sw_refresh st, st\<lparr>sw_refresh := False\<rparr>)"

definition log_tx :: "answers \<Rightarrow> send_answer \<Rightarrow> address \<Rightarrow> calldata \<Rightarrow> sweep_state \<Rightarrow> sweep_state" where
  "log_tx an a target data st =
     (if submitted a then st\<lparr>sw_txs := (an_now an, target, data) # sw_txs st\<rparr> else st)"

text \<open>After a confirmed wrap: success is the balance moving.\<close>

definition verify_wrap :: "answers \<Rightarrow> nat \<Rightarrow> sweep_state \<Rightarrow> sweep_state" where
  "verify_wrap an raw st =
     (case an_balance_after an of
        None \<Rightarrow> st\<lparr>sw_refresh := True\<rparr>
      | Some after \<Rightarrow>
          if raw \<le> after then record_failure (an_finished an) st
          else (publish_stranded (base_units_to_decimal after) st)\<lparr>sw_last_failure := None, sw_refresh := True\<rparr>)"

definition wrap_collateral :: "answers \<Rightarrow> nat \<Rightarrow> sweep_state \<Rightarrow> sweep_state" where
  "wrap_collateral an raw st =
     (let st = log_tx an (an_wrap an) CollateralOnramp (WrapCall UsdceCollateral SafeAddress raw) st
      in if execute_via_safe_confirmed (an_wrap an) then verify_wrap an raw st
         else record_failure (an_finished an) st)"

definition approve_and_wrap :: "answers \<Rightarrow> nat \<Rightarrow> nat \<Rightarrow> sweep_state \<Rightarrow> sweep_state" where
  "approve_and_wrap an raw allowance st =
     (if allowance < raw
      then let st = log_tx an (an_approve an) UsdceCollateral (ApproveCall CollateralOnramp raw) st
           in if execute_via_safe_confirmed (an_approve an) then wrap_collateral an raw st
              else record_failure (an_finished an) st
      else wrap_collateral an raw st)"

definition onramp_vouches :: "answers \<Rightarrow> bool" where
  "onramp_vouches an \<longleftrightarrow> an_token an = Some PusdCollateral \<and> an_paused an \<noteq> Some True"

definition sweep_stranded_collateral :: "answers \<Rightarrow> sweep_state \<Rightarrow> sweep_state" where
  "sweep_stranded_collateral an st =
     (let st = st\<lparr>sw_crumb := enter SettlementPhase (nat (an_started an div nanos_per_sec)) (sw_crumb st)\<rparr>
      in if an_contended an then st
         else case an_balance an of
             None \<Rightarrow> st
           | Some raw \<Rightarrow>
               let stranded = base_units_to_decimal raw;
                   st = publish_stranded stranded st
               in if sweep_decision (an_enabled an) stranded (an_min_usdc an) (sw_last_failure st) (an_now an)
                     \<noteq> SweepNow
                  then st
                  else if \<not> onramp_vouches an then record_failure (an_finished an) st
                  else case an_allowance an of
                      None \<Rightarrow> record_failure (an_finished an) st
                    | Some allowance \<Rightarrow> approve_and_wrap an raw allowance st)"

lemmas sweep_defs = sweep_stranded_collateral_def approve_and_wrap_def wrap_collateral_def verify_wrap_def
  log_tx_def record_failure_def publish_stranded_def Let_def

section \<open>What one run may do\<close>

abbreviation approve_tx :: "answers \<Rightarrow> nat \<Rightarrow> utc \<times> address \<times> calldata" where
  "approve_tx an raw \<equiv> (an_now an, UsdceCollateral, ApproveCall CollateralOnramp raw)"

abbreviation wrap_tx :: "answers \<Rightarrow> nat \<Rightarrow> utc \<times> address \<times> calldata" where
  "wrap_tx an raw \<equiv> (an_now an, CollateralOnramp, WrapCall UsdceCollateral SafeAddress raw)"

text \<open>The conditions under which a run goes as far as the chain.\<close>

definition may_sweep :: "answers \<Rightarrow> sweep_state \<Rightarrow> nat \<Rightarrow> bool" where
  "may_sweep an st raw \<longleftrightarrow>
     \<not> an_contended an \<and> an_balance an = Some raw \<and> an_enabled an \<and>
     max (an_min_usdc an) (1 / 100) \<le> base_units_to_decimal raw \<and> onramp_vouches an \<and>
     (case sw_last_failure st of None \<Rightarrow> True
      | Some f \<Rightarrow> failure_cooldown_secs \<le> num_seconds (an_now an - f))"

lemma decision_sweep_iff:
  "sweep_decision en v m lf now = SweepNow \<longleftrightarrow>
     0 < v \<and> en \<and> max m (1 / 100) \<le> v \<and>
     (case lf of None \<Rightarrow> True | Some f \<Rightarrow> failure_cooldown_secs \<le> num_seconds (now - f))"
  by (auto simp: sweep_decision_def not_le not_less split: option.splits)

lemma run_txs:
  "sw_txs (sweep_stranded_collateral an st) = sw_txs st \<or>
   (\<exists>raw allowance. may_sweep an st raw \<and> an_allowance an = Some allowance \<and>
      (if allowance < raw
       then sw_txs (sweep_stranded_collateral an st) = approve_tx an raw # sw_txs st \<or>
            execute_via_safe_confirmed (an_approve an) \<and>
            sw_txs (sweep_stranded_collateral an st) = wrap_tx an raw # approve_tx an raw # sw_txs st
       else sw_txs (sweep_stranded_collateral an st) = wrap_tx an raw # sw_txs st))"
  by (auto simp: sweep_defs may_sweep_def decision_sweep_iff split: option.splits)
    (auto simp: submitted_def execute_via_safe_confirmed_def send_via_safe_def split: send_answer.splits option.splits)

text \<open>One run submits at most an approval and a wrap, each of exactly the stranded balance it read and only to the
  on-ramp, back to the Safe; and it submits anything only when the sweep is enabled, no other run holds the
  lock, the balance reaches the operator's minimum and the cent floor, the on-ramp names pUSD as its
  token and does not report itself paused, and half an hour has passed since the recorded failure.  The wrap
  goes out only under a sufficient allowance or a confirmed approval.\<close>

theorem sweep_run_bounded:
  "\<exists>new. sw_txs (sweep_stranded_collateral an st) = new @ sw_txs st \<and> length new \<le> 2 \<and>
     (new \<noteq> [] \<longrightarrow> (\<exists>raw allowance. may_sweep an st raw \<and> an_allowance an = Some allowance \<and>
        set new \<subseteq> {approve_tx an raw, wrap_tx an raw} \<and> distinct new \<and>
        (approve_tx an raw \<in> set new \<longleftrightarrow> allowance < raw) \<and>
        (wrap_tx an raw \<in> set new \<longrightarrow> allowance < raw \<longrightarrow> execute_via_safe_confirmed (an_approve an))))"
  using run_txs [of an st]
  by (elim disjE exE conjE)
    (force split: if_splits intro: exI [of _ "[]"] exI [of _ "[x]" for x] exI [of _ "[x, y]" for x y])+

section \<open>The cooldown\<close>

fun in_order :: "utc \<Rightarrow> answers list \<Rightarrow> bool" where
  "in_order c [] \<longleftrightarrow> True"
| "in_order c (an # ans) \<longleftrightarrow> c \<le> an_now an \<and> an_now an \<le> an_finished an \<and> in_order (an_finished an) ans"

definition sweep_runs :: "answers list \<Rightarrow> sweep_state \<Rightarrow> sweep_state" where
  "sweep_runs ans st = fold sweep_stranded_collateral ans st"

definition no_sweep_yet :: sweep_state where
  "no_sweep_yet =
     \<lparr>sw_last_failure = None, sw_stranded = None, sw_refresh = False, sw_crumb = no_breadcrumb, sw_txs = [],
      sw_failures = []\<rparr>"

definition cooled :: "utc \<Rightarrow> utc \<Rightarrow> bool" where
  "cooled f t \<longleftrightarrow> f + from_secs 1800 \<le> t"

lemma cooldown_over_iff: "failure_cooldown_secs \<le> num_seconds (t - f) \<longleftrightarrow> cooled f t"
proof (cases "0 \<le> t - f")
  case True
  then show ?thesis
    using int_le_div_iff [OF nanos_per_sec_pos, of 1800 "t - f"]
    by (cases "t = f")
      (auto simp: num_seconds_def failure_cooldown_secs_def cooled_def from_secs_def nanos_per_sec_def)
next
  case False
  then have "num_seconds (t - f) \<le> 0"
    using num_seconds_mono [of "t - f" 0] by (simp add: num_seconds_def)
  moreover have "\<not> cooled f t" using False by (simp add: cooled_def from_secs_def nanos_per_sec_def)
  ultimately show ?thesis by (simp add: failure_cooldown_secs_def)
qed

text \<open>Every failure has cooled by the clock, or is covered by the one the cooldown remembers.\<close>

definition cooldown_inv :: "utc \<Rightarrow> sweep_state \<Rightarrow> bool" where
  "cooldown_inv c st \<longleftrightarrow>
     (\<forall>f \<in> set (sw_failures st). f \<le> c \<and> (cooled f c \<or> (\<exists>f0. sw_last_failure st = Some f0 \<and> f \<le> f0))) \<and>
     (\<forall>f \<in> set (sw_failures st). \<forall>x \<in> set (sw_txs st). f < fst x \<longrightarrow> cooled f (fst x)) \<and>
     (\<forall>x \<in> set (sw_txs st). fst x \<le> c)"

lemma cooled_mono: "cooled f t \<Longrightarrow> t \<le> t' \<Longrightarrow> f' \<le> f \<Longrightarrow> cooled f' t'"
  by (simp add: cooled_def)

lemma run_failures:
  "(sw_failures (sweep_stranded_collateral an st) = sw_failures st \<and>
      (sw_last_failure (sweep_stranded_collateral an st) = sw_last_failure st \<or>
       (\<exists>raw. may_sweep an st raw) \<and> sw_last_failure (sweep_stranded_collateral an st) = None)) \<or>
   (\<exists>raw. may_sweep an st raw \<or> \<not> an_contended an) \<and>
      sw_failures (sweep_stranded_collateral an st) = an_finished an # sw_failures st \<and>
      sw_last_failure (sweep_stranded_collateral an st) = Some (an_finished an)"
  by (auto simp: sweep_defs may_sweep_def decision_sweep_iff split: option.splits)

lemma run_new_tx:
  assumes "x \<in> set (sw_txs (sweep_stranded_collateral an st))"
  shows "x \<in> set (sw_txs st) \<or> (\<exists>raw. may_sweep an st raw) \<and> fst x = an_now an"
  using run_txs [of an st] assms by (elim disjE exE conjE) (auto split: if_splits)

lemma may_sweep_cooled:
  assumes "may_sweep an st raw" "cooldown_inv c st" "c \<le> an_now an" "f \<in> set (sw_failures st)"
  shows "cooled f (an_now an)"
  using assms by (auto simp: may_sweep_def cooldown_inv_def cooldown_over_iff split: option.splits
      intro: cooled_mono)

lemma cooldown_inv_run:
  assumes inv: "cooldown_inv c st" and c: "c \<le> an_now an" "an_now an \<le> an_finished an"
  shows "cooldown_inv (an_finished an) (sweep_stranded_collateral an st)"
proof -
  let ?st = "sweep_stranded_collateral an st"
  have old: "f \<le> an_now an" if "f \<in> set (sw_failures st)" for f
    using inv c that by (fastforce simp: cooldown_inv_def)
  have fails: "f \<in> set (sw_failures st) \<or> f = an_finished an" if "f \<in> set (sw_failures ?st)" for f
    using run_failures [of an st] that by auto
  have "f \<le> an_finished an \<and> (cooled f (an_finished an) \<or> (\<exists>f0. sw_last_failure ?st = Some f0 \<and> f \<le> f0))"
    if f: "f \<in> set (sw_failures ?st)" for f
    using run_failures [of an st]
  proof (elim disjE conjE)
    assume "sw_failures ?st = sw_failures st" "sw_last_failure ?st = sw_last_failure st"
    then show ?thesis using inv f c by (fastforce simp: cooldown_inv_def intro: cooled_mono)
  next
    assume same: "sw_failures ?st = sw_failures st" and sweep: "\<exists>raw. may_sweep an st raw"
    then have "cooled f (an_now an)" using may_sweep_cooled [OF _ inv c(1)] f by auto
    then show ?thesis using old [of f] f same c cooled_mono by fastforce
  next
    assume "sw_failures ?st = an_finished an # sw_failures st" "sw_last_failure ?st = Some (an_finished an)"
    then show ?thesis using fails [OF f] old c by fastforce
  qed
  moreover have "cooled f (fst x)"
    if "f \<in> set (sw_failures ?st)" "x \<in> set (sw_txs ?st)" "f < fst x" for f x
    using fails [OF that(1)] run_new_tx [OF that(2)] that(3) inv c may_sweep_cooled [OF _ inv c(1)]
    by (fastforce simp: cooldown_inv_def)
  moreover have "fst x \<le> an_finished an" if "x \<in> set (sw_txs ?st)" for x
    using run_new_tx [OF that] inv c by (fastforce simp: cooldown_inv_def)
  ultimately show ?thesis by (auto simp: cooldown_inv_def)
qed

lemma cooldown_inv_runs: "in_order c ans \<Longrightarrow> cooldown_inv c st \<Longrightarrow> \<exists>c'. cooldown_inv c' (sweep_runs ans st)"
  by (induction ans arbitrary: c st) (auto simp: sweep_runs_def intro: cooldown_inv_run)

text \<open>C28: Over any sequence of runs (the lock keeps them apart, so each ends before the next decides), no run submits
  a transaction within half an hour after a failure recorded by any earlier one.\<close>

theorem sweep_cooldown_holds:
  assumes "in_order c ans" "f \<in> set (sw_failures (sweep_runs ans no_sweep_yet))"
    "(d, tx) \<in> set (sw_txs (sweep_runs ans no_sweep_yet))" "f < d"
  shows "f + from_secs 1800 \<le> d"
proof -
  have "cooldown_inv c no_sweep_yet" by (simp add: cooldown_inv_def no_sweep_yet_def)
  from cooldown_inv_runs [OF assms(1) this] show ?thesis
    using assms(2-4) by (fastforce simp: cooldown_inv_def cooled_def)
qed

definition sample_answers :: "utc \<Rightarrow> nat option \<Rightarrow> answers" where
  "sample_answers t after =
     \<lparr>an_contended = False, an_started = t, an_balance = Some 5053757, an_enabled = True, an_min_usdc = 1,
      an_now = t, an_token = Some PusdCollateral, an_paused = Some False, an_allowance = Some 0,
      an_approve = Receipt True, an_wrap = Receipt True, an_balance_after = after, an_finished = t\<rparr>"

lemmas sample_sweep_defs = sample_answers_def no_sweep_yet_def sweep_defs sweep_runs_def sweep_decision_def
  base_units_to_decimal_def onramp_vouches_def submitted_def execute_via_safe_confirmed_def send_via_safe_def
  failure_cooldown_secs_def num_seconds_def nanos_per_sec_def from_secs_def

theorem sweep_cooldown_holds_witness:
  "0 + from_secs 1800 \<le> from_secs 1800"
  by (rule sweep_cooldown_holds
        [where c = 0 and ans = "[sample_answers 0 (Some 5053757), sample_answers (from_secs 1800) (Some 0)]"
          and f = 0 and d = "from_secs 1800" and tx = "(UsdceCollateral, ApproveCall CollateralOnramp 5053757)"])
    (simp_all add: sample_sweep_defs)

theorem sweep_run_bounded_witness:
  "\<exists>raw. may_sweep (sample_answers 0 (Some 0)) no_sweep_yet raw \<and>
     set (sw_txs (sweep_stranded_collateral (sample_answers 0 (Some 0)) no_sweep_yet)) \<subseteq>
       {approve_tx (sample_answers 0 (Some 0)) raw, wrap_tx (sample_answers 0 (Some 0)) raw}"
proof -
  have "sw_txs (sweep_stranded_collateral (sample_answers 0 (Some 0)) no_sweep_yet) \<noteq> []"
    by (simp add: sample_sweep_defs)
  then show ?thesis
    using sweep_run_bounded [of "sample_answers 0 (Some 0)" no_sweep_yet] by (auto simp: no_sweep_yet_def)
qed

section \<open>Success and its announcement\<close>

definition wraps :: "sweep_state \<Rightarrow> (utc \<times> address \<times> calldata) list" where
  "wraps st = filter (\<lambda>(d, target, data). case data of WrapCall _ _ _ \<Rightarrow> True | _ \<Rightarrow> False) (sw_txs st)"

lemma wraps_cons [simp]:
  "wraps (st\<lparr>sw_txs := (d, t, WrapCall a b n) # sw_txs st\<rparr>) = (d, t, WrapCall a b n) # wraps st"
  by (simp add: wraps_def)

lemma wraps_tx:
  "wraps (sweep_stranded_collateral an st) = wraps st \<or> (\<exists>x. wraps (sweep_stranded_collateral an st) = x # wraps st)"
  using run_txs [of an st] by (auto simp: wraps_def split: if_splits)

lemma verify_wrap_txs [simp]: "sw_txs (verify_wrap an raw st) = sw_txs st"
  by (simp add: verify_wrap_def record_failure_def publish_stranded_def split: option.splits)

lemma wrap_collateral_announced:
  "sw_refresh (wrap_collateral an raw st) \<Longrightarrow> \<not> sw_refresh st \<Longrightarrow>
     sw_txs (wrap_collateral an raw st) = wrap_tx an raw # sw_txs st"
  by (cases "an_wrap an")
    (auto simp: wrap_collateral_def log_tx_def submitted_def execute_via_safe_confirmed_def send_via_safe_def
      record_failure_def Let_def split: if_splits)

lemma wrap_announced:
  "sw_refresh (wrap_collateral an raw st) \<Longrightarrow> \<not> sw_refresh st \<Longrightarrow>
     wraps (wrap_collateral an raw st) = wrap_tx an raw # wraps st"
  using wrap_collateral_announced [of an raw st] by (simp add: wraps_def)

lemma wraps_approve [simp]:
  "wraps (log_tx an a target (ApproveCall x n) st) = wraps st"
  "sw_refresh (log_tx an a target data st) = sw_refresh st"
  by (simp_all add: log_tx_def wraps_def)

lemma announced_by_wrap:
  assumes "sw_refresh (sweep_stranded_collateral an st)" "\<not> sw_refresh st"
  shows "\<exists>x. wraps (sweep_stranded_collateral an st) = x # wraps st"
proof -
  define st1 where "st1 raw = publish_stranded (base_units_to_decimal raw)
      (st\<lparr>sw_crumb := enter SettlementPhase (nat (an_started an div nanos_per_sec)) (sw_crumb st)\<rparr>)" for raw
  have st1 [simp]: "\<not> sw_refresh (st1 raw)" "wraps (st1 raw) = wraps st" for raw
    using assms(2) by (simp_all add: st1_def publish_stranded_def wraps_def)
  have "\<exists>raw allowance. sweep_stranded_collateral an st = approve_and_wrap an raw allowance (st1 raw)"
    using assms
    by (auto simp: sweep_stranded_collateral_def st1_def publish_stranded_def record_failure_def Let_def
        split: option.splits if_splits)
  then obtain raw allowance where run: "sweep_stranded_collateral an st = approve_and_wrap an raw allowance (st1 raw)"
    by blast
  show ?thesis
  proof (cases "allowance < raw \<and> \<not> execute_via_safe_confirmed (an_approve an)")
    case True
    then show ?thesis using assms run by (simp add: approve_and_wrap_def record_failure_def Let_def)
  next
    case False
    then obtain st2 where "sweep_stranded_collateral an st = wrap_collateral an raw st2" "\<not> sw_refresh st2"
        "wraps st2 = wraps st"
      using run by (auto simp: approve_and_wrap_def Let_def split: if_splits)
    then show ?thesis using wrap_announced [of an raw st2] assms(1) by auto
  qed
qed

datatype sweep_event = Run answers | TakeRefresh

text \<open>The flag taken by the status task, counted.\<close>

fun sweep_event_step :: "sweep_event \<Rightarrow> nat \<times> sweep_state \<Rightarrow> nat \<times> sweep_state" where
  "sweep_event_step (Run an) (n, st) = (n, sweep_stranded_collateral an st)"
| "sweep_event_step TakeRefresh (n, st) =
     (let (b, st') = take_clob_refresh_needed st in (if b then n + 1 else n, st'))"

definition announce_inv :: "nat \<times> sweep_state \<Rightarrow> bool" where
  "announce_inv c \<longleftrightarrow> fst c + (if sw_refresh (snd c) then 1 else 0) \<le> length (wraps (snd c))"

lemma announce_inv_step: "announce_inv c \<Longrightarrow> announce_inv (sweep_event_step e c)"
proof (induction e c rule: sweep_event_step.induct)
  case (1 an n st)
  then show ?case
    using wraps_tx [of an st] announced_by_wrap [of an st] by (auto simp: announce_inv_def split: if_splits)
next
  case (2 n st)
  then show ?case by (simp add: announce_inv_def take_clob_refresh_needed_def wraps_def split: if_splits)
qed

lemma announce_inv_run: "announce_inv c \<Longrightarrow> announce_inv (fold sweep_event_step es c)"
  by (induction es arbitrary: c) (simp_all add: announce_inv_step)

text \<open>The status task is told to refresh at most once per wrap: over any interleaving of runs and reads of the flag,
  the number of reads that found it set never exceeds the number of wraps submitted.\<close>

theorem refresh_once_per_wrap:
  "fst (fold sweep_event_step es (0, no_sweep_yet)) \<le> length (wraps (snd (fold sweep_event_step es (0, no_sweep_yet))))"
proof -
  have "announce_inv (fold sweep_event_step es (0, no_sweep_yet))"
    by (rule announce_inv_run) (simp add: announce_inv_def no_sweep_yet_def wraps_def)
  then show ?thesis by (simp add: announce_inv_def split: if_splits)
qed

text \<open>A run lifts the cooldown only when the balance moved: if a failure was remembered before it and none is
  after it, the wrap was confirmed and the balance read back is below the one it set out to wrap.\<close>

theorem cooldown_lifted_by_success:
  assumes "sw_last_failure st \<noteq> None" "sw_last_failure (sweep_stranded_collateral an st) = None"
  shows "\<exists>raw after. an_balance an = Some raw \<and> execute_via_safe_confirmed (an_wrap an) \<and>
    an_balance_after an = Some after \<and> after < raw \<and>
    sw_stranded (sweep_stranded_collateral an st) = Some (base_units_to_decimal after)"
  using assms by (auto simp: sweep_defs split: option.splits if_splits)

theorem cooldown_lifted_by_success_witness:
  "\<exists>raw after. Some (5053757 :: nat) = Some raw \<and> execute_via_safe_confirmed (Receipt True) \<and>
    Some 0 = Some after \<and> after < raw \<and> Some (0 :: decimal) = Some (base_units_to_decimal after)"
  using cooldown_lifted_by_success
      [of "no_sweep_yet\<lparr>sw_last_failure := Some 0\<rparr>" "sample_answers (from_secs 1800) (Some 0)"]
  by (simp add: sample_sweep_defs)

lemma unverified_step:
  "sw_last_failure st = None \<Longrightarrow>
     sw_last_failure (sweep_stranded_collateral (sample_answers t None) st) = None \<and>
     sw_txs (sweep_stranded_collateral (sample_answers t None) st) =
       wrap_tx (sample_answers t None) 5053757 # approve_tx (sample_answers t None) 5053757 # sw_txs st"
  by (simp add: sample_sweep_defs)

lemma unverified_steps:
  "sw_last_failure st = None \<Longrightarrow>
     sw_last_failure (sweep_runs (map (\<lambda>t. sample_answers t None) ts) st) = None \<and>
     length (sw_txs (sweep_runs (map (\<lambda>t. sample_answers t None) ts) st)) = 2 * length ts + length (sw_txs st)"
  by (induction ts arbitrary: st) (simp_all add: sweep_runs_def unverified_step)

text \<open>The bound of two transactions per half hour does not cover a wrap that is confirmed while the balance
  cannot be read back: such a run records no failure, so with an on-ramp that takes the call and moves nothing
  every run, however close to the one before, submits its two transactions again.\<close>

theorem unverified_wraps_repeat:
  "length (sw_txs (sweep_runs (map (\<lambda>t. sample_answers t None) ts) no_sweep_yet)) = 2 * length ts \<and>
   sw_failures (sweep_runs (map (\<lambda>t. sample_answers t None) ts) no_sweep_yet) = []"
proof -
  have "sw_failures (sweep_runs (map (\<lambda>t. sample_answers t None) ts) st) = []"
    if "sw_failures st = []" "sw_last_failure st = None" for st
    using that
    by (induction ts arbitrary: st) (simp_all add: sample_sweep_defs)
  then show ?thesis using unverified_steps [of no_sweep_yet ts] by (simp add: no_sweep_yet_def)
qed

end
