(* ===== verification/Helm_Contracts.thy ===== *)
theory Helm_Contracts
  imports Helm_Intents "HOL-Library.Sublist"
begin

text \<open>
  Contracts of the intent tables: a relation between the tables before and after that holds across the
  few changes the statements make holds across every operation and every run of them.  The contract says
  whether it needs every statement to succeed, in which case it only has to hold across a change and
  the event that records it together, or tolerates failures, in which case the change alone keeps it too.
\<close>

section \<open>What the operations leave alone\<close>

lemma tick_simps [simp]:
  "db_intents (tick db) = db_intents db" "db_revisions (tick db) = db_revisions db"
  "db_events (tick db) = db_events db" "db_last_rowid (tick db) = db_last_rowid db"
  "db_now (tick db) = db_now db" "db_ok (tick db) = db_ok db" "db_positions (tick db) = db_positions db"
  "db_trades (tick db) = db_trades db" "db_calls (tick db) = Suc (db_calls db)"
  by (simp_all add: tick_def)

lemma update_intent_simps [simp]:
  "db_revisions (update_intent i f db) = db_revisions db" "db_events (update_intent i f db) = db_events db"
  "db_last_rowid (update_intent i f db) = db_last_rowid db" "db_now (update_intent i f db) = db_now db"
  "db_ok (update_intent i f db) = db_ok db" "db_calls (update_intent i f db) = db_calls db"
  "db_positions (update_intent i f db) = db_positions db" "db_trades (update_intent i f db) = db_trades db"
  by (simp_all add: update_intent_def)

lemma add_event_simps [simp]:
  "db_intents (add_event i from to d db) = db_intents db" "db_revisions (add_event i from to d db) = db_revisions db"
  "db_last_rowid (add_event i from to d db) = db_last_rowid db" "db_now (add_event i from to d db) = db_now db"
  "db_ok (add_event i from to d db) = db_ok db" "db_calls (add_event i from to d db) = db_calls db"
  by (simp_all add: add_event_def)

lemma insert_intent_simps [simp]:
  "db_revisions (insert_intent new db) = db_revisions db" "db_events (insert_intent new db) = db_events db"
  "db_now (insert_intent new db) = db_now db" "db_ok (insert_intent new db) = db_ok db"
  "db_calls (insert_intent new db) = db_calls db"
  by (simp_all add: insert_intent_def)

lemma find_intent_cong: "db_intents db = db_intents db' \<Longrightarrow> find_intent i db = find_intent i db'"
  by (simp add: find_intent_def)

lemma find_intent_tick [simp]: "find_intent i (tick db) = find_intent i db"
  by (rule find_intent_cong) simp

lemma find_intent_event [simp]: "find_intent i (add_event j from to d db) = find_intent i db"
  by (rule find_intent_cong) simp

lemma find_intent_id: "find_intent i db = Some r \<Longrightarrow> hi_id r = i"
  by (auto simp: find_intent_def find_Some_iff)

lemma find_intent_mem: "find_intent i db = Some r \<Longrightarrow> r \<in> set (db_intents db)"
  by (auto simp: find_intent_def find_Some_iff)

lemma find_map_keyed:
  assumes "\<And>r. hi_id (f r) = hi_id r"
  shows "find (\<lambda>r. hi_id r = j) (map (\<lambda>r. if hi_id r = i then f r else r) rs)
    = map_option (\<lambda>r. if j = i then f r else r) (find (\<lambda>r. hi_id r = j) rs)"
  using assms by (induction rs) auto

lemma find_intent_update:
  assumes "\<And>r. hi_id (f r) = hi_id r"
  shows "find_intent j (update_intent i f db) = map_option (\<lambda>r. if j = i then f r else r) (find_intent j db)"
  using assms by (simp add: find_intent_def update_intent_def find_map_keyed)

lemma hi_id_moved [simp]: "hi_id (moved now to d r) = hi_id r"
  by (simp add: moved_def)

lemma moved_simps [simp]:
  "hi_status (moved now to d r) = to" "hi_first (moved now to d r) = hi_first r"
  "hi_side (moved now to d r) = hi_side r" "hi_squadron_id (moved now to d r) = hi_squadron_id r"
  "hi_current_version (moved now to d r) = hi_current_version r" "hi_token_id (moved now to d r) = hi_token_id r"
  "hi_working_at (moved now to d r) = hi_working_at r" "hi_entry_shares (moved now to d r) = hi_entry_shares r"
  "hi_created_at (moved now to d r) = hi_created_at r" "hi_ghost (moved now to d r) = hi_ghost r"
  by (simp_all add: moved_def)

text \<open>An update of the columns that neither identify an intent nor carry its life.\<close>

definition side_columns :: "(helm_intent \<Rightarrow> helm_intent) \<Rightarrow> bool" where
  "side_columns f \<longleftrightarrow> (\<forall>r. hi_id (f r) = hi_id r \<and> hi_status (f r) = hi_status r \<and> hi_first (f r) = hi_first r
     \<and> hi_side (f r) = hi_side r \<and> hi_squadron_id (f r) = hi_squadron_id r
     \<and> hi_created_at (f r) = hi_created_at r \<and> hi_ghost (f r) = hi_ghost r
     \<and> hi_current_version (f r) = hi_current_version r)"

definition add_revision :: "helm_intent \<Rightarrow> intent_content \<Rightarrow> string \<Rightarrow> helm_db \<Rightarrow> helm_db" where
  "add_revision r content reason db =
     update_intent (hi_id r) (\<lambda>x. x\<lparr>hi_current_version := Suc (hi_current_version r), hi_updated_at := db_now db\<rparr>)
       (db\<lparr>db_revisions := db_revisions db @
          [\<lparr>iv_intent_id = hi_id r, iv_version = Suc (hi_current_version r), iv_reason = trim reason,
            iv_content = content, iv_created_at = db_now db\<rparr>]\<rparr>)"

definition reliable :: "helm_db \<Rightarrow> bool" where
  "reliable db \<longleftrightarrow> (\<forall>n. db_ok db n)"

lemma reliable_succeeds [simp]: "reliable db \<Longrightarrow> succeeds db"
  by (simp add: reliable_def succeeds_def)

lemma reliable_cong: "db_ok db = db_ok db' \<Longrightarrow> reliable db = reliable db'"
  by (simp add: reliable_def)

lemma get_existing_cases:
  obtains (failed) e where "get_existing i db = (Inl e, tick db)"
  | (missing) "find_intent i db = None" "get_existing i db = (Inl (Not_found i), tick db)"
  | (found) r where "find_intent i db = Some r" "get_existing i db = (Inr r, tick db)"
  by (cases "succeeds db"; cases "find_intent i db")
    (auto simp: get_existing_def get_def and_then_def query_def ret_def fail_def)

definition revision_body :: "helm_intent \<Rightarrow> intent_content \<Rightarrow> string \<Rightarrow> nat helm_op" where
  "revision_body r content reason =
     (let version = Suc (hi_current_version r) in
      and_then (insert_revision (hi_id r) version content reason) (\<lambda>_.
      and_then (set_version (hi_id r) version) (\<lambda>_. ret version)))"

lemma revision_body_cases:
  "revision_body r content reason db =
      (Inr (Suc (hi_current_version r)), (add_revision r content reason db)\<lparr>db_calls := Suc (Suc (db_calls db))\<rparr>)
      \<and> \<not> list_ex (\<lambda>v. iv_intent_id v = hi_id r \<and> iv_version v = Suc (hi_current_version r)) (db_revisions db)
   \<or> (\<exists>db'. revision_body r content reason db = (Inl Statement_failed, db'))"
proof -
  let ?dup = "list_ex (\<lambda>v. iv_intent_id v = hi_id r \<and> iv_version v = Suc (hi_current_version r)) (db_revisions db)"
  let ?ins = "insert_revision (hi_id r) (Suc (hi_current_version r)) content reason db"
  consider (no) "fst ?ins = Inl Statement_failed" | (yes) "\<not> ?dup" "succeeds db" "fst ?ins = Inr ()"
    by (cases ?dup; cases "succeeds db") (simp_all add: insert_revision_def exec_def)
  then show ?thesis
  proof cases
    case no
    then show ?thesis by (cases ?ins) (simp add: revision_body_def and_then_def)
  next
    case yes
    then obtain db1 where ins: "?ins = (Inr (), db1)" by (cases ?ins) simp
    have db1: "add_revision r content reason db\<lparr>db_calls := Suc (Suc (db_calls db))\<rparr> =
        update_intent (hi_id r) (\<lambda>x. x\<lparr>hi_current_version := Suc (hi_current_version r), hi_updated_at := db_now (tick db1)\<rparr>) (tick db1)"
      using ins yes(1,2)
      by (intro helm_db.equality)
        (auto simp: insert_revision_def exec_def add_revision_def tick_def update_intent_def)
    show ?thesis
      using yes(1) ins by (cases "succeeds db1")
        (simp_all add: revision_body_def and_then_def set_version_def exec_def ret_def db1 [simplified])
  qed
qed

lemma transaction_eq:
  "transaction body db =
     (if \<not> succeeds db then (Inl Statement_failed, db\<lparr>db_calls := Suc (db_calls db)\<rparr>)
      else (case body (tick db) of
              (Inl e, db1) \<Rightarrow> (Inl e, db\<lparr>db_calls := db_calls db1\<rparr>)
            | (Inr x, db1) \<Rightarrow>
                if succeeds db1 then (Inr x, tick db1)
                else (Inl Statement_failed, db\<lparr>db_calls := Suc (db_calls db1)\<rparr>)))"
  by (simp add: transaction_def and_then_def exec_def ret_def split: sum.split prod.split)

lemma transaction_cases:
  obtains (all) x db1 n where "body (tick db) = (Inr x, db1)" "transaction body db = (Inr x, db1\<lparr>db_calls := n\<rparr>)"
  | (inner) e db1 n where "body (tick db) = (Inl e, db1)" "transaction body db = (Inl e, db\<lparr>db_calls := n\<rparr>)"
  | (outer) n where "transaction body db = (Inl Statement_failed, db\<lparr>db_calls := n\<rparr>)"
proof (cases "succeeds db")
  case True
  obtain res db1 where b: "body (tick db) = (res, db1)" by (cases "body (tick db)")
  show thesis
  proof (cases res)
    case (Inl e)
    with b True have "transaction body db = (Inl e, db\<lparr>db_calls := db_calls db1\<rparr>)" by (simp add: transaction_eq)
    with b Inl inner show thesis by blast
  next
    case (Inr x)
    show thesis
    proof (cases "succeeds db1")
      case True
      with b Inr \<open>succeeds db\<close> have "transaction body db = (Inr x, db1\<lparr>db_calls := Suc (db_calls db1)\<rparr>)"
        by (simp add: transaction_eq tick_def)
      with b Inr all show thesis by blast
    next
      case False
      with b Inr \<open>succeeds db\<close> have "transaction body db = (Inl Statement_failed, db\<lparr>db_calls := Suc (db_calls db1)\<rparr>)"
        by (simp add: transaction_eq)
      with outer show thesis by blast
    qed
  qed
next
  case False
  then have "transaction body db = (Inl Statement_failed, db\<lparr>db_calls := Suc (db_calls db)\<rparr>)" by (simp add: transaction_eq)
  with outer show thesis by blast
qed

lemma revision_statements:
  "(\<exists>n. transaction (revision_body r content reason) db =
      (Inr (Suc (hi_current_version r)), (add_revision r content reason db)\<lparr>db_calls := n\<rparr>)
      \<and> \<not> list_ex (\<lambda>v. iv_intent_id v = hi_id r \<and> iv_version v = Suc (hi_current_version r)) (db_revisions db))
   \<or> (\<exists>n. transaction (revision_body r content reason) db = (Inl Statement_failed, db\<lparr>db_calls := n\<rparr>))"
proof -
  let ?dup = "list_ex (\<lambda>v. iv_intent_id v = hi_id r \<and> iv_version v = Suc (hi_current_version r)) (db_revisions db)"
  let ?body = "revision_body r content reason"
  have t: "(add_revision r content reason (tick db)\<lparr>db_calls := m\<rparr>)\<lparr>db_calls := n\<rparr> = add_revision r content reason db\<lparr>db_calls := n\<rparr>" for m n
    by (intro helm_db.equality) (simp_all add: add_revision_def tick_def update_intent_def)
  have body: "?body (tick db) = (Inr x, db1) \<Longrightarrow>
      x = Suc (hi_current_version r) \<and> \<not> ?dup
      \<and> db1 = add_revision r content reason (tick db)\<lparr>db_calls := Suc (Suc (db_calls (tick db)))\<rparr>" for x db1
    using revision_body_cases [of r content reason "tick db"] by auto
  have failed: "?body (tick db) = (Inl e, db1) \<Longrightarrow> e = Statement_failed" for e db1
    using revision_body_cases [of r content reason "tick db"] by auto
  show ?thesis
  proof (rule transaction_cases [of ?body db])
    fix x db1 n assume b: "?body (tick db) = (Inr x, db1)" "transaction ?body db = (Inr x, db1\<lparr>db_calls := n\<rparr>)"
    then have "transaction ?body db = (Inr (Suc (hi_current_version r)), add_revision r content reason db\<lparr>db_calls := n\<rparr>)"
      using body [OF b(1)] by (simp only: t)
    with body [OF b(1)] show ?thesis by blast
  next
    fix e db1 n assume "?body (tick db) = (Inl e, db1)" "transaction ?body db = (Inl e, db\<lparr>db_calls := n\<rparr>)"
    then show ?thesis using failed by blast
  next
    fix n assume "transaction ?body db = (Inl Statement_failed, db\<lparr>db_calls := n\<rparr>)"
    then show ?thesis by blast
  qed
qed

lemma revise_eq:
  "revise i content reason =
     and_then (get_existing i) (\<lambda>cur.
     if is_terminal (hi_status cur) then fail (Cannot_revise i (hi_status cur))
     else if shape_check (hi_side cur) content \<noteq> [] then fail (Malformed (shape_check (hi_side cur) content))
     else if trim reason = [] then fail Needs_reason
     else transaction (revision_body cur content reason))"
proof -
  have same: "and_then (get_existing i) k db = and_then (get_existing i) k' db"
    if eq: "\<And>r. hi_id r = i \<Longrightarrow> k r = k' r" for k k' :: "helm_intent \<Rightarrow> nat helm_op" and db
  proof (cases rule: get_existing_cases [of i db])
    case (found r)
    then show ?thesis using eq [OF find_intent_id [OF found(1)]] by (simp add: and_then_def)
  qed (simp_all add: and_then_def)
  show ?thesis
    unfolding revise_def by (intro ext same) (simp add: revision_body_def)
qed

section \<open>Runs\<close>

text \<open>One operation on the tables, by whoever calls it, a read, or a change made by the rest of the engine: the
  clock, the positions and trades the patrol books.\<close>

inductive helm_step :: "helm_db \<Rightarrow> helm_db \<Rightarrow> bool" where
  "helm_step db (snd (create new db))"
| "helm_step db (snd (transition i to d db))"
| "helm_step db (snd (revise i content reason db))"
| "helm_step db (snd (supersede i new reason db))"
| "helm_step db (snd (mark_working show i token price shares db))"
| "helm_step db (snd (close_open_for_squadron squadron reason db))"
| "helm_step db (snd (set_critique_requested i db))"
| "helm_step db (snd (set_fee_verdict i verdict db))"
| "helm_step db (snd (set_critique i critique model db))"
| "helm_step db (snd (set_critique_outcome i outcome db))"
| "helm_step db (snd (label_trades market side i db))"
| "helm_step db (snd (set_position_intent token strategy i db))"
| "helm_step db (snd (set_trade_intent trade i db))"
| "helm_step db (tick db)"
| "helm_step db (db\<lparr>db_now := t\<rparr>)"
| "helm_step db (db\<lparr>db_positions := ps\<rparr>)"
| "helm_step db (db\<lparr>db_trades := ts\<rparr>)"

definition empty_db :: "(nat \<Rightarrow> bool) \<Rightarrow> utc \<Rightarrow> string \<Rightarrow> helm_db" where
  "empty_db ok now session =
     \<lparr>db_intents = [], db_revisions = [], db_events = [], db_positions = [], db_trades = [], db_last_rowid = 0,
      db_session = session, db_now = now, db_ok = ok, db_calls = 0\<rparr>"

definition helm_reaches :: "helm_db \<Rightarrow> helm_db \<Rightarrow> bool" where
  "helm_reaches = helm_step\<^sup>*\<^sup>*"

section \<open>The contract\<close>

locale intent_contract =
  fixes sure :: bool and R :: "helm_db \<Rightarrow> helm_db \<Rightarrow> bool"
  assumes kept_refl: "R db db"
    and kept_trans: "R a b \<Longrightarrow> R b c \<Longrightarrow> R a c"
    and kept_calls: "R db (db\<lparr>db_calls := n\<rparr>)"
    and kept_clock: "R db (db\<lparr>db_now := t\<rparr>)"
    and kept_positions: "R db (db\<lparr>db_positions := ps\<rparr>)"
    and kept_trades: "R db (db\<lparr>db_trades := ts\<rparr>)"
    and inserted: "\<not> sure \<Longrightarrow> well_shaped (ni_side new) (ni_content new) \<Longrightarrow> R db (insert_intent new db)"
    and inserted_recorded: "well_shaped (ni_side new) (ni_content new) \<Longrightarrow>
      R db (add_event (Suc (db_last_rowid db)) None Proposed None (insert_intent new db))"
    and moved_only: "\<not> sure \<Longrightarrow> find_intent i db = Some r \<Longrightarrow> can_transition_to (hi_status r) to \<Longrightarrow>
      R db (update_intent i (moved (db_now db) to d) db)"
    and moved_recorded: "find_intent i db = Some r \<Longrightarrow> can_transition_to (hi_status r) to \<Longrightarrow>
      R db (add_event i (Some (hi_status r)) to d (update_intent i (moved (db_now db) to d) db))"
    and revised: "find_intent i db = Some r \<Longrightarrow> \<not> is_terminal (hi_status r) \<Longrightarrow> well_shaped (hi_side r) content \<Longrightarrow>
      trim reason \<noteq> [] \<Longrightarrow> R db (add_revision r content reason db)"
    and annotated: "side_columns f \<Longrightarrow> R db (update_intent i f db)"

begin

text \<open>An operation keeps the contract when its tables after are related to those before, for every database if
  failures are tolerated, and otherwise for a reliable one.\<close>

definition keeps :: "(helm_db \<Rightarrow> 'a \<times> helm_db) \<Rightarrow> bool" where
  "keeps m \<longleftrightarrow> (\<forall>db. (sure \<longrightarrow> reliable db) \<longrightarrow> R db (snd (m db)) \<and> db_ok (snd (m db)) = db_ok db)"

lemma keepsI:
  "(\<And>db. (sure \<longrightarrow> reliable db) \<Longrightarrow> R db (snd (m db)) \<and> db_ok (snd (m db)) = db_ok db) \<Longrightarrow> keeps m"
  by (simp add: keeps_def)

lemma keepsD:
  "keeps m \<Longrightarrow> (sure \<longrightarrow> reliable db) \<Longrightarrow> R db (snd (m db)) \<and> db_ok (snd (m db)) = db_ok db"
  by (simp add: keeps_def)

lemma kept_tick: "R db (tick db)"
  unfolding tick_def by (rule kept_calls)

lemma kept_after_tick: "R (tick db) db' \<Longrightarrow> R db db'"
  using kept_tick kept_trans by blast

lemma keeps_and_then:
  assumes "keeps m" and "\<And>x. keeps (k x)"
  shows "keeps (and_then m k)"
proof (rule keepsI)
  fix db assume ok: "sure \<longrightarrow> reliable db"
  obtain r db1 where m: "m db = (r, db1)" by (cases "m db")
  have 1: "R db db1" "db_ok db1 = db_ok db" using keepsD [OF assms(1) ok] by (simp_all add: m)
  show "R db (snd (and_then m k db)) \<and> db_ok (snd (and_then m k db)) = db_ok db"
  proof (cases r)
    case (Inr x)
    have "sure \<longrightarrow> reliable db1" using ok 1(2) by (simp add: reliable_def)
    from keepsD [OF assms(2) this, of x] 1 show ?thesis
      by (auto simp: and_then_def m Inr intro: kept_trans)
  qed (use 1 in \<open>simp add: and_then_def m\<close>)
qed

lemma keeps_ret: "keeps (ret x)" and keeps_fail: "keeps (fail e)"
  by (simp_all add: keeps_def ret_def fail_def kept_refl)

lemma keeps_query: "keeps (query read)" and keeps_query_or: "keeps (query_or d read)"
  by (simp_all add: keeps_def query_def query_or_def kept_tick kept_refl)

lemma keeps_exec:
  assumes "\<And>db. R db (upd db)" and "\<And>db. db_ok (upd db) = db_ok db"
  shows "keeps (exec upd)"
  using assms by (auto simp: keeps_def exec_def kept_tick intro: kept_after_tick)

lemma keeps_get: "keeps (get i)"
  unfolding get_def by (rule keeps_query)

lemma keeps_get_existing: "keeps (get_existing i)"
  unfolding get_existing_def
  by (intro keeps_and_then keeps_get) (auto split: option.split simp: keeps_ret keeps_fail)

lemma keeps_annotate:
  assumes "\<And>now. side_columns (f now)"
  shows "keeps (annotate i f)"
  unfolding annotate_def
proof (rule keeps_exec)
  show "R db (update_intent i (\<lambda>r. f (db_now db) r\<lparr>hi_updated_at := db_now db\<rparr>) db)" for db
    by (rule annotated) (use assms in \<open>simp add: side_columns_def\<close>)
qed simp

lemma after_get:
  assumes "\<And>db r. (sure \<longrightarrow> reliable db) \<Longrightarrow> find_intent i db = Some r \<Longrightarrow>
      R db (snd (k r db)) \<and> db_ok (snd (k r db)) = db_ok db"
  shows "keeps (and_then (get_existing i) k)"
proof (rule keepsI)
  fix db assume ok: "sure \<longrightarrow> reliable db"
  then have "sure \<longrightarrow> reliable (tick db)" by (simp add: reliable_def)
  note k = assms [OF this]
  show "R db (snd (and_then (get_existing i) k db)) \<and> db_ok (snd (and_then (get_existing i) k db)) = db_ok db"
    by (rule get_existing_cases [of i db])
      (auto simp: and_then_def kept_tick intro: kept_after_tick dest!: k [simplified])
qed

lemma keeps_create: "keeps (create new)"
proof (rule keepsI)
  fix db assume ok: "sure \<longrightarrow> reliable db"
  let ?i = "Suc (db_last_rowid db)" and ?db1 = "insert_intent new (tick db)"
  have ev: "add_event ?i None Proposed None (tick ?db1) =
      (add_event (Suc (db_last_rowid (tick db))) None Proposed None ?db1)\<lparr>db_calls := Suc (db_calls ?db1)\<rparr>"
    by (simp add: add_event_def tick_def)
  show "R db (snd (create new db)) \<and> db_ok (snd (create new db)) = db_ok db"
  proof (cases "well_shaped (ni_side new) (ni_content new)")
    case True
    note both = inserted_recorded [OF True, of "tick db"]
    have "R db (add_event ?i None Proposed None (tick ?db1))"
      unfolding ev using kept_after_tick [OF both] kept_calls kept_trans by blast
    moreover have "R db (tick ?db1)" if "\<not> sure"
      using kept_after_tick [OF inserted [OF that True]] kept_tick kept_trans by blast
    moreover have "sure \<longrightarrow> succeeds db \<and> succeeds ?db1" using ok by (simp add: reliable_def succeeds_def)
    ultimately show ?thesis
      using True ok
      by (auto simp: create_def and_then_def exec_def record_event_def ret_def kept_tick kept_refl)
  qed (simp add: create_def kept_refl)
qed

lemma write_move_keeps:
  assumes ok: "sure \<longrightarrow> reliable db" and row: "find_intent i db = Some r" and legal: "can_transition_to (hi_status r) to"
  shows "R db (snd (write_move r to d db)) \<and> db_ok (snd (write_move r to d db)) = db_ok db"
proof -
  let ?db1 = "update_intent i (moved (db_now db) to d) (tick db)"
  let ?db2 = "add_event i (Some (hi_status r)) to d (tick ?db1)"
  have i: "hi_id r = i" using row by (rule find_intent_id)
  have row': "find_intent i (tick db) = Some r" using row by simp
  have ev: "?db2 = (add_event i (Some (hi_status r)) to d ?db1)\<lparr>db_calls := Suc (db_calls ?db1)\<rparr>"
    by (simp add: add_event_def tick_def)
  have both: "R db ?db2"
    unfolding ev using kept_after_tick [OF moved_recorded [OF row' legal, of d, simplified]] kept_calls kept_trans by blast
  have one: "R db (tick ?db1)" if "\<not> sure"
    using kept_after_tick [OF moved_only [OF that row' legal, of d, simplified]] kept_tick kept_trans by blast
  have sure: "sure \<longrightarrow> succeeds db \<and> succeeds ?db1" "sure \<longrightarrow> reliable ?db2"
    using ok by (simp_all add: reliable_def succeeds_def)
  have "R db (snd (get_existing i ?db2))" "db_ok (snd (get_existing i ?db2)) = db_ok db"
    using keepsD [OF keeps_get_existing sure(2), of i] both by (auto intro: kept_trans)
  with one sure(1) show ?thesis
    by (auto simp: write_move_def and_then_def exec_def record_event_def i kept_tick split: sum.split prod.split)
qed

lemma keeps_transition: "keeps (transition i to d)"
  unfolding transition_def
  by (rule after_get) (simp add: fail_def kept_refl write_move_keeps)

lemma keeps_revise: "keeps (revise i content reason)"
  unfolding revise_eq
proof (rule after_get)
  fix db r assume ok: "sure \<longrightarrow> reliable db" and row: "find_intent i db = Some r"
  let ?res = "transaction (revision_body r content reason) db"
  have "R db (snd ?res) \<and> db_ok (snd ?res) = db_ok db"
    if "\<not> is_terminal (hi_status r)" "well_shaped (hi_side r) content" "trim reason \<noteq> []"
  proof -
    have step: "R db (add_revision r content reason db\<lparr>db_calls := n\<rparr>)" for n
      by (rule kept_trans [OF revised [OF row that] kept_calls])
    have ok: "db_ok (add_revision r content reason db\<lparr>db_calls := n\<rparr>) = db_ok db" for n
      by (simp add: add_revision_def)
    from revision_statements [of r content reason db] show ?thesis
      by (elim disjE exE conjE) (simp_all only: snd_conv step ok kept_calls, simp_all)
  qed
  then show "R db (snd ((if is_terminal (hi_status r) then fail (Cannot_revise i (hi_status r))
      else if shape_check (hi_side r) content \<noteq> [] then fail (Malformed (shape_check (hi_side r) content))
      else if trim reason = [] then fail Needs_reason else transaction (revision_body r content reason)) db)) \<and>
    db_ok (snd ((if is_terminal (hi_status r) then fail (Cannot_revise i (hi_status r))
      else if shape_check (hi_side r) content \<noteq> [] then fail (Malformed (shape_check (hi_side r) content))
      else if trim reason = [] then fail Needs_reason else transaction (revision_body r content reason)) db)) = db_ok db"
    by (simp add: fail_def kept_refl)
qed

lemma keeps_mark_working: "keeps (mark_working show i token price shares)"
  unfolding mark_working_def
  by (intro keeps_and_then keeps_transition keeps_get_existing keeps_exec annotated) (simp_all add: side_columns_def)

lemma keeps_supersede: "keeps (supersede i new reason)"
  unfolding supersede_def
  by (intro keeps_and_then keeps_get_existing)
    (auto simp: keeps_fail intro!: keeps_and_then keeps_create keeps_transition keeps_exec keeps_ret annotated
      simp: side_columns_def)

lemma close_each_keeps:
  "(sure \<longrightarrow> reliable db) \<Longrightarrow>
    R db (snd (close_each rs reason db)) \<and> db_ok (snd (close_each rs reason db)) = db_ok db"
proof (induction rs arbitrary: db)
  case (Cons r rs)
  let ?db1 = "snd (transition (hi_id r) Closed (Some reason) db)"
  have 1: "R db ?db1" "db_ok ?db1 = db_ok db" using keepsD [OF keeps_transition Cons.prems] by simp_all
  with Cons.prems have "sure \<longrightarrow> reliable ?db1" by (simp add: reliable_def)
  from Cons.IH [OF this] 1 show ?case by (auto simp: split_beta Let_def intro: kept_trans)
qed (simp add: kept_refl)

lemma keeps_close_open: "keeps (close_open_for_squadron squadron reason)"
proof (rule keepsI)
  fix db assume ok: "sure \<longrightarrow> reliable db"
  then have ok1: "sure \<longrightarrow> reliable (tick db)" by (simp add: reliable_def)
  show "R db (snd (close_open_for_squadron squadron reason db))
      \<and> db_ok (snd (close_open_for_squadron squadron reason db)) = db_ok db"
    using close_each_keeps [OF ok1, of _ reason]
    by (auto simp: close_open_for_squadron_def list_for_squadron_def query_or_def Let_def kept_tick intro: kept_after_tick)
qed

lemma keeps_annotations:
  "keeps (set_critique_requested i)" "keeps (set_fee_verdict i verdict)" "keeps (set_critique i critique model)"
  unfolding set_critique_requested_def set_fee_verdict_def set_critique_def
  by (rule keeps_annotate; simp add: side_columns_def)+

lemma keeps_outcome: "keeps (set_critique_outcome i outcome)"
  unfolding set_critique_outcome_def
  by (auto simp: keeps_fail side_columns_def intro!: keeps_and_then keeps_get_existing keeps_annotate)

lemma keeps_labels:
  "keeps (label_trades market side i)" "keeps (set_position_intent token strategy i)" "keeps (set_trade_intent trade i)"
  by (auto simp: keeps_def label_trades_def set_position_intent_def set_trade_intent_def kept_tick Let_def
      intro: kept_after_tick kept_positions kept_trades)

lemma step_keeps:
  assumes "helm_step db db'" and "sure \<longrightarrow> reliable db"
  shows "R db db' \<and> db_ok db' = db_ok db"
  using assms
  by (cases rule: helm_step.cases)
    (simp_all add: keepsD keeps_create keeps_transition keeps_revise keeps_supersede keeps_mark_working
      keeps_close_open keeps_annotations keeps_outcome keeps_labels kept_tick kept_clock kept_positions kept_trades)

lemma run_keeps:
  assumes "helm_reaches db db'" and "sure \<longrightarrow> reliable db"
  shows "R db db' \<and> db_ok db' = db_ok db"
  using assms unfolding helm_reaches_def
proof (induction rule: rtranclp_induct)
  case (step db1 db2)
  then have "R db db1" "db_ok db1 = db_ok db" "sure \<longrightarrow> reliable db1" by (simp_all add: reliable_def)
  with step_keeps [OF step.hyps(2)] show ?case by (auto intro: kept_trans)
qed (simp add: kept_refl)

end

end
