(* ===== verification/Helm_History.thy ===== *)
theory Helm_History
  imports Helm_Contracts
begin

text \<open>
  What the intent tables promise whoever reads them later, each an interpretation of the contract: the
  stated intent never changes, no status is skipped or left once final, every version is there and
  well-formed, and what the event table shows of a life.
\<close>

section \<open>What never changes\<close>

text \<open>Every intent is still there, with what was first submitted and whose it is, its status further along the
  machine and its version no lower.\<close>

definition row_grows :: "helm_intent \<Rightarrow> helm_intent \<Rightarrow> bool" where
  "row_grows r r' \<longleftrightarrow> hi_id r' = hi_id r \<and> hi_first r' = hi_first r \<and> hi_side r' = hi_side r
     \<and> hi_squadron_id r' = hi_squadron_id r \<and> hi_created_at r' = hi_created_at r \<and> hi_ghost r' = hi_ghost r
     \<and> hi_current_version r \<le> hi_current_version r' \<and> (\<exists>ts. moves (hi_status r) ts (hi_status r'))"

definition grows :: "helm_db \<Rightarrow> helm_db \<Rightarrow> bool" where
  "grows db db' \<longleftrightarrow> (\<forall>i r. find_intent i db = Some r \<longrightarrow> (\<exists>r'. find_intent i db' = Some r' \<and> row_grows r r'))"

lemma moves_trans: "moves s ts t \<Longrightarrow> moves t us u \<Longrightarrow> moves s (ts @ us) u"
  by (induction rule: moves.induct) auto

lemma row_grows_refl [simp]: "row_grows r r"
  by (auto simp: row_grows_def intro: moves.stay)

lemma row_grows_trans:
  assumes "row_grows a b" and "row_grows b c"
  shows "row_grows a c"
proof -
  obtain ts us where "moves (hi_status a) ts (hi_status b)" "moves (hi_status b) us (hi_status c)"
    using assms by (auto simp: row_grows_def)
  then have "\<exists>vs. moves (hi_status a) vs (hi_status c)" using moves_trans by blast
  with assms show ?thesis by (simp add: row_grows_def)
qed

lemma row_grows_side: "side_columns f \<Longrightarrow> row_grows r (f r)"
  by (auto simp: row_grows_def side_columns_def intro: moves.stay)

lemma row_grows_moved: "can_transition_to (hi_status r) to \<Longrightarrow> row_grows r (moved now to d r)"
  by (auto simp: row_grows_def intro: exI [of _ "[to]"])

lemma grows_trans: "grows a b \<Longrightarrow> grows b c \<Longrightarrow> grows a c"
  unfolding grows_def by (meson row_grows_trans)

lemma grows_same: "db_intents db' = db_intents db \<Longrightarrow> grows db db'"
  by (auto simp: grows_def find_intent_def)

lemma grows_update:
  assumes "\<And>r. hi_id (f r) = hi_id r" and "\<And>r. find_intent i db = Some r \<Longrightarrow> row_grows r (f r)"
    and "db_intents db' = db_intents (update_intent i f db)"
  shows "grows db db'"
  unfolding grows_def
proof (intro allI impI)
  fix j r assume r: "find_intent j db = Some r"
  then have 2: "find_intent j db' = Some (if j = i then f r else r)"
    using find_intent_update [of f j i db, OF assms(1)] assms(3) by (simp add: find_intent_def)
  show "\<exists>r'. find_intent j db' = Some r' \<and> row_grows r r'"
    using assms(2) r 2 by (cases "j = i") auto
qed

lemma find_intent_append:
  "db_intents db' = db_intents db @ rs \<Longrightarrow> find_intent i db = Some r \<Longrightarrow> find_intent i db' = Some r"
  by (auto simp: find_intent_def find_Some_iff nth_append intro: exI)

lemma grows_insert: "db_intents db' = db_intents db @ rs \<Longrightarrow> grows db db'"
  unfolding grows_def using find_intent_append row_grows_refl by blast

interpretation growing: intent_contract False grows
proof (unfold_locales, goal_cases)
  case (2 a b c) then show ?case by (rule grows_trans)
next
  case (7 new db) show ?case by (rule grows_insert) (simp add: insert_intent_def)
next
  case (8 new db) show ?case by (rule grows_insert) (simp add: insert_intent_def)
next
  case (9 i db r to d) then show ?case
    by (intro grows_update [where f = "moved (db_now db) to d"]) (auto intro: row_grows_moved)
next
  case (10 i db r to d) then show ?case
    by (intro grows_update [where f = "moved (db_now db) to d"]) (auto intro: row_grows_moved)
next
  case (11 i db r content reason)
  let ?f = "\<lambda>x. x\<lparr>hi_current_version := Suc (hi_current_version r), hi_updated_at := db_now db\<rparr>"
  have "hi_id r = i" by (rule find_intent_id [OF 11(1)])
  then show ?case
    by (intro grows_update [where f = ?f and i = i])
      (use 11 in \<open>auto simp: add_revision_def update_intent_def row_grows_def intro: moves.stay\<close>)
next
  case (12 f db i) then show ?case
    by (intro grows_update [where f = f]) (auto intro: row_grows_side simp: side_columns_def)
qed (auto intro: grows_same)

section \<open>What the tables hold\<close>

text \<open>Identifiers are distinct and below the next one, and nothing points beyond them.\<close>

definition ids_ok :: "helm_db \<Rightarrow> bool" where
  "ids_ok db \<longleftrightarrow> distinct (map hi_id (db_intents db)) \<and> (\<forall>r \<in> set (db_intents db). hi_id r \<le> db_last_rowid db)
     \<and> (\<forall>v \<in> set (db_revisions db). iv_intent_id v \<le> db_last_rowid db)
     \<and> (\<forall>e \<in> set (db_events db). ie_intent_id e \<le> db_last_rowid db)"

text \<open>A property of a row and what the other tables hold on it.\<close>

type_synonym row_property = "helm_intent \<Rightarrow> intent_revision list \<Rightarrow> intent_event list \<Rightarrow> bool"

definition versions_of :: "nat \<Rightarrow> helm_db \<Rightarrow> intent_revision list" where
  "versions_of i db = filter (\<lambda>v. iv_intent_id v = i) (db_revisions db)"

definition every_row :: "row_property \<Rightarrow> helm_db \<Rightarrow> bool" where
  "every_row Q db \<longleftrightarrow> ids_ok db \<and>
     (\<forall>r \<in> set (db_intents db). Q r (versions_of (hi_id r) db) (event_rows (hi_id r) db))"

definition keeps_rows :: "row_property \<Rightarrow> helm_db \<Rightarrow> helm_db \<Rightarrow> bool" where
  "keeps_rows Q db db' \<longleftrightarrow> (every_row Q db \<longrightarrow> every_row Q db')"

lemma ids_update:
  assumes "\<And>r. hi_id (f r) = hi_id r"
  shows "ids_ok (update_intent i f db) = ids_ok db"
proof -
  have m: "map hi_id (db_intents (update_intent i f db)) = map hi_id (db_intents db)"
    using assms by (simp add: update_intent_def)
  have "(\<forall>r \<in> set (db_intents (update_intent i f db)). hi_id r \<le> n) = (\<forall>r \<in> set (db_intents db). hi_id r \<le> n)" for n
    using arg_cong [OF m, of "\<lambda>ks. \<forall>k \<in> set ks. k \<le> n"] by simp
  with m show ?thesis by (simp only: ids_ok_def update_intent_simps)
qed

lemma ids_insert: "ids_ok db \<Longrightarrow> ids_ok (insert_intent new db)"
  by (fastforce simp: ids_ok_def insert_intent_def new_row_def)

lemma ids_event: "ids_ok db \<Longrightarrow> i \<le> db_last_rowid db \<Longrightarrow> ids_ok (add_event i from to d db)"
  by (auto simp: ids_ok_def add_event_def)

lemma found_unique:
  assumes "ids_ok db" and "r \<in> set (db_intents db)" and "find_intent i db = Some x" and "hi_id r = i"
  shows "r = x"
proof -
  have "x \<in> set (db_intents db)" "hi_id x = hi_id r"
    using assms(3,4) find_intent_mem find_intent_id by auto
  with assms(1,2) show ?thesis unfolding ids_ok_def distinct_map by (auto dest: inj_onD)
qed

lemma every_row_cong:
  "db_intents db' = db_intents db \<Longrightarrow> db_revisions db' = db_revisions db \<Longrightarrow> db_events db' = db_events db \<Longrightarrow>
    db_last_rowid db' = db_last_rowid db \<Longrightarrow> every_row Q db' = every_row Q db"
  by (simp add: every_row_def ids_ok_def versions_of_def event_rows_def)

text \<open>An update of one row, with what it adds to the other tables about that row.\<close>

lemma every_row_update:
  assumes "every_row Q db" and row: "find_intent i db = Some r" and f: "\<And>r. hi_id (f r) = hi_id r"
    and "db_intents db' = db_intents (update_intent i f db)"
    and vs: "db_revisions db' = db_revisions db @ vs" "\<forall>v \<in> set vs. iv_intent_id v = i"
    and es: "db_events db' = db_events db @ es" "\<forall>e \<in> set es. ie_intent_id e = i"
    and "db_last_rowid db' = db_last_rowid db"
    and Q: "Q r (versions_of i db) (event_rows i db) \<Longrightarrow> Q (f r) (versions_of i db @ vs) (event_rows i db @ es)"
  shows "every_row Q db'"
proof -
  have ids: "ids_ok db" and all: "\<forall>r \<in> set (db_intents db). Q r (versions_of (hi_id r) db) (event_rows (hi_id r) db)"
    using assms(1) by (simp_all add: every_row_def)
  have r: "r \<in> set (db_intents db)" "hi_id r = i" using row find_intent_mem find_intent_id by auto
  have "i \<le> db_last_rowid db" using ids r by (auto simp: ids_ok_def)
  moreover have "ids_ok (update_intent i f db)" using ids ids_update [of f] f by blast
  ultimately have "ids_ok db'" using assms(4,9) vs es by (auto simp: ids_ok_def)
  moreover have "Q r' (versions_of (hi_id r') db') (event_rows (hi_id r') db')" if in': "r' \<in> set (db_intents db')" for r'
  proof -
    from in' assms(4) obtain x where x: "x \<in> set (db_intents db)" "r' = (if hi_id x = i then f x else x)"
      by (auto simp: update_intent_def)
    have new: "versions_of (hi_id r') db' = versions_of (hi_id x) db @ (if hi_id x = i then vs else [])"
      "event_rows (hi_id r') db' = event_rows (hi_id x) db @ (if hi_id x = i then es else [])"
      using x f vs es by (auto simp: versions_of_def event_rows_def filter_id_conv filter_empty_conv)
    show ?thesis
    proof (cases "hi_id x = i")
      case True
      then have "x = r" by (rule found_unique [OF ids x(1) row])
      moreover have "Q r (versions_of i db) (event_rows i db)" using all r by auto
      ultimately show ?thesis using Q True x(2) new f by simp
    next
      case False
      with x all new show ?thesis by simp
    qed
  qed
  ultimately show ?thesis by (simp add: every_row_def)
qed

lemma every_row_insert:
  assumes "every_row Q db" and es: "db_events db' = db_events db @ es" "\<forall>e \<in> set es. ie_intent_id e = Suc (db_last_rowid db)"
    and "db_intents db' = db_intents db @ [new_row new db]" "db_revisions db' = db_revisions db"
    and "db_last_rowid db' = Suc (db_last_rowid db)" and Q: "Q (new_row new db) [] es"
  shows "every_row Q db'"
proof -
  let ?i = "Suc (db_last_rowid db)"
  have ids: "ids_ok db" and all: "\<forall>r \<in> set (db_intents db). Q r (versions_of (hi_id r) db) (event_rows (hi_id r) db)"
    using assms(1) by (simp_all add: every_row_def)
  have old: "event_rows (hi_id r) db' = event_rows (hi_id r) db" if "r \<in> set (db_intents db)" for r
    using ids es that by (fastforce simp: event_rows_def filter_empty_conv ids_ok_def)
  have none: "versions_of ?i db = []" "event_rows ?i db = []"
    using ids by (auto simp: versions_of_def event_rows_def filter_empty_conv ids_ok_def)
  then have new: "event_rows ?i db' = es" using es by (simp add: event_rows_def filter_id_conv)
  have "ids_ok db'"
    using ids_insert [OF ids, of new] assms es by (fastforce simp: ids_ok_def insert_intent_def)
  moreover have "versions_of i db' = versions_of i db" for i using assms(5) by (simp add: versions_of_def)
  moreover have "hi_id (new_row new db) = ?i" by (simp add: new_row_def)
  ultimately show ?thesis
    using all Q old none new assms(4) by (simp add: every_row_def)
qed

text \<open>The contract of a property of rows: what a new row, a move, a revision and an annotation have to keep.\<close>

locale row_contract =
  fixes sure :: bool and Q :: row_property
  assumes new_alone: "\<not> sure \<Longrightarrow> well_shaped (ni_side new) (ni_content new) \<Longrightarrow> Q (new_row new db) [] []"
    and new_recorded: "well_shaped (ni_side new) (ni_content new) \<Longrightarrow> ie_to_status e = Proposed \<Longrightarrow> Q (new_row new db) [] [e]"
    and move_alone: "\<not> sure \<Longrightarrow> Q r vs es \<Longrightarrow> can_transition_to (hi_status r) to \<Longrightarrow> Q (moved now to d r) vs es"
    and move_recorded: "Q r vs es \<Longrightarrow> can_transition_to (hi_status r) to \<Longrightarrow> ie_to_status e = to \<Longrightarrow>
      Q (moved now to d r) vs (es @ [e])"
    and revision: "Q r vs es \<Longrightarrow> well_shaped (hi_side r) (iv_content v) \<Longrightarrow> iv_version v = Suc (hi_current_version r) \<Longrightarrow>
      Q (r\<lparr>hi_current_version := Suc (hi_current_version r), hi_updated_at := now\<rparr>) (vs @ [v]) es"
    and annotation: "side_columns f \<Longrightarrow> Q r vs es \<Longrightarrow> Q (f r) vs es"

sublocale row_contract \<subseteq> kept: intent_contract sure "keeps_rows Q"
proof (unfold_locales, goal_cases)
  case (7 new db)
  have "every_row Q (insert_intent new db)" if "every_row Q db"
    by (rule every_row_insert [OF that, where es = "[]" and new = new])
      (simp_all add: insert_intent_def new_alone [OF 7])
  then show ?case by (simp add: keeps_rows_def)
next
  case (8 new db)
  let ?e = "\<lparr>ie_intent_id = Suc (db_last_rowid db), ie_at = db_now db, ie_from_status = None,
      ie_to_status = Proposed, ie_detail = None\<rparr>"
  have "every_row Q (add_event (Suc (db_last_rowid db)) None Proposed None (insert_intent new db))" if "every_row Q db"
    by (rule every_row_insert [OF that, where es = "[?e]" and new = new])
      (simp_all add: insert_intent_def add_event_def new_recorded [OF 8])
  then show ?case by (simp add: keeps_rows_def)
next
  case (9 i db r to d)
  have "every_row Q (update_intent i (moved (db_now db) to d) db)" if "every_row Q db"
    by (rule every_row_update [OF that 9(2), where f = "moved (db_now db) to d" and vs = "[]" and es = "[]"])
      (simp_all add: move_alone [OF 9(1) _ 9(3)])
  then show ?case by (simp add: keeps_rows_def)
next
  case (10 i db r to d)
  let ?e = "\<lparr>ie_intent_id = i, ie_at = db_now db, ie_from_status = Some (hi_status r),
      ie_to_status = to, ie_detail = d\<rparr>"
  have "every_row Q (add_event i (Some (hi_status r)) to d (update_intent i (moved (db_now db) to d) db))"
    if "every_row Q db"
    by (rule every_row_update [OF that 10(1), where f = "moved (db_now db) to d" and vs = "[]" and es = "[?e]"])
      (simp_all add: add_event_def move_recorded [OF _ 10(2)])
  then show ?case by (simp add: keeps_rows_def)
next
  case (11 i db r content reason)
  let ?v = "\<lparr>iv_intent_id = hi_id r, iv_version = Suc (hi_current_version r), iv_reason = trim reason,
      iv_content = content, iv_created_at = db_now db\<rparr>"
  let ?f = "\<lambda>x. x\<lparr>hi_current_version := Suc (hi_current_version r), hi_updated_at := db_now db\<rparr>"
  have i: "hi_id r = i" by (rule find_intent_id [OF 11(1)])
  have "every_row Q (add_revision r content reason db)" if "every_row Q db"
  proof (rule every_row_update [OF that 11(1), where f = ?f and vs = "[?v]" and es = "[]"])
    show "Q r (versions_of i db) (event_rows i db) \<Longrightarrow> Q (?f r) (versions_of i db @ [?v]) (event_rows i db @ [])"
      using revision [of r "versions_of i db" "event_rows i db" ?v] 11(3) by simp
  qed (simp_all add: add_revision_def update_intent_def i)
  then show ?case by (simp add: keeps_rows_def)
next
  case (12 f db i)
  show ?case
  proof (cases "find_intent i db")
    case None
    then have "update_intent i f db = db" by (auto simp: find_intent_def find_None_iff update_intent_def map_idI)
    then show ?thesis by (simp add: keeps_rows_def)
  next
    case (Some r)
    have "every_row Q (update_intent i f db)" if "every_row Q db"
      by (rule every_row_update [OF that Some, where f = f and vs = "[]" and es = "[]"])
        (use 12 in \<open>simp_all add: side_columns_def annotation\<close>)
    then show ?thesis by (simp add: keeps_rows_def)
  qed
qed (auto simp: keeps_rows_def intro: every_row_cong [THEN iffD2])

section \<open>The properties of rows\<close>

definition shaped :: row_property where
  "shaped r vs es \<longleftrightarrow> well_shaped (hi_side r) (hi_first r) \<and> (\<forall>v \<in> set vs. well_shaped (hi_side r) (iv_content v))"

definition numbered :: row_property where
  "numbered r vs es \<longleftrightarrow> map iv_version vs = [2..<Suc (hi_current_version r)] \<and> 1 \<le> hi_current_version r"

definition explained :: row_property where
  "explained r vs es \<longleftrightarrow> (\<exists>ts. moves Proposed ts (hi_status r) \<and> subseq (map ie_to_status es) (Proposed # ts))"

definition fully_explained :: row_property where
  "fully_explained r vs es \<longleftrightarrow> (\<exists>ts. moves Proposed ts (hi_status r) \<and> map ie_to_status es = Proposed # ts)"

lemma stored_side:
  assumes "well_shaped side c"
  shows "well_shaped (to_ascii_uppercase (trim side)) c"
proof -
  have "to_ascii_uppercase (trim ''YES'') = ''YES''" "to_ascii_uppercase (trim ''NO'') = ''NO''" by code_simp+
  moreover have "to_ascii_uppercase (trim side) \<in> {''YES'', ''NO''}"
    using assms by (simp add: shape_check_def split: if_splits)
  ultimately have "to_ascii_uppercase (trim (to_ascii_uppercase (trim side))) \<in> {''YES'', ''NO''}" by auto
  with assms show ?thesis unfolding shape_check_def by simp
qed

lemma new_row_simps [simp]:
  "hi_side (new_row new db) = to_ascii_uppercase (trim (ni_side new))" "hi_first (new_row new db) = ni_content new"
  "hi_status (new_row new db) = Proposed" "hi_current_version (new_row new db) = 1"
  by (simp_all add: new_row_def)

lemma subseq_snoc: "subseq xs ys \<Longrightarrow> subseq (xs @ [a]) (ys @ [a])"
  by (rule list_emb_append_mono) simp_all

lemma subseq_later: "subseq xs ys \<Longrightarrow> subseq xs (ys @ zs)"
  by (rule subseq_order.trans [OF _ prefix_imp_subseq [OF prefixI [OF refl]]])

interpretation shaped: row_contract False shaped
  by unfold_locales (auto simp: shaped_def stored_side side_columns_def)

interpretation numbered: row_contract False numbered
  by unfold_locales (auto simp: numbered_def side_columns_def upt_Suc_append)

interpretation explained: row_contract False explained
proof (unfold_locales, goal_cases)
  case (3 r vs es to now d)
  then obtain ts where "moves Proposed ts (hi_status r)" "subseq (map ie_to_status es) (Proposed # ts)"
    by (auto simp: explained_def)
  then have "moves Proposed (ts @ [to]) to" "subseq (map ie_to_status es) (Proposed # ts @ [to])"
    using 3(3) moves_append subseq_later [of _ "Proposed # ts" "[to]"] by auto
  then show ?case by (auto simp: explained_def)
next
  case (4 r vs es to e now d)
  then obtain ts where "moves Proposed ts (hi_status r)" "subseq (map ie_to_status es) (Proposed # ts)"
    by (auto simp: explained_def)
  then have "moves Proposed (ts @ [to]) to" "subseq (map ie_to_status es @ [to]) (Proposed # ts @ [to])"
    using 4(2) moves_append subseq_snoc [of _ "Proposed # ts" to] by auto
  with 4(3) show ?case by (auto simp: explained_def)
qed (auto simp: explained_def side_columns_def intro: moves.stay)

interpretation fully_explained: row_contract True fully_explained
proof (unfold_locales, goal_cases)
  case (4 r vs es to e now d)
  then obtain ts where ts: "moves Proposed ts (hi_status r)" "map ie_to_status es = Proposed # ts"
    by (auto simp: fully_explained_def)
  have "moves Proposed (ts @ [to]) to" by (rule moves_append [OF ts(1) 4(2)])
  with ts(2) 4(3) show ?case by (auto simp: fully_explained_def)
qed (auto simp: fully_explained_def side_columns_def)

section \<open>What a reader may rely on\<close>

lemma every_row_empty: "every_row Q (empty_db ok now session)"
  by (simp add: every_row_def ids_ok_def empty_db_def)

lemma history_rows:
  assumes "helm_reaches (empty_db ok now session) db" and "find_intent i db = Some r"
  shows "shaped r (versions_of i db) (event_rows i db)" "numbered r (versions_of i db) (event_rows i db)"
    "explained r (versions_of i db) (event_rows i db)"
    "\<forall>n. ok n \<Longrightarrow> fully_explained r (versions_of i db) (event_rows i db)"
proof -
  have r: "r \<in> set (db_intents db)" "hi_id r = i" using assms(2) find_intent_mem find_intent_id by auto
  have keep: "Q r (versions_of i db) (event_rows i db)" if "keeps_rows Q (empty_db ok now session) db" for Q
    using that r every_row_empty unfolding keeps_rows_def every_row_def by blast
  show "shaped r (versions_of i db) (event_rows i db)" "numbered r (versions_of i db) (event_rows i db)"
    "explained r (versions_of i db) (event_rows i db)"
    using shaped.kept.run_keeps [OF assms(1)] numbered.kept.run_keeps [OF assms(1)] explained.kept.run_keeps [OF assms(1)]
    by (simp_all add: keep)
  show "fully_explained r (versions_of i db) (event_rows i db)" if "\<forall>n. ok n"
    using fully_explained.kept.run_keeps [OF assms(1)] that by (simp add: keep reliable_def empty_db_def)
qed

lemma terminal_moves: "moves s ts u \<Longrightarrow> is_terminal s \<Longrightarrow> u = s"
  by (induction rule: moves.induct) (auto dest: no_move_from_terminal)

text \<open>What the operator first stated is never rewritten.  Across any run of operations, whichever statements
  fail, an intent is still there with its first submission, its side and whether it was simulated; its
  version never goes back, its status only moves along the machine, and a closed or superseded intent
  keeps its status.\<close>

theorem stated_intent_is_immutable:
  assumes "helm_reaches db db'" and "find_intent i db = Some r"
  shows "\<exists>r'. find_intent i db' = Some r' \<and> hi_first r' = hi_first r \<and> hi_side r' = hi_side r
    \<and> hi_squadron_id r' = hi_squadron_id r \<and> hi_ghost r' = hi_ghost r
    \<and> hi_current_version r \<le> hi_current_version r' \<and> (\<exists>ts. moves (hi_status r) ts (hi_status r'))
    \<and> (is_terminal (hi_status r) \<longrightarrow> hi_status r' = hi_status r)"
proof -
  obtain r' where r': "find_intent i db' = Some r'" "row_grows r r'"
    using growing.run_keeps [OF assms(1)] assms(2) unfolding grows_def by auto
  then obtain ts where "moves (hi_status r) ts (hi_status r')" by (auto simp: row_grows_def)
  with r' terminal_moves show ?thesis by (auto simp: row_grows_def)
qed

text \<open>The event table explains every status.  Whichever statements failed, the recorded statuses of an
  intent appear in the order of a path of the machine from proposed to its status; when none failed
  they are that whole path, so an intent recorded as filled, in part or in full, was recorded as working
  before, and as acknowledged by the operator before that.\<close>

theorem events_explain_status:
  assumes "helm_reaches (empty_db ok now session) db" and "find_intent i db = Some r"
  shows "(\<exists>ts. moves Proposed ts (hi_status r)
      \<and> subseq (map ie_to_status (event_rows i db)) (Proposed # ts)
      \<and> ((\<forall>n. ok n) \<longrightarrow> map ie_to_status (event_rows i db) = Proposed # ts
           \<and> (Filled \<in> set ts \<or> Partial \<in> set ts \<longrightarrow> Working \<in> set ts \<and> Acknowledged \<in> set ts)))"
proof (cases "\<forall>n. ok n")
  case True
  then obtain ts where ts: "moves Proposed ts (hi_status r)" "map ie_to_status (event_rows i db) = Proposed # ts"
    using history_rows(4) [OF assms] by (auto simp: fully_explained_def)
  then show ?thesis using moves_from_proposed [OF ts(1)] by (intro exI [of _ ts]) auto
next
  case False
  then show ?thesis using history_rows(3) [OF assms] unfolding explained_def by blast
qed

lemma sorted_versions:
  assumes "numbered r vs es"
  shows "sort_key iv_version vs = vs"
proof -
  have "sorted (map iv_version vs)" using assms unfolding numbered_def by (metis sorted_upt)
  then show ?thesis by (rule sort_key_id_if_sorted)
qed

lemma names_an_exit:
  assumes "well_shaped side c"
  shows "ic_hold_to_settlement c \<or> ic_stop_price c \<noteq> None \<or> ic_take_profit_price c \<noteq> None \<or> ic_time_limit_at c \<noteq> None"
  using assms by (auto simp: shape_check_def split: if_splits)

lemma pick_last:
  assumes "numbered r vs es" and "1 < hi_current_version r"
  shows "vs \<noteq> []" and "find (\<lambda>v. iv_version v = hi_current_version r) vs = Some (last vs)"
proof -
  have m: "map iv_version vs = [2..<Suc (hi_current_version r)]" using assms(1) by (simp add: numbered_def)
  with assms(2) show ne: "vs \<noteq> []" by auto
  have l: "iv_version (last vs) = hi_current_version r"
    using m ne assms(2) by (metis last_map last_upt upt_conv_Nil diff_Suc_1 list.map_disc_iff not_less)
  have "distinct (map iv_version vs)" unfolding m by (rule distinct_upt)
  then have u: "v = last vs" if "v \<in> set vs" "iv_version v = hi_current_version r" for v
    using that l ne last_in_set [OF ne] by (auto simp: distinct_map inj_on_def)
  obtain v where v: "find (\<lambda>v. iv_version v = hi_current_version r) vs = Some v"
    using l last_in_set [OF ne] by (cases "find (\<lambda>v. iv_version v = hi_current_version r) vs") (auto simp: find_None_iff)
  then have "v \<in> set vs" "iv_version v = hi_current_version r" by (auto simp: find_Some_iff)
  with u v show "find (\<lambda>v. iv_version v = hi_current_version r) vs = Some (last vs)" by simp
qed

lemma reads_last_statement:
  assumes "helm_reaches (empty_db ok now session) db" and "find_intent i db = Some r"
  shows "map iv_version (revision_rows i db) = [2..<Suc (hi_current_version r)]
    \<and> fst (current_content r db) =
        (if hi_current_version r = 1 \<or> \<not> succeeds db then hi_first r else iv_content (last (revision_rows i db)))
    \<and> well_shaped (hi_side r) (fst (current_content r db))
    \<and> (ic_hold_to_settlement (fst (current_content r db)) \<or> ic_stop_price (fst (current_content r db)) \<noteq> None
        \<or> ic_take_profit_price (fst (current_content r db)) \<noteq> None \<or> ic_time_limit_at (fst (current_content r db)) \<noteq> None)"
proof -
  let ?vs = "versions_of i db" and ?c = "fst (current_content r db)"
  have i: "hi_id r = i" by (rule find_intent_id [OF assms(2)])
  note num = history_rows(2) [OF assms] and shp = history_rows(1) [OF assms]
  have rows: "revision_rows i db = ?vs"
    using sorted_versions [OF num] by (simp add: revision_rows_def versions_of_def)
  have tick_rows: "revision_rows i (tick db) = revision_rows i db" by (simp add: revision_rows_def)
  have pos: "1 \<le> hi_current_version r" using num by (simp add: numbered_def)
  have c: "?c = (if hi_current_version r = 1 \<or> \<not> succeeds db then hi_first r else iv_content (last ?vs))"
  proof (cases "hi_current_version r = 1")
    case False
    with pos have "1 < hi_current_version r" by simp
    from pick_last [OF num this] this show ?thesis
      by (simp add: current_content_def revisions_def query_or_def i tick_rows rows pick_version_def split_beta Let_def)
  qed (simp add: current_content_def)
  have "well_shaped (hi_side r) ?c"
  proof (cases "hi_current_version r = 1 \<or> \<not> succeeds db")
    case False
    with pos have "last ?vs \<in> set ?vs" using pick_last(1) [OF num] by simp
    with False shp show ?thesis unfolding c shaped_def by simp
  qed (use shp in \<open>auto simp: c shaped_def\<close>)
  with c rows num names_an_exit show ?thesis by (auto simp: numbered_def)
qed


lemma content_shaped:
  assumes "helm_reaches (empty_db ok now session) db" and "find_intent i db = Some r"
  shows "well_shaped (hi_side r) (fst (current_content r db))"
  using reads_last_statement [OF assms] by blast

text \<open>What the engine reads is what the operator last stated.  After any run, under any failures, the
  revisions of an intent are numbered 2 to its current version with none missing; the content read is the
  last of them, or the first submission of an intent never revised; should the read itself fail it falls
  back to the first submission; and whichever it is passed the shape check, so it names an exit.\<close>

theorem engine_reads_last_statement:
  assumes "helm_reaches (empty_db ok now session) db" and "find_intent i db = Some r"
  shows "map iv_version (revision_rows i db) = [2..<Suc (hi_current_version r)]
    \<and> fst (current_content r db) =
        (if hi_current_version r = 1 \<or> \<not> succeeds db then hi_first r else iv_content (last (revision_rows i db)))
    \<and> well_shaped (hi_side r) (fst (current_content r db))
    \<and> (ic_hold_to_settlement (fst (current_content r db)) \<or> ic_stop_price (fst (current_content r db)) \<noteq> None
        \<or> ic_take_profit_price (fst (current_content r db)) \<noteq> None \<or> ic_time_limit_at (fst (current_content r db)) \<noteq> None)"
  using assms by (rule reads_last_statement)

section \<open>Where a failure or a race shows\<close>

lemma find_moved:
  "find_intent i db = Some r \<Longrightarrow> find_intent i (update_intent i (moved now to d) db) = Some (moved now to d r)"
  by (simp add: find_intent_update)

text \<open>A move is two statements and no transaction.  When the event's insert fails after the update, the
  operation reports an error, yet the intent has moved and the event table never learns of it.\<close>

theorem move_can_go_unrecorded:
  assumes "find_intent i db = Some r" and "can_transition_to (hi_status r) to"
    and "db_ok db (db_calls db)" and "db_ok db (Suc (db_calls db))" and "\<not> db_ok db (Suc (Suc (db_calls db)))"
  shows "fst (transition i to d db) = Inl Statement_failed
    \<and> map_option hi_status (find_intent i (snd (transition i to d db))) = Some to
    \<and> event_rows j (snd (transition i to d db)) = event_rows j db"
proof -
  have "get_existing i db = (Inr r, tick db)"
    using assms(1,3) by (simp add: get_existing_def get_def and_then_def query_def succeeds_def ret_def)
  with assms find_intent_id [OF assms(1)]
  have "transition i to d db = (Inl Statement_failed, tick (update_intent i (moved (db_now db) to d) (tick (tick db))))"
    by (simp add: transition_def and_then_def write_move_def exec_def record_event_def succeeds_def)
  with assms(1) show ?thesis by (simp add: find_moved event_rows_def)
qed

text \<open>The legality of a move is checked against a row read before the write, and the update carries no
  condition of its own.  A fill recorded from a row read before the operator's cancel closed the intent
  takes it from closed, a final status, back to filled.\<close>

theorem stale_check_leaves_terminal:
  assumes "reliable db" and "find_intent i db = Some cur" and "hi_status cur = Working"
  shows "map_option hi_status (find_intent i (snd (transition i Closed d db))) = Some Closed
    \<and> map_option hi_status (find_intent i (snd (write_move cur Filled d' (snd (transition i Closed d db))))) = Some Filled"
proof -
  have i: "hi_id cur = i" by (rule find_intent_id [OF assms(2)])
  have ok: "succeeds db'" if "db_ok db' = db_ok db" for db' using assms(1) that by (simp add: succeeds_def reliable_def)
  let ?db1 = "snd (transition i Closed d db)"
  have get1: "get_existing i db' = (Inr r, tick db')" if "find_intent i db' = Some r" "db_ok db' = db_ok db" for r db'
    using that ok by (simp add: get_existing_def get_def and_then_def query_def ret_def)
  have w: "\<exists>db2. write_move cur to e db' = (Inr (moved (db_now db') to e r), db2)
      \<and> find_intent i db2 = Some (moved (db_now db') to e r) \<and> db_ok db2 = db_ok db"
    if "find_intent i db' = Some r" "db_ok db' = db_ok db" for to e r db'
    using that ok by (simp add: write_move_def and_then_def exec_def record_event_def i get1 find_moved)
  from w [OF assms(2) refl, of Closed d] assms(2)
  have 1: "find_intent i ?db1 = Some (moved (db_now db) Closed d cur)" "db_ok ?db1 = db_ok db"
    using get1 [OF assms(2) refl] w [of "tick db" cur Closed d] assms(3)
    by (auto simp: transition_def and_then_def)
  from w [OF this, of Filled d'] 1 show ?thesis by auto
qed

section \<open>A life\<close>

definition sample_new :: new_intent where
  "sample_new =
     \<lparr>ni_squadron_id = ''helm-a'', ni_market_id = ''m'', ni_market_name = ''M'', ni_side = ''yes'',
      ni_content = sample_content, ni_ghost = True, ni_venue = ''intl''\<rparr>"

definition sample_opened :: "(nat \<Rightarrow> bool) \<Rightarrow> helm_db" where
  "sample_opened ok = snd (create sample_new (empty_db ok 0 ''s''))"

definition sample_acknowledged :: helm_db where
  "sample_acknowledged = snd (transition 1 Acknowledged None (sample_opened (\<lambda>_. True)))"

definition sample_revised :: helm_db where
  "sample_revised =
     snd (revise 1 (sample_content\<lparr>ic_stop_price := Some (11 / 20)\<rparr>) ''tighter'' sample_acknowledged)"

lemma opened_reached: "helm_reaches (empty_db ok 0 ''s'') (sample_opened ok)"
  unfolding helm_reaches_def sample_opened_def by (intro r_into_rtranclp helm_step.intros)

lemma acknowledged_reached: "helm_reaches (empty_db (\<lambda>_. True) 0 ''s'') sample_acknowledged"
  using opened_reached unfolding helm_reaches_def sample_acknowledged_def
  by (rule rtranclp.rtrancl_into_rtrancl) (rule helm_step.intros)

lemma revised_reached: "helm_reaches (empty_db (\<lambda>_. True) 0 ''s'') sample_revised"
  using acknowledged_reached unfolding helm_reaches_def sample_revised_def
  by (rule rtranclp.rtrancl_into_rtrancl) (rule helm_step.intros)

lemma revised_from_acknowledged: "helm_reaches sample_acknowledged sample_revised"
  unfolding helm_reaches_def sample_revised_def by (intro r_into_rtranclp helm_step.intros)

lemma sample_rows:
  "map_option hi_status (find_intent 1 (sample_opened (\<lambda>_. True))) = Some Proposed"
  "map_option hi_status (find_intent 1 sample_acknowledged) = Some Acknowledged"
  "map_option hi_current_version (find_intent 1 sample_revised) = Some 2"
  "map iv_version (revision_rows 1 sample_revised) = [2]"
  "map_option hi_first (find_intent 1 sample_acknowledged) = Some sample_content"
  "map_option hi_status (find_intent 1 sample_revised) = Some Acknowledged"
  by code_simp+

lemma stated_intent_is_immutable_witness:
  "\<exists>r'. find_intent 1 sample_revised = Some r' \<and> hi_first r' = sample_content \<and> hi_current_version r' = 2"
proof -
  obtain r where r: "find_intent 1 sample_acknowledged = Some r" "hi_first r = sample_content"
    using sample_rows(2,5) by auto
  then show ?thesis
    using stated_intent_is_immutable [OF revised_from_acknowledged r(1)] sample_rows(3) by auto
qed

lemma events_explain_status_witness:
  "\<exists>ts. moves Proposed ts Acknowledged \<and> map ie_to_status (event_rows 1 sample_revised) = Proposed # ts"
proof -
  obtain r where r: "find_intent 1 sample_revised = Some r" "hi_status r = Acknowledged"
    using sample_rows(6) by auto
  then show ?thesis using events_explain_status [OF revised_reached r(1)] by auto
qed

lemma engine_reads_last_statement_witness:
  "\<exists>r. find_intent 1 sample_revised = Some r \<and> ic_stop_price (fst (current_content r sample_revised)) = Some (11 / 20)
     \<and> well_shaped (hi_side r) (fst (current_content r sample_revised))"
proof -
  obtain r where r: "find_intent 1 sample_revised = Some r" "hi_current_version r = 2"
    using sample_rows(3) by auto
  have ok: "succeeds sample_revised" "ic_stop_price (iv_content (last (revision_rows 1 sample_revised))) = Some (11 / 20)"
    by code_simp+
  show ?thesis
    using engine_reads_last_statement [OF revised_reached r(1)] r ok by fastforce
qed

lemma move_can_go_unrecorded_witness:
  "fst (transition 1 Acknowledged None (sample_opened (\<lambda>n. n \<noteq> 4))) = Inl Statement_failed
   \<and> map_option hi_status (find_intent 1 (snd (transition 1 Acknowledged None (sample_opened (\<lambda>n. n \<noteq> 4))))) = Some Acknowledged
   \<and> map ie_to_status (event_rows 1 (snd (transition 1 Acknowledged None (sample_opened (\<lambda>n. n \<noteq> 4))))) = [Proposed]"
proof -
  let ?db = "sample_opened (\<lambda>n. n \<noteq> 4)"
  have calls: "db_calls ?db = 2" "db_ok ?db 2" "db_ok ?db 3" "\<not> db_ok ?db 4"
    and rows: "map_option hi_status (find_intent 1 ?db) = Some Proposed" "map ie_to_status (event_rows 1 ?db) = [Proposed]"
    by code_simp+
  then obtain r where r: "find_intent 1 ?db = Some r" "hi_status r = Proposed" by auto
  show ?thesis
    using move_can_go_unrecorded [OF r(1), of Acknowledged None 1] r calls rows by simp
qed

lemma stale_check_leaves_terminal_witness:
  "\<exists>cur. hi_status cur = Working \<and> map_option hi_status (find_intent 1 (snd (write_move cur Filled None
     (snd (transition 1 Closed None (snd (transition 1 Working None sample_acknowledged))))))) = Some Filled"
proof -
  let ?db = "snd (transition 1 Working None sample_acknowledged)"
  have "helm_reaches sample_acknowledged ?db"
    unfolding helm_reaches_def by (intro r_into_rtranclp helm_step.intros)
  with acknowledged_reached have "helm_reaches (empty_db (\<lambda>_. True) 0 ''s'') ?db"
    unfolding helm_reaches_def by (rule rtranclp_trans)
  then have "reliable ?db" using growing.run_keeps by (fastforce simp: reliable_def empty_db_def)
  moreover have "map_option hi_status (find_intent 1 ?db) = Some Working" by code_simp
  then obtain cur where cur: "find_intent 1 ?db = Some cur" "hi_status cur = Working" by auto
  ultimately show ?thesis using stale_check_leaves_terminal [of ?db 1 cur None None] by auto
qed

end
