(* ===== verification/Helm_Posture.thy ===== *)
theory Helm_Posture
  imports Helm_Content Viper_Common
begin

text \<open>
  The pure decisions of the operator's strategy, \<open>src/vipers/helm_impl.rs\<close>: the gates of an entry and the
  order they produce, the exit posture of a held position, and what the position map says about an
  intent in flight; with what a stated posture guarantees against the book it was checked on.
\<close>

section \<open>The entry\<close>

record entry_inputs =
  ei_ghost :: bool
  ei_helm_enabled :: bool
  ei_live_enabled :: bool
  ei_drawdown_hit :: bool
  ei_bid :: decimal
  ei_ask :: decimal
  ei_secs_to_close :: "int option"
  ei_min_secs_to_close :: int
  ei_min_shares :: decimal
  ei_helm_exposure :: decimal
  ei_max_exposure :: decimal
  ei_available_collateral :: decimal
  ei_now :: utc
  ei_fee_enforce :: bool
  ei_fee_max_ratio :: decimal
  ei_fee_max_notional_pct :: decimal

record entry_order =
  eo_price :: decimal
  eo_shares :: decimal
  eo_order_type :: time_in_force
  eo_post_only :: bool

datatype plan_refusal =
    Helm_disabled
  | Helm_live_disabled
  | Drawdown_hit
  | Book_refusal book_error
  | Fee_refusal verdict_text
  | No_ask_to_take
  | Exposure_cap decimal decimal decimal
  | Insufficient_collateral decimal decimal decimal

text \<open>What the build decides: how a take-profit reaches the book and the smallest order.\<close>

record helm_build =
  hb_take_profit_leg :: take_profit_leg
  hb_min_shares :: decimal
  hb_text :: "plan_refusal \<Rightarrow> string"

definition plan_facts :: "entry_inputs \<Rightarrow> book_facts" where
  "plan_facts i =
     \<lparr>bf_bid = ei_bid i, bf_ask = ei_ask i,
      bf_close_time = map_option (\<lambda>s. ei_now i + s * nanos_per_sec) (ei_secs_to_close i),
      bf_now = ei_now i, bf_min_shares = ei_min_shares i, bf_min_secs_to_close = ei_min_secs_to_close i\<rparr>"

text \<open>The two gates after the book rules: the cap on what Helm holds and the collateral.\<close>

definition size_gates ::
  "viper_env \<Rightarrow> intent_content \<Rightarrow> entry_inputs \<Rightarrow> decimal \<Rightarrow> decimal \<Rightarrow> plan_refusal + entry_order" where
  "size_gates env c i price shares =
     (let size = ic_size_usdc c; fee = round_trip_fee_pct (ve_taker_fee_rate env) price * size in
      if ei_max_exposure i < ei_helm_exposure i + size
      then Inl (Exposure_cap (ei_helm_exposure i) size (ei_max_exposure i))
      else if ei_available_collateral i < size + fee
      then Inl (Insufficient_collateral (ei_available_collateral i) size fee)
      else Inr \<lparr>eo_price = price, eo_shares = shares,
                eo_order_type = (case ic_entry_kind c of Taker \<Rightarrow> Fak | Resting \<Rightarrow> Gtc),
                eo_post_only = (ic_entry_kind c = Resting)\<rparr>)"

definition entry_plan ::
  "viper_env \<Rightarrow> helm_build \<Rightarrow> intent_content \<Rightarrow> entry_inputs \<Rightarrow> (plan_refusal + entry_order) option" where
  "entry_plan env bd c i =
     (let facts = plan_facts i; rnd = ve_rnd env in
      if \<not> ei_helm_enabled i then Some (Inl Helm_disabled)
      else if \<not> ei_ghost i \<and> \<not> ei_live_enabled i then Some (Inl Helm_live_disabled)
      else if ei_drawdown_hit i then Some (Inl Drawdown_hit)
      else (case validate_against_book rnd c facts of
              e # _ \<Rightarrow> Some (Inl (Book_refusal e))
            | [] \<Rightarrow>
                (let verdict = (if ei_fee_enforce i
                   then fee_verdict_on rnd (ve_taker_fee_rate env) c facts (hb_take_profit_leg bd)
                          (ei_fee_max_ratio i) (ei_fee_max_notional_pct i)
                   else Some (verdict_pass No_price_to_measure))
                 in case verdict of
                      None \<Rightarrow> None
                    | Some v \<Rightarrow>
                        (case fv_refusal v of
                           Some why \<Rightarrow> Some (Inl (Fee_refusal why))
                         | None \<Rightarrow>
                             (case entry_price c facts of
                                None \<Rightarrow> Some (Inl No_ask_to_take)
                              | Some price \<Rightarrow>
                                  map_option (size_gates env c i price) (checked_div env (ic_size_usdc c) price))))))"

section \<open>The exit posture\<close>

datatype posture_reason =
    Floor_hit decimal decimal decimal
  | Time_limit_hit utc decimal
  | Stop_hit decimal decimal
  | Target_hit decimal decimal

datatype posture_action_result = Posture_exit posture_reason | Rest_take_profit decimal | Posture_hold

definition posture_action :: "intent_content \<Rightarrow> decimal \<Rightarrow> decimal \<Rightarrow> utc \<Rightarrow> posture_action_result" where
  "posture_action c avg_entry bid now =
     (let has_bid = 0 < bid;
          target = (case ic_take_profit_price c of
              None \<Rightarrow> Posture_hold
            | Some tp \<Rightarrow>
                if has_bid \<and> tp \<le> bid then Posture_exit (Target_hit bid tp)
                else if bid < tp \<and> tp < 1 then Rest_take_profit tp
                else Posture_hold);
          stop = (case ic_stop_price c of
              None \<Rightarrow> target
            | Some s \<Rightarrow>
                if \<not> ic_hold_to_settlement c \<and> has_bid \<and> bid \<le> s then Posture_exit (Stop_hit bid s) else target);
          limit = (case ic_time_limit_at c of
              None \<Rightarrow> stop
            | Some t \<Rightarrow> if has_bid \<and> t \<le> now then Posture_exit (Time_limit_hit t bid) else stop)
      in case ic_catastrophic_floor_pct c of
           None \<Rightarrow> limit
         | Some f \<Rightarrow>
             if has_bid \<and> bid \<le> avg_entry * (1 - f) then Posture_exit (Floor_hit bid (avg_entry * (1 - f)) f)
             else limit)"

section \<open>Whose shares\<close>

text \<open>The patrol asks before it places the entry; a baseline that could not be read is not one read as zero.\<close>

datatype attribution_refusal = Baseline_unread | Wallet_holds decimal decimal

definition entry_attribution_check :: "bool \<Rightarrow> decimal \<Rightarrow> decimal \<Rightarrow> attribution_refusal + unit" where
  "entry_attribution_check baseline_read_ok baseline_shares min_order_shares =
     (if \<not> baseline_read_ok then Inl Baseline_unread
      else if min_order_shares \<le> baseline_shares then Inl (Wallet_holds baseline_shares min_order_shares)
      else Inr ())"

section \<open>What the map says of an intent in flight\<close>

datatype reconcile_outcome = Rc_wait | Rc_filled | Rc_partial | Rc_missed | Rc_retry | Rc_pull | Rc_gone

definition full_fill_ratio :: decimal where
  "full_fill_ratio = 98 / 100"

definition full_fill :: "decimal option \<Rightarrow> decimal \<Rightarrow> bool" where
  "full_fill asked shares =
     (case asked of None \<Rightarrow> True | Some a \<Rightarrow> a \<le> 0 \<or> a * full_fill_ratio \<le> shares)"

definition window_over :: "int option \<Rightarrow> int \<Rightarrow> bool" where
  "window_over working_for window = (case working_for of None \<Rightarrow> False | Some s \<Rightarrow> window \<le> s)"

definition reconcile_intent ::
  "intent_status \<Rightarrow> (decimal \<times> bool) option \<Rightarrow> decimal option \<Rightarrow> int option \<Rightarrow> int \<Rightarrow> reconcile_outcome" where
  "reconcile_intent status position asked working_for window =
     (case (status, position) of
        (Working, Some (shares, True)) \<Rightarrow> if full_fill asked shares then Rc_filled else Rc_partial
      | (Working, Some (_, False)) \<Rightarrow> if window_over working_for window then Rc_pull else Rc_wait
      | (Working, None) \<Rightarrow> if window_over working_for window then Rc_missed else Rc_retry
      | (Partial, Some (shares, True)) \<Rightarrow> if full_fill asked shares then Rc_filled else Rc_wait
      | (Partial, Some (_, False)) \<Rightarrow> Rc_wait
      | (Filled, Some _) \<Rightarrow> Rc_wait
      | (Partial, None) \<Rightarrow> Rc_gone
      | (Filled, None) \<Rightarrow> Rc_gone
      | _ \<Rightarrow> Rc_wait)"

section \<open>What a planned entry has passed\<close>

lemma book_rules_passed:
  assumes "validate_against_book rnd c b = []"
  shows "0 < bf_bid b" and "\<not> (ic_hold_to_settlement c \<and> ic_stop_price c \<noteq> None)"
    and "fst (price_rule c b) = []" and "stop_rule c b (snd (price_rule c b)) = []"
    and "target_rule c (snd (price_rule c b)) = []" and "time_rule c b = []" and "close_rule c b = []"
    and "size_rule rnd c b (snd (price_rule c b)) = []"
  using assms by (auto simp: validate_against_book_def split_beta Let_def split: if_splits)

lemma price_rule_passed:
  assumes "fst (price_rule c b) = []"
  obtains p where "entry_price c b = Some p" "snd (price_rule c b) = Some p"
    "ic_entry_kind c = Taker \<longrightarrow> p = bf_ask b \<and> 0 < p \<and> p < 1"
    "ic_entry_kind c = Resting \<longrightarrow> ic_entry_limit_price c = Some p \<and> (0 < bf_ask b \<longrightarrow> p < bf_ask b)"
proof (cases "entry_price c b")
  case None
  with assms show thesis by (cases "ic_entry_kind c") (simp_all add: price_rule_def)
next
  case (Some p)
  with assms that show thesis
    by (cases "ic_entry_kind c") (auto simp: price_rule_def entry_price_def split: if_splits)
qed

lemma well_shaped_limit:
  "well_shaped side c \<Longrightarrow> ic_entry_kind c = Resting \<Longrightarrow> ic_entry_limit_price c = Some p \<Longrightarrow> 0 < p \<and> p < 1"
  by (auto simp: shape_check_def entry_shape_def in_unit_def split: if_splits)

lemma well_shaped_price:
  assumes "well_shaped side c" and "entry_price c b = Some p"
  shows "0 < p \<and> p < 1"
  using assms well_shaped_limit [OF assms(1)]
  by (cases "ic_entry_kind c") (auto simp: entry_price_def split: if_splits)

lemma fee_target_defined: "p \<noteq> 0 \<Longrightarrow> fee_target rnd fee_rate leg c p \<noteq> None"
  by (auto simp: fee_target_def div_opt_def split: option.split)

lemma verdict_defined:
  assumes "\<And>p. entry_price c b = Some p \<Longrightarrow> p \<noteq> 0"
  shows "fee_verdict_on rnd fee_rate c b leg ratio notional \<noteq> None"
proof (cases "entry_price c b")
  case None
  then show ?thesis by (simp add: fee_verdict_on_def)
next
  case (Some p)
  then obtain t where "fee_target rnd fee_rate leg c p = Some t" using fee_target_defined assms by blast
  with Some show ?thesis by (cases t) (simp_all add: fee_verdict_on_def Let_def split_beta)
qed

text \<open>A posture whose content passed the shape check is planned without a panic, whatever the book and the
  settings: no division by a zero price is reached.\<close>

theorem entry_plan_never_panics:
  assumes "well_shaped side c"
  shows "entry_plan env bd c i \<noteq> None"
proof -
  let ?v = "fee_verdict_on (ve_rnd env) (ve_taker_fee_rate env) c (plan_facts i) (hb_take_profit_leg bd)
      (ei_fee_max_ratio i) (ei_fee_max_notional_pct i)"
  have p: "p \<noteq> 0" if "entry_price c (plan_facts i) = Some p" for p
    using well_shaped_price [OF assms that] by simp
  then obtain v where "?v = Some v" using verdict_defined by blast
  with p show ?thesis
    by (simp add: entry_plan_def Let_def checked_div_def split: list.split option.split)
qed

definition plan_inputs_ok :: "entry_inputs \<Rightarrow> bool" where
  "plan_inputs_ok i \<longleftrightarrow> ei_helm_enabled i \<and> (ei_ghost i \<or> ei_live_enabled i) \<and> \<not> ei_drawdown_hit i"

lemma entry_plan_cases:
  assumes "entry_plan env bd c i = Some (Inr plan)"
  obtains price where "plan_inputs_ok i" "validate_against_book (ve_rnd env) c (plan_facts i) = []"
    "entry_price c (plan_facts i) = Some price"
    "size_gates env c i price (ve_rnd env (ic_size_usdc c / price)) = Inr plan"
    "ei_fee_enforce i \<longrightarrow> (\<exists>v. fee_verdict_on (ve_rnd env) (ve_taker_fee_rate env) c (plan_facts i)
        (hb_take_profit_leg bd) (ei_fee_max_ratio i) (ei_fee_max_notional_pct i) = Some v \<and> fv_refusal v = None)"
  using assms
  by (auto simp: entry_plan_def Let_def plan_inputs_ok_def checked_div_def split: if_splits list.splits option.splits)

lemma num_seconds_of_secs: "num_seconds (s * nanos_per_sec) = s"
proof -
  have "\<bar>s * nanos_per_sec\<bar> div nanos_per_sec = \<bar>s\<bar>" by (simp add: abs_mult nanos_per_sec_def)
  then show ?thesis by (simp add: num_seconds_def sgn_mult nanos_per_sec_def mult_sgn_abs)
qed

lemma facts_simps [simp]:
  "bf_bid (plan_facts i) = ei_bid i" "bf_ask (plan_facts i) = ei_ask i" "bf_now (plan_facts i) = ei_now i"
  "bf_min_shares (plan_facts i) = ei_min_shares i" "bf_min_secs_to_close (plan_facts i) = ei_min_secs_to_close i"
  "bf_close_time (plan_facts i) = map_option (\<lambda>s. ei_now i + s * nanos_per_sec) (ei_secs_to_close i)"
  by (simp_all add: plan_facts_def)

lemma size_gates_passed:
  assumes "size_gates env c i price shares = Inr plan"
  shows "eo_price plan = price" "eo_shares plan = shares"
    "eo_order_type plan = (case ic_entry_kind c of Taker \<Rightarrow> Fak | Resting \<Rightarrow> Gtc)"
    "eo_post_only plan \<longleftrightarrow> ic_entry_kind c = Resting"
    "ei_helm_exposure i + ic_size_usdc c \<le> ei_max_exposure i"
    "ic_size_usdc c + round_trip_fee_pct (ve_taker_fee_rate env) price * ic_size_usdc c \<le> ei_available_collateral i"
  using assms by (auto simp: size_gates_def Let_def split: if_splits)

text \<open>An entry that passes the gates is one the operator and the settings allow: Helm is on, and live orders
  are too unless the squadron is simulated; the drawdown limit is not hit; there is a bid to exit into; the
  notional with what Helm already holds is within the cap, and with its round-trip fee within the
  collateral; a taker pays the ask with a fill-and-kill order, a resting bid is post-only at the operator's
  limit and below the ask; a stop lies below both the price and the bid; the market is not too near its
  close; and where fees are enforced a posture without a target pays no more than the stated share.\<close>

lemma planned_entry_sound:
  assumes "entry_plan env bd c i = Some (Inr plan)"
  shows "ei_helm_enabled i \<and> (ei_ghost i \<or> ei_live_enabled i) \<and> \<not> ei_drawdown_hit i \<and> 0 < ei_bid i
    \<and> eo_shares plan = ve_rnd env (ic_size_usdc c / eo_price plan) \<and> (0 < eo_price plan \<longrightarrow> ei_min_shares i \<le> eo_shares plan)
    \<and> ei_helm_exposure i + ic_size_usdc c \<le> ei_max_exposure i
    \<and> ic_size_usdc c + round_trip_fee_pct (ve_taker_fee_rate env) (eo_price plan) * ic_size_usdc c
        \<le> ei_available_collateral i
    \<and> (case ic_entry_kind c of
         Taker \<Rightarrow> eo_price plan = ei_ask i \<and> eo_order_type plan = Fak \<and> \<not> eo_post_only plan
       | Resting \<Rightarrow> ic_entry_limit_price c = Some (eo_price plan) \<and> eo_order_type plan = Gtc \<and> eo_post_only plan
           \<and> (0 < ei_ask i \<longrightarrow> eo_price plan < ei_ask i))
    \<and> (\<forall>stop. ic_stop_price c = Some stop \<longrightarrow> stop < eo_price plan \<and> stop < ei_bid i \<and> \<not> ic_hold_to_settlement c)
    \<and> (\<forall>s. ei_secs_to_close i = Some s \<longrightarrow> ei_min_secs_to_close i \<le> s)
    \<and> (ei_fee_enforce i \<and> ic_take_profit_price c = None \<and> \<not> settles_without_selling c \<longrightarrow>
         entry_leg_pct (ve_taker_fee_rate env) c (eo_price plan) + exit_only_fee_pct (ve_taker_fee_rate env) (eo_price plan)
           \<le> ei_fee_max_notional_pct i)"
proof -
  obtain price where ok: "plan_inputs_ok i" and valid: "validate_against_book (ve_rnd env) c (plan_facts i) = []"
    and price: "entry_price c (plan_facts i) = Some price"
    and gates: "size_gates env c i price (ve_rnd env (ic_size_usdc c / price)) = Inr plan"
    and fee: "ei_fee_enforce i \<longrightarrow> (\<exists>v. fee_verdict_on (ve_rnd env) (ve_taker_fee_rate env) c (plan_facts i)
        (hb_take_profit_leg bd) (ei_fee_max_ratio i) (ei_fee_max_notional_pct i) = Some v \<and> fv_refusal v = None)"
    using entry_plan_cases [OF assms] by blast
  note rules = book_rules_passed [OF valid] and size = size_gates_passed [OF gates]
  obtain snd_p: "snd (price_rule c (plan_facts i)) = Some price"
    and taker: "ic_entry_kind c = Taker \<longrightarrow> price = ei_ask i"
    and resting: "ic_entry_kind c = Resting \<longrightarrow> ic_entry_limit_price c = Some price \<and> (0 < ei_ask i \<longrightarrow> price < ei_ask i)"
    using price_rule_passed [OF rules(3)] price by auto
  have stop: "stop < price \<and> stop < ei_bid i \<and> \<not> ic_hold_to_settlement c" if "ic_stop_price c = Some stop" for stop
    using rules(1,2,4) that by (auto simp: stop_rule_def snd_p split: if_splits)
  have close: "ei_min_secs_to_close i \<le> s" if "ei_secs_to_close i = Some s" for s
    using rules(7) that by (auto simp: close_rule_def num_seconds_of_secs Let_def split: if_splits)
  have shares: "0 < price \<longrightarrow> ei_min_shares i \<le> ve_rnd env (ic_size_usdc c / price)"
    using rules(8) by (auto simp: size_rule_def snd_p split: if_splits)
  have "entry_leg_pct (ve_taker_fee_rate env) c price + exit_only_fee_pct (ve_taker_fee_rate env) price
      \<le> ei_fee_max_notional_pct i"
    if "ei_fee_enforce i" "ic_take_profit_price c = None" "\<not> settles_without_selling c"
    using fee that price
    by (auto simp: fee_verdict_on_def fee_target_def verdict_refuse_def Let_def split: if_splits)
  with ok rules(1) size taker resting stop close shares show ?thesis
    by (simp add: plan_inputs_ok_def split: entry_kind.split)
qed

section \<open>What a posture does\<close>

definition floor_fires :: "intent_content \<Rightarrow> decimal \<Rightarrow> decimal \<Rightarrow> bool" where
  "floor_fires c avg_entry bid \<longleftrightarrow>
     (case ic_catastrophic_floor_pct c of None \<Rightarrow> False | Some f \<Rightarrow> bid \<le> avg_entry * (1 - f))"

definition time_fires :: "intent_content \<Rightarrow> utc \<Rightarrow> bool" where
  "time_fires c now \<longleftrightarrow> (case ic_time_limit_at c of None \<Rightarrow> False | Some t \<Rightarrow> t \<le> now)"

definition stop_fires :: "intent_content \<Rightarrow> decimal \<Rightarrow> bool" where
  "stop_fires c bid \<longleftrightarrow>
     \<not> ic_hold_to_settlement c \<and> (case ic_stop_price c of None \<Rightarrow> False | Some s \<Rightarrow> bid \<le> s)"

definition target_fires :: "intent_content \<Rightarrow> decimal \<Rightarrow> bool" where
  "target_fires c bid \<longleftrightarrow> (case ic_take_profit_price c of None \<Rightarrow> False | Some tp \<Rightarrow> tp \<le> bid)"

lemma posture_sells:
  "(\<exists>why. posture_action c avg bid now = Posture_exit why) \<longleftrightarrow>
      0 < bid \<and> (floor_fires c avg bid \<or> time_fires c now \<or> stop_fires c bid \<or> target_fires c bid)"
  by (auto simp: posture_action_def floor_fires_def time_fires_def stop_fires_def target_fires_def Let_def
      split: option.splits if_splits)

text \<open>The posture, exactly: a position is sold when there is a bid and the floor, the time limit, the stop
  (unless it is held to settlement) or the target asks for it, and for the first of them in that order;
  never into a dark book, never for anything the operator did not state; and an ask is only rested at a
  stated target that is above the bid and below one.\<close>

theorem posture_exact:
  "((\<exists>why. posture_action c avg bid now = Posture_exit why) \<longleftrightarrow>
      0 < bid \<and> (floor_fires c avg bid \<or> time_fires c now \<or> stop_fires c bid \<or> target_fires c bid))
   \<and> ((\<exists>b x f. posture_action c avg bid now = Posture_exit (Floor_hit b x f)) \<longleftrightarrow> 0 < bid \<and> floor_fires c avg bid)
   \<and> ((\<exists>t b. posture_action c avg bid now = Posture_exit (Time_limit_hit t b)) \<longleftrightarrow>
        0 < bid \<and> \<not> floor_fires c avg bid \<and> time_fires c now)
   \<and> ((\<exists>b s. posture_action c avg bid now = Posture_exit (Stop_hit b s)) \<longleftrightarrow>
        0 < bid \<and> \<not> floor_fires c avg bid \<and> \<not> time_fires c now \<and> stop_fires c bid)
   \<and> (posture_action c avg bid now = Rest_take_profit tp \<longrightarrow>
        ic_take_profit_price c = Some tp \<and> bid < tp \<and> tp < 1)"
  by (auto simp: posture_action_def floor_fires_def time_fires_def stop_fires_def target_fires_def Let_def
      split: option.splits if_splits)

lemma posture_exact_witness:
  "posture_action sample_content (6 / 10) (55 / 100) 0 = Rest_take_profit (9 / 10)
   \<and> 55 / 100 < (9 / 10 :: decimal)"
  using posture_exact [of sample_content "6 / 10" "55 / 100" 0 "9 / 10"]
  by (simp add: posture_action_def sample_content_def)

text \<open>A taker's posture that the validator accepts on an uncrossed book does not sell what it buys on
  that same book and at that moment, with one exception: the catastrophic floor, which the validator does
  not check and which is armed at once when the spread is wider than it.\<close>

theorem validated_posture_sells_at_once_only_by_floor:
  assumes "validate_against_book rnd c b = []" and "ic_entry_kind c = Taker" and "bf_bid b < bf_ask b"
  shows "(\<exists>why. posture_action c (bf_ask b) (bf_bid b) (bf_now b) = Posture_exit why)
    \<longleftrightarrow> floor_fires c (bf_ask b) (bf_bid b)"
proof -
  note rules = book_rules_passed [OF assms(1)]
  obtain p where p: "snd (price_rule c b) = Some p" "p = bf_ask b"
    using price_rule_passed [OF rules(3)] assms(2) by metis
  have "\<not> time_fires c (bf_now b)"
    using rules(6) by (auto simp: time_fires_def time_rule_def split: option.splits if_splits)
  moreover have "\<not> stop_fires c (bf_bid b)"
    using rules(1,4) p by (auto simp: stop_fires_def stop_rule_def split: option.splits if_splits)
  moreover have "\<not> target_fires c (bf_bid b)"
    using rules(5) p assms(3) by (auto simp: target_fires_def target_rule_def split: option.splits if_splits)
  ultimately show ?thesis
    using posture_sells [of c "bf_ask b" "bf_bid b" "bf_now b"] rules(1) by blast
qed

definition floor_content :: intent_content where
  "floor_content = sample_content\<lparr>ic_stop_price := Some (1 / 5), ic_catastrophic_floor_pct := Some (3 / 10)\<rparr>"

definition wide_book :: book_facts where
  "wide_book =
     \<lparr>bf_bid = 3 / 10, bf_ask = 6 / 10, bf_close_time = None, bf_now = 0, bf_min_shares = 5, bf_min_secs_to_close = 300\<rparr>"

lemma wide_book_valid: "validate_against_book id floor_content wide_book = []"
  by (simp add: validate_against_book_def price_rule_def entry_price_def stop_rule_def target_rule_def time_rule_def
      close_rule_def size_rule_def floor_content_def wide_book_def sample_content_def)

lemma validated_posture_sells_at_once_only_by_floor_witness:
  "validate_against_book id floor_content wide_book = [] \<and> well_shaped ''YES'' floor_content
   \<and> (\<exists>why. posture_action floor_content (6 / 10) (3 / 10) 0 = Posture_exit why)"
proof -
  have "well_shaped ''YES'' floor_content" by code_simp
  then show ?thesis
    using validated_posture_sells_at_once_only_by_floor [OF wide_book_valid] wide_book_valid
    by (simp add: wide_book_def floor_content_def sample_content_def floor_fires_def)
qed

definition sample_inputs :: entry_inputs where
  "sample_inputs =
     \<lparr>ei_ghost = False, ei_helm_enabled = True, ei_live_enabled = True, ei_drawdown_hit = False,
      ei_bid = 58 / 100, ei_ask = 60 / 100, ei_secs_to_close = Some 3000, ei_min_secs_to_close = 300,
      ei_min_shares = 5, ei_helm_exposure = 10, ei_max_exposure = 50, ei_available_collateral = 100, ei_now = 0,
      ei_fee_enforce = True, ei_fee_max_ratio = 2 / 5, ei_fee_max_notional_pct = 1 / 20\<rparr>"

definition sample_build :: helm_build where
  "sample_build = \<lparr>hb_take_profit_leg = Leg_resting, hb_min_shares = 5, hb_text = (\<lambda>_. [])\<rparr>"

lemma sample_shaped: "well_shaped ''yes'' sample_content"
  by code_simp

lemma sample_planned:
  "entry_plan sample_env sample_build sample_content sample_inputs =
     Some (Inr \<lparr>eo_price = 60 / 100, eo_shares = 10, eo_order_type = Fak, eo_post_only = False\<rparr>)"
  by (simp add: entry_plan_def plan_facts_def validate_against_book_def price_rule_def entry_price_def stop_rule_def
      target_rule_def time_rule_def close_rule_def size_rule_def sample_content_def sample_inputs_def sample_env_def
      sample_build_def fee_verdict_on_def fee_target_def div_opt_def entry_leg_pct_def entry_only_fee_pct_def
      exit_only_fee_pct_def verdict_pass_def checked_div_def size_gates_def round_trip_fee_pct_def num_seconds_def
      nanos_per_sec_def Let_def)

lemma entry_plan_never_panics_witness:
  "entry_plan sample_env sample_build sample_content sample_inputs \<noteq> None"
  using entry_plan_never_panics [OF sample_shaped] .

section \<open>Reconciling\<close>

definition outcome_status :: "reconcile_outcome \<Rightarrow> intent_status option" where
  "outcome_status o' =
     (case o' of Rc_filled \<Rightarrow> Some Filled | Rc_partial \<Rightarrow> Some Partial | Rc_missed \<Rightarrow> Some Missed
      | Rc_pull \<Rightarrow> Some Missed | Rc_gone \<Rightarrow> Some Closed | Rc_wait \<Rightarrow> None | Rc_retry \<Rightarrow> None)"

text \<open>What the map implies is a move the machine allows, from every status; a working intent whose window
  is over is never left waiting, and neither is a filled one whose position has left the map.\<close>

theorem reconcile_sound:
  "(\<forall>to. outcome_status (reconcile_intent st pos asked age window) = Some to \<longrightarrow> can_transition_to st to)
   \<and> (st = Working \<and> (\<exists>s. age = Some s \<and> window \<le> s) \<longrightarrow>
        outcome_status (reconcile_intent st pos asked age window) \<noteq> None)
   \<and> (st = Working \<and> (\<exists>shares. pos = Some (shares, True)) \<longrightarrow>
        reconcile_intent st pos asked age window \<in> {Rc_filled, Rc_partial})
   \<and> (st \<in> {Filled, Partial} \<and> pos = None \<longrightarrow> reconcile_intent st pos asked age window = Rc_gone)
   \<and> (\<not> is_terminal st \<and> st \<notin> {Working, Partial, Filled} \<longrightarrow> reconcile_intent st pos asked age window = Rc_wait)"
  by (cases st; cases pos)
    (auto simp: reconcile_intent_def outcome_status_def window_over_def split: bool.splits option.splits if_splits)

lemma reconcile_sound_witness:
  "reconcile_intent Working None (Some 10) (Some 130) 120 = Rc_missed
   \<and> outcome_status (reconcile_intent Working None (Some 10) (Some 130) 120) \<noteq> None"
  using reconcile_sound [of Working None "Some 10" "Some 130" 120]
  by (simp add: reconcile_intent_def window_over_def)

end
