(* ===== verification/Helm_Viper.thy ===== *)
theory Helm_Viper
  imports Helm_Posture Helm_History Risk_Gates
begin

text \<open>
  The operator's strategy, \<open>src/vipers/helm_impl.rs\<close>: its view of the intents, refreshed on a timer, the
  reconciliation of what is in flight with the position map, and the two evaluations.  The world is what
  every strategy writes, the intent tables, and the strategy's own memory.  A squadron without a database
  pool is a flag.  Log lines and the operator's notifications are left out.
\<close>

section \<open>The view\<close>

record helm_snapshot =
  hs_tally :: intent_tally
  hs_open :: "helm_intent list"
  hs_contents :: "(nat, intent_content) hash_map"

record helm_world = viper_world +
  hw_db :: helm_db
  hw_has_pool :: bool
  hw_snapshot :: "(instant \<times> helm_snapshot) option"
  hw_exit_reasons :: "(string, string \<times> instant) hash_map"
  hw_labeled :: "(string, nat) hash_map"

definition snapshot_reason :: "helm_snapshot \<Rightarrow> string" where
  "snapshot_reason s =
     (if hs_open s = []
      then if it_total (hs_tally s) = 0 then ''awaiting operator intent''
           else ''all intents terminal, squadron retiring''
      else if list_ex (\<lambda>i. hi_status i = Filled \<or> hi_status i = Partial) (hs_open s)
      then ''intent filled: position held under its posture''
      else if list_ex (\<lambda>i. hi_status i = Working \<or> hi_status i = Acknowledged) (hs_open s)
      then ''intent working: entry on the book, awaiting fill''
      else ''intent proposed, awaiting acknowledgement'')"

definition in_flight :: "helm_snapshot \<Rightarrow> helm_intent list" where
  "in_flight s = filter is_in_flight (hs_open s)"

definition with_content :: "helm_snapshot \<Rightarrow> helm_intent option \<Rightarrow> (helm_intent \<times> intent_content) option" where
  "with_content s r =
     (case r of None \<Rightarrow> None | Some i \<Rightarrow> map_option (Pair i) (hm_get (hs_contents s) (hi_id i)))"

definition intent_for_token :: "helm_snapshot \<Rightarrow> string \<Rightarrow> (helm_intent \<times> intent_content) option" where
  "intent_for_token s token =
     with_content s (find (\<lambda>i. is_in_flight i \<and> hi_token_id i = Some token) (hs_open s))"

definition next_to_enter :: "helm_snapshot \<Rightarrow> (helm_intent \<times> intent_content) option" where
  "next_to_enter s =
     (if in_flight s \<noteq> [] then None else with_content s (find (\<lambda>i. hi_status i = Acknowledged) (hs_open s)))"

definition intent_refresh :: int where
  "intent_refresh = nanos_per_sec"

definition exit_reason_ttl :: int where
  "exit_reason_ttl = 120 * nanos_per_sec"

definition invalidate :: "helm_world \<Rightarrow> helm_world" where
  "invalidate w = w\<lparr>hw_snapshot := None\<rparr>"

fun load_contents :: "helm_intent list \<Rightarrow> helm_db \<Rightarrow> (nat, intent_content) hash_map \<times> helm_db" where
  "load_contents [] db = ([], db)"
| "load_contents (i # is) db =
     (let (c, db) = current_content i db; (m, db) = load_contents is db in ((hi_id i, c) # m, db))"

definition read_snapshot :: "string \<Rightarrow> helm_db \<Rightarrow> helm_snapshot \<times> helm_db" where
  "read_snapshot squadron db =
     (let (tally, db) = squadron_tally squadron db;
          (rows, db) = list_for_squadron squadron False db;
          open = sort_key hi_id rows;
          (contents, db) = load_contents open db
      in (\<lparr>hs_tally = tally, hs_open = open, hs_contents = contents\<rparr>, db))"

definition no_intents :: helm_snapshot where
  "no_intents = \<lparr>hs_tally = \<lparr>it_total = 0, it_open = 0\<rparr>, hs_open = [], hs_contents = []\<rparr>"

definition take_snapshot :: "viper_env \<Rightarrow> strategy_context \<Rightarrow> helm_world \<Rightarrow> helm_snapshot \<times> helm_world" where
  "take_snapshot env ctx w =
     (case hw_snapshot w of
        Some (t, s) \<Rightarrow>
          if ve_instant env - t < intent_refresh then (s, w)
          else (let (s, db) = (if hw_has_pool w then read_snapshot (cx_squadron_id ctx) (hw_db w) else (no_intents, hw_db w))
                in (s, w\<lparr>hw_db := db, hw_snapshot := Some (ve_instant env, s)\<rparr>))
      | None \<Rightarrow>
          (let (s, db) = (if hw_has_pool w then read_snapshot (cx_squadron_id ctx) (hw_db w) else (no_intents, hw_db w))
           in (s, w\<lparr>hw_db := db, hw_snapshot := Some (ve_instant env, s)\<rparr>)))"

section \<open>Reconciliation\<close>

datatype follow = Follow_nothing | Follow_retry nat | Follow_pull string

text \<open>A statement whose failure is only logged.\<close>

definition try_move :: "nat \<Rightarrow> intent_status \<Rightarrow> string \<Rightarrow> helm_world \<Rightarrow> helm_world" where
  "try_move i to why w = w\<lparr>hw_db := snd (transition i to (Some why) (hw_db w))\<rparr>"

definition position_view ::
  "strategy_context \<Rightarrow> string \<Rightarrow> (decimal \<times> bool \<times> decimal) option" where
  "position_view ctx token =
     map_option (\<lambda>p. (p_shares p, fill_effective_at p (dc_ghost_mode (cx_dynamic_config ctx)) \<noteq> None, p_avg_entry p))
       (hm_get (cx_positions ctx) (position_key_new (cx_squadron_id ctx) helm_strategy_name token))"

definition label_position :: "string \<Rightarrow> nat \<Rightarrow> helm_world \<Rightarrow> helm_world" where
  "label_position token i w =
     (if hm_get (hw_labeled w) token = Some i then w
      else (let (res, db) = set_position_intent token helm_strategy_name i (hw_db w);
                n = (case res of Inl _ \<Rightarrow> 0 | Inr n \<Rightarrow> n)
            in w\<lparr>hw_db := db,
                 hw_labeled := (if 0 < n then hm_insert token i (hw_labeled w) else hw_labeled w)\<rparr>))"

definition settle_fill :: "viper_env \<Rightarrow> strategy_context \<Rightarrow> helm_intent \<Rightarrow> string \<Rightarrow> intent_status \<Rightarrow> helm_world \<Rightarrow> helm_world" where
  "settle_fill env ctx r token to w =
     (let (shares, _, avg) = (case position_view ctx token of None \<Rightarrow> (0, False, 0) | Some v \<Rightarrow> v);
          w = try_move (hi_id r) to (ve_show env 4 shares @ '' shares @ $'' @ ve_show env 4 avg) w
      in invalidate (label_position token (hi_id r) w))"

definition settle_miss :: "viper_env \<Rightarrow> strategy_context \<Rightarrow> helm_intent \<Rightarrow> string \<Rightarrow> string \<Rightarrow> helm_world \<Rightarrow> helm_world" where
  "settle_miss env ctx r why closing w =
     invalidate (try_move (hi_id r) Closed closing
       (try_move (hi_id r) Missed
         (why @ ve_show_int env (hl_entry_window_secs (dc_helm (cx_dynamic_config ctx))) @ ''s'') w))"

definition gone_reason :: "viper_env \<Rightarrow> string \<Rightarrow> helm_world \<Rightarrow> string" where
  "gone_reason env token w =
     (case hm_get (hw_exit_reasons w) token of
        Some (why, t) \<Rightarrow>
          if ve_instant env - t \<le> exit_reason_ttl then why
          else ''position left the map: settled on chain or exited outside the posture''
      | None \<Rightarrow> ''position left the map: settled on chain or exited outside the posture'')"

definition settle_gone :: "viper_env \<Rightarrow> helm_intent \<Rightarrow> string \<Rightarrow> helm_world \<Rightarrow> helm_world" where
  "settle_gone env r token w =
     (let why = gone_reason env token w;
          w = try_move (hi_id r) Closed why (w\<lparr>hw_exit_reasons := hm_remove token (hw_exit_reasons w)\<rparr>);
          db = snd (label_trades (hi_market_name r) (hi_side r) (hi_id r) (hw_db w))
      in invalidate (w\<lparr>hw_db := db, hw_labeled := hm_remove token (hw_labeled w)\<rparr>))"

definition reconcile_one ::
  "viper_env \<Rightarrow> strategy_context \<Rightarrow> helm_intent \<Rightarrow> follow \<times> helm_world \<Rightarrow> follow \<times> helm_world" where
  "reconcile_one env ctx r st =
     (case hi_token_id r of
        None \<Rightarrow> st
      | Some token \<Rightarrow>
          (let (fw, w) = st;
               window = hl_entry_window_secs (dc_helm (cx_dynamic_config ctx));
               pos = position_view ctx token
           in case reconcile_intent (hi_status r) (map_option (\<lambda>(s, f, _). (s, f)) pos) (hi_entry_shares r)
                (working_for_secs r (ve_utc env)) window of
                Rc_wait \<Rightarrow> (fw, w)
              | Rc_retry \<Rightarrow> (Follow_retry (hi_id r), w)
              | Rc_pull \<Rightarrow> (Follow_pull token,
                  settle_miss env ctx r ''resting bid unfilled after '' ''entry missed: window expired, bid pulled'' w)
              | Rc_filled \<Rightarrow> (fw, settle_fill env ctx r token Filled w)
              | Rc_partial \<Rightarrow> (fw, settle_fill env ctx r token Partial w)
              | Rc_missed \<Rightarrow> (fw, settle_miss env ctx r ''no fill within '' ''entry missed: window expired'' w)
              | Rc_gone \<Rightarrow> (fw, settle_gone env r token w)))"

definition reconcile_in_flight ::
  "viper_env \<Rightarrow> strategy_context \<Rightarrow> helm_snapshot \<Rightarrow> helm_world \<Rightarrow> follow \<times> helm_world" where
  "reconcile_in_flight env ctx s w = fold (reconcile_one env ctx) (in_flight s) (Follow_nothing, w)"

section \<open>Entry\<close>

type_synonym helm_result = "strategy_signal option \<times> helm_world"

definition helm_report :: "viper_env \<Rightarrow> strategy_context \<Rightarrow> string \<Rightarrow> helm_world \<Rightarrow> helm_world" where
  "helm_report env ctx reason w = idle env ctx helm_strategy_name reason w"

definition stand_down :: "viper_env \<Rightarrow> strategy_context \<Rightarrow> string \<Rightarrow> helm_world \<Rightarrow> helm_result" where
  "stand_down env ctx reason w = (Some NoSignal, helm_report env ctx reason w)"

text \<open>The notional Helm holds or awaits, in every squadron of the session.\<close>

definition helm_exposure :: "viper_env \<Rightarrow> strategy_context \<Rightarrow> decimal" where
  "helm_exposure env ctx =
     sum_list (map (\<lambda>(k, p). p_shares p * p_avg_entry p)
       (filter (\<lambda>(k, p). k_strategy k = helm_strategy_name \<and> counts_toward_exposure p (ve_utc env)) (cx_positions ctx)))"

definition side_is_yes :: "string \<Rightarrow> bool" where
  "side_is_yes side \<longleftrightarrow> to_ascii_uppercase side = ''YES''"

definition side_token :: "strategy_context \<Rightarrow> string \<Rightarrow> market_id" where
  "side_token ctx side = (if side_is_yes side then mc_yes_token (cx_market ctx) else mc_no_token (cx_market ctx))"

definition entry_inputs_of :: "viper_env \<Rightarrow> helm_build \<Rightarrow> strategy_context \<Rightarrow> string \<Rightarrow> bool \<Rightarrow> entry_inputs" where
  "entry_inputs_of env bd ctx side drawdown =
     (let dc = cx_dynamic_config ctx; hl = dc_helm dc; sn = cx_snapshot ctx in
      \<lparr>ei_ghost = dc_ghost_mode dc, ei_helm_enabled = hl_enabled hl, ei_live_enabled = hl_live_enabled hl,
       ei_drawdown_hit = drawdown,
       ei_bid = (if side_is_yes side then ms_yes_bid sn else ms_no_bid sn),
       ei_ask = (if side_is_yes side then ms_yes_ask sn else ms_no_ask sn),
       ei_secs_to_close = map_option (\<lambda>t. num_seconds (t - ve_utc env)) (mc_market_close_time (cx_market ctx)),
       ei_min_secs_to_close = hl_min_secs_to_close hl, ei_min_shares = hb_min_shares bd,
       ei_helm_exposure = helm_exposure env ctx, ei_max_exposure = hl_max_exposure_usdc hl,
       ei_available_collateral = cx_available_collateral ctx, ei_now = ve_utc env,
       ei_fee_enforce = hl_fee_verdict_enforce hl, ei_fee_max_ratio = hl_fee_max_ratio hl,
       ei_fee_max_notional_pct = hl_fee_max_notional_pct hl\<rparr>)"

definition plan_entry ::
  "viper_env \<Rightarrow> helm_build \<Rightarrow> strategy_context \<Rightarrow> intent_content \<Rightarrow> string \<Rightarrow> helm_world
     \<Rightarrow> (plan_refusal + entry_order) option \<times> helm_world" where
  "plan_entry env bd ctx c side w =
     (let (hit, w) = check_drawdown env ctx w
      in (entry_plan env bd c (entry_inputs_of env bd ctx side hit), w))"

definition helm_order :: "strategy_context \<Rightarrow> string \<Rightarrow> entry_order \<Rightarrow> order_params" where
  "helm_order ctx side plan =
     leg_order (cx_market ctx) (side_token ctx side) (eo_price plan) (eo_shares plan)
       (as_u16 (if side_is_yes side then mc_yes_fee_bps (cx_market ctx) else mc_no_fee_bps (cx_market ctx)))
       (eo_order_type plan) (eo_post_only plan) (dc_ghost_mode (cx_dynamic_config ctx))"

definition intent_working :: string where
  "intent_working = ''intent working: entry on the book, awaiting fill''"

definition retry_entry ::
  "viper_env \<Rightarrow> helm_build \<Rightarrow> strategy_context \<Rightarrow> helm_snapshot \<Rightarrow> nat \<Rightarrow> helm_world \<Rightarrow> helm_result" where
  "retry_entry env bd ctx s i w =
     (case with_content s (find (\<lambda>r. hi_id r = i) (hs_open s)) of
        None \<Rightarrow> stand_down env ctx intent_working w
      | Some (r, c) \<Rightarrow>
          if ic_entry_kind c \<noteq> Taker then stand_down env ctx intent_working w
          else (let (plan, w) = plan_entry env bd ctx c (hi_side r) w in
                case plan of
                  None \<Rightarrow> (None, w)
                | Some (Inl why) \<Rightarrow> stand_down env ctx (hb_text bd why) w
                | Some (Inr p) \<Rightarrow>
                    (Some (Entry (helm_order ctx (hi_side r) p) None), helm_report env ctx intent_working w)))"

definition new_entry ::
  "viper_env \<Rightarrow> helm_build \<Rightarrow> strategy_context \<Rightarrow> helm_snapshot \<Rightarrow> helm_world \<Rightarrow> helm_result" where
  "new_entry env bd ctx s w =
     (case next_to_enter s of
        None \<Rightarrow> stand_down env ctx (snapshot_reason s) w
      | Some (r, c) \<Rightarrow>
          (let (plan, w) = plan_entry env bd ctx c (hi_side r) w in
           case plan of
             None \<Rightarrow> (None, w)
           | Some (Inl why) \<Rightarrow> stand_down env ctx (hb_text bd why) w
           | Some (Inr p) \<Rightarrow>
               (let (res, db) = mark_working (ve_show env) (hi_id r) (side_token ctx (hi_side r))
                      (eo_price p) (eo_shares p) (hw_db w);
                    w = w\<lparr>hw_db := db\<rparr>
                in case res of
                     Inl _ \<Rightarrow> stand_down env ctx ''database unavailable: cannot record the intent going to work'' w
                   | Inr _ \<Rightarrow>
                       (Some (Entry (helm_order ctx (hi_side r) p) None),
                        helm_report env ctx intent_working (invalidate w)))))"

definition helm_evaluate_entry :: "viper_env \<Rightarrow> helm_build \<Rightarrow> strategy_context \<Rightarrow> helm_world \<Rightarrow> helm_result" where
  "helm_evaluate_entry env bd ctx w =
     (let (s, w) = take_snapshot env ctx w in
      if \<not> hw_has_pool w
      then stand_down env ctx
             (if hs_open s = [] then ''awaiting operator intent''
              else ''database unavailable: cannot record the intent going to work'') w
      else (let (fw, w) = reconcile_in_flight env ctx s w in
            case fw of
              Follow_pull token \<Rightarrow> (Some (MakerCancel [token]), helm_report env ctx intent_working w)
            | Follow_retry i \<Rightarrow> retry_entry env bd ctx s i w
            | Follow_nothing \<Rightarrow> new_entry env bd ctx s w))"

section \<open>Exit\<close>

definition helm_held :: "strategy_context \<Rightarrow> (position_key \<times> position) list" where
  "helm_held ctx =
     filter (\<lambda>(k, p). k_squadron k = cx_squadron_id ctx \<and> k_strategy k = helm_strategy_name
       \<and> fill_effective_at p (dc_ghost_mode (cx_dynamic_config ctx)) \<noteq> None) (cx_positions ctx)"

text \<open>The text of a posture's reason, with the intent it belongs to; a time is printed as its count.\<close>

definition posture_text :: "viper_env \<Rightarrow> posture_reason \<Rightarrow> decimal \<Rightarrow> nat \<Rightarrow> string" where
  "posture_text env why avg_entry i =
     (case why of
        Floor_hit bid limit pct \<Rightarrow>
          ''Helm catastrophic floor: bid=$'' @ ve_show env 4 bid @ '' <= $'' @ ve_show env 4 limit
            @ '' ('' @ ve_show env 0 (pct * 100) @ ''% under entry $'' @ ve_show env 4 avg_entry @ '')''
      | Time_limit_hit t bid \<Rightarrow> ''Helm time limit: '' @ ve_show_int env t @ '' reached, bid=$'' @ ve_show env 4 bid
      | Stop_hit bid s \<Rightarrow>
          ''Helm stop: bid=$'' @ ve_show env 4 bid @ '' <= $'' @ ve_show env 4 s
            @ '' (entry $'' @ ve_show env 4 avg_entry @ '')''
      | Target_hit bid tp \<Rightarrow>
          ''Helm take-profit: bid=$'' @ ve_show env 4 bid @ '' >= $'' @ ve_show env 4 tp
            @ '' (entry $'' @ ve_show env 4 avg_entry @ '')'')
     @ '' [intent #'' @ ve_show_int env (int i) @ '']''"

fun helm_exit_loop ::
  "viper_env \<Rightarrow> strategy_context \<Rightarrow> helm_snapshot \<Rightarrow> (position_key \<times> position) list \<Rightarrow> strategy_signal option
     \<Rightarrow> helm_world \<Rightarrow> strategy_signal \<times> helm_world" where
  "helm_exit_loop env ctx s [] resting w = ((case resting of None \<Rightarrow> NoSignal | Some sig \<Rightarrow> sig), w)"
| "helm_exit_loop env ctx s ((k, p) # rest) resting w =
     (case venue_for_token ctx (k_market k) of
        None \<Rightarrow> helm_exit_loop env ctx s rest resting (note_position_without_venue env helm_strategy_name (k_market k) w)
      | Some (market, book) \<Rightarrow>
          (let yes = (k_market k = mc_yes_token market);
               bid = (if yes then ms_yes_bid book else ms_no_bid book);
               fee = as_u16 (if yes then mc_yes_fee_bps market else mc_no_fee_bps market);
               order = (\<lambda>price tif post_only. leg_order market (k_market k) price (p_shares p) fee tif post_only
                          (dc_ghost_mode (cx_dynamic_config ctx)))
           in case intent_for_token s (k_market k) of
                None \<Rightarrow> helm_exit_loop env ctx s rest resting w
              | Some (r, c) \<Rightarrow>
                  (case posture_action c (p_avg_entry p) bid (ve_utc env) of
                     Posture_exit why \<Rightarrow>
                       (let reason = posture_text env why (p_avg_entry p) (hi_id r)
                        in (Exit (order bid Fak False) reason False,
                            w\<lparr>hw_exit_reasons := hm_insert (k_market k) (reason, ve_instant env) (hw_exit_reasons w)\<rparr>))
                   | Rest_take_profit tp \<Rightarrow>
                       helm_exit_loop env ctx s rest
                         (case resting of
                            Some sig \<Rightarrow> Some sig
                          | None \<Rightarrow> Some (MakerRestingExit (order tp Gtc True)
                              (''Helm resting TP @ $'' @ ve_show env 4 tp @ '' [intent #'' @ ve_show_int env (int (hi_id r)) @ '']'')))
                         w
                   | Posture_hold \<Rightarrow> helm_exit_loop env ctx s rest resting w)))"

definition helm_evaluate_exit :: "viper_env \<Rightarrow> strategy_context \<Rightarrow> helm_world \<Rightarrow> strategy_signal \<times> helm_world" where
  "helm_evaluate_exit env ctx w =
     (let (s, w) = take_snapshot env ctx w in helm_exit_loop env ctx s (helm_held ctx) None w)"

definition helm_on_exit_filled :: "viper_env \<Rightarrow> exit_fill \<Rightarrow> helm_world \<Rightarrow> helm_world" where
  "helm_on_exit_filled env fill w =
     w\<lparr>hw_exit_reasons := hm_insert (xf_token_id fill) (xf_reason fill, ve_instant env) (hw_exit_reasons w)\<rparr>"

end
