(* ===== verification/Helm_Safety.thy ===== *)
theory Helm_Safety
  imports Helm_Viper
begin

text \<open>
  What the operator's strategy guarantees: an order only leaves after its intent is on record as working,
  within every limit and with nothing else in flight; a working intent is settled once its window is over;
  a sale is one the stated posture asks for; and where a failure between two statements, or a fill in the
  instant of a pull, leaves an intent or a position that nothing manages.
\<close>

section \<open>Chains of statements\<close>

lemma and_then_Inr:
  assumes "and_then m k db = (Inr y, db')"
  obtains x db1 where "m db = (Inr x, db1)" "k x db1 = (Inr y, db')"
  using assms by (auto simp: and_then_def split: prod.splits sum.splits)

lemma get_existing_Inr: "get_existing i db = (Inr r, db') \<Longrightarrow> find_intent i db = Some r \<and> db' = tick db"
  by (cases rule: get_existing_cases [of i db]) auto

lemma exec_Inr: "exec upd db = (Inr x, db') \<Longrightarrow> db' = upd (tick db)"
  by (auto simp: exec_def split: if_splits)

lemma transition_Inr:
  assumes "transition i to d db = (Inr r, db')"
  obtains r0 where "find_intent i db = Some r0" "can_transition_to (hi_status r0) to"
    "find_intent i db' = Some r" "r = moved (db_now db) to d r0" "db_now db' = db_now db"
    "\<And>j. j \<noteq> i \<Longrightarrow> find_intent j db' = find_intent j db"
proof -
  obtain r0 db1 where g: "get_existing i db = (Inr r0, db1)"
    and k: "(if \<not> can_transition_to (hi_status r0) to then fail (Cannot_move i (hi_status r0) to)
        else write_move r0 to d) db1 = (Inr r, db')"
    using assms unfolding transition_def by (rule and_then_Inr)
  have r0: "find_intent i db = Some r0" "db1 = tick db" using get_existing_Inr [OF g] by auto
  have i: "hi_id r0 = i" by (rule find_intent_id [OF r0(1)])
  from k have legal: "can_transition_to (hi_status r0) to" and w: "write_move r0 to d db1 = (Inr r, db')"
    by (auto simp: fail_def split: if_splits)
  obtain x2 db2 where 2: "exec (\<lambda>db. update_intent (hi_id r0) (moved (db_now db) to d) db) db1 = (Inr x2, db2)"
    and k2: "and_then (record_event (hi_id r0) (Some (hi_status r0)) to d) (\<lambda>_. get_existing (hi_id r0)) db2 = (Inr r, db')"
    using w unfolding write_move_def by (rule and_then_Inr)
  obtain x3 db3 where 3: "record_event (hi_id r0) (Some (hi_status r0)) to d db2 = (Inr x3, db3)"
    and g3: "get_existing (hi_id r0) db3 = (Inr r, db')"
    using k2 by (rule and_then_Inr)
  have db3: "db3 = add_event i (Some (hi_status r0)) to d (tick db2)"
    using exec_Inr [OF 3 [unfolded record_event_def]] i by simp
  have db2: "db2 = update_intent i (moved (db_now db) to d) (tick (tick db))"
    using exec_Inr [OF 2] i r0(2) by simp
  have f: "find_intent i db3 = Some r" "db' = tick db3" using get_existing_Inr [OF g3] i by auto
  have "find_intent i db3 = Some (moved (db_now db) to d r0)" using r0(1) by (simp add: db3 db2 find_moved)
  with f have "find_intent i db' = Some r" "r = moved (db_now db) to d r0" by simp_all
  moreover have "find_intent j db' = find_intent j db" if "j \<noteq> i" for j
    using that by (simp add: f(2) db3 db2 find_intent_update option.map_ident)
  ultimately show thesis using that r0(1) legal by (simp add: f(2) db3 db2)
qed

lemma mark_working_Inr:
  assumes "mark_working show i token price shares db = (Inr r, db')"
  obtains r0 where "find_intent i db = Some r0" "hi_status r0 = Acknowledged"
    "find_intent i db' = Some r" "hi_status r = Working" "hi_token_id r = Some token"
    "hi_entry_price r = Some price" "hi_entry_shares r = Some shares" "hi_working_at r = Some (db_now db)"
proof -
  let ?d = "Some (''entry to the book: '' @ show 4 shares @ '' shares @ $'' @ show 4 price)"
  let ?f = "\<lambda>now r. r\<lparr>hi_token_id := Some token, hi_entry_price := Some price, hi_entry_shares := Some shares,
      hi_working_at := Some now\<rparr>"
  obtain r1 db1 where t: "transition i Working ?d db = (Inr r1, db1)"
    and k: "and_then (exec (\<lambda>db. update_intent i (?f (db_now db)) db)) (\<lambda>_. get_existing i) db1 = (Inr r, db')"
    using assms unfolding mark_working_def by (rule and_then_Inr)
  obtain r0 where r0: "find_intent i db = Some r0" "can_transition_to (hi_status r0) Working"
    "find_intent i db1 = Some r1" "r1 = moved (db_now db) Working ?d r0" "db_now db1 = db_now db"
    using t by (rule transition_Inr)
  obtain x db2 where 2: "exec (\<lambda>db. update_intent i (?f (db_now db)) db) db1 = (Inr x, db2)"
    and g: "get_existing i db2 = (Inr r, db')" using k by (rule and_then_Inr)
  have db2: "db2 = update_intent i (?f (db_now db)) (tick db1)" using exec_Inr [OF 2] r0(5) by simp
  have f: "find_intent i db2 = Some r" "db' = tick db2" using get_existing_Inr [OF g] by auto
  have "find_intent i db2 = Some (?f (db_now db) r1)" using r0(3) by (simp add: db2 find_intent_update)
  with f have "r = ?f (db_now db) r1" "find_intent i db' = Some r" by simp_all
  moreover have "hi_status r0 = Acknowledged" using r0(2) by (simp add: move_to_inv)
  ultimately show thesis using that r0(1,4) by simp
qed

section \<open>The order and its record\<close>

lemma report_frame [simp]:
  "hw_db (helm_report env ctx reason w) = hw_db w" "hw_snapshot (helm_report env ctx reason w) = hw_snapshot w"
  "hw_exit_reasons (helm_report env ctx reason w) = hw_exit_reasons w"
  "hw_has_pool (helm_report env ctx reason w) = hw_has_pool w"
  by (simp_all add: helm_report_def idle_def)

lemma drawdown_frame [simp]:
  "hw_db (snd (check_drawdown env ctx w)) = hw_db w" "hw_snapshot (snd (check_drawdown env ctx w)) = hw_snapshot w"
  "hw_has_pool (snd (check_drawdown env ctx w)) = hw_has_pool w"
  by (simp_all add: check_drawdown_def split_beta)

lemma plan_entry_cases:
  assumes "plan_entry env bd ctx c side w = (plan, w')"
  obtains hit where "plan = entry_plan env bd c (entry_inputs_of env bd ctx side hit)"
    "hw_db w' = hw_db w" "hw_snapshot w' = hw_snapshot w"
proof -
  have "snd (check_drawdown env ctx w) = w'"
    "plan = entry_plan env bd c (entry_inputs_of env bd ctx side (fst (check_drawdown env ctx w)))"
    using assms by (auto simp: plan_entry_def split_beta Let_def)
  with that show thesis using drawdown_frame by metis
qed

text \<open>An entry the strategy emits: the order planned for one of the intents of its view.\<close>

definition entry_of ::
  "viper_env \<Rightarrow> helm_build \<Rightarrow> strategy_context \<Rightarrow> helm_intent \<Rightarrow> intent_content \<Rightarrow> order_params \<Rightarrow> bool" where
  "entry_of env bd ctx r c order \<longleftrightarrow>
     (\<exists>hit plan. entry_plan env bd c (entry_inputs_of env bd ctx (hi_side r) hit) = Some (Inr plan)
        \<and> order = helm_order ctx (hi_side r) plan)"

lemma new_entry_emits:
  assumes "new_entry env bd ctx s w = (Some (Entry order pair), w')"
  obtains r c r0 r1 where "next_to_enter s = Some (r, c)" "pair = None" "entry_of env bd ctx r c order"
    "find_intent (hi_id r) (hw_db w) = Some r0" "hi_status r0 = Acknowledged"
    "find_intent (hi_id r) (hw_db w') = Some r1" "hi_status r1 = Working"
    "hi_token_id r1 = Some (op_token_id order)" "hi_entry_price r1 = Some (op_price order)"
    "hi_entry_shares r1 = Some (op_shares order)" "hi_working_at r1 = Some (db_now (hw_db w))" "hw_snapshot w' = None"
proof (cases "next_to_enter s")
  case None
  with assms show thesis by (simp add: new_entry_def stand_down_def)
next
  case (Some rc)
  obtain r c where rc: "rc = (r, c)" by (cases rc)
  obtain plan w1 where p: "plan_entry env bd ctx c (hi_side r) w = (plan, w1)" by fastforce
  obtain hit where hit: "plan = entry_plan env bd c (entry_inputs_of env bd ctx (hi_side r) hit)" "hw_db w1 = hw_db w"
    using p by (rule plan_entry_cases)
  obtain eo where eo: "plan = Some (Inr eo)"
    using assms by (cases plan) (auto simp: new_entry_def Some rc p stand_down_def split: sum.splits)
  obtain res db where m: "mark_working (ve_show env) (hi_id r) (side_token ctx (hi_side r)) (eo_price eo) (eo_shares eo) (hw_db w)
      = (res, db)" by fastforce
  have res: "\<exists>r1. res = Inr r1" "order = helm_order ctx (hi_side r) eo" "pair = None"
    "w' = helm_report env ctx intent_working (invalidate (w1\<lparr>hw_db := db\<rparr>))"
    using assms m hit(2)
    by (auto simp: new_entry_def Some rc p eo stand_down_def Let_def split: sum.splits)
  then obtain r1 where r1: "res = Inr r1" by blast
  obtain r0 where r0: "find_intent (hi_id r) (hw_db w) = Some r0" "hi_status r0 = Acknowledged"
    "find_intent (hi_id r) db = Some r1" "hi_status r1 = Working" "hi_token_id r1 = Some (side_token ctx (hi_side r))"
    "hi_entry_price r1 = Some (eo_price eo)" "hi_entry_shares r1 = Some (eo_shares eo)"
    "hi_working_at r1 = Some (db_now (hw_db w))"
    using m [unfolded r1] by (rule mark_working_Inr)
  have "entry_of env bd ctx r c order" using hit(1) eo res(2) unfolding entry_of_def by blast
  with that [of r c r0 r1] r0 res Some rc show thesis by (simp add: helm_order_def invalidate_def)
qed

lemma retry_entry_emits:
  assumes "retry_entry env bd ctx s i w = (Some (Entry order pair), w')"
  obtains r c where "with_content s (find (\<lambda>r. hi_id r = i) (hs_open s)) = Some (r, c)" "pair = None"
    "entry_of env bd ctx r c order" "ic_entry_kind c = Taker" "hw_db w' = hw_db w"
proof (cases "with_content s (find (\<lambda>r. hi_id r = i) (hs_open s))")
  case None
  with assms show thesis by (simp add: retry_entry_def stand_down_def)
next
  case (Some rc)
  obtain r c where rc: "rc = (r, c)" by (cases rc)
  obtain plan w1 where p: "plan_entry env bd ctx c (hi_side r) w = (plan, w1)" by fastforce
  obtain hit where hit: "plan = entry_plan env bd c (entry_inputs_of env bd ctx (hi_side r) hit)" "hw_db w1 = hw_db w"
    using p by (rule plan_entry_cases)
  obtain eo where eo: "plan = Some (Inr eo)"
    using assms by (cases plan) (auto simp: retry_entry_def Some rc p stand_down_def split: sum.splits if_splits)
  have "order = helm_order ctx (hi_side r) eo" "pair = None" "ic_entry_kind c = Taker"
    "w' = helm_report env ctx intent_working w1"
    using assms by (auto simp: retry_entry_def Some rc p eo stand_down_def Let_def split: if_splits)
  moreover from this(1) have "entry_of env bd ctx r c order" using hit(1) eo unfolding entry_of_def by blast
  ultimately show thesis using that [of r c] hit(2) Some rc by simp
qed

lemma take_snapshot_pool [simp]: "hw_has_pool (snd (take_snapshot env ctx w)) = hw_has_pool w"
  by (simp add: take_snapshot_def split_beta Let_def split: option.split)

lemma reconcile_one_follow:
  assumes "fst (reconcile_one env ctx r st) = Follow_retry i"
  shows "fst st = Follow_retry i \<or> hi_id r = i \<and> hi_status r = Working \<and> hi_token_id r \<noteq> None"
  using assms
  by (cases "hi_status r")
    (auto simp: reconcile_one_def reconcile_intent_def Let_def split_beta
      split: option.splits reconcile_outcome.splits if_splits bool.splits)

lemma reconcile_fold_follow:
  "fst (fold (reconcile_one env ctx) rs st) = Follow_retry i \<Longrightarrow>
    fst st = Follow_retry i \<or> (\<exists>r \<in> set rs. hi_id r = i \<and> hi_status r = Working \<and> hi_token_id r \<noteq> None)"
proof (induction rs arbitrary: st)
  case (Cons r rs)
  have "fst (fold (reconcile_one env ctx) rs (reconcile_one env ctx r st)) = Follow_retry i" using Cons.prems by simp
  from Cons.IH [OF this] reconcile_one_follow [of env ctx r st i] show ?case by auto
qed simp

lemma reconcile_retry:
  assumes "reconcile_in_flight env ctx s w = (Follow_retry i, w')"
  shows "\<exists>r \<in> set (in_flight s). hi_id r = i \<and> hi_status r = Working \<and> hi_token_id r \<noteq> None"
  using reconcile_fold_follow [of env ctx "in_flight s" "(Follow_nothing, w)" i] assms
  by (simp add: reconcile_in_flight_def)

lemma with_content_row: "with_content s x = Some (r, c) \<Longrightarrow> x = Some r \<and> hm_get (hs_contents s) (hi_id r) = Some c"
  by (auto simp: with_content_def split: option.splits)

lemma next_to_enter_row:
  "next_to_enter s = Some (r, c) \<Longrightarrow>
    in_flight s = [] \<and> r \<in> set (hs_open s) \<and> hi_status r = Acknowledged \<and> hm_get (hs_contents s) (hi_id r) = Some c"
  by (auto simp: next_to_enter_def find_Some_iff dest!: with_content_row split: if_splits)

lemma helm_entry_on_record:
  assumes "helm_evaluate_entry env bd ctx w = (Some (Entry order pair), w')"
  shows "hw_has_pool w \<and> pair = None
    \<and> (\<exists>r c. entry_of env bd ctx r c order
         \<and> hm_get (hs_contents (fst (take_snapshot env ctx w))) (hi_id r) = Some c
         \<and> (in_flight (fst (take_snapshot env ctx w)) = [] \<and> hi_status r = Acknowledged \<and> hw_snapshot w' = None
              \<and> (\<exists>r1. find_intent (hi_id r) (hw_db w') = Some r1 \<and> hi_status r1 = Working
                   \<and> hi_token_id r1 = Some (op_token_id order) \<and> hi_entry_price r1 = Some (op_price order)
                   \<and> hi_entry_shares r1 = Some (op_shares order) \<and> hi_working_at r1 \<noteq> None)
            \<or> (\<exists>r2 \<in> set (in_flight (fst (take_snapshot env ctx w))). hi_id r2 = hi_id r \<and> hi_status r2 = Working
                   \<and> hi_token_id r2 \<noteq> None) \<and> ic_entry_kind c = Taker))"
proof -
  obtain s w1 where s: "take_snapshot env ctx w = (s, w1)" by fastforce
  have pool: "hw_has_pool w1 = hw_has_pool w" using take_snapshot_pool [of env ctx w] s by simp
  obtain fw w2 where f: "reconcile_in_flight env ctx s w1 = (fw, w2)" by fastforce
  have has: "hw_has_pool w" using assms by (auto simp: helm_evaluate_entry_def s pool stand_down_def split: if_splits)
  show ?thesis
  proof (cases fw)
    case Follow_nothing
    then have "new_entry env bd ctx s w2 = (Some (Entry order pair), w')"
      using assms has by (simp add: helm_evaluate_entry_def s f pool)
    then obtain r c r0 r1 where e: "next_to_enter s = Some (r, c)" "pair = None" "entry_of env bd ctx r c order"
      "find_intent (hi_id r) (hw_db w') = Some r1" "hi_status r1 = Working"
      "hi_token_id r1 = Some (op_token_id order)" "hi_entry_price r1 = Some (op_price order)"
      "hi_entry_shares r1 = Some (op_shares order)" "hi_working_at r1 = Some (db_now (hw_db w2))" "hw_snapshot w' = None"
      by (rule new_entry_emits)
    with has next_to_enter_row [OF e(1)] show ?thesis unfolding s fst_conv by blast
  next
    case (Follow_retry i)
    then have "retry_entry env bd ctx s i w2 = (Some (Entry order pair), w')"
      using assms has by (simp add: helm_evaluate_entry_def s f pool)
    then obtain r c where e: "with_content s (find (\<lambda>r. hi_id r = i) (hs_open s)) = Some (r, c)" "pair = None"
      "entry_of env bd ctx r c order" "ic_entry_kind c = Taker"
      by (rule retry_entry_emits)
    have "hi_id r = i" "hm_get (hs_contents s) (hi_id r) = Some c"
      using with_content_row [OF e(1)] by (auto simp: find_Some_iff)
    moreover have "\<exists>r2 \<in> set (in_flight s). hi_id r2 = hi_id r \<and> hi_status r2 = Working \<and> hi_token_id r2 \<noteq> None"
      using reconcile_retry [OF f [unfolded Follow_retry]] \<open>hi_id r = i\<close> by simp
    ultimately show ?thesis unfolding s fst_conv using has e by blast
  next
    case (Follow_pull token)
    with assms has show ?thesis by (simp add: helm_evaluate_entry_def s f pool)
  qed
qed


definition side_bid :: "strategy_context \<Rightarrow> string \<Rightarrow> decimal" where
  "side_bid ctx side = (if side_is_yes side then ms_yes_bid (cx_snapshot ctx) else ms_no_bid (cx_snapshot ctx))"

definition side_ask :: "strategy_context \<Rightarrow> string \<Rightarrow> decimal" where
  "side_ask ctx side = (if side_is_yes side then ms_yes_ask (cx_snapshot ctx) else ms_no_ask (cx_snapshot ctx))"

lemma entry_inputs_simps [simp]:
  "ei_ghost (entry_inputs_of env bd ctx side hit) = dc_ghost_mode (cx_dynamic_config ctx)"
  "ei_helm_enabled (entry_inputs_of env bd ctx side hit) = hl_enabled (dc_helm (cx_dynamic_config ctx))"
  "ei_live_enabled (entry_inputs_of env bd ctx side hit) = hl_live_enabled (dc_helm (cx_dynamic_config ctx))"
  "ei_bid (entry_inputs_of env bd ctx side hit) = side_bid ctx side"
  "ei_ask (entry_inputs_of env bd ctx side hit) = side_ask ctx side"
  "ei_helm_exposure (entry_inputs_of env bd ctx side hit) = helm_exposure env ctx"
  "ei_max_exposure (entry_inputs_of env bd ctx side hit) = hl_max_exposure_usdc (dc_helm (cx_dynamic_config ctx))"
  "ei_available_collateral (entry_inputs_of env bd ctx side hit) = cx_available_collateral ctx"
  by (simp_all add: entry_inputs_of_def side_bid_def side_ask_def Let_def)


section \<open>Exits\<close>

lemma intent_for_token_row:
  "intent_for_token s token = Some (r, c) \<Longrightarrow>
    r \<in> set (in_flight s) \<and> hi_token_id r = Some token \<and> hm_get (hs_contents s) (hi_id r) = Some c"
  by (auto simp: intent_for_token_def in_flight_def find_Some_iff dest!: with_content_row)

lemma exit_loop_sound:
  assumes "helm_exit_loop env ctx s ps resting w = (Exit order reason both, w')"
    and "\<forall>o' why b. resting \<noteq> Some (Exit o' why b)"
  shows "\<not> both \<and> (\<exists>k p market book r c why. (k, p) \<in> set ps \<and> venue_for_token ctx (k_market k) = Some (market, book)
      \<and> intent_for_token s (k_market k) = Some (r, c) \<and> op_token_id order = k_market k
      \<and> op_shares order = p_shares p \<and> op_order_type order = Fak \<and> \<not> op_post_only order
      \<and> op_price order = (if k_market k = mc_yes_token market then ms_yes_bid book else ms_no_bid book)
      \<and> posture_action c (p_avg_entry p) (op_price order) (ve_utc env) = Posture_exit why
      \<and> reason = posture_text env why (p_avg_entry p) (hi_id r)
      \<and> hm_get (hw_exit_reasons w') (k_market k) = Some (reason, ve_instant env))"
  using assms
proof (induction ps arbitrary: resting w)
  case Nil
  then show ?case by (auto split: option.splits)
next
  case (Cons kp ps)
  obtain k p where kp: "kp = (k, p)" by (cases kp)
  show ?case
  proof (cases "venue_for_token ctx (k_market k)")
    case None
    with Cons show ?thesis by (fastforce simp: kp)
  next
    case (Some mb)
    obtain market book where mb: "mb = (market, book)" by (cases mb)
    let ?bid = "if k_market k = mc_yes_token market then ms_yes_bid book else ms_no_bid book"
    show ?thesis
    proof (cases "intent_for_token s (k_market k)")
      case None
      with Cons Some mb show ?thesis by (fastforce simp: kp Let_def)
    next
      case intent: (Some rc)
      obtain r c where rc: "rc = (r, c)" by (cases rc)
      show ?thesis
      proof (cases "posture_action c (p_avg_entry p) ?bid (ve_utc env)")
        case (Posture_exit why)
        with Cons.prems(1) Some mb intent rc have
          "order = leg_order market (k_market k) ?bid (p_shares p)
            (as_u16 (if k_market k = mc_yes_token market then mc_yes_fee_bps market else mc_no_fee_bps market)) Fak False
            (dc_ghost_mode (cx_dynamic_config ctx))"
          "reason = posture_text env why (p_avg_entry p) (hi_id r)" "\<not> both"
          "hw_exit_reasons w' = hm_insert (k_market k) (reason, ve_instant env) (hw_exit_reasons w)"
          by (auto simp: kp Let_def)
        with Posture_exit Some mb intent rc kp show ?thesis
          by (intro conjI exI [of _ k] exI [of _ p] exI [of _ market] exI [of _ book] exI [of _ r] exI [of _ c] exI [of _ why])
            (simp_all add: update_conv')
      next
        case (Rest_take_profit tp)
        have "\<exists>resting'. helm_exit_loop env ctx s ps resting' w = (Exit order reason both, w')
            \<and> (\<forall>o' why b. resting' \<noteq> Some (Exit o' why b))"
          using Cons.prems Rest_take_profit Some mb intent rc
          by (cases resting) (auto simp: kp Let_def)
        with Cons.IH show ?thesis by (fastforce simp: kp)
      next
        case Posture_hold
        with Cons Some mb intent rc show ?thesis by (fastforce simp: kp Let_def)
      qed
    qed
  qed
qed

text \<open>C10: Every sale is one the operator's posture asks for.  An exit sells the whole of one filled Helm position
  of this squadron with a fill-and-kill order at the bid of its own market, which is above zero; the
  position's token belongs to an intent in flight, and the floor, time limit, stop or target that intent's
  current content states is what fires at that bid; never a pair, and the reason is remembered for the
  intent's record.\<close>

theorem helm_exit_follows_posture:
  assumes "helm_evaluate_exit env ctx w = (Exit order reason both, w')"
  shows "\<not> both \<and> (\<exists>k p market book r c. (k, p) \<in> set (cx_positions ctx)
      \<and> k_squadron k = cx_squadron_id ctx \<and> k_strategy k = helm_strategy_name
      \<and> fill_effective_at p (dc_ghost_mode (cx_dynamic_config ctx)) \<noteq> None
      \<and> venue_for_token ctx (k_market k) = Some (market, book)
      \<and> intent_for_token (fst (take_snapshot env ctx w)) (k_market k) = Some (r, c) \<and> is_in_flight r
      \<and> op_token_id order = k_market k \<and> op_shares order = p_shares p \<and> op_order_type order = Fak
      \<and> op_price order = (if k_market k = mc_yes_token market then ms_yes_bid book else ms_no_bid book)
      \<and> 0 < op_price order
      \<and> (floor_fires c (p_avg_entry p) (op_price order) \<or> time_fires c (ve_utc env)
          \<or> stop_fires c (op_price order) \<or> target_fires c (op_price order))
      \<and> hm_get (hw_exit_reasons w') (k_market k) = Some (reason, ve_instant env))"
proof -
  obtain s w1 where s: "take_snapshot env ctx w = (s, w1)" by fastforce
  have "helm_exit_loop env ctx s (helm_held ctx) None w1 = (Exit order reason both, w')"
    using assms by (simp add: helm_evaluate_exit_def s)
  from exit_loop_sound [OF this] obtain k p market book r c why where e: "\<not> both" "(k, p) \<in> set (helm_held ctx)"
    "venue_for_token ctx (k_market k) = Some (market, book)" "intent_for_token s (k_market k) = Some (r, c)"
    "op_token_id order = k_market k" "op_shares order = p_shares p" "op_order_type order = Fak"
    "op_price order = (if k_market k = mc_yes_token market then ms_yes_bid book else ms_no_bid book)"
    "posture_action c (p_avg_entry p) (op_price order) (ve_utc env) = Posture_exit why"
    "hm_get (hw_exit_reasons w') (k_market k) = Some (reason, ve_instant env)"
    by auto
  have "0 < op_price order \<and> (floor_fires c (p_avg_entry p) (op_price order) \<or> time_fires c (ve_utc env)
      \<or> stop_fires c (op_price order) \<or> target_fires c (op_price order))"
    using posture_sells e(9) by blast
  moreover have "is_in_flight r" using intent_for_token_row [OF e(4)] by (simp add: in_flight_def)
  moreover have "(k, p) \<in> set (cx_positions ctx)" "k_squadron k = cx_squadron_id ctx" "k_strategy k = helm_strategy_name"
    "fill_effective_at p (dc_ghost_mode (cx_dynamic_config ctx)) \<noteq> None"
    using e(2) by (auto simp: helm_held_def)
  ultimately show ?thesis using e unfolding s fst_conv by blast
qed

section \<open>Settling\<close>

definition row_status :: "nat \<Rightarrow> helm_db \<Rightarrow> intent_status option" where
  "row_status i db = map_option hi_status (find_intent i db)"

lemma transition_reach:
  assumes "reliable db"
  shows "snd (transition i to d db) =
      (case find_intent i db of
         Some r \<Rightarrow> if can_transition_to (hi_status r) to
           then tick (add_event i (Some (hi_status r)) to d (tick (update_intent i (moved (db_now db) to d) (tick (tick db)))))
           else tick db
       | None \<Rightarrow> tick db)"
proof -
  have ok: "succeeds db'" if "db_ok db' = db_ok db" for db' using assms that by (simp add: succeeds_def reliable_def)
  have get: "get_existing i db' = (case find_intent i db' of None \<Rightarrow> Inl (Not_found i) | Some r \<Rightarrow> Inr r, tick db')"
    if "db_ok db' = db_ok db" for db'
    using ok [OF that] by (simp add: get_existing_def get_def and_then_def query_def ret_def fail_def split: option.split)
  have wrote: "snd (write_move r to d (tick db)) =
      tick (add_event i (Some (hi_status r)) to d (tick (update_intent i (moved (db_now db) to d) (tick (tick db)))))"
    if "find_intent i db = Some r" for r
    using find_intent_id [OF that] that ok
    by (simp add: write_move_def and_then_def exec_def record_event_def get split: option.split)
  show ?thesis
    using get [of db] wrote by (simp add: transition_def and_then_def fail_def split: option.split)
qed

lemma transition_reliable:
  assumes "reliable db"
  shows "reliable (snd (transition i to d db))"
    and "row_status j (snd (transition i to d db)) =
      (case row_status i db of
         Some st \<Rightarrow> if can_transition_to st to \<and> j = i then Some to else row_status j db
       | None \<Rightarrow> row_status j db)"
proof -
  show "reliable (snd (transition i to d db))"
    using assms by (auto simp: transition_reach [OF assms] reliable_def split: option.split)
  show "row_status j (snd (transition i to d db)) =
      (case row_status i db of
         Some st \<Rightarrow> if can_transition_to st to \<and> j = i then Some to else row_status j db
       | None \<Rightarrow> row_status j db)"
    unfolding transition_reach [OF assms] row_status_def
    by (cases "find_intent i db"; cases "j = i") (auto simp: find_intent_update option.map_comp comp_def)
qed

lemma try_move_status:
  assumes "reliable (hw_db w)"
  shows "reliable (hw_db (try_move i to why w))"
    and "row_status j (hw_db (try_move i to why w)) =
      (case row_status i (hw_db w) of
         Some st \<Rightarrow> if can_transition_to st to \<and> j = i then Some to else row_status j (hw_db w)
       | None \<Rightarrow> row_status j (hw_db w))"
  using transition_reliable [OF assms] by (simp_all add: try_move_def)

lemma label_position_frame [simp]:
  "row_status j (hw_db (label_position token i w)) = row_status j (hw_db w)"
  "reliable (hw_db (label_position token i w)) = reliable (hw_db w)"
  by (simp_all add: label_position_def set_position_intent_def row_status_def find_intent_def reliable_def split_beta Let_def)

lemma label_trades_frame [simp]:
  "row_status j (snd (label_trades market side i db)) = row_status j db"
  "reliable (snd (label_trades market side i db)) = reliable db"
  by (simp_all add: label_trades_def row_status_def find_intent_def reliable_def)

lemma invalidate_frame [simp]: "hw_db (invalidate w) = hw_db w"
  by (simp add: invalidate_def)

text \<open>The status the reconciliation of a row leaves it in, when the database answers.\<close>

definition settled :: "intent_status \<Rightarrow> reconcile_outcome \<Rightarrow> intent_status" where
  "settled st outcome =
     (case outcome of Rc_wait \<Rightarrow> st | Rc_retry \<Rightarrow> st | Rc_filled \<Rightarrow> Filled | Rc_partial \<Rightarrow> Partial | _ \<Rightarrow> Closed)"

definition outcome_of :: "viper_env \<Rightarrow> strategy_context \<Rightarrow> helm_intent \<Rightarrow> string \<Rightarrow> reconcile_outcome" where
  "outcome_of env ctx r token =
     reconcile_intent (hi_status r) (map_option (\<lambda>(s, f, _). (s, f)) (position_view ctx token)) (hi_entry_shares r)
       (working_for_secs r (ve_utc env)) (hl_entry_window_secs (dc_helm (cx_dynamic_config ctx)))"

lemma outcome_inv:
  "reconcile_intent st pos asked age window = Rc_missed \<or> reconcile_intent st pos asked age window = Rc_pull \<Longrightarrow> st = Working"
  "reconcile_intent st pos asked age window = Rc_filled \<Longrightarrow> st = Working \<or> st = Partial"
  "reconcile_intent st pos asked age window = Rc_partial \<Longrightarrow> st = Working"
  "reconcile_intent st pos asked age window = Rc_gone \<Longrightarrow> st = Partial \<or> st = Filled"
  by (cases st; auto simp: reconcile_intent_def split: option.splits bool.splits if_splits)+

lemma reconcile_one_status:
  assumes ok: "reliable (hw_db (snd st))"
    and row: "row_status (hi_id r) (hw_db (snd st)) = Some (hi_status r)"
  shows "reliable (hw_db (snd (reconcile_one env ctx r st)))"
    and "row_status j (hw_db (snd (reconcile_one env ctx r st))) =
      (if j = hi_id r
       then Some (case hi_token_id r of None \<Rightarrow> hi_status r | Some token \<Rightarrow> settled (hi_status r) (outcome_of env ctx r token))
       else row_status j (hw_db (snd st)))"
proof -
  obtain fw w where st: "st = (fw, w)" by (cases st)
  note ok' = ok [unfolded st snd_conv] and row' = row [unfolded st snd_conv]
  have "reliable (hw_db (snd (reconcile_one env ctx r st)))
      \<and> row_status j (hw_db (snd (reconcile_one env ctx r st))) =
      (if j = hi_id r
       then Some (case hi_token_id r of None \<Rightarrow> hi_status r | Some token \<Rightarrow> settled (hi_status r) (outcome_of env ctx r token))
       else row_status j (hw_db w))"
  proof (cases "hi_token_id r")
    case None
    with ok' row' show ?thesis by (simp add: reconcile_one_def st)
  next
    case (Some token)
    let ?o = "outcome_of env ctx r token"
    have inv: "?o = Rc_missed \<or> ?o = Rc_pull \<Longrightarrow> hi_status r = Working"
      "?o = Rc_filled \<Longrightarrow> hi_status r = Working \<or> hi_status r = Partial" "?o = Rc_partial \<Longrightarrow> hi_status r = Working"
      "?o = Rc_gone \<Longrightarrow> hi_status r = Partial \<or> hi_status r = Filled"
      unfolding outcome_of_def by (rule outcome_inv, assumption)+
    have step: "reconcile_one env ctx r st =
        (case ?o of
           Rc_wait \<Rightarrow> (fw, w)
         | Rc_retry \<Rightarrow> (Follow_retry (hi_id r), w)
         | Rc_pull \<Rightarrow> (Follow_pull token,
             settle_miss env ctx r ''resting bid unfilled after '' ''entry missed: window expired, bid pulled'' w)
         | Rc_filled \<Rightarrow> (fw, settle_fill env ctx r token Filled w)
         | Rc_partial \<Rightarrow> (fw, settle_fill env ctx r token Partial w)
         | Rc_missed \<Rightarrow> (fw, settle_miss env ctx r ''no fill within '' ''entry missed: window expired'' w)
         | Rc_gone \<Rightarrow> (fw, settle_gone env r token w))"
      by (simp add: reconcile_one_def Some st outcome_of_def Let_def)
    show ?thesis
      using ok' row' Some inv
      by (cases ?o)
        (auto simp: step settle_miss_def settle_fill_def settle_gone_def settled_def try_move_status split_beta Let_def)
  qed
  then show "reliable (hw_db (snd (reconcile_one env ctx r st)))"
    and "row_status j (hw_db (snd (reconcile_one env ctx r st))) =
      (if j = hi_id r
       then Some (case hi_token_id r of None \<Rightarrow> hi_status r | Some token \<Rightarrow> settled (hi_status r) (outcome_of env ctx r token))
       else row_status j (hw_db (snd st)))"
    by (simp_all add: st)
qed

lemma fold_other_rows:
  assumes "reliable (hw_db (snd st))"
    and "\<forall>r \<in> set rs. row_status (hi_id r) (hw_db (snd st)) = Some (hi_status r)" and "distinct (map hi_id rs)"
  shows "reliable (hw_db (snd (fold (reconcile_one env ctx) rs st)))
    \<and> (\<forall>r \<in> set rs. row_status (hi_id r) (hw_db (snd (fold (reconcile_one env ctx) rs st))) =
         Some (case hi_token_id r of None \<Rightarrow> hi_status r | Some token \<Rightarrow> settled (hi_status r) (outcome_of env ctx r token)))
    \<and> (\<forall>j. j \<notin> hi_id ` set rs \<longrightarrow>
         row_status j (hw_db (snd (fold (reconcile_one env ctx) rs st))) = row_status j (hw_db (snd st)))"
  using assms
proof (induction rs arbitrary: st)
  case (Cons r rs)
  let ?st = "reconcile_one env ctx r st"
  have row: "row_status (hi_id r) (hw_db (snd st)) = Some (hi_status r)" using Cons.prems(2) by simp
  note one = reconcile_one_status [OF Cons.prems(1) row, where env = env and ctx = ctx]
  have other: "hi_id x \<noteq> hi_id r" if "x \<in> set rs" for x
    using Cons.prems(3) imageI [OF that, of hi_id] by auto
  then have rest: "\<forall>x \<in> set rs. row_status (hi_id x) (hw_db (snd ?st)) = Some (hi_status x)"
    using Cons.prems(2) by (simp add: one(2))
  have fresh: "hi_id r \<notin> hi_id ` set rs" "distinct (map hi_id rs)" using Cons.prems(3) by auto
  note ih = Cons.IH [OF one(1) rest fresh(2)]
  have "row_status (hi_id r) (hw_db (snd (fold (reconcile_one env ctx) rs ?st))) = row_status (hi_id r) (hw_db (snd ?st))"
    using ih fresh(1) by blast
  with ih show ?case by (simp add: one(2))
qed simp


section \<open>What nothing manages\<close>

lemma current_content_rows [simp]: "db_intents (snd (current_content r db)) = db_intents db"
  by (simp add: current_content_def revisions_def query_or_def split_beta Let_def)

lemma load_contents_rows [simp]: "db_intents (snd (load_contents rs db)) = db_intents db"
  by (induction rs arbitrary: db) (simp_all add: split_beta Let_def)

lemma read_snapshot_open:
  "r \<in> set (hs_open (fst (read_snapshot squadron db))) \<Longrightarrow> r \<in> set (db_intents db) \<and> \<not> is_terminal (hi_status r)"
  by (auto simp: read_snapshot_def squadron_tally_def list_for_squadron_def query_or_def squadron_rows_def split_beta Let_def
      split: if_splits)

text \<open>C35: The move to working and the columns of the entry are separate statements.  When the second fails, no
  order leaves, but the intent stays working without a token, which the reconciliation passes over: at no
  later tick, however long after the window, does the strategy act on it or enter another, so the miss
  window never closes it and the squadron trades no further.\<close>

theorem half_marked_intent_wedges:
  assumes "find_intent i db = Some r" and "hi_status r = Acknowledged" and "hi_token_id r = None"
    and "db_ok db (db_calls db)" and "db_ok db (db_calls db + 1)" and "db_ok db (db_calls db + 2)"
    and "db_ok db (db_calls db + 3)" and "\<not> db_ok db (db_calls db + 4)"
  shows "\<exists>r'. fst (mark_working show' i token price shares db) = Inl Statement_failed
    \<and> find_intent i (snd (mark_working show' i token price shares db)) = Some r'
    \<and> hi_status r' = Working \<and> hi_token_id r' = None
    \<and> (\<forall>env bd ctx w. hw_has_pool w \<and> in_flight (fst (take_snapshot env ctx w)) = [r'] \<longrightarrow>
         fst (helm_evaluate_entry env bd ctx w) = Some NoSignal
         \<and> hw_db (snd (helm_evaluate_entry env bd ctx w)) = hw_db (snd (take_snapshot env ctx w)))"
proof -
  let ?d = "Some (''entry to the book: '' @ show' 4 shares @ '' shares @ $'' @ show' 4 price)"
  let ?r' = "moved (db_now db) Working ?d r"
  let ?db4 = "tick (add_event i (Some Acknowledged) Working ?d (tick (update_intent i (moved (db_now db) Working ?d) (tick (tick db)))))"
  have id: "hi_id r = i" by (rule find_intent_id [OF assms(1)])
  have g: "get_existing i db = (Inr r, tick db)"
    using assms(1,4) by (simp add: get_existing_def get_def and_then_def query_def succeeds_def ret_def)
  have row: "find_intent i ?db4 = Some ?r'" using assms(1) by (simp add: find_moved)
  have t: "transition i Working ?d db = (Inr ?r', ?db4)"
    using assms id g row
    by (simp add: transition_def write_move_def and_then_def exec_def record_event_def get_existing_def get_def query_def
        ret_def succeeds_def numeral_eq_Suc)
  have "mark_working show' i token price shares db = (Inl Statement_failed, tick ?db4)"
    using assms(8) t by (simp add: mark_working_def and_then_def exec_def succeeds_def numeral_eq_Suc)
  moreover have "fst (helm_evaluate_entry env bd ctx w) = Some NoSignal
      \<and> hw_db (snd (helm_evaluate_entry env bd ctx w)) = hw_db (snd (take_snapshot env ctx w))"
    if "hw_has_pool w" "in_flight (fst (take_snapshot env ctx w)) = [?r']" for env bd ctx w
  proof -
    obtain s w1 where s: "take_snapshot env ctx w = (s, w1)" by fastforce
    have "reconcile_in_flight env ctx s w1 = (Follow_nothing, w1)" "next_to_enter s = None"
      using that(2) assms(3) by (simp_all add: s reconcile_in_flight_def reconcile_one_def next_to_enter_def)
    with that(1) take_snapshot_pool [of env ctx w] show ?thesis
      by (simp add: helm_evaluate_entry_def s new_entry_def stand_down_def)
  qed
  ultimately show ?thesis using assms(3) row by (intro exI [of _ ?r']) simp
qed

lemma transition_rows:
  assumes "reliable db" and "find_intent i db = Some r" and "can_transition_to (hi_status r) to"
  shows "db_intents (snd (transition i to d db)) = map (\<lambda>x. if hi_id x = i then moved (db_now db) to d x else x) (db_intents db)"
    and "find_intent i (snd (transition i to d db)) = Some (moved (db_now db) to d r)"
    and "db_now (snd (transition i to d db)) = db_now db"
proof -
  show "db_intents (snd (transition i to d db)) = map (\<lambda>x. if hi_id x = i then moved (db_now db) to d x else x) (db_intents db)"
    using assms(2,3) by (simp add: transition_reach [OF assms(1)] update_intent_def)
  show "find_intent i (snd (transition i to d db)) = Some (moved (db_now db) to d r)"
    using assms(2,3) by (simp add: transition_reach [OF assms(1)] find_intent_update)
  show "db_now (snd (transition i to d db)) = db_now db"
    using assms(2,3) by (simp add: transition_reach [OF assms(1)])
qed

lemma missed_then_closed_rows:
  assumes "reliable db" and "find_intent i db = Some r" and "hi_status r = Working"
    and "x \<in> set (db_intents (snd (transition i Closed d2 (snd (transition i Missed d1 db)))))"
  shows "\<exists>y \<in> set (db_intents db). hi_token_id x = hi_token_id y \<and> (hi_id y = i \<longrightarrow> hi_status x = Closed)"
proof -
  have legal: "can_transition_to (hi_status r) Missed" using assms(3) by simp
  note 1 = transition_rows [OF assms(1,2) legal, of d1]
  have "can_transition_to (hi_status (moved (db_now db) Missed d1 r)) Closed" by simp
  note 2 = transition_rows [OF transition_reliable(1) [OF assms(1)] 1(2) this, of d2]
  show ?thesis using assms(4) unfolding 2(1) 1(1) by auto
qed

lemma no_intent_no_exit:
  assumes "\<forall>(k, p) \<in> set ps. intent_for_token s (k_market k) = None"
  shows "fst (helm_exit_loop env ctx s ps None w) = NoSignal"
  using assms by (induction ps arbitrary: w) (auto split: option.split simp: Let_def)

text \<open>A bid that is pulled and filled in the same instant has no posture.  Pulling closes the intent, so
  although the patrol keeps the fill, the next ticks do not reconcile it: as long as no other intent is on
  that token, no exit is evaluated for the position at any bid, whatever floor, stop or time limit the
  operator stated.\<close>

theorem late_fill_has_no_posture:
  assumes "reliable (hw_db w)" and "hw_has_pool w" and "find_intent (hi_id r) (hw_db w) = Some r"
    and "hi_token_id r = Some token" and "outcome_of env ctx r token = Rc_pull"
    and "\<forall>x \<in> set (db_intents (hw_db w)). hi_token_id x = Some token \<longrightarrow> hi_id x = hi_id r"
  shows "fst (reconcile_one env ctx r (Follow_nothing, w)) = Follow_pull token
    \<and> (\<forall>env' ctx'. (\<forall>(k, p) \<in> set (helm_held ctx'). k_market k = token) \<longrightarrow>
         fst (helm_evaluate_exit env' ctx' (snd (reconcile_one env ctx r (Follow_nothing, w)))) = NoSignal)"
proof -
  let ?miss = "Some (''resting bid unfilled after '' @ ve_show_int env (hl_entry_window_secs (dc_helm (cx_dynamic_config ctx))) @ ''s'')"
  let ?close = "Some ''entry missed: window expired, bid pulled''"
  let ?db1 = "snd (transition (hi_id r) Missed ?miss (hw_db w))"
  let ?db2 = "snd (transition (hi_id r) Closed ?close ?db1)"
  let ?w1 = "settle_miss env ctx r ''resting bid unfilled after '' ''entry missed: window expired, bid pulled'' w"
  have step: "reconcile_one env ctx r (Follow_nothing, w) = (Follow_pull token, ?w1)"
    using assms(4,5) by (simp add: reconcile_one_def outcome_of_def Let_def)
  have working: "hi_status r = Working"
    using assms(5) outcome_inv(1) unfolding outcome_of_def by blast
  have w1: "hw_db ?w1 = ?db2" "hw_snapshot ?w1 = None" "hw_has_pool ?w1"
    using assms(2) by (simp_all add: settle_miss_def try_move_def invalidate_def)
  have closed: "is_terminal (hi_status x)" if "x \<in> set (db_intents (hw_db ?w1))" "hi_token_id x = Some token" for x
    using missed_then_closed_rows [OF assms(1,3) working that(1) [unfolded w1(1)]] that(2) assms(6) by auto
  have "fst (helm_evaluate_exit env' ctx' ?w1) = NoSignal"
    if held: "\<forall>(k, p) \<in> set (helm_held ctx'). k_market k = token" for env' ctx'
  proof -
    let ?s = "fst (read_snapshot (cx_squadron_id ctx') (hw_db ?w1))"
    have "fst (take_snapshot env' ctx' ?w1) = ?s"
      by (simp add: take_snapshot_def w1(2,3) split_beta Let_def)
    moreover have "intent_for_token ?s token = None"
    proof (cases "intent_for_token ?s token")
      case (Some rc)
      obtain x c where "rc = (x, c)" by (cases rc)
      with Some intent_for_token_row [of ?s token x c] have "x \<in> set (hs_open ?s)" "hi_token_id x = Some token"
        by (auto simp: in_flight_def)
      then show ?thesis using closed read_snapshot_open by blast
    qed simp
    ultimately show ?thesis
      using held by (auto simp: helm_evaluate_exit_def split_beta Let_def intro!: no_intent_no_exit)
  qed
  with step show ?thesis by simp
qed

section \<open>An acknowledged intent goes to work\<close>

lemma mark_working_reliable:
  assumes "reliable db" and "find_intent i db = Some r" and "hi_status r = Acknowledged"
  shows "\<exists>r' db'. mark_working show' i token price shares db = (Inr r', db')"
proof -
  have ok: "succeeds db'" if "db_ok db' = db_ok db" for db' using assms(1) that by (simp add: succeeds_def reliable_def)
  have get: "get_existing i db' = (Inr x, tick db')" if "db_ok db' = db_ok db" "find_intent i db' = Some x" for db' x
    using ok that by (simp add: get_existing_def get_def and_then_def query_def ret_def)
  let ?d = "Some (''entry to the book: '' @ show' 4 shares @ '' shares @ $'' @ show' 4 price)"
  let ?r = "moved (db_now db) Working ?d r"
  let ?db1 = "tick (add_event i (Some Acknowledged) Working ?d (tick (update_intent i (moved (db_now db) Working ?d) (tick (tick db)))))"
  have 1: "transition i Working ?d db = (Inr ?r, ?db1)"
    using assms(2,3) find_intent_id [OF assms(2)] get ok
    by (simp add: transition_def write_move_def and_then_def exec_def record_event_def find_moved)
  have "find_intent i ?db1 = Some ?r" using assms(2) by (simp add: find_moved)
  with 1 ok show ?thesis
    by (auto simp: mark_working_def and_then_def exec_def find_intent_update intro!: exI get)
qed

lemma snapshot_frame:
  "hw_db (snd (take_snapshot env ctx w)) = hw_db w \<or> hw_db (snd (take_snapshot env ctx w)) = snd (read_snapshot (cx_squadron_id ctx) (hw_db w))"
  "vw_drawdown (snd (take_snapshot env ctx w)) = vw_drawdown w"
  by (auto simp: take_snapshot_def split_beta Let_def split: option.split)

lemma read_snapshot_frame:
  "find_intent i (snd (read_snapshot squadron db)) = find_intent i db"
  "db_ok (snd (read_snapshot squadron db)) = db_ok db"
proof -
  have c: "db_ok (snd (current_content r db)) = db_ok db" for r db
    by (simp add: current_content_def revisions_def query_or_def split_beta Let_def)
  have l: "db_ok (snd (load_contents rs db)) = db_ok db" for rs db
    by (induction rs arbitrary: db) (simp_all add: split_beta Let_def c)
  show "db_ok (snd (read_snapshot squadron db)) = db_ok db"
    by (simp add: read_snapshot_def squadron_tally_def list_for_squadron_def query_or_def split_beta Let_def l)
  show "find_intent i (snd (read_snapshot squadron db)) = find_intent i db"
    by (rule find_intent_cong)
      (simp add: read_snapshot_def squadron_tally_def list_for_squadron_def query_or_def split_beta Let_def)
qed

lemma acknowledged_enters:
  assumes "hw_has_pool w" and "reliable (hw_db w)"
    and "next_to_enter (fst (take_snapshot env ctx w)) = Some (r, c)"
    and "row_status (hi_id r) (hw_db w) = Some Acknowledged"
    and "entry_plan env bd c (entry_inputs_of env bd ctx (hi_side r) (fst (check_drawdown env ctx w))) = Some (Inr plan)"
  shows "fst (helm_evaluate_entry env bd ctx w) = Some (Entry (helm_order ctx (hi_side r) plan) None)"
proof -
  obtain s w1 where s: "take_snapshot env ctx w = (s, w1)" by fastforce
  have w1: "find_intent (hi_id r) (hw_db w1) = find_intent (hi_id r) (hw_db w)" "db_ok (hw_db w1) = db_ok (hw_db w)"
    "vw_drawdown w1 = vw_drawdown w" "hw_has_pool w1"
    using snapshot_frame [of env ctx w] read_snapshot_frame take_snapshot_pool [of env ctx w] s assms(1) by auto
  have none: "reconcile_in_flight env ctx s w1 = (Follow_nothing, w1)"
    using next_to_enter_row assms(3) by (auto simp: reconcile_in_flight_def s)
  have hit: "fst (check_drawdown env ctx w1) = fst (check_drawdown env ctx w)"
    by (simp add: check_drawdown_def w1(3) split_beta)
  let ?w2 = "snd (check_drawdown env ctx w1)"
  obtain r0 where "find_intent (hi_id r) (hw_db ?w2) = Some r0" "hi_status r0 = Acknowledged" "reliable (hw_db ?w2)"
    using assms(2,4) w1 by (auto simp: row_status_def reliable_def)
  then obtain r1 db where "mark_working (ve_show env) (hi_id r) (side_token ctx (hi_side r)) (eo_price plan) (eo_shares plan) (hw_db ?w2)
      = (Inr r1, db)"
    using mark_working_reliable by blast
  with assms(3,5) none hit w1(4) show ?thesis
    by (simp add: helm_evaluate_entry_def new_entry_def plan_entry_def s split_beta Let_def)
qed

text \<open>What the gates allow is done.  With a database that answers and a view in which nothing is in flight,
  the oldest acknowledged intent of the view, if the database has it acknowledged and its plan passes
  the gates, goes to work on this very tick: its planned order is the signal.\<close>

theorem acknowledged_intent_enters:
  assumes "hw_has_pool w" and "reliable (hw_db w)"
    and "next_to_enter (fst (take_snapshot env ctx w)) = Some (r, c)"
    and "row_status (hi_id r) (hw_db w) = Some Acknowledged"
    and "entry_plan env bd c (entry_inputs_of env bd ctx (hi_side r) (fst (check_drawdown env ctx w))) = Some (Inr plan)"
  shows "fst (helm_evaluate_entry env bd ctx w) = Some (Entry (helm_order ctx (hi_side r) plan) None)"
  using assms by (rule acknowledged_enters)

section \<open>Concrete inputs\<close>

definition helm_market :: market_config where
  "helm_market =
     \<lparr>mc_yes_token = ''up'', mc_no_token = ''down'', mc_market_name = ''M'', mc_market_close_time = None,
      mc_strike_price = None, mc_window_secs = None, mc_is_neg_risk = False, mc_condition_id = ''c'',
      mc_yes_fee_bps = 0, mc_no_fee_bps = 0\<rparr>"

definition helm_book :: market_snapshot where
  "helm_book = blank_snapshot\<lparr>ms_yes_bid := 58/100, ms_yes_ask := 60/100, ms_no_bid := 40/100, ms_no_ask := 42/100\<rparr>"

definition helm_context :: strategy_context where
  "helm_context =
     \<lparr>cx_market = helm_market, cx_snapshot = helm_book, cx_positions = [], cx_session_pnl = 0,
      cx_starting_collateral = 100, cx_crypto_filter = ''helm'', cx_squadron_id = ''helm-a'',
      cx_market_class = Some ''helm'', cx_has_price_feed = True, cx_market_started_at = 0,
      cx_maker_market = None, cx_maker_snapshot = None,
      cx_available_collateral = 100, cx_dynamic_config = sample_config\<rparr>"

definition helm_start :: helm_world where
  "helm_start = \<lparr>vw_status = [], vw_drawdown = ((None, []), 0), vw_notes = [], vw_venue_notices = [],
     hw_db = sample_acknowledged, hw_has_pool = True, hw_snapshot = None, hw_exit_reasons = [], hw_labeled = []\<rparr>"

definition helm_sample_order :: order_params where
  "helm_sample_order = leg_order helm_market ''up'' (60/100) 10 0 Fak False False"

lemma helm_start_simps [simp]:
  "hw_db helm_start = sample_acknowledged" "hw_has_pool helm_start" "hw_snapshot helm_start = None"
  "vw_drawdown helm_start = ((None, []), 0)"
  by (simp_all add: helm_start_def)

lemma acknowledged_reliable: "reliable sample_acknowledged"
  using growing.run_keeps [OF acknowledged_reached] by (simp add: reliable_def empty_db_def)

lemma helm_start_view:
  "\<exists>r. next_to_enter (fst (take_snapshot sample_env helm_context helm_start)) = Some (r, sample_content)
     \<and> hi_id r = 1 \<and> hi_side r = ''YES''"
proof -
  have "map_option (\<lambda>(r, c). (hi_id r, hi_side r, c)) (next_to_enter (fst (read_snapshot ''helm-a'' sample_acknowledged)))
      = Some (1, ''YES'', sample_content)" by code_simp
  then show ?thesis by (auto simp: take_snapshot_def helm_context_def split_beta Let_def)
qed

lemma helm_start_plan:
  "entry_plan sample_env sample_build sample_content
     (entry_inputs_of sample_env sample_build helm_context ''YES'' (fst (check_drawdown sample_env helm_context helm_start)))
   = Some (Inr \<lparr>eo_price = 60 / 100, eo_shares = 10, eo_order_type = Fak, eo_post_only = False\<rparr>)"
proof -
  have "\<not> fst (check_drawdown sample_env helm_context helm_start)"
    by (rule fresh_drawdown) (simp_all add: helm_context_def sample_env_def)
  moreover have "side_is_yes ''YES''" by code_simp
  ultimately have i: "entry_inputs_of sample_env sample_build helm_context ''YES'' (fst (check_drawdown sample_env helm_context helm_start))
      = sample_inputs\<lparr>ei_secs_to_close := None, ei_helm_exposure := 0\<rparr>"
    by (simp add: entry_inputs_of_def helm_context_def helm_book_def helm_market_def sample_config_def sample_inputs_def
        sample_env_def sample_build_def helm_exposure_def blank_snapshot_def Let_def)
  show ?thesis unfolding i
    by (simp add: entry_plan_def plan_facts_def validate_against_book_def price_rule_def entry_price_def stop_rule_def
        target_rule_def time_rule_def close_rule_def size_rule_def sample_content_def sample_inputs_def sample_env_def
        sample_build_def fee_verdict_on_def fee_target_def div_opt_def entry_leg_pct_def entry_only_fee_pct_def
        exit_only_fee_pct_def verdict_pass_def checked_div_def size_gates_def round_trip_fee_pct_def Let_def)
qed

lemma helm_sample_order:
  "helm_order helm_context ''YES'' \<lparr>eo_price = 60 / 100, eo_shares = 10, eo_order_type = Fak, eo_post_only = False\<rparr>
   = helm_sample_order"
proof -
  have "side_is_yes ''YES''" by code_simp
  then show ?thesis
    by (simp add: helm_order_def helm_sample_order_def side_token_def helm_context_def helm_market_def sample_config_def
        as_u16_def leg_order_def)
qed

lemma acknowledged_intent_enters_witness:
  "fst (helm_evaluate_entry sample_env sample_build helm_context helm_start) = Some (Entry helm_sample_order None)"
proof -
  obtain r where r: "next_to_enter (fst (take_snapshot sample_env helm_context helm_start)) = Some (r, sample_content)"
    "hi_id r = 1" "hi_side r = ''YES''" using helm_start_view by blast
  then show ?thesis
    using acknowledged_intent_enters [OF _ _ r(1), of sample_build] helm_start_plan helm_sample_order
      acknowledged_reliable sample_rows(2) by (simp add: row_status_def)
qed

lemma helm_sample_enters:
  "\<exists>w'. helm_evaluate_entry sample_env sample_build helm_context helm_start = (Some (Entry helm_sample_order None), w')"
proof -
  obtain r where r: "next_to_enter (fst (take_snapshot sample_env helm_context helm_start)) = Some (r, sample_content)"
    "hi_id r = 1" "hi_side r = ''YES''" using helm_start_view by blast
  then have "fst (helm_evaluate_entry sample_env sample_build helm_context helm_start) = Some (Entry helm_sample_order None)"
    using acknowledged_enters [OF _ _ r(1), of sample_build] helm_start_plan helm_sample_order
      acknowledged_reliable sample_rows(2) by (simp add: row_status_def)
  then show ?thesis by (metis prod.collapse)
qed



text \<open>A filled position under its intent, with the bid at the stop.\<close>

definition helm_filled_view :: helm_snapshot where
  "helm_filled_view =
     \<lparr>hs_tally = \<lparr>it_total = 1, it_open = 1\<rparr>,
      hs_open = [(new_row sample_new (empty_db (\<lambda>_. True) 0 ''s''))\<lparr>hi_status := Filled, hi_token_id := Some ''up''\<rparr>],
      hs_contents = [(1, sample_content)]\<rparr>"

definition helm_held_context :: strategy_context where
  "helm_held_context = helm_context
     \<lparr>cx_snapshot := helm_book\<lparr>ms_yes_bid := 45/100\<rparr>,
      cx_positions := [(position_key_new ''helm-a'' helm_strategy_name ''up'',
        \<lparr>p_shares = 10, p_avg_entry = 60/100, p_opened_at = 0, p_close_time = None, p_market_name = ''M'',
         p_pair_token_id = ''down'', p_fill_confirmed_at = Some 1, p_paired_leg_token_id = None, p_entry_fee = 0\<rparr>)]\<rparr>"

definition helm_held_world :: helm_world where
  "helm_held_world = helm_start\<lparr>hw_snapshot := Some (0, helm_filled_view)\<rparr>"

lemma helm_sample_exits:
  "\<exists>reason w'. helm_evaluate_exit sample_env helm_held_context helm_held_world =
     (Exit (leg_order helm_market ''up'' (45/100) 10 0 Fak False False) reason False, w')"
proof -
  let ?s = helm_filled_view
  let ?p = "snd (hd (cx_positions helm_held_context))"
  have view: "take_snapshot sample_env helm_held_context helm_held_world = (?s, helm_held_world)"
    by (simp add: take_snapshot_def helm_held_world_def sample_env_def intent_refresh_def)
  have "map_option (\<lambda>(r, c). (hi_id r, c)) (intent_for_token ?s ''up'') = Some (1, sample_content)"
    by (simp add: intent_for_token_def helm_filled_view_def is_in_flight_def with_content_def new_row_def empty_db_def)
  then obtain r where r: "intent_for_token ?s ''up'' = Some (r, sample_content)" "hi_id r = 1" by auto
  have fires: "posture_action sample_content (60/100) (45/100) 0 = Posture_exit (Stop_hit (45/100) (1/2))"
    by (simp add: posture_action_def sample_content_def)
  have ev: "helm_evaluate_exit sample_env helm_held_context helm_held_world =
      helm_exit_loop sample_env helm_held_context ?s (helm_held helm_held_context) None helm_held_world"
    by (simp add: helm_evaluate_exit_def view)
  show ?thesis
    unfolding ev using r fires
    by (simp add: helm_held_def helm_held_context_def helm_context_def helm_market_def
        helm_book_def position_key_new_def fill_effective_at_def venue_for_token_def sample_config_def as_u16_def
        sample_env_def Let_def)
qed

lemma helm_exit_follows_posture_witness:
  "stop_fires sample_content (45/100) \<and> (\<exists>reason w' r c. helm_evaluate_exit sample_env helm_held_context helm_held_world =
     (Exit (leg_order helm_market ''up'' (45/100) 10 0 Fak False False) reason False, w')
     \<and> intent_for_token (fst (take_snapshot sample_env helm_held_context helm_held_world)) ''up'' = Some (r, c))"
proof -
  obtain reason w' where x: "helm_evaluate_exit sample_env helm_held_context helm_held_world =
      (Exit (leg_order helm_market ''up'' (45/100) 10 0 Fak False False) reason False, w')"
    using helm_sample_exits by blast
  have "stop_fires sample_content (45/100)" by (simp add: stop_fires_def sample_content_def)
  with helm_exit_follows_posture [OF x] x show ?thesis by auto
qed

text \<open>The sample intent gone to work at time zero, seen two minutes and ten seconds later.\<close>

definition sample_working :: helm_db where
  "sample_working = snd (mark_working (\<lambda>_ _. []) 1 ''up'' (60/100) 10 sample_acknowledged)"

definition late_env :: viper_env where
  "late_env = sample_env\<lparr>ve_utc := 130 * nanos_per_sec\<rparr>"

definition working_world :: helm_world where
  "working_world = helm_start\<lparr>hw_db := sample_working\<rparr>"

definition pending_context :: strategy_context where
  "pending_context = helm_context
     \<lparr>cx_positions := [(position_key_new ''helm-a'' helm_strategy_name ''up'',
        \<lparr>p_shares = 10, p_avg_entry = 60/100, p_opened_at = 0, p_close_time = None, p_market_name = ''M'',
         p_pair_token_id = ''down'', p_fill_confirmed_at = None, p_paired_leg_token_id = None, p_entry_fee = 0\<rparr>)]\<rparr>"

lemma working_reliable: "reliable sample_working"
proof -
  have "helm_reaches sample_acknowledged sample_working"
    unfolding helm_reaches_def sample_working_def by (intro r_into_rtranclp helm_step.intros)
  then show ?thesis using growing.run_keeps acknowledged_reliable by (fastforce simp: reliable_def)
qed

lemma working_row:
  "\<exists>r. find_intent 1 sample_working = Some r \<and> hi_id r = 1 \<and> hi_status r = Working \<and> hi_token_id r = Some ''up''
     \<and> hi_entry_shares r = Some 10 \<and> hi_working_at r = Some 0"
proof -
  have "map_option (\<lambda>r. (hi_id r, hi_status r, hi_token_id r, hi_entry_shares r, hi_working_at r)) (find_intent 1 sample_working)
      = Some (1, Working, Some ''up'', Some 10, Some 0)" by code_simp
  then show ?thesis by auto
qed

lemma working_world_simps [simp]: "hw_db working_world = sample_working" "hw_has_pool working_world"
  by (simp_all add: working_world_def)

lemma late_age: "hi_working_at r = Some 0 \<Longrightarrow> working_for_secs r (ve_utc late_env) = Some 130"
  using num_seconds_of_secs [of 130] by (simp add: working_for_secs_def late_env_def)


lemma late_fill_has_no_posture_witness:
  "\<exists>r. fst (reconcile_one late_env pending_context r (Follow_nothing, working_world)) = Follow_pull ''up''
     \<and> fst (helm_evaluate_exit sample_env helm_held_context
          (snd (reconcile_one late_env pending_context r (Follow_nothing, working_world)))) = NoSignal"
proof -
  obtain r where r: "find_intent 1 sample_working = Some r" "hi_id r = 1" "hi_status r = Working"
    "hi_token_id r = Some ''up''" "hi_working_at r = Some 0" using working_row by blast
  have pull: "outcome_of late_env pending_context r ''up'' = Rc_pull"
    using r(3) late_age [OF r(5)]
    by (simp add: outcome_of_def reconcile_intent_def position_view_def pending_context_def helm_context_def window_over_def
        position_key_new_def fill_effective_at_def sample_config_def)
  have "list_all (\<lambda>x. hi_token_id x = Some ''up'' \<longrightarrow> hi_id x = 1) (db_intents sample_working)" by code_simp
  then have only: "\<forall>x \<in> set (db_intents (hw_db working_world)). hi_token_id x = Some ''up'' \<longrightarrow> hi_id x = hi_id r"
    using r(2) by (simp add: list_all_iff)
  have held: "\<forall>(k, p) \<in> set (helm_held helm_held_context). k_market k = ''up''"
    by (simp add: helm_held_def helm_held_context_def helm_context_def position_key_new_def)
  show ?thesis
    using late_fill_has_no_posture [OF _ _ _ r(4) pull only] r(1,2) held working_reliable by auto
qed

lemma half_marked_intent_wedges_witness:
  "\<exists>r'. hi_status r' = Working \<and> hi_token_id r' = None
     \<and> find_intent 1 (snd (mark_working (\<lambda>_ _. []) 1 ''up'' (60/100) 10
          (snd (transition 1 Acknowledged None (sample_opened (\<lambda>n. n \<noteq> 10)))))) = Some r'"
proof -
  let ?db = "snd (transition 1 Acknowledged None (sample_opened (\<lambda>n. n \<noteq> 10)))"
  have ok: "db_calls ?db = 6" "db_ok ?db 6" "db_ok ?db 7" "db_ok ?db 8" "db_ok ?db 9" "\<not> db_ok ?db 10"
    by code_simp+
  have "map_option (\<lambda>r. (hi_status r, hi_token_id r)) (find_intent 1 ?db) = Some (Acknowledged, None)" by code_simp
  then obtain r where r: "find_intent 1 ?db = Some r" "hi_status r = Acknowledged" "hi_token_id r = None" by auto
  show ?thesis
    using half_marked_intent_wedges [OF r] ok by fastforce
qed

end
