(* ===== verification/Helm_Api.thy ===== *)
theory Helm_Api
  imports Helm_Safety
begin

text \<open>
  The operator's requests on intents, \<open>src/api/helm.rs\<close>: which squadron may be given one, the book the
  venue shows for a side, and the handlers that create, read, acknowledge, revise, cancel, supersede and
  score an intent, with the status code of every refusal.  The registry of squadrons, the deployments and
  the venue's answers are arguments.  The critique a handler asks for runs as a task of its own.
\<close>

section \<open>What a handler sees\<close>

record squadron_summary =
  sq_state :: string
  sq_market_class :: string
  sq_asset :: string
  sq_market_name :: string

record market_facts =
  mf_market_id :: string
  mf_yes_token :: string
  mf_no_token :: string
  mf_close_time :: "utc option"

record api_state =
  as_squadron :: "string \<Rightarrow> squadron_summary option"
  as_stored_class :: "string \<Rightarrow> string option"
  as_market_of :: "string \<Rightarrow> string option"
  as_has_pool :: bool
  as_session :: bool
  as_market_facts :: "string \<Rightarrow> string + market_facts option"
  as_quote :: "string \<Rightarrow> string + decimal option \<times> decimal option"
  as_config :: helm_settings
  as_ghost :: "string \<Rightarrow> bool"
  as_venue :: string
  as_build :: helm_build
  as_rnd :: "decimal \<Rightarrow> decimal"
  as_fee_rate :: decimal
  as_show_int :: "int \<Rightarrow> string"

datatype refusal_list = Shape_errors "shape_error list" | Book_errors "book_error list" | Fee_error verdict_text

record intent_detail =
  id_intent :: helm_intent
  id_current :: intent_content
  id_revisions :: "intent_revision list"
  id_events :: "intent_event list"
  id_critique_pending :: "int option"

datatype api_response =
    Api_error nat
  | Api_refused refusal_list
  | Api_retry_after int
  | Api_created helm_intent
  | Api_detail intent_detail

definition same_word :: "string \<Rightarrow> string \<Rightarrow> bool" where
  "same_word a b \<longleftrightarrow> to_ascii_uppercase a = to_ascii_uppercase b"

text \<open>A live squadron of the Helm class, or the refusal.\<close>

definition helm_squadron :: "api_state \<Rightarrow> string \<Rightarrow> api_response + squadron_summary" where
  "helm_squadron a squadron =
     (case as_squadron a squadron of
        None \<Rightarrow> Inl (Api_error 404)
      | Some sq \<Rightarrow>
          if sq_state sq = ''STOOD_DOWN'' then Inl (Api_error 409)
          else if same_word (sq_market_class sq) helm_kind \<or> same_word (sq_asset sq) helm_kind
            \<or> (case as_stored_class a squadron of None \<Rightarrow> False | Some c \<Rightarrow> same_word c helm_kind)
          then Inr sq
          else Inl (Api_error 400))"

text \<open>The market as it stands for one side; a book with neither bid nor ask is refused, one missing side
  reads as zero.\<close>

definition read_book :: "api_state \<Rightarrow> utc \<Rightarrow> string \<Rightarrow> string \<Rightarrow> api_response + book_facts" where
  "read_book a now market side =
     (if market = [] then Inl (Api_error 503)
      else if \<not> as_session a then Inl (Api_error 503)
      else (case as_market_facts a market of
              Inl _ \<Rightarrow> Inl (Api_error 503)
            | Inr None \<Rightarrow> Inl (Api_error 503)
            | Inr (Some f) \<Rightarrow>
                if mf_market_id f \<noteq> market then Inl (Api_error 500)
                else (let token = (if same_word (trim side) ''YES'' then mf_yes_token f else mf_no_token f);
                          (bid, ask) = (case as_quote a token of Inl _ \<Rightarrow> (None, None) | Inr q \<Rightarrow> q)
                      in if bid = None \<and> ask = None then Inl (Api_error 503)
                         else Inr \<lparr>bf_bid = (case bid of None \<Rightarrow> 0 | Some b \<Rightarrow> b),
                                   bf_ask = (case ask of None \<Rightarrow> 0 | Some x \<Rightarrow> x),
                                   bf_close_time = mf_close_time f, bf_now = now,
                                   bf_min_shares = hb_min_shares (as_build a),
                                   bf_min_secs_to_close = hl_min_secs_to_close (as_config a)\<rparr>)))"

text \<open>The verdict, and the refusal it becomes when fees are enforced; \<open>None\<close> is the panic of a zero price.\<close>

definition fee_gate ::
  "api_state \<Rightarrow> intent_content \<Rightarrow> book_facts \<Rightarrow> (fee_verdict \<times> api_response option) option" where
  "fee_gate a c b =
     map_option (\<lambda>v. (v, case fv_refusal v of
         None \<Rightarrow> None
       | Some why \<Rightarrow> if hl_fee_verdict_enforce (as_config a) then Some (Api_refused (Fee_error why)) else None))
       (fee_verdict_on (as_rnd a) (as_fee_rate a) c b (hb_take_profit_leg (as_build a))
          (hl_fee_max_ratio (as_config a)) (hl_fee_max_notional_pct (as_config a)))"

text \<open>Book and fee checks of one content, in the order of the code.\<close>

definition judge ::
  "api_state \<Rightarrow> utc \<Rightarrow> string \<Rightarrow> string \<Rightarrow> intent_content \<Rightarrow> (api_response + fee_verdict) option" where
  "judge a now market side c =
     (case read_book a now market side of
        Inl r \<Rightarrow> Some (Inl r)
      | Inr b \<Rightarrow>
          (let errs = validate_against_book (as_rnd a) c b in
           if errs \<noteq> [] then Some (Inl (Api_refused (Book_errors errs)))
           else map_option (\<lambda>(v, block). case block of Some r \<Rightarrow> Inl r | None \<Rightarrow> Inr v) (fee_gate a c b)))"

type_synonym handler = "helm_db \<Rightarrow> api_response option \<times> helm_db"

definition respond :: "api_response \<Rightarrow> handler" where
  "respond r db = (Some r, db)"

definition panic :: handler where
  "panic db = (None, db)"

section \<open>Create\<close>

definition created_response :: "nat \<Rightarrow> handler" where
  "created_response i db =
     (case get i db of
        (Inr (Some r), db) \<Rightarrow> (Some (Api_created r), db)
      | (_, db) \<Rightarrow> (Some (Api_error 500), db))"

definition create_intent :: "api_state \<Rightarrow> string \<Rightarrow> string \<Rightarrow> intent_content \<Rightarrow> handler" where
  "create_intent a squadron side c db =
     (case helm_squadron a squadron of
        Inl r \<Rightarrow> respond r db
      | Inr sq \<Rightarrow>
          (let errs = shape_check side c in
           if errs \<noteq> [] then respond (Api_refused (Shape_errors errs)) db
           else if \<not> as_has_pool a then respond (Api_error 503) db
           else (let (open, db) = open_intents_total db in
                 if hl_max_open_intents (as_config a) \<le> open then respond (Api_error 409) db
                 else (let market = (case as_market_of a squadron of None \<Rightarrow> [] | Some m \<Rightarrow> m) in
                       case judge a (db_now db) market side c of
                         None \<Rightarrow> panic db
                       | Some (Inl r) \<Rightarrow> respond r db
                       | Some (Inr v) \<Rightarrow>
                           (case create \<lparr>ni_squadron_id = squadron, ni_market_id = market,
                                   ni_market_name = sq_market_name sq, ni_side = side, ni_content = c,
                                   ni_ghost = as_ghost a squadron, ni_venue = as_venue a\<rparr> db of
                              (Inl _, db) \<Rightarrow> respond (Api_error 400) db
                            | (Inr i, db) \<Rightarrow> created_response i (snd (set_fee_verdict i (fv_text v) db)))))))"

section \<open>Read\<close>

definition detail :: "helm_intent \<Rightarrow> helm_db \<Rightarrow> intent_detail \<times> helm_db" where
  "detail r db =
     (let (c, db) = current_content r db;
          (vs, db) = revisions (hi_id r) db;
          (es, db) = events (hi_id r) db
      in (\<lparr>id_intent = r, id_current = c, id_revisions = vs, id_events = es,
           id_critique_pending = critique_pending_for r (db_now db)\<rparr>, db))"

definition detail_response :: "helm_intent \<Rightarrow> handler" where
  "detail_response r db = (let (d, db) = detail r db in (Some (Api_detail d), db))"

text \<open>An intent for a handler that needs one, with the refusals it shares with the others.\<close>

definition with_intent :: "api_state \<Rightarrow> nat \<Rightarrow> (helm_intent \<Rightarrow> handler) \<Rightarrow> handler" where
  "with_intent a i k db =
     (if \<not> as_has_pool a then respond (Api_error 503) db
      else (case get i db of
              (Inr (Some r), db) \<Rightarrow> k r db
            | (Inr None, db) \<Rightarrow> respond (Api_error 404) db
            | (Inl _, db) \<Rightarrow> respond (Api_error 500) db))"

definition get_intent :: "api_state \<Rightarrow> nat \<Rightarrow> handler" where
  "get_intent a i = with_intent a i detail_response"

definition list_intents ::
  "api_state \<Rightarrow> string option \<Rightarrow> bool \<Rightarrow> int \<Rightarrow> helm_db \<Rightarrow> (api_response + helm_intent list) \<times> helm_db" where
  "list_intents a squadron include_terminal limit db =
     (if \<not> as_has_pool a then (Inl (Api_error 503), db)
      else (case squadron of
              Some sq \<Rightarrow> map_prod Inr id (list_for_squadron sq include_terminal db)
            | None \<Rightarrow>
                (let (all, db) = list_all_intents (nat (max 1 (min limit 1000))) db
                 in (Inr (if include_terminal then all else filter (\<lambda>r. \<not> is_terminal (hi_status r)) all), db))))"

record helm_summary =
  su_total :: nat
  su_open :: nat
  su_resolved :: nat
  su_calibration_min_resolved :: nat
  su_calibration_visible :: bool

definition summary :: "api_state \<Rightarrow> helm_db \<Rightarrow> (api_response + helm_summary) \<times> helm_db" where
  "summary a db =
     (if \<not> as_has_pool a then (Inl (Api_error 503), db)
      else (let (all, db) = list_all_intents 100000 db; (resolved, db) = resolved_count db;
                least = hl_calibration_min_resolved (as_config a)
            in (Inr \<lparr>su_total = length all, su_open = length (filter (\<lambda>r. \<not> is_terminal (hi_status r)) all),
                  su_resolved = resolved, su_calibration_min_resolved = least,
                  su_calibration_visible = calibration_visible (int resolved) least\<rparr>, db)))"

section \<open>Moves\<close>

definition error_status :: "nat \<Rightarrow> helm_error \<Rightarrow> nat" where
  "error_status otherwise e = (case e of Not_found _ \<Rightarrow> 404 | _ \<Rightarrow> otherwise)"

definition transition_response :: "nat \<Rightarrow> intent_status \<Rightarrow> string \<Rightarrow> handler" where
  "transition_response i to why db =
     (case transition i to (Some why) db of
        (Inr r, db) \<Rightarrow> detail_response r db
      | (Inl e, db) \<Rightarrow> respond (Api_error (error_status 409 e)) db)"

text \<open>The critique has answered, or its absence is put on record; a critique still inside its timeout holds the
  operator back.\<close>

definition settle_critique :: "api_state \<Rightarrow> helm_intent \<Rightarrow> helm_db \<Rightarrow> api_response option \<times> helm_db" where
  "settle_critique a r db =
     (let timeout = int (hl_critique_timeout_secs (as_config a)) in
      case critique_pending_for r (db_now db) of
        Some secs \<Rightarrow>
          if secs < timeout then (Some (Api_retry_after (max 1 (timeout - secs))), db)
          else (None, snd (set_critique (hi_id r)
                 (''unavailable: no answer within '' @ as_show_int a secs @ ''s (timeout '' @ as_show_int a timeout @ ''s)'')
                 ''unavailable'' db))
      | None \<Rightarrow>
          if hi_critique r = None
          then (None, snd (set_critique (hi_id r) ''unavailable: not requested'' ''unavailable'' db))
          else (None, db))"

text \<open>The posture against the book as it stands now, the fee verdict put on record, and the move.\<close>

definition acknowledge_judged :: "api_state \<Rightarrow> nat \<Rightarrow> intent_content \<Rightarrow> book_facts \<Rightarrow> handler" where
  "acknowledge_judged a i c b db =
     (let errs = validate_against_book (as_rnd a) c b in
      if errs \<noteq> [] then respond (Api_refused (Book_errors errs)) db
      else (case fee_gate a c b of
              None \<Rightarrow> panic db
            | Some (v, block) \<Rightarrow>
                (let db = snd (set_fee_verdict i (fv_text v) db) in
                 case block of
                   Some resp \<Rightarrow> respond resp db
                 | None \<Rightarrow> transition_response i Acknowledged ''acknowledged by operator; critique read'' db)))"

definition acknowledge_read :: "api_state \<Rightarrow> nat \<Rightarrow> helm_intent \<Rightarrow> handler" where
  "acknowledge_read a i r db =
     (let (c, db) = current_content r db in
      case read_book a (db_now db) (hi_market_id r) (hi_side r) of
        Inl resp \<Rightarrow> respond resp db
      | Inr b \<Rightarrow> acknowledge_judged a i c b db)"

definition acknowledge_intent :: "api_state \<Rightarrow> nat \<Rightarrow> bool \<Rightarrow> handler" where
  "acknowledge_intent a i read_critique =
     with_intent a i (\<lambda>r db.
       if hi_status r \<noteq> Proposed then respond (Api_error 409) db
       else (let (held, db) = settle_critique a r db in
             case held of
               Some resp \<Rightarrow> respond resp db
             | None \<Rightarrow> if \<not> read_critique then respond (Api_error 400) db else acknowledge_read a i r db))"

definition cancel_intent :: "api_state \<Rightarrow> nat \<Rightarrow> string option \<Rightarrow> handler" where
  "cancel_intent a i reason =
     with_intent a i (\<lambda>r db.
       if is_in_flight r then respond (Api_error 409) db
       else transition_response i Closed
         (case reason of
            None \<Rightarrow> ''cancelled by operator''
          | Some why \<Rightarrow> if trim why = [] then ''cancelled by operator'' else trim why) db)"

text \<open>The content and book a revision is judged on: an intent in flight as if taken at its entry's price.\<close>

definition judged_content :: "helm_intent \<Rightarrow> intent_content \<Rightarrow> intent_content" where
  "judged_content r c =
     (if is_in_flight r then c\<lparr>ic_entry_kind := Taker, ic_entry_limit_price := None\<rparr> else c)"

definition judged_book :: "helm_intent \<Rightarrow> book_facts \<Rightarrow> book_facts" where
  "judged_book r b =
     (if is_in_flight r
      then b\<lparr>bf_ask := (case hi_entry_price r of None \<Rightarrow> bf_ask b | Some p \<Rightarrow> p), bf_min_secs_to_close := 0\<rparr>
      else b)"

definition revise_written :: "nat \<Rightarrow> string \<Rightarrow> intent_content \<Rightarrow> handler" where
  "revise_written i reason c db =
     (case revise i c reason db of
        (Inl e, db) \<Rightarrow> respond (Api_error (error_status 400 e)) db
      | (Inr _, db) \<Rightarrow>
          (case get i db of
             (Inr (Some r), db) \<Rightarrow> detail_response r db
           | (_, db) \<Rightarrow> respond (Api_error 500) db))"

definition revise_judged :: "api_state \<Rightarrow> helm_intent \<Rightarrow> string \<Rightarrow> intent_content \<Rightarrow> book_facts \<Rightarrow> handler" where
  "revise_judged a r reason c b db =
     (let b = judged_book r b; judged = judged_content r c;
          errs = validate_against_book (as_rnd a) judged b in
      if errs \<noteq> [] then respond (Api_refused (Book_errors errs)) db
      else (case (if is_in_flight r then Some None else map_option snd (fee_gate a judged b)) of
              None \<Rightarrow> panic db
            | Some (Some resp) \<Rightarrow> respond resp db
            | Some None \<Rightarrow> revise_written (hi_id r) reason c db))"

definition revise_intent :: "api_state \<Rightarrow> nat \<Rightarrow> string \<Rightarrow> intent_content \<Rightarrow> handler" where
  "revise_intent a i reason c =
     with_intent a i (\<lambda>r db.
       let errs = shape_check (hi_side r) c in
       if errs \<noteq> [] then respond (Api_refused (Shape_errors errs)) db
       else (case read_book a (db_now db) (hi_market_id r) (hi_side r) of
               Inl resp \<Rightarrow> respond resp db
             | Inr b \<Rightarrow> revise_judged a r reason c b db))"

definition supersede_written :: "nat \<Rightarrow> new_intent \<Rightarrow> string \<Rightarrow> fee_verdict \<Rightarrow> handler" where
  "supersede_written i new reason v db =
     (case supersede i new reason db of
        (Inl _, db) \<Rightarrow> respond (Api_error 409) db
      | (Inr j, db) \<Rightarrow> created_response j (snd (set_fee_verdict j (fv_text v) db)))"

definition supersede_intent :: "api_state \<Rightarrow> nat \<Rightarrow> string \<Rightarrow> string option \<Rightarrow> intent_content \<Rightarrow> handler" where
  "supersede_intent a i reason new_side c =
     with_intent a i (\<lambda>old db.
       if is_in_flight old then respond (Api_error 409) db
       else (case helm_squadron a (hi_squadron_id old) of
               Inl resp \<Rightarrow> respond resp db
             | Inr _ \<Rightarrow>
                 (let side = (case new_side of None \<Rightarrow> hi_side old | Some s \<Rightarrow> s); errs = shape_check side c in
                  if errs \<noteq> [] then respond (Api_refused (Shape_errors errs)) db
                  else (case judge a (db_now db) (hi_market_id old) side c of
                          None \<Rightarrow> panic db
                        | Some (Inl resp) \<Rightarrow> respond resp db
                        | Some (Inr v) \<Rightarrow>
                            supersede_written i
                              \<lparr>ni_squadron_id = hi_squadron_id old, ni_market_id = hi_market_id old,
                               ni_market_name = hi_market_name old, ni_side = side, ni_content = c,
                               ni_ghost = as_ghost a (hi_squadron_id old), ni_venue = as_venue a\<rparr> reason v db))))"

definition critique_outcome :: "api_state \<Rightarrow> nat \<Rightarrow> string \<Rightarrow> handler" where
  "critique_outcome a i outcome db =
     (if \<not> as_has_pool a then respond (Api_error 503) db
      else (case set_critique_outcome i (trim outcome) db of
              (Inl e, db) \<Rightarrow> respond (Api_error (error_status 400 e)) db
            | (Inr _, db) \<Rightarrow>
                (case get i db of
                   (Inr (Some r), db) \<Rightarrow> detail_response r db
                 | (_, db) \<Rightarrow> respond (Api_error 404) db)))"

section \<open>Requests and ticks as runs\<close>

lemma reaches_refl [simp]: "helm_reaches db db"
  by (simp add: helm_reaches_def)

lemma reaches_trans: "helm_reaches a b \<Longrightarrow> helm_reaches b c \<Longrightarrow> helm_reaches a c"
  unfolding helm_reaches_def by (rule rtranclp_trans)

lemma reaches_step: "helm_step a b \<Longrightarrow> helm_reaches a b"
  unfolding helm_reaches_def by (rule r_into_rtranclp)

lemma reaches_tick [simp]: "helm_reaches db (tick db)"
  by (intro reaches_step helm_step.intros)

lemmas reaches_writes = helm_step.intros [THEN reaches_step]

lemma reaches_query_or [simp]: "helm_reaches db (snd (query_or x read db))"
  by (simp add: query_or_def)

lemma reaches_get [simp]: "helm_reaches db (snd (get i db))"
  by (simp add: get_def query_def)

lemma reaches_content [simp]: "helm_reaches db (snd (current_content r db))"
  by (simp add: current_content_def revisions_def split_beta Let_def)

lemma reaches_detail [simp]: "helm_reaches db (snd (detail_response r db))"
proof -
  let ?db1 = "snd (current_content r db)" and ?db2 = "snd (revisions (hi_id r) (snd (current_content r db)))"
  have "helm_reaches ?db1 ?db2" "helm_reaches ?db2 (snd (events (hi_id r) ?db2))"
    by (simp_all add: revisions_def events_def)
  then have "helm_reaches db (snd (events (hi_id r) ?db2))" using reaches_content reaches_trans by blast
  then show ?thesis by (simp add: detail_response_def detail_def split_beta Let_def)
qed

definition runs :: "handler \<Rightarrow> bool" where
  "runs h \<longleftrightarrow> (\<forall>db. helm_reaches db (snd (h db)))"

lemma runs_respond [simp]: "runs (respond r)" and runs_panic [simp]: "runs panic"
  and runs_detail [simp]: "runs (detail_response x)"
  by (simp_all add: runs_def respond_def panic_def)

lemma runs_created [simp]: "runs (created_response i)"
  by (simp add: runs_def created_response_def split: prod.split sum.split option.split)
    (metis reaches_get snd_conv)

lemma runs_after: "helm_reaches db db1 \<Longrightarrow> runs h \<Longrightarrow> helm_reaches db (snd (h db1))"
  unfolding runs_def using reaches_trans by blast

lemma runs_with_intent: "(\<And>r. runs (k r)) \<Longrightarrow> runs (with_intent a i k)"
proof -
  assume k: "\<And>r. runs (k r)"
  show "runs (with_intent a i k)"
    unfolding runs_def
  proof
    fix db
    obtain res db1 where g: "get i db = (res, db1)" by (cases "get i db")
    have "helm_reaches db db1" using reaches_get [of db i] g by simp
    then show "helm_reaches db (snd (with_intent a i k db))"
      using k runs_after by (simp add: with_intent_def g respond_def split: sum.split option.split)
  qed
qed

lemma runs_transition: "runs (transition_response i to why)"
  unfolding runs_def
proof
  fix db
  obtain res db1 where t: "transition i to (Some why) db = (res, db1)" by (cases "transition i to (Some why) db")
  have "helm_reaches db db1" using reaches_writes(2) [of db i to "Some why"] t by simp
  then show "helm_reaches db (snd (transition_response i to why db))"
    using runs_after runs_detail by (simp add: transition_response_def t respond_def split: sum.split)
qed

lemma fee_verdict_reaches [simp]: "helm_reaches db (snd (set_fee_verdict i v db))"
  and critique_reaches [simp]: "helm_reaches db (snd (set_critique i c m db))"
  by (rule reaches_writes)+

lemma runs_fee_then: "runs h \<Longrightarrow> helm_reaches db (snd (h (snd (set_fee_verdict i v db))))"
  using runs_after fee_verdict_reaches by blast

lemma runs_create: "runs (create_intent a squadron side c)"
  unfolding runs_def
proof
  fix db
  let ?market = "case as_market_of a squadron of None \<Rightarrow> [] | Some m \<Rightarrow> m"
  obtain n db1 where o: "open_intents_total db = (n, db1)" by fastforce
  have db1: "helm_reaches db db1" using reaches_query_or o unfolding open_intents_total_def by (metis snd_conv)
  have made: "helm_reaches db (snd (case create new db1 of (Inl _, db) \<Rightarrow> respond (Api_error 400) db
      | (Inr i, db) \<Rightarrow> created_response i (snd (set_fee_verdict i v db))))" for new v
  proof -
    obtain res db2 where m: "create new db1 = (res, db2)" by fastforce
    have "helm_reaches db1 db2" using reaches_writes(1) [of db1 new] m by simp
    with db1 have 2: "helm_reaches db db2" by (rule reaches_trans)
    show ?thesis
      using 2 reaches_trans [OF 2 runs_fee_then [OF runs_created]] by (simp add: m respond_def split: sum.split)
  qed
  show "helm_reaches db (snd (create_intent a squadron side c db))"
  proof (cases "judge a (db_now db1) ?market side c")
    case None
    with db1 show ?thesis
      by (simp add: create_intent_def o respond_def panic_def Let_def split: sum.split)
  next
    case (Some j)
    with db1 made show ?thesis
      by (cases j) (simp_all add: create_intent_def o respond_def Let_def split: sum.split)
  qed
qed

lemma runs_acknowledge_judged: "runs (acknowledge_judged a i c b)"
  unfolding runs_def
proof
  fix db
  have "helm_reaches db (snd (transition_response i Acknowledged why (snd (set_fee_verdict i v db))))" for why v
    by (rule runs_fee_then [OF runs_transition])
  then show "helm_reaches db (snd (acknowledge_judged a i c b db))"
    by (simp add: acknowledge_judged_def respond_def panic_def Let_def split: option.split prod.split)
qed

lemma runs_acknowledge_read: "runs (acknowledge_read a i r)"
  unfolding runs_def
proof
  fix db
  obtain c db1 where c: "current_content r db = (c, db1)" by fastforce
  have "helm_reaches db db1" using reaches_content [of db r] c by simp
  then show "helm_reaches db (snd (acknowledge_read a i r db))"
    using runs_after runs_acknowledge_judged by (simp add: acknowledge_read_def c respond_def split: sum.split)
qed

lemma runs_acknowledge: "runs (acknowledge_intent a i read_critique)"
  unfolding acknowledge_intent_def
proof (rule runs_with_intent)
  fix r
  show "runs (\<lambda>db. if hi_status r \<noteq> Proposed then respond (Api_error 409) db
       else (let (held, db) = settle_critique a r db in
             case held of
               Some resp \<Rightarrow> respond resp db
             | None \<Rightarrow> if \<not> read_critique then respond (Api_error 400) db else acknowledge_read a i r db))"
    unfolding runs_def
  proof
    fix db
    obtain held db1 where h: "settle_critique a r db = (held, db1)" by fastforce
    have "helm_reaches db (snd (settle_critique a r db))" by (simp add: settle_critique_def Let_def split: option.split)
    then have "helm_reaches db db1" using h by simp
    then show "helm_reaches db (snd (if hi_status r \<noteq> Proposed then respond (Api_error 409) db
       else (let (held, db) = settle_critique a r db in
             case held of
               Some resp \<Rightarrow> respond resp db
             | None \<Rightarrow> if \<not> read_critique then respond (Api_error 400) db else acknowledge_read a i r db)))"
      using runs_after runs_acknowledge_read by (simp add: h respond_def split: option.split)
  qed
qed

lemma runs_cancel: "runs (cancel_intent a i reason)"
  unfolding cancel_intent_def
proof (rule runs_with_intent)
  show "runs (\<lambda>db. if is_in_flight r then respond (Api_error 409) db
       else transition_response i Closed
         (case reason of None \<Rightarrow> ''cancelled by operator''
          | Some why \<Rightarrow> if trim why = [] then ''cancelled by operator'' else trim why) db)" for r
    using runs_transition by (simp add: runs_def respond_def)
qed

lemma runs_found_detail:
  "helm_reaches db (snd (case get i db of (Inr (Some r), db) \<Rightarrow> detail_response r db | (_, db) \<Rightarrow> respond (Api_error n) db))"
proof -
  obtain res db1 where g: "get i db = (res, db1)" by (cases "get i db")
  have "helm_reaches db db1" using reaches_get [of db i] g by simp
  then show ?thesis using runs_after runs_detail by (simp add: g respond_def split: sum.split option.split)
qed

lemma runs_revise: "runs (revise_intent a i reason c)"
proof -
  have w: "runs (revise_written j reason c)" for j
    unfolding runs_def
  proof
    fix db
    obtain res db1 where v: "revise j c reason db = (res, db1)" by (cases "revise j c reason db")
    have "helm_reaches db db1" using reaches_writes(3) [of db j c reason] v by simp
    then show "helm_reaches db (snd (revise_written j reason c db))"
      using reaches_trans runs_found_detail by (auto simp: revise_written_def v respond_def split: sum.split)
  qed
  have j: "runs (revise_judged a r reason c b)" for r b
    using w by (simp add: runs_def revise_judged_def respond_def panic_def Let_def split: option.split)
  show ?thesis
    unfolding revise_intent_def
    by (rule runs_with_intent) (use j in \<open>simp add: runs_def respond_def Let_def split: sum.split\<close>)
qed

lemma runs_supersede: "runs (supersede_intent a i reason new_side c)"
proof -
  have w: "runs (supersede_written i new reason v)" for new v
    unfolding runs_def
  proof
    fix db
    obtain res db1 where m: "supersede i new reason db = (res, db1)" by (cases "supersede i new reason db")
    have "helm_reaches db db1" using reaches_writes(4) [of db i new reason] m by simp
    then show "helm_reaches db (snd (supersede_written i new reason v db))"
      using reaches_trans [OF _ runs_fee_then [OF runs_created]]
      by (simp add: supersede_written_def m respond_def split: sum.split)
  qed
  have "runs (\<lambda>db. case judge a (db_now db) market side c of
      None \<Rightarrow> panic db | Some (Inl resp) \<Rightarrow> respond resp db | Some (Inr v) \<Rightarrow> supersede_written i new reason v db)"
    for market side new
    using w by (simp add: runs_def respond_def panic_def split: option.split sum.split)
  then show ?thesis
    unfolding supersede_intent_def
    by (intro runs_with_intent) (simp add: runs_def respond_def Let_def split: sum.split)
qed

lemma runs_outcome: "runs (critique_outcome a i outcome)"
  unfolding runs_def
proof
  fix db
  obtain res db1 where m: "set_critique_outcome i (trim outcome) db = (res, db1)" by fastforce
  have "helm_reaches db db1" using reaches_writes(10) [of db i "trim outcome"] m by simp
  then show "helm_reaches db (snd (critique_outcome a i outcome db))"
    using reaches_trans runs_found_detail by (auto simp: critique_outcome_def m respond_def split: sum.split)
qed

lemma load_contents_reaches: "helm_reaches db (snd (load_contents rs db))"
proof (induction rs arbitrary: db)
  case (Cons r rs)
  have "helm_reaches db (snd (current_content r db))" by simp
  from reaches_trans [OF this Cons.IH] show ?case by (simp add: split_beta Let_def)
qed simp

lemma snapshot_reaches: "helm_reaches (hw_db w) (hw_db (snd (take_snapshot env ctx w)))"
proof -
  let ?db1 = "snd (squadron_tally (cx_squadron_id ctx) (hw_db w))"
  let ?db2 = "snd (list_for_squadron (cx_squadron_id ctx) False ?db1)"
  have "helm_reaches (hw_db w) ?db1" "helm_reaches ?db1 ?db2"
    by (simp_all add: squadron_tally_def list_for_squadron_def)
  then have "helm_reaches (hw_db w) ?db2" by (rule reaches_trans)
  then have "helm_reaches (hw_db w) (snd (read_snapshot (cx_squadron_id ctx) (hw_db w)))"
    using reaches_trans load_contents_reaches by (auto simp: read_snapshot_def split_beta Let_def)
  then show ?thesis by (auto simp: take_snapshot_def split_beta Let_def split: option.split)
qed

lemma try_move_reaches: "helm_reaches (hw_db w) (hw_db (try_move i to why w))"
  using reaches_writes(2) [of "hw_db w" i to "Some why"] by (simp add: try_move_def)

lemma label_reaches: "helm_reaches (hw_db w) (hw_db (label_position token i w))"
  using reaches_writes(12) [of "hw_db w" token helm_strategy_name i]
  by (simp add: label_position_def split_beta Let_def)

lemma trades_reaches: "helm_reaches db (snd (label_trades market side i db))"
  by (rule reaches_writes)

lemma settle_reaches:
  "helm_reaches (hw_db w) (hw_db (settle_fill env ctx r token to w))"
  "helm_reaches (hw_db w) (hw_db (settle_miss env ctx r why closing w))"
  "helm_reaches (hw_db w) (hw_db (settle_gone env r token w))"
proof -
  show "helm_reaches (hw_db w) (hw_db (settle_fill env ctx r token to w))"
    using reaches_trans [OF try_move_reaches label_reaches] by (simp add: settle_fill_def split_beta Let_def)
  show "helm_reaches (hw_db w) (hw_db (settle_miss env ctx r why closing w))"
    using reaches_trans [OF try_move_reaches try_move_reaches] by (simp add: settle_miss_def)
  let ?w = "w\<lparr>hw_exit_reasons := hm_remove token (hw_exit_reasons w)\<rparr>"
  show "helm_reaches (hw_db w) (hw_db (settle_gone env r token w))"
    using reaches_trans [OF try_move_reaches [of ?w] trades_reaches] by (simp add: settle_gone_def Let_def)
qed

lemma reconcile_one_reaches: "helm_reaches (hw_db (snd st)) (hw_db (snd (reconcile_one env ctx r st)))"
  by (cases st)
    (auto simp: reconcile_one_def Let_def settle_reaches split: option.split reconcile_outcome.split)

lemma reconcile_reaches: "helm_reaches (hw_db w) (hw_db (snd (reconcile_in_flight env ctx s w)))"
proof -
  have "helm_reaches (hw_db (snd st)) (hw_db (snd (fold (reconcile_one env ctx) rs st)))" for rs st
  proof (induction rs arbitrary: st)
    case (Cons r rs)
    from reaches_trans [OF reconcile_one_reaches Cons.IH] show ?case by simp
  qed simp
  from this [of "(Follow_nothing, w)"] show ?thesis by (simp add: reconcile_in_flight_def)
qed

lemma new_entry_reaches: "helm_reaches (hw_db w) (hw_db (snd (new_entry env bd ctx s w)))"
proof (cases "next_to_enter s")
  case (Some rc)
  obtain r c where rc: "rc = (r, c)" by (cases rc)
  obtain plan w1 where p: "plan_entry env bd ctx c (hi_side r) w = (plan, w1)" by fastforce
  have w1: "hw_db w1 = hw_db w" using plan_entry_cases [OF p] by blast
  have m: "helm_reaches (hw_db w) (snd (mark_working sh i token price shares (hw_db w)))" for sh i token price shares
    by (rule reaches_writes)
  show ?thesis
    using m by (simp add: new_entry_def Some rc p w1 stand_down_def split_beta Let_def split: option.split sum.split)
qed (simp add: new_entry_def stand_down_def)

lemma retry_entry_db: "hw_db (snd (retry_entry env bd ctx s i w)) = hw_db w"
proof -
  have "hw_db (snd (plan_entry env bd ctx c side w)) = hw_db w" for c side
    by (simp add: plan_entry_def split_beta Let_def)
  then show ?thesis
    by (simp add: retry_entry_def stand_down_def split_beta Let_def split: option.split sum.split)
qed

lemma entry_tick_reaches: "helm_reaches (hw_db w) (hw_db (snd (helm_evaluate_entry env bd ctx w)))"
proof -
  obtain s w1 where s: "take_snapshot env ctx w = (s, w1)" by fastforce
  obtain fw w2 where f: "reconcile_in_flight env ctx s w1 = (fw, w2)" by fastforce
  have 1: "helm_reaches (hw_db w) (hw_db w1)" using snapshot_reaches [of w env ctx] s by simp
  have 2: "helm_reaches (hw_db w) (hw_db w2)"
    using reaches_trans [OF 1] reconcile_reaches [of w1 env ctx s] f by simp
  show ?thesis
    using 1 2 reaches_trans [OF 2 new_entry_reaches]
    by (simp add: helm_evaluate_entry_def s f stand_down_def retry_entry_db Let_def split: follow.split)
qed

lemma exit_loop_db: "hw_db (snd (helm_exit_loop env ctx s ps resting w)) = hw_db w"
proof (induction ps arbitrary: resting w)
  case (Cons kp ps)
  have noted: "hw_db (note_position_without_venue env n t w) = hw_db w" for n t
    by (simp add: note_position_without_venue_def Let_def)
  show ?case
    by (cases kp) (simp add: Cons noted Let_def split: option.split posture_action_result.split)
qed simp

lemma exit_tick_reaches: "helm_reaches (hw_db w) (hw_db (snd (helm_evaluate_exit env ctx w)))"
  using snapshot_reaches [of w env ctx] by (simp add: helm_evaluate_exit_def split_beta Let_def exit_loop_db)

end
