(* ===== verification/Helm_Engine.thy ===== *)
theory Helm_Engine
  imports Helm_Api
begin

text \<open>
  The operator's requests and the strategy's ticks on one record: every interleaving of the handlers of
  \<open>Helm_Api\<close> with the evaluations of \<open>Helm_Viper\<close>, and what a single request may and may not do.
\<close>

section \<open>Operator and engine together\<close>

text \<open>One request of the operator, one evaluation or fill of the strategy, the closing of a retired squadron's
  intents, or a change the patrol makes to the clock, the positions and the trades; in any order.\<close>

inductive engine_step :: "helm_world \<Rightarrow> helm_world \<Rightarrow> bool" where
  "engine_step w (snd (helm_evaluate_entry env bd ctx w))"
| "engine_step w (snd (helm_evaluate_exit env ctx w))"
| "engine_step w (helm_on_exit_filled env fill w)"
| "engine_step w (w\<lparr>hw_db := snd (create_intent a squadron side c (hw_db w))\<rparr>)"
| "engine_step w (w\<lparr>hw_db := snd (acknowledge_intent a i read_critique (hw_db w))\<rparr>)"
| "engine_step w (w\<lparr>hw_db := snd (cancel_intent a i why (hw_db w))\<rparr>)"
| "engine_step w (w\<lparr>hw_db := snd (revise_intent a i reason c (hw_db w))\<rparr>)"
| "engine_step w (w\<lparr>hw_db := snd (supersede_intent a i reason new_side c (hw_db w))\<rparr>)"
| "engine_step w (w\<lparr>hw_db := snd (critique_outcome a i outcome (hw_db w))\<rparr>)"
| "engine_step w (w\<lparr>hw_db := snd (set_critique_requested i (hw_db w))\<rparr>)"
| "engine_step w (w\<lparr>hw_db := snd (set_critique i critique model (hw_db w))\<rparr>)"
| "engine_step w (w\<lparr>hw_db := snd (close_open_for_squadron squadron reason (hw_db w))\<rparr>)"
| "engine_step w (w\<lparr>hw_db := (hw_db w)\<lparr>db_now := t\<rparr>\<rparr>)"
| "engine_step w (w\<lparr>hw_db := (hw_db w)\<lparr>db_positions := ps\<rparr>\<rparr>)"
| "engine_step w (w\<lparr>hw_db := (hw_db w)\<lparr>db_trades := ts\<rparr>\<rparr>)"

definition engine_reaches :: "helm_world \<Rightarrow> helm_world \<Rightarrow> bool" where
  "engine_reaches = engine_step\<^sup>*\<^sup>*"

lemma runsD: "runs h \<Longrightarrow> helm_reaches db (snd (h db))"
  by (simp add: runs_def)

lemmas handler_runs = runs_create runs_acknowledge runs_cancel runs_revise runs_supersede runs_outcome

lemma engine_step_reaches: "engine_step w w' \<Longrightarrow> helm_reaches (hw_db w) (hw_db w')"
  by (cases rule: engine_step.cases)
    (auto simp: entry_tick_reaches exit_tick_reaches helm_on_exit_filled_def
      intro: handler_runs [THEN runsD] reaches_writes)

lemma engine_run_reaches:
  assumes "engine_reaches w w'"
  shows "helm_reaches (hw_db w) (hw_db w')"
  using assms unfolding engine_reaches_def
proof (induction rule: rtranclp_induct)
  case (step w1 w2)
  then show ?case using reaches_trans engine_step_reaches by blast
qed simp


section \<open>What a request may do\<close>

lemma get_cases:
  obtains (failed) "get i db = (Inl Statement_failed, tick db)"
  | (missing) "get i db = (Inr None, tick db)" "find_intent i db = None"
  | (found) r where "get i db = (Inr (Some r), tick db)" "find_intent i db = Some r"
  by (cases "succeeds db"; cases "find_intent i db") (auto simp: get_def query_def)


lemma transition_response_detail:
  assumes "transition_response i to why db = (Some (Api_detail d), db')"
  shows "\<exists>r r' db1. find_intent i db = Some r \<and> can_transition_to (hi_status r) to \<and> id_intent d = r'
      \<and> hi_status r' = to \<and> find_intent i db' = Some r'"
proof -
  obtain res db1 where t: "transition i to (Some why) db = (res, db1)" by (cases "transition i to (Some why) db")
  show ?thesis
  proof (cases res)
    case (Inl e)
    with assms t show ?thesis by (simp add: transition_response_def respond_def)
  next
    case (Inr r')
    then obtain r where r: "find_intent i db = Some r" "can_transition_to (hi_status r) to"
      "find_intent i db1 = Some r'" "r' = moved (db_now db) to (Some why) r"
      using t by (auto elim: transition_Inr)
    have "id_intent d = r'" "db_intents db' = db_intents db1"
      using assms t Inr
      by (auto simp: transition_response_def detail_response_def detail_def revisions_def events_def query_or_def
          split_beta Let_def)
    with r find_intent_cong [of db' db1 i] show ?thesis by auto
  qed
qed

lemma acknowledge_judged_detail:
  assumes "acknowledge_judged a i c b db = (Some (Api_detail d), db')"
  shows "validate_against_book (as_rnd a) c b = []
    \<and> (\<exists>v. fee_verdict_on (as_rnd a) (as_fee_rate a) c b (hb_take_profit_leg (as_build a))
          (hl_fee_max_ratio (as_config a)) (hl_fee_max_notional_pct (as_config a)) = Some v
        \<and> (hl_fee_verdict_enforce (as_config a) \<longrightarrow> fv_refusal v = None)
        \<and> transition_response i Acknowledged ''acknowledged by operator; critique read''
             (snd (set_fee_verdict i (fv_text v) db)) = (Some (Api_detail d), db'))"
  using assms
  by (auto simp: acknowledge_judged_def fee_gate_def respond_def panic_def Let_def split: if_splits option.splits)

lemma current_content_now [simp]: "db_now (snd (current_content r db)) = db_now db"
  by (simp add: current_content_def revisions_def query_or_def split_beta Let_def)

lemma acknowledge_read_detail:
  assumes "acknowledge_read a i r db = (Some (Api_detail d), db')"
    and errors: "\<And>x resp. read_book a x (hi_market_id r) (hi_side r) = Inl resp \<Longrightarrow> resp \<noteq> Api_detail d"
  shows "\<exists>b. read_book a (db_now db) (hi_market_id r) (hi_side r) = Inr b
    \<and> acknowledge_judged a i (fst (current_content r db)) b (snd (current_content r db)) = (Some (Api_detail d), db')"
  using assms by (auto simp: acknowledge_read_def respond_def split_beta Let_def split: sum.splits)

lemma read_book_refusal: "read_book a now market side = Inl resp \<Longrightarrow> \<exists>n. resp = Api_error n"
  by (auto simp: read_book_def Let_def split_beta split: if_splits sum.splits option.splits)

lemma settle_critique_free:
  assumes "settle_critique a r db = (None, db')"
  shows "db_now db' = db_now db
    \<and> (\<forall>secs. critique_pending_for r (db_now db) = Some secs \<longrightarrow> int (hl_critique_timeout_secs (as_config a)) \<le> secs)"
proof -
  have "db_now (snd (set_critique j x m db0)) = db_now db0" for j x m db0
    by (simp add: set_critique_def annotate_def exec_def update_intent_def)
  with assms show ?thesis
    by (auto simp: settle_critique_def Let_def split: option.splits if_splits)
qed

lemma acknowledge_intent_detail:
  assumes "acknowledge_intent a i read_critique db = (Some (Api_detail d), db')"
  shows "\<exists>r db2. find_intent i db = Some r \<and> hi_status r = Proposed \<and> read_critique
    \<and> settle_critique a r (tick db) = (None, db2) \<and> acknowledge_read a i r db2 = (Some (Api_detail d), db')"
proof (cases rule: get_cases [of i db])
  case (found r)
  obtain held db2 where h: "settle_critique a r (tick db) = (held, db2)" by fastforce
  then have "held \<noteq> Some (Api_detail d)"
    by (auto simp: settle_critique_def Let_def split: option.splits if_splits)
  with assms found h show ?thesis
    by (auto simp: acknowledge_intent_def with_intent_def respond_def split: if_splits option.splits)
qed (use assms in \<open>auto simp: acknowledge_intent_def with_intent_def respond_def split: if_splits\<close>)


lemma judge_Inr:
  assumes "judge a now market side c = Some (Inr v)"
  shows "\<exists>b. read_book a now market side = Inr b \<and> validate_against_book (as_rnd a) c b = []
    \<and> fee_verdict_on (as_rnd a) (as_fee_rate a) c b (hb_take_profit_leg (as_build a))
        (hl_fee_max_ratio (as_config a)) (hl_fee_max_notional_pct (as_config a)) = Some v
    \<and> (hl_fee_verdict_enforce (as_config a) \<longrightarrow> fv_refusal v = None)"
  using assms by (auto simp: judge_def fee_gate_def Let_def split: sum.splits if_splits option.splits)

lemma helm_squadron_refusal: "helm_squadron a squadron = Inl resp \<Longrightarrow> \<exists>n. resp = Api_error n"
  by (auto simp: helm_squadron_def split: option.splits if_splits)

lemma judge_refusal: "judge a now market side c = Some (Inl resp) \<Longrightarrow> resp \<noteq> Api_created r"
  by (auto simp: judge_def fee_gate_def Let_def dest: read_book_refusal split: sum.splits if_splits option.splits)

lemma create_Inr:
  assumes "create new db = (Inr i, db')"
  shows "i = Suc (db_last_rowid db) \<and> well_shaped (ni_side new) (ni_content new)
    \<and> db_intents db' = db_intents db @ [new_row new db]"
proof -
  have shaped: "well_shaped (ni_side new) (ni_content new)"
    and run: "and_then (exec (insert_intent new)) (\<lambda>_. and_then (record_event (Suc (db_last_rowid db)) None Proposed None)
        (\<lambda>_. ret (Suc (db_last_rowid db)))) db = (Inr i, db')"
    using assms by (auto simp: create_def Let_def split: if_splits)
  obtain x db1 where 1: "exec (insert_intent new) db = (Inr x, db1)"
    and k: "and_then (record_event (Suc (db_last_rowid db)) None Proposed None)
        (\<lambda>_. ret (Suc (db_last_rowid db))) db1 = (Inr i, db')"
    using run by (rule and_then_Inr)
  obtain y db2 where 2: "record_event (Suc (db_last_rowid db)) None Proposed None db1 = (Inr y, db2)"
    and r: "ret (Suc (db_last_rowid db)) db2 = (Inr i, db')"
    using k by (rule and_then_Inr)
  have "new_row new (tick db) = new_row new db" by (simp add: new_row_def tick_def)
  with exec_Inr [OF 1] exec_Inr [OF 2 [unfolded record_event_def]] r shaped show ?thesis
    by (auto simp: ret_def) (simp add: insert_intent_def)
qed

lemma fresh_id:
  assumes "helm_reaches (empty_db ok now session) db"
  shows "ids_ok db"
proof -
  have "keeps_rows shaped (empty_db ok now session) db" using shaped.kept.run_keeps [OF assms] by simp
  with every_row_empty [of shaped ok now session] show ?thesis by (simp add: keeps_rows_def every_row_def)
qed

lemma fresh_unknown: "ids_ok db \<Longrightarrow> db_last_rowid db < i \<Longrightarrow> find_intent i db = None"
  by (auto simp: ids_ok_def find_intent_def find_None_iff)

lemma find_created:
  assumes "ids_ok db" and "db_intents db' = db_intents db @ [new_row new db]"
  shows "find_intent (Suc (db_last_rowid db)) db' = Some (new_row new db)"
proof -
  have "find_intent (Suc (db_last_rowid db)) db = None" using assms(1) by (rule fresh_unknown) simp
  then show ?thesis
    using assms(2) by (auto simp: find_intent_def find_append new_row_def split: option.splits)
qed

lemma created_response_created:
  "created_response i db = (Some (Api_created r), db') \<Longrightarrow> find_intent i db = Some r \<and> db' = tick db"
  by (cases rule: get_cases [of i db]) (auto simp: created_response_def)

lemma find_fee_verdict:
  "find_intent j db = Some r \<Longrightarrow> \<exists>r'. find_intent j (snd (set_fee_verdict i t db)) = Some r'
     \<and> hi_status r' = hi_status r \<and> hi_first r' = hi_first r \<and> hi_squadron_id r' = hi_squadron_id r
     \<and> hi_market_id r' = hi_market_id r \<and> hi_id r' = hi_id r"
  by (auto simp: set_fee_verdict_def annotate_def exec_def find_intent_update)

text \<open>What a request opens is within the limits.  When a request to create answers with an intent, it is a new
  one, proposed, with the content given; the content passed the shape check, was consistent with the
  book the venue showed and not refused for its fees where they are enforced; and fewer than the allowed
  number were open, if the count could be read.\<close>

theorem created_within_limits:
  assumes "helm_reaches (empty_db ok now session) db"
    and "create_intent a squadron side c db = (Some (Api_created r), db')"
  shows "find_intent (hi_id r) db = None \<and> find_intent (hi_id r) db' = Some r
    \<and> hi_status r = Proposed \<and> hi_first r = c \<and> hi_squadron_id r = squadron
    \<and> (\<exists>sq. helm_squadron a squadron = Inr sq) \<and> well_shaped side c
    \<and> (succeeds db \<longrightarrow> length (filter (\<lambda>r. \<not> is_terminal (hi_status r)) (db_intents db))
        < hl_max_open_intents (as_config a))
    \<and> (\<exists>b v. read_book a (db_now db) (hi_market_id r) side = Inr b \<and> validate_against_book (as_rnd a) c b = []
        \<and> fee_verdict_on (as_rnd a) (as_fee_rate a) c b (hb_take_profit_leg (as_build a))
            (hl_fee_max_ratio (as_config a)) (hl_fee_max_notional_pct (as_config a)) = Some v
        \<and> (hl_fee_verdict_enforce (as_config a) \<longrightarrow> fv_refusal v = None))"
proof -
  let ?market = "case as_market_of a squadron of None \<Rightarrow> [] | Some m \<Rightarrow> m"
  obtain sq where sq: "helm_squadron a squadron = Inr sq"
    using assms(2) helm_squadron_refusal by (fastforce simp: create_intent_def respond_def split: sum.splits)
  define new where "new = \<lparr>ni_squadron_id = squadron, ni_market_id = ?market, ni_market_name = sq_market_name sq,
    ni_side = side, ni_content = c, ni_ghost = as_ghost a squadron, ni_venue = as_venue a\<rparr>"
  have under: "fst (open_intents_total db) < hl_max_open_intents (as_config a)"
    using assms(2) sq by (auto simp: create_intent_def respond_def Let_def split_beta split: if_splits)
  obtain v where v: "judge a (db_now db) ?market side c = Some (Inr v)"
    and made: "(case create new (tick db) of (Inl _, db) \<Rightarrow> respond (Api_error 400) db
        | (Inr i, db) \<Rightarrow> created_response i (snd (set_fee_verdict i (fv_text v) db))) = (Some (Api_created r), db')"
    using assms(2) sq judge_refusal
    by (auto simp: create_intent_def respond_def panic_def Let_def split_beta open_intents_total_def query_or_def new_def
        split: if_splits option.splits sum.splits)
  then obtain i db1 where i: "create new (tick db) = (Inr i, db1)"
    and resp: "created_response i (snd (set_fee_verdict i (fv_text v) db1)) = (Some (Api_created r), db')"
    by (auto simp: respond_def split: prod.splits sum.splits)
  have ids: "ids_ok (tick db)" using fresh_id [OF assms(1)] by (simp add: ids_ok_def)
  have row: "find_intent i db1 = Some (new_row new (tick db))" "i = Suc (db_last_rowid db)" "well_shaped side c"
    using create_Inr [OF i] find_created [OF ids, of db1 new] by (auto simp: new_def)
  have r: "find_intent i (snd (set_fee_verdict i (fv_text v) db1)) = Some r"
    "find_intent i db' = Some r"
    using created_response_created [OF resp] by auto
  with find_fee_verdict [OF row(1), of i "fv_text v"] have
    "hi_status r = Proposed" "hi_first r = c" "hi_squadron_id r = squadron" "hi_market_id r = ?market" "hi_id r = i"
    by (auto simp: new_row_def new_def row(2))
  moreover have "find_intent i db = None" using fresh_unknown [OF ids, of i] row(2) by simp
  ultimately show ?thesis
    using r sq row(3) under judge_Inr [OF v] by (auto simp: open_intents_total_def query_or_def)
qed

text \<open>A stop that locks in a profit cannot be set.  A revision of an intent in flight whose stop lies at or
  above the price of the entry, but below the bid of the book, is refused as one that would fire at once, though at that bid
  it fires at no time.\<close>

theorem profit_lock_is_refused:
  assumes "find_intent i db = Some r" and "is_in_flight r" and "hi_entry_price r = Some p" and "0 < p"
    and "as_has_pool a" and "succeeds db" and "well_shaped (hi_side r) c"
    and "ic_stop_price c = Some s" and "\<not> ic_hold_to_settlement c" and "p \<le> s" and "p < 1"
    and "read_book a (db_now db) (hi_market_id r) (hi_side r) = Inr b" and "s < bf_bid b"
  shows "(\<exists>errs. fst (revise_intent a i reason c db) = Some (Api_refused (Book_errors errs))
      \<and> Stop_above_entry s p \<in> set errs)
    \<and> posture_action c avg (bf_bid b) t \<noteq> Posture_exit (Stop_hit bid s)"
proof -
  let ?errs = "validate_against_book (as_rnd a) (judged_content r c) (judged_book r b)"
  have "Stop_above_entry s p \<in> set ?errs"
    using assms by (simp add: validate_against_book_def judged_content_def judged_book_def price_rule_def entry_price_def
        stop_rule_def)
  moreover from this have "fst (revise_intent a i reason c db) = Some (Api_refused (Book_errors ?errs))"
    using assms by (auto simp: revise_intent_def with_intent_def get_def query_def revise_judged_def respond_def Let_def)
  moreover have "posture_action c avg (bf_bid b) t \<noteq> Posture_exit (Stop_hit bid s)"
    using assms by (auto simp: posture_action_def Let_def split: option.splits if_splits)
  ultimately show ?thesis by blast
qed

section \<open>A day of requests\<close>

definition sample_api :: api_state where
  "sample_api =
     \<lparr>as_squadron = (\<lambda>s. if s = ''helm-a''
        then Some \<lparr>sq_state = ''PATROLLING'', sq_market_class = ''HELM'', sq_asset = ''X'', sq_market_name = ''M''\<rparr> else None),
      as_stored_class = (\<lambda>_. None), as_market_of = (\<lambda>_. Some ''m''), as_has_pool = True, as_session = True,
      as_market_facts = (\<lambda>m. Inr (Some \<lparr>mf_market_id = m, mf_yes_token = ''up'', mf_no_token = ''down'', mf_close_time = None\<rparr>)),
      as_quote = (\<lambda>_. Inr (Some (58 / 100), Some (60 / 100))),
      as_config = \<lparr>hl_enabled = True, hl_live_enabled = True, hl_max_exposure_usdc = 50, hl_max_open_intents = 5,
        hl_fee_verdict_enforce = True, hl_fee_max_ratio = 2 / 5, hl_fee_max_notional_pct = 1 / 20,
        hl_entry_window_secs = 120, hl_min_secs_to_close = 300, hl_critique_timeout_secs = 60,
        hl_calibration_min_resolved = 30\<rparr>,
      as_ghost = (\<lambda>_. True), as_venue = ''intl'',
      as_build = \<lparr>hb_take_profit_leg = Leg_resting, hb_min_shares = 5, hb_text = (\<lambda>_. [])\<rparr>,
      as_rnd = id, as_fee_rate = 0, as_show_int = (\<lambda>_. [])\<rparr>"

definition sample_create :: "helm_db \<Rightarrow> api_response option \<times> helm_db" where
  "sample_create = create_intent sample_api ''helm-a'' ''yes'' sample_content"

definition sample_accept :: "helm_db \<Rightarrow> api_response option \<times> helm_db" where
  "sample_accept = acknowledge_intent sample_api 1 True"

definition sample_empty :: helm_db where
  "sample_empty = empty_db (\<lambda>_. True) 0 ''s''"

lemma sample_created:
  "(case fst (sample_create sample_empty) of Some (Api_created r) \<Rightarrow> hi_id r = 1 | _ \<Rightarrow> False)"
  "map_option hi_status (find_intent 1 (snd (sample_create sample_empty))) = Some Proposed"
  by code_simp+

lemma sample_accepted:
  "(case fst (sample_accept (snd (sample_create sample_empty))) of Some (Api_detail d) \<Rightarrow> True | _ \<Rightarrow> False)"
  "map_option hi_status (find_intent 1 (snd (sample_accept (snd (sample_create sample_empty))))) = Some Acknowledged"
  by code_simp+

lemma sample_db_runs:
  "helm_reaches sample_empty (snd (sample_create sample_empty))"
  "helm_reaches db (snd (sample_accept db))"
  unfolding sample_create_def sample_accept_def by (intro handler_runs [THEN runsD])+



lemma created_within_limits_witness:
  "\<exists>r. find_intent 1 (snd (sample_create sample_empty)) = Some r \<and> hi_status r = Proposed \<and> hi_first r = sample_content
     \<and> well_shaped ''yes'' sample_content"
proof -
  obtain r db' where r: "create_intent sample_api ''helm-a'' ''yes'' sample_content sample_empty = (Some (Api_created r), db')"
    "hi_id r = 1"
    using sample_created(1) by (auto simp: sample_create_def split: option.splits api_response.splits) (metis prod.collapse)
  have "helm_reaches (empty_db (\<lambda>_. True) 0 ''s'') sample_empty" by (simp add: sample_empty_def)
  from created_within_limits [OF this r(1)] r show ?thesis by (simp add: sample_create_def)
qed


lemma profit_lock_is_refused_witness:
  "\<exists>errs. fst (revise_intent (sample_api\<lparr>as_quote := (\<lambda>_. Inr (Some (80 / 100), Some (82 / 100)))\<rparr>) 1 ''lock''
       (sample_content\<lparr>ic_stop_price := Some (70 / 100)\<rparr>) sample_working) = Some (Api_refused (Book_errors errs))
     \<and> Stop_above_entry (70 / 100) (60 / 100) \<in> set errs"
proof -
  let ?a = "sample_api\<lparr>as_quote := (\<lambda>_. Inr (Some (80 / 100), Some (82 / 100)))\<rparr>"
  let ?c = "sample_content\<lparr>ic_stop_price := Some (70 / 100)\<rparr>"
  have row: "map_option hi_status (find_intent 1 sample_working) = Some Working" "succeeds sample_working"
    "map_option hi_entry_price (find_intent 1 sample_working) = Some (Some (60 / 100))"
    "map_option hi_side (find_intent 1 sample_working) = Some ''YES''"
    "map_option hi_market_id (find_intent 1 sample_working) = Some ''m''"
    "well_shaped ''YES'' ?c" "db_now sample_working = 0" "\<not> ic_hold_to_settlement ?c"
    by code_simp+
  have book: "\<exists>b. read_book ?a 0 ''m'' ''YES'' = Inr b \<and> bf_bid b = 80 / 100"
    by (simp add: read_book_def sample_api_def Let_def)
  obtain r where r: "find_intent 1 sample_working = Some r" using row(1) by auto
  show ?thesis
    using profit_lock_is_refused [of 1 sample_working r "60 / 100" ?a ?c "70 / 100" _ "''lock''"] r row book
    by (auto simp: is_in_flight_def) (simp add: sample_api_def)
qed

end
