(* ===== verification/Ghost_Bookings.thy ===== *)
theory Ghost_Bookings
  imports Ghost_Settlement "HOL-Library.Sublist"
begin

text \<open>
  What the settlement of simulated positions guarantees: the locale \<open>ledger_contract\<close> for what every statement
  keeps of the ledger, interpreted on the trades (only appended to) and on the rows of real positions
  (never touched); then what a pass drops, books and leaves, under failures and under interference.
\<close>

section \<open>Statements and awaits\<close>

lemma lg_tick_simps [simp]:
  "lg_trades (lg_tick db) = lg_trades db" "lg_rows (lg_tick db) = lg_rows db" "lg_session (lg_tick db) = lg_session db"
  "lg_now (lg_tick db) = lg_now db" "lg_ok (lg_tick db) = lg_ok db" "lg_calls (lg_tick db) = Suc (lg_calls db)"
  by (simp_all add: lg_tick_def)

lemma await_simps [simp]:
  "fst (await stmt w) = fst (stmt (gw_db w))"
  "gw_db (snd (await stmt w)) = snd (stmt (gw_db w))"
  "gw_positions (snd (await stmt w)) = gw_others w (gw_awaits w) (gw_positions w)"
  "gw_others (snd (await stmt w)) = gw_others w"
  "gw_gate (snd (await stmt w)) = gw_gate w" "gw_asked (snd (await stmt w)) = gw_asked w"
  by (simp_all add: await_def pause_def split_beta)

lemma pause_simps [simp]:
  "gw_db (pause w) = gw_db w" "gw_others (pause w) = gw_others w" "gw_gate (pause w) = gw_gate w"
  "gw_asked (pause w) = gw_asked w"
  by (simp_all add: pause_def)

lemma claims_simps [simp]:
  "fst (open_row_claims_token_in token db) =
     (if lg_succeeds db then Some (list_ex (\<lambda>r. ow_token_id r = token \<and> \<not> ow_ghost_mode r) (lg_rows db)) else None)"
  "snd (open_row_claims_token_in token db) = lg_tick db"
  by (simp_all add: open_row_claims_token_in_def)

lemma ghost_rows_db [simp]: "snd (ghost_open_rows squadron db) = lg_tick db"
  by (simp add: ghost_open_rows_def)

lemma settlement_entry_token [simp]:
  "te_token_id (settlement_entry v sc leg strategy market side a b c d e reason db) = map_option fst leg"
  by (simp add: settlement_entry_def)

lemma same_settlement_self:
  "same_settlement (Some (token, opened)) new new \<longleftrightarrow>
     te_token_id new = Some token \<or> (te_token_id new = None \<and> opened \<le> te_ts new)"
  by (simp add: same_settlement_def)

lemma record_on_books:
  assumes "fst (record_settlement_trade_for_token leg new db) \<noteq> Failed" and "same_settlement leg new new"
  shows "list_ex (same_settlement leg new) (lg_trades (snd (record_settlement_trade_for_token leg new db)))"
  using assms by (auto simp: record_settlement_trade_for_token_def split: if_splits)

section \<open>What every statement keeps\<close>

locale ledger_contract =
  fixes R :: "ledger \<Rightarrow> ledger \<Rightarrow> bool"
  assumes kept_refl: "R db db"
    and kept_trans: "R a b \<Longrightarrow> R b c \<Longrightarrow> R a c"
    and kept_tick: "R db (lg_tick db)"
    and kept_trade: "R db (db\<lparr>lg_trades := lg_trades db @ [t]\<rparr>)"
    and kept_delete: "(\<And>r. gone r \<Longrightarrow> ow_ghost_mode r) \<Longrightarrow> R db (db\<lparr>lg_rows := filter (\<lambda>r. \<not> gone r) (lg_rows db)\<rparr>)"
begin

lemma kept_record: "R db (snd (record_settlement_trade_for_token leg new db))"
  using kept_trans [OF kept_tick kept_trade [of "lg_tick db"]] kept_tick
  by (simp add: record_settlement_trade_for_token_def)

lemma kept_delete_rows:
  assumes "\<And>r. gone r \<Longrightarrow> ow_ghost_mode r"
  shows "R db (snd (delete_rows gone db))"
  using kept_trans [OF kept_tick kept_delete [OF assms, where db = "lg_tick db"]] kept_tick
  by (simp add: delete_rows_def)

lemma kept_closes:
  "R db (snd (close_ghost_open_position token db))"
  "R db (snd (close_ghost_open_position_for squadron strategy token db))"
  unfolding close_ghost_open_position_def close_ghost_open_position_for_def by (auto intro: kept_delete_rows)

lemma kept_stale: "R db (snd (close_stale_ghost_positions session db))"
  by (auto simp: close_stale_ghost_positions_def Let_def intro: kept_delete_rows)

lemma kept_book_removed: "R (gw_db w) (gw_db (snd (book_removed env asset mc yes px src kp w)))"
  using kept_record kept_trans [OF kept_record kept_closes(1)]
  by (simp add: book_removed_def split_beta Let_def)

lemma kept_book_one: "R (gw_db w) (gw_db (snd (book_one env asset mc yes prices kp w)))"
proof -
  let ?w = "snd (await (open_row_claims_token_in (k_market (fst kp))) w)"
  have 1: "R (gw_db w) (gw_db ?w)" by (simp add: kept_tick)
  have "R (gw_db w) (gw_db (snd (book_removed env asset mc yes px src kp (?w\<lparr>gw_positions := m\<rparr>))))" for px src m
    using kept_trans [OF 1] kept_book_removed [of "?w\<lparr>gw_positions := m\<rparr>"] by simp
  with 1 show ?thesis
    using kept_refl by (auto simp: book_one_def split_beta Let_def split: option.splits)
qed

lemma kept_pass: "R (gw_db w) (gw_db (snd (book_ghost_settlements env asset mc yes prices kps w)))"
proof (induction kps arbitrary: w)
  case (Cons kp kps)
  show ?case using kept_trans [OF kept_book_one Cons.IH] by (simp add: split_beta Let_def)
qed (simp add: kept_refl)

lemma kept_book_row: "R (gw_db w) (gw_db (snd (book_row env scope squadron r px w)))"
  using kept_record kept_trans [OF kept_record kept_closes(2)] by (simp add: book_row_def split_beta Let_def)

lemma kept_closed_hold: "R (gw_db w) (gw_db (snd (book_closed_hold env scope asset squadron r px w)))"
proof -
  let ?w = "snd (await (open_row_claims_token_in (gh_token_id r)) w)"
  have "R (gw_db w) (gw_db ?w)" by (simp add: kept_tick)
  from this kept_trans [OF this kept_pass] kept_trans [OF this kept_book_row] show ?thesis
    by (auto simp: book_closed_hold_def split_beta Let_def simp del: book_ghost_settlements.simps split: option.splits)
qed

lemma kept_probe: "R (gw_db w) (gw_db (snd (probe_hold env scope asset squadron r w)))"
  using kept_closed_hold [of "pause (w\<lparr>gw_asked := _\<rparr>)"] kept_refl
  by (auto simp: probe_hold_def back_off_def split_beta Let_def split: sum.splits token_resolution.splits)

lemma kept_hold_loop: "R (gw_db w) (gw_db (snd (hold_loop env scope asset squadron live rs probed w)))"
proof (induction rs arbitrary: probed w)
  case (Cons r rs)
  show ?case
    using kept_trans [OF kept_probe [of "w\<lparr>gw_gate := _\<rparr>", simplified] Cons.IH] Cons.IH [where w = w]
      Cons.IH [where w = "w\<lparr>gw_gate := _\<rparr>"] kept_refl
    by (simp add: split_beta Let_def)
qed (simp add: kept_refl)

lemma kept_sweep: "R (gw_db w) (gw_db (snd (settle_closed_ghost_holds env scope asset squadron live w)))"
  using kept_trans [OF kept_tick, of "gw_db w"] kept_hold_loop [of "snd (await (ghost_open_rows squadron) w)"] kept_tick
  by (auto simp: settle_closed_ghost_holds_def split_beta Let_def split: option.splits)

lemma kept_event:
  "R (gw_db w) (gw_db (snd (settle_ghost_event_positions env settled mark pool asset mc yes no secs w)))"
  using kept_pass [of "pause w"] kept_refl by (simp add: settle_ghost_event_positions_def Let_def)

end

definition appended :: "ledger \<Rightarrow> ledger \<Rightarrow> bool" where
  "appended db db' \<longleftrightarrow> prefix (lg_trades db) (lg_trades db')"

definition real_rows_kept :: "ledger \<Rightarrow> ledger \<Rightarrow> bool" where
  "real_rows_kept db db' \<longleftrightarrow>
     filter (\<lambda>r. \<not> ow_ghost_mode r) (lg_rows db') = filter (\<lambda>r. \<not> ow_ghost_mode r) (lg_rows db)
     \<and> lg_ok db' = lg_ok db \<and> lg_session db' = lg_session db \<and> lg_now db' = lg_now db"

interpretation appended: ledger_contract appended
  by unfold_locales (auto simp: appended_def)

interpretation real_rows: ledger_contract real_rows_kept
  by unfold_locales (auto simp: real_rows_kept_def intro!: filter_cong)

section \<open>One position\<close>

text \<open>No other task touches the map.\<close>

definition quiet :: "settle_world \<Rightarrow> bool" where
  "quiet w \<longleftrightarrow> (\<forall>n m. gw_others w n m = m)"

definition no_failures :: "ledger \<Rightarrow> bool" where
  "no_failures db \<longleftrightarrow> (\<forall>n. lg_ok db n)"

definition real_claim :: "string \<Rightarrow> ledger \<Rightarrow> bool" where
  "real_claim token db \<longleftrightarrow> (\<exists>r \<in> set (lg_rows db). ow_token_id r = token \<and> \<not> ow_ghost_mode r)"

lemma no_failures_succeeds [simp]: "no_failures db \<Longrightarrow> lg_succeeds db"
  by (simp add: no_failures_def lg_succeeds_def)

lemma no_failures_cong: "lg_ok db' = lg_ok db \<Longrightarrow> no_failures db' = no_failures db"
  by (simp add: no_failures_def)

lemma real_claim_kept: "real_rows_kept db db' \<Longrightarrow> real_claim token db' = real_claim token db"
  (is "_ \<Longrightarrow> ?claim")
proof -
  have "real_claim token d \<longleftrightarrow> (\<exists>r \<in> set (filter (\<lambda>r. \<not> ow_ghost_mode r) (lg_rows d)). ow_token_id r = token)" for d
    by (auto simp: real_claim_def)
  then show "real_rows_kept db db' \<Longrightarrow> ?claim" by (simp add: real_rows_kept_def del: set_filter)
qed

text \<open>A row of the trades that books the settlement of a position at a price.\<close>

definition books :: "settle_env \<Rightarrow> market_id \<Rightarrow> decimal \<Rightarrow> price_source \<Rightarrow> position_key \<Rightarrow> position \<Rightarrow> trade_entry \<Rightarrow> bool" where
  "books env yes px src k p t \<longleftrightarrow>
     te_strategy t = k_strategy k \<and> te_market t = p_market_name p \<and> te_side t = (if k_market k = yes then ''YES'' else ''NO'')
     \<and> te_shares t = p_shares p \<and> te_reason t = settlement_reason px src
     \<and> te_pnl t = (px - p_avg_entry p) * p_shares p - simulated_entry_fee env (k_strategy k) (p_avg_entry p) (p_shares p)
     \<and> (te_token_id t = Some (k_market k) \<or> te_token_id t = None \<and> p_opened_at p \<le> te_ts t)"

lemma same_settlement_books:
  "same_settlement (Some (k_market k, p_opened_at p)) (map_entry env asset mc yes px src (k, p) db) t
     \<longleftrightarrow> books env yes px src k p t"
  by (auto simp: same_settlement_def books_def map_entry_def settlement_entry_def Let_def)

lemma map_entry_books: "books env yes px src k p (map_entry env asset mc yes px src (k, p) db)"
  by (simp add: books_def map_entry_def settlement_entry_def Let_def)

lemma map_entry_ghost: "te_ghost (map_entry env asset mc yes px src kp db)"
  by (simp add: map_entry_def settlement_entry_def Let_def split_beta ghost_scope_def)

lemma record_trades:
  "lg_trades (snd (record_settlement_trade_for_token leg new db)) = lg_trades db
     @ (if lg_succeeds db \<and> \<not> list_ex (same_settlement leg new) (lg_trades db) then [new] else [])"
  "fst (record_settlement_trade_for_token leg new db) = Failed \<longleftrightarrow> \<not> lg_succeeds db"
  "lg_rows (snd (record_settlement_trade_for_token leg new db)) = lg_rows db"
  "lg_ok (snd (record_settlement_trade_for_token leg new db)) = lg_ok db"
  "lg_calls (snd (record_settlement_trade_for_token leg new db)) = Suc (lg_calls db)"
  by (simp_all add: record_settlement_trade_for_token_def)

lemma close_simps [simp]:
  "lg_trades (snd (delete_rows gone db)) = lg_trades db" "lg_ok (snd (delete_rows gone db)) = lg_ok db"
  "lg_rows (snd (delete_rows gone db)) = (if lg_succeeds db then filter (\<lambda>r. \<not> gone r) (lg_rows db) else lg_rows db)"
  "lg_calls (snd (delete_rows gone db)) = Suc (lg_calls db)"
  by (simp_all add: delete_rows_def)

lemma book_removed_trades:
  assumes "book_removed env asset mc yes px src (k, p) w = (b, w')"
  shows "b = lg_succeeds (gw_db w)" and "gw_others w' = gw_others w"
    and "\<exists>ts. lg_trades (gw_db w') = lg_trades (gw_db w) @ ts \<and> length ts \<le> of_bool b \<and> (\<forall>t \<in> set ts. te_ghost t \<and> books env yes px src k p t)"
    and "b \<Longrightarrow> \<exists>t \<in> set (lg_trades (gw_db w')). books env yes px src k p t"
    and "quiet w \<Longrightarrow> gw_positions w' = (if b then gw_positions w else or_insert k p (gw_positions w))"
proof -
  have leg: "same_settlement (Some (k_market k, p_opened_at p)) (map_entry env asset mc yes px src (k, p) db)
      = books env yes px src k p" for db
    by (rule ext) (rule same_settlement_books)
  note defs = book_removed_def close_ghost_open_position_def record_trades split_beta Let_def
  show "b = lg_succeeds (gw_db w)" and "gw_others w' = gw_others w"
    and "quiet w \<Longrightarrow> gw_positions w' = (if b then gw_positions w else or_insert k p (gw_positions w))"
    using assms by (auto simp: defs quiet_def split: if_splits)
  show "\<exists>ts. lg_trades (gw_db w') = lg_trades (gw_db w) @ ts \<and> length ts \<le> of_bool b \<and> (\<forall>t \<in> set ts. te_ghost t \<and> books env yes px src k p t)"
    using assms by (auto simp: defs leg map_entry_books map_entry_ghost split: if_splits)
  show "b \<Longrightarrow> \<exists>t \<in> set (lg_trades (gw_db w')). books env yes px src k p t"
    using assms map_entry_books [of env yes px src k p asset mc "gw_db w"]
    by (cases "list_ex (books env yes px src k p) (lg_trades (gw_db w))") (auto simp: defs leg list_ex_iff split: if_splits)
qed

lemma book_one_cases:
  assumes "book_one env asset mc yes prices (k, p) w = (b, w')"
  obtains (unpriced) "hm_get prices (k_market k) = None" "\<not> b" "w' = w"
  | (skipped) "\<not> b" "w' = snd (await (open_row_claims_token_in (k_market k)) w)"
  | (taken) px src cur where "hm_get prices (k_market k) = Some (px, src)" "lg_succeeds (gw_db w)"
      "\<not> real_claim (k_market k) (gw_db w)" "hm_get (gw_others w (gw_awaits w) (gw_positions w)) k = Some cur"
      "p_shares cur = p_shares p" "p_avg_entry cur = p_avg_entry p"
      "book_removed env asset mc yes px src (k, p) (snd (await (open_row_claims_token_in (k_market k)) w)
         \<lparr>gw_positions := hm_remove k (gw_others w (gw_awaits w) (gw_positions w))\<rparr>) = (b, w')"
proof (cases "hm_get prices (k_market k)")
  case None
  with assms unpriced show thesis by (simp add: book_one_def)
next
  case (Some v)
  then obtain px src where v: "hm_get prices (k_market k) = Some (px, src)" by (cases v) auto
  show thesis
  proof (cases "fst (open_row_claims_token_in (k_market k) (gw_db w)) = Some False \<and>
      (\<exists>cur. hm_get (gw_others w (gw_awaits w) (gw_positions w)) k = Some cur
        \<and> p_shares cur = p_shares p \<and> p_avg_entry cur = p_avg_entry p)")
    case True
    then show thesis
      using assms taken [OF v] by (auto simp: v book_one_def split_beta Let_def real_claim_def list_ex_iff split: if_splits)
  next
    case False
    then have "(b, w') = (False, snd (await (open_row_claims_token_in (k_market k)) w))"
      using assms by (auto simp: v book_one_def split_beta Let_def split: if_splits option.splits)
    then show thesis using skipped by simp
  qed
qed

text \<open>C20: Only what is still held is booked, whatever the other tasks do meanwhile and whichever statement fails.
  When a pass books a position, the database had said that no real position claims the token, the map,
  read after that answer, held the position with the size and the entry it was listed with, and the
  trades hold its settlement, marked as simulated.  When it does not book it, it adds no trade.\<close>

theorem only_what_is_still_held_is_booked:
  assumes "book_one env asset mc yes prices (k, p) w = (b, w')"
  shows "if b
    then lg_succeeds (gw_db w) \<and> \<not> real_claim (k_market k) (gw_db w)
      \<and> (\<exists>cur px src. hm_get (gw_others w (gw_awaits w) (gw_positions w)) k = Some cur \<and> p_shares cur = p_shares p
          \<and> p_avg_entry cur = p_avg_entry p \<and> hm_get prices (k_market k) = Some (px, src)
          \<and> (\<exists>t \<in> set (lg_trades (gw_db w')). books env yes px src k p t)
          \<and> (\<exists>ts. lg_trades (gw_db w') = lg_trades (gw_db w) @ ts \<and> length ts \<le> 1
              \<and> (\<forall>t \<in> set ts. te_ghost t \<and> books env yes px src k p t)))
    else lg_trades (gw_db w') = lg_trades (gw_db w)"
  using assms
proof (cases rule: book_one_cases)
  case (taken px src cur)
  note removed = book_removed_trades [OF taken(7)]
  from removed(3) obtain ts where ts: "lg_trades (gw_db w') = lg_trades (gw_db w) @ ts" "length ts \<le> of_bool b"
      "\<forall>t \<in> set ts. te_ghost t \<and> books env yes px src k p t" by auto
  show ?thesis
  proof (cases b)
    case True
    with taken(1-6) removed(4) ts show ?thesis by auto
  qed (use ts in simp)
qed simp_all

section \<open>A pass\<close>

text \<open>The settlement of a position at the price the venue stated for its token is on the books.\<close>

definition settled_at :: "settle_env \<Rightarrow> market_id \<Rightarrow> price_map \<Rightarrow> trade_entry list \<Rightarrow> position_key \<times> position \<Rightarrow> bool" where
  "settled_at env yes prices trades kp \<longleftrightarrow>
     (\<exists>px src. hm_get prices (k_market (fst kp)) = Some (px, src)
        \<and> (\<exists>t \<in> set trades. books env yes px src (fst kp) (snd kp) t))"

lemma settled_at_later: "settled_at env yes prices ts kp \<Longrightarrow> settled_at env yes prices (ts @ us) kp"
  by (auto simp: settled_at_def)

lemma book_one_quiet:
  assumes "book_one env asset mc yes prices (k, p) w = (b, w')" and "quiet w" and "hm_get (gw_positions w) k = Some p"
  shows "quiet w'"
    and "\<exists>ts. lg_trades (gw_db w') = lg_trades (gw_db w) @ ts \<and> length ts \<le> of_bool b"
    and "hm_get (gw_positions w') j = (if b \<and> j = k then None else hm_get (gw_positions w) j)"
    and "b \<Longrightarrow> settled_at env yes prices (lg_trades (gw_db w')) (k, p)"
    and "hm_wf (gw_positions w) \<Longrightarrow> hm_wf (gw_positions w')"
proof -
  have "(hm_wf (gw_positions w) \<longrightarrow> hm_wf (gw_positions w')) \<and> quiet w' \<and> (\<exists>ts. lg_trades (gw_db w') = lg_trades (gw_db w) @ ts \<and> length ts \<le> of_bool b)
    \<and> hm_get (gw_positions w') j = (if b \<and> j = k then None else hm_get (gw_positions w) j)
    \<and> (b \<longrightarrow> settled_at env yes prices (lg_trades (gw_db w')) (k, p))"
    using assms(1)
  proof (cases rule: book_one_cases)
    case skipped
    with assms(2) show ?thesis by (simp add: quiet_def)
  next
    case (taken px src cur)
    let ?w = "snd (await (open_row_claims_token_in (k_market k)) w)
         \<lparr>gw_positions := hm_remove k (gw_others w (gw_awaits w) (gw_positions w))\<rparr>"
    note removed = book_removed_trades [OF taken(7)]
    have q: "quiet ?w" using assms(2) by (simp add: quiet_def)
    have pos: "gw_positions w' = (if b then hm_remove k (gw_positions w) else or_insert k p (hm_remove k (gw_positions w)))"
      using removed(5) [OF q] assms(2) by (simp add: quiet_def)
    have "hm_get (gw_positions w') j = (if b \<and> j = k then None else hm_get (gw_positions w) j)"
      using assms(3) unfolding pos or_insert_def by auto
    moreover have "b \<Longrightarrow> settled_at env yes prices (lg_trades (gw_db w')) (k, p)"
      using removed(4) taken(1) by (auto simp: settled_at_def)
    moreover have "hm_wf (gw_positions w')" if "hm_wf (gw_positions w)"
      using that unfolding pos or_insert_def by auto
    ultimately show ?thesis using removed(2,3) q by (auto simp: quiet_def)
  qed (use assms(2) in simp)
  then show "quiet w'" "\<exists>ts. lg_trades (gw_db w') = lg_trades (gw_db w) @ ts \<and> length ts \<le> of_bool b"
    "hm_get (gw_positions w') j = (if b \<and> j = k then None else hm_get (gw_positions w) j)"
    "b \<Longrightarrow> settled_at env yes prices (lg_trades (gw_db w')) (k, p)"
    "hm_wf (gw_positions w) \<Longrightarrow> hm_wf (gw_positions w')" by auto
qed

lemma pass_quiet:
  assumes "book_ghost_settlements env asset mc yes prices kps w = (n, w')" and "quiet w"
    and "distinct (map fst kps)" and "\<forall>(k, p) \<in> set kps. hm_get (gw_positions w) k = Some p"
  shows "quiet w' \<and> (hm_wf (gw_positions w) \<longrightarrow> hm_wf (gw_positions w')) \<and> (\<exists>done. subseq done kps \<and> length done = n
    \<and> (\<exists>ts. lg_trades (gw_db w') = lg_trades (gw_db w) @ ts \<and> length ts \<le> n)
    \<and> (\<forall>j. hm_get (gw_positions w') j = (if j \<in> fst ` set done then None else hm_get (gw_positions w) j))
    \<and> (\<forall>kp \<in> set done. settled_at env yes prices (lg_trades (gw_db w')) kp))"
  using assms
proof (induction kps arbitrary: n w)
  case (Cons kp kps)
  obtain k p where kp: "kp = (k, p)" by fastforce
  obtain b w1 where 1: "book_one env asset mc yes prices (k, p) w = (b, w1)" by fastforce
  obtain m w2 where "book_ghost_settlements env asset mc yes prices kps w1 = (m, w2)" by fastforce
  with Cons.prems(1) 1 have m: "book_ghost_settlements env asset mc yes prices kps w1 = (m, w')"
    "n = (if b then Suc m else m)" by (auto simp: kp)
  note one = book_one_quiet [OF 1 Cons.prems(2)]
  have held: "hm_get (gw_positions w) k = Some p" using Cons.prems(4) by (simp add: kp)
  have "\<forall>(j, q) \<in> set kps. hm_get (gw_positions w1) j = Some q"
  proof (clarify)
    fix j q assume "(j, q) \<in> set kps"
    with Cons.prems(3,4) have "j \<noteq> k" "hm_get (gw_positions w) j = Some q" by (force simp: kp)+
    with one(3) [OF held, of j] show "hm_get (gw_positions w1) j = Some q" by simp
  qed
  from Cons.IH [OF m(1) one(1) [OF held] _ this] Cons.prems(3) obtain ds ts where
    ds: "quiet w'" "hm_wf (gw_positions w1) \<longrightarrow> hm_wf (gw_positions w')" "subseq ds kps" "length ds = m" "lg_trades (gw_db w') = lg_trades (gw_db w1) @ ts" "length ts \<le> m"
      "\<forall>j. hm_get (gw_positions w') j = (if j \<in> fst ` set ds then None else hm_get (gw_positions w1) j)"
      "\<forall>kp \<in> set ds. settled_at env yes prices (lg_trades (gw_db w')) kp"
    by auto
  from one(2) [OF held] obtain us where us: "lg_trades (gw_db w1) = lg_trades (gw_db w) @ us" "length us \<le> of_bool b"
    by blast
  let ?ds = "if b then (k, p) # ds else ds"
  have "subseq ?ds (kp # kps)" "length ?ds = n" using ds(3,4) m(2) by (auto simp: kp)
  moreover have "lg_trades (gw_db w') = lg_trades (gw_db w) @ (us @ ts)" "length (us @ ts) \<le> n"
    using ds(5,6) us m(2) by (auto split: if_splits)
  moreover have "\<forall>j. hm_get (gw_positions w') j = (if j \<in> fst ` set ?ds then None else hm_get (gw_positions w) j)"
    using ds(7) one(3) [OF held] by auto
  moreover have "\<forall>kp \<in> set ?ds. settled_at env yes prices (lg_trades (gw_db w')) kp"
    using ds(5,8) one(4) [OF held] settled_at_later by auto
  ultimately show ?case using ds(1,2) one(5) [OF held] by blast
qed auto

lemma candidates_held:
  assumes "hm_wf (gw_positions w)"
  shows "distinct (map fst (settlement_candidates (gw_positions w) yes no))"
    and "\<forall>(k, p) \<in> set (settlement_candidates (gw_positions w) yes no). hm_get (gw_positions w) k = Some p"
proof -
  show "distinct (map fst (settlement_candidates (gw_positions w) yes no))"
    using assms by (simp add: settlement_candidates_def hm_wf_def distinct_map_filter)
  show "\<forall>(k, p) \<in> set (settlement_candidates (gw_positions w) yes no). hm_get (gw_positions w) k = Some p"
    using assms by (auto simp: settlement_candidates_def hm_get_mem_iff)
qed

text \<open>C4: No simulated position is lost.  Whichever statements fail, a pass over an event whose result is stated
  drops from the map only positions on the event's two tokens whose fill was confirmed, as many as it
  reports, and the settlement of each is on the books; it leaves every other position as it was, adds at
  most one trade for each it drops, and changes no earlier trade.\<close>

theorem every_dropped_position_is_booked:
  assumes "settle_ghost_positions_at env asset mc yes no px w = (n, w')" and "quiet w" and "hm_wf (gw_positions w)"
  shows "\<exists>done. length done = n \<and> distinct (map fst done)
    \<and> (\<forall>j. hm_get (gw_positions w') j = (if j \<in> fst ` set done then None else hm_get (gw_positions w) j))
    \<and> (\<forall>(k, p) \<in> set done. hm_get (gw_positions w) k = Some p \<and> k_market k \<in> {yes, no} \<and> p_fill_confirmed_at p \<noteq> None
        \<and> settled_at env yes (resolution_prices yes no px) (lg_trades (gw_db w')) (k, p))
    \<and> (\<exists>ts. lg_trades (gw_db w') = lg_trades (gw_db w) @ ts \<and> length ts \<le> n)"
proof -
  let ?cs = "settlement_candidates (gw_positions w) yes no"
  note held = candidates_held [OF assms(3), of yes no]
  from pass_quiet [OF assms(1) [unfolded settle_ghost_positions_at_def] assms(2) held]
  obtain ds where ds: "subseq ds ?cs" "length ds = n"
      "\<exists>ts. lg_trades (gw_db w') = lg_trades (gw_db w) @ ts \<and> length ts \<le> n"
      "\<forall>j. hm_get (gw_positions w') j = (if j \<in> fst ` set ds then None else hm_get (gw_positions w) j)"
      "\<forall>kp \<in> set ds. settled_at env yes (resolution_prices yes no px) (lg_trades (gw_db w')) kp"
    by blast
  from ds(1) obtain N where N: "ds = nths ?cs N" by (auto simp: subseq_conv_nths)
  have sub: "set ds \<subseteq> set ?cs" unfolding N by (rule set_nths_subset)
  have "distinct (map fst ds)" using held(1) by (simp add: N flip: nths_map)
  moreover have "\<forall>(k, p) \<in> set ds. hm_get (gw_positions w) k = Some p \<and> k_market k \<in> {yes, no} \<and> p_fill_confirmed_at p \<noteq> None
        \<and> settled_at env yes (resolution_prices yes no px) (lg_trades (gw_db w')) (k, p)"
    using sub held(2) ds(5) by (fastforce simp: settlement_candidates_def)
  ultimately show ?thesis using ds(2-4) by blast
qed

section \<open>Nothing is left\<close>

lemma book_one_reliable:
  assumes "quiet w" and "no_failures (gw_db w)" and "hm_get prices (k_market k) = Some v"
    and "\<not> real_claim (k_market k) (gw_db w)" and "hm_get (gw_positions w) k = Some p"
  shows "fst (book_one env asset mc yes prices (k, p) w)"
    and "lg_rows (gw_db (snd (book_one env asset mc yes prices (k, p) w)))
      = filter (\<lambda>r. \<not> (ow_token_id r = k_market k \<and> ow_ghost_mode r)) (lg_rows (gw_db w))"
proof -
  let ?w = "snd (await (open_row_claims_token_in (k_market k)) w)\<lparr>gw_positions := hm_remove k (gw_positions w)\<rparr>"
  have claim: "fst (open_row_claims_token_in (k_market k) (gw_db w)) = Some False"
    using assms(2,4) by (simp add: real_claim_def list_ex_iff)
  have "gw_positions (snd (await stmt w)) = gw_positions w" for stmt :: "ledger \<Rightarrow> 'a \<times> ledger"
    using assms(1) by (simp add: quiet_def)
  then have one: "book_one env asset mc yes prices (k, p) w = book_removed env asset mc yes (fst v) (snd v) (k, p) ?w"
    using assms(1,3,5) claim unfolding book_one_def by (cases v) (simp add: split_beta Let_def quiet_def)
  have ok: "lg_succeeds (lg_tick (gw_db w))" "lg_succeeds d" if "lg_ok d = lg_ok (gw_db w)" for d
    using assms(2) that by (simp_all add: no_failures_def lg_succeeds_def)
  show "fst (book_one env asset mc yes prices (k, p) w)"
    using ok(1) by (simp add: one book_removed_def split_beta Let_def record_trades)
  show "lg_rows (gw_db (snd (book_one env asset mc yes prices (k, p) w)))
      = filter (\<lambda>r. \<not> (ow_token_id r = k_market k \<and> ow_ghost_mode r)) (lg_rows (gw_db w))"
    using ok by (simp add: one book_removed_def close_ghost_open_position_def split_beta Let_def record_trades)
qed

lemma pass_reliable:
  assumes "quiet w" and "no_failures (gw_db w)" and "distinct (map fst kps)"
    and "\<forall>(k, p) \<in> set kps. hm_get (gw_positions w) k = Some p \<and> hm_get prices (k_market k) \<noteq> None
      \<and> \<not> real_claim (k_market k) (gw_db w)"
  shows "fst (book_ghost_settlements env asset mc yes prices kps w) = length kps"
    and "lg_rows (gw_db (snd (book_ghost_settlements env asset mc yes prices kps w)))
      = filter (\<lambda>r. \<not> (ow_token_id r \<in> (k_market \<circ> fst) ` set kps \<and> ow_ghost_mode r)) (lg_rows (gw_db w))"
proof -
  have "fst (book_ghost_settlements env asset mc yes prices kps w) = length kps
    \<and> lg_rows (gw_db (snd (book_ghost_settlements env asset mc yes prices kps w)))
      = filter (\<lambda>r. \<not> (ow_token_id r \<in> (k_market \<circ> fst) ` set kps \<and> ow_ghost_mode r)) (lg_rows (gw_db w))"
    using assms
  proof (induction kps arbitrary: w)
    case (Cons kp kps)
    obtain k p where kp: "kp = (k, p)" by fastforce
    let ?w = "snd (book_one env asset mc yes prices (k, p) w)"
    obtain v where v: "hm_get prices (k_market k) = Some v" "\<not> real_claim (k_market k) (gw_db w)"
        "hm_get (gw_positions w) k = Some p"
      using Cons.prems(4) by (auto simp: kp)
    note here = book_one_reliable [OF Cons.prems(1,2) v]
    note one = book_one_quiet [OF surjective_pairing Cons.prems(1) v(3), where env = env and asset = asset and mc = mc
        and yes = yes and prices = prices]
    have kept: "real_rows_kept (gw_db w) (gw_db ?w)" by (rule real_rows.kept_book_one)
    have "no_failures (gw_db ?w)"
      using Cons.prems(2) kept no_failures_cong [of "gw_db ?w" "gw_db w"] by (simp add: real_rows_kept_def)
    moreover have "\<forall>(j, q) \<in> set kps. hm_get (gw_positions ?w) j = Some q \<and> hm_get prices (k_market j) \<noteq> None
        \<and> \<not> real_claim (k_market j) (gw_db ?w)"
    proof (clarify)
      fix j q assume "(j, q) \<in> set kps"
      with Cons.prems(3,4) have "j \<noteq> k" "hm_get (gw_positions w) j = Some q \<and> hm_get prices (k_market j) \<noteq> None
          \<and> \<not> real_claim (k_market j) (gw_db w)" by (force simp: kp)+
      with one(3) [of j] real_claim_kept [OF kept] show "hm_get (gw_positions ?w) j = Some q
          \<and> hm_get prices (k_market j) \<noteq> None \<and> \<not> real_claim (k_market j) (gw_db ?w)" by simp
    qed
    ultimately show ?case
      using Cons.IH [of ?w] Cons.prems(3) one(1) here
      by (auto simp: kp split_beta Let_def intro!: filter_cong)
  qed simp
  then show "fst (book_ghost_settlements env asset mc yes prices kps w) = length kps"
    "lg_rows (gw_db (snd (book_ghost_settlements env asset mc yes prices kps w)))
      = filter (\<lambda>r. \<not> (ow_token_id r \<in> (k_market \<circ> fst) ` set kps \<and> ow_ghost_mode r)) (lg_rows (gw_db w))" by auto
qed

lemma resolution_prices_get:
  "t \<in> {yes, no} \<Longrightarrow> hm_get (resolution_prices yes no px) t \<noteq> None"
  by (auto simp: resolution_prices_def)


section \<open>The sweep of closed holds\<close>

lemma asked_kept [simp]:
  "gw_asked (snd (book_removed env asset mc yes px src kp w)) = gw_asked w"
  "gw_asked (snd (book_one env asset mc yes prices kp w)) = gw_asked w"
  "gw_asked (snd (book_row env scope squadron r px' w)) = gw_asked w"
proof -
  show removed: "gw_asked (snd (book_removed env asset mc yes px src kp w)) = gw_asked w" for px src w
    by (simp add: book_removed_def split_beta Let_def)
  show "gw_asked (snd (book_one env asset mc yes prices kp w)) = gw_asked w"
    using removed by (auto simp: book_one_def split_beta Let_def split: option.splits)
  show "gw_asked (snd (book_row env scope squadron r px' w)) = gw_asked w"
    by (simp add: book_row_def split_beta Let_def)
qed

lemma asked_closed_hold [simp]: "gw_asked (snd (book_closed_hold env scope asset squadron r px w)) = gw_asked w"
  by (auto simp: book_closed_hold_def split_beta Let_def split: option.splits)

lemma asked_probe: "gw_asked (snd (probe_hold env scope asset squadron r w)) = gw_asked w @ [gh_token_id r]"
  by (auto simp: probe_hold_def back_off_def split_beta Let_def split: sum.splits token_resolution.splits)

definition sweeps :: "market_id list \<Rightarrow> ghost_hold_row \<Rightarrow> bool" where
  "sweeps live r \<longleftrightarrow> 0 < gh_shares r \<and> gh_token_id r \<notin> set live \<and> gh_strategy r \<noteq> anchor_strategy_name"

lemma hold_loop_asks:
  assumes "hold_loop env scope asset squadron live rs probed w = (n, w')" and "probed \<le> closed_hold_probes_per_pass"
  shows "\<exists>asked. gw_asked w' = gw_asked w @ map gh_token_id asked \<and> length asked \<le> closed_hold_probes_per_pass - probed
    \<and> n \<le> length asked \<and> set asked \<subseteq> {r \<in> set rs. sweeps live r}"
  using assms
proof (induction rs arbitrary: n probed w)
  case (Cons r rs)
  let ?gate = "should_probe_at (gw_gate w) (gh_token_id r) (se_instant env)"
  let ?w = "w\<lparr>gw_gate := snd ?gate\<rparr>"
  show ?case
  proof (cases "sweeps live r \<and> fst ?gate \<and> probed \<noteq> closed_hold_probes_per_pass")
    case True
    let ?w1 = "snd (probe_hold env scope asset squadron r ?w)"
    obtain m w2 where m: "hold_loop env scope asset squadron live rs (Suc probed) ?w1 = (m, w2)" by fastforce
    then have split: "w2 = w'" "n \<le> Suc m"
      using Cons.prems(1) True by (auto simp: sweeps_def split_beta Let_def not_le split: if_splits)
    from Cons.IH [OF m [unfolded split(1)]] True Cons.prems(2) obtain asked where
      "gw_asked w' = gw_asked ?w1 @ map gh_token_id asked" "length asked \<le> closed_hold_probes_per_pass - Suc probed"
      "m \<le> length asked" "set asked \<subseteq> {r \<in> set rs. sweeps live r}" by auto
    with split True Cons.prems(2) show ?thesis by (intro exI [of _ "r # asked"]) (auto simp: asked_probe)
  next
    case False
    then consider "n = 0" "gw_asked w' = gw_asked w"
      | "hold_loop env scope asset squadron live rs probed w = (n, w')"
      | "hold_loop env scope asset squadron live rs probed ?w = (n, w')"
      using Cons.prems(1) by (auto simp: sweeps_def split_beta Let_def not_less split: if_splits)
    then show ?thesis
    proof cases
      case 2
      from Cons.IH [OF this Cons.prems(2)] show ?thesis by auto
    next
      case 3
      from Cons.IH [OF this Cons.prems(2)] show ?thesis by auto
    qed (auto intro: exI [of _ "[]"])
  qed
qed auto

lemma mem_map_filter: "h \<in> set (List.map_filter f xs) \<longleftrightarrow> (\<exists>x \<in> set xs. f x = Some h)"
  by (force simp: map_filter_def)

lemma ghost_rows_rows:
  assumes "fst (ghost_open_rows squadron db) = Some rs" and "h \<in> set rs"
  shows "\<exists>r \<in> set (lg_rows db). ghost_hold_of r = Some h \<and> ow_token_id r = gh_token_id h \<and> ow_strategy r = gh_strategy h
    \<and> ow_ghost_mode r \<and> ow_squadron_id r = squadron \<and> ow_session_id r = Some (lg_session db) \<and> is_confirmed_row r"
proof -
  obtain r where "r \<in> set (lg_rows db)" "ghost_hold_of r = Some h" "ow_ghost_mode r" "ow_squadron_id r = squadron"
    "ow_session_id r = Some (lg_session db)" "is_confirmed_row r"
    using assms by (auto simp: ghost_open_rows_def mem_map_filter split: if_splits)
  then show ?thesis by (intro bexI [of _ r]) (auto simp: ghost_hold_of_def split: option.splits)
qed

text \<open>What a sweep asks the venue is bounded.  Whatever the database answers and the other tasks do, one pass
  asks about at most eight tokens, settles no more holds than it asked about, and asks only for a
  confirmed simulated row of its own squadron and session that still has shares, is not a leg the
  loop trades and is not Anchor's.\<close>

theorem sweep_asks_within_budget:
  assumes "settle_closed_ghost_holds env scope asset squadron live w = (n, w')"
  shows "\<exists>asked. gw_asked w' = gw_asked w @ asked \<and> length asked \<le> 8 \<and> n \<le> length asked
    \<and> (\<forall>t \<in> set asked. t \<notin> set live \<and> (\<exists>r \<in> set (lg_rows (gw_db w)). ow_token_id r = t \<and> ow_ghost_mode r
        \<and> ow_squadron_id r = squadron \<and> ow_session_id r = Some (lg_session (gw_db w)) \<and> is_confirmed_row r
        \<and> ow_strategy r \<noteq> anchor_strategy_name \<and> (\<exists>s. ow_shares r = Some s \<and> 0 < s)))"
proof (cases "fst (ghost_open_rows squadron (gw_db w))")
  case None
  with assms show ?thesis by (auto simp: settle_closed_ghost_holds_def split_beta Let_def)
next
  case (Some rs)
  then have "hold_loop env scope asset squadron live rs 0 (snd (await (ghost_open_rows squadron) w)) = (n, w')"
    using assms by (simp add: settle_closed_ghost_holds_def split_beta Let_def)
  from hold_loop_asks [OF this] obtain asked where asked:
    "gw_asked w' = gw_asked w @ map gh_token_id asked" "length asked \<le> 8" "n \<le> length asked"
    "set asked \<subseteq> {r \<in> set rs. sweeps live r}" by (auto simp: closed_hold_probes_per_pass_def)
  have "gh_token_id h \<notin> set live \<and> (\<exists>r \<in> set (lg_rows (gw_db w)). ow_token_id r = gh_token_id h \<and> ow_ghost_mode r
        \<and> ow_squadron_id r = squadron \<and> ow_session_id r = Some (lg_session (gw_db w)) \<and> is_confirmed_row r
        \<and> ow_strategy r \<noteq> anchor_strategy_name \<and> (\<exists>s. ow_shares r = Some s \<and> 0 < s))" if "h \<in> set asked" for h
  proof -
    have h: "h \<in> set rs" "sweeps live h" using asked(4) that by auto
    from ghost_rows_rows [OF Some h(1)] obtain r where r: "r \<in> set (lg_rows (gw_db w))" "ghost_hold_of r = Some h"
      "ow_token_id r = gh_token_id h" "ow_strategy r = gh_strategy h" "ow_ghost_mode r" "ow_squadron_id r = squadron"
      "ow_session_id r = Some (lg_session (gw_db w))" "is_confirmed_row r" by blast
    moreover have "ow_shares r = Some (gh_shares h)"
      using r(2) by (auto simp: ghost_hold_of_def split: option.splits)
    ultimately show ?thesis using h(2) unfolding sweeps_def by auto
  qed
  with asked(1-3) show ?thesis by (intro exI [of _ "map gh_token_id asked"]) auto
qed

section \<open>Two ways to book one hold\<close>

text \<open>The row of the open positions says of a hold what the position map says.\<close>

definition describes :: "ghost_hold_row \<Rightarrow> market_id \<Rightarrow> position_key \<Rightarrow> position \<Rightarrow> bool" where
  "describes r yes k p \<longleftrightarrow>
     gh_strategy r = k_strategy k \<and> gh_token_id r = k_market k \<and> gh_market r = p_market_name p
     \<and> gh_side r = (if k_market k = yes then ''YES'' else ''NO'') \<and> gh_entry_price r = p_avg_entry p
     \<and> gh_shares r = p_shares p \<and> gh_opened_at r = p_opened_at p"

text \<open>C40: The booking from the row and the booking from the map recognize each other's trade, so that a hold
  met by both is booked once, exactly when the row carries no fee of its own or the simulated one.\<close>

theorem bookings_agree_iff_fees_do:
  assumes "describes r yes k p"
  shows "(\<forall>t. same_settlement (Some (gh_token_id r, gh_opened_at r)) (row_entry env scope r px db) t
      \<longleftrightarrow> same_settlement (Some (k_market k, p_opened_at p)) (map_entry env asset mc yes px (source_of px) (k, p) db') t)
    \<longleftrightarrow> gh_entry_fee r \<in> {None, Some (simulated_entry_fee env (k_strategy k) (p_avg_entry p) (p_shares p))}"
proof -
  let ?fee = "case gh_entry_fee r of Some f \<Rightarrow> f | None \<Rightarrow> simulated_entry_fee env (gh_strategy r) (gh_entry_price r) (gh_shares r)"
  have row: "same_settlement (Some (gh_token_id r, gh_opened_at r)) (row_entry env scope r px db) t \<longleftrightarrow>
      te_strategy t = k_strategy k \<and> te_market t = p_market_name p \<and> te_side t = (if k_market k = yes then ''YES'' else ''NO'')
      \<and> te_shares t = p_shares p \<and> te_reason t = settlement_reason px (source_of px)
      \<and> te_pnl t = (px - p_avg_entry p) * p_shares p - ?fee
      \<and> (te_token_id t = Some (k_market k) \<or> te_token_id t = None \<and> p_opened_at p \<le> te_ts t)" for t
    using assms by (auto simp: same_settlement_def row_entry_def settlement_entry_def describes_def Let_def)
  show ?thesis
  proof (cases "?fee = simulated_entry_fee env (k_strategy k) (p_avg_entry p) (p_shares p)")
    case True
    have "same_settlement (Some (gh_token_id r, gh_opened_at r)) (row_entry env scope r px db) t
        \<longleftrightarrow> same_settlement (Some (k_market k, p_opened_at p)) (map_entry env asset mc yes px (source_of px) (k, p) db') t" for t
      unfolding row same_settlement_books books_def True by auto
    moreover have "gh_entry_fee r \<in> {None, Some (simulated_entry_fee env (k_strategy k) (p_avg_entry p) (p_shares p))}"
      using True assms by (auto simp: describes_def split: option.splits)
    ultimately show ?thesis by blast
  next
    case False
    let ?t = "map_entry env asset mc yes px (source_of px) (k, p) db'"
    have "books env yes px (source_of px) k p ?t" by (rule map_entry_books)
    with False have "\<not> same_settlement (Some (gh_token_id r, gh_opened_at r)) (row_entry env scope r px db) ?t"
      unfolding row books_def by simp
    with \<open>books env yes px (source_of px) k p ?t\<close> False show ?thesis
      using assms by (auto simp: same_settlement_books describes_def split: option.splits)
  qed
qed

section \<open>Where a hold is lost or booked twice\<close>

lemma claim_free: "lg_succeeds db \<Longrightarrow> \<not> real_claim token db \<Longrightarrow> fst (open_row_claims_token_in token db) = Some False"
  by (simp add: real_claim_def list_ex_iff)

lemma quiet_map [simp]: "quiet w \<Longrightarrow> gw_others w n m = m"
  by (simp add: quiet_def)

text \<open>A hold still in the map asks twice whether a real row claims its token.\<close>

definition after_claims :: "string \<Rightarrow> settle_world \<Rightarrow> settle_world" where
  "after_claims token w = snd (await (open_row_claims_token_in token) (snd (await (open_row_claims_token_in token) w)))"

lemma after_claims_simps [simp]:
  "gw_db (after_claims token w) = lg_tick (lg_tick (gw_db w))" "gw_others (after_claims token w) = gw_others w"
  "quiet (after_claims token w) = quiet w"
  by (simp_all add: after_claims_def quiet_def)

lemma closed_hold_in_map:
  assumes "quiet w" and "lg_ok (gw_db w) (lg_calls (gw_db w))" and "lg_ok (gw_db w) (Suc (lg_calls (gw_db w)))"
    and "\<not> real_claim (gh_token_id r) (gw_db w)"
    and "k = position_key_new squadron (gh_strategy r) (gh_token_id r)"
    and "hm_get (gw_positions w) k = Some p" and "0 < p_shares p"
    and "yes = (if to_ascii_uppercase (gh_side r) = ''YES'' then gh_token_id r else [])"
  shows "book_closed_hold env scope asset squadron r px w =
    book_removed env asset (ts_market_class scope) yes px (source_of px) (k, p)
      (after_claims (gh_token_id r) w\<lparr>gw_positions := hm_remove k (gw_positions w)\<rparr>)"
proof -
  let ?w = "snd (await (open_row_claims_token_in (gh_token_id r)) w)"
  have k: "k_market k = gh_token_id r" by (simp add: assms(5) position_key_new_def)
  have 1: "fst (open_row_claims_token_in (gh_token_id r) (gw_db w)) = Some False"
    using assms(2,4) by (intro claim_free) (simp_all add: lg_succeeds_def)
  have 2: "fst (open_row_claims_token_in (gh_token_id r) (lg_tick (gw_db w))) = Some False"
    using assms(3,4) by (intro claim_free) (simp_all add: lg_succeeds_def real_claim_def)
  have q: "quiet ?w" using assms(1) by (simp add: quiet_def)
  have one: "book_one env asset (ts_market_class scope) yes (hm_insert (gh_token_id r) (px, source_of px) []) (k, p) ?w
      = book_removed env asset (ts_market_class scope) yes px (source_of px) (k, p)
          (after_claims (gh_token_id r) w\<lparr>gw_positions := hm_remove k (gw_positions w)\<rparr>)"
    using 2 assms(1,6) q unfolding after_claims_def
    by (simp add: book_one_def k split_beta Let_def del: claims_simps(1))
  show ?thesis
    using 1 assms(1,6,7) one
    by (simp add: book_closed_hold_def split_beta Let_def prod_eq_iff flip: assms(5,8) del: claims_simps(1))
qed

lemma book_row_quiet:
  assumes "quiet w" and "lg_ok (gw_db w) (lg_calls (gw_db w))" and "lg_ok (gw_db w) (Suc (lg_calls (gw_db w)))"
    and "\<not> real_claim (gh_token_id r) (gw_db w)"
    and "hm_get (gw_positions w) (position_key_new squadron (gh_strategy r) (gh_token_id r)) = None"
  shows "book_closed_hold env scope asset squadron r px w
      = book_row env scope squadron r px (snd (await (open_row_claims_token_in (gh_token_id r)) w))"
proof -
  have "fst (open_row_claims_token_in (gh_token_id r) (gw_db w)) = Some False"
    using assms(2,4) by (intro claim_free) (simp_all add: lg_succeeds_def)
  with assms(1,5) show ?thesis by (simp add: book_closed_hold_def split_beta Let_def del: claims_simps(1))
qed

lemma book_removed_new:
  assumes "book_removed env asset mc yes px src (k, p) w = (b, w')" and "quiet w" and "lg_ok (gw_db w) (lg_calls (gw_db w))"
    and "\<not> list_ex (same_settlement (Some (k_market k, p_opened_at p)) (map_entry env asset mc yes px src (k, p) (gw_db w)))
      (lg_trades (gw_db w))"
  shows "b" and "quiet w'" and "gw_positions w' = gw_positions w" and "lg_ok (gw_db w') = lg_ok (gw_db w)"
    and "lg_trades (gw_db w') = lg_trades (gw_db w) @ [map_entry env asset mc yes px src (k, p) (gw_db w)]"
    and "lg_rows (gw_db w') = (if lg_ok (gw_db w) (Suc (lg_calls (gw_db w)))
       then filter (\<lambda>r. \<not> (ow_token_id r = k_market k \<and> ow_ghost_mode r)) (lg_rows (gw_db w)) else lg_rows (gw_db w))"
    and "lg_calls (gw_db w') = Suc (Suc (lg_calls (gw_db w)))"
proof -
  let ?w = "snd (await (\<lambda>db. record_settlement_trade_for_token (Some (k_market k, p_opened_at p))
     (map_entry env asset mc yes px src (k, p) db) db) w)"
  have ok: "lg_succeeds (gw_db w)" using assms(3) by (simp add: lg_succeeds_def)
  have b: "b" and w': "w' = snd (await (close_ghost_open_position (k_market k)) ?w)"
    using assms(1) ok by (auto simp: book_removed_def split_beta Let_def record_trades split: if_splits)
  show b by (rule b)
  show "quiet w'" "gw_positions w' = gw_positions w" using assms(2) by (simp_all add: w' quiet_def)
  show "lg_ok (gw_db w') = lg_ok (gw_db w)" "lg_calls (gw_db w') = Suc (Suc (lg_calls (gw_db w)))"
    by (simp_all add: w' close_ghost_open_position_def record_trades)
  show "lg_trades (gw_db w') = lg_trades (gw_db w) @ [map_entry env asset mc yes px src (k, p) (gw_db w)]"
    using ok assms(4) by (simp add: w' close_ghost_open_position_def record_trades)
  show "lg_rows (gw_db w') = (if lg_ok (gw_db w) (Suc (lg_calls (gw_db w)))
       then filter (\<lambda>r. \<not> (ow_token_id r = k_market k \<and> ow_ghost_mode r)) (lg_rows (gw_db w)) else lg_rows (gw_db w))"
    by (simp add: w' close_ghost_open_position_def record_trades lg_succeeds_def)
qed

lemma book_row_new:
  assumes "book_row env scope squadron r px w = (b, w')" and "lg_ok (gw_db w) (lg_calls (gw_db w))"
    and "\<not> list_ex (same_settlement (Some (gh_token_id r, gh_opened_at r)) (row_entry env scope r px (gw_db w)))
      (lg_trades (gw_db w))"
  shows "b" and "lg_trades (gw_db w') = lg_trades (gw_db w) @ [row_entry env scope r px (gw_db w)]"
proof -
  have ok: "lg_succeeds (gw_db w)" using assms(2) by (simp add: lg_succeeds_def)
  have "b \<and> w' = snd (await (close_ghost_open_position_for squadron (gh_strategy r) (gh_token_id r))
      (snd (await (\<lambda>db. record_settlement_trade_for_token (Some (gh_token_id r, gh_opened_at r)) (row_entry env scope r px db) db) w)))"
    using assms(1) ok by (auto simp: book_row_def split_beta Let_def record_trades split: if_splits)
  then show "b" "lg_trades (gw_db w') = lg_trades (gw_db w) @ [row_entry env scope r px (gw_db w)]"
    using ok assms(3) by (simp_all add: close_ghost_open_position_for_def record_trades)
qed

text \<open>C37: Settling a hold the map still has takes other holds' rows.  It books the one hold, under its strategy, and
  deletes the simulated rows of every strategy and squadron on the token: a hold of another strategy is not
  booked by it, and no sweep of its squadron finds its row again.\<close>

theorem map_settlement_takes_other_rows:
  assumes "quiet w" and "no_failures (gw_db w)" and "\<not> real_claim (gh_token_id r) (gw_db w)"
    and "hm_get (gw_positions w) (position_key_new squadron (gh_strategy r) (gh_token_id r)) = Some p" and "0 < p_shares p"
    and "book_closed_hold env scope asset squadron r px w = (b, w')"
    and "other \<in> set (lg_rows (gw_db w))" and "ow_ghost_mode other" and "ow_token_id other = gh_token_id r"
    and "ow_strategy other \<noteq> gh_strategy r"
  shows "b \<and> other \<notin> set (lg_rows (gw_db w'))
    \<and> (\<exists>ts. lg_trades (gw_db w') = lg_trades (gw_db w) @ ts \<and> (\<forall>t \<in> set ts. te_strategy t \<noteq> ow_strategy other))
    \<and> (\<forall>rs. fst (ghost_open_rows (ow_squadron_id other) (gw_db w')) = Some rs \<longrightarrow>
        (\<forall>h \<in> set rs. gh_token_id h \<noteq> ow_token_id other))"
proof -
  define k where "k = position_key_new squadron (gh_strategy r) (gh_token_id r)"
  define yes where "yes = (if to_ascii_uppercase (gh_side r) = ''YES'' then gh_token_id r else [])"
  let ?w = "after_claims (gh_token_id r) w\<lparr>gw_positions := hm_remove k (gw_positions w)\<rparr>"
  have k: "k_market k = gh_token_id r" "k_strategy k = gh_strategy r" by (simp_all add: k_def position_key_new_def)
  have ok: "lg_ok (gw_db w) n" for n using assms(2) by (simp add: no_failures_def)
  have run: "book_removed env asset (ts_market_class scope) yes px (source_of px) (k, p) ?w = (b, w')"
    using closed_hold_in_map [OF assms(1) ok ok assms(3) k_def assms(4) [folded k_def] assms(5) yes_def, where env = env
        and scope = scope and asset = asset and px = px] assms(6) by simp
  have succ: "lg_succeeds d" if "lg_ok d = lg_ok (gw_db w)" for d using that ok by (simp add: lg_succeeds_def)
  have rows: "lg_rows (gw_db w') = filter (\<lambda>r'. \<not> (ow_token_id r' = gh_token_id r \<and> ow_ghost_mode r')) (lg_rows (gw_db w))"
    using run succ by (auto simp: book_removed_def close_ghost_open_position_def split_beta Let_def record_trades k)
  have b: b using book_removed_trades(1) [OF run] succ by simp
  obtain ts where ts: "lg_trades (gw_db w') = lg_trades (gw_db w) @ ts" "\<forall>t \<in> set ts. books env yes px (source_of px) k p t"
    using book_removed_trades(3) [OF run] by auto
  have "\<forall>t \<in> set ts. te_strategy t \<noteq> ow_strategy other" using ts(2) assms(10) k(2) by (auto simp: books_def)
  moreover have "gh_token_id h \<noteq> ow_token_id other"
    if "fst (ghost_open_rows (ow_squadron_id other) (gw_db w')) = Some rs" "h \<in> set rs" for rs h
    using ghost_rows_rows [OF that] assms(9) by (auto simp: rows)
  ultimately show ?thesis using b ts(1) rows assms(8,9) by auto
qed

text \<open>C36: A close that fails books a hold twice.  The settlement from the map is written and the delete of the row
  fails; the row then books the same hold again on the next sweep, when the fee it carries is not the one
  the first booking charged: two trades for one token, strategy and size.\<close>

theorem failed_close_books_twice:
  assumes "quiet w" and "\<not> real_claim (gh_token_id r) (gw_db w)" and "k = position_key_new squadron (gh_strategy r) (gh_token_id r)"
    and "hm_get (gw_positions w) k = Some p" and "0 < p_shares p" and "gh_shares r = p_shares p"
    and "gh_entry_price r = p_avg_entry p"
    and "gh_entry_fee r = Some f" and "f \<noteq> simulated_entry_fee env (gh_strategy r) (p_avg_entry p) (p_shares p)"
    and "\<forall>t \<in> set (lg_trades (gw_db w)). te_strategy t \<noteq> gh_strategy r"
    and "\<forall>n. lg_ok (gw_db w) n \<longleftrightarrow> n \<noteq> lg_calls (gw_db w) + 3"
    and "book_closed_hold env scope asset squadron r px w = (b1, w1)"
    and "book_closed_hold env scope asset squadron r px w1 = (b2, w2)"
  shows "b1 \<and> b2 \<and> lg_rows (gw_db w1) = lg_rows (gw_db w) \<and> hm_get (gw_positions w1) k = None
    \<and> (\<exists>t1 t2. lg_trades (gw_db w2) = lg_trades (gw_db w) @ [t1, t2] \<and> te_pnl t1 \<noteq> te_pnl t2
        \<and> te_token_id t1 = Some (gh_token_id r) \<and> te_token_id t2 = Some (gh_token_id r)
        \<and> te_strategy t1 = te_strategy t2 \<and> te_shares t1 = te_shares t2 \<and> te_exit_price t1 = te_exit_price t2)"
proof -
  define yes where "yes = (if to_ascii_uppercase (gh_side r) = ''YES'' then gh_token_id r else [])"
  let ?w = "after_claims (gh_token_id r) w\<lparr>gw_positions := hm_remove k (gw_positions w)\<rparr>"
  let ?t1 = "map_entry env asset (ts_market_class scope) yes px (source_of px) (k, p) (lg_tick (lg_tick (gw_db w)))"
  have k: "k_market k = gh_token_id r" "k_strategy k = gh_strategy r" by (simp_all add: assms(3) position_key_new_def)
  have run: "book_removed env asset (ts_market_class scope) yes px (source_of px) (k, p) ?w = (b1, w1)"
    using closed_hold_in_map [OF assms(1) _ _ assms(2,3,4,5) yes_def, where env = env
        and scope = scope and asset = asset and px = px] assms(11,12) by simp
  have new1: "\<not> list_ex (same_settlement (Some (gh_token_id r, p_opened_at p)) ?t1) (lg_trades (gw_db w))"
    using assms(10) k(2) by (auto simp: list_ex_iff same_settlement_def map_entry_def settlement_entry_def Let_def)
  have calls: "lg_ok (gw_db ?w) (lg_calls (gw_db ?w))" "\<not> lg_ok (gw_db ?w) (Suc (lg_calls (gw_db ?w)))" "quiet ?w"
    using assms(1,11) by (simp_all add: quiet_def)
  note one = book_removed_new [OF run calls(3,1)]
  have first: "b1" "lg_trades (gw_db w1) = lg_trades (gw_db w) @ [?t1]" "lg_rows (gw_db w1) = lg_rows (gw_db w)"
    "lg_ok (gw_db w1) = lg_ok (gw_db w)" "lg_calls (gw_db w1) = lg_calls (gw_db w) + 4"
    "gw_positions w1 = hm_remove k (gw_positions w)" "quiet w1"
    using one new1 calls(2) by (simp_all add: k(1))
  have gone: "hm_get (gw_positions w1) k = None" by (simp add: first(6))
  have free1: "\<not> real_claim (gh_token_id r) (gw_db w1)" using assms(2) by (simp add: real_claim_def first(3))
  have again: "book_row env scope squadron r px (snd (await (open_row_claims_token_in (gh_token_id r)) w1)) = (b2, w2)"
    using book_row_quiet [OF first(7) _ _ free1 gone [unfolded assms(3)], where env = env and scope = scope and px = px]
      assms(11,13) first(4,5) by simp
  let ?t2 = "row_entry env scope r px (lg_tick (gw_db w1))"
  have t1: "te_strategy ?t1 = gh_strategy r" "te_token_id ?t1 = Some (gh_token_id r)" "te_shares ?t1 = p_shares p"
    "te_exit_price ?t1 = px"
    "te_pnl ?t1 = (px - p_avg_entry p) * p_shares p - simulated_entry_fee env (gh_strategy r) (p_avg_entry p) (p_shares p)"
    by (simp_all add: map_entry_def settlement_entry_def Let_def k)
  have t2: "te_strategy ?t2 = gh_strategy r" "te_token_id ?t2 = Some (gh_token_id r)" "te_shares ?t2 = p_shares p"
    "te_exit_price ?t2 = px" "te_pnl ?t2 = (px - p_avg_entry p) * p_shares p - f"
    using assms(6-8) by (simp_all add: row_entry_def settlement_entry_def Let_def)
  have pnl: "te_pnl ?t1 \<noteq> te_pnl ?t2" using assms(9) by (simp add: t1(5) t2(5))
  have new2: "\<not> list_ex (same_settlement (Some (gh_token_id r, gh_opened_at r)) ?t2) (lg_trades (gw_db w) @ [?t1])"
    using assms(10) pnl t2(1) by (auto simp: list_ex_iff same_settlement_def)
  have second: "b2" "lg_trades (gw_db w2) = lg_trades (gw_db w) @ [?t1, ?t2]"
    using book_row_new [OF again] new2 assms(11) first(2,4,5) by simp_all
  have "te_token_id ?t1 = Some (gh_token_id r) \<and> te_token_id ?t2 = Some (gh_token_id r)
      \<and> te_strategy ?t1 = te_strategy ?t2 \<and> te_shares ?t1 = te_shares ?t2 \<and> te_exit_price ?t1 = te_exit_price ?t2"
    by (simp add: t1 t2)
  with first(1,3) gone second pnl show ?thesis by blast
qed

section \<open>A settled market\<close>

definition settle_sample_env :: settle_env where
  "settle_sample_env = \<lparr>se_fee_rate = 0, se_basis_as_maker = True, se_venue_of = (\<lambda>_. Some ''kalshi''),
     se_resolution = (\<lambda>_. Inr (Resolved 1)), se_instant = 0\<rparr>"

definition settle_sample_key :: position_key where
  "settle_sample_key = position_key_new ''btc-hourly'' ''FairValueStrategy'' ''up''"

definition settle_sample_position :: position where
  "settle_sample_position =
     \<lparr>p_shares = 10, p_avg_entry = 3 / 5, p_opened_at = 0, p_close_time = None, p_market_name = ''M'', p_pair_token_id = ''down'',
      p_fill_confirmed_at = Some 0, p_paired_leg_token_id = None, p_entry_fee = 1 / 10\<rparr>"

definition settle_sample_row :: "string \<Rightarrow> open_row" where
  "settle_sample_row strategy =
     \<lparr>ow_strategy = strategy, ow_token_id = ''up'', ow_market = ''M'', ow_side = ''YES'', ow_entry_price = Some (3 / 5),
      ow_shares = Some 10, ow_entry_fee = Some (1 / 10), ow_ts = Some 0, ow_ghost_mode = True,
      ow_squadron_id = ''btc-hourly'', ow_session_id = Some ''s'', ow_status = Some ''confirmed''\<rparr>"

definition settle_sample_hold :: ghost_hold_row where
  "settle_sample_hold =
     \<lparr>gh_strategy = ''FairValueStrategy'', gh_token_id = ''up'', gh_market = ''M'', gh_side = ''YES'', gh_entry_price = 3 / 5,
      gh_shares = 10, gh_entry_fee = Some (1 / 10), gh_opened_at = 0\<rparr>"

definition settle_sample :: "(nat \<Rightarrow> bool) \<Rightarrow> settle_world" where
  "settle_sample ok =
     \<lparr>gw_positions = [(settle_sample_key, settle_sample_position)], gw_gate = [],
      gw_db = \<lparr>lg_trades = [], lg_rows = [settle_sample_row ''FairValueStrategy'', settle_sample_row ''MomentumStrategy''],
        lg_session = ''s'', lg_now = 5, lg_ok = ok, lg_calls = 0\<rparr>,
      gw_asked = [], gw_others = (\<lambda>_ m. m), gw_awaits = 0\<rparr>"

lemma settle_sample_simps [simp]:
  "quiet (settle_sample ok)" "hm_wf (gw_positions (settle_sample ok))"
  "no_failures (gw_db (settle_sample (\<lambda>_. True)))" "\<not> real_claim token (gw_db (settle_sample ok))"
  "hm_get (gw_positions (settle_sample ok)) settle_sample_key = Some settle_sample_position"
  "lg_trades (gw_db (settle_sample ok)) = []" "lg_ok (gw_db (settle_sample ok)) = ok" "lg_calls (gw_db (settle_sample ok)) = 0"
  by (simp_all add: settle_sample_def quiet_def hm_wf_def no_failures_def real_claim_def settle_sample_row_def)

lemma only_what_is_still_held_is_booked_witness:
  "\<not> fst (book_one settle_sample_env ''btc'' None ''up'' (resolution_prices ''up'' ''down'' 1)
       (settle_sample_key, settle_sample_position) (settle_sample (\<lambda>_. True)\<lparr>gw_others := \<lambda>_ _. []\<rparr>))
   \<and> lg_trades (gw_db (snd (book_one settle_sample_env ''btc'' None ''up'' (resolution_prices ''up'' ''down'' 1)
       (settle_sample_key, settle_sample_position) (settle_sample (\<lambda>_. True)\<lparr>gw_others := \<lambda>_ _. []\<rparr>)))) = []"
proof -
  let ?w = "settle_sample (\<lambda>_. True)\<lparr>gw_others := \<lambda>_ _. []\<rparr>"
  obtain b w' where run: "book_one settle_sample_env ''btc'' None ''up'' (resolution_prices ''up'' ''down'' 1)
      (settle_sample_key, settle_sample_position) ?w = (b, w')" by fastforce
  have "hm_get (gw_others ?w (gw_awaits ?w) (gw_positions ?w)) settle_sample_key = None" by simp
  with only_what_is_still_held_is_booked [OF run] show ?thesis by (simp add: run split: if_splits)
qed

lemma every_dropped_position_is_booked_witness:
  "\<exists>w'. settle_ghost_positions_at settle_sample_env ''btc'' None ''up'' ''down'' 1 (settle_sample (\<lambda>n. n \<noteq> 1)) = (0, w')
     \<and> hm_get (gw_positions w') settle_sample_key = Some settle_sample_position \<and> lg_trades (gw_db w') = []"
proof -
  have n: "fst (settle_ghost_positions_at settle_sample_env ''btc'' None ''up'' ''down'' 1 (settle_sample (\<lambda>n. n \<noteq> 1))) = 0"
    by code_simp
  then obtain w' where run: "settle_ghost_positions_at settle_sample_env ''btc'' None ''up'' ''down'' 1 (settle_sample (\<lambda>n. n \<noteq> 1)) = (0, w')"
    by (metis prod.collapse)
  show ?thesis using every_dropped_position_is_booked [OF run] run by auto
qed


lemma sweep_asks_within_budget_witness:
  "\<exists>w'. settle_closed_ghost_holds settle_sample_env (scope_new ''btc'' [] None None) ''btc'' ''btc-hourly'' [] (settle_sample (\<lambda>_. True)) = (2, w')
     \<and> length (gw_asked w') \<le> 8"
proof -
  have n: "fst (settle_closed_ghost_holds settle_sample_env (scope_new ''btc'' [] None None) ''btc'' ''btc-hourly'' []
      (settle_sample (\<lambda>_. True))) = 2" by code_simp
  then obtain w' where run: "settle_closed_ghost_holds settle_sample_env (scope_new ''btc'' [] None None) ''btc'' ''btc-hourly'' []
      (settle_sample (\<lambda>_. True)) = (2, w')" by (metis prod.collapse)
  have "gw_asked (settle_sample (\<lambda>_. True)) = []" by (simp add: settle_sample_def)
  with sweep_asks_within_budget [OF run] run show ?thesis by auto
qed

lemma sample_described: "describes settle_sample_hold ''up'' settle_sample_key settle_sample_position"
  by (simp add: describes_def settle_sample_hold_def settle_sample_key_def settle_sample_position_def position_key_new_def)

lemma bookings_agree_iff_fees_do_witness:
  "\<exists>t. same_settlement (Some (''up'', 0)) (row_entry settle_sample_env (scope_new ''btc'' [] None None) settle_sample_hold 1
        (gw_db (settle_sample (\<lambda>_. True)))) t
     \<noteq> same_settlement (Some (''up'', 0)) (map_entry settle_sample_env ''btc'' None ''up'' 1 (source_of 1)
        (settle_sample_key, settle_sample_position) (gw_db (settle_sample (\<lambda>_. True)))) t"
proof -
  have "gh_entry_fee settle_sample_hold \<notin> {None, Some (simulated_entry_fee settle_sample_env (k_strategy settle_sample_key)
      (p_avg_entry settle_sample_position) (p_shares settle_sample_position))}" by code_simp
  moreover have "gh_token_id settle_sample_hold = ''up''" "gh_opened_at settle_sample_hold = 0"
    "k_market settle_sample_key = ''up''" "p_opened_at settle_sample_position = 0"
    by (simp_all add: settle_sample_hold_def settle_sample_key_def settle_sample_position_def position_key_new_def)
  ultimately show ?thesis using bookings_agree_iff_fees_do [OF sample_described] by metis
qed

lemma sample_hold_simps [simp]:
  "gh_token_id settle_sample_hold = ''up''" "gh_strategy settle_sample_hold = ''FairValueStrategy''"
  "gh_shares settle_sample_hold = 10" "gh_entry_price settle_sample_hold = 3 / 5" "gh_entry_fee settle_sample_hold = Some (1 / 10)"
  "p_shares settle_sample_position = 10" "p_avg_entry settle_sample_position = 3 / 5"
  by (simp_all add: settle_sample_hold_def settle_sample_position_def)

lemma map_settlement_takes_other_rows_witness:
  "settle_sample_row ''MomentumStrategy'' \<in> set (lg_rows (gw_db (settle_sample (\<lambda>_. True))))
   \<and> settle_sample_row ''MomentumStrategy'' \<notin> set (lg_rows (gw_db (snd (book_closed_hold settle_sample_env
       (scope_new ''btc'' [] None None) ''btc'' ''btc-hourly'' settle_sample_hold 1 (settle_sample (\<lambda>_. True))))))"
proof -
  have row: "settle_sample_row ''MomentumStrategy'' \<in> set (lg_rows (gw_db (settle_sample (\<lambda>_. True))))"
    by (simp add: settle_sample_def)
  obtain b w' where run: "book_closed_hold settle_sample_env (scope_new ''btc'' [] None None) ''btc'' ''btc-hourly''
      settle_sample_hold 1 (settle_sample (\<lambda>_. True)) = (b, w')" by fastforce
  show ?thesis
    using map_settlement_takes_other_rows [OF _ _ _ _ _ run row, of settle_sample_position] row run
    by (simp add: settle_sample_row_def flip: settle_sample_key_def)
qed

lemma failed_close_books_twice_witness:
  "\<exists>t1 t2. lg_trades (gw_db (snd (book_closed_hold settle_sample_env (scope_new ''btc'' [] None None) ''btc'' ''btc-hourly''
      settle_sample_hold 1 (snd (book_closed_hold settle_sample_env (scope_new ''btc'' [] None None) ''btc'' ''btc-hourly''
        settle_sample_hold 1 (settle_sample (\<lambda>n. n \<noteq> 3))))))) = [t1, t2] \<and> te_pnl t1 \<noteq> te_pnl t2"
proof -
  let ?book = "book_closed_hold settle_sample_env (scope_new ''btc'' [] None None) ''btc'' ''btc-hourly'' settle_sample_hold 1"
  obtain b1 w1 where 1: "?book (settle_sample (\<lambda>n. n \<noteq> 3)) = (b1, w1)" by fastforce
  obtain b2 w2 where 2: "?book w1 = (b2, w2)" by fastforce
  have fee: "simulated_entry_fee settle_sample_env ''FairValueStrategy'' (3 / 5) 10 = 0" by code_simp
  show ?thesis
    using failed_close_books_twice [OF _ _ _ _ _ _ _ _ _ _ _ 1 2, of settle_sample_key settle_sample_position "1 / 10"] 1 2 fee
    by (auto simp: settle_sample_key_def [symmetric])
qed

end
