(* ===== verification/Spec2Isabelle.thy ===== *)
theory Spec2Isabelle
  imports Prelude Venue_Core Probe_Gate Trading_State Order_Lifecycle Lifecycle_Reconcile Lifecycle_Contracts Lifecycle_Properties Lifecycle_Repair Local_Book Ghost_Quotes Book_Feed Viper_Status Fees Strategy_Context Risk_Gates Autoscale Strategy_Executor Arbitrage Time_Decay Basis Trend_Reversal Trend_Properties Convergence Convergence_Properties Config_Properties Watchdog Collateral_Sweep Retirement Script_Manifest Script_Store Registry Helm_Content Helm_Intents Helm_Contracts Helm_History Helm_Posture Helm_Viper Helm_Safety Helm_Api Helm_Engine Ghost_Settlement Ghost_Bookings
begin

text \<open>
  DRADIS is a trading engine for binary prediction markets.  A venue (Kalshi, Polymarket US or
  Polymarket international) is reached through one execution contract; for every market or asset
  class it trades, the engine runs a squadron: a patrol loop that keeps the order books, asks the
  strategies (the vipers) for signals on every tick, places and cancels orders through the order
  lifecycle, and stands down when the market is over.  Around the squadrons run housekeeping tasks,
  a watchdog, a store of operator scripts and an interface for the operator.

  The development is a shallow embedding: a struct is a record, an enum a datatype, a function of
  the program a definition of the same name, an effect an explicit value passed in and returned,
  an error a value of a sum or option type.  External calls (the venue, the chain, the file system,
  the clock, the database engine) are arguments of the definitions that use them.  All file names below
  are relative to \<open>src/src\<close> of the repository.

  How the parts interact.  A tick of a squadron evaluates its strategies (\<open>Strategy_Executor\<close>) in a
  context (\<open>Strategy_Context\<close>) built from the books (\<open>Local_Book\<close>, \<open>Trading_State\<close>) and the positions.
  A strategy answers with entries and exits; it consults the risk gates (\<open>Risk_Gates\<close>), the fee
  arithmetic (\<open>Fees\<close>), the sizing record (\<open>Autoscale\<close>) and leaves the reason of a refusal in the status
  registry (\<open>Viper_Status\<close>).  The patrol turns the signals into orders through \<open>Order_Lifecycle\<close>, whose
  guards protect what is in flight; \<open>Lifecycle_Reconcile\<close> compares them with the venue.  Paper orders
  rest in \<open>Ghost_Quotes\<close> instead.  \<open>Registry\<close> decides which strategies a loop runs and attaches operator
  scripts (\<open>Script_Manifest\<close>, \<open>Script_Store\<close>) while it runs; \<open>Retirement\<close> decides when it stops.

  Foundations.
    \<^item> \<open>Prelude\<close>: exact decimals, clocks, hash maps as association lists with the locale \<open>keyed_store\<close>,
      ordered maps with \<open>ordered_store\<close>, generic lemmas.
    \<^item> \<open>Venue_Core\<close> (\<open>venues/core.rs\<close>): order vocabulary, books, the execution contract as a record of
      functions on an arbitrary world, mirrored legs, partial exits, the starting-collateral loop.
    \<^item> \<open>Trading_State\<close> and \<open>Book_Feed\<close> (\<open>state.rs\<close>): market configuration, phases (instantiated as a
      \<open>linorder\<close>), price states, the watch on silent books, the state map of the squadrons.
    \<^item> \<open>Probe_Gate\<close> (\<open>venues/core.rs\<close>): back-off of unanswered settlement probes on 64-bit words.

  Orders.
    \<^item> \<open>Order_Lifecycle\<close>, \<open>Lifecycle_Reconcile\<close> (\<open>venues/lifecycle.rs\<close>): every operation on the guard map
      and the tracked quotes, and the reconcile pass with its repair of naked paired legs.
    \<^item> \<open>Lifecycle_Contracts\<close>: the locales \<open>settling_contract\<close> and \<open>reconcile_contract\<close>, interpreted on four
      relations (confirmed guards kept, no new guard, own squadron only, well-formed maps).
      \<open>Lifecycle_Properties\<close> and \<open>Lifecycle_Repair\<close> derive what cancelling, settling and repairing may
      and may not touch, and that it ends.
    \<^item> \<open>Local_Book\<close> (\<open>squadron/local_book.rs\<close>): the book kept from snapshots and deltas, with its
      refinement to a function from prices to sizes, and the holds that hide an unproven book.
    \<^item> \<open>Ghost_Quotes\<close> (\<open>helpers/ghost_quotes.rs\<close>): paper resting orders.

  Strategies.
    \<^item> \<open>Fees\<close> (\<open>helpers/price.rs\<close>, \<open>venues/mod.rs\<close>), \<open>Viper_Status\<close> (\<open>helpers/viper_status.rs\<close>),
      \<open>Strategy_Context\<close> (\<open>orchestrator/strategy.rs\<close>), \<open>Risk_Gates\<close> and \<open>Viper_Common\<close> (\<open>vipers/mod.rs\<close>),
      \<open>Autoscale\<close> (\<open>helpers/autoscale.rs\<close>), \<open>Strategy_Executor\<close> (\<open>orchestrator/executor.rs\<close>).
    \<^item> \<open>Arbitrage\<close>, \<open>Time_Decay\<close>, \<open>Basis\<close> (\<open>vipers/arbitrage_impl.rs\<close>, \<open>time_decay_impl.rs\<close>,
      \<open>basis_impl.rs\<close>): \<open>evaluate_entry\<close> and \<open>evaluate_exit\<close> with every gate in the order of the code.
    \<^item> \<open>Trend_Reversal\<close> (\<open>vipers/trendreversal_impl.rs\<close>, \<open>recent_stop_loss_exists\<close> of \<open>helpers/db.rs\<close>): both modes,
      the cascade guard over the trades table, cooldowns and the tally of losses.  \<open>Trend_Properties\<close>: what an entry
      and an exit went through, the floor nothing hides, the cooldown that outlives a restart.
    \<^item> \<open>Convergence\<close> (\<open>vipers/convergence_impl.rs\<close>): the agreement of feeds, its persistence, stops from the bid at
      entry, resting asks in turn.  \<open>Convergence_Properties\<close>: an invariant of the streak over every run, the exits,
      the profit of a target after fees, the turns of the asks alone and next to another loop.

  Operator intents (Helm).  The operator states a conviction with the posture that exits it; the engine
  enters it, holds it to the posture and keeps the record.
    \<^item> \<open>Helm_Content\<close> (\<open>helpers/helm.rs\<close>): the statuses and their machine (the path relation \<open>moves\<close>), the
      shape check, the validator against a book, the fee verdict.
    \<^item> \<open>Helm_Intents\<close> (\<open>helpers/helm.rs\<close>): the tables and every write and read, one statement at a time; whether
      the n-th statement succeeds is a function in the state, so every theorem covers every pattern
      of failures.
    \<^item> \<open>Helm_Contracts\<close>, \<open>Helm_History\<close>: the locale \<open>intent_contract\<close> (a relation every statement keeps is kept
      by every operation and every run), interpreted on the growth of the rows, and \<open>row_contract\<close>, a
      sublocale user of it, interpreted on four properties of a row and its history: well shaped,
      numbered without a gap, explained by its events, and fully explained when nothing fails.
    \<^item> \<open>Helm_Posture\<close>, \<open>Helm_Viper\<close>, \<open>Helm_Safety\<close> (\<open>vipers/helm_impl.rs\<close>): the entry plan, the exit posture, the
      reconciliation, the strategy's three entry points, and what an order of theirs guarantees.
    \<^item> \<open>Helm_Api\<close>, \<open>Helm_Engine\<close> (\<open>api/helm.rs\<close>): the operator's requests with their status codes, and every
      interleaving of requests, ticks and failures.

  Housekeeping.
    \<^item> \<open>Watchdog\<close> (\<open>helpers/watchdog.rs\<close>, \<open>main.rs\<close>), \<open>Collateral_Sweep\<close> (\<open>tasks/collateral_sweep.rs\<close>),
      \<open>Retirement\<close> (\<open>squadron/game_over.rs\<close>, \<open>squadron/patrol_impl.rs\<close>).
    \<^item> \<open>Script_Manifest\<close>, \<open>Script_Store\<close> (\<open>vipers/scripted/manifest.rs\<close>, \<open>store.rs\<close>): what a script may
      declare, and the running set across saves, deletes, failed writes and restarts.
    \<^item> \<open>Registry\<close> (\<open>orchestrator/registry.rs\<close>, \<open>vipers/scripted/store.rs\<close>): the table of strategies, one
      per kind, and the attachment of scripts to running loops.
    \<^item> \<open>Ghost_Settlement\<close> (\<open>helpers/ghost_settlement.rs\<close>, the statements of \<open>helpers/db.rs\<close> it books through, its
      caller in \<open>tasks/cleanup.rs\<close>): simulated positions booked when the venue states the result, from the map or
      from the row a closed loop left.  Any statement may fail, and at every await other tasks may change the map.
      \<open>Ghost_Bookings\<close>: the locale \<open>ledger_contract\<close>, interpreted on the trades and on the rows of real positions;
      nothing dropped unbooked, nothing booked that is no longer held, nothing left once no statement fails.

    \<^item> \<open>Config_Store\<close> (\<open>helpers/dynamic_config.rs\<close>, its rows in \<open>helpers/db.rs\<close>, \<open>patch_config\<close> and
      \<open>patch_squadron_config\<close> of \<open>api/server.rs\<close>): the global settings, the rows and live handles of the squadrons, and
      every way a patch or a load changes them; any statement may fail.  A knob nothing here computes with is kept as JSON.
      \<open>Config_Properties\<close>: what a patch sets, the ceilings, an invariant over every run of deployments and patches
      (what trades is what a restart would load, and no squadron ghosts alone), and what a failed or overlapping request loses.
  Bounds and fuel.  \<open>starting_collateral\<close> loops until the venue answers or the task is cancelled, so it
  takes fuel, one unit per attempt; \<open>starting_collateral_returns\<close> shows that any fuel above the count
  of attempts left before one of the two happens gives the result.  The watchdog, the retirement
  clocks and the sweep are step functions or step relations, with invariants over every run.  All
  other loops of the program that are modelled run over a list and are structural.

  Numbers.  A decimal of the program is the rational it denotes and its rounding operations are
  arguments; counters whose wrap-around matters are machine words.  Statements about an iteration
  over a hash map hold for every order of it.

  Not modelled.  The database (\<open>helpers/db.rs\<close>) is SQL text over an external engine: rows are inputs of
  the model, except the tables of the intents and those
  the simulated settlement writes, which are lists of rows changed by their statements.  The venue clients (\<open>venues/kalshi\<close>, \<open>venues/us\<close>, \<open>venues/intl\<close>), feeds (\<open>raptors\<close>) and the
  request handlers of \<open>api\<close> other than those of the intents are network input and output behind the contracts above.  The pricing and
  learning strategies (\<open>vipers/fairvalue_impl.rs\<close>, \<open>gboost_*.rs\<close>, \<open>momentum_impl.rs\<close>, \<open>anchor_impl.rs\<close>)
  compute with floating-point statistics; they are an argument of the executor.  The patrol loop is
  task spawning and channels over the modelled parts.  Log lines are left out except where a
  throttle of the program guards them.
\<close>

end
